(* ===== verification/Prelude.thy ===== *)
theory Prelude
  imports Main "HOL-Library.Char_ord" "HOL-Library.List_Lexorder" "HOL-Library.Word"
begin

text \<open>
  Shared vocabulary of the development: Rust string operations on UTF-8 byte strings,
  the association lists that stand for the code's maps, list positions, saturating
  machine integers, durations, and three interfaces (locales) that several components
  share: an equivalence that identifies entries, a key/value store, and a step function
  that keeps an invariant.

  A Rust \<open>&str\<close> is the list of its UTF-8 bytes, so \<open>length\<close> is \<open>str::len\<close> and the
  ASCII-only operations of the code act byte by byte. The operations that look at
  code points (whitespace, \<open>chars().count()\<close>) decode the bytes explicitly.
\<close>

named_theorems str_simps \<open>characterisations of the string operations\<close>
named_theorems store_simps \<open>lookups after updates of the association-list stores\<close>

type_synonym bytes = "8 word list"

subsection \<open>Prefixes, suffixes, substrings\<close>

fun strip_prefix :: "string \<Rightarrow> string \<Rightarrow> string option" where
  "strip_prefix [] s = Some s"
| "strip_prefix (c # p) [] = None"
| "strip_prefix (c # p) (d # s) = (if c = d then strip_prefix p s else None)"

definition starts_with :: "string \<Rightarrow> string \<Rightarrow> bool" where
  "starts_with s p \<longleftrightarrow> strip_prefix p s \<noteq> None"

definition ends_with :: "string \<Rightarrow> string \<Rightarrow> bool" where
  "ends_with s p \<longleftrightarrow> starts_with (rev s) (rev p)"

fun find_sub :: "string \<Rightarrow> string \<Rightarrow> nat option" where
  "find_sub [] p = (if p = [] then Some 0 else None)"
| "find_sub (c # s) p =
     (if starts_with (c # s) p then Some 0 else map_option Suc (find_sub s p))"

definition contains :: "string \<Rightarrow> string \<Rightarrow> bool" where
  "contains s p \<longleftrightarrow> find_sub s p \<noteq> None"

lemma strip_prefix_Some [str_simps]: "strip_prefix p s = Some r \<longleftrightarrow> s = p @ r"
  by (induction p s rule: strip_prefix.induct) auto

lemma strip_prefix_append [simp]: "strip_prefix p (p @ r) = Some r"
  by (simp add: str_simps)

lemma starts_with_iff [str_simps]: "starts_with s p \<longleftrightarrow> (\<exists>r. s = p @ r)"
  by (auto simp: starts_with_def strip_prefix_Some)

lemma ends_with_iff [str_simps]: "ends_with s p \<longleftrightarrow> (\<exists>r. s = r @ p)"
proof -
  have "(\<exists>r. rev s = rev p @ r) \<longleftrightarrow> (\<exists>r. s = r @ p)"
    by (metis rev_append rev_rev_ident)
  then show ?thesis by (simp add: ends_with_def starts_with_iff)
qed

lemma find_sub_Some: "find_sub s p = Some i \<Longrightarrow> \<exists>a b. s = a @ p @ b \<and> length a = i"
proof (induction s arbitrary: i)
  case Nil
  then show ?case by (auto split: if_splits)
next
  case (Cons c s)
  show ?case
  proof (cases "starts_with (c # s) p")
    case True
    with Cons.prems show ?thesis by (auto simp: starts_with_iff)
  next
    case False
    with Cons.prems obtain j where j: "find_sub s p = Some j" and i: "i = Suc j" by auto
    from Cons.IH [OF j] obtain a b where "s = a @ p @ b" "length a = j" by blast
    with i have "c # s = (c # a) @ p @ b \<and> length (c # a) = i" by simp
    then show ?thesis by blast
  qed
qed

lemma find_sub_None: "find_sub s p = None \<Longrightarrow> s \<noteq> a @ p @ b"
proof (induction s arbitrary: a)
  case Nil
  then show ?case by (auto split: if_splits)
next
  case (Cons c s)
  from Cons.prems have no: "\<not> starts_with (c # s) p" and rest: "find_sub s p = None"
    by (auto split: if_splits)
  show ?case
  proof (cases a)
    case Nil
    with no show ?thesis by (auto simp: starts_with_iff)
  next
    case (Cons d a')
    with Cons.IH [OF rest, of a'] show ?thesis by auto
  qed
qed

lemma contains_iff [str_simps]: "contains s p \<longleftrightarrow> (\<exists>a b. s = a @ p @ b)"
  unfolding contains_def using find_sub_Some find_sub_None by (metis not_None_eq)

subsection \<open>ASCII case and character classes\<close>

definition ascii_lower_char :: "char \<Rightarrow> char" where
  "ascii_lower_char c =
     (let n = (of_char c :: nat) in if 65 \<le> n \<and> n \<le> 90 then char_of (n + 32) else c)"

definition to_ascii_lowercase :: "string \<Rightarrow> string" where
  "to_ascii_lowercase s = map ascii_lower_char s"

definition eq_ignore_ascii_case :: "string \<Rightarrow> string \<Rightarrow> bool" where
  "eq_ignore_ascii_case s t \<longleftrightarrow> to_ascii_lowercase s = to_ascii_lowercase t"

definition is_ascii_digit :: "char \<Rightarrow> bool" where
  "is_ascii_digit c \<longleftrightarrow> (let n = (of_char c :: nat) in 48 \<le> n \<and> n \<le> 57)"

definition is_ascii_alphanumeric :: "char \<Rightarrow> bool" where
  "is_ascii_alphanumeric c \<longleftrightarrow>
     (let n = (of_char c :: nat) in (48 \<le> n \<and> n \<le> 57) \<or> (65 \<le> n \<and> n \<le> 90) \<or> (97 \<le> n \<and> n \<le> 122))"

definition is_ascii_control :: "char \<Rightarrow> bool" where
  "is_ascii_control c \<longleftrightarrow> (let n = (of_char c :: nat) in n < 32 \<or> n = 127)"

text \<open>Space, tab, line feed, form feed, carriage return (\<open>u8::is_ascii_whitespace\<close>).\<close>

definition is_ascii_whitespace :: "char \<Rightarrow> bool" where
  "is_ascii_whitespace c \<longleftrightarrow> (let n = (of_char c :: nat) in n \<in> {32, 9, 10, 12, 13})"

lemma ascii_lower_char_idem [simp]: "ascii_lower_char (ascii_lower_char c) = ascii_lower_char c"
  by (auto simp: ascii_lower_char_def Let_def of_char_of)

lemma to_ascii_lowercase_idem [simp]:
  "to_ascii_lowercase (to_ascii_lowercase s) = to_ascii_lowercase s"
  by (simp add: to_ascii_lowercase_def)

lemma to_ascii_lowercase_append [simp]:
  "to_ascii_lowercase (s @ t) = to_ascii_lowercase s @ to_ascii_lowercase t"
  by (simp add: to_ascii_lowercase_def)

lemma length_to_ascii_lowercase [simp]: "length (to_ascii_lowercase s) = length s"
  by (simp add: to_ascii_lowercase_def)

lemma to_ascii_lowercase_Nil [simp]: "to_ascii_lowercase [] = []"
  by (simp add: to_ascii_lowercase_def)

lemma to_ascii_lowercase_eq_Nil [simp]: "to_ascii_lowercase s = [] \<longleftrightarrow> s = []"
  by (simp add: to_ascii_lowercase_def)

lemma ascii_lower_dot [simp]: "ascii_lower_char CHR ''.'' = CHR ''.''"
  by (simp add: ascii_lower_char_def)

lemma ascii_lower_char_eq_dot [simp]: "ascii_lower_char c = CHR ''.'' \<longleftrightarrow> c = CHR ''.''"
proof
  assume h: "ascii_lower_char c = CHR ''.''"
  show "c = CHR ''.''"
  proof (cases "65 \<le> (of_char c :: nat) \<and> (of_char c :: nat) \<le> 90")
    case True
    with h have "char_of ((of_char c :: nat) + 32) = CHR ''.''"
      by (simp add: ascii_lower_char_def Let_def)
    then have "of_char (char_of ((of_char c :: nat) + 32)) = (of_char CHR ''.'' :: nat)" by simp
    with True show ?thesis by (simp add: of_char_of)
  next
    case False
    with h show ?thesis by (auto simp: ascii_lower_char_def Let_def split: if_splits)
  qed
qed simp

lemma eq_ignore_ascii_case_refl [simp, intro]: "eq_ignore_ascii_case s s"
  by (simp add: eq_ignore_ascii_case_def)

lemma eq_ignore_ascii_case_sym: "eq_ignore_ascii_case s t \<Longrightarrow> eq_ignore_ascii_case t s"
  by (simp add: eq_ignore_ascii_case_def)

lemma eq_ignore_ascii_case_trans:
  "eq_ignore_ascii_case s t \<Longrightarrow> eq_ignore_ascii_case t u \<Longrightarrow> eq_ignore_ascii_case s u"
  by (simp add: eq_ignore_ascii_case_def)

subsection \<open>Splitting, trimming, parsing\<close>

definition trim_start_char :: "char \<Rightarrow> string \<Rightarrow> string" where
  "trim_start_char c s = dropWhile (\<lambda>d. d = c) s"

text \<open>\<open>str::split(c)\<close>: always at least one piece.\<close>

fun split_on :: "char \<Rightarrow> string \<Rightarrow> string list" where
  "split_on c [] = [[]]"
| "split_on c (d # s) =
     (if d = c then [] # split_on c s
      else (case split_on c s of [] \<Rightarrow> [[d]] | p # ps \<Rightarrow> (d # p) # ps))"

definition until :: "(char \<Rightarrow> bool) \<Rightarrow> string \<Rightarrow> string" where
  "until P s = takeWhile (\<lambda>c. \<not> P c) s"

definition split_once :: "char \<Rightarrow> string \<Rightarrow> (string \<times> string) option" where
  "split_once c s =
     (if c \<in> set s then Some (takeWhile (\<lambda>d. d \<noteq> c) s, tl (dropWhile (\<lambda>d. d \<noteq> c) s)) else None)"

definition rsplit_once :: "char \<Rightarrow> string \<Rightarrow> (string \<times> string) option" where
  "rsplit_once c s =
     map_option (\<lambda>(a, b). (rev b, rev a)) (split_once c (rev s))"

text \<open>
  Width in bytes of the Unicode whitespace character at the front of a UTF-8 string, 0
  when the front is not whitespace (the \<open>White_Space\<close> code points of \<open>char::is_whitespace\<close>).
\<close>

definition byte_val :: "char \<Rightarrow> nat" where
  "byte_val c = of_char c"

fun ws_width :: "string \<Rightarrow> nat" where
  "ws_width [] = 0"
| "ws_width (a # s) =
     (let x = byte_val a in
      if (9 \<le> x \<and> x \<le> 13) \<or> x = 32 then 1
      else (case s of
          [] \<Rightarrow> 0
        | b # t \<Rightarrow>
          (let y = byte_val b in
           if x = 194 \<and> (y = 133 \<or> y = 160) then 2
           else (case t of
               [] \<Rightarrow> 0
             | c # u \<Rightarrow>
               (let z = byte_val c in
                if (x = 225 \<and> y = 154 \<and> z = 128)
                   \<or> (x = 226 \<and> y = 128 \<and> ((128 \<le> z \<and> z \<le> 138) \<or> z = 168 \<or> z = 169 \<or> z = 175))
                   \<or> (x = 226 \<and> y = 129 \<and> z = 159)
                   \<or> (x = 227 \<and> y = 128 \<and> z = 128)
                then 3 else 0)))))"

text \<open>Width of the UTF-8 character at the front, from its lead byte.\<close>

definition char_width :: "char \<Rightarrow> nat" where
  "char_width a =
     (let x = byte_val a in if x < 128 then 1 else if x < 224 then 2 else if x < 240 then 3 else 4)"

lemma char_width_pos [simp]: "0 < char_width a"
  by (simp add: char_width_def Let_def)

function trim_start :: "string \<Rightarrow> string" where
  "trim_start s = (if ws_width s = 0 then s else trim_start (drop (ws_width s) s))"
  by pat_completeness auto
termination
proof (relation "measure length")
  show "wf (measure length)" by simp
next
  fix s :: string
  assume h: "ws_width s \<noteq> 0"
  then have "s \<noteq> []" by auto
  with h show "(drop (ws_width s) s, s) \<in> measure length" by simp
qed

declare trim_start.simps [simp del]

text \<open>Whitespace at the end: the last one, two or three bytes form a whitespace character.\<close>

definition ws_suffix :: "string \<Rightarrow> nat" where
  "ws_suffix s =
     (let n = length s in
      if 1 \<le> n \<and> ws_width (drop (n - 1) s) = 1 then 1
      else if 2 \<le> n \<and> ws_width (drop (n - 2) s) = 2 then 2
      else if 3 \<le> n \<and> ws_width (drop (n - 3) s) = 3 then 3
      else 0)"

lemma ws_suffix_le: "ws_suffix s \<le> length s"
  by (simp add: ws_suffix_def Let_def)

function trim_end :: "string \<Rightarrow> string" where
  "trim_end s = (if ws_suffix s = 0 then s else trim_end (take (length s - ws_suffix s) s))"
  by pat_completeness auto
termination
proof (relation "measure length")
  show "wf (measure length)" by simp
next
  fix s :: string
  assume "ws_suffix s \<noteq> 0"
  then show "(take (length s - ws_suffix s) s, s) \<in> measure length"
    using ws_suffix_le [of s] by simp
qed

declare trim_end.simps [simp del]

definition trim :: "string \<Rightarrow> string" where
  "trim s = trim_end (trim_start s)"

text \<open>Trimming removes whitespace bytes only: controls, the space, and bytes beyond ASCII.\<close>

definition ws_byte :: "char \<Rightarrow> bool" where
  "ws_byte c \<longleftrightarrow> (9 \<le> byte_val c \<and> byte_val c \<le> 13) \<or> byte_val c = 32 \<or> 128 \<le> byte_val c"

lemma ws_width_bytes: "c \<in> set (take (ws_width s) s) \<Longrightarrow> ws_byte c"
proof (cases s)
  case (Cons a t)
  assume "c \<in> set (take (ws_width s) s)"
  with Cons show ?thesis
    by (cases t; cases "tl t")
       (auto simp: Let_def ws_byte_def take_Cons' split: if_splits)
qed simp

lemma trim_start_bytes: "c \<in> set s \<Longrightarrow> c \<in> set (trim_start s) \<or> ws_byte c"
proof (induction s rule: trim_start.induct)
  case (1 s)
  show ?case
  proof (cases "ws_width s = 0")
    case True
    with "1.prems" show ?thesis by (simp add: trim_start.simps [of s])
  next
    case False
    from "1.prems" have "c \<in> set (take (ws_width s) s) \<or> c \<in> set (drop (ws_width s) s)"
      by (metis Un_iff append_take_drop_id set_append)
    with "1.IH" [OF False] ws_width_bytes False show ?thesis
      by (auto simp: trim_start.simps [of s])
  qed
qed

lemma ws_suffix_bytes: "c \<in> set (drop (length s - ws_suffix s) s) \<Longrightarrow> ws_byte c"
  using ws_width_bytes [of c "drop (length s - ws_suffix s) s"]
  by (auto simp: ws_suffix_def Let_def split: if_splits)

lemma trim_end_bytes: "c \<in> set s \<Longrightarrow> c \<in> set (trim_end s) \<or> ws_byte c"
proof (induction s rule: trim_end.induct)
  case (1 s)
  show ?case
  proof (cases "ws_suffix s = 0")
    case True
    with "1.prems" show ?thesis by (simp add: trim_end.simps [of s])
  next
    case False
    let ?n = "length s - ws_suffix s"
    from "1.prems" have "c \<in> set (take ?n s) \<or> c \<in> set (drop ?n s)"
      by (metis Un_iff append_take_drop_id set_append)
    with "1.IH" [OF False] ws_suffix_bytes False show ?thesis
      by (auto simp: trim_end.simps [of s])
  qed
qed

lemma trim_bytes: "c \<in> set s \<Longrightarrow> c \<in> set (trim s) \<or> ws_byte c"
  using trim_start_bytes trim_end_bytes by (auto simp: trim_def)

lemma split_on_append:
  "c \<notin> set a \<Longrightarrow> split_on c (a @ c # s) = a # split_on c s"
  by (induction a) auto

lemma split_on_none: "c \<notin> set a \<Longrightarrow> split_on c a = [a]"
  by (induction a) auto

text \<open>\<open>str::parse\<close> into an unsigned integer: an optional \<open>+\<close>, at least one digit, no overflow.\<close>

definition digits_val :: "string \<Rightarrow> nat" where
  "digits_val s = foldl (\<lambda>n c. 10 * n + (byte_val c - 48)) 0 s"

definition parse_uint :: "nat \<Rightarrow> string \<Rightarrow> nat option" where
  "parse_uint bound s =
     (let d = (case s of [] \<Rightarrow> [] | c # t \<Rightarrow> if c = CHR ''+'' then t else s)
      in if d = [] \<or> \<not> list_all is_ascii_digit d then None
         else if digits_val d < bound then Some (digits_val d) else None)"

fun show_nat :: "nat \<Rightarrow> string" where
  "show_nat n =
     (if n < 10 then [char_of (n + 48)] else show_nat (n div 10) @ [char_of (n mod 10 + 48)])"

declare show_nat.simps [simp del]

lemma show_nat_digits: "c \<in> set (show_nat n) \<Longrightarrow> 48 \<le> byte_val c \<and> byte_val c < 58"
proof (induction n rule: show_nat.induct)
  case (1 n)
  have dig: "48 \<le> byte_val (char_of (m + 48)) \<and> byte_val (char_of (m + 48)) < 58" if "m < 10" for m :: nat
    using that by (simp add: byte_val_def of_char_of)
  show ?case
  proof (cases "n < 10")
    case True
    with "1.prems" dig show ?thesis by (simp add: show_nat.simps [of n])
  next
    case False
    with "1.prems" have "c \<in> set (show_nat (n div 10)) \<or> c = char_of (n mod 10 + 48)"
      by (auto simp: show_nat.simps [of n])
    with "1.IH" [OF False] dig [of "n mod 10"] show ?thesis by auto
  qed
qed

lemma show_nat_nonempty [simp]: "show_nat n \<noteq> []"
  by (simp add: show_nat.simps [of n])

lemma digits_val_show [simp]: "digits_val (show_nat n) = n"
proof (induction n rule: show_nat.induct)
  case (1 n)
  have dig: "byte_val (char_of (k + 48)) = k + 48" if "k < 10" for k :: nat
    using that by (simp add: byte_val_def)
  have snoc: "digits_val (s @ [c]) = 10 * digits_val s + (byte_val c - 48)" for s c
    by (simp add: digits_val_def)
  show ?case
  proof (cases "n < 10")
    case True
    with dig show ?thesis by (simp add: show_nat.simps [of n] digits_val_def)
  next
    case False
    with 1 dig [of "n mod 10"] show ?thesis by (simp add: show_nat.simps [of n] snoc)
  qed
qed

lemma show_nat_inj [simp]: "show_nat a = show_nat b \<longleftrightarrow> a = b"
  by (metis digits_val_show)

definition join :: "string \<Rightarrow> string list \<Rightarrow> string" where
  "join sep xs = (case xs of [] \<Rightarrow> [] | y # ys \<Rightarrow> y @ concat (map (\<lambda>z. sep @ z) ys))"

lemma join_simps:
  "join sep [] = []"
  "join sep [a] = a"
  "join sep (a # b # bs) = a @ sep @ join sep (b # bs)"
  "join sep ((x # a) # bs) = x # join sep (a # bs)"
  by (simp_all add: join_def)

lemma split_on_pieces: "p \<in> set (split_on c s) \<Longrightarrow> c \<notin> set p"
  by (induction s arbitrary: p) (auto split: list.splits if_splits)

lemma split_on_join: "ps \<noteq> [] \<Longrightarrow> \<forall>p \<in> set ps. c \<notin> set p \<Longrightarrow> split_on c (join [c] ps) = ps"
proof (induction ps)
  case (Cons p ps)
  then show ?case
    by (cases ps) (auto simp: join_simps split_on_none split_on_append)
qed simp

lemma split_once_at: "c \<notin> set a \<Longrightarrow> split_once c (a @ c # b) = Some (a, b)"
  by (simp add: split_once_def takeWhile_append dropWhile_append)

lemma split_once_none: "c \<notin> set a \<Longrightarrow> split_once c a = None"
  by (simp add: split_once_def)

subsection \<open>Sums of errors and values, positions in lists\<close>

definition ok_or :: "'e \<Rightarrow> 'a option \<Rightarrow> 'e + 'a" where
  "ok_or e x = (case x of None \<Rightarrow> Inl e | Some v \<Rightarrow> Inr v)"

definition res_ok :: "'e + 'a \<Rightarrow> 'a option" where
  "res_ok r = (case r of Inl _ \<Rightarrow> None | Inr v \<Rightarrow> Some v)"

definition and_then :: "'e + 'a \<Rightarrow> ('a \<Rightarrow> 'e + 'b) \<Rightarrow> 'e + 'b" where
  "and_then r f = (case r of Inl e \<Rightarrow> Inl e | Inr v \<Rightarrow> f v)"

lemma and_then_simps [simp]: "and_then (Inl e) f = Inl e" "and_then (Inr v) f = f v"
  by (simp_all add: and_then_def)

lemma and_then_Inr: "and_then r f = Inr y \<longleftrightarrow> (\<exists>v. r = Inr v \<and> f v = Inr y)"
  by (cases r) auto

text \<open>The \<open>?\<close> inside a loop over a list: the first error ends it.\<close>

fun try_map :: "('a \<Rightarrow> 'e + 'b) \<Rightarrow> 'a list \<Rightarrow> 'e + 'b list" where
  "try_map f [] = Inr []"
| "try_map f (x # xs) = and_then (f x) (\<lambda>y. and_then (try_map f xs) (\<lambda>ys. Inr (y # ys)))"

lemma try_map_Inr:
  "try_map f xs = Inr ys \<longleftrightarrow> list_all2 (\<lambda>x y. f x = Inr y) xs ys"
  by (induction xs arbitrary: ys) (auto simp: and_then_Inr list_all2_Cons1)

fun position :: "('a \<Rightarrow> bool) \<Rightarrow> 'a list \<Rightarrow> nat option" where
  "position P [] = None"
| "position P (x # xs) = (if P x then Some 0 else map_option Suc (position P xs))"

definition rposition :: "('a \<Rightarrow> bool) \<Rightarrow> 'a list \<Rightarrow> nat option" where
  "rposition P xs = map_option (\<lambda>i. length xs - 1 - i) (position P (rev xs))"

lemma position_None [simp]: "position P xs = None \<longleftrightarrow> (\<forall>x \<in> set xs. \<not> P x)"
  by (induction xs) auto

lemma position_Some:
  "position P xs = Some i \<Longrightarrow> i < length xs \<and> P (xs ! i) \<and> (\<forall>j < i. \<not> P (xs ! j))"
proof (induction xs arbitrary: i)
  case (Cons x xs)
  then show ?case by (auto split: if_splits simp: nth_Cons' less_Suc_eq_0_disj)
qed simp

lemma rposition_Some:
  assumes "rposition P xs = Some i"
  shows "i < length xs \<and> P (xs ! i) \<and> (\<forall>j. i < j \<and> j < length xs \<longrightarrow> \<not> P (xs ! j))"
proof -
  from assms obtain k where k: "position P (rev xs) = Some k" and i: "i = length xs - 1 - k"
    by (auto simp: rposition_def)
  from position_Some [OF k] have kl: "k < length xs" and pk: "P (rev xs ! k)"
    and nk: "\<forall>j < k. \<not> P (rev xs ! j)" by auto
  have "\<not> P (xs ! j)" if "i < j" "j < length xs" for j
  proof -
    from that i kl have "length xs - 1 - j < k" by arith
    with nk have "\<not> P (rev xs ! (length xs - 1 - j))" by blast
    with that show ?thesis by (simp add: rev_nth)
  qed
  moreover from pk kl i have "P (xs ! i)" by (simp add: rev_nth)
  ultimately show ?thesis using kl i by auto
qed

lemma rposition_None [simp]: "rposition P xs = None \<longleftrightarrow> (\<forall>x \<in> set xs. \<not> P x)"
  by (simp add: rposition_def)

definition remove_at :: "nat \<Rightarrow> 'a list \<Rightarrow> 'a list" where
  "remove_at i xs = take i xs @ drop (Suc i) xs"

lemma length_remove_at: "i < length xs \<Longrightarrow> length (remove_at i xs) = length xs - 1"
  by (simp add: remove_at_def)

lemma set_remove_at: "set (remove_at i xs) \<subseteq> set xs"
  using set_take_subset [of i xs] set_drop_subset [of "Suc i" xs] by (auto simp: remove_at_def)

subsection \<open>Machine integers and durations\<close>

definition u16_max :: nat where "u16_max = 65535"
definition u32_max :: nat where "u32_max = 4294967295"
definition u64_max :: nat where "u64_max = 18446744073709551615"
definition i64_max :: int where "i64_max = 9223372036854775807"
definition i64_min :: int where "i64_min = - 9223372036854775808"

definition sat_u64 :: "nat \<Rightarrow> nat" where
  "sat_u64 n = min n u64_max"

definition sat_i64_add :: "int \<Rightarrow> int \<Rightarrow> int" where
  "sat_i64_add a b = max i64_min (min i64_max (a + b))"

text \<open>A \<open>Duration\<close> is its number of nanoseconds; an \<open>Instant\<close> the nanoseconds of one clock.\<close>

type_synonym duration = nat
type_synonym instant = nat

definition millis :: "nat \<Rightarrow> duration" where "millis n = n * 1000000"
definition secs :: "nat \<Rightarrow> duration" where "secs n = n * 1000000000"

lemma millis_mono [simp]: "millis a \<le> millis b \<longleftrightarrow> a \<le> b"
  by (simp add: millis_def)

subsection \<open>Key/value stores\<close>

text \<open>
  The code's maps as association lists with distinct keys: \<open>kv\<close> keeps the order of first
  insertion (the order of a \<open>HashMap\<close> is unspecified; nothing below depends on it unless
  it says so), \<open>bt\<close> keeps the keys sorted as a \<open>BTreeMap\<close> does.
\<close>

type_synonym ('k, 'v) kv = "('k \<times> 'v) list"

fun kv_put :: "'k \<Rightarrow> 'v \<Rightarrow> ('k, 'v) kv \<Rightarrow> ('k, 'v) kv" where
  "kv_put k v [] = [(k, v)]"
| "kv_put k v ((a, b) # m) = (if a = k then (k, v) # m else (a, b) # kv_put k v m)"

definition kv_del :: "'k \<Rightarrow> ('k, 'v) kv \<Rightarrow> ('k, 'v) kv" where
  "kv_del k m = filter (\<lambda>p. fst p \<noteq> k) m"

definition kv_ok :: "('k, 'v) kv \<Rightarrow> bool" where
  "kv_ok m \<longleftrightarrow> distinct (map fst m)"

fun bt_put :: "'k::linorder \<Rightarrow> 'v \<Rightarrow> ('k, 'v) kv \<Rightarrow> ('k, 'v) kv" where
  "bt_put k v [] = [(k, v)]"
| "bt_put k v ((a, b) # m) =
     (if k = a then (k, v) # m else if k < a then (k, v) # (a, b) # m else (a, b) # bt_put k v m)"

definition bt_ok :: "('k::linorder, 'v) kv \<Rightarrow> bool" where
  "bt_ok m \<longleftrightarrow> sorted_wrt (<) (map fst m)"

lemma map_of_kv_put [store_simps, simp]: "map_of (kv_put k v m) = (map_of m)(k \<mapsto> v)"
  by (induction k v m rule: kv_put.induct) auto

lemma map_of_kv_del [store_simps, simp]: "map_of (kv_del k m) = (map_of m)(k := None)"
  by (induction m) (auto simp: kv_del_def fun_eq_iff)

lemma keys_kv_put [simp]: "fst ` set (kv_put k v m) = insert k (fst ` set m)"
  by (induction k v m rule: kv_put.induct) auto

lemma kv_ok_put [intro]: "kv_ok m \<Longrightarrow> kv_ok (kv_put k v m)"
  by (induction k v m rule: kv_put.induct) (auto simp: kv_ok_def)

lemma kv_ok_del [intro]: "kv_ok m \<Longrightarrow> kv_ok (kv_del k m)"
  by (simp add: kv_ok_def kv_del_def distinct_map_filter)

lemma keys_bt_put [simp]: "fst ` set (bt_put k v m) = insert k (fst ` set m)"
  by (induction k v m rule: bt_put.induct) auto

lemma map_of_bt_put [store_simps]: "bt_ok m \<Longrightarrow> map_of (bt_put k v m) = (map_of m)(k \<mapsto> v)"
proof (induction k v m rule: bt_put.induct)
  case (2 k v a b m)
  then have "bt_ok m" by (simp add: bt_ok_def)
  with 2 show ?case by (auto simp: fun_eq_iff)
qed auto

lemma bt_ok_put [intro]: "bt_ok m \<Longrightarrow> bt_ok (bt_put k v m)"
proof (induction k v m rule: bt_put.induct)
  case (2 k v a b m)
  from "2.prems" have m: "bt_ok m" and above: "\<forall>y \<in> fst ` set m. a < y" by (auto simp: bt_ok_def)
  show ?case
  proof (cases "k = a \<or> k < a")
    case True
    with "2.prems" above show ?thesis by (auto simp: bt_ok_def)
  next
    case False
    with "2.IH" m have "bt_ok (bt_put k v m)" by simp
    moreover from False above have "\<forall>y \<in> fst ` set (bt_put k v m). a < y" by auto
    ultimately show ?thesis using False by (simp add: bt_ok_def)
  qed
qed (auto simp: bt_ok_def)

lemma bt_ok_del [intro]: "bt_ok m \<Longrightarrow> bt_ok (kv_del k m)"
  by (induction m) (auto simp: bt_ok_def kv_del_def)

lemma bt_ok_kv_ok: "bt_ok m \<Longrightarrow> kv_ok m"
  by (simp add: bt_ok_def kv_ok_def strict_sorted_iff)

lemma kv_ok_length: "kv_ok m \<Longrightarrow> length m = card (dom (map_of m))"
proof -
  assume "kv_ok m"
  then have "card (set (map fst m)) = length (map fst m)"
    unfolding kv_ok_def by (rule distinct_card)
  then show ?thesis by (simp add: dom_map_of_conv_image_fst)
qed

text \<open>What the components rely on when they use such a map, whatever its order.\<close>

locale kv_store =
  fixes get :: "'m \<Rightarrow> 'k \<Rightarrow> 'v option"
    and put :: "'k \<Rightarrow> 'v \<Rightarrow> 'm \<Rightarrow> 'm"
    and del :: "'k \<Rightarrow> 'm \<Rightarrow> 'm"
    and count :: "'m \<Rightarrow> nat"
    and ok :: "'m \<Rightarrow> bool"
  assumes get_put: "ok m \<Longrightarrow> get (put k v m) = (get m)(k \<mapsto> v)"
    and get_del: "ok m \<Longrightarrow> get (del k m) = (get m)(k := None)"
    and ok_put: "ok m \<Longrightarrow> ok (put k v m)"
    and ok_del: "ok m \<Longrightarrow> ok (del k m)"
    and finite_dom: "finite (dom (get m))"
    and count_dom: "ok m \<Longrightarrow> count m = card (dom (get m))"
begin

lemma count_put:
  assumes "ok m"
  shows "count (put k v m) = (if get m k = None then Suc (count m) else count m)"
proof -
  have "count (put k v m) = card (insert k (dom (get m)))"
    using assms by (simp add: count_dom ok_put get_put)
  then show ?thesis
    using assms finite_dom [of m] by (auto simp: count_dom card_insert_if)
qed

lemma count_del:
  assumes "ok m"
  shows "count (del k m) = (if get m k = None then count m else count m - 1)"
proof -
  have "count (del k m) = card (dom (get m) - {k})"
    using assms by (simp add: count_dom ok_del get_del)
  then show ?thesis
    using assms finite_dom [of m] by (auto simp: count_dom card_Diff_singleton domIff)
qed

lemma put_keeps_bound:
  "ok m \<Longrightarrow> count m \<le> n \<Longrightarrow> get m k \<noteq> None \<or> count m < n \<Longrightarrow> count (put k v m) \<le> n"
  by (auto simp: count_put)

end

interpretation kv: kv_store map_of kv_put kv_del length kv_ok
  by unfold_locales (auto simp: kv_ok_length finite_dom_map_of)

interpretation bt: kv_store map_of bt_put kv_del length bt_ok
  by unfold_locales (auto simp: map_of_bt_put bt_ok_kv_ok kv_ok_length finite_dom_map_of)

subsection \<open>Entries identified by an equivalence\<close>

text \<open>
  Replace the first entry with the same identity in place, or append: the update that
  the cookie jar makes in memory and on disk.
\<close>

definition upsert :: "('a \<Rightarrow> 'a \<Rightarrow> bool) \<Rightarrow> 'a \<Rightarrow> 'a list \<Rightarrow> 'a list" where
  "upsert same e xs =
     (case position (\<lambda>x. same x e) xs of Some i \<Rightarrow> xs[i := e] | None \<Rightarrow> xs @ [e])"

definition no_dup :: "('a \<Rightarrow> 'a \<Rightarrow> bool) \<Rightarrow> 'a list \<Rightarrow> bool" where
  "no_dup same xs \<longleftrightarrow> (\<forall>j < length xs. \<forall>i < j. \<not> same (xs ! i) (xs ! j))"

lemma upsert_simps [simp]:
  "upsert same e [] = [e]"
  "upsert same e (x # xs) = (if same x e then e # xs else x # upsert same e xs)"
  by (simp_all add: upsert_def split: option.splits del: position_None)

locale entry_identity =
  fixes same :: "'a \<Rightarrow> 'a \<Rightarrow> bool"
  assumes same_refl: "same x x"
    and same_sym: "same x y \<Longrightarrow> same y x"
    and same_trans: "same x y \<Longrightarrow> same y z \<Longrightarrow> same x z"
begin

lemma mem_upsert: "e \<in> set (upsert same e xs)"
  by (auto simp: upsert_def set_update_memI dest!: position_Some split: option.splits)

lemma set_upsert: "set (upsert same e xs) \<subseteq> insert e (set xs)"
  by (auto simp: upsert_def split: option.splits dest: set_update_subset_insert [THEN subsetD])

lemma no_dup_upsert:
  assumes nd: "no_dup same xs"
  shows "no_dup same (upsert same e xs)"
proof (cases "position (\<lambda>x. same x e) xs")
  case None
  then have "\<forall>x \<in> set xs. \<not> same x e" by simp
  with nd show ?thesis
    by (auto simp: upsert_def None no_dup_def nth_append less_Suc_eq)
next
  case (Some i)
  from position_Some [OF Some] have i: "i < length xs" and si: "same (xs ! i) e" by auto
  have other: "\<not> same (xs ! k) e" if "k < length xs" "k \<noteq> i" for k
  proof
    assume "same (xs ! k) e"
    with si have ik: "same (xs ! i) (xs ! k)" "same (xs ! k) (xs ! i)"
      by (blast intro: same_trans same_sym)+
    from that have "i < k \<or> k < i" by arith
    with nd i ik that show False unfolding no_dup_def by blast
  qed
  then have other': "\<not> same e (xs ! k)" if "k < length xs" "k \<noteq> i" for k
    using that same_sym by blast
  show ?thesis
    using nd other other' i
    by (auto simp: upsert_def Some no_dup_def nth_list_update)
qed

lemma find_upsert_same: "find (\<lambda>x. same x e) (upsert same e xs) = Some e"
proof (induction xs)
  case (Cons x xs)
  then show ?case by (simp add: same_refl)
qed (simp add: same_refl)

lemma find_upsert_other:
  assumes "\<not> same e d"
  shows "find (\<lambda>x. same x d) (upsert same e xs) = find (\<lambda>x. same x d) xs"
proof (induction xs)
  case Nil
  with assms show ?case by simp
next
  case (Cons x xs)
  have ne: "same x e \<Longrightarrow> \<not> same x d" using assms by (blast intro: same_trans same_sym)
  from Cons ne assms show ?case by simp
qed

lemma length_upsert:
  "length (upsert same e xs) = (if \<exists>x \<in> set xs. same x e then length xs else Suc (length xs))"
  by (auto simp: upsert_def split: option.splits dest!: position_Some)

end

subsection \<open>Runs that keep an invariant\<close>

lemma foldl_invariant:
  "P s \<Longrightarrow> (\<And>s x. x \<in> set xs \<Longrightarrow> P s \<Longrightarrow> P (f s x)) \<Longrightarrow> P (foldl f s xs)"
  by (induction xs arbitrary: s) auto

text \<open>
  A component driven by a list of events: one preservation law for a step gives the
  invariant after every run from a state that satisfies it.
\<close>

locale invariant_run =
  fixes step :: "'s \<Rightarrow> 'e \<Rightarrow> 's"
    and inv :: "'s \<Rightarrow> bool"
  assumes step_inv: "inv s \<Longrightarrow> inv (step s e)"
begin

lemma run_inv: "inv s \<Longrightarrow> inv (foldl step s es)"
  by (induction es arbitrary: s) (auto intro: step_inv)

lemma run_prefix_inv: "inv s \<Longrightarrow> inv (foldl step s (take n es))"
  by (rule run_inv)

end

text \<open>A component whose steps never decrease a quantity (a counter, a set of marks).\<close>

locale monotone_run =
  fixes step :: "'s \<Rightarrow> 'e \<Rightarrow> 's"
    and quantity :: "'s \<Rightarrow> 'b::preorder"
  assumes step_mono: "quantity s \<le> quantity (step s e)"
begin

lemma run_mono: "quantity s \<le> quantity (foldl step s es)"
proof (induction es arbitrary: s)
  case (Cons e es)
  have "quantity s \<le> quantity (step s e)" by (rule step_mono)
  also have "\<dots> \<le> quantity (foldl step (step s e) es)" by (rule Cons.IH)
  finally show ?case by simp
qed simp

end

end
