(* ===== verification/Errors.thy ===== *)
theory Errors
  imports Prelude
begin

text \<open>
  The structured error contract (\<open>src/shared/error.rs\<close>), its wire form
  (\<open>src/shared/events.rs\<close>) and the fetch error that carries a trace
  (\<open>src/sdk/fetch/result.rs\<close>).

  Throughout the development an error's \<open>detail\<close> is the message template of the source:
  the text of its \<open>format!\<close> with the placeholders left as written. The code, the
  retryability and which message is produced are exact; only the substituted values
  (file names, third-party error texts) are left out.
\<close>

datatype error_code =
    NavigationTimeout | RenderUnavailable | HostUnreachable | DnsResolutionFailed
  | TargetUnreachable | TlsError | ProfileLocked | BrowserLaunchFailed | CdpUnavailable
  | CdpError | CdpTimeout | WaitSelectorUnmatched | BackendUnsupported
  | ArtifactCaptureFailed | ArtifactCaptureTimeout | ArtifactEmpty | ArtifactTiny
  | BotWallDetected | SecurityChallengeDetected | NetworkNotIdle | NavigationStale
  | ObservationEmpty | PendingXhrAtCapture | ReadinessTimeout | TakeoverContentUnverified
  | NetworkBodyTruncated | CookieRejected | ProfileNotFound | ProfileDeleteLocked
  | ProfileInvalidName | ProfileRootUnavailable | InvalidArgument | InvalidEndpoint
  | IoError | InternalError

fun retryable_default :: "error_code \<Rightarrow> bool" where
  "retryable_default NavigationTimeout = True"
| "retryable_default HostUnreachable = True"
| "retryable_default DnsResolutionFailed = True"
| "retryable_default TargetUnreachable = True"
| "retryable_default CdpTimeout = True"
| "retryable_default IoError = True"
| "retryable_default _ = False"

fun as_str :: "error_code \<Rightarrow> string" where
  "as_str NavigationTimeout = ''navigation_timeout''"
| "as_str RenderUnavailable = ''render_unavailable''"
| "as_str HostUnreachable = ''host_unreachable''"
| "as_str DnsResolutionFailed = ''dns_resolution_failed''"
| "as_str TargetUnreachable = ''target_unreachable''"
| "as_str TlsError = ''tls_error''"
| "as_str ProfileLocked = ''profile_locked''"
| "as_str BrowserLaunchFailed = ''browser_launch_failed''"
| "as_str CdpUnavailable = ''cdp_unavailable''"
| "as_str CdpError = ''cdp_error''"
| "as_str CdpTimeout = ''cdp_timeout''"
| "as_str WaitSelectorUnmatched = ''wait_selector_unmatched''"
| "as_str BackendUnsupported = ''backend_unsupported''"
| "as_str ArtifactCaptureFailed = ''artifact_capture_failed''"
| "as_str ArtifactCaptureTimeout = ''artifact_capture_timeout''"
| "as_str ArtifactEmpty = ''artifact_empty''"
| "as_str ArtifactTiny = ''artifact_tiny''"
| "as_str BotWallDetected = ''bot_wall_detected''"
| "as_str SecurityChallengeDetected = ''security_challenge_detected''"
| "as_str NetworkNotIdle = ''network_not_idle''"
| "as_str NavigationStale = ''navigation_stale''"
| "as_str ObservationEmpty = ''observation_empty''"
| "as_str PendingXhrAtCapture = ''pending_xhr_at_capture''"
| "as_str ReadinessTimeout = ''readiness_timeout''"
| "as_str TakeoverContentUnverified = ''takeover_content_unverified''"
| "as_str NetworkBodyTruncated = ''network_body_truncated''"
| "as_str CookieRejected = ''cookie_rejected''"
| "as_str ProfileNotFound = ''profile_not_found''"
| "as_str ProfileDeleteLocked = ''profile_delete_locked''"
| "as_str ProfileInvalidName = ''profile_invalid_name''"
| "as_str ProfileRootUnavailable = ''profile_root_unavailable''"
| "as_str InvalidArgument = ''invalid_argument''"
| "as_str InvalidEndpoint = ''invalid_endpoint''"
| "as_str IoError = ''io_error''"
| "as_str InternalError = ''internal_error''"

definition all_codes :: "error_code list" where
  "all_codes =
     [NavigationTimeout, RenderUnavailable, HostUnreachable, DnsResolutionFailed,
      TargetUnreachable, TlsError, ProfileLocked, BrowserLaunchFailed, CdpUnavailable,
      CdpError, CdpTimeout, WaitSelectorUnmatched, BackendUnsupported,
      ArtifactCaptureFailed, ArtifactCaptureTimeout, ArtifactEmpty, ArtifactTiny,
      BotWallDetected, SecurityChallengeDetected, NetworkNotIdle, NavigationStale,
      ObservationEmpty, PendingXhrAtCapture, ReadinessTimeout, TakeoverContentUnverified,
      NetworkBodyTruncated, CookieRejected, ProfileNotFound, ProfileDeleteLocked,
      ProfileInvalidName, ProfileRootUnavailable, InvalidArgument, InvalidEndpoint,
      IoError, InternalError]"

text \<open>The derived \<open>Deserialize\<close> of the enum: the snake-case name, or nothing.\<close>

definition code_of_str :: "string \<Rightarrow> error_code option" where
  "code_of_str s = find (\<lambda>c. as_str c = s) all_codes"

record error =
  error_code :: error_code
  detail :: string
  retryable :: bool

type_synonym 'a result = "error + 'a"

definition error_new :: "error_code \<Rightarrow> string \<Rightarrow> error" where
  "error_new c d = \<lparr>error_code = c, detail = d, retryable = retryable_default c\<rparr>"

definition with_retryable :: "error \<Rightarrow> bool \<Rightarrow> error" where
  "with_retryable e b = e\<lparr>retryable := b\<rparr>"

text \<open>The usual \<open>return Err(Error::new(..))\<close>.\<close>

abbreviation fail :: "error_code \<Rightarrow> string \<Rightarrow> 'a result" where
  "fail c d \<equiv> Inl (error_new c d)"

lemma error_new_sel [simp]:
  "error_code (error_new c d) = c" "detail (error_new c d) = d"
  "retryable (error_new c d) = retryable_default c"
  by (simp_all add: error_new_def)

lemma with_retryable_sel [simp]:
  "error_code (with_retryable e b) = error_code e" "detail (with_retryable e b) = detail e"
  "retryable (with_retryable e b) = b"
  by (simp_all add: with_retryable_def)

lemma all_codes_complete: "c \<in> set all_codes"
  by (cases c) (simp_all add: all_codes_def)

lemma as_str_distinct: "distinct (map as_str all_codes)"
  by (simp add: all_codes_def)

lemma as_str_inj: "inj as_str"
proof (rule injI)
  fix a b
  assume "as_str a = as_str b"
  then show "a = b"
    using as_str_distinct all_codes_complete [of a] all_codes_complete [of b]
    by (auto simp: distinct_map dest: inj_onD)
qed

lemma code_of_str_as_str [simp]: "code_of_str (as_str c) = Some c"
proof (cases "find (\<lambda>x. as_str x = as_str c) all_codes")
  case None
  with all_codes_complete [of c] show ?thesis by (auto simp: find_None_iff)
next
  case (Some d)
  then have "as_str d = as_str c" by (auto simp: find_Some_iff)
  with Some show ?thesis by (simp add: code_of_str_def inj_eq [OF as_str_inj])
qed

subsection \<open>The events a host answers with\<close>

record error_body =
  body_code :: string
  body_message :: string
  body_retryable :: "bool option"

datatype 'v event = EvResult 'v | EvError error_body

text \<open>
  \<open>decode\<close> is serde reading the bytes: \<open>None\<close> when they are not an event. It is a
  parameter of the two readers below, as is the reader of the result's own type.
\<close>

definition decode_event :: "('b \<Rightarrow> 'v event option) \<Rightarrow> 'b \<Rightarrow> 'v event result" where
  "decode_event decode bs = ok_or (error_new InternalError ''invalid AFDATA event: {error}'') (decode bs)"

definition decode_result ::
  "('b \<Rightarrow> 'v event option) \<Rightarrow> ('v \<Rightarrow> 't option) \<Rightarrow> 'b \<Rightarrow> 't result" where
  "decode_result decode from_value bs =
     and_then (decode_event decode bs) (\<lambda>ev. case ev of
         EvResult v \<Rightarrow>
           ok_or (error_new InternalError ''decode AFDATA result payload: {error}'') (from_value v)
       | EvError _ \<Rightarrow> fail InternalError ''expected AFDATA result event'')"

definition decode_error :: "('b \<Rightarrow> 'v event option) \<Rightarrow> 'b \<Rightarrow> error result" where
  "decode_error decode bs =
     and_then (decode_event decode bs) (\<lambda>ev. case ev of
         EvError b \<Rightarrow>
           (let code = (case code_of_str (body_code b) of Some c \<Rightarrow> c | None \<Rightarrow> InternalError);
                decoded = error_new code (body_message b)
            in Inr (case body_retryable b of
                 Some r \<Rightarrow> with_retryable decoded r
               | None \<Rightarrow> decoded))
       | EvResult _ \<Rightarrow> fail InternalError ''expected AFDATA error event'')"

subsection \<open>The fetch error\<close>

record 't fetch_error =
  fe_code :: error_code
  fe_detail :: string
  fe_retryable :: bool
  fe_trace :: 't

definition fetch_error_new :: "error \<Rightarrow> 't \<Rightarrow> 't fetch_error" where
  "fetch_error_new e t =
     \<lparr>fe_code = error_code e, fe_detail = detail e, fe_retryable = retryable e, fe_trace = t\<rparr>"

definition into_error :: "'t fetch_error \<Rightarrow> error" where
  "into_error f = with_retryable (error_new (fe_code f) (fe_detail f)) (fe_retryable f)"

definition as_error :: "'t fetch_error \<Rightarrow> error" where
  "as_error f = with_retryable (error_new (fe_code f) (fe_detail f)) (fe_retryable f)"

lemma into_error_new [simp]: "into_error (fetch_error_new e t) = e"
  by (simp add: into_error_def fetch_error_new_def error_new_def with_retryable_def)

text \<open>
  An error survives the wire. When the bytes decode to the error event that an
  emitter built from an error \<open>e\<close> (its code's snake-case name, its detail as the message,
  its retryability, which may be left out when it is the code's default), the reader gives
  back \<open>e\<close> itself: code, detail and retryability.
\<close>

theorem error_wire_roundtrip:
  assumes ev: "decode bs = Some (EvError \<lparr>body_code = as_str (error_code e),
      body_message = detail e, body_retryable = r\<rparr>)"
    and r: "r = Some (retryable e) \<or> (r = None \<and> retryable e = retryable_default (error_code e))"
  shows "decode_error decode bs = Inr e"
  using r by (auto simp: decode_error_def decode_event_def ok_or_def ev Let_def
    error_new_def with_retryable_def)

theorem error_wire_roundtrip_witness:
  "decode_error (\<lambda>_. Some (EvError \<lparr>body_code = ''profile_locked'', body_message = ''busy'',
      body_retryable = Some True\<rparr>) :: nat event option) (0::nat)
    = Inr \<lparr>error_code = ProfileLocked, detail = ''busy'', retryable = True\<rparr>"
  by (rule error_wire_roundtrip [where r = "Some True"]) simp_all

end
