(* ===== verification/Json.thy ===== *)
theory Json
  imports Prelude
begin

text \<open>
  The JSON values the code passes around (\<open>serde_json::Value\<close>) and the accessors it uses
  on them. An object is a \<open>BTreeMap\<close>: its fields are sorted by key, with distinct keys
  (\<open>bt_ok\<close>). Numbers keep the three forms of \<open>serde_json::Number\<close>; a finite float is
  \<open>m * 2 ^ e\<close>. Reading JSON text is serde's and is a parameter wherever the code does it.
\<close>

datatype jnum = PosInt nat | NegInt int | Float int int

datatype json =
    JNull
  | JBool bool
  | JNum jnum
  | JStr string
  | JArr "json list"
  | JObj "(string \<times> json) list"

fun json_get :: "json \<Rightarrow> string \<Rightarrow> json option" where
  "json_get (JObj fs) k = map_of fs k"
| "json_get _ k = None"

text \<open>\<open>value[k]\<close>: null when the key is absent.\<close>

definition json_idx :: "json \<Rightarrow> string \<Rightarrow> json" where
  "json_idx v k = (case json_get v k of Some w \<Rightarrow> w | None \<Rightarrow> JNull)"

fun json_str :: "json \<Rightarrow> string option" where
  "json_str (JStr s) = Some s"
| "json_str _ = None"

fun json_bool :: "json \<Rightarrow> bool option" where
  "json_bool (JBool b) = Some b"
| "json_bool _ = None"

fun json_u64 :: "json \<Rightarrow> nat option" where
  "json_u64 (JNum (PosInt n)) = Some n"
| "json_u64 _ = None"

fun json_i64 :: "json \<Rightarrow> int option" where
  "json_i64 (JNum (PosInt n)) = (if int n \<le> i64_max then Some (int n) else None)"
| "json_i64 (JNum (NegInt i)) = Some i"
| "json_i64 _ = None"

fun json_arr :: "json \<Rightarrow> json list option" where
  "json_arr (JArr vs) = Some vs"
| "json_arr _ = None"

definition get_str :: "json \<Rightarrow> string \<Rightarrow> string option" where
  "get_str v k = Option.bind (json_get v k) json_str"

definition get_bool :: "json \<Rightarrow> string \<Rightarrow> bool option" where
  "get_bool v k = Option.bind (json_get v k) json_bool"

definition get_u64 :: "json \<Rightarrow> string \<Rightarrow> nat option" where
  "get_u64 v k = Option.bind (json_get v k) json_u64"

definition str_or :: "string \<Rightarrow> string option \<Rightarrow> string" where
  "str_or d x = (case x of Some s \<Rightarrow> s | None \<Rightarrow> d)"

definition json_obj_put :: "string \<Rightarrow> json \<Rightarrow> json \<Rightarrow> json" where
  "json_obj_put k w v = (case v of JObj fs \<Rightarrow> JObj (bt_put k w fs) | _ \<Rightarrow> v)"

text \<open>Follow a path of object keys and array indices.\<close>

datatype json_step = Key string | Idx nat

fun json_at :: "json \<Rightarrow> json_step list \<Rightarrow> json option" where
  "json_at v [] = Some v"
| "json_at (JObj fs) (Key k # p) = (case map_of fs k of Some w \<Rightarrow> json_at w p | None \<Rightarrow> None)"
| "json_at (JArr vs) (Idx i # p) = (if i < length vs then json_at (vs ! i) p else None)"
| "json_at _ _ = None"

lemma json_at_append:
  "json_at v (p @ q) = (case json_at v p of Some w \<Rightarrow> json_at w q | None \<Rightarrow> None)"
  by (induction v p rule: json_at.induct) (auto split: option.splits)

end
