(* ===== verification/Net.thy ===== *)
theory Net
  imports Prelude
begin

text \<open>
  What the code uses of Rust's standard library and of the \<open>url\<close> crate about addresses:
  the parser behind \<open>str::parse::<IpAddr>\<close> (\<open>core::net::parser\<close>, translated
  step by step) with \<open>is_loopback\<close>, and the accessors of a parsed URL. Parsing, joining
  and the origin of a URL belong to the \<open>url\<close> crate and are parameters where they are used.
\<close>

datatype ip_addr = V4 "nat list" | V6 "nat list"

definition hex_val :: "char \<Rightarrow> nat option" where
  "hex_val c = (let n = byte_val c in
     if 48 \<le> n \<and> n \<le> 57 then Some (n - 48)
     else if 97 \<le> n \<and> n \<le> 102 then Some (n - 87)
     else if 65 \<le> n \<and> n \<le> 70 then Some (n - 55)
     else None)"

definition to_digit :: "nat \<Rightarrow> char \<Rightarrow> nat option" where
  "to_digit radix c = (case hex_val c of Some d \<Rightarrow> if d < radix then Some d else None | None \<Rightarrow> None)"

definition read_number :: "nat \<Rightarrow> nat \<Rightarrow> bool \<Rightarrow> nat \<Rightarrow> string \<Rightarrow> (nat \<times> string) option" where
  "read_number radix max_digits allow_zero_prefix bound s =
     (let ds = takeWhile (\<lambda>c. to_digit radix c \<noteq> None) s;
          v = foldl (\<lambda>n c. n * radix + the (to_digit radix c)) 0 ds
      in if ds = [] \<or> length ds > max_digits then None
         else if \<not> allow_zero_prefix \<and> hd ds = CHR ''0'' \<and> length ds > 1 then None
         else if v < bound then Some (v, drop (length ds) s) else None)"

definition read_char :: "char \<Rightarrow> string \<Rightarrow> string option" where
  "read_char c s = (case s of [] \<Rightarrow> None | d # t \<Rightarrow> if d = c then Some t else None)"

definition read_separator ::
  "char \<Rightarrow> nat \<Rightarrow> (string \<Rightarrow> ('a \<times> string) option) \<Rightarrow> string \<Rightarrow> ('a \<times> string) option" where
  "read_separator sep i inner s =
     (if 0 < i then Option.bind (read_char sep s) inner else inner s)"

definition read_ipv4 :: "string \<Rightarrow> (nat list \<times> string) option" where
  "read_ipv4 s =
     (let octet = (\<lambda>i. read_separator CHR ''.'' i (read_number 10 3 False 256))
      in Option.bind (octet 0 s) (\<lambda>(a, s).
         Option.bind (octet 1 s) (\<lambda>(b, s).
         Option.bind (octet 2 s) (\<lambda>(c, s).
         Option.bind (octet 3 s) (\<lambda>(d, s). Some ([a, b, c, d], s))))))"

function read_groups :: "nat \<Rightarrow> nat \<Rightarrow> string \<Rightarrow> nat list \<times> bool \<times> string" where
  "read_groups limit i s =
     (if limit \<le> i then ([], False, s)
      else (case (if i < limit - 1 then read_separator CHR '':'' i read_ipv4 s else None) of
          Some (v4, s') \<Rightarrow> ([v4 ! 0 * 256 + v4 ! 1, v4 ! 2 * 256 + v4 ! 3], True, s')
        | None \<Rightarrow>
          (case read_separator CHR '':'' i (read_number 16 4 True 65536) s of
             None \<Rightarrow> ([], False, s)
           | Some (g, s') \<Rightarrow>
               (case read_groups limit (Suc i) s' of (gs, v4, s'') \<Rightarrow> (g # gs, v4, s'')))))"
  by pat_completeness auto
termination
  by (relation "measure (\<lambda>(limit, i, s). limit - i)") auto

declare read_groups.simps [simp del]

definition read_ipv6 :: "string \<Rightarrow> (nat list \<times> string) option" where
  "read_ipv6 s =
     (case read_groups 8 0 s of (head, head_v4, s1) \<Rightarrow>
        if length head = 8 then Some (head, s1)
        else if head_v4 then None
        else Option.bind (read_char CHR '':'' s1) (\<lambda>s2.
             Option.bind (read_char CHR '':'' s2) (\<lambda>s3.
               (case read_groups (8 - (length head + 1)) 0 s3 of (tail, _, s4) \<Rightarrow>
                  Some (head @ replicate (8 - length head - length tail) 0 @ tail, s4)))))"

definition parse_ip :: "string \<Rightarrow> ip_addr option" where
  "parse_ip s =
     (let r = (case read_ipv4 s of
                 Some (a, t) \<Rightarrow> Some (V4 a, t)
               | None \<Rightarrow> map_option (\<lambda>(a, t). (V6 a, t)) (read_ipv6 s))
      in case r of Some (a, []) \<Rightarrow> Some a | _ \<Rightarrow> None)"

fun is_loopback :: "ip_addr \<Rightarrow> bool" where
  "is_loopback (V4 a) = (a ! 0 = 127)"
| "is_loopback (V6 a) = (a = [0, 0, 0, 0, 0, 0, 0, 1])"

lemma replicate_eval: "replicate (numeral k) x = x # replicate (pred_numeral k) x"
  by (simp add: numeral_eq_Suc)

lemmas parse_ip_eval = parse_ip_def read_ipv4_def read_ipv6_def read_groups.simps
  read_separator_def read_char_def read_number_def to_digit_def hex_val_def byte_val_def
  replicate_eval

text \<open>
  The accessors \<open>scheme()\<close>, \<open>host_str()\<close>, \<open>port()\<close> and \<open>path()\<close> of a parsed URL
  and its text \<open>as_str()\<close>.
\<close>

record url =
  url_scheme :: string
  url_host :: "string option"
  url_port :: "nat option"
  url_path :: string
  url_text :: string

end
