(* ===== verification/Paths.thy ===== *)
theory Paths
  imports Prelude
begin

text \<open>
  \<open>std::path\<close> on Unix as the code uses it, and the lexical path helpers
  (\<open>src/shared/path.rs\<close>, \<open>jar_paths_match\<close> of the cookie-jar resolution,
  \<open>src/shared/profile_snapshot.rs\<close>). Rust compares paths by their components, so a
  path is the list of its components; \<open>parse_path\<close> is \<open>Path::components\<close> of a string.
\<close>

datatype path_component = RootDir | CurDir | ParentDir | Normal string

type_synonym path = "path_component list"

definition is_absolute :: "path \<Rightarrow> bool" where
  "is_absolute p = (case p of RootDir # _ \<Rightarrow> True | _ \<Rightarrow> False)"

definition component_of :: "string \<Rightarrow> path_component list" where
  "component_of s = (if s = [] \<or> s = ''.'' then [] else if s = ''..'' then [ParentDir] else [Normal s])"

text \<open>Repeated separators and inner \<open>.\<close> disappear; a leading \<open>.\<close> stays.\<close>

definition parse_path :: "string \<Rightarrow> path" where
  "parse_path s =
     (if starts_with s ''/'' then RootDir # concat (map component_of (split_on CHR ''/'' s))
      else (case split_on CHR ''/'' s of
              [] \<Rightarrow> []
            | a # rest \<Rightarrow> (if a = ''.'' then [CurDir] else component_of a) @ concat (map component_of rest)))"

text \<open>\<open>PathBuf::push\<close>: an absolute argument replaces the path.\<close>

definition path_push :: "path \<Rightarrow> path \<Rightarrow> path" where
  "path_push p q = (if is_absolute q then q else p @ filter (\<lambda>c. p = [] \<or> c \<noteq> CurDir) q)"

text \<open>\<open>PathBuf::pop\<close>: nothing at the root or the empty path.\<close>

definition path_pop :: "path \<Rightarrow> path" where
  "path_pop p = (if p = [] \<or> last p = RootDir then p else butlast p)"

text \<open>\<open>Path::parent\<close> and \<open>Path::file_name\<close>.\<close>

definition path_parent :: "path \<Rightarrow> path option" where
  "path_parent p = (if p = [] \<or> last p = RootDir then None else Some (butlast p))"

definition path_file_name :: "path \<Rightarrow> string option" where
  "path_file_name p = (if p = [] then None else case last p of Normal s \<Rightarrow> Some s | _ \<Rightarrow> None)"

definition path_with_file_name :: "path \<Rightarrow> string \<Rightarrow> path" where
  "path_with_file_name p n =
     (case path_file_name p of Some _ \<Rightarrow> butlast p @ [Normal n] | None \<Rightarrow> p @ [Normal n])"

text \<open>\<open>absolute_lexical\<close>: \<open>cwd\<close> is what \<open>current_dir()\<close> answers, None when it fails.\<close>

fun lexical_step :: "path \<Rightarrow> path_component \<Rightarrow> path" where
  "lexical_step out RootDir = path_push out [RootDir]"
| "lexical_step out CurDir = out"
| "lexical_step out ParentDir = path_pop out"
| "lexical_step out (Normal part) = path_push out [Normal part]"

definition absolute_lexical :: "path option \<Rightarrow> path \<Rightarrow> path" where
  "absolute_lexical cwd p =
     foldl lexical_step
       (if is_absolute p then [] else (case cwd of Some d \<Rightarrow> d | None \<Rightarrow> [CurDir]))
       p"

definition jar_normalize :: "path \<Rightarrow> path" where
  "jar_normalize p = foldl (\<lambda>out c. if c = CurDir then out else path_push out [c]) [] p"

definition jar_paths_match :: "path \<Rightarrow> path \<Rightarrow> bool" where
  "jar_paths_match a b \<longleftrightarrow> jar_normalize a = jar_normalize b"

text \<open>The sibling names of the atomic writers: \<open>sibling_lock\<close> and \<open>sibling_tmp\<close>.\<close>

definition sibling_lock :: "path \<Rightarrow> path" where
  "sibling_lock p =
     (let name = (case path_file_name p of Some n \<Rightarrow> n | None \<Rightarrow> ''cookies'')
      in path_with_file_name p (name @ ''.lock''))"

definition sibling_tmp :: "path \<Rightarrow> path" where
  "sibling_tmp p =
     (let name = (case path_file_name p of Some n \<Rightarrow> n | None \<Rightarrow> [])
      in path_with_file_name p (name @ ''.tmp''))"

subsection \<open>Lexically normal paths\<close>

definition normal_abs :: "path \<Rightarrow> bool" where
  "normal_abs p = (case p of RootDir # cs \<Rightarrow> list_all (\<lambda>c. \<exists>s. c = Normal s) cs | _ \<Rightarrow> False)"

lemma normal_abs_cases: "normal_abs p \<Longrightarrow> \<exists>ss. p = RootDir # map Normal ss"
  by (auto simp: normal_abs_def list_all_iff split: list.splits path_component.splits)
     (metis ex_map_conv)

lemma normal_abs_Cons: "normal_abs (RootDir # map Normal ss)"
  by (simp add: normal_abs_def list_all_iff)

lemma path_pop_normal: "normal_abs p \<Longrightarrow> normal_abs (path_pop p)"
  by (drule normal_abs_cases)
     (auto simp: path_pop_def normal_abs_def list_all_iff map_butlast [symmetric])

lemma path_push_normal: "normal_abs p \<Longrightarrow> normal_abs (path_push p [Normal s])"
  by (drule normal_abs_cases) (auto simp: path_push_def is_absolute_def normal_abs_def list_all_iff)

lemma lexical_step_normal: "normal_abs out \<Longrightarrow> normal_abs (lexical_step out c)"
  using path_pop_normal [of out] path_push_normal [of out]
  by (cases c) (simp_all, simp add: path_push_def is_absolute_def normal_abs_def)

interpretation lexical_run: invariant_run lexical_step normal_abs
  by unfold_locales (rule lexical_step_normal)

lemma absolute_lexical_normal:
  assumes "is_absolute p \<or> (\<exists>d. cwd = Some d \<and> normal_abs d)"
  shows "normal_abs (absolute_lexical cwd p)"
proof (cases "is_absolute p")
  case True
  then obtain cs where p: "p = RootDir # cs" by (auto simp: is_absolute_def split: list.splits path_component.splits)
  have "lexical_step [] RootDir = [RootDir]" by (simp add: path_push_def is_absolute_def)
  moreover have "normal_abs [RootDir]" by (simp add: normal_abs_def)
  ultimately show ?thesis
    using lexical_run.run_inv by (simp add: absolute_lexical_def p is_absolute_def)
next
  case False
  with assms show ?thesis using lexical_run.run_inv by (auto simp: absolute_lexical_def)
qed

lemma foldl_lexical_normals:
  "out \<noteq> [] \<Longrightarrow> foldl lexical_step out (map Normal ss) = out @ map Normal ss"
  by (induction ss arbitrary: out) (auto simp: path_push_def is_absolute_def)

lemma absolute_lexical_id: "normal_abs p \<Longrightarrow> absolute_lexical cwd p = p"
  by (drule normal_abs_cases)
     (auto simp: absolute_lexical_def is_absolute_def path_push_def foldl_lexical_normals)

lemma jar_normalize_normal: "normal_abs p \<Longrightarrow> jar_normalize p = p"
proof (drule normal_abs_cases, clarify)
  fix ss
  have "foldl (\<lambda>out c. if c = CurDir then out else path_push out [c]) out (map Normal ss) = out @ map Normal ss"
    if "out \<noteq> []" for out :: path
    using that by (induction ss arbitrary: out) (auto simp: path_push_def is_absolute_def)
  then show "jar_normalize (RootDir # map Normal ss) = RootDir # map Normal ss"
    by (simp add: jar_normalize_def path_push_def is_absolute_def)
qed

lemma jar_paths_match_normal: "normal_abs a \<Longrightarrow> normal_abs b \<Longrightarrow> jar_paths_match a b \<longleftrightarrow> a = b"
  by (simp add: jar_paths_match_def jar_normalize_normal)

end
