(* ===== verification/CookieJar.thy ===== *)
theory CookieJar
  imports Errors Net Paths
begin

text \<open>
  The persistent cookie jar (\<open>sdk/profile/cookie_jar.rs\<close>): its entries, which of them apply
  to a URL, merging a \<open>Set-Cookie\<close> in memory, and writing the jar back over a file
  that other processes write too.

  Not in the repository, hence arguments: the public-suffix list (\<open>psl\<close>), the range in
  which \<open>OffsetDateTime::from_unix_timestamp\<close> succeeds (\<open>ts_ok\<close>) and the \<open>Cookie::domain\<close>
  getter of a cookie built with a domain (\<open>dom_get\<close>). The clock is the argument \<open>now\<close>.
\<close>

subsection \<open>Cookies and jar entries\<close>

datatype expiration = Session | DateTime int
datatype same_site = Strict | Lax | SameSiteNone

text \<open>A \<open>cookie::Cookie\<close>, as its getters show it; \<open>max_age\<close> is in nanoseconds.\<close>

record cookie =
  ck_name :: string
  ck_value :: string
  ck_domain :: "string option"
  ck_path :: "string option"
  ck_secure :: "bool option"
  ck_http_only :: "bool option"
  ck_max_age :: "int option"
  ck_expires :: "expiration option"
  ck_same_site :: "same_site option"
  ck_partitioned :: "bool option"

record jar_entry =
  e_name :: string
  e_value :: string
  e_domain :: "string option"
  e_host_only :: bool
  e_path :: "string option"
  e_expires :: "int option"
  e_secure :: bool
  e_http_only :: bool
  e_same_site :: "string option"

record redacted_cookie =
  rc_name :: string
  rc_domain :: "string option"
  rc_path :: "string option"
  rc_expires :: "int option"
  rc_secure :: bool
  rc_http_only :: bool
  rc_same_site :: "string option"

record cookie_jar =
  jar_path :: path
  jar_entries :: "jar_entry list"
  jar_updated :: "nat set"

text \<open>What reading the jar file finds.\<close>

datatype jar_file =
    NoFile
  | EmptyFile
  | JarJson "jar_entry list"
  | NotJson
  | Unreadable

subsection \<open>Matching\<close>

definition domain_matches :: "string option \<Rightarrow> bool \<Rightarrow> string \<Rightarrow> bool" where
  "domain_matches cookie_domain host_only host =
     (let host = to_ascii_lowercase (trim_start_char CHR ''.'' host)
      in case cookie_domain of
           Some d \<Rightarrow>
             (let d = to_ascii_lowercase (trim_start_char CHR ''.'' d)
              in if host_only then host = d
                 else host = d \<or> ends_with host (''.'' @ d))
         | None \<Rightarrow> False)"

definition path_matches :: "string option \<Rightarrow> string \<Rightarrow> bool" where
  "path_matches cookie_path request_path =
     (let cp = (case cookie_path of Some p \<Rightarrow> p | None \<Rightarrow> ''/'')
      in if cp = request_path then True
         else (case strip_prefix cp request_path of
                 Some rest \<Rightarrow> ends_with cp ''/'' \<or> starts_with rest ''/''
               | None \<Rightarrow> False))"

definition same_identity :: "jar_entry \<Rightarrow> jar_entry \<Rightarrow> bool" where
  "same_identity a b \<longleftrightarrow>
     e_name a = e_name b
     \<and> eq_ignore_ascii_case (case e_domain a of Some d \<Rightarrow> d | None \<Rightarrow> [])
                            (case e_domain b of Some d \<Rightarrow> d | None \<Rightarrow> [])
     \<and> (case e_path a of Some p \<Rightarrow> p | None \<Rightarrow> ''/'') = (case e_path b of Some p \<Rightarrow> p | None \<Rightarrow> ''/'')"

definition same_content :: "jar_entry \<Rightarrow> jar_entry \<Rightarrow> bool" where
  "same_content a b \<longleftrightarrow>
     same_identity a b
     \<and> e_value a = e_value b
     \<and> e_host_only a = e_host_only b
     \<and> e_expires a = e_expires b
     \<and> e_secure a = e_secure b
     \<and> e_http_only a = e_http_only b"

definition is_expired :: "int \<Rightarrow> jar_entry \<Rightarrow> bool" where
  "is_expired now e = (case e_expires e of Some t \<Rightarrow> t \<le> now | None \<Rightarrow> False)"

text \<open>The default path of a \<open>Set-Cookie\<close> without one: the URL's path up to its last slash.\<close>

definition default_path :: "url \<Rightarrow> string" where
  "default_path u =
     (let path = url_path u
      in if \<not> starts_with path ''/'' then ''/''
         else (case rposition (\<lambda>c. c = CHR ''/'') path of
                 Some idx \<Rightarrow> if idx = 0 then ''/'' else take idx path
               | None \<Rightarrow> ''/''))"

text \<open>May a response from \<open>host\<close> set a cookie for \<open>cookie_domain\<close>?\<close>

definition may_set_domain :: "(string \<Rightarrow> string option) \<Rightarrow> string option \<Rightarrow> string \<Rightarrow> bool" where
  "may_set_domain psl cookie_domain host =
     (case cookie_domain of
        None \<Rightarrow> True
      | Some domain \<Rightarrow>
         (let domain = to_ascii_lowercase (trim_start_char CHR ''.'' domain);
              host = to_ascii_lowercase (trim_start_char CHR ''.'' host)
          in if domain = [] \<or> ends_with domain ''.'' then False
             else if parse_ip host \<noteq> None then False
             else if \<not> contains domain ''.'' \<or> psl domain = Some domain then False
             else host = domain \<or> ends_with host (''.'' @ domain)))"

subsection \<open>Entries from cookies and back\<close>

text \<open>\<open>Duration::whole_seconds\<close> truncates towards zero; only positive ages reach it.\<close>

definition from_set_cookie :: "int \<Rightarrow> cookie \<Rightarrow> url \<Rightarrow> jar_entry" where
  "from_set_cookie now c u =
     \<lparr> e_name = ck_name c,
       e_value = ck_value c,
       e_domain = (case ck_domain c of
                     Some d \<Rightarrow> Some (to_ascii_lowercase (trim_start_char CHR ''.'' d))
                   | None \<Rightarrow> url_host u),
       e_host_only = (ck_domain c = None),
       e_path = (case ck_path c of
                   Some p \<Rightarrow> if starts_with p ''/'' then Some p else Some (default_path u)
                 | None \<Rightarrow> Some (default_path u)),
       e_expires = (case ck_max_age c of
                      Some age \<Rightarrow>
                        if 0 < age then Some (sat_i64_add now (age div 1000000000)) else Some 0
                    | None \<Rightarrow>
                        (case ck_expires c of
                           Some (DateTime dt) \<Rightarrow> Some dt
                         | Some Session \<Rightarrow> None
                         | None \<Rightarrow> None)),
       e_secure = (ck_secure c = Some True),
       e_http_only = (ck_http_only c = Some True),
       e_same_site = map_option (\<lambda>s. case s of Strict \<Rightarrow> ''Strict'' | Lax \<Rightarrow> ''Lax''
                                              | SameSiteNone \<Rightarrow> ''None'') (ck_same_site c) \<rparr>"

definition to_cookie :: "(int \<Rightarrow> bool) \<Rightarrow> (string \<Rightarrow> string) \<Rightarrow> jar_entry \<Rightarrow> cookie" where
  "to_cookie ts_ok dom_get e =
     \<lparr> ck_name = e_name e,
       ck_value = e_value e,
       ck_domain = (case e_domain e of
                      Some d \<Rightarrow> if \<not> e_host_only e then Some (dom_get d) else None
                    | None \<Rightarrow> None),
       ck_path = e_path e,
       ck_secure = (if e_secure e then Some True else None),
       ck_http_only = (if e_http_only e then Some True else None),
       ck_max_age = None,
       ck_expires = (case e_expires e of
                       Some t \<Rightarrow> if ts_ok t then Some (DateTime t) else None
                     | None \<Rightarrow> None),
       ck_same_site = (case e_same_site e of
                         Some s \<Rightarrow> if s = ''Strict'' then Some Strict
                                  else if s = ''Lax'' then Some Lax
                                  else if s = ''None'' then Some SameSiteNone
                                  else None
                       | None \<Rightarrow> None),
       ck_partitioned = None \<rparr>"

subsection \<open>The jar\<close>

definition load :: "path \<Rightarrow> jar_file \<Rightarrow> cookie_jar result" where
  "load path file =
     and_then
       (case file of
          EmptyFile \<Rightarrow> Inr []
        | JarJson es \<Rightarrow> Inr es
        | NotJson \<Rightarrow> fail IoError ''cookie jar {}: parse error: {e}''
        | NoFile \<Rightarrow> Inr []
        | Unreadable \<Rightarrow> fail IoError ''cookie jar {}: read error: {e}'')
       (\<lambda>entries. Inr \<lparr> jar_path = path, jar_entries = entries, jar_updated = {} \<rparr>)"

definition applicable_entry :: "int \<Rightarrow> url \<Rightarrow> jar_entry \<Rightarrow> bool" where
  "applicable_entry now u e \<longleftrightarrow>
     \<not> is_expired now e
     \<and> (\<not> e_secure e \<or> url_scheme u = ''https'')
     \<and> domain_matches (e_domain e) (e_host_only e) (case url_host u of Some h \<Rightarrow> h | None \<Rightarrow> [])
     \<and> path_matches (e_path e) (url_path u)"

definition applicable_cookies ::
  "(int \<Rightarrow> bool) \<Rightarrow> (string \<Rightarrow> string) \<Rightarrow> int \<Rightarrow> cookie_jar \<Rightarrow> url \<Rightarrow> cookie list" where
  "applicable_cookies ts_ok dom_get now jar u =
     map (to_cookie ts_ok dom_get) (filter (applicable_entry now u) (jar_entries jar))"

text \<open>Store an entry in memory and mark its index as changed by this jar.\<close>

definition put_entry :: "jar_entry \<Rightarrow> cookie_jar \<Rightarrow> cookie_jar" where
  "put_entry entry jar =
     (case position (\<lambda>e. same_identity e entry) (jar_entries jar) of
        Some idx \<Rightarrow> jar\<lparr> jar_entries := (jar_entries jar)[idx := entry],
                         jar_updated := insert idx (jar_updated jar) \<rparr>
      | None \<Rightarrow> jar\<lparr> jar_updated := insert (length (jar_entries jar)) (jar_updated jar),
                     jar_entries := jar_entries jar @ [entry] \<rparr>)"

definition merge ::
  "(string \<Rightarrow> string option) \<Rightarrow> int \<Rightarrow> cookie \<Rightarrow> url \<Rightarrow> cookie_jar \<Rightarrow> bool \<times> cookie_jar" where
  "merge psl now set_cookie u jar =
     (case url_host u of
        None \<Rightarrow> (False, jar)
      | Some host \<Rightarrow>
          if \<not> may_set_domain psl (ck_domain set_cookie) host then (False, jar)
          else (True, put_entry (from_set_cookie now set_cookie u) jar))"

definition merge_response ::
  "(string \<Rightarrow> string option) \<Rightarrow> int \<Rightarrow> cookie \<Rightarrow> url \<Rightarrow> cookie_jar \<Rightarrow> bool \<times> cookie_jar" where
  "merge_response psl now set_cookie u jar =
     (if url_scheme u \<noteq> ''https'' then
        if ck_secure set_cookie = Some True then (False, jar)
        else (let entry = from_set_cookie now set_cookie u;
                  shadows_secure = list_ex (\<lambda>x. e_secure x \<and> same_identity x entry) (jar_entries jar)
              in if shadows_secure then (False, jar) else merge psl now set_cookie u jar)
      else merge psl now set_cookie u jar)"

definition holds_unchanged :: "int \<Rightarrow> cookie \<Rightarrow> url \<Rightarrow> cookie_jar \<Rightarrow> bool" where
  "holds_unchanged now c u jar =
     (let entry = from_set_cookie now c u
      in list_ex (\<lambda>e. same_content e entry) (jar_entries jar))"

definition prune_expired :: "int \<Rightarrow> cookie_jar \<Rightarrow> cookie_jar" where
  "prune_expired now jar =
     jar\<lparr> jar_entries := filter (\<lambda>e. \<not> is_expired now e) (jar_entries jar) \<rparr>"

definition cookies_redacted :: "int \<Rightarrow> cookie_jar \<Rightarrow> redacted_cookie list" where
  "cookies_redacted now jar =
     map (\<lambda>e. \<lparr> rc_name = e_name e, rc_domain = e_domain e, rc_path = e_path e,
                rc_expires = e_expires e, rc_secure = e_secure e,
                rc_http_only = e_http_only e, rc_same_site = e_same_site e \<rparr>)
         (filter (\<lambda>e. \<not> is_expired now e) (jar_entries jar))"

text \<open>
  \<open>persist\<close>: the outcomes of the file-system calls it makes before the rename are the
  record \<open>jar_io\<close>; the file it finds under the lock is the argument \<open>file\<close>, the file
  it leaves the second result. The rename is atomic, so a failed write leaves \<open>file\<close>.
\<close>

record jar_io =
  io_create_dir :: bool
  io_open_lock :: bool
  io_lock :: bool
  io_serialize :: bool
  io_write :: bool

definition merge_updated :: "jar_entry list \<Rightarrow> cookie_jar \<Rightarrow> jar_entry list" where
  "merge_updated on_disk jar =
     foldl (\<lambda>merged (index, entry).
              if index \<notin> jar_updated jar then merged
              else (case position (\<lambda>e. same_identity e entry) merged of
                      Some idx \<Rightarrow> merged[idx := entry]
                    | None \<Rightarrow> merged @ [entry]))
           on_disk (List.enumerate 0 (jar_entries jar))"

definition persist :: "jar_io \<Rightarrow> int \<Rightarrow> jar_file \<Rightarrow> cookie_jar \<Rightarrow> unit result \<times> jar_file" where
  "persist io now file jar =
     (case path_parent (jar_path jar) of
        None \<Rightarrow> (fail IoError ''cookie jar {} has no parent dir'', file)
      | Some parent \<Rightarrow>
          if \<not> io_create_dir io then (fail IoError ''create cookie jar dir {}: {e}'', file)
          else if \<not> io_open_lock io then (fail IoError ''open cookie jar lock {}: {e}'', file)
          else if \<not> io_lock io then (fail IoError ''acquire cookie jar lock {}: {e}'', file)
          else (case load (jar_path jar) file of
                  Inl e \<Rightarrow> (Inl e, file)
                | Inr on_disk \<Rightarrow>
                   (let merged = merge_updated (jar_entries on_disk) jar;
                        jar' = prune_expired now (jar\<lparr> jar_entries := merged \<rparr>)
                    in if \<not> io_serialize io then (fail IoError ''serialize cookie jar: {e}'', file)
                       else if \<not> io_write io then (fail IoError ''write cookie jar {}: {e}'', file)
                       else (Inr (), JarJson (jar_entries jar')))))"

subsection \<open>Identity, and the jar as a map\<close>

text \<open>
  The abstract jar: at most one cookie per identity (name, lower-case domain, path).
  \<open>jar_view\<close> is the abstraction function; \<open>changed\<close> the part of it this process wrote.
\<close>

type_synonym cookie_id = "string \<times> string \<times> string"

definition jar_id :: "jar_entry \<Rightarrow> cookie_id" where
  "jar_id e = (e_name e, to_ascii_lowercase (case e_domain e of Some d \<Rightarrow> d | None \<Rightarrow> []),
               (case e_path e of Some p \<Rightarrow> p | None \<Rightarrow> ''/''))"

definition jar_view :: "jar_entry list \<Rightarrow> cookie_id \<Rightarrow> jar_entry option" where
  "jar_view es i = find (\<lambda>e. jar_id e = i) es"

definition changed :: "cookie_jar \<Rightarrow> cookie_id \<Rightarrow> jar_entry option" where
  "changed jar i =
     (case position (\<lambda>e. jar_id e = i) (jar_entries jar) of
        Some k \<Rightarrow> if k \<in> jar_updated jar then Some (jar_entries jar ! k) else None
      | None \<Rightarrow> None)"

definition live :: "int \<Rightarrow> (cookie_id \<Rightarrow> jar_entry option) \<Rightarrow> cookie_id \<Rightarrow> jar_entry option" where
  "live now m i = (case m i of Some e \<Rightarrow> if is_expired now e then None else Some e | None \<Rightarrow> None)"

definition jar_ok :: "cookie_jar \<Rightarrow> bool" where
  "jar_ok jar \<longleftrightarrow> no_dup same_identity (jar_entries jar)
                 \<and> (\<forall>k \<in> jar_updated jar. k < length (jar_entries jar))"

definition disk_entries :: "jar_file \<Rightarrow> jar_entry list option" where
  "disk_entries file = (case file of NoFile \<Rightarrow> Some [] | EmptyFile \<Rightarrow> Some []
                        | JarJson es \<Rightarrow> Some es | NotJson \<Rightarrow> None | Unreadable \<Rightarrow> None)"

lemma same_identity_iff: "same_identity a b \<longleftrightarrow> jar_id a = jar_id b"
  by (auto simp: same_identity_def jar_id_def eq_ignore_ascii_case_def)

interpretation jar: entry_identity same_identity
  by unfold_locales (auto simp: same_identity_iff)

lemma no_dup_distinct: "no_dup same_identity es \<longleftrightarrow> distinct (map jar_id es)"
proof
  assume nd: "no_dup same_identity es"
  show "distinct (map jar_id es)"
    unfolding distinct_conv_nth
  proof (intro allI impI)
    fix i j assume "i < length (map jar_id es)" "j < length (map jar_id es)" "i \<noteq> j"
    then have "i < j \<and> j < length es \<or> j < i \<and> i < length es" by auto
    with nd show "map jar_id es ! i \<noteq> map jar_id es ! j"
      unfolding no_dup_def same_identity_iff by (metis length_map nth_map order.strict_trans)
  qed
qed (auto simp: no_dup_def same_identity_iff distinct_conv_nth)

lemma put_entry_entries [simp]: "jar_entries (put_entry e jar) = upsert same_identity e (jar_entries jar)"
  by (simp add: put_entry_def upsert_def split: option.splits del: position_None)

lemma put_entry_path [simp]: "jar_path (put_entry e jar) = jar_path jar"
  by (simp add: put_entry_def split: option.splits)

lemma jar_view_upsert: "jar_view (upsert same_identity e xs) = (jar_view xs)(jar_id e \<mapsto> e)"
proof
  fix i
  show "jar_view (upsert same_identity e xs) i = ((jar_view xs)(jar_id e \<mapsto> e)) i"
    by (induction xs) (auto simp: jar_view_def same_identity_iff)
qed

lemma jar_view_id: "jar_view es i = Some e \<Longrightarrow> jar_id e = i \<and> e \<in> set es"
  by (auto simp: jar_view_def find_Some_iff)

lemma fresh_id: "jar_id e \<notin> jar_id ` set es \<Longrightarrow> x \<in> set es \<Longrightarrow> jar_id x \<noteq> jar_id e"
  by (metis imageI)

lemma jar_view_filter:
  assumes "distinct (map jar_id es)"
  shows "jar_view (filter P es) i = (case jar_view es i of Some e \<Rightarrow> if P e then Some e else None | None \<Rightarrow> None)"
  using assms
proof (induction es)
  case (Cons e es)
  have none: "jar_view es (jar_id e) = None"
    using Cons.prems by (auto simp: jar_view_def find_None_iff dest: fresh_id)
  from Cons show ?case
    by (cases "jar_id e = i") (auto simp: jar_view_def none [unfolded jar_view_def])
qed (simp add: jar_view_def)

lemma position_map: "position (\<lambda>x. f x = i) xs = position (\<lambda>y. y = i) (map f xs)"
  by (induction xs) auto

lemma position_append:
  "position P (xs @ ys) = (case position P xs of Some k \<Rightarrow> Some k
                           | None \<Rightarrow> map_option (\<lambda>k. length xs + k) (position P ys))"
  by (induction xs) (cases "position P ys"; auto split: option.splits simp del: position_None)+

lemma jar_ok_put_entry: "jar_ok jar \<Longrightarrow> jar_ok (put_entry e jar)"
  by (auto simp: jar_ok_def jar.no_dup_upsert jar.length_upsert)
     (auto simp: put_entry_def split: option.splits dest!: position_Some)

lemma changed_put_entry:
  assumes "jar_ok jar"
  shows "changed (put_entry e jar) = (changed jar)(jar_id e \<mapsto> e)"
proof (cases "position (\<lambda>x. same_identity x e) (jar_entries jar)")
  case None
  then have none: "position (\<lambda>x. jar_id x = jar_id e) (jar_entries jar) = None"
    by (simp add: same_identity_iff)
  from assms have "length (jar_entries jar) \<notin> jar_updated jar" by (auto simp: jar_ok_def)
  then show ?thesis
    using None none
    by (auto simp: fun_eq_iff changed_def put_entry_def position_append nth_append
             simp del: position_None dest: position_Some split: option.splits)
next
  case (Some k)
  let ?es = "jar_entries jar"
  from position_Some [OF Some] have k: "k < length ?es" "jar_id (?es ! k) = jar_id e"
    by (auto simp: same_identity_iff)
  have pos: "position (\<lambda>x. jar_id x = i) (?es[k := e]) = position (\<lambda>x. jar_id x = i) ?es" for i
    using k by (subst (1 2) position_map) (metis list_update_id map_update nth_map)
  have here: "position (\<lambda>x. jar_id x = jar_id e) ?es = Some k"
    using Some by (simp add: same_identity_iff)
  have there: "position (\<lambda>x. jar_id x = i) ?es \<noteq> Some k" if "i \<noteq> jar_id e" for i
    using position_Some [of "\<lambda>x. jar_id x = i" ?es k] that k by auto
  show ?thesis
  proof
    fix i
    show "changed (put_entry e jar) i = ((changed jar)(jar_id e \<mapsto> e)) i"
      using k here there [of i]
      by (cases "i = jar_id e")
         (auto simp: changed_def put_entry_def Some pos nth_list_update
               simp del: position_None split: option.splits)
  qed
qed

lemma merge_updated_view:
  assumes "distinct (map jar_id es)"
  shows "jar_view (foldl (\<lambda>merged (index, entry).
              if index \<notin> U then merged
              else (case position (\<lambda>e. same_identity e entry) merged of
                      Some idx \<Rightarrow> merged[idx := entry]
                    | None \<Rightarrow> merged @ [entry])) disk (List.enumerate n es)) i
         = (case position (\<lambda>e. jar_id e = i) es of
              Some k \<Rightarrow> if n + k \<in> U then Some (es ! k) else jar_view disk i
            | None \<Rightarrow> jar_view disk i)"
  using assms
proof (induction es arbitrary: disk n)
  case (Cons e es)
  have none: "position (\<lambda>x. jar_id x = jar_id e) es = None"
    using Cons.prems by (auto dest: fresh_id)
  from Cons show ?case
    by (auto simp: upsert_def [symmetric] jar_view_upsert none simp del: position_None
             split: option.splits)
qed simp

lemma merge_updated_no_dup:
  assumes "no_dup same_identity disk"
  shows "no_dup same_identity (merge_updated disk jar)"
  using assms unfolding merge_updated_def
  by (intro foldl_invariant [where P = "no_dup same_identity"])
     (auto simp: upsert_def [symmetric] jar.no_dup_upsert)

subsection \<open>Writing the jar back\<close>

lemma load_disk: "disk_entries file = Some disk \<Longrightarrow>
    load path file = Inr \<lparr> jar_path = path, jar_entries = disk, jar_updated = {} \<rparr>"
  by (auto simp: load_def disk_entries_def split: jar_file.splits)

lemma load_Inr: "load path file = Inr jar \<longleftrightarrow>
    (\<exists>disk. disk_entries file = Some disk
          \<and> jar = \<lparr> jar_path = path, jar_entries = disk, jar_updated = {} \<rparr>)"
  by (auto simp: load_def disk_entries_def split: jar_file.splits)

lemma changed_load: "load path file = Inr jar \<Longrightarrow> changed jar = Map.empty"
  by (auto simp: load_Inr changed_def fun_eq_iff simp del: position_None split: option.splits)

lemma jar_ok_load:
  "load path file = Inr jar \<Longrightarrow> disk_entries file = Some disk \<Longrightarrow> no_dup same_identity disk \<Longrightarrow> jar_ok jar"
  by (auto simp: load_Inr jar_ok_def)

lemma merge_updated_map:
  assumes "jar_ok jar"
  shows "jar_view (merge_updated disk jar) = jar_view disk ++ changed jar"
proof
  fix i
  have "distinct (map jar_id (jar_entries jar))"
    using assms by (simp add: jar_ok_def no_dup_distinct)
  from merge_updated_view [OF this, of "jar_updated jar" disk 0 i]
  show "jar_view (merge_updated disk jar) i = (jar_view disk ++ changed jar) i"
    by (auto simp: merge_updated_def changed_def map_add_def simp del: position_None
             split: option.splits)
qed

lemma persist_Inr:
  assumes "persist io now file jar = (Inr (), file')"
  obtains disk where "disk_entries file = Some disk"
    and "file' = JarJson (filter (\<lambda>e. \<not> is_expired now e) (merge_updated disk jar))"
  using assms
  by (auto simp: persist_def load_Inr prune_expired_def Let_def split: option.splits if_splits sum.splits)

lemma live_filter:
  "distinct (map jar_id es) \<Longrightarrow> jar_view (filter (\<lambda>e. \<not> is_expired now e) es) = live now (jar_view es)"
  by (auto simp: fun_eq_iff jar_view_filter live_def split: option.splits)

lemma persist_refines_map:
  assumes "jar_ok jar" and "disk_entries file = Some disk" and "no_dup same_identity disk"
    and "persist io now file jar = (Inr (), file')"
  shows "\<exists>es. file' = JarJson es \<and> no_dup same_identity es
              \<and> jar_view es = live now (jar_view disk ++ changed jar)"
proof -
  from assms(4) obtain disk' where d: "disk_entries file = Some disk'"
    and f: "file' = JarJson (filter (\<lambda>e. \<not> is_expired now e) (merge_updated disk' jar))"
    by (rule persist_Inr)
  from d assms(2) have [simp]: "disk' = disk" by simp
  have dist: "distinct (map jar_id (merge_updated disk jar))"
    using merge_updated_no_dup [OF assms(3)] by (simp add: no_dup_distinct)
  then have "no_dup same_identity (filter (\<lambda>e. \<not> is_expired now e) (merge_updated disk jar))"
    by (simp add: no_dup_distinct distinct_map_filter)
  with f live_filter [OF dist] merge_updated_map [OF assms(1)] show ?thesis by auto
qed

text \<open>
  C14. A successful \<open>persist\<close> implements the update of a map: the file afterwards is the file
  found under the lock, overridden by exactly the entries this jar changed, with the expired
  ones removed afterwards. So nothing another process wrote since the load is lost, nothing
  this jar only read is replayed, and no two entries of the file are the same cookie.
\<close>

theorem persist_refines_map_update:
  assumes "jar_ok jar" and "disk_entries file = Some disk" and "no_dup same_identity disk"
    and "persist io now file jar = (Inr (), file')"
  shows "\<exists>es. file' = JarJson es \<and> no_dup same_identity es
              \<and> jar_view es = live now (jar_view disk ++ changed jar)"
  using assms by (rule persist_refines_map)

lemma merge_put:
  "merge psl now c u jar = (True, jar') \<Longrightarrow> jar' = put_entry (from_set_cookie now c u) jar"
  by (auto simp: merge_def split: option.splits if_splits)

lemma merge_result:
  "snd (merge psl now c u jar) = jar \<or> snd (merge psl now c u jar) = put_entry (from_set_cookie now c u) jar"
  by (auto simp: merge_def split: option.splits)

lemma merge_response_result:
  "snd (merge_response psl now c u jar) = jar
   \<or> snd (merge_response psl now c u jar) = put_entry (from_set_cookie now c u) jar"
  using merge_result by (auto simp: merge_response_def Let_def)

lemma jar_path_merge [simp]:
  "jar_path (snd (merge psl now c u jar)) = jar_path jar"
  "jar_path (snd (merge_response psl now c u jar)) = jar_path jar"
  using merge_result [of psl now c u jar] merge_response_result [of psl now c u jar] by auto

lemma merge_responseD: "fst (merge_response psl now c u jar) \<Longrightarrow> merge_response psl now c u jar = merge psl now c u jar"
  by (auto simp: merge_response_def Let_def split: if_splits)

lemma jar_ok_merge: "jar_ok jar \<Longrightarrow> jar_ok (snd (merge psl now c u jar))"
  using merge_result [of psl now c u jar] by (auto intro: jar_ok_put_entry)

lemma jar_ok_merge_response: "jar_ok jar \<Longrightarrow> jar_ok (snd (merge_response psl now c u jar))"
  using merge_response_result [of psl now c u jar] by (auto intro: jar_ok_put_entry)

text \<open>
  A deletion wins: after an accepted \<open>Set-Cookie\<close> whose \<open>Max-Age\<close> is zero or negative,
  a successful \<open>persist\<close> leaves no entry of that identity in the file, whatever other
  processes wrote meanwhile; every other identity is kept as the file under the lock had it.
\<close>

theorem deletion_reaches_the_file:
  assumes "jar_ok jar" and "changed jar = Map.empty"
    and "merge psl t c u jar = (True, jar')" and "ck_max_age c = Some age" and "age \<le> 0" and "0 \<le> now"
    and "disk_entries file = Some disk" and "no_dup same_identity disk"
    and "persist io now file jar' = (Inr (), file')"
  shows "\<exists>es. file' = JarJson es \<and> jar_view es (jar_id (from_set_cookie t c u)) = None
              \<and> (\<forall>i. i \<noteq> jar_id (from_set_cookie t c u) \<longrightarrow> jar_view es i = live now (jar_view disk) i)"
proof -
  let ?e = "from_set_cookie t c u"
  have expired: "is_expired now ?e" using assms(4-6) by (simp add: from_set_cookie_def is_expired_def)
  have jar': "jar' = put_entry ?e jar" using assms(3) by (rule merge_put)
  have ch: "changed jar' = [jar_id ?e \<mapsto> ?e]" by (simp add: jar' changed_put_entry assms(1,2))
  from persist_refines_map [OF jar_ok_put_entry [OF assms(1)] assms(7,8) assms(9) [unfolded jar']]
  obtain es where es: "file' = JarJson es" "jar_view es = live now (jar_view disk ++ changed jar')"
    by (auto simp: jar')
  have "jar_view es (jar_id ?e) = None" using expired by (simp add: es(2) ch live_def)
  moreover have "jar_view es i = live now (jar_view disk) i" if "i \<noteq> jar_id ?e" for i
    using that by (simp add: es(2) ch live_def map_add_def)
  ultimately show ?thesis using es(1) by blast
qed

subsection \<open>Which cookies go where\<close>

text \<open>A response processed by the jar: \<open>merge_response\<close> or, for the browser's cookies, \<open>merge\<close>.\<close>

datatype jar_event = Response int cookie url | Browser int cookie url

fun jar_step :: "(string \<Rightarrow> string option) \<Rightarrow> cookie_jar \<Rightarrow> jar_event \<Rightarrow> cookie_jar" where
  "jar_step psl jar (Response now c u) = snd (merge_response psl now c u jar)"
| "jar_step psl jar (Browser now c u) = snd (merge psl now c u jar)"

fun event_sets :: "(string \<Rightarrow> string option) \<Rightarrow> jar_event \<Rightarrow> url \<Rightarrow> cookie \<Rightarrow> jar_entry \<Rightarrow> bool" where
  "event_sets psl (Response now c u) u' c' e \<longleftrightarrow>
     u' = u \<and> c' = c \<and> e = from_set_cookie now c u \<and> (\<exists>h. url_host u = Some h \<and> may_set_domain psl (ck_domain c) h)"
| "event_sets psl (Browser now c u) u' c' e \<longleftrightarrow>
     u' = u \<and> c' = c \<and> e = from_set_cookie now c u \<and> (\<exists>h. url_host u = Some h \<and> may_set_domain psl (ck_domain c) h)"

interpretation jar_run: invariant_run "jar_step psl" jar_ok for psl
proof
  fix s e assume "jar_ok s"
  then show "jar_ok (jar_step psl s e)"
    by (cases e) (auto intro: jar_ok_merge jar_ok_merge_response)
qed

definition norm_host :: "string \<Rightarrow> string" where
  "norm_host h = to_ascii_lowercase (trim_start_char CHR ''.'' h)"

definition under_domain :: "string \<Rightarrow> string \<Rightarrow> bool" where
  "under_domain d h \<longleftrightarrow> norm_host h = d \<or> ends_with (norm_host h) (''.'' @ d)"

lemma trim_start_char_idem [simp]: "trim_start_char c (trim_start_char c s) = trim_start_char c s"
  by (induction s) (auto simp: trim_start_char_def)

lemma lower_trim_dot: "trim_start_char CHR ''.'' (to_ascii_lowercase s) = to_ascii_lowercase (trim_start_char CHR ''.'' s)"
  by (induction s) (auto simp: trim_start_char_def to_ascii_lowercase_def)

lemma norm_host_idem [simp]: "norm_host (norm_host h) = norm_host h"
  by (simp add: norm_host_def lower_trim_dot)

lemma domain_matches_iff:
  "domain_matches cd ho h \<longleftrightarrow>
     (\<exists>d. cd = Some d \<and> (norm_host h = norm_host d \<or> \<not> ho \<and> ends_with (norm_host h) (''.'' @ norm_host d)))"
  by (auto simp: domain_matches_def norm_host_def Let_def split: option.splits)

lemma may_set_domain_iff:
  "may_set_domain psl cd h \<longleftrightarrow>
     (\<forall>d. cd = Some d \<longrightarrow>
        norm_host d \<noteq> [] \<and> \<not> ends_with (norm_host d) ''.'' \<and> parse_ip (norm_host h) = None
        \<and> contains (norm_host d) ''.'' \<and> psl (norm_host d) \<noteq> Some (norm_host d)
        \<and> under_domain (norm_host d) h)"
  by (auto simp: may_set_domain_def norm_host_def under_domain_def Let_def split: option.splits)

lemma jar_step_source:
  "e \<in> set (jar_entries (jar_step psl jar ev)) \<Longrightarrow>
     e \<in> set (jar_entries jar) \<or> (\<exists>u c. event_sets psl ev u c e)"
  by (cases ev)
     (auto simp: merge_response_def merge_def Let_def split: option.splits if_splits
           dest: jar.set_upsert [THEN subsetD])

lemma jar_run_source:
  "e \<in> set (jar_entries (foldl (jar_step psl) jar evs)) \<Longrightarrow>
     e \<in> set (jar_entries jar) \<or> (\<exists>ev \<in> set evs. \<exists>u c. event_sets psl ev u c e)"
proof (induction evs arbitrary: jar)
  case (Cons ev evs)
  from Cons.IH [of "jar_step psl jar ev"] Cons.prems show ?case
    using jar_step_source [of e psl jar ev] by auto
qed simp

lemma event_setsD:
  assumes "event_sets psl ev u c e"
  shows "\<exists>t h. e = from_set_cookie t c u \<and> url_host u = Some h \<and> may_set_domain psl (ck_domain c) h"
  using assms by (cases ev) auto

text \<open>
  C2. No cookie crosses sites. After any sequence of responses merged into an empty jar, an entry
  that is sent to a URL was set by one of those responses, and its host is either the very host
  of the URL (up to case and leading dots) or shares with it a parent domain that has a dot, is
  not a public suffix and was named by the response's host itself, which is not an address.
\<close>

theorem jar_never_crosses_sites:
  assumes "jar_entries jar = []"
    and "e \<in> set (jar_entries (foldl (jar_step psl) jar evs))"
    and "applicable_entry now v e" and "url_host v = Some h2"
  shows "\<exists>ev \<in> set evs. \<exists>u c h. event_sets psl ev u c e \<and> url_host u = Some h \<and>
           (norm_host h2 = norm_host h
            \<or> (\<exists>d. ck_domain c = Some d \<and> under_domain (norm_host d) h \<and> under_domain (norm_host d) h2
                  \<and> contains (norm_host d) ''.'' \<and> psl (norm_host d) \<noteq> Some (norm_host d)
                  \<and> parse_ip (norm_host h) = None))"
proof -
  from jar_run_source [OF assms(2)] assms(1) obtain ev u c
    where ev: "ev \<in> set evs" and sets: "event_sets psl ev u c e" by auto
  from event_setsD [OF sets] obtain t h where e: "e = from_set_cookie t c u"
    and h: "url_host u = Some h" and may: "may_set_domain psl (ck_domain c) h" by blast
  from assms(3,4) have "domain_matches (e_domain e) (e_host_only e) h2"
    by (simp add: applicable_entry_def)
  then have "norm_host h2 = norm_host h
            \<or> (\<exists>d. ck_domain c = Some d \<and> under_domain (norm_host d) h \<and> under_domain (norm_host d) h2
                  \<and> contains (norm_host d) ''.'' \<and> psl (norm_host d) \<noteq> Some (norm_host d)
                  \<and> parse_ip (norm_host h) = None)"
    using may h
    by (cases "ck_domain c")
       (auto simp: e from_set_cookie_def domain_matches_iff may_set_domain_iff
          norm_host_def [symmetric] under_domain_def)
  with ev sets h show ?thesis by blast
qed

text \<open>
  A plaintext response touches no secure cookie: whatever sequence of \<open>Set-Cookie\<close> headers
  arrives over a scheme other than https, the secure entries of the jar stay the same ones, with
  the same values, in the same order, and none is added.
\<close>

theorem plaintext_keeps_secure_entries:
  assumes "\<forall>ev \<in> set evs. \<exists>now c u. ev = Response now c u \<and> url_scheme u \<noteq> ''https''"
  shows "filter e_secure (jar_entries (foldl (jar_step psl) jar evs)) = filter e_secure (jar_entries jar)"
proof -
  have upd: "filter e_secure (upsert same_identity e xs) = filter e_secure xs"
    if "\<not> e_secure e" "\<not> list_ex (\<lambda>x. e_secure x \<and> same_identity x e) xs" for e xs
    using that by (induction xs) (auto simp: same_identity_iff)
  have step: "filter e_secure (jar_entries (jar_step psl j ev)) = filter e_secure (jar_entries j)"
    if "ev \<in> set evs" for ev j
  proof -
    from assms that obtain now c u where ev: "ev = Response now c u" and s: "url_scheme u \<noteq> ''https''"
      by blast
    have "\<not> e_secure (from_set_cookie now c u)" if "ck_secure c \<noteq> Some True"
      using that by (simp add: from_set_cookie_def)
    with s upd show ?thesis
      by (auto simp: ev merge_response_def merge_def Let_def split: option.splits)
  qed
  show ?thesis
    by (rule foldl_invariant [where P = "\<lambda>j. filter e_secure (jar_entries j) = filter e_secure (jar_entries jar)"])
       (simp_all add: step)
qed

lemma starts_slash: "starts_with s ''/'' \<longleftrightarrow> (\<exists>r. s = CHR ''/'' # r)"
  by (simp add: starts_with_iff)

lemma norm_no_dot: "\<not> starts_with (to_ascii_lowercase (trim_start_char CHR ''.'' s)) ''.''"
  by (induction s) (auto simp: trim_start_char_def starts_with_iff to_ascii_lowercase_def Cons_eq_append_conv)

lemma default_path_starts: "starts_with (default_path u) ''/''"
proof (cases "url_path u")
  case (Cons c r)
  then show ?thesis
    by (auto simp: default_path_def starts_slash take_Cons' Let_def split: option.splits)
qed (simp add: default_path_def starts_slash)

lemma default_path_matches:
  assumes "starts_with (url_path u) ''/''"
  shows "path_matches (Some (default_path u)) (url_path u)"
proof (cases "rposition (\<lambda>c. c = CHR ''/'') (url_path u)")
  case None
  then have "CHR ''/'' \<notin> set (url_path u)" by auto
  with assms show ?thesis by (auto simp: starts_slash)
next
  case (Some i)
  let ?p = "url_path u"
  from rposition_Some [OF Some] have i: "i < length ?p" "?p ! i = CHR ''/''" by auto
  show ?thesis
  proof (cases i)
    case 0
    with assms Some show ?thesis
      by (auto simp: path_matches_def default_path_def starts_slash ends_with_iff)
  next
    case (Suc n)
    have "strip_prefix (take i ?p) ?p = Some (drop i ?p)"
      by (simp add: strip_prefix_Some)
    moreover have "starts_with (drop i ?p) ''/''"
      using i by (simp add: starts_slash Cons_nth_drop_Suc [symmetric])
    ultimately show ?thesis
      using assms Some Suc by (simp add: path_matches_def default_path_def Let_def)
  qed
qed

text \<open>
  A cookie goes back to where it came from: once accepted from a URL with an absolute path
  and no usable \<open>Path\<close> attribute, and while it is not expired, the jar offers it for that very
  URL, with its name and value (a \<open>Secure\<close> one if the URL is https).
\<close>

theorem accepted_cookie_returns:
  assumes "merge psl t c u jar = (True, jar')" and "starts_with (url_path u) ''/''"
    and "ck_path c = None" and "\<not> is_expired now (from_set_cookie t c u)"
    and "ck_secure c = Some True \<longrightarrow> url_scheme u = ''https''"
  shows "\<exists>k \<in> set (applicable_cookies ts_ok dom_get now jar' u). ck_name k = ck_name c \<and> ck_value k = ck_value c"
proof -
  let ?e = "from_set_cookie t c u"
  from assms(1) obtain h where h: "url_host u = Some h" and may: "may_set_domain psl (ck_domain c) h"
    by (auto simp: merge_def split: option.splits if_splits)
  have "domain_matches (e_domain ?e) (e_host_only ?e) h"
    using may h
    by (cases "ck_domain c")
       (auto simp: from_set_cookie_def domain_matches_iff may_set_domain_iff norm_host_def [symmetric]
          under_domain_def)
  moreover have "path_matches (e_path ?e) (url_path u)"
    using default_path_matches [OF assms(2)] assms(3) by (simp add: from_set_cookie_def)
  ultimately have "applicable_entry now u ?e"
    using assms(4,5) h by (simp add: applicable_entry_def from_set_cookie_def)
  moreover have "?e \<in> set (jar_entries jar')"
    using merge_put [OF assms(1)] jar.mem_upsert by simp
  moreover have "ck_name (to_cookie ts_ok dom_get ?e) = ck_name c \<and> ck_value (to_cookie ts_ok dom_get ?e) = ck_value c"
    by (simp add: to_cookie_def from_set_cookie_def)
  ultimately show ?thesis by (auto simp: applicable_cookies_def)
qed

text \<open>
  The jar recognises its own cookies: an entry stored from a response of \<open>u\<close> is handed
  to the browser by \<open>to_cookie\<close>, and when the browser reports that cookie back for \<open>u\<close>,
  \<open>holds_unchanged\<close> answers true, at whatever time, so it is not written back as a change.
\<close>

theorem injected_cookie_is_unchanged:
  assumes "event_sets psl ev u c e" and "e \<in> set (jar_entries jar)"
    and "\<forall>t. e_expires e = Some t \<longrightarrow> ts_ok t"
    and "\<forall>s. \<not> starts_with s ''.'' \<longrightarrow> dom_get s = s"
  shows "holds_unchanged now (to_cookie ts_ok dom_get e) u jar"
proof -
  from event_setsD [OF assms(1)] obtain t h where e: "e = from_set_cookie t c u"
    and h: "url_host u = Some h" and may: "may_set_domain psl (ck_domain c) h" by blast
  let ?e' = "from_set_cookie now (to_cookie ts_ok dom_get e) u"
  have path: "starts_with p ''/''" if "e_path e = Some p" for p
  proof (cases "ck_path c")
    case None
    with that show ?thesis using default_path_starts [of u] by (simp add: e from_set_cookie_def)
  next
    case (Some q)
    with that show ?thesis
      using default_path_starts [of u] by (simp add: e from_set_cookie_def split: if_splits)
  qed
  have dom: "dom_get (to_ascii_lowercase (trim_start_char CHR ''.'' d)) = to_ascii_lowercase (trim_start_char CHR ''.'' d)" for d
    using assms(4) norm_no_dot by blast
  have "e_domain ?e' = e_domain e"
    by (cases "ck_domain c") (simp_all add: e from_set_cookie_def to_cookie_def dom lower_trim_dot split: option.split)
  moreover have "e_host_only ?e' = e_host_only e"
    using h by (cases "ck_domain c") (simp_all add: e from_set_cookie_def to_cookie_def)
  moreover have "e_path ?e' = e_path e"
  proof -
    have "e_path e \<noteq> None" by (simp add: e from_set_cookie_def split: option.split)
    then obtain p where "e_path e = Some p" by blast
    with path show ?thesis by (simp add: from_set_cookie_def to_cookie_def)
  qed
  moreover have "e_expires ?e' = e_expires e"
    using assms(3) by (cases "e_expires e") (auto simp: from_set_cookie_def to_cookie_def)
  moreover have "e_name ?e' = e_name e" "e_value ?e' = e_value e" "e_secure ?e' = e_secure e"
    "e_http_only ?e' = e_http_only e"
    by (auto simp: from_set_cookie_def to_cookie_def)
  ultimately have "same_content e ?e'" by (simp add: same_content_def same_identity_def)
  with assms(2) show ?thesis by (auto simp: holds_unchanged_def list_ex_iff Let_def)
qed

subsection \<open>The properties at a concrete input\<close>

definition demo_url :: url where
  "demo_url = \<lparr> url_scheme = ''https'', url_host = Some ''a.ex.com'', url_port = None,
     url_path = ''/x/y'', url_text = ''https://a.ex.com/x/y'' \<rparr>"

definition demo_cookie :: "int option \<Rightarrow> cookie" where
  "demo_cookie age = \<lparr> ck_name = ''s'', ck_value = ''1'', ck_domain = Some ''ex.com'', ck_path = None,
     ck_secure = None, ck_http_only = None, ck_max_age = age, ck_expires = None, ck_same_site = None,
     ck_partitioned = None \<rparr>"

definition demo_jar :: cookie_jar where
  "demo_jar = \<lparr> jar_path = [RootDir, Normal ''j''], jar_entries = [], jar_updated = {} \<rparr>"

definition demo_io :: jar_io where
  "demo_io = \<lparr> io_create_dir = True, io_open_lock = True, io_lock = True,
     io_serialize = True, io_write = True \<rparr>"

lemmas demo_simps = demo_url_def demo_cookie_def demo_jar_def demo_io_def from_set_cookie_def
  Let_def trim_start_char_def to_ascii_lowercase_def ascii_lower_char_def default_path_def
  rposition_def sat_i64_add_def i64_max_def i64_min_def

lemma demo_may_set: "may_set_domain (\<lambda>_. Some ''com'') (Some ''ex.com'') ''a.ex.com''"
  by (simp add: may_set_domain_def Let_def trim_start_char_def to_ascii_lowercase_def
      ascii_lower_char_def ends_with_def starts_with_def contains_def parse_ip_eval)

lemma demo_merge: "merge (\<lambda>_. Some ''com'') 5 (demo_cookie age) demo_url demo_jar
    = (True, put_entry (from_set_cookie 5 (demo_cookie age) demo_url) demo_jar)"
  by (simp add: merge_def demo_url_def demo_cookie_def demo_may_set)

lemma demo_jar_ok: "jar_ok demo_jar" "changed demo_jar = Map.empty"
  by (simp_all add: jar_ok_def demo_jar_def no_dup_def changed_def fun_eq_iff)

theorem persist_refines_map_update_witness:
  "\<exists>es file'. persist demo_io 7 NoFile demo_jar = (Inr (), file') \<and> file' = JarJson es
      \<and> no_dup same_identity es \<and> jar_view es = live 7 (jar_view [] ++ changed demo_jar)"
proof -
  have p: "persist demo_io 7 NoFile demo_jar = (Inr (), JarJson [])"
    by (simp add: persist_def load_def demo_io_def demo_jar_def path_parent_def merge_updated_def
        prune_expired_def)
  show ?thesis
    using persist_refines_map_update [OF demo_jar_ok(1) _ _ p, of "[]"] p
    by (auto simp: disk_entries_def no_dup_def)
qed

theorem deletion_reaches_the_file_witness:
  "\<exists>es. snd (persist demo_io 7 (JarJson [from_set_cookie 5 (demo_cookie None) demo_url])
          (put_entry (from_set_cookie 5 (demo_cookie (Some 0)) demo_url) demo_jar)) = JarJson es
       \<and> jar_view es (jar_id (from_set_cookie 5 (demo_cookie (Some 0)) demo_url)) = None"
proof -
  let ?e = "from_set_cookie 5 (demo_cookie (Some 0)) demo_url"
  let ?f = "JarJson [from_set_cookie 5 (demo_cookie None) demo_url]"
  obtain r f' where p: "persist demo_io 7 ?f (put_entry ?e demo_jar) = (r, f')" by fastforce
  then have "r = Inr ()" by (auto simp: persist_def load_def demo_io_def path_parent_def demo_jar_def Let_def)
  with p have "persist demo_io 7 ?f (put_entry ?e demo_jar) = (Inr (), f')" by simp
  from deletion_reaches_the_file [OF demo_jar_ok demo_merge _ _ _ _ _ this, of 0
      "[from_set_cookie 5 (demo_cookie None) demo_url]"] p
  show ?thesis by (auto simp: disk_entries_def no_dup_def demo_cookie_def)
qed

theorem jar_never_crosses_sites_witness:
  "\<exists>ev u c h. event_sets (\<lambda>_. Some ''com'') ev u c (from_set_cookie 5 (demo_cookie None) demo_url)
      \<and> url_host u = Some h \<and> (norm_host ''ex.com'' = norm_host h \<or> (\<exists>d. under_domain (norm_host d) h))"
proof -
  let ?e = "from_set_cookie 5 (demo_cookie None) demo_url"
  have run: "?e \<in> set (jar_entries (foldl (jar_step (\<lambda>_. Some ''com'')) demo_jar [Browser 5 (demo_cookie None) demo_url]))"
    by (simp add: demo_merge jar.mem_upsert)
  have app: "applicable_entry 6 \<lparr> url_scheme = ''http'', url_host = Some ''ex.com'', url_port = None,
        url_path = ''/x'', url_text = ''http://ex.com/x'' \<rparr> ?e"
    by (simp add: applicable_entry_def is_expired_def demo_simps domain_matches_def path_matches_def
        starts_with_iff)
  show ?thesis
    using jar_never_crosses_sites [OF _ run app] by (fastforce simp: demo_jar_def)
qed

theorem plaintext_keeps_secure_entries_witness:
  "filter e_secure (jar_entries (foldl (jar_step (\<lambda>_. None)) demo_jar
      [Response 5 (demo_cookie None) (demo_url\<lparr> url_scheme := ''http'' \<rparr>)])) = []"
  using plaintext_keeps_secure_entries
    [of "[Response 5 (demo_cookie None) (demo_url\<lparr> url_scheme := ''http'' \<rparr>)]" "\<lambda>_. None" demo_jar]
  by (simp add: demo_jar_def)

theorem accepted_cookie_returns_witness:
  "\<exists>k \<in> set (applicable_cookies (\<lambda>_. True) id 6
       (put_entry (from_set_cookie 5 (demo_cookie None) demo_url) demo_jar) demo_url). ck_value k = ''1''"
proof -
  have "\<not> is_expired 6 (from_set_cookie 5 (demo_cookie None) demo_url)"
    by (simp add: is_expired_def from_set_cookie_def demo_cookie_def)
  from accepted_cookie_returns [OF demo_merge _ _ this, of "\<lambda>_. True" id]
  show ?thesis by (auto simp: demo_url_def demo_cookie_def starts_slash)
qed

theorem injected_cookie_is_unchanged_witness:
  "holds_unchanged 9 (to_cookie (\<lambda>_. True) id (from_set_cookie 5 (demo_cookie (Some 3000000000)) demo_url)) demo_url
     (put_entry (from_set_cookie 5 (demo_cookie (Some 3000000000)) demo_url) demo_jar)"
proof -
  let ?c = "demo_cookie (Some 3000000000)"
  have "event_sets (\<lambda>_. Some ''com'') (Response 5 ?c demo_url) demo_url ?c (from_set_cookie 5 ?c demo_url)"
    using demo_may_set by (simp add: demo_url_def demo_cookie_def)
  from injected_cookie_is_unchanged [OF this, where ts_ok = "\<lambda>_. True" and dom_get = id]
  show ?thesis by (simp add: demo_jar_def)
qed

end
