(* ===== verification/Artifacts.thy ===== *)
theory Artifacts
  imports Paths
begin

text \<open>
  Artifact tokens and where their files go (\<open>src/shared/artifacts.rs\<close>). The derived
  \<open>Ord\<close> of the enum is its declaration order; it is the order of the \<open>BTreeSet\<close> of
  wanted artifacts, a sorted list without repetition here.
\<close>

datatype artifact =
    ABody | RenderedHtml | Text | Content | ContentJson | Screenshot | Network | Console
  | Observation | Storage

fun artifact_rank :: "artifact \<Rightarrow> nat" where
  "artifact_rank ABody = 0"
| "artifact_rank RenderedHtml = 1"
| "artifact_rank Text = 2"
| "artifact_rank Content = 3"
| "artifact_rank ContentJson = 4"
| "artifact_rank Screenshot = 5"
| "artifact_rank Network = 6"
| "artifact_rank Console = 7"
| "artifact_rank Observation = 8"
| "artifact_rank Storage = 9"

lemma artifact_rank_inj: "artifact_rank a = artifact_rank b \<Longrightarrow> a = b"
  by (cases a; cases b) simp_all

instantiation artifact :: linorder
begin

definition less_eq_artifact :: "artifact \<Rightarrow> artifact \<Rightarrow> bool" where
  "less_eq_artifact a b \<longleftrightarrow> artifact_rank a \<le> artifact_rank b"

definition less_artifact :: "artifact \<Rightarrow> artifact \<Rightarrow> bool" where
  "less_artifact a b \<longleftrightarrow> artifact_rank a < artifact_rank b"

instance
  by intro_classes (auto simp: less_eq_artifact_def less_artifact_def dest: artifact_rank_inj)

end

definition http_default :: "artifact list" where
  "http_default = [ABody]"

definition browser_default :: "artifact list" where
  "browser_default =
     [ABody, RenderedHtml, Text, Content, ContentJson, Screenshot, Network, Console, Observation]"

fun filename_template :: "artifact \<Rightarrow> string" where
  "filename_template ABody = ''body''"
| "filename_template RenderedHtml = ''rendered.html''"
| "filename_template Text = ''text.txt''"
| "filename_template Content = ''content.md''"
| "filename_template ContentJson = ''content.json''"
| "filename_template Screenshot = ''page.png''"
| "filename_template Network = ''network.json''"
| "filename_template Console = ''console.json''"
| "filename_template Observation = ''observation.json''"
| "filename_template Storage = ''storage.json''"

fun artifact_str :: "artifact \<Rightarrow> string" where
  "artifact_str ABody = ''body''"
| "artifact_str RenderedHtml = ''rendered_html''"
| "artifact_str Text = ''text''"
| "artifact_str Content = ''content''"
| "artifact_str ContentJson = ''content_json''"
| "artifact_str Screenshot = ''screenshot''"
| "artifact_str Network = ''network''"
| "artifact_str Console = ''console''"
| "artifact_str Observation = ''observation''"
| "artifact_str Storage = ''storage''"

record artifact_paths =
  ap_root :: path

definition artifact_paths_new :: "path option \<Rightarrow> path \<Rightarrow> string \<Rightarrow> artifact_paths" where
  "artifact_paths_new cwd base request_id =
     (let base = absolute_lexical cwd base in \<lparr> ap_root = path_push base (parse_path request_id) \<rparr>)"

definition file_for :: "artifact_paths \<Rightarrow> artifact \<Rightarrow> path" where
  "file_for paths a = path_push (ap_root paths) (parse_path (filename_template a))"

definition network_bodies_dir :: "artifact_paths \<Rightarrow> path" where
  "network_bodies_dir paths = path_push (ap_root paths) (parse_path ''network-bodies'')"

lemma file_for_normal: "file_for paths a = ap_root paths @ [Normal (filename_template a)]"
  by (cases a)
     (simp_all add: file_for_def parse_path_def starts_with_def component_of_def path_push_def is_absolute_def)

lemma filename_template_inj: "filename_template a = filename_template b \<Longrightarrow> a = b"
  by (cases a; cases b) simp_all

lemma artifact_str_inj: "artifact_str a = artifact_str b \<Longrightarrow> a = b"
  by (cases a; cases b) simp_all

lemma file_for_inj: "file_for p a = file_for p b \<longleftrightarrow> a = b"
  by (auto simp: file_for_normal dest: filename_template_inj)

end
