(* ===== verification/FetchTypes.thy ===== *)
theory FetchTypes
  imports Errors Artifacts
begin

text \<open>
  The fetch vocabulary: render, wait and body-capture modes with their parsers
  (\<open>pipeline/mod.rs\<close>, \<open>wait.rs\<close>), readiness (\<open>readiness.rs\<close>), the trace and the result
  envelope with its operations (\<open>result.rs\<close>), and the shell quoting of the command the
  envelope recommends.
\<close>

subsection \<open>Modes and their parsers\<close>

datatype render_mode = RenderNone | RenderAuto | RenderAlways
datatype trace_render_mode = TraceNone | TraceAuto | TraceAlways
datatype network_bodies = BodiesOff | BodiesXhr | BodiesAll
datatype wait =
    WaitAuto | WaitLoad | WaitIdle
  | WaitSelector string | WaitSelectorVisible string | WaitSelectorStable string
  | WaitMs nat

definition render_parse :: "string \<Rightarrow> render_mode result" where
  "render_parse s =
     (if s = ''none'' then Inr RenderNone
      else if s = ''auto'' then Inr RenderAuto
      else if s = ''always'' then Inr RenderAlways
      else fail InvalidArgument ''--render: unknown mode {other:?}; expected none|auto|always'')"

fun as_trace :: "render_mode \<Rightarrow> trace_render_mode" where
  "as_trace RenderNone = TraceNone"
| "as_trace RenderAuto = TraceAuto"
| "as_trace RenderAlways = TraceAlways"

definition bodies_parse :: "string \<Rightarrow> network_bodies result" where
  "bodies_parse s =
     (if s = ''off'' then Inr BodiesOff
      else if s = ''xhr'' then Inr BodiesXhr
      else if s = ''all'' then Inr BodiesAll
      else fail InvalidArgument ''--network-bodies: unknown {other:?}; expected off|xhr|all'')"

definition wait_parse :: "string \<Rightarrow> wait result" where
  "wait_parse s =
     (if s = ''auto'' then Inr WaitAuto
      else if s = ''load'' then Inr WaitLoad
      else if s = ''idle'' then Inr WaitIdle
      else (case strip_prefix ''selector-stable:'' s of
        Some sel \<Rightarrow>
          if trim sel = []
          then fail InvalidArgument ''--wait selector-stable: requires a non-empty CSS selector''
          else Inr (WaitSelectorStable sel)
      | None \<Rightarrow> (case strip_prefix ''selector-visible:'' s of
        Some sel \<Rightarrow>
          if sel = []
          then fail InvalidArgument ''--wait selector-visible: requires a non-empty CSS selector''
          else Inr (WaitSelectorVisible sel)
      | None \<Rightarrow> (case strip_prefix ''selector:'' s of
        Some sel \<Rightarrow>
          if sel = []
          then fail InvalidArgument ''--wait selector: requires a non-empty CSS selector''
          else Inr (WaitSelector sel)
      | None \<Rightarrow> (case strip_prefix ''ms:'' s of
        Some ms \<Rightarrow>
          (case parse_uint (u64_max + 1) ms of
             None \<Rightarrow> fail InvalidArgument ''--wait ms: not a u64: {ms:?}''
           | Some n \<Rightarrow> Inr (WaitMs n))
      | None \<Rightarrow> fail InvalidArgument ''--wait: unknown mode {s:?}; expected auto|load|idle|selector:<css>|selector-visible:<css>|selector-stable:<css>|ms:<n>'')))))"

fun mode_name :: "wait \<Rightarrow> string" where
  "mode_name WaitAuto = ''auto''"
| "mode_name WaitLoad = ''load''"
| "mode_name WaitIdle = ''idle''"
| "mode_name (WaitSelector _) = ''selector''"
| "mode_name (WaitSelectorVisible _) = ''selector_visible''"
| "mode_name (WaitSelectorStable _) = ''selector_stable''"
| "mode_name (WaitMs _) = ''ms''"

subsection \<open>Readiness\<close>

datatype readiness_state = Ready | Incomplete | Unknown | Blocked
datatype request_scope = MainDocument | Target | Ancillary | UnknownScope

record pending_request =
  pr_request_id :: string
  pr_request_url :: string
  pr_resource_type :: string
  pr_frame_id :: "string option"
  pr_frame_url :: "string option"
  pr_scope :: request_scope
  pr_blocks_wait :: bool
  pr_waited_ms :: nat

record readiness =
  rd_wait_satisfied :: bool
  rd_timed_out :: bool
  rd_main_document :: readiness_state
  rd_target_content :: readiness_state
  rd_ancillary :: readiness_state
  rd_target_selector :: string
  rd_target_dom_stable :: bool
  rd_target_text_stable :: bool
  rd_observation_complete :: bool
  rd_unobserved_frame_ids :: "string list"
  rd_pending_requests :: "pending_request list"
  rd_pending_requests_truncated :: bool

subsection \<open>The trace\<close>

datatype render_decision = HttpOnly | BrowserDecision
datatype stage_status = StageOk | StageError | StageTimeout | StageStarted

record trace_stage =
  ts_name :: string
  ts_status :: stage_status
  ts_duration_ms :: nat

record trace =
  retained_tab_id :: "string option"
  render_decision :: render_decision
  tr_render_mode :: trace_render_mode
  render_used :: bool
  escalation_reason :: "string option"
  main_request_observed :: bool
  tr_duration_ms :: nat
  tr_timeout_ms :: nat
  current_stage :: string
  navigation_duration_ms :: "nat option"
  wait_mode :: "string option"
  wait_satisfied_by :: "string option"
  network_quiet :: "bool option"
  dom_stable :: "bool option"
  text_stable :: "bool option"
  capture_reason :: "string option"
  cookie_jar_file :: "path option"
  cookie_jar_warning :: "string option"
  tr_sensitive_capture :: "string list"
  stages :: "trace_stage list"

text \<open>\<open>EscalationReason\<close>.\<close>

definition empty_html_shell :: string where
  "empty_html_shell = ''empty_html_shell''"

definition http_status_reason :: "nat \<Rightarrow> string" where
  "http_status_reason status = ''http_status_'' @ show_nat status"

definition http_failed_reason :: "string \<Rightarrow> string" where
  "http_failed_reason code = ''http_failed_'' @ code"

subsection \<open>The result envelope\<close>

record warning =
  w_artifact :: artifact
  w_code :: error_code
  w_detail :: string

datatype page_kind = PageBotWall | PageChallenge
datatype next_action_kind = HumanTakeover

record next_action =
  na_kind :: next_action_kind
  recommended_command :: string
  target_content_verified :: bool
  takeover_url_secret :: "string option"
  takeover_url_expires_at :: "string option"
  takeover_url_ttl_s :: "nat option"
  takeover_url_scope :: "string option"

record fetch_result =
  fr_request_id :: string
  request_url :: string
  final_url :: string
  status :: nat
  fr_page_kind :: "page_kind option"
  fr_next_action :: "next_action option"
  fr_tab_id :: "string option"
  fr_trace :: trace
  fr_readiness :: "readiness option"
  warnings :: "warning list"
  content_type :: "string option"
  body_file :: "path option"
  rendered_html_file :: "path option"
  text_file :: "path option"
  content_file :: "path option"
  content_json_file :: "path option"
  screenshot_file :: "path option"
  network_file :: "path option"
  console_file :: "path option"
  observation_file :: "path option"
  storage_file :: "path option"
  download_file :: "path option"
  download_bytes :: "nat option"
  download_filename :: "string option"
  download_url :: "string option"
  download_state :: "string option"

text \<open>The characters \<open>shell_quote\<close> leaves alone.\<close>

definition shell_safe :: "char \<Rightarrow> bool" where
  "shell_safe c \<longleftrightarrow> is_ascii_alphanumeric c \<or> c \<in> set ''_-./:,=''"

definition shell_quote :: "string \<Rightarrow> string" where
  "shell_quote value =
     (if value \<noteq> [] \<and> list_all shell_safe value then value
      else [CHR 0x27] @ concat (map (\<lambda>c. if c = CHR 0x27 then [CHR 0x27, CHR 0x5C, CHR 0x27, CHR 0x27] else [c]) value) @ [CHR 0x27])"

definition human_takeover :: "string \<Rightarrow> next_action" where
  "human_takeover u =
     \<lparr> na_kind = HumanTakeover,
       recommended_command = ''afhttp fetch '' @ shell_quote u @ '' --takeover'',
       target_content_verified = False,
       takeover_url_secret = None,
       takeover_url_expires_at = None,
       takeover_url_ttl_s = None,
       takeover_url_scope = None \<rparr>"

definition fetch_result_new :: "string \<Rightarrow> string \<Rightarrow> trace \<Rightarrow> fetch_result" where
  "fetch_result_new request_id u t =
     \<lparr> fr_request_id = request_id, request_url = u, final_url = u, status = 0,
       fr_page_kind = None, fr_next_action = None, fr_tab_id = None, fr_trace = t,
       fr_readiness = None, warnings = [], content_type = None,
       body_file = None, rendered_html_file = None, text_file = None, content_file = None,
       content_json_file = None, screenshot_file = None, network_file = None,
       console_file = None, observation_file = None, storage_file = None,
       download_file = None, download_bytes = None, download_filename = None,
       download_url = None, download_state = None \<rparr>"

fun set_artifact_file :: "artifact \<Rightarrow> path \<Rightarrow> fetch_result \<Rightarrow> fetch_result" where
  "set_artifact_file ABody p r = r\<lparr> body_file := Some p \<rparr>"
| "set_artifact_file RenderedHtml p r = r\<lparr> rendered_html_file := Some p \<rparr>"
| "set_artifact_file Text p r = r\<lparr> text_file := Some p \<rparr>"
| "set_artifact_file Content p r = r\<lparr> content_file := Some p \<rparr>"
| "set_artifact_file ContentJson p r = r\<lparr> content_json_file := Some p \<rparr>"
| "set_artifact_file Screenshot p r = r\<lparr> screenshot_file := Some p \<rparr>"
| "set_artifact_file Network p r = r\<lparr> network_file := Some p \<rparr>"
| "set_artifact_file Console p r = r\<lparr> console_file := Some p \<rparr>"
| "set_artifact_file Observation p r = r\<lparr> observation_file := Some p \<rparr>"
| "set_artifact_file Storage p r = r\<lparr> storage_file := Some p \<rparr>"

fun artifact_file :: "artifact \<Rightarrow> fetch_result \<Rightarrow> path option" where
  "artifact_file ABody r = body_file r"
| "artifact_file RenderedHtml r = rendered_html_file r"
| "artifact_file Text r = text_file r"
| "artifact_file Content r = content_file r"
| "artifact_file ContentJson r = content_json_file r"
| "artifact_file Screenshot r = screenshot_file r"
| "artifact_file Network r = network_file r"
| "artifact_file Console r = console_file r"
| "artifact_file Observation r = observation_file r"
| "artifact_file Storage r = storage_file r"

definition set_page_kind :: "page_kind \<Rightarrow> fetch_result \<Rightarrow> fetch_result" where
  "set_page_kind kind r =
     (let r = r\<lparr> fr_page_kind := Some kind \<rparr>
      in if kind = PageBotWall \<or> kind = PageChallenge
         then r\<lparr> fr_next_action := Some (human_takeover (request_url r)) \<rparr>
         else r)"

definition prepare_takeover_retry :: "string option \<Rightarrow> string option \<Rightarrow> fetch_result \<Rightarrow> fetch_result" where
  "prepare_takeover_retry endpoint profile r =
     (case (fr_next_action r, fr_tab_id r) of
        (Some n, Some tab) \<Rightarrow>
          (let command = ''afhttp fetch '' @ shell_quote (request_url r) @ '' --takeover --tab '' @ shell_quote tab;
               command = (case endpoint of Some e \<Rightarrow> command @ '' --endpoint-url '' @ shell_quote e | None \<Rightarrow> command);
               command = (case profile of Some p \<Rightarrow> command @ '' --profile '' @ shell_quote p | None \<Rightarrow> command)
           in r\<lparr> fr_next_action := Some (n\<lparr> recommended_command := command \<rparr>) \<rparr>)
      | _ \<Rightarrow> r)"

definition attach_takeover_with_context ::
  "string \<Rightarrow> string option \<Rightarrow> nat option \<Rightarrow> string option \<Rightarrow> string option \<Rightarrow> string option
   \<Rightarrow> fetch_result \<Rightarrow> fetch_result" where
  "attach_takeover_with_context secret expires_at ttl_s scope endpoint profile r =
     prepare_takeover_retry endpoint profile
       (case fr_next_action r of
          Some n \<Rightarrow> r\<lparr> fr_next_action := Some (n\<lparr> takeover_url_secret := Some secret,
                       takeover_url_expires_at := expires_at, takeover_url_ttl_s := ttl_s,
                       takeover_url_scope := scope \<rparr>) \<rparr>
        | None \<Rightarrow> r)"

definition attach_takeover :: "string \<Rightarrow> fetch_result \<Rightarrow> fetch_result" where
  "attach_takeover secret r = attach_takeover_with_context secret None None None None None r"

text \<open>\<open>shared/time.rs\<close>: a duration in milliseconds, saturating.\<close>

definition duration_ms :: "duration \<Rightarrow> nat" where
  "duration_ms d = min (d div 1000000) u64_max"

subsection \<open>What a shell reads\<close>

text \<open>
  The part of the POSIX shell's word splitting that quoting relies on: blanks separate
  words, single quotes take everything up to the next single quote, a backslash takes
  the next character. An unquoted character outside the safe set has (or may have) a meaning of
  its own, and a line that has one is refused (None).
\<close>

fun sh_lex :: "bool \<Rightarrow> string option \<Rightarrow> string \<Rightarrow> string list option" where
  "sh_lex False cur [] = Some (case cur of Some w \<Rightarrow> [w] | None \<Rightarrow> [])"
| "sh_lex True cur [] = None"
| "sh_lex True cur (c # s) =
     (let w = (case cur of Some w \<Rightarrow> w | None \<Rightarrow> []) in
      if c = CHR 0x27 then sh_lex False (Some w) s else sh_lex True (Some (w @ [c])) s)"
| "sh_lex False cur (c # s) =
     (let w = (case cur of Some w \<Rightarrow> w | None \<Rightarrow> []) in
      if c = CHR '' '' then map_option (\<lambda>ws. (case cur of Some w \<Rightarrow> w # ws | None \<Rightarrow> ws)) (sh_lex False None s)
      else if c = CHR 0x27 then sh_lex True (Some w) s
      else if c = CHR 0x5C then (case s of [] \<Rightarrow> None | d # t \<Rightarrow> sh_lex False (Some (w @ [d])) t)
      else if shell_safe c then sh_lex False (Some (w @ [c])) s
      else None)"

definition sh_words :: "string \<Rightarrow> string list option" where
  "sh_words s = sh_lex False None s"

lemma shell_safe_special [simp]:
  "\<not> shell_safe CHR '' ''" "\<not> shell_safe CHR 0x27" "\<not> shell_safe CHR 0x5C"
  by (simp_all add: shell_safe_def is_ascii_alphanumeric_def)

lemma sh_lex_safe:
  "list_all shell_safe v \<Longrightarrow> v \<noteq> [] \<Longrightarrow>
     sh_lex False cur (v @ rest) = sh_lex False (Some ((case cur of Some w \<Rightarrow> w | None \<Rightarrow> []) @ v)) rest"
proof (induction v arbitrary: cur)
  case (Cons c v)
  then have "c \<noteq> CHR '' ''" "c \<noteq> CHR 0x27" "c \<noteq> CHR 0x5C" by auto
  with Cons show ?case by (cases "v = []") (auto simp: Let_def)
qed simp

lemma sh_lex_quoted:
  "sh_lex True (Some w) (concat (map (\<lambda>c. if c = CHR 0x27 then [CHR 0x27, CHR 0x5C, CHR 0x27, CHR 0x27] else [c]) v)
      @ CHR 0x27 # rest) = sh_lex False (Some (w @ v)) rest"
  by (induction v arbitrary: w) (auto simp: Let_def)

lemma sh_lex_shell_quote:
  "sh_lex False None (shell_quote v @ rest) = sh_lex False (Some v) rest"
proof (cases "v \<noteq> [] \<and> list_all shell_safe v")
  case True
  then show ?thesis by (simp add: shell_quote_def sh_lex_safe)
next
  case False
  have "sh_lex False None (shell_quote v @ rest)
      = sh_lex True (Some []) (concat (map (\<lambda>c. if c = CHR 0x27 then [CHR 0x27, CHR 0x5C, CHR 0x27, CHR 0x27] else [c]) v)
          @ CHR 0x27 # rest)"
    using False by (auto simp: shell_quote_def)
  also have "\<dots> = sh_lex False (Some v) rest" using sh_lex_quoted [of "[]"] by simp
  finally show ?thesis .
qed

lemma sh_lex_word:
  "list_all shell_safe v \<Longrightarrow> v \<noteq> [] \<Longrightarrow>
     sh_lex False None (v @ CHR '' '' # rest) = map_option ((#) v) (sh_lex False None rest)"
  by (simp add: sh_lex_safe)

lemma sh_lex_quoted_word:
  "sh_lex False None (shell_quote v @ CHR '' '' # rest) = map_option ((#) v) (sh_lex False None rest)"
  by (simp add: sh_lex_shell_quote)

lemma sh_lex_last: "sh_lex False None (shell_quote v) = Some [v]"
  using sh_lex_shell_quote [of v "[]"] by simp

lemma sh_lex_fixed:
  "sh_lex False None (''afhttp '' @ rest) = map_option ((#) ''afhttp'') (sh_lex False None rest)"
  "sh_lex False None (''fetch '' @ rest) = map_option ((#) ''fetch'') (sh_lex False None rest)"
  "sh_lex False None (''--takeover '' @ rest) = map_option ((#) ''--takeover'') (sh_lex False None rest)"
  "sh_lex False None (''--tab '' @ rest) = map_option ((#) ''--tab'') (sh_lex False None rest)"
  "sh_lex False None (''--endpoint-url '' @ rest) = map_option ((#) ''--endpoint-url'') (sh_lex False None rest)"
  "sh_lex False None (''--profile '' @ rest) = map_option ((#) ''--profile'') (sh_lex False None rest)"
  by (simp_all add: Let_def shell_safe_def is_ascii_alphanumeric_def)

lemmas sh_lex_command = sh_lex_fixed [unfolded append_Cons append_Nil]

text \<open>
  The recommended command is exactly one invocation: whatever characters the URL, the tab
  id, the endpoint and the profile name contain (quotes, blanks, shell metacharacters), the
  shell splits the command into the words \<open>afhttp fetch URL --takeover --tab TAB\<close> and the
  options that were given, each value one word, and nothing of it is interpreted.
\<close>

theorem takeover_command_is_one_invocation:
  assumes "fr_next_action r = Some n" and "fr_tab_id r = Some tab"
  shows "\<exists>n'. fr_next_action (prepare_takeover_retry endpoint profile r) = Some n'
     \<and> sh_words (recommended_command n') =
         Some ([''afhttp'', ''fetch'', request_url r, ''--takeover'', ''--tab'', tab]
               @ (case endpoint of Some e \<Rightarrow> [''--endpoint-url'', e] | None \<Rightarrow> [])
               @ (case profile of Some p \<Rightarrow> [''--profile'', p] | None \<Rightarrow> []))"
  using assms
  by (cases endpoint; cases profile)
     (simp_all add: prepare_takeover_retry_def sh_words_def sh_lex_command sh_lex_quoted_word sh_lex_last
        del: sh_lex.simps)

theorem takeover_command_is_one_invocation_witness:
  "\<exists>n' r. fr_next_action (prepare_takeover_retry None (Some ''a b'') r) = Some n'
     \<and> sh_words (recommended_command n') =
         Some [''afhttp'', ''fetch'', ''http://x/?a;rm'', ''--takeover'', ''--tab'', ''t1'', ''--profile'', ''a b'']"
proof -
  let ?r = "(fetch_result_new ''id'' ''http://x/?a;rm'' t)
      \<lparr> fr_tab_id := Some ''t1'', fr_next_action := Some (human_takeover ''x'') \<rparr>"
  have "fr_next_action ?r = Some (human_takeover ''x'')" "fr_tab_id ?r = Some ''t1''" by simp_all
  from takeover_command_is_one_invocation [OF this, of None "Some ''a b''"]
  show ?thesis by (auto simp: fetch_result_new_def)
qed

lemma artifact_file_set:
  "artifact_file b (set_artifact_file a p r) = (if a = b then Some p else artifact_file b r)"
  by (cases a; cases b) simp_all

lemma attach_takeover_needs_wall:
  "fr_next_action r = None \<Longrightarrow> attach_takeover_with_context s e t sc ep p r = r"
  by (simp add: attach_takeover_with_context_def prepare_takeover_retry_def)

fun wait_text :: "wait \<Rightarrow> string" where
  "wait_text WaitAuto = ''auto''"
| "wait_text WaitLoad = ''load''"
| "wait_text WaitIdle = ''idle''"
| "wait_text (WaitSelector s) = ''selector:'' @ s"
| "wait_text (WaitSelectorVisible s) = ''selector-visible:'' @ s"
| "wait_text (WaitSelectorStable s) = ''selector-stable:'' @ s"
| "wait_text (WaitMs n) = ''ms:'' @ show_nat n"

text \<open>
  \<open>Wait::parse\<close> accepts exactly the documented forms: the modes it accepts print back to
  the text it was given (\<open>ms:\<close> up to the spelling of the number, which fits 64 bits), so two
  different conditions never come from one argument and no prefix swallows another.
\<close>

theorem wait_parse_accepts:
  "wait_parse s = Inr w \<longleftrightarrow>
     (case w of WaitMs n \<Rightarrow> (\<exists>t. s = ''ms:'' @ t \<and> parse_uint (u64_max + 1) t = Some n)
      | WaitSelector sel \<Rightarrow> s = wait_text w \<and> sel \<noteq> []
      | WaitSelectorVisible sel \<Rightarrow> s = wait_text w \<and> sel \<noteq> []
      | WaitSelectorStable sel \<Rightarrow> s = wait_text w \<and> trim sel \<noteq> []
      | _ \<Rightarrow> s = wait_text w)"
proof -
  have none: "strip_prefix p s = None \<longleftrightarrow> (\<forall>r. s \<noteq> p @ r)" for p
    using strip_prefix_Some by (metis not_None_eq)
  show ?thesis
    by (cases w)
       (auto simp: wait_parse_def none strip_prefix_Some split: option.splits if_splits)
qed

end
