(* ===== verification/Endpoint.thy ===== *)
theory Endpoint
  imports Errors Net Paths
begin

text \<open>
  Endpoint strings (\<open>sdk/endpoint.rs\<close>) and the \<open>Client\<close> that holds one with its cached
  connection and profile (\<open>sdk/client.rs\<close>). \<open>Url::parse\<close> is the argument \<open>url_parse\<close>.
\<close>

subsection \<open>Endpoints\<close>

datatype endpoint = Ws string nat bool | Http string nat bool | Unix path

text \<open>Is there a whitespace, control or backslash character among the UTF-8 characters?\<close>

function bad_url_char :: "string \<Rightarrow> bool" where
  "bad_url_char [] = False"
| "bad_url_char (a # s) =
     (let x = byte_val a in
      ws_width (a # s) > 0 \<or> x < 32 \<or> x = 127 \<or> x = 92
      \<or> (x = 194 \<and> (case s of b # _ \<Rightarrow> 128 \<le> byte_val b \<and> byte_val b < 160 | [] \<Rightarrow> False))
      \<or> bad_url_char (drop (char_width a - 1) s))"
  by pat_completeness auto
termination
  by (relation "measure length") auto

definition authority_of :: "string \<Rightarrow> string" where
  "authority_of rest = until (\<lambda>c. c = CHR ''/'' \<or> c = CHR ''?'' \<or> c = CHR ''#'') rest"

definition split_host_port ::
  "(string \<Rightarrow> url option) \<Rightarrow> string \<Rightarrow> nat \<Rightarrow> (string \<times> nat) result" where
  "split_host_port url_parse rest default_port =
     (if rest = [] \<or> starts_with rest ''/'' then fail InvalidEndpoint ''endpoint missing host''
      else
       (let scheme = (if default_port = 443 then ''https'' else ''http'');
            authority = authority_of rest
        in if ends_with authority '':'' then fail InvalidEndpoint ''endpoint port must be a u16''
           else if bad_url_char rest then fail InvalidEndpoint ''endpoint contains invalid URL characters''
           else (case url_parse (scheme @ ''://'' @ rest) of
                   None \<Rightarrow> fail InvalidEndpoint ''invalid endpoint authority''
                 | Some parsed \<Rightarrow>
                    if contains authority ''@''
                    then fail InvalidEndpoint ''endpoint credentials must be supplied separately''
                    else (case url_host parsed of
                            None \<Rightarrow> fail InvalidEndpoint ''endpoint missing host''
                          | Some host \<Rightarrow>
                             Inr (host, (case url_port parsed of Some p \<Rightarrow> p | None \<Rightarrow> default_port))))))"

definition endpoint_parse :: "(string \<Rightarrow> url option) \<Rightarrow> string \<Rightarrow> endpoint result" where
  "endpoint_parse url_parse input =
     (case strip_prefix ''ws://'' input of
        Some rest \<Rightarrow> and_then (split_host_port url_parse rest 80) (\<lambda>(host, port). Inr (Ws host port False))
      | None \<Rightarrow> (case strip_prefix ''wss://'' input of
        Some rest \<Rightarrow> and_then (split_host_port url_parse rest 443) (\<lambda>(host, port). Inr (Ws host port True))
      | None \<Rightarrow> (case strip_prefix ''http://'' input of
        Some rest \<Rightarrow> and_then (split_host_port url_parse rest 80) (\<lambda>(host, port). Inr (Http host port False))
      | None \<Rightarrow> (case strip_prefix ''https://'' input of
        Some rest \<Rightarrow> and_then (split_host_port url_parse rest 443) (\<lambda>(host, port). Inr (Http host port True))
      | None \<Rightarrow> (case strip_prefix ''unix:'' input of
        Some p \<Rightarrow> Inr (Unix (parse_path p))
      | None \<Rightarrow> fail InvalidEndpoint ''endpoint must start with ws://, wss://, http://, https://, or unix:'')))))"

fun http_base :: "endpoint \<Rightarrow> string" where
  "http_base (Http host port secure) = (if secure then ''https'' else ''http'') @ ''://'' @ host @ '':'' @ show_nat port"
| "http_base (Ws host port secure) = (if secure then ''https'' else ''http'') @ ''://'' @ host @ '':'' @ show_nat port"
| "http_base (Unix _) = ''http://unix-socket''"

fun cdp_ws_url :: "endpoint \<Rightarrow> string" where
  "cdp_ws_url (Ws host port secure) = (if secure then ''wss'' else ''ws'') @ ''://'' @ host @ '':'' @ show_nat port @ ''/cdp''"
| "cdp_ws_url (Http host port secure) = (if secure then ''wss'' else ''ws'') @ ''://'' @ host @ '':'' @ show_nat port @ ''/cdp''"
| "cdp_ws_url (Unix _) = ''ws://unix-socket/cdp''"

lemma endpoint_parse_simps:
  "endpoint_parse up (''ws://'' @ r) = and_then (split_host_port up r 80) (\<lambda>(host, port). Inr (Ws host port False))"
  "endpoint_parse up (''wss://'' @ r) = and_then (split_host_port up r 443) (\<lambda>(host, port). Inr (Ws host port True))"
  "endpoint_parse up (''http://'' @ r) = and_then (split_host_port up r 80) (\<lambda>(host, port). Inr (Http host port False))"
  "endpoint_parse up (''https://'' @ r) = and_then (split_host_port up r 443) (\<lambda>(host, port). Inr (Http host port True))"
  by (simp_all add: endpoint_parse_def)

definition plain_char :: "char \<Rightarrow> bool" where
  "plain_char c \<longleftrightarrow> 33 \<le> byte_val c \<and> byte_val c < 127 \<and> byte_val c \<noteq> 92"

definition plain_host :: "string \<Rightarrow> bool" where
  "plain_host h \<longleftrightarrow> h \<noteq> [] \<and> (\<forall>c \<in> set h. plain_char c \<and> c \<noteq> CHR ''/'' \<and> c \<noteq> CHR ''?'' \<and> c \<noteq> CHR ''#'' \<and> c \<noteq> CHR ''@'')"

lemma plain_not_bad: "\<forall>c \<in> set s. plain_char c \<Longrightarrow> \<not> bad_url_char s"
proof (induction s rule: bad_url_char.induct)
  case (2 a s)
  then have a: "33 \<le> byte_val a" "byte_val a < 127" "byte_val a \<noteq> 92"
    by (auto simp: plain_char_def)
  then have "char_width a = 1" "ws_width (a # s) = 0"
    by (auto simp: char_width_def Let_def split: list.split)
  with 2 a show ?case by (auto simp: Let_def simp del: ws_width.simps)
qed simp

lemma digits_plain: "c \<in> set (show_nat n) \<Longrightarrow> plain_char c"
  by (auto simp: plain_char_def dest!: show_nat_digits)

lemma digits_not_delim: "c \<in> set (show_nat n) \<Longrightarrow>
    c \<noteq> CHR ''/'' \<and> c \<noteq> CHR ''?'' \<and> c \<noteq> CHR ''#'' \<and> c \<noteq> CHR ''@'' \<and> c \<noteq> CHR '':''"
  by (auto dest!: show_nat_digits simp: byte_val_def)

text \<open>What the derived URLs of one endpoint rely on: the URL parser reads their host and port.\<close>

definition reads_authority :: "(string \<Rightarrow> url option) \<Rightarrow> bool \<Rightarrow> string \<Rightarrow> nat \<Rightarrow> string \<Rightarrow> bool" where
  "reads_authority url_parse secure h port path \<longleftrightarrow>
     (\<exists>u. url_parse ((if secure then ''https'' else ''http'') @ ''://'' @ h @ '':'' @ show_nat port @ path) = Some u
        \<and> url_host u = Some h
        \<and> url_port u = (if port = (if secure then 443 else 80) then None else Some port))"

lemma plain_authority:
  assumes "plain_host h" and "path = [] \<or> path = ''/cdp''"
  shows "authority_of (h @ '':'' @ show_nat port @ path) = h @ '':'' @ show_nat port"
proof -
  let ?P = "\<lambda>c. \<not> (c = CHR ''/'' \<or> c = CHR ''?'' \<or> c = CHR ''#'')"
  have "takeWhile ?P ((h @ '':'' @ show_nat port) @ path) = (h @ '':'' @ show_nat port) @ takeWhile ?P path"
    using assms(1) digits_not_delim by (intro takeWhile_append2) (auto simp: plain_host_def)
  with assms(2) show ?thesis by (auto simp: authority_of_def until_def)
qed

lemma split_host_port_plain:
  assumes up: "reads_authority up secure h port path" and h: "plain_host h" and path: "path = [] \<or> path = ''/cdp''"
  shows "split_host_port up (h @ '':'' @ show_nat port @ path) (if secure then 443 else 80) = Inr (h, port)"
proof -
  let ?rest = "h @ '':'' @ show_nat port @ path"
  let ?auth = "h @ '':'' @ show_nat port"
  note auth = plain_authority [OF h path, of port]
  obtain d ds where d: "rev (show_nat port) = d # ds" by (cases "rev (show_nat port)") auto
  then have "d \<in> set (show_nat port)" by (metis list.set_intros(1) set_rev)
  with d have e: "\<not> ends_with ?auth '':''"
    using digits_not_delim [of d port] by (auto simp: ends_with_def starts_with_def)
  have at: "\<not> contains ?auth ''@''"
  proof
    assume "contains ?auth ''@''"
    then obtain a b where "?auth = a @ ''@'' @ b" by (auto simp: contains_iff)
    then have "CHR ''@'' \<in> set ?auth" by simp
    then show False using h digits_not_delim [of "CHR ''@''" port] by (auto simp: plain_host_def)
  qed
  have "plain_char c" if "c \<in> set path" for c
    using that path by (auto simp: plain_char_def byte_val_def)
  moreover have "plain_char CHR '':''" by (simp add: plain_char_def byte_val_def)
  ultimately have "\<forall>c \<in> set ?rest. plain_char c"
    using h digits_plain [of _ port] by (auto simp: plain_host_def)
  then have bad: "\<not> bad_url_char ?rest" by (rule plain_not_bad)
  have slash: "\<not> starts_with ?rest ''/''" "?rest \<noteq> []"
    using h by (cases h; simp add: plain_host_def starts_with_iff)+
  from up obtain u where u: "up ((if secure then ''https'' else ''http'') @ ''://'' @ ?rest) = Some u"
    "url_host u = Some h" "url_port u = (if port = (if secure then 443 else 80) then None else Some port)"
    unfolding reads_authority_def by blast
  show ?thesis
  proof (cases secure)
    case True
    show ?thesis unfolding split_host_port_def Let_def auth using slash e bad at u True by simp
  next
    case False
    show ?thesis unfolding split_host_port_def Let_def auth using slash e bad at u False by simp
  qed
qed

text \<open>
  The URLs derived from an endpoint lead back to it: whatever endpoint over TCP is parsed, its
  CDP URL parses to the WebSocket endpoint and its HTTP base to the HTTP endpoint of the same host,
  port and security, so the SDK never talks to another host, port or scheme than the one given.
\<close>

theorem endpoint_urls_roundtrip:
  assumes "plain_host h" and "ep = Ws h port secure \<or> ep = Http h port secure"
    and "reads_authority url_parse secure h port []" and "reads_authority url_parse secure h port ''/cdp''"
  shows "endpoint_parse url_parse (cdp_ws_url ep) = Inr (Ws h port secure)
       \<and> endpoint_parse url_parse (http_base ep) = Inr (Http h port secure)"
  using assms(2) split_host_port_plain [OF assms(3,1)] split_host_port_plain [OF assms(4,1)]
  by (cases secure) (auto simp: endpoint_parse_def)

theorem endpoint_urls_roundtrip_witness:
  "\<exists>up. endpoint_parse up (cdp_ws_url (Http ''h.x'' 8080 True)) = Inr (Ws ''h.x'' 8080 True)"
proof -
  let ?up = "\<lambda>_. Some \<lparr> url_scheme = ''https'', url_host = Some ''h.x'', url_port = Some 8080,
      url_path = ''/'', url_text = [] \<rparr>"
  have plain: "plain_host ''h.x''" by (simp add: plain_host_def plain_char_def byte_val_def)
  have "reads_authority ?up True ''h.x'' 8080 p" for p by (simp add: reads_authority_def)
  with endpoint_urls_roundtrip [OF plain, of "Http ''h.x'' 8080 True" 8080 True ?up]
  show ?thesis by blast
qed

subsection \<open>The client\<close>

text \<open>
  \<open>ClientInner\<close>: the cached CDP connection is its transport state (\<open>Some closed\<close>), the cached
  profile snapshot a value of the host's answer type. The builder methods take the extra argument
  \<open>unique\<close>, whether \<open>Arc::get_mut\<close> succeeds, that is, whether no clone of the client exists.
\<close>

record profile_snapshot =
  ps_kind :: string
  ps_name :: "string option"
  ps_path :: "path option"
  ps_locked :: bool

definition is_persistent :: "profile_snapshot \<Rightarrow> bool" where
  "is_persistent p \<longleftrightarrow> ps_kind p = ''persistent''"

definition canonical_cookie_jar :: "profile_snapshot \<Rightarrow> path option" where
  "canonical_cookie_jar p = map_option (\<lambda>d. path_push d (parse_path ''cookies.jar.json'')) (ps_path p)"

record client =
  cl_endpoint :: endpoint
  cl_token :: "string option"
  cl_profile :: "string option"
  cl_hostless :: bool
  cl_inline_host :: bool
  cl_cdp :: "bool option"
  cl_profile_info :: "profile_snapshot option"

definition client_connect :: "(string \<Rightarrow> url option) \<Rightarrow> bool \<Rightarrow> string \<Rightarrow> client result" where
  "client_connect url_parse http_builds ep =
     and_then (endpoint_parse url_parse ep) (\<lambda>e.
       if \<not> http_builds then fail InternalError ''reqwest client build failed: {e}''
       else Inr \<lparr> cl_endpoint = e, cl_token = None, cl_profile = None, cl_hostless = False,
                  cl_inline_host = False, cl_cdp = None, cl_profile_info = None \<rparr>)"

definition client_http_only :: "(string \<Rightarrow> url option) \<Rightarrow> bool \<Rightarrow> client result" where
  "client_http_only url_parse http_builds =
     and_then (client_connect url_parse http_builds ''ws://127.0.0.1:0'') (\<lambda>c. Inr (c\<lparr> cl_hostless := True \<rparr>))"

definition with_token :: "bool \<Rightarrow> string \<Rightarrow> client \<Rightarrow> client" where
  "with_token unique token c =
     (if unique then c\<lparr> cl_token := Some token, cl_cdp := None, cl_profile_info := None \<rparr>
      else \<lparr> cl_endpoint = cl_endpoint c, cl_token = Some token, cl_profile = cl_profile c,
             cl_hostless = cl_hostless c, cl_inline_host = cl_inline_host c, cl_cdp = None,
             cl_profile_info = None \<rparr>)"

definition with_profile :: "bool \<Rightarrow> string \<Rightarrow> client \<Rightarrow> client" where
  "with_profile unique profile c =
     (if unique then c\<lparr> cl_profile := Some profile, cl_cdp := None \<rparr>
      else \<lparr> cl_endpoint = cl_endpoint c, cl_token = cl_token c, cl_profile = Some profile,
             cl_hostless = cl_hostless c, cl_inline_host = cl_inline_host c, cl_cdp = None,
             cl_profile_info = None \<rparr>)"

definition with_inline_host :: "bool \<Rightarrow> client \<Rightarrow> client" where
  "with_inline_host unique c =
     (if unique then c\<lparr> cl_inline_host := True, cl_hostless := False, cl_cdp := None, cl_profile_info := None \<rparr>
      else \<lparr> cl_endpoint = cl_endpoint c, cl_token = cl_token c, cl_profile = cl_profile c,
             cl_hostless = False, cl_inline_host = True, cl_cdp = None, cl_profile_info = None \<rparr>)"

text \<open>\<open>inline_endpoint\<close> is what the inline host answers when asked for its endpoint.\<close>

definition effective_endpoint :: "endpoint result \<Rightarrow> client \<Rightarrow> endpoint result" where
  "effective_endpoint inline_endpoint c =
     (if cl_hostless c then fail RenderUnavailable ''this client has no afhttp host endpoint''
      else if cl_inline_host c then inline_endpoint
      else Inr (cl_endpoint c))"

text \<open>\<open>cdp_connection\<close>: the answer tells whether a new connection was opened.\<close>

definition cdp_connection ::
  "endpoint result \<Rightarrow> (endpoint \<Rightarrow> string option \<Rightarrow> string option \<Rightarrow> unit result) \<Rightarrow> client \<Rightarrow> bool result \<times> client" where
  "cdp_connection inline_endpoint dial c =
     (if cl_cdp c = Some False then (Inr False, c)
      else (case and_then (effective_endpoint inline_endpoint c)
                   (\<lambda>e. dial e (cl_token c) (cl_profile c)) of
              Inl e \<Rightarrow> (Inl e, c)
            | Inr _ \<Rightarrow> (Inr True, c\<lparr> cl_cdp := Some False \<rparr>)))"

definition client_close :: "client \<Rightarrow> client" where
  "client_close c = c\<lparr> cl_cdp := None \<rparr>"

definition profile_url :: "(string \<Rightarrow> url option) \<Rightarrow> string \<Rightarrow> string result" where
  "profile_url url_parse base =
     (case url_parse (base @ ''/profile'') of
        None \<Rightarrow> fail InvalidEndpoint ''profile URL from endpoint {base:?}: {e}''
      | Some u \<Rightarrow> Inr (url_text u))"

text \<open>
  The answer of the host to \<open>GET /profile\<close>: no answer, a status, or a body that is read and
  decoded (\<open>decode_result\<close> of \<open>shared/events.rs\<close>).
\<close>

datatype profile_reply =
    NoReply
  | StatusReply nat
  | BodyUnreadable
  | BodyReply "profile_snapshot result"

definition profile_info ::
  "(string \<Rightarrow> url option) \<Rightarrow> endpoint result \<Rightarrow> (string \<Rightarrow> string option \<Rightarrow> profile_reply) \<Rightarrow> client
   \<Rightarrow> profile_snapshot result \<times> client" where
  "profile_info url_parse inline_endpoint get c =
     (case cl_profile_info c of
        Some info \<Rightarrow> (Inr info, c)
      | None \<Rightarrow>
         if cl_hostless c then (fail HostUnreachable ''GET /profile: no afhttp host endpoint configured'', c)
         else (case and_then (effective_endpoint inline_endpoint c) (\<lambda>e. profile_url url_parse (http_base e)) of
                 Inl e \<Rightarrow> (Inl e, c)
               | Inr u \<Rightarrow>
                  (case get u (cl_token c) of
                     NoReply \<Rightarrow> (fail HostUnreachable ''GET {url}: {e}'', c)
                   | StatusReply s \<Rightarrow> (fail HostUnreachable ''GET {url}: status {status}'', c)
                   | BodyUnreadable \<Rightarrow> (fail InternalError ''profile_info: read response: {e}'', c)
                   | BodyReply (Inl e) \<Rightarrow> (Inl e, c)
                   | BodyReply (Inr info) \<Rightarrow> (Inr info, c\<lparr> cl_profile_info := Some info \<rparr>))))"

end
