(* ===== verification/Builder.thy ===== *)
theory Builder
  imports CookieJar FetchTypes Endpoint
begin

text \<open>
  The fetch builder (\<open>sdk/fetch/mod.rs\<close>): the options of a fetch, the setters, and the retry
  loop of \<open>send_detailed\<close> around one execution of the pipeline.
\<close>

subsection \<open>Options\<close>

record readiness_options =
  idle_ms :: nat
  stable_ms :: nat
  min_text_bytes :: nat
  observe_main_wait_ms :: nat

record network_capture =
  bodies :: network_bodies
  body_max_bytes :: nat
  redact :: bool
  capture_ws :: bool
  capture_sse :: bool

record retry_options =
  attempts :: nat
  backoff_ms :: nat

record http_options =
  proxy :: "string option"
  ca_cert :: "path option"
  tls_insecure :: bool
  max_response_bytes :: nat

record cookie_jar_options =
  cj_path :: "path option"
  cj_warning :: "string option"
  cj_disabled :: bool

record request_options =
  ro_headers :: "(string \<times> string) list"
  ro_user_agent :: "string option"
  ro_cookies :: "cookie list"
  ro_evaluate_after_wait :: "string list"
  ro_method :: "string option"
  ro_body :: "bytes option"
  ro_form :: "(string \<times> string) list"

record fetch_builder =
  b_client :: client
  b_url :: string
  b_render :: render_mode
  b_wait :: wait
  b_timeout :: duration
  b_want :: "artifact list"
  b_want_explicit :: bool
  b_tab :: "string option"
  b_keep_tab_open :: bool
  b_request :: request_options
  b_out_dir :: "path option"
  b_readiness :: readiness_options
  b_network :: network_capture
  b_retry :: retry_options
  b_http :: http_options
  b_cookie_jar :: cookie_jar_options

definition default_network_body_max_bytes :: nat where
  "default_network_body_max_bytes = 10 * 1024 * 1024"

definition builder_new :: "client \<Rightarrow> string \<Rightarrow> fetch_builder" where
  "builder_new c u =
     \<lparr> b_client = c, b_url = u, b_render = RenderAuto, b_wait = WaitAuto, b_timeout = secs 30,
       b_want = http_default, b_want_explicit = False, b_tab = None, b_keep_tab_open = False,
       b_request = \<lparr> ro_headers = [], ro_user_agent = None, ro_cookies = [], ro_evaluate_after_wait = [],
                     ro_method = None, ro_body = None, ro_form = [] \<rparr>,
       b_out_dir = None,
       b_readiness = \<lparr> idle_ms = 800, stable_ms = 500, min_text_bytes = 32, observe_main_wait_ms = 500 \<rparr>,
       b_network = \<lparr> bodies = BodiesOff, body_max_bytes = default_network_body_max_bytes, redact = True,
                     capture_ws = False, capture_sse = False \<rparr>,
       b_retry = \<lparr> attempts = 0, backoff_ms = 250 \<rparr>,
       b_http = \<lparr> proxy = None, ca_cert = None, tls_insecure = False, max_response_bytes = 1073741824 \<rparr>,
       b_cookie_jar = \<lparr> cj_path = None, cj_warning = None, cj_disabled = False \<rparr> \<rparr>"

subsection \<open>Setters\<close>

definition cookie_new :: "string \<Rightarrow> string \<Rightarrow> cookie" where
  "cookie_new n v =
     \<lparr> ck_name = n, ck_value = v, ck_domain = None, ck_path = None, ck_secure = None,
       ck_http_only = None, ck_max_age = None, ck_expires = None, ck_same_site = None,
       ck_partitioned = None \<rparr>"

definition set_render :: "render_mode \<Rightarrow> fetch_builder \<Rightarrow> fetch_builder" where
  "set_render mode b = b\<lparr> b_render := mode \<rparr>"

definition set_wait :: "wait \<Rightarrow> fetch_builder \<Rightarrow> fetch_builder" where
  "set_wait w b = b\<lparr> b_wait := w \<rparr>"

definition set_timeout :: "duration \<Rightarrow> fetch_builder \<Rightarrow> fetch_builder" where
  "set_timeout d b = b\<lparr> b_timeout := d \<rparr>"

definition readiness_idle_ms :: "nat \<Rightarrow> fetch_builder \<Rightarrow> fetch_builder" where
  "readiness_idle_ms ms b = b\<lparr> b_readiness := (b_readiness b)\<lparr> idle_ms := ms \<rparr> \<rparr>"

definition readiness_stable_ms :: "nat \<Rightarrow> fetch_builder \<Rightarrow> fetch_builder" where
  "readiness_stable_ms ms b = b\<lparr> b_readiness := (b_readiness b)\<lparr> stable_ms := ms \<rparr> \<rparr>"

definition readiness_min_text_bytes :: "nat \<Rightarrow> fetch_builder \<Rightarrow> fetch_builder" where
  "readiness_min_text_bytes ms b = b\<lparr> b_readiness := (b_readiness b)\<lparr> min_text_bytes := ms \<rparr> \<rparr>"

definition set_observe_main_wait_ms :: "nat \<Rightarrow> fetch_builder \<Rightarrow> fetch_builder" where
  "set_observe_main_wait_ms ms b = b\<lparr> b_readiness := (b_readiness b)\<lparr> observe_main_wait_ms := ms \<rparr> \<rparr>"

definition set_want :: "artifact list \<Rightarrow> fetch_builder \<Rightarrow> fetch_builder" where
  "set_want items b = b\<lparr> b_want := sorted_list_of_set (set items), b_want_explicit := True \<rparr>"

definition set_tab :: "string \<Rightarrow> fetch_builder \<Rightarrow> fetch_builder" where
  "set_tab tab b = b\<lparr> b_tab := Some tab \<rparr>"

definition set_keep_tab_open :: "bool \<Rightarrow> fetch_builder \<Rightarrow> fetch_builder" where
  "set_keep_tab_open keep b = b\<lparr> b_keep_tab_open := keep \<rparr>"

definition set_network_bodies :: "network_bodies \<Rightarrow> fetch_builder \<Rightarrow> fetch_builder" where
  "set_network_bodies mode b = b\<lparr> b_network := (b_network b)\<lparr> bodies := mode \<rparr> \<rparr>"

definition add_header :: "string \<Rightarrow> string \<Rightarrow> fetch_builder \<Rightarrow> fetch_builder" where
  "add_header name v b = b\<lparr> b_request := (b_request b)\<lparr> ro_headers := ro_headers (b_request b) @ [(name, v)] \<rparr> \<rparr>"

definition add_headers :: "(string \<times> string) list \<Rightarrow> fetch_builder \<Rightarrow> fetch_builder" where
  "add_headers hs b = b\<lparr> b_request := (b_request b)\<lparr> ro_headers := ro_headers (b_request b) @ hs \<rparr> \<rparr>"

definition set_user_agent :: "string \<Rightarrow> fetch_builder \<Rightarrow> fetch_builder" where
  "set_user_agent v b = b\<lparr> b_request := (b_request b)\<lparr> ro_user_agent := Some v \<rparr> \<rparr>"

definition add_cookie :: "string \<Rightarrow> string \<Rightarrow> fetch_builder \<Rightarrow> fetch_builder" where
  "add_cookie n v b =
     b\<lparr> b_request := (b_request b)\<lparr> ro_cookies := ro_cookies (b_request b) @ [cookie_new n v] \<rparr> \<rparr>"

definition add_cookie_full :: "cookie \<Rightarrow> fetch_builder \<Rightarrow> fetch_builder" where
  "add_cookie_full c b = b\<lparr> b_request := (b_request b)\<lparr> ro_cookies := ro_cookies (b_request b) @ [c] \<rparr> \<rparr>"

definition add_cookies :: "(string \<times> string) list \<Rightarrow> fetch_builder \<Rightarrow> fetch_builder" where
  "add_cookies kvs b =
     b\<lparr> b_request := (b_request b)\<lparr> ro_cookies := ro_cookies (b_request b) @ map (\<lambda>(k, v). cookie_new k v) kvs \<rparr> \<rparr>"

definition add_evaluate_after_wait :: "string \<Rightarrow> fetch_builder \<Rightarrow> fetch_builder" where
  "add_evaluate_after_wait js b =
     b\<lparr> b_request := (b_request b)\<lparr> ro_evaluate_after_wait := ro_evaluate_after_wait (b_request b) @ [js] \<rparr> \<rparr>"

definition set_out_dir :: "path \<Rightarrow> fetch_builder \<Rightarrow> fetch_builder" where
  "set_out_dir dir b = b\<lparr> b_out_dir := Some dir \<rparr>"

definition set_method :: "string \<Rightarrow> fetch_builder \<Rightarrow> fetch_builder" where
  "set_method m b = b\<lparr> b_request := (b_request b)\<lparr> ro_method := Some m \<rparr> \<rparr>"

definition set_body :: "bytes \<Rightarrow> fetch_builder \<Rightarrow> fetch_builder" where
  "set_body d b = b\<lparr> b_request := (b_request b)\<lparr> ro_body := Some d \<rparr> \<rparr>"

definition add_form_field :: "string \<Rightarrow> string \<Rightarrow> fetch_builder \<Rightarrow> fetch_builder" where
  "add_form_field k v b = b\<lparr> b_request := (b_request b)\<lparr> ro_form := ro_form (b_request b) @ [(k, v)] \<rparr> \<rparr>"

definition set_cookie_jar :: "path \<Rightarrow> fetch_builder \<Rightarrow> fetch_builder" where
  "set_cookie_jar p b = b\<lparr> b_cookie_jar := (b_cookie_jar b)\<lparr> cj_path := Some p \<rparr> \<rparr>"

definition no_cookie_jar :: "fetch_builder \<Rightarrow> fetch_builder" where
  "no_cookie_jar b = b\<lparr> b_cookie_jar := (b_cookie_jar b)\<lparr> cj_disabled := True \<rparr> \<rparr>"

definition set_retry :: "nat \<Rightarrow> fetch_builder \<Rightarrow> fetch_builder" where
  "set_retry n b = b\<lparr> b_retry := (b_retry b)\<lparr> attempts := n \<rparr> \<rparr>"

definition set_backoff_ms :: "nat \<Rightarrow> fetch_builder \<Rightarrow> fetch_builder" where
  "set_backoff_ms n b = b\<lparr> b_retry := (b_retry b)\<lparr> backoff_ms := n \<rparr> \<rparr>"

definition set_proxy :: "string \<Rightarrow> fetch_builder \<Rightarrow> fetch_builder" where
  "set_proxy u b = b\<lparr> b_http := (b_http b)\<lparr> proxy := Some u \<rparr> \<rparr>"

definition set_ca_cert :: "path \<Rightarrow> fetch_builder \<Rightarrow> fetch_builder" where
  "set_ca_cert p b = b\<lparr> b_http := (b_http b)\<lparr> ca_cert := Some p \<rparr> \<rparr>"

definition set_tls_insecure :: "bool \<Rightarrow> fetch_builder \<Rightarrow> fetch_builder" where
  "set_tls_insecure on b = b\<lparr> b_http := (b_http b)\<lparr> tls_insecure := on \<rparr> \<rparr>"

definition set_max_response_bytes :: "nat \<Rightarrow> fetch_builder \<Rightarrow> fetch_builder" where
  "set_max_response_bytes n b = b\<lparr> b_http := (b_http b)\<lparr> max_response_bytes := n \<rparr> \<rparr>"

definition network_body_max_bytes :: "nat \<Rightarrow> fetch_builder \<Rightarrow> fetch_builder" where
  "network_body_max_bytes n b = b\<lparr> b_network := (b_network b)\<lparr> body_max_bytes := n \<rparr> \<rparr>"

definition network_redact :: "bool \<Rightarrow> fetch_builder \<Rightarrow> fetch_builder" where
  "network_redact on b = b\<lparr> b_network := (b_network b)\<lparr> redact := on \<rparr> \<rparr>"

definition set_capture_ws :: "bool \<Rightarrow> fetch_builder \<Rightarrow> fetch_builder" where
  "set_capture_ws on b = b\<lparr> b_network := (b_network b)\<lparr> capture_ws := on \<rparr> \<rparr>"

definition set_capture_sse :: "bool \<Rightarrow> fetch_builder \<Rightarrow> fetch_builder" where
  "set_capture_sse on b = b\<lparr> b_network := (b_network b)\<lparr> capture_sse := on \<rparr> \<rparr>"

subsection \<open>Retries\<close>

definition method_is_idempotent :: "fetch_builder \<Rightarrow> bool" where
  "method_is_idempotent b =
     (case ro_method (b_request b) of
        None \<Rightarrow> True
      | Some m \<Rightarrow> eq_ignore_ascii_case m ''GET'' \<or> eq_ignore_ascii_case m ''HEAD'')"

type_synonym outcome = "trace fetch_error + fetch_result"

text \<open>
  The loop of \<open>send_detailed\<close>. \<open>once n\<close> is the outcome of the n-th execution of
  \<open>execute_once_with_timeout\<close>; the first result is the outcome handed to the caller, the
  second the number of executions, that is, how often the request was sent. \<open>attempt\<close> and
  \<open>max_attempts\<close> are \<open>u32\<close> in the code; \<open>attempt + 1\<close> never exceeds \<open>max_attempts\<close>.
\<close>

function retry_loop :: "(nat \<Rightarrow> outcome) \<Rightarrow> nat \<Rightarrow> nat \<Rightarrow> outcome \<times> nat" where
  "retry_loop once max_attempts attempt =
     (case once attempt of
        Inr r \<Rightarrow> (Inr r, attempt + 1)
      | Inl e \<Rightarrow>
          if fe_retryable e \<and> attempt + 1 < max_attempts
          then retry_loop once max_attempts (attempt + 1)
          else (Inl e, attempt + 1))"
  by pat_completeness auto
termination
  by (relation "measure (\<lambda>(once, max_attempts, attempt). max_attempts - attempt)") auto

declare retry_loop.simps [simp del]

definition send_detailed :: "(nat \<Rightarrow> outcome) \<Rightarrow> fetch_builder \<Rightarrow> outcome \<times> nat" where
  "send_detailed once b =
     (if attempts (b_retry b) = 0 \<or> \<not> method_is_idempotent b then (once 0, 1)
      else retry_loop once (min (attempts (b_retry b) + 1) u32_max) 0)"

definition send_fetch :: "(nat \<Rightarrow> outcome) \<Rightarrow> fetch_builder \<Rightarrow> fetch_result result" where
  "send_fetch once b = (case fst (send_detailed once b) of Inl e \<Rightarrow> Inl (into_error e) | Inr r \<Rightarrow> Inr r)"

lemma retry_loop_spec:
  assumes "retry_loop once m a = (r, n)" and "a < m"
  shows "a < n \<and> n \<le> m \<and> r = once (n - 1)
       \<and> (\<forall>k. a \<le> k \<and> k < n - 1 \<longrightarrow> (\<exists>e. once k = Inl e \<and> fe_retryable e))
       \<and> (n < m \<longrightarrow> (\<forall>e. r = Inl e \<longrightarrow> \<not> fe_retryable e))"
  using assms
proof (induction once m a rule: retry_loop.induct)
  case (1 once m a)
  show ?case
  proof (cases "\<exists>e. once a = Inl e \<and> fe_retryable e \<and> a + 1 < m")
    case True
    then obtain e where e: "once a = Inl e" "fe_retryable e" "a + 1 < m" by blast
    with "1.prems" have "retry_loop once m (a + 1) = (r, n)" by (simp add: retry_loop.simps [of once m a])
    from "1.IH" [OF e(1) _ this] e
    have IH: "a + 1 < n \<and> n \<le> m \<and> r = once (n - 1)
       \<and> (\<forall>k. a + 1 \<le> k \<and> k < n - 1 \<longrightarrow> (\<exists>e. once k = Inl e \<and> fe_retryable e))
       \<and> (n < m \<longrightarrow> (\<forall>e. r = Inl e \<longrightarrow> \<not> fe_retryable e))" by simp
    have "\<exists>e. once k = Inl e \<and> fe_retryable e" if "a \<le> k" "k < n - 1" for k
    proof (cases "k = a")
      case True
      with e show ?thesis by auto
    next
      case False
      with that IH show ?thesis by simp
    qed
    with IH show ?thesis by auto
  next
    case False
    with "1.prems" have "n = a + 1" "r = once a"
      by (auto simp: retry_loop.simps [of once m a] split: sum.splits if_splits)
    with False "1.prems" show ?thesis by auto
  qed
qed

definition demo_client :: "bool \<Rightarrow> client" where
  "demo_client inline = \<lparr> cl_endpoint = Ws ''h'' 1 False, cl_token = None, cl_profile = None,
     cl_hostless = False, cl_inline_host = inline, cl_cdp = None, cl_profile_info = None \<rparr>"

text \<open>
  C18. A fetch is resent only when that is safe and asked for: it is executed at least once and at
  most \<open>attempts + 1\<close> times, exactly once for any method but GET and HEAD, every execution but
  the last failed with a retryable error, the caller gets the outcome of the last one, and
  a retryable failure is given up only when the attempts are used up.
\<close>

theorem retries_are_bounded_and_safe:
  assumes "send_detailed once b = (r, n)" and "attempts (b_retry b) < u32_max"
  shows "1 \<le> n \<and> n \<le> attempts (b_retry b) + 1 \<and> r = once (n - 1)
       \<and> (\<not> method_is_idempotent b \<longrightarrow> n = 1)
       \<and> (\<forall>k < n - 1. \<exists>e. once k = Inl e \<and> fe_retryable e)
       \<and> (method_is_idempotent b \<and> n \<le> attempts (b_retry b) \<longrightarrow> (\<forall>e. r = Inl e \<longrightarrow> \<not> fe_retryable e))"
proof (cases "attempts (b_retry b) = 0 \<or> \<not> method_is_idempotent b")
  case True
  with assms(1) have "r = once 0" "n = 1" by (simp_all add: send_detailed_def)
  with True show ?thesis by auto
next
  case False
  with assms have "retry_loop once (attempts (b_retry b) + 1) 0 = (r, n)"
    by (simp add: send_detailed_def min_def split: if_splits)
  from retry_loop_spec [OF this] False show ?thesis by auto
qed

theorem retries_are_bounded_and_safe_witness:
  "\<forall>t :: trace. \<exists>once e. once = (\<lambda>_. Inl (fetch_error_new (error_new IoError []) t))
     \<and> send_detailed once (set_retry 2 (builder_new (demo_client True) ''http://x'')) = (Inl e, 3)
     \<and> (\<forall>k < 2. \<exists>e. once k = Inl e \<and> fe_retryable e)"
proof
  fix t :: trace
  let ?e = "fetch_error_new (error_new IoError []) t"
  let ?b = "set_retry 2 (builder_new (demo_client True) ''http://x'')"
  have eq: "send_detailed (\<lambda>_. Inl ?e) ?b = (Inl ?e, 3)"
    by (simp add: send_detailed_def set_retry_def builder_new_def method_is_idempotent_def u32_max_def
        retry_loop.simps fetch_error_new_def error_new_def)
  from retries_are_bounded_and_safe [OF eq] eq show "\<exists>once e. once = (\<lambda>_. Inl ?e)
      \<and> send_detailed once ?b = (Inl e, 3) \<and> (\<forall>k < 2. \<exists>e. once k = Inl e \<and> fe_retryable e)"
    by (auto simp: set_retry_def u32_max_def)
qed

end
