(* ===== verification/CookieResolve.thy ===== *)
theory CookieResolve
  imports Builder Json
begin

text \<open>
  Which cookie jar a fetch uses (\<open>resolve_cookie_jar_path\<close>) and what is written back to it
  after the fetch: the \<open>Set-Cookie\<close> lines of an HTTP response and the cookies the
  browser holds (\<open>pipeline/cookie_jar_resolve.rs\<close>).

  Arguments for what is outside: the working directory, the metadata of a path (\<open>Some
  (is_dir, readonly)\<close>), the cookie and URL parsers, the CDP reply, and the double
  precision arithmetic of JSON numbers (\<open>f64_pos\<close>, \<open>f64_i64\<close>).
\<close>

subsection \<open>The jar of a fetch\<close>

definition implicit_profile_path_is_local :: "(path \<Rightarrow> (bool \<times> bool) option) \<Rightarrow> path option \<Rightarrow> bool" where
  "implicit_profile_path_is_local metadata p =
     (case p of
        None \<Rightarrow> False
      | Some p \<Rightarrow> (case metadata p of None \<Rightarrow> False | Some (is_dir, readonly) \<Rightarrow> is_dir \<and> \<not> readonly))"

definition set_jar :: "path option \<Rightarrow> string option \<Rightarrow> fetch_builder \<Rightarrow> fetch_builder" where
  "set_jar p w b = b\<lparr> b_cookie_jar := (b_cookie_jar b)\<lparr> cj_path := p, cj_warning := w \<rparr> \<rparr>"

text \<open>
  \<open>started\<close> is \<open>inline_host_started()\<close>, \<open>profile\<close> the answer of \<open>Client::profile_info\<close>. The
  builder is a mutable reference: on an error it is left as it was.
\<close>

definition resolve_cookie_jar_path ::
  "path option \<Rightarrow> (path \<Rightarrow> (bool \<times> bool) option) \<Rightarrow> bool \<Rightarrow> profile_snapshot result \<Rightarrow> fetch_builder
   \<Rightarrow> fetch_builder result" where
  "resolve_cookie_jar_path cwd metadata started profile b =
     (let jar = b_cookie_jar b; lexical = absolute_lexical cwd in
      if cj_disabled jar then Inr (set_jar None (cj_warning jar) b)
      else if cl_hostless (b_client b)
        then Inr (set_jar (map_option lexical (cj_path jar)) (cj_warning jar) b)
      else if cl_inline_host (b_client b) \<and> \<not> started
        then Inr (set_jar (map_option lexical (cj_path jar)) (cj_warning jar) b)
      else
       (case (cj_path jar, profile) of
          (Some explicit, Inr info) \<Rightarrow>
            (case canonical_cookie_jar info of
               Some expected \<Rightarrow>
                 if \<not> jar_paths_match (lexical explicit) (lexical expected)
                 then fail InvalidArgument ''--cookie-jar {} does not match the host's profile jar {}; the isolation invariant requires the jar to live inside the active profile dir''
                 else Inr (set_jar (Some (lexical expected)) (cj_warning jar) b)
             | None \<Rightarrow> Inr b)
        | (Some explicit, Inl e) \<Rightarrow> Inr (set_jar (Some (lexical explicit)) (cj_warning jar) b)
        | (None, Inr info) \<Rightarrow>
            (case canonical_cookie_jar info of
               Some p \<Rightarrow>
                 if \<not> cl_inline_host (b_client b)
                 then Inr (set_jar None (Some ''implicit profile cookie jar disabled for external host: host profile path {} is not a client-owned local profile; browser profile cookies remain host-side'') b)
                 else if implicit_profile_path_is_local metadata (ps_path info)
                 then Inr (set_jar (Some (lexical p)) (cj_warning jar) b)
                 else Inr (set_jar None (Some ''implicit profile cookie jar disabled: host profile path {} is not visible as a writable local directory; browser profile cookies remain host-side'') b)
             | None \<Rightarrow> Inr b)
        | (None, Inl e) \<Rightarrow>
            Inr (set_jar None (Some (''GET /profile unavailable; implicit profile cookie jar disabled: '' @ detail e)) b)))"

subsection \<open>Writing responses back\<close>

definition persist_set_cookies ::
  "(string \<Rightarrow> string option) \<Rightarrow> (string \<Rightarrow> cookie option) \<Rightarrow> jar_io \<Rightarrow> int \<Rightarrow> path \<Rightarrow> string list \<Rightarrow> url
   \<Rightarrow> jar_file \<Rightarrow> jar_file \<Rightarrow> unit result \<times> jar_file" where
  "persist_set_cookies psl parse_cookie io now jp lines u file_at_load file_at_lock =
     (if lines = [] then (Inr (), file_at_lock)
      else (case load jp file_at_load of
              Inl e \<Rightarrow> (Inl e, file_at_lock)
            | Inr jar \<Rightarrow>
                persist io now file_at_lock
                  (foldl (\<lambda>jar line. case parse_cookie line of
                                       Some c \<Rightarrow> snd (merge_response psl now c u jar)
                                     | None \<Rightarrow> jar) jar lines)))"

definition cdp_cookie_to_set_cookie ::
  "(string \<Rightarrow> string) \<Rightarrow> (int \<Rightarrow> bool) \<Rightarrow> (jnum \<Rightarrow> bool) \<Rightarrow> (jnum \<Rightarrow> int) \<Rightarrow> json \<Rightarrow> cookie option" where
  "cdp_cookie_to_set_cookie dom_get ts_ok f64_pos f64_i64 entry =
     (case (get_str entry ''name'', get_str entry ''value'') of
        (Some name, Some v) \<Rightarrow>
          Some \<lparr> ck_name = name, ck_value = v,
            ck_domain = (case get_str entry ''domain'' of
                           Some d \<Rightarrow> if starts_with d ''.'' then Some (dom_get d) else None
                         | None \<Rightarrow> None),
            ck_path = (case get_str entry ''path'' of
                         Some p \<Rightarrow> if p \<noteq> [] then Some p else None
                       | None \<Rightarrow> None),
            ck_secure = (if get_bool entry ''secure'' = Some True then Some True else None),
            ck_http_only = (if get_bool entry ''httpOnly'' = Some True then Some True else None),
            ck_max_age = None,
            ck_expires = (case json_get entry ''expires'' of
                            Some (JNum n) \<Rightarrow>
                              if f64_pos n \<and> ts_ok (f64_i64 n) then Some (DateTime (f64_i64 n)) else None
                          | _ \<Rightarrow> None),
            ck_same_site = (case get_str entry ''sameSite'' of
                              Some s \<Rightarrow> if s = ''Strict'' then Some Strict
                                       else if s = ''Lax'' then Some Lax
                                       else if s = ''None'' then Some SameSiteNone else None
                            | None \<Rightarrow> None),
            ck_partitioned = None \<rparr>
      | _ \<Rightarrow> None)"

text \<open>The conversion of the CDP entries is an argument, \<open>conv\<close>, in what follows.\<close>

definition merge_browser_cookies ::
  "(string \<Rightarrow> string option) \<Rightarrow> (json \<Rightarrow> cookie option) \<Rightarrow> int \<Rightarrow> json list \<Rightarrow> url \<Rightarrow> cookie_jar option
   \<Rightarrow> cookie_jar \<Rightarrow> nat \<times> cookie_jar" where
  "merge_browser_cookies psl conv now cookies u injected jar =
     foldl (\<lambda>(rejected, jar) entry.
              case conv entry of
                None \<Rightarrow> (rejected, jar)
              | Some c \<Rightarrow>
                 if (case injected of Some snapshot \<Rightarrow> holds_unchanged now c u snapshot | None \<Rightarrow> False)
                 then (rejected, jar)
                 else (case merge psl now c u jar of
                         (accepted, jar') \<Rightarrow> (if accepted then rejected else rejected + 1, jar')))
           (0, jar) cookies"

definition sync_browser_cookies_to_jar ::
  "(string \<Rightarrow> string option) \<Rightarrow> (json \<Rightarrow> cookie option) \<Rightarrow> (string \<Rightarrow> url option) \<Rightarrow> json result \<Rightarrow> jar_io
   \<Rightarrow> int \<Rightarrow> string \<Rightarrow> path \<Rightarrow> cookie_jar option \<Rightarrow> jar_file \<Rightarrow> jar_file \<Rightarrow> nat result \<times> jar_file" where
  "sync_browser_cookies_to_jar psl conv url_parse reply io now page_url jp injected file_at_load file_at_lock =
     (case url_parse page_url of
        None \<Rightarrow> (fail InternalError ''cookie jar sync: parse final_url {final_url:?}: {e}'', file_at_lock)
      | Some u \<Rightarrow>
         (case reply of
            Inl e \<Rightarrow> (Inl e, file_at_lock)
          | Inr r \<Rightarrow>
             (case Option.bind (json_get r ''cookies'') json_arr of
                None \<Rightarrow> (Inr 0, file_at_lock)
              | Some cookies \<Rightarrow>
                 if cookies = [] then (Inr 0, file_at_lock)
                 else (case load jp file_at_load of
                         Inl e \<Rightarrow> (Inl e, file_at_lock)
                       | Inr jar \<Rightarrow>
                          (case merge_browser_cookies psl conv now cookies u injected jar of
                             (rejected, jar') \<Rightarrow>
                               (case persist io now file_at_lock jar' of
                                  (Inl e, file') \<Rightarrow> (Inl e, file')
                                | (Inr _, file') \<Rightarrow> (Inr rejected, file')))))))"

subsection \<open>Which jar\<close>

lemma set_jar_path [simp]: "cj_path (b_cookie_jar (set_jar p w b)) = p"
  by (simp add: set_jar_def)

text \<open>
  C19. Isolation of profile jars. When the host answers with a profile directory, a fetch that is
  not opted out uses that profile's own jar or none: an explicit path is accepted only if it is that
  very file, an implicit one is taken only from an inline host whose profile directory is
  a local writable directory, and never from an external host.
\<close>

theorem jar_stays_in_the_profile:
  assumes "resolve_cookie_jar_path cwd metadata started (Inr info) b = Inr b'"
    and "canonical_cookie_jar info = Some expected"
    and "\<not> cj_disabled (b_cookie_jar b)" and "\<not> cl_hostless (b_client b)"
    and "cl_inline_host (b_client b) \<longrightarrow> started"
    and "is_absolute expected \<or> (\<exists>d. cwd = Some d \<and> normal_abs d)"
  shows "(cj_path (b_cookie_jar b') = None \<or> cj_path (b_cookie_jar b') = Some (absolute_lexical cwd expected))
       \<and> (\<forall>p. cj_path (b_cookie_jar b) = Some p \<and> normal_abs p \<longrightarrow> p = absolute_lexical cwd expected)
       \<and> (cj_path (b_cookie_jar b) = None \<and> cj_path (b_cookie_jar b') \<noteq> None \<longrightarrow>
            cl_inline_host (b_client b) \<and> implicit_profile_path_is_local metadata (ps_path info))"
proof -
  have match: "p = absolute_lexical cwd expected"
    if "jar_paths_match (absolute_lexical cwd p) (absolute_lexical cwd expected)" "normal_abs p" for p
    using that absolute_lexical_normal [OF assms(6)]
    by (simp add: absolute_lexical_id jar_paths_match_normal)
  show ?thesis
    using assms(1-5) match
    by (cases "cj_path (b_cookie_jar b)")
       (auto simp: resolve_cookie_jar_path_def Let_def split: if_splits)
qed

subsection \<open>What is written back\<close>

text \<open>A sequence of updates each of which leaves the jar alone or stores an entry of \<open>E\<close>.\<close>

lemma foldl_puts_changed:
  assumes "\<And>j x. x \<in> set xs \<Longrightarrow> f j x = j \<or> (\<exists>e \<in> E x. f j x = put_entry e j)"
    and "jar_ok jar"
  shows "jar_ok (foldl f jar xs)
       \<and> (\<forall>i. changed (foldl f jar xs) i \<noteq> changed jar i \<longrightarrow> (\<exists>x \<in> set xs. \<exists>e \<in> E x. jar_id e = i))"
  using assms
proof (induction xs arbitrary: jar)
  case (Cons x xs)
  from Cons.prems(1) [of x jar]
  have step: "f jar x = jar \<or> (\<exists>e \<in> E x. f jar x = put_entry e jar)" by simp
  then have ok: "jar_ok (f jar x)" using Cons.prems(2) jar_ok_put_entry by auto
  have one: "(\<exists>e \<in> E x. jar_id e = i)" if "changed (f jar x) i \<noteq> changed jar i" for i
    using step that Cons.prems(2) by (auto simp: changed_put_entry split: if_splits)
  have rest: "\<And>j y. y \<in> set xs \<Longrightarrow> f j y = j \<or> (\<exists>e \<in> E y. f j y = put_entry e j)"
    using Cons.prems(1) by simp
  show ?case using Cons.IH [OF rest ok] one by simp metis
qed simp

lemma persist_frame:
  assumes "jar_ok jar" and "disk_entries fl = Some disk" and "no_dup same_identity disk"
    and "persist io now fl jar = (Inr (), f')" and "changed jar i = None"
  shows "\<exists>es. f' = JarJson es \<and> jar_view es i = live now (jar_view disk) i"
  using persist_refines_map [OF assms(1-4)] assms(5)
  by (auto simp: live_def map_add_def)

text \<open>
  A response changes only the cookies it names. After a successful \<open>persist_set_cookies\<close>,
  an identity in the file differs from what the file held under the lock (up to expiry) only if one of
  the \<open>Set-Cookie\<close> lines parses to a cookie of that identity: whatever a concurrent fetch wrote
  between the load and the lock is kept.
\<close>

theorem response_changes_only_its_cookies:
  assumes "persist_set_cookies psl parse_cookie io now jp lines u file0 fl = (Inr (), f')"
    and "lines \<noteq> []" and "disk_entries file0 = Some disk0" and "no_dup same_identity disk0"
    and "disk_entries fl = Some disk" and "no_dup same_identity disk"
    and "\<forall>line \<in> set lines. \<forall>c. parse_cookie line = Some c \<longrightarrow> jar_id (from_set_cookie now c u) \<noteq> i"
  shows "\<exists>es. f' = JarJson es \<and> jar_view es i = live now (jar_view disk) i"
proof -
  obtain jar where l: "load jp file0 = Inr jar" using load_disk [OF assms(3)] by blast
  let ?f = "\<lambda>jar line. case parse_cookie line of Some c \<Rightarrow> snd (merge_response psl now c u jar) | None \<Rightarrow> jar"
  let ?E = "\<lambda>line. {from_set_cookie now c u | c. parse_cookie line = Some c}"
  have ok: "jar_ok jar" using jar_ok_load [OF l assms(3,4)] .
  have "?f j line = j \<or> (\<exists>e \<in> ?E line. ?f j line = put_entry e j)" for j line
    using merge_response_result [of psl now _ u j] by (auto split: option.splits)
  from foldl_puts_changed [where f = ?f and E = ?E, OF this ok, of lines]
  have okf: "jar_ok (foldl ?f jar lines)"
    and ch: "changed (foldl ?f jar lines) i \<noteq> changed jar i \<longrightarrow> (\<exists>x \<in> set lines. \<exists>e \<in> ?E x. jar_id e = i)"
    by blast+
  from ch assms(7) changed_load [OF l] have "changed (foldl ?f jar lines) i = None" by auto
  moreover have "persist io now fl (foldl ?f jar lines) = (Inr (), f')"
    using assms(1,2) l by (simp add: persist_set_cookies_def)
  ultimately show ?thesis by (intro persist_frame [OF okf assms(5,6)])
qed

text \<open>
  C15. The browser sync keeps concurrent updates. After a successful sync, an identity whose
  reported cookies are all unchanged from the snapshot that was injected has in the file exactly
  what the file held under the lock: a value another fetch stored meanwhile is not replayed over.
\<close>

theorem browser_sync_keeps_concurrent_updates:
  assumes "sync_browser_cookies_to_jar psl conv url_parse (Inr r) io now page_url jp (Some snapshot) file0 fl
             = (Inr n, f')"
    and "url_parse page_url = Some u" and "json_get r ''cookies'' = Some (JArr cookies)" and "cookies \<noteq> []"
    and "disk_entries file0 = Some disk0" and "no_dup same_identity disk0"
    and "disk_entries fl = Some disk" and "no_dup same_identity disk"
    and "\<forall>k \<in> set cookies. \<forall>c. conv k = Some c \<and> jar_id (from_set_cookie now c u) = i \<longrightarrow>
           holds_unchanged now c u snapshot"
  shows "\<exists>es. f' = JarJson es \<and> jar_view es i = live now (jar_view disk) i"
proof -
  obtain jar where l: "load jp file0 = Inr jar" using load_disk [OF assms(5)] by blast
  have ok: "jar_ok jar" using jar_ok_load [OF l assms(5,6)] .
  let ?g = "\<lambda>(rejected, jar) entry.
              case conv entry of
                None \<Rightarrow> (rejected, jar)
              | Some c \<Rightarrow>
                 if (case Some snapshot of Some snapshot \<Rightarrow> holds_unchanged now c u snapshot | None \<Rightarrow> False)
                 then (rejected, jar)
                 else (case merge psl now c u jar of
                         (accepted, jar') \<Rightarrow> (if accepted then rejected else rejected + (1::nat), jar'))"
  let ?f = "\<lambda>jar entry. snd (?g (0, jar) entry)"
  let ?E = "\<lambda>entry. {from_set_cookie now c u | c. conv entry = Some c \<and> \<not> holds_unchanged now c u snapshot}"
  have snd_g: "snd (?g p x) = ?f (snd p) x" for p x
    by (cases p) (auto split: option.splits prod.splits)
  have proj: "snd (foldl ?g p cookies) = foldl ?f (snd p) cookies" for p
  proof (induction cookies arbitrary: p)
    case (Cons x xs)
    show ?case unfolding foldl.simps Cons.IH by (subst snd_g) (rule refl)
  qed simp
  have "?f j x = j \<or> (\<exists>e \<in> ?E x. ?f j x = put_entry e j)" for j x
    using merge_result [of psl now _ u j] by (auto split: option.splits prod.splits) (metis snd_conv)
  from foldl_puts_changed [where f = ?f and E = ?E, OF this ok, of cookies]
  have okf: "jar_ok (foldl ?f jar cookies)"
    and ch: "changed (foldl ?f jar cookies) i \<noteq> changed jar i \<longrightarrow> (\<exists>x \<in> set cookies. \<exists>e \<in> ?E x. jar_id e = i)"
    by blast+
  from ch assms(9) changed_load [OF l] have none: "changed (foldl ?f jar cookies) i = None" by auto
  obtain m jar' where mj: "merge_browser_cookies psl conv now cookies u (Some snapshot) jar = (m, jar')"
    by fastforce
  with proj [of "(0, jar)"] have "jar' = foldl ?f jar cookies"
    by (simp add: merge_browser_cookies_def)
  moreover have "persist io now fl jar' = (Inr (), f')"
    using assms(1-4) l mj
    by (auto simp: sync_browser_cookies_to_jar_def split: prod.splits sum.splits)
  ultimately show ?thesis using persist_frame [OF okf assms(7,8) _ none] by simp
qed

subsection \<open>The properties at a concrete input\<close>

theorem jar_stays_in_the_profile_witness:
  "resolve_cookie_jar_path None (\<lambda>_. Some (True, False)) True
     (Inr \<lparr> ps_kind = ''persistent'', ps_name = Some ''p'', ps_path = Some [RootDir, Normal ''p''], ps_locked = True \<rparr>)
     (builder_new (demo_client True) ''http://x'')
   = Inr (set_jar (Some [RootDir, Normal ''p'', Normal ''cookies.jar.json'']) None (builder_new (demo_client True) ''http://x''))
   \<and> cl_inline_host (b_client (builder_new (demo_client True) ''http://x''))"
proof -
  let ?info = "\<lparr> ps_kind = ''persistent'', ps_name = Some ''p'', ps_path = Some [RootDir, Normal ''p''], ps_locked = True \<rparr>"
  let ?b = "builder_new (demo_client True) ''http://x''"
  let ?jar = "[RootDir, Normal ''p'', Normal ''cookies.jar.json'']"
  have canon: "canonical_cookie_jar ?info = Some ?jar"
    by (simp add: canonical_cookie_jar_def parse_path_def starts_with_def component_of_def path_push_def is_absolute_def)
  have lex: "absolute_lexical None ?jar = ?jar"
    by (rule absolute_lexical_id) (simp add: normal_abs_def)
  have eq: "resolve_cookie_jar_path None (\<lambda>_. Some (True, False)) True (Inr ?info) ?b = Inr (set_jar (Some ?jar) None ?b)"
    by (simp add: resolve_cookie_jar_path_def builder_new_def demo_client_def canon lex implicit_profile_path_is_local_def)
  from jar_stays_in_the_profile [OF eq canon] eq show ?thesis
    by (simp add: builder_new_def demo_client_def is_absolute_def)
qed

theorem response_changes_only_its_cookies_witness:
  "\<exists>es. snd (persist_set_cookies (\<lambda>_. Some ''com'') (\<lambda>_. Some (demo_cookie None)) demo_io 5 [RootDir, Normal ''j''] [''s=1''] demo_url
        NoFile NoFile) = JarJson es \<and> jar_view es (''other'', ''ex.com'', ''/'') = None"
proof -
  let ?call = "persist_set_cookies (\<lambda>_. Some ''com'') (\<lambda>_. Some (demo_cookie None)) demo_io 5 [RootDir, Normal ''j''] [''s=1''] demo_url
        NoFile NoFile"
  have "fst ?call = Inr ()"
    by (simp add: persist_set_cookies_def load_def persist_def demo_io_def path_parent_def Let_def)
  then have eq: "?call = (Inr (), snd ?call)" by (metis prod.collapse)
  have ne: "jar_id (from_set_cookie 5 (demo_cookie None) demo_url) \<noteq> (''other'', ''ex.com'', ''/'')"
    by (simp add: jar_id_def from_set_cookie_def demo_cookie_def)
  from response_changes_only_its_cookies [OF eq, of "[]" "[]" "(''other'', ''ex.com'', ''/'')"] ne
  show ?thesis by (auto simp: disk_entries_def no_dup_def jar_view_def live_def)
qed

theorem browser_sync_keeps_concurrent_updates_witness:
  "\<exists>es. snd (sync_browser_cookies_to_jar (\<lambda>_. None) (\<lambda>_. Some (demo_cookie None)) (\<lambda>_. Some demo_url)
        (Inr (JObj [(''cookies'', JArr [JNull])])) demo_io 5 ''u'' [RootDir, Normal ''j'']
        (Some (put_entry (from_set_cookie 5 (demo_cookie None) demo_url) demo_jar)) NoFile
        (JarJson [from_set_cookie 5 (demo_cookie (Some 9000000000)) demo_url])) = JarJson es
     \<and> jar_view es (jar_id (from_set_cookie 5 (demo_cookie None) demo_url))
         = Some (from_set_cookie 5 (demo_cookie (Some 9000000000)) demo_url)"
proof -
  let ?e = "from_set_cookie 5 (demo_cookie None) demo_url"
  let ?n = "from_set_cookie 5 (demo_cookie (Some 9000000000)) demo_url"
  let ?call = "sync_browser_cookies_to_jar (\<lambda>_. None) (\<lambda>_. Some (demo_cookie None)) (\<lambda>_. Some demo_url)
        (Inr (JObj [(''cookies'', JArr [JNull])])) demo_io 5 ''u'' [RootDir, Normal ''j'']
        (Some (put_entry ?e demo_jar)) NoFile (JarJson [?n])"
  have held: "holds_unchanged 5 (demo_cookie None) demo_url (put_entry ?e demo_jar)"
    by (simp add: holds_unchanged_def demo_jar_def same_content_def same_identity_iff)
  have "\<not> isl (fst ?call)"
    by (simp add: sync_browser_cookies_to_jar_def load_def persist_def demo_io_def path_parent_def Let_def
        merge_browser_cookies_def held)
  then obtain n where eq: "?call = (Inr n, snd ?call)" by (metis prod.collapse sum.collapse(2))
  have id: "jar_id ?n = jar_id ?e" by (simp add: jar_id_def from_set_cookie_def demo_cookie_def)
  have "\<not> is_expired 5 ?n"
    by (simp add: is_expired_def from_set_cookie_def demo_cookie_def sat_i64_add_def i64_max_def i64_min_def)
  then have live: "live 5 (jar_view [?n]) (jar_id ?e) = Some ?n" by (simp add: live_def jar_view_def id)
  have "\<exists>es. snd ?call = JarJson es \<and> jar_view es (jar_id ?e) = live 5 (jar_view [?n]) (jar_id ?e)"
    by (rule browser_sync_keeps_concurrent_updates [OF eq, of demo_url "[JNull]" "[]"])
       (simp_all add: held disk_entries_def no_dup_def)
  then show ?thesis by (simp add: live)
qed

end
