(* ===== verification/RequestOpts.thy ===== *)
theory RequestOpts
  imports CookieResolve
begin

text \<open>
  The validated form of a fetch's request modifiers (\<open>pipeline/request_opts.rs\<close>): headers,
  cookies, body and method, the header map sent to a URL, and which cookies may go there.

  The \<open>http\<close> crate is the two arguments \<open>hname\<close> (\<open>HeaderName::from_bytes\<close>: the
  lower-case name, or None) and \<open>hval\<close> (does \<open>HeaderValue::from_str\<close> accept it); a header
  value is its text. \<open>upper\<close> is the Unicode \<open>str::to_uppercase\<close>, \<open>age_end\<close> the checked addition of a
  \<open>Max-Age\<close> to the current time, \<open>split_cookies\<close> is \<open>Cookie::split_parse\<close>.
\<close>

datatype body_payload = NoBody | Bytes bytes | Form "(string \<times> string) list"

record prepared_header =
  ph_name :: string
  ph_value :: string
  ph_cdp_name :: string
  ph_cdp_value :: string

record prepared_cookie =
  pc_name :: string
  pc_value :: string
  pc_domain :: "string option"
  pc_path :: "string option"
  pc_secure :: "bool option"
  pc_http_only :: "bool option"
  pc_same_site :: "same_site option"
  pc_partitioned :: "bool option"
  pc_expires :: "int option"

record prepared_options =
  po_headers :: "prepared_header list"
  po_user_agent :: "(string \<times> string) option"
  po_raw_cookie :: "(string \<times> string) option"
  po_cookies :: "prepared_cookie list"
  po_raw_pairs :: "prepared_cookie list"
  po_evaluate :: "string list"
  po_method :: string
  po_body :: body_payload

subsection \<open>Validation\<close>

definition parse_header ::
  "(string \<Rightarrow> string option) \<Rightarrow> (string \<Rightarrow> bool) \<Rightarrow> string \<Rightarrow> string \<Rightarrow> (string \<times> string) result" where
  "parse_header hname hval name v =
     (case hname name of
        None \<Rightarrow> fail InvalidArgument ''{source}: invalid header name {name:?}: {e}''
      | Some n \<Rightarrow>
          if \<not> hval v then fail InvalidArgument ''{source}: invalid value for header {name:?}: {e}''
          else Inr (n, v))"

definition validate_cookie_pair :: "string \<Rightarrow> string \<Rightarrow> unit result" where
  "validate_cookie_pair name v =
     (let trimmed_name = trim name in
      if trimmed_name = [] then fail InvalidArgument ''{source}: cookie name must not be empty''
      else if list_ex (\<lambda>b. b = CHR '';'' \<or> b = CHR ''='' \<or> is_ascii_control b \<or> is_ascii_whitespace b) trimmed_name
      then fail InvalidArgument ''{source}: invalid cookie name {name:?}''
      else if list_ex (\<lambda>b. b = CHR '';'' \<or> b = CHR 0x0D \<or> b = CHR 0x0A) v
      then fail InvalidArgument ''{source}: invalid cookie value for {trimmed_name:?}''
      else Inr ())"

definition cookie_expires_epoch_s :: "(int \<Rightarrow> int option) \<Rightarrow> cookie \<Rightarrow> int option" where
  "cookie_expires_epoch_s age_end c =
     (case ck_max_age c of
        Some age \<Rightarrow> age_end age
      | None \<Rightarrow> (case ck_expires c of
                   Some (DateTime t) \<Rightarrow> Some t
                 | Some Session \<Rightarrow> None
                 | None \<Rightarrow> None))"

definition prepare_cookie :: "(int \<Rightarrow> int option) \<Rightarrow> cookie \<Rightarrow> prepared_cookie result" where
  "prepare_cookie age_end c =
     and_then (validate_cookie_pair (ck_name c) (ck_value c)) (\<lambda>_.
       if ck_partitioned c = Some True \<and> ck_secure c = Some False
       then fail InvalidArgument ''{source}: Partitioned cookies require Secure''
       else if ck_same_site c = Some SameSiteNone \<and> ck_secure c = Some False
       then fail InvalidArgument ''{source}: SameSite=None cookies require Secure''
       else Inr \<lparr> pc_name = ck_name c, pc_value = ck_value c,
                  pc_domain = map_option to_ascii_lowercase (ck_domain c), pc_path = ck_path c,
                  pc_secure = ck_secure c, pc_http_only = ck_http_only c,
                  pc_same_site = ck_same_site c, pc_partitioned = ck_partitioned c,
                  pc_expires = cookie_expires_epoch_s age_end c \<rparr>)"

definition parse_cookie_header ::
  "(string \<Rightarrow> cookie option list) \<Rightarrow> (int \<Rightarrow> int option) \<Rightarrow> string \<Rightarrow> prepared_cookie list result" where
  "parse_cookie_header split_cookies age_end v =
     try_map (\<lambda>parsed. case parsed of
                None \<Rightarrow> fail InvalidArgument ''.header(\"Cookie\", ...): invalid cookie header: {e}''
              | Some c \<Rightarrow> prepare_cookie age_end c)
       (split_cookies v)"

definition cookie_is_expired :: "int \<Rightarrow> prepared_cookie \<Rightarrow> bool" where
  "cookie_is_expired now c = (case pc_expires c of Some t \<Rightarrow> t \<le> now | None \<Rightarrow> False)"

definition parse_cookie_url :: "(string \<Rightarrow> url option) \<Rightarrow> string \<Rightarrow> url result" where
  "parse_cookie_url url_parse u =
     (case url_parse u of
        None \<Rightarrow> fail InvalidArgument ''cookie URL scope requires an absolute URL: {e}''
      | Some v \<Rightarrow> Inr v)"

definition validate_cookie_scope :: "prepared_cookie \<Rightarrow> url \<Rightarrow> unit result" where
  "validate_cookie_scope c u =
     and_then
       (case pc_domain c of
          Some domain \<Rightarrow>
            (case map_option to_ascii_lowercase (url_host u) of
               None \<Rightarrow> fail InvalidArgument ''{source}: cookie {:?} has Domain but URL has no host''
             | Some host \<Rightarrow>
                 if host \<noteq> domain \<and> \<not> ends_with host (''.'' @ domain)
                 then fail InvalidArgument ''{source}: cookie {:?} Domain={domain:?} does not match URL host {host:?}''
                 else Inr ())
        | None \<Rightarrow> Inr ())
       (\<lambda>_. case pc_path c of
              Some p \<Rightarrow>
                if \<not> path_matches (Some p) (url_path u)
                then fail InvalidArgument ''{source}: cookie {:?} Path={path:?} does not match URL path {:?}''
                else Inr ()
            | None \<Rightarrow> Inr ())"

definition effective_cookie_secure :: "prepared_cookie \<Rightarrow> bool" where
  "effective_cookie_secure c \<longleftrightarrow>
     pc_secure c = Some True \<or> pc_same_site c = Some SameSiteNone \<or> pc_partitioned c = Some True"

definition is_origin_scoped_header :: "string \<Rightarrow> bool" where
  "is_origin_scoped_header name \<longleftrightarrow>
     name \<in> {''authorization'', ''proxy-authorization'', ''cookie'', ''cookie2'', ''host'', ''www-authenticate''}"

subsection \<open>From the builder\<close>

text \<open>The loop over the caller's headers: \<open>User-Agent\<close> and \<open>Cookie\<close> are taken out, once each.\<close>

fun sort_headers ::
  "(string \<Rightarrow> string option) \<Rightarrow> (string \<Rightarrow> bool) \<Rightarrow> (string \<times> string) list
   \<Rightarrow> prepared_header list \<times> (string \<times> string) option \<times> (string \<times> string) option
   \<Rightarrow> (prepared_header list \<times> (string \<times> string) option \<times> (string \<times> string) option) result" where
  "sort_headers hname hval [] acc = Inr acc"
| "sort_headers hname hval ((name, v) # rest) (headers, ua, raw) =
     and_then (parse_header hname hval name v) (\<lambda>(n, hv).
       if n = ''user-agent'' then
         if ua \<noteq> None then fail InvalidArgument ''multiple User-Agent headers were provided''
         else sort_headers hname hval rest (headers, Some (v, hv), raw)
       else if n = ''cookie'' then
         if raw \<noteq> None then fail InvalidArgument ''multiple Cookie headers were provided''
         else sort_headers hname hval rest (headers, ua, Some (v, hv))
       else sort_headers hname hval rest
              (headers @ [\<lparr> ph_name = n, ph_value = hv, ph_cdp_name = n, ph_cdp_value = v \<rparr>], ua, raw))"

definition from_builder ::
  "(string \<Rightarrow> string option) \<Rightarrow> (string \<Rightarrow> bool) \<Rightarrow> (string \<Rightarrow> string) \<Rightarrow> (string \<Rightarrow> cookie option list)
   \<Rightarrow> (int \<Rightarrow> int option) \<Rightarrow> request_options \<Rightarrow> prepared_options result" where
  "from_builder hname hval upper split_cookies age_end req =
     and_then (sort_headers hname hval (ro_headers req) ([], None, None)) (\<lambda>(headers, ua_header, raw).
       if ro_user_agent req \<noteq> None \<and> ua_header \<noteq> None
       then fail InvalidArgument ''.user_agent(...) conflicts with .header(\"User-Agent\", ...)''
       else and_then (case ro_user_agent req of
                        Some v \<Rightarrow> and_then (parse_header hname hval ''User-Agent'' v) (\<lambda>(_, hv). Inr (Some (v, hv)))
                      | None \<Rightarrow> Inr ua_header) (\<lambda>ua.
       if raw \<noteq> None \<and> ro_cookies req \<noteq> []
       then fail InvalidArgument ''.cookie(...) conflicts with .header(\"Cookie\", ...)''
       else and_then (try_map (prepare_cookie age_end) (ro_cookies req)) (\<lambda>cookies.
       and_then (case raw of Some (v, _) \<Rightarrow> parse_cookie_header split_cookies age_end v
                           | None \<Rightarrow> Inr []) (\<lambda>raw_pairs.
       if ro_body req \<noteq> None \<and> ro_form req \<noteq> []
       then fail InvalidArgument ''--data and --form are mutually exclusive''
       else Inr \<lparr> po_headers = headers, po_user_agent = ua, po_raw_cookie = raw, po_cookies = cookies,
                  po_raw_pairs = raw_pairs, po_evaluate = ro_evaluate_after_wait req,
                  po_method = upper (case ro_method req of Some m \<Rightarrow> m | None \<Rightarrow> ''GET''),
                  po_body = (case ro_body req of
                               Some bs \<Rightarrow> Bytes bs
                             | None \<Rightarrow> if ro_form req \<noteq> [] then Form (ro_form req) else NoBody) \<rparr>))))"

subsection \<open>What goes to a URL\<close>

fun cookie_pairs :: "int \<Rightarrow> url \<Rightarrow> prepared_cookie list \<Rightarrow> string list result" where
  "cookie_pairs now u [] = Inr []"
| "cookie_pairs now u (c # cs) =
     and_then (validate_cookie_scope c u) (\<lambda>_.
       if effective_cookie_secure c \<and> url_scheme u \<noteq> ''https'' then cookie_pairs now u cs
       else if cookie_is_expired now c then cookie_pairs now u cs
       else and_then (cookie_pairs now u cs) (\<lambda>ps. Inr ((pc_name c @ ''='' @ pc_value c) # ps)))"

definition cookie_header_for_url ::
  "(string \<Rightarrow> bool) \<Rightarrow> (string \<Rightarrow> url option) \<Rightarrow> int \<Rightarrow> prepared_options \<Rightarrow> string \<Rightarrow> string option result" where
  "cookie_header_for_url hval url_parse now po u =
     (if po_cookies po = [] then Inr None
      else and_then (parse_cookie_url url_parse u) (\<lambda>u.
        and_then (cookie_pairs now u (po_cookies po)) (\<lambda>pairs.
          if pairs = [] then Inr None
          else if hval (join ''; '' pairs) then Inr (Some (join ''; '' pairs))
          else fail InvalidArgument ''cookie header value is invalid: {e}'')))"

definition http_header_map ::
  "(string \<Rightarrow> bool) \<Rightarrow> (string \<Rightarrow> url option) \<Rightarrow> int \<Rightarrow> prepared_options \<Rightarrow> string \<Rightarrow> (string, string) kv result" where
  "http_header_map hval url_parse now po u =
     (let m = foldl (\<lambda>m h. kv_put (ph_name h) (ph_value h) m) [] (po_headers po);
          m = (case po_user_agent po of Some (_, v) \<Rightarrow> kv_put ''user-agent'' v m | None \<Rightarrow> m)
      in case po_raw_cookie po of
           Some (_, v) \<Rightarrow> Inr (kv_put ''cookie'' v m)
         | None \<Rightarrow> and_then (cookie_header_for_url hval url_parse now po u) (\<lambda>c.
                     Inr (case c of Some v \<Rightarrow> kv_put ''cookie'' v m | None \<Rightarrow> m)))"

definition cdp_headers_by_scope ::
  "prepared_options \<Rightarrow> (string, string) kv \<times> (string \<times> string) list" where
  "cdp_headers_by_scope po =
     foldl (\<lambda>(everywhere, origin_only) h.
              if is_origin_scoped_header (ph_name h)
              then (everywhere, origin_only @ [(ph_cdp_name h, ph_cdp_value h)])
              else (bt_put (ph_cdp_name h) (ph_cdp_value h) everywhere, origin_only))
           ([], []) (po_headers po)"

definition merge_jar_cookies ::
  "(string \<Rightarrow> bool) \<Rightarrow> prepared_cookie list \<Rightarrow> prepared_options \<Rightarrow> prepared_options" where
  "merge_jar_cookies hval extras po =
     (case po_raw_cookie po of
        Some rv \<Rightarrow>
          (let existing = set (map pc_name (po_raw_pairs po));
               r = foldl (\<lambda>((raw, v), pairs) c.
                     if pc_name c \<in> existing then ((raw, v), pairs)
                     else (let joined = raw @ ''; '' @ pc_name c @ ''='' @ pc_value c
                           in if hval joined then ((joined, joined), pairs @ [c]) else ((raw, v), pairs)))
                   (rv, po_raw_pairs po) extras
           in po\<lparr> po_raw_cookie := Some (fst r), po_raw_pairs := snd r \<rparr>)
      | None \<Rightarrow>
          (let existing = set (map pc_name (po_cookies po))
           in po\<lparr> po_cookies := po_cookies po @ filter (\<lambda>c. pc_name c \<notin> existing) extras \<rparr>))"

definition browser_cookies :: "prepared_options \<Rightarrow> prepared_cookie list" where
  "browser_cookies po = (if po_raw_cookie po \<noteq> None then po_raw_pairs po else po_cookies po)"

definition has_evaluate_after_wait :: "prepared_options \<Rightarrow> bool" where
  "has_evaluate_after_wait po \<longleftrightarrow> po_evaluate po \<noteq> []"

subsection \<open>The cookies a URL receives\<close>

definition cookie_text :: "prepared_cookie \<Rightarrow> string" where
  "cookie_text c = pc_name c @ ''='' @ pc_value c"

definition sendable :: "int \<Rightarrow> url \<Rightarrow> prepared_cookie \<Rightarrow> bool" where
  "sendable now u c \<longleftrightarrow>
     \<not> (effective_cookie_secure c \<and> url_scheme u \<noteq> ''https'') \<and> \<not> cookie_is_expired now c"

lemma cookie_pairs_Inr:
  "cookie_pairs now u cs = Inr ps \<longleftrightarrow>
     (\<forall>c \<in> set cs. validate_cookie_scope c u = Inr ()) \<and> ps = map cookie_text (filter (sendable now u) cs)"
proof (induction cs arbitrary: ps)
  case (Cons c cs)
  show ?case
    using Cons [of ps] Cons by (auto simp: and_then_Inr sendable_def cookie_text_def)
qed auto

lemma prepared_no_semicolon:
  assumes "prepare_cookie age_end k = Inr c"
  shows "CHR '';'' \<notin> set (cookie_text c)"
proof -
  from assms have v: "validate_cookie_pair (ck_name k) (ck_value k) = Inr ()"
    and c: "pc_name c = ck_name k" "pc_value c = ck_value k"
    by (auto simp: prepare_cookie_def and_then_Inr split: if_splits)
  from v have "CHR '';'' \<notin> set (trim (ck_name k))" "CHR '';'' \<notin> set (ck_value k)"
    by (auto simp: validate_cookie_pair_def Let_def list_ex_iff split: if_splits)
  moreover have "\<not> ws_byte CHR '';''" by (simp add: ws_byte_def byte_val_def)
  ultimately show ?thesis using trim_bytes by (auto simp: cookie_text_def c)
qed

lemma split_join:
  assumes "\<forall>p \<in> set (p0 # ps). CHR '';'' \<notin> set p"
  shows "split_on CHR '';'' (join ''; '' (p0 # ps)) = p0 # map (\<lambda>p. CHR '' '' # p) ps"
  using assms
proof (induction ps arbitrary: p0)
  case Nil
  then show ?case by (simp add: join_def split_on_none)
next
  case (Cons p ps)
  have "join ''; '' (p0 # p # ps) = p0 @ CHR '';'' # join ''; '' ((CHR '' '' # p) # ps)"
    by (simp add: join_simps)
  with Cons.IH [of "CHR '' '' # p"] Cons.prems show ?case by (simp add: split_on_append)
qed

text \<open>
  The \<open>Cookie\<close> header a URL receives is exactly the caller's cookies that may go there. When
  a header is produced, every prepared cookie's \<open>Domain\<close> and \<open>Path\<close> match the URL, and splitting the
  header at semicolons gives back the \<open>name=value\<close> texts of the unexpired cookies, in order, without
  those that are effectively secure on a URL that is not https: no value smuggles another cookie in.
\<close>

theorem cookie_header_is_the_sendable_cookies:
  assumes "cookie_header_for_url hval url_parse now po u = Inr (Some h)"
    and "\<forall>c \<in> set (po_cookies po). \<exists>k. prepare_cookie age_end k = Inr c"
  shows "\<exists>v p0 ps. url_parse u = Some v
     \<and> (\<forall>c \<in> set (po_cookies po). validate_cookie_scope c v = Inr ())
     \<and> map cookie_text (filter (sendable now v) (po_cookies po)) = p0 # ps
     \<and> split_on CHR '';'' h = p0 # map (\<lambda>p. CHR '' '' # p) ps"
proof -
  from assms(1) obtain v pairs where v: "url_parse u = Some v"
    and pairs: "cookie_pairs now v (po_cookies po) = Inr pairs" and ne: "pairs \<noteq> []" and h: "h = join ''; '' pairs"
    by (auto simp: cookie_header_for_url_def parse_cookie_url_def and_then_Inr split: if_splits option.splits)
  from ne obtain p0 ps where p: "pairs = p0 # ps" by (cases pairs) auto
  from pairs have scope: "\<forall>c \<in> set (po_cookies po). validate_cookie_scope c v = Inr ()"
    and eq: "pairs = map cookie_text (filter (sendable now v) (po_cookies po))"
    by (simp_all add: cookie_pairs_Inr)
  have "\<forall>q \<in> set (p0 # ps). CHR '';'' \<notin> set q"
    using eq assms(2) prepared_no_semicolon unfolding p [symmetric] by fastforce
  from split_join [OF this] show ?thesis using v scope eq p h by auto
qed

definition demo_prepared :: prepared_cookie where
  "demo_prepared = \<lparr> pc_name = ''a'', pc_value = ''1'', pc_domain = None, pc_path = None, pc_secure = None,
     pc_http_only = None, pc_same_site = None, pc_partitioned = None, pc_expires = None \<rparr>"

definition demo_options :: prepared_options where
  "demo_options = \<lparr> po_headers = [\<lparr> ph_name = ''authorization'', ph_value = ''t'', ph_cdp_name = ''authorization'', ph_cdp_value = ''t'' \<rparr>],
     po_user_agent = None, po_raw_cookie = None, po_cookies = [demo_prepared, demo_prepared], po_raw_pairs = [],
     po_evaluate = [], po_method = ''GET'', po_body = NoBody \<rparr>"

lemma demo_prepare: "prepare_cookie (\<lambda>_. None) (cookie_new ''a'' ''1'') = Inr demo_prepared"
proof -
  have "ws_width ''a'' = 0" "ws_suffix ''a'' = 0" by (simp_all add: ws_suffix_def byte_val_def)
  then have "trim ''a'' = ''a''" by (simp add: trim_def trim_start.simps trim_end.simps)
  then show ?thesis
    by (simp add: prepare_cookie_def validate_cookie_pair_def cookie_new_def is_ascii_control_def
        is_ascii_whitespace_def demo_prepared_def cookie_expires_epoch_s_def)
qed

theorem cookie_header_is_the_sendable_cookies_witness:
  "split_on CHR '';'' ''a=1; a=1'' = [''a=1'', '' a=1'']"
proof -
  have h: "cookie_header_for_url (\<lambda>_. True) (\<lambda>_. Some demo_url) 0 demo_options ''u'' = Inr (Some ''a=1; a=1'')"
    by (simp add: cookie_header_for_url_def demo_options_def demo_prepared_def parse_cookie_url_def
        validate_cookie_scope_def cookie_is_expired_def join_def effective_cookie_secure_def)
  have "\<forall>c \<in> set (po_cookies demo_options). \<exists>k. prepare_cookie (\<lambda>_. None) k = Inr c"
    using demo_prepare by (auto simp: demo_options_def)
  from cookie_header_is_the_sendable_cookies [OF h this] show ?thesis
    by (auto simp: demo_options_def sendable_def cookie_text_def demo_prepared_def cookie_is_expired_def
        effective_cookie_secure_def)
qed

end
