(* ===== verification/Classify.thy ===== *)
theory Classify
  imports FetchTypes Json
begin

text \<open>
  Mechanical classification of what came back: challenge pages
  (\<open>sdk/fetch/page_classification.rs\<close>), empty application shells and transport errors
  (\<open>pipeline/http_only.rs\<close>), and the extension of the body file (\<open>artifacts/body.rs\<close>).

  The HTML parser is the argument \<open>html_texts\<close>: the text nodes of the parsed document in
  \<open>tree.nodes()\<close> order, each with its ancestor elements from the nearest one outwards.
\<close>

subsection \<open>Text helpers of the standard library\<close>

text \<open>\<open>chars().count()\<close>: every byte but the UTF-8 continuation bytes starts a character.\<close>

definition char_count :: "string \<Rightarrow> nat" where
  "char_count s = length (filter (\<lambda>c. \<not> (128 \<le> byte_val c \<and> byte_val c < 192)) s)"

text \<open>\<open>split_whitespace\<close>; \<open>cur\<close> is the word being read.\<close>

function split_ws :: "string \<Rightarrow> string \<Rightarrow> string list" where
  "split_ws cur s =
     (if s = [] then (if cur = [] then [] else [cur])
      else if ws_width s > 0
      then (if cur = [] then [] else [cur]) @ split_ws [] (drop (ws_width s) s)
      else split_ws (cur @ take (char_width (hd s)) s) (drop (char_width (hd s)) s))"
  by pat_completeness auto
termination
  by (relation "measure (\<lambda>(cur, s). length s)") auto

declare split_ws.simps [simp del]

definition split_whitespace :: "string \<Rightarrow> string list" where
  "split_whitespace s = split_ws [] s"

subsection \<open>Challenge pages\<close>

record page_classification =
  cls_kind :: page_kind
  cls_code :: error_code
  cls_detail :: string

record html_element =
  el_name :: string
  el_attrs :: "(string \<times> string) list"

definition hides :: "html_element \<Rightarrow> bool" where
  "hides e \<longleftrightarrow> el_name e \<in> {''script'', ''style'', ''template'', ''noscript''}
     \<or> map_of (el_attrs e) ''hidden'' \<noteq> None
     \<or> map_of (el_attrs e) ''aria-hidden'' = Some ''true''"

text \<open>Title and text of the visible text nodes.\<close>

definition html_copy :: "(string \<Rightarrow> (string \<times> html_element list) list) \<Rightarrow> string \<Rightarrow> string \<times> string" where
  "html_copy html_texts html =
     (let (title, copy) =
            foldl (\<lambda>(title, copy) (text, ancestors).
                     if list_ex hides ancestors then (title, copy)
                     else if list_ex (\<lambda>e. el_name e = ''title'') ancestors then (title @ text @ '' '', copy)
                     else (title, copy @ text @ '' ''))
                  ([], []) (html_texts html);
          normalize = (\<lambda>v. join '' '' (split_whitespace v))
      in (normalize title, normalize copy))"

definition challenge_detail :: "string \<Rightarrow> string" where
  "challenge_detail label =
     ''detected '' @ label @ ''; artifacts likely show a challenge page, not verified target content. Use human takeover for review/input, e.g. `afhttp fetch <url> --takeover`; this is not a captcha bypass.''"

definition challenge_phrases :: "string list" where
  "challenge_phrases =
     [''checking your browser'', ''just a moment'', ''verify you are human'',
      ''verifying you are human'', ''review the security of your connection'']"

definition challenge_copy :: "string \<Rightarrow> bool" where
  "challenge_copy v = list_ex (\<lambda>phrase. contains v phrase) challenge_phrases"

text \<open>The two tests of \<open>classify\<close>, on the lower-case HTML, title and text.\<close>

definition bot_wall_copy :: "string \<Rightarrow> string \<Rightarrow> string \<Rightarrow> bool" where
  "bot_wall_copy html title copy =
     (let cloudflare_marker = contains html ''cloudflare'' \<or> contains html ''_cf_chl''
                              \<or> contains html ''cf-chl'' \<or> contains html ''cf-turnstile'';
          challenge_document = char_count copy \<le> 1200 \<and> challenge_copy copy
             \<and> (list_ex (\<lambda>phrase. starts_with (trim_start copy) phrase) challenge_phrases
                \<or> contains html ''_cf_chl'' \<or> contains html ''cf-chl'');
          browser_check_document = char_count copy \<le> 1200
             \<and> starts_with (trim_start copy) ''hang tight'' \<and> contains copy ''we are checking your browser''
      in browser_check_document \<or> (cloudflare_marker \<and> (challenge_copy title \<or> challenge_document)))"

definition access_denied_copy :: "string \<Rightarrow> string \<Rightarrow> string \<Rightarrow> bool" where
  "access_denied_copy html title copy =
     (let lower = title @ [CHR 0x0A] @ copy;
          access_denied = contains lower ''access denied'' \<or> contains lower ''request blocked''
             \<or> contains lower ''you have been blocked'' \<or> contains lower ''unusual traffic'';
          challenge_marker = contains lower ''captcha'' \<or> contains html ''challenge-platform''
             \<or> contains lower ''security check'' \<or> contains lower ''verify that you are not a robot''
      in access_denied \<and> (challenge_marker \<or> contains lower ''reference #''))"

definition classify ::
  "(string \<Rightarrow> (string \<times> html_element list) list) \<Rightarrow> string option \<Rightarrow> string option \<Rightarrow> string option
   \<Rightarrow> page_classification option" where
  "classify html_texts html text title =
     (let html = to_ascii_lowercase (str_or [] html);
          document = (if text = None \<or> title = None then html_copy html_texts html else ([], []));
          copy = to_ascii_lowercase (str_or (snd document) text);
          title = to_ascii_lowercase (str_or (fst document) title)
      in if bot_wall_copy html title copy
         then Some \<lparr> cls_kind = PageBotWall, cls_code = BotWallDetected,
                     cls_detail = challenge_detail ''bot wall/security challenge'' \<rparr>
         else if access_denied_copy html title copy
         then Some \<lparr> cls_kind = PageChallenge, cls_code = SecurityChallengeDetected,
                     cls_detail = challenge_detail ''security challenge/access denied page'' \<rparr>
         else None)"

text \<open>\<open>utf8\<close> tells whether the bytes are valid UTF-8 (\<open>str::from_utf8\<close>); bytes and text are the same list.\<close>

definition is_html_type :: "string option \<Rightarrow> bool" where
  "is_html_type ct =
     (let ct = to_ascii_lowercase (str_or [] ct)
      in starts_with ct ''text/html'' \<or> contains ct ''application/xhtml'')"

definition classify_http_body ::
  "(string \<Rightarrow> (string \<times> html_element list) list) \<Rightarrow> (string \<Rightarrow> bool) \<Rightarrow> string \<Rightarrow> string option
   \<Rightarrow> page_classification option" where
  "classify_http_body html_texts utf8 body ct =
     (if \<not> is_html_type ct then None
      else if \<not> utf8 body then None
      else classify html_texts (Some body) None None)"

subsection \<open>Empty shells\<close>

text \<open>
  The loop of \<open>count_visible_chars_after\<close> over the rest of the text: \<open>skip\<close> is the closing tag
  being looked for, \<open>in_tag\<close> whether a tag is open, the result the visible characters found.
\<close>

function count_visible :: "string option \<Rightarrow> bool \<Rightarrow> string \<Rightarrow> nat" where
  "count_visible skip in_tag s =
     (if s = [] then 0
      else (case skip of
        Some needle \<Rightarrow>
          if starts_with s needle \<and> needle \<noteq> [] then count_visible None in_tag (drop (length needle) s)
          else count_visible skip in_tag (drop (char_width (hd s)) s)
      | None \<Rightarrow>
          if \<not> in_tag \<and> hd s = CHR ''<'' then
            if starts_with s ''<script'' then count_visible (Some ''</script>'') in_tag (drop 7 s)
            else if starts_with s ''<style'' then count_visible (Some ''</style>'') in_tag (drop 6 s)
            else count_visible None True (drop 1 s)
          else if in_tag then count_visible None (hd s \<noteq> CHR ''>'') (drop (char_width (hd s)) s)
          else (if ws_width s > 0 then 0 else 1) + count_visible None in_tag (drop (char_width (hd s)) s)))"
  by pat_completeness auto
termination
  by (relation "measure (\<lambda>(skip, in_tag, s). length s)") auto

declare count_visible.simps [simp del]

definition count_visible_chars_after :: "string \<Rightarrow> nat \<Rightarrow> nat" where
  "count_visible_chars_after html body_start = count_visible None False (drop body_start html)"

definition looks_like_empty_html_shell :: "(string \<Rightarrow> bool) \<Rightarrow> string \<Rightarrow> string option \<Rightarrow> bool" where
  "looks_like_empty_html_shell utf8 body ct =
     (if \<not> is_html_type ct then False
      else if length body > 32 * 1024 then False
      else
       (let lower = to_ascii_lowercase (if utf8 body then body else [])
        in if \<not> contains lower ''<script'' then False
           else (case find_sub lower ''<body'' of
                   Some idx \<Rightarrow> count_visible_chars_after lower idx
                 | None \<Rightarrow> 0) < 200))"

subsection \<open>Transport errors and file extensions\<close>

definition classify_http_error_parts :: "bool \<Rightarrow> bool \<Rightarrow> string \<Rightarrow> error_code" where
  "classify_http_error_parts is_timeout is_connect msg =
     (let lower = to_ascii_lowercase msg
      in if is_timeout then NavigationTimeout
         else if contains lower ''dns''
              \<or> contains lower ''failed to lookup address information''
              \<or> contains lower ''name or service not known''
              \<or> contains lower ''nodename nor servname''
              \<or> contains lower ''name does not resolve''
              \<or> contains lower ''temporary failure in name resolution''
         then DnsResolutionFailed
         else if contains lower ''tls'' \<or> contains lower ''ssl'' \<or> contains lower ''certificate'' \<or> contains lower ''cert''
         then TlsError
         else if is_connect then TargetUnreachable
         else IoError)"

text \<open>\<open>error_causes\<close>: the messages of the source chain, outermost first.\<close>

definition error_causes :: "string list \<Rightarrow> string" where
  "error_causes chain = join '': '' chain"

definition extension_for :: "(string \<Rightarrow> string list option) \<Rightarrow> string option \<Rightarrow> string" where
  "extension_for mime_extensions ct =
     (case ct of
        None \<Rightarrow> ''bin''
      | Some ct \<Rightarrow>
         (let primary = to_ascii_lowercase (trim (hd (split_on CHR '';'' ct)))
          in if primary \<in> {''text/html'', ''application/xhtml+xml''} then ''html''
             else if primary \<in> {''application/json'', ''application/ld+json''} then ''json''
             else if primary \<in> {''application/javascript'', ''text/javascript''} then ''js''
             else if primary = ''text/css'' then ''css''
             else if primary = ''text/plain'' then ''txt''
             else if primary = ''image/png'' then ''png''
             else if primary \<in> {''image/jpeg'', ''image/jpg''} then ''jpg''
             else if primary = ''image/gif'' then ''gif''
             else if primary = ''image/webp'' then ''webp''
             else if primary = ''image/svg+xml'' then ''svg''
             else if primary \<in> {''application/xml'', ''text/xml''} then ''xml''
             else if primary = ''application/pdf'' then ''pdf''
             else if primary = ''application/octet-stream'' then ''bin''
             else (case Option.bind (mime_extensions primary) (\<lambda>exts. case exts of [] \<Rightarrow> None | e # _ \<Rightarrow> Some e) of
                     Some e \<Rightarrow> e
                   | None \<Rightarrow> ''bin'')))"

text \<open>The read loop with its cap; the body arrives as chunks, None marks a transport failure.\<close>

fun read_capped :: "nat \<Rightarrow> bytes \<Rightarrow> bytes option list \<Rightarrow> (bytes \<times> nat option) result" where
  "read_capped cap buf [] = Inr (buf, None)"
| "read_capped cap buf (None # _) = fail IoError ''HTTP body: {e}''"
| "read_capped cap buf (Some chunk # rest) =
     (let left = cap - length buf
      in if length chunk > left then Inr (buf @ take left chunk, Some cap)
         else read_capped cap (buf @ chunk) rest)"

fun read_all :: "bytes \<Rightarrow> bytes option list \<Rightarrow> (bytes \<times> nat option) result" where
  "read_all buf [] = Inr (buf, None)"
| "read_all buf (None # _) = fail IoError ''HTTP body: {e}''"
| "read_all buf (Some chunk # rest) = read_all (buf @ chunk) rest"

definition read_body_with_cap :: "bytes option list \<Rightarrow> nat \<Rightarrow> (bytes \<times> nat option) result" where
  "read_body_with_cap chunks cap = (if cap = 0 then read_all [] chunks else read_capped cap [] chunks)"

lemma read_all_spec:
  "read_all buf (map Some cs) = Inr (buf @ concat cs, None)"
  by (induction cs arbitrary: buf) simp_all

lemma read_capped_spec:
  "length buf \<le> cap \<Longrightarrow>
   read_capped cap buf (map Some cs) =
     Inr (take cap (buf @ concat cs), if cap < length (buf @ concat cs) then Some cap else None)"
proof (induction cs arbitrary: buf)
  case (Cons c cs)
  then show ?case by (auto simp: Let_def)
qed simp

lemma read_capped_prefix:
  "length buf \<le> cap \<Longrightarrow> cap < length (buf @ concat cs) \<Longrightarrow>
   read_capped cap buf (map Some cs @ rest) = Inr (take cap (buf @ concat cs), Some cap)"
proof (induction cs arbitrary: buf)
  case (Cons c cs)
  then show ?case by (auto simp: Let_def)
qed simp

text \<open>
  The body cap is exact: with a cap the stored bytes are always the first \<open>cap\<close> bytes of what
  the server sends (all of them when they fit), truncation is reported exactly when more than \<open>cap\<close>
  bytes arrive, reading stops there even if the connection would fail later, and never stores more.
\<close>

theorem body_cap_is_exact:
  assumes "0 < cap"
  shows "read_body_with_cap (map Some cs) cap =
           Inr (take cap (concat cs), if cap < length (concat cs) then Some cap else None)
       \<and> (cap < length (concat cs) \<longrightarrow>
            read_body_with_cap (map Some cs @ rest) cap = Inr (take cap (concat cs), Some cap))"
  using assms read_capped_spec [of "[]" cap cs] read_capped_prefix [of "[]" cap cs rest]
  by (simp add: read_body_with_cap_def)

theorem body_cap_is_exact_witness:
  "read_body_with_cap [Some [1], Some [2, 3], None] 2 = Inr ([1, 2], Some 2)"
  using body_cap_is_exact [of 2 "[[1], [2, 3]]" "[None]"] by simp

definition visible_copy ::
  "(string \<Rightarrow> (string \<times> html_element list) list) \<Rightarrow> string option \<Rightarrow> string option \<Rightarrow> string option \<Rightarrow> string" where
  "visible_copy html_texts html text title =
     (let doc = html_copy html_texts (to_ascii_lowercase (str_or [] html))
      in to_ascii_lowercase (str_or (fst doc) title) @ [CHR 0x0A] @ to_ascii_lowercase (str_or (snd doc) text))"

lemma contains_append: "contains a p \<or> contains b p \<Longrightarrow> contains (a @ b) p"
  unfolding contains_iff by (metis append.assoc)

lemma contains_Cons: "contains b p \<Longrightarrow> contains (c # b) p"
  unfolding contains_iff by (metis append_Cons)

text \<open>
  Markup alone never makes a page a wall. Whatever vendor markers, scripts or attributes the
  HTML contains, a page is classified only if its visible title or text (the browser's, or
  what \<open>html_copy\<close> keeps of the document) contains a challenge phrase, the browser-check
  introduction, or an access-denied phrase; and the kind and the code always agree.
\<close>

theorem markup_alone_is_no_wall:
  assumes "classify html_texts html text title = Some k"
  shows "(\<exists>phrase \<in> set (challenge_phrases @ [''we are checking your browser'', ''access denied'',
             ''request blocked'', ''you have been blocked'', ''unusual traffic'']).
            contains (visible_copy html_texts html text title) phrase)
       \<and> (cls_kind k = PageBotWall \<longleftrightarrow> cls_code k = BotWallDetected)
       \<and> (cls_kind k = PageChallenge \<longleftrightarrow> cls_code k = SecurityChallengeDetected)"
proof -
  define doc where "doc = html_copy html_texts (to_ascii_lowercase (str_or [] html))"
  define ti where "ti = to_ascii_lowercase (str_or (fst doc) title)"
  define co where "co = to_ascii_lowercase (str_or (snd doc) text)"
  have vis: "visible_copy html_texts html text title = ti @ [CHR 0x0A] @ co"
    by (simp add: visible_copy_def doc_def ti_def co_def Let_def)
  have lift: "contains (ti @ [CHR 0x0A] @ co) p" if "contains ti p \<or> contains co p" for p
    using that contains_append contains_Cons by (metis append_Cons append_Nil)
  let ?doc = "if text = None \<or> title = None then doc else ([], [])"
  have ti: "to_ascii_lowercase (str_or (fst ?doc) title) = ti"
    and co: "to_ascii_lowercase (str_or (snd ?doc) text) = co"
    by (auto simp: ti_def co_def str_or_def split: option.splits)
  have "classify html_texts html text title =
      (if bot_wall_copy (to_ascii_lowercase (str_or [] html)) ti co
       then Some \<lparr> cls_kind = PageBotWall, cls_code = BotWallDetected,
                   cls_detail = challenge_detail ''bot wall/security challenge'' \<rparr>
       else if access_denied_copy (to_ascii_lowercase (str_or [] html)) ti co
       then Some \<lparr> cls_kind = PageChallenge, cls_code = SecurityChallengeDetected,
                   cls_detail = challenge_detail ''security challenge/access denied page'' \<rparr>
       else None)"
    unfolding classify_def Let_def doc_def [symmetric] ti co ..
  with assms have cls: "cls_kind k = PageBotWall \<and> cls_code k = BotWallDetected
        \<and> bot_wall_copy (to_ascii_lowercase (str_or [] html)) ti co
      \<or> cls_kind k = PageChallenge \<and> cls_code k = SecurityChallengeDetected
        \<and> access_denied_copy (to_ascii_lowercase (str_or [] html)) ti co"
    by (auto split: if_splits)
  have wall: "contains co ''we are checking your browser'' \<or> challenge_copy ti \<or> challenge_copy co"
    if "bot_wall_copy h ti co" for h
    using that by (auto simp: bot_wall_copy_def Let_def)
  have denied: "\<exists>p \<in> {''access denied'', ''request blocked'', ''you have been blocked'', ''unusual traffic''}.
      contains (ti @ [CHR 0x0A] @ co) p" if "access_denied_copy h ti co" for h
    using that by (auto simp: access_denied_copy_def Let_def)
  have one: "\<exists>p \<in> set challenge_phrases. contains (ti @ [CHR 0x0A] @ co) p" if "challenge_copy ti \<or> challenge_copy co"
    using that lift unfolding challenge_copy_def list_ex_iff by blast
  have "\<exists>phrase \<in> set (challenge_phrases @ [''we are checking your browser'', ''access denied'',
             ''request blocked'', ''you have been blocked'', ''unusual traffic'']).
            contains (ti @ [CHR 0x0A] @ co) phrase"
    using cls wall one denied lift [of "''we are checking your browser''"] unfolding set_append by fastforce
  with cls show ?thesis unfolding vis by auto
qed

theorem markup_alone_is_no_wall_witness:
  "\<exists>k phrase. classify (\<lambda>_. []) (Some ''<div class=cf-turnstile>'') (Some ''just a moment'') (Some []) = Some k
     \<and> contains (visible_copy (\<lambda>_. []) (Some ''<div class=cf-turnstile>'') (Some ''just a moment'') (Some [])) phrase"
proof -
  have "contains ''just a moment'' ''just a moment''" "contains ''<div class=cf-turnstile>'' ''cf-turnstile''"
    by (simp_all add: contains_def starts_with_def)
  then have w: "bot_wall_copy ''<div class=cf-turnstile>'' [] ''just a moment''"
    by (simp add: bot_wall_copy_def challenge_copy_def challenge_phrases_def char_count_def byte_val_def
        trim_start.simps starts_with_def)
  have "classify (\<lambda>_. []) (Some ''<div class=cf-turnstile>'') (Some ''just a moment'') (Some [])
      = Some \<lparr> cls_kind = PageBotWall, cls_code = BotWallDetected,
               cls_detail = challenge_detail ''bot wall/security challenge'' \<rparr>"
    using w by (simp add: classify_def str_or_def to_ascii_lowercase_def ascii_lower_char_def)
  from markup_alone_is_no_wall [OF this] this show ?thesis by blast
qed

end
