(* ===== verification/Deadline.thy ===== *)
theory Deadline
  imports FetchTypes "HOL-Library.Multiset"
begin

text \<open>
  The per-fetch deadline and the trace it records (\<open>sdk/fetch/deadline.rs\<close>). The shared
  mutex-protected state is passed explicitly; \<open>dl_poisoned\<close> says that a lock would fail. The
  clock is the argument \<open>now\<close> of every operation that reads it.
\<close>

record active_stage =
  as_name :: string
  as_started :: instant

record stage_token =
  tk_name :: string
  tk_nested :: bool

record fetch_deadline =
  dl_started :: instant
  dl_timeout :: duration
  dl_poisoned :: bool
  dl_trace :: trace
  dl_active :: "active_stage list"

definition empty_trace :: "trace_render_mode \<Rightarrow> nat \<Rightarrow> string \<Rightarrow> trace" where
  "empty_trace mode timeout_ms stage =
     \<lparr> retained_tab_id = None, render_decision = HttpOnly, tr_render_mode = mode, render_used = False,
       escalation_reason = None, main_request_observed = False, tr_duration_ms = 0,
       tr_timeout_ms = timeout_ms, current_stage = stage, navigation_duration_ms = None,
       wait_mode = None, wait_satisfied_by = None, network_quiet = None, dom_stable = None,
       text_stable = None, capture_reason = None, cookie_jar_file = None, cookie_jar_warning = None,
       tr_sensitive_capture = [], stages = [] \<rparr>"

definition deadline_new :: "instant \<Rightarrow> duration \<Rightarrow> trace_render_mode \<Rightarrow> fetch_deadline" where
  "deadline_new now timeout mode =
     \<lparr> dl_started = now, dl_timeout = timeout, dl_poisoned = False,
       dl_trace = empty_trace mode (duration_ms timeout) ''start'', dl_active = [] \<rparr>"

definition fallback_trace :: "nat \<Rightarrow> trace" where
  "fallback_trace timeout_ms = empty_trace TraceAuto timeout_ms ''unknown''"

definition set_stage :: "string \<Rightarrow> fetch_deadline \<Rightarrow> fetch_deadline" where
  "set_stage stage d =
     (if dl_poisoned d then d else d\<lparr> dl_trace := (dl_trace d)\<lparr> current_stage := stage \<rparr> \<rparr>)"

definition dl_current_stage :: "fetch_deadline \<Rightarrow> string" where
  "dl_current_stage d = (if dl_poisoned d then ''unknown'' else current_stage (dl_trace d))"

definition update_trace :: "(trace \<Rightarrow> trace) \<Rightarrow> fetch_deadline \<Rightarrow> fetch_deadline" where
  "update_trace f d = (if dl_poisoned d then d else d\<lparr> dl_trace := f (dl_trace d) \<rparr>)"

definition stage_record :: "instant \<Rightarrow> stage_status \<Rightarrow> active_stage \<Rightarrow> trace_stage" where
  "stage_record now st a = \<lparr> ts_name = as_name a, ts_status = st, ts_duration_ms = duration_ms (now - as_started a) \<rparr>"

definition begin_stage :: "instant \<Rightarrow> string \<Rightarrow> fetch_deadline \<Rightarrow> stage_token result \<times> fetch_deadline" where
  "begin_stage now stage d =
     (if dl_poisoned d then (fail InternalError ''fetch trace recorder lock poisoned'', d)
      else
       (let d = d\<lparr> dl_trace := (dl_trace d)\<lparr> current_stage := stage \<rparr> \<rparr>;
            nested = (dl_active d \<noteq> [] \<and> as_name (last (dl_active d)) = stage);
            d = (if \<not> nested then d\<lparr> dl_active := dl_active d @ [\<lparr> as_name = stage, as_started = now \<rparr>] \<rparr> else d)
        in (Inr \<lparr> tk_name = stage, tk_nested = nested \<rparr>, d)))"

definition finish_stage :: "instant \<Rightarrow> stage_token \<Rightarrow> stage_status \<Rightarrow> fetch_deadline \<Rightarrow> fetch_deadline" where
  "finish_stage now token st d =
     (if tk_nested token then d
      else if dl_poisoned d then d
      else (case rposition (\<lambda>a. as_name a = tk_name token) (dl_active d) of
              None \<Rightarrow> d
            | Some idx \<Rightarrow>
               (let a = dl_active d ! idx
                in d\<lparr> dl_active := remove_at idx (dl_active d),
                      dl_trace := (dl_trace d)\<lparr> current_stage := as_name a,
                                               stages := stages (dl_trace d) @ [stage_record now st a] \<rparr> \<rparr>)))"

definition mark_current_stage :: "instant \<Rightarrow> stage_status \<Rightarrow> fetch_deadline \<Rightarrow> fetch_deadline" where
  "mark_current_stage now st d =
     (if dl_poisoned d then d
      else if dl_active d = [] then d
      else
       (let a = last (dl_active d)
        in d\<lparr> dl_active := butlast (dl_active d),
              dl_trace := (dl_trace d)\<lparr> current_stage := as_name a,
                                       stages := stages (dl_trace d) @ [stage_record now st a] \<rparr> \<rparr>))"

definition timeout_error :: "instant \<Rightarrow> fetch_deadline \<Rightarrow> error \<times> fetch_deadline" where
  "timeout_error now d =
     (error_new NavigationTimeout ''fetch timed out after {}ms during {}'', mark_current_stage now StageTimeout d)"

definition remaining_without_stage_update :: "instant \<Rightarrow> fetch_deadline \<Rightarrow> duration result \<times> fetch_deadline" where
  "remaining_without_stage_update now d =
     (let elapsed = now - dl_started d
      in if dl_timeout d \<le> elapsed
         then (case timeout_error now d of (e, d') \<Rightarrow> (Inl e, d'))
         else (Inr (dl_timeout d - elapsed), d))"

definition remaining :: "instant \<Rightarrow> string \<Rightarrow> fetch_deadline \<Rightarrow> duration result \<times> fetch_deadline" where
  "remaining now stage d = remaining_without_stage_update now (set_stage stage d)"

definition bounded_remaining :: "instant \<Rightarrow> string \<Rightarrow> duration \<Rightarrow> fetch_deadline \<Rightarrow> duration result \<times> fetch_deadline" where
  "bounded_remaining now stage cap d =
     (case remaining now stage d of (r, d') \<Rightarrow> (and_then r (\<lambda>x. Inr (min x cap)), d'))"

fun status_for_error :: "error_code \<Rightarrow> stage_status" where
  "status_for_error NavigationTimeout = StageTimeout"
| "status_for_error CdpTimeout = StageTimeout"
| "status_for_error ArtifactCaptureTimeout = StageTimeout"
| "status_for_error ReadinessTimeout = StageTimeout"
| "status_for_error _ = StageError"

text \<open>
  \<open>run_result\<close>: the future is a function of its time budget and the recorder it shares; it
  tells the recorder afterwards, the time it took, and its outcome, None when it was still pending
  when the budget ran out (\<open>tokio::time::timeout\<close> then drops it).
\<close>

type_synonym 'a stage_future = "duration \<Rightarrow> fetch_deadline \<Rightarrow> fetch_deadline \<times> duration \<times> 'a result option"

definition run_result ::
  "instant \<Rightarrow> string \<Rightarrow> error_code \<Rightarrow> 'a stage_future \<Rightarrow> fetch_deadline \<Rightarrow> 'a result \<times> instant \<times> fetch_deadline" where
  "run_result now stage timeout_code future d =
     (case begin_stage now stage d of
        (Inl e, d) \<Rightarrow> (Inl e, now, d)
      | (Inr token, d) \<Rightarrow>
         (case remaining_without_stage_update now d of
            (Inl e, d) \<Rightarrow> (Inl e, now, d)
          | (Inr rest, d) \<Rightarrow>
             (case future rest d of
                (d, took, Some (Inr v)) \<Rightarrow> (Inr v, now + took, finish_stage (now + took) token StageOk d)
              | (d, took, Some (Inl err)) \<Rightarrow>
                  (Inl err, now + took, finish_stage (now + took) token (status_for_error (error_code err)) d)
              | (d, took, None) \<Rightarrow>
                  (fail timeout_code ''fetch timed out after {}ms during {stage}'', now + took,
                   finish_stage (now + took) token StageTimeout d))))"

definition snapshot_inner :: "instant \<Rightarrow> bool \<Rightarrow> fetch_deadline \<Rightarrow> trace \<times> fetch_deadline" where
  "snapshot_inner now finished d =
     (if dl_poisoned d
      then ((fallback_trace (duration_ms (dl_timeout d)))\<lparr> tr_duration_ms := duration_ms (now - dl_started d) \<rparr>, d)
      else
       (let t = (dl_trace d)\<lparr> tr_duration_ms := duration_ms (now - dl_started d) \<rparr>;
            t = (if finished then t\<lparr> current_stage := ''complete'' \<rparr> else t);
            d = d\<lparr> dl_trace := t \<rparr>
        in (t\<lparr> stages := stages t @ map (stage_record now StageStarted) (dl_active d) \<rparr>, d)))"

definition snapshot :: "instant \<Rightarrow> fetch_deadline \<Rightarrow> trace \<times> fetch_deadline" where
  "snapshot now d = snapshot_inner now False d"

definition complete_trace :: "instant \<Rightarrow> fetch_deadline \<Rightarrow> trace \<times> fetch_deadline" where
  "complete_trace now d = snapshot_inner now True d"

subsection \<open>Every stage that began is in the trace, once\<close>

datatype dl_event =
    SetStage string
  | Begin instant string
  | Finish instant stage_token stage_status
  | TimeOut instant
  | Snap instant bool

fun dl_step :: "fetch_deadline \<Rightarrow> dl_event \<Rightarrow> fetch_deadline" where
  "dl_step d (SetStage s) = set_stage s d"
| "dl_step d (Begin now s) = snd (begin_stage now s d)"
| "dl_step d (Finish now tk st) = finish_stage now tk st d"
| "dl_step d (TimeOut now) = snd (timeout_error now d)"
| "dl_step d (Snap now c) = snd (snapshot_inner now c d)"

text \<open>The stages the events begin (a nested begin of the innermost stage is the same stage).\<close>

fun begun :: "fetch_deadline \<Rightarrow> dl_event list \<Rightarrow> string multiset" where
  "begun d [] = {#}"
| "begun d (e # es) =
     (case e of Begin now s \<Rightarrow> (if dl_active d \<noteq> [] \<and> as_name (last (dl_active d)) = s then {#} else {#s#})
      | _ \<Rightarrow> {#}) + begun (dl_step d e) es"

definition recorded :: "fetch_deadline \<Rightarrow> string multiset" where
  "recorded d = mset (map ts_name (stages (dl_trace d))) + mset (map as_name (dl_active d))"

lemma mset_remove_at: "i < length xs \<Longrightarrow> mset xs = mset (remove_at i xs) + {#xs ! i#}"
  by (metis add_mset_add_single append_take_drop_id Cons_nth_drop_Suc mset.simps(2) mset_append
      remove_at_def union_mset_add_mset_right)

lemma recorded_finish [simp]: "recorded (finish_stage now tk st d) = recorded d"
proof (cases "rposition (\<lambda>a. as_name a = tk_name tk) (dl_active d)")
  case (Some i)
  from rposition_Some [OF Some] have "i < length (dl_active d)" by simp
  from mset_remove_at [OF this] show ?thesis
    by (simp add: recorded_def finish_stage_def Some Let_def stage_record_def)
qed (simp add: recorded_def finish_stage_def del: rposition_None)

lemma recorded_mark [simp]: "recorded (mark_current_stage now st d) = recorded d"
proof (cases "dl_active d" rule: rev_cases)
  case (snoc as a)
  then show ?thesis by (simp add: recorded_def mark_current_stage_def Let_def stage_record_def)
qed (simp add: recorded_def mark_current_stage_def)

lemma recorded_simps [simp]:
  "recorded (set_stage s d) = recorded d"
  "recorded (snd (timeout_error now d)) = recorded d"
  "recorded (snd (snapshot_inner now c d)) = recorded d"
  by (simp_all add: set_stage_def timeout_error_def snapshot_inner_def Let_def)
     (simp_all add: recorded_def)

lemma recorded_begin:
  "\<not> dl_poisoned d \<Longrightarrow>
   recorded (snd (begin_stage now s d)) =
     recorded d + (if dl_active d \<noteq> [] \<and> as_name (last (dl_active d)) = s then {#} else {#s#})"
  by (simp add: begin_stage_def recorded_def Let_def)

lemma poisoned_step [simp]: "dl_poisoned (dl_step d e) = dl_poisoned d"
  by (cases e)
     (simp_all add: set_stage_def begin_stage_def finish_stage_def timeout_error_def mark_current_stage_def
        snapshot_inner_def Let_def split: option.split)

lemma recorded_run:
  "\<not> dl_poisoned d \<Longrightarrow> recorded (foldl dl_step d es) = recorded d + begun d es"
proof (induction es arbitrary: d)
  case (Cons e es)
  then have IH: "recorded (foldl dl_step (dl_step d e) es) = recorded (dl_step d e) + begun (dl_step d e) es"
    by simp
  have "recorded (dl_step d e) = recorded d
      + (case e of Begin now s \<Rightarrow> (if dl_active d \<noteq> [] \<and> as_name (last (dl_active d)) = s then {#} else {#s#})
         | _ \<Rightarrow> {#})"
    using recorded_begin Cons.prems by (cases e) simp_all
  with IH show ?case by simp
qed simp

text \<open>Finished stages are only ever added.\<close>

interpretation dl_stages: monotone_run dl_step "\<lambda>d. length (stages (dl_trace d))"
proof
  fix d e
  show "length (stages (dl_trace d)) \<le> length (stages (dl_trace (dl_step d e)))"
    by (cases e)
       (simp_all add: set_stage_def begin_stage_def finish_stage_def timeout_error_def mark_current_stage_def
          snapshot_inner_def Let_def split: option.split)
qed

text \<open>
  C21. The trace accounts for every stage. After any sequence of recorder operations (stages begun,
  finished in any order, timed out, snapshots taken), the stages a snapshot reports are, with
  multiplicity, exactly the stages that were begun: none is lost, none reported twice.
\<close>

theorem trace_reports_every_stage_once:
  "mset (map ts_name (stages (fst (snapshot_inner now c (foldl dl_step (deadline_new t0 timeout mode) es)))))
     = begun (deadline_new t0 timeout mode) es"
proof -
  let ?init = "deadline_new t0 timeout mode"
  let ?d = "foldl dl_step ?init es"
  have p0: "\<not> dl_poisoned ?init" by (simp add: deadline_new_def)
  have "dl_poisoned (foldl dl_step d es) = dl_poisoned d" for d es
    by (induction es arbitrary: d) simp_all
  with p0 have p: "\<not> dl_poisoned ?d" by simp
  have "mset (map ts_name (stages (fst (snapshot_inner now c ?d)))) = recorded ?d"
    using p by (simp add: snapshot_inner_def recorded_def Let_def stage_record_def comp_def)
  also have "recorded ?init = {#}" by (simp add: recorded_def deadline_new_def empty_trace_def)
  then have "recorded ?d = begun ?init es" using recorded_run [OF p0] by simp
  finally show ?thesis .
qed

subsection \<open>The deadline holds\<close>

text \<open>
  One budget for the whole fetch. A stage that starts after the timeout is refused without
  running, with \<open>navigation_timeout\<close> and the stage marked as timed out; one that starts before
  it runs with exactly the time left, so that the time already spent and its budget add up to the
  timeout; and one still pending then ends with the caller's timeout code.
\<close>

theorem stage_budget_is_what_is_left:
  assumes "\<not> dl_poisoned d" and "dl_active d = [] \<or> as_name (last (dl_active d)) \<noteq> stage"
  shows "(dl_timeout d \<le> now - dl_started d \<longrightarrow>
            (\<exists>d'. run_result now stage code future d =
                 (fail NavigationTimeout ''fetch timed out after {}ms during {}'', now, d')
               \<and> dl_active d' = dl_active d
               \<and> stages (dl_trace d') = stages (dl_trace d)
                   @ [\<lparr> ts_name = stage, ts_status = StageTimeout, ts_duration_ms = 0 \<rparr>]))
       \<and> (now - dl_started d < dl_timeout d \<longrightarrow>
            (\<exists>d1 d2 took r. future (dl_timeout d - (now - dl_started d)) d1 = (d2, took, r)
               \<and> dl_active d1 = dl_active d @ [\<lparr> as_name = stage, as_started = now \<rparr>]
               \<and> fst (run_result now stage code future d) =
                   (case r of Some v \<Rightarrow> v | None \<Rightarrow> fail code ''fetch timed out after {}ms during {stage}'')
               \<and> fst (snd (run_result now stage code future d)) = now + took))"
proof -
  let ?tk = "\<lparr> tk_name = stage, tk_nested = False \<rparr>"
  obtain d1 where b: "begin_stage now stage d = (Inr ?tk, d1)"
    and d1: "dl_active d1 = dl_active d @ [\<lparr> as_name = stage, as_started = now \<rparr>]"
      "stages (dl_trace d1) = stages (dl_trace d)" "dl_timeout d1 = dl_timeout d"
      "dl_started d1 = dl_started d" "\<not> dl_poisoned d1"
    using assms by (auto simp: begin_stage_def Let_def)
  show ?thesis
  proof (intro conjI impI)
    assume late: "dl_timeout d \<le> now - dl_started d"
    show "\<exists>d'. run_result now stage code future d =
                 (fail NavigationTimeout ''fetch timed out after {}ms during {}'', now, d')
               \<and> dl_active d' = dl_active d
               \<and> stages (dl_trace d') = stages (dl_trace d)
                   @ [\<lparr> ts_name = stage, ts_status = StageTimeout, ts_duration_ms = 0 \<rparr>]"
      using late d1
      by (auto simp: run_result_def b remaining_without_stage_update_def timeout_error_def
          mark_current_stage_def Let_def stage_record_def duration_ms_def)
  next
    assume early: "now - dl_started d < dl_timeout d"
    obtain d2 took r where f: "future (dl_timeout d - (now - dl_started d)) d1 = (d2, took, r)"
      by (metis prod.exhaust)
    have "fst (run_result now stage code future d) =
            (case r of Some v \<Rightarrow> v | None \<Rightarrow> fail code ''fetch timed out after {}ms during {stage}'')
         \<and> fst (snd (run_result now stage code future d)) = now + took"
      using early d1 f
      by (auto simp: run_result_def b remaining_without_stage_update_def Let_def split: option.split sum.split)
    with f d1(1) show "\<exists>d1 d2 took r. future (dl_timeout d - (now - dl_started d)) d1 = (d2, took, r)
               \<and> dl_active d1 = dl_active d @ [\<lparr> as_name = stage, as_started = now \<rparr>]
               \<and> fst (run_result now stage code future d) =
                   (case r of Some v \<Rightarrow> v | None \<Rightarrow> fail code ''fetch timed out after {}ms during {stage}'')
               \<and> fst (snd (run_result now stage code future d)) = now + took"
      by blast
  qed
qed

theorem stage_budget_is_what_is_left_witness:
  "\<exists>d'. run_result 40 ''s'' IoError (\<lambda>b d. (d, 0, Some (Inr b))) (deadline_new 10 30 TraceAuto)
     = (fail NavigationTimeout ''fetch timed out after {}ms during {}'', 40, d')"
  using stage_budget_is_what_is_left
    [of "deadline_new 10 30 TraceAuto" "''s''" 40 IoError "\<lambda>b d. (d, 0, Some (Inr b))"]
  by (auto simp: deadline_new_def)

end
