(* ===== verification/HttpOnly.thy ===== *)
theory HttpOnly
  imports RequestOpts Classify Deadline
begin

text \<open>
  The HTTP fast path (\<open>pipeline/http_only.rs\<close>): one request, or, with a cookie jar, the
  redirect loop that follows up to ten hops by hand, stores each hop's cookies, and drops the
  caller's credentials at the first change of origin.

  What the code takes from other crates is one record of functions, \<open>http_env\<close>. The server is a
  function of the hop number and the request; other processes may change the jar file between any two
  accesses (\<open>env_other\<close>). The log returned beside the outcome lists the
  requests sent, each with the jar file its cookies were read from.
\<close>

record http_request =
  rq_method :: string
  rq_url :: url
  rq_headers :: "(string, string) kv"
  rq_body :: body_payload

record http_response =
  rs_status :: nat
  rs_url :: url
  rs_content_type :: "string option"
  rs_set_cookie :: "string option list"
  rs_location :: "string option option"
  rs_chunks :: "bytes option list"

text \<open>A send that fails: \<open>is_timeout\<close>, \<open>is_connect\<close> and the causes of the error.\<close>

datatype http_reply = SendFailed bool bool "string list" | Reply http_response

record 'o http_env =
  env_psl :: "string \<Rightarrow> string option"
  env_parse_cookie :: "string \<Rightarrow> cookie option"
  env_url_parse :: "string \<Rightarrow> url option"
  env_url_join :: "url \<Rightarrow> string \<Rightarrow> url option"
  env_origin :: "url \<Rightarrow> 'o"
  env_hval :: "string \<Rightarrow> bool"
  env_method_ok :: "string \<Rightarrow> bool"
  env_ts_ok :: "int \<Rightarrow> bool"
  env_dom_get :: "string \<Rightarrow> string"
  env_age_end :: "int \<Rightarrow> int option"
  env_now :: int
  env_io :: jar_io
  env_server :: "nat \<Rightarrow> http_request \<Rightarrow> http_reply"
  env_other :: "nat \<Rightarrow> jar_file \<Rightarrow> jar_file"

subsection \<open>One hop\<close>

definition jar_prepared :: "'o http_env \<Rightarrow> cookie_jar \<Rightarrow> url \<Rightarrow> prepared_cookie list" where
  "jar_prepared env jar u =
     List.map_filter (\<lambda>c. res_ok (prepare_cookie (env_age_end env) c))
       (applicable_cookies (env_ts_ok env) (env_dom_get env) (env_now env) jar u)"

definition resolve_jar_cookies ::
  "'o http_env \<Rightarrow> path option \<Rightarrow> jar_file \<Rightarrow> prepared_options \<Rightarrow> url \<Rightarrow> prepared_options result" where
  "resolve_jar_cookies env jar_path_opt file opts u =
     (case jar_path_opt of
        None \<Rightarrow> Inr opts
      | Some jp \<Rightarrow>
          and_then (load jp file) (\<lambda>jar.
            Inr (merge_jar_cookies (env_hval env) (jar_prepared env jar u) opts)))"

text \<open>The request of a hop: jar cookies merged, out-of-scope cookies dropped after a redirect.\<close>

definition hop_options ::
  "'o http_env \<Rightarrow> path option \<Rightarrow> jar_file \<Rightarrow> nat \<Rightarrow> prepared_options \<Rightarrow> url \<Rightarrow> prepared_options result" where
  "hop_options env jp file redirects opts u =
     and_then (resolve_jar_cookies env jp file opts u) (\<lambda>o1.
       Inr (if redirects > 0
            then o1\<lparr> po_cookies := filter (\<lambda>c. validate_cookie_scope c u = Inr ()) (po_cookies o1) \<rparr>
            else o1))"

definition hop_request ::
  "'o http_env \<Rightarrow> path option \<Rightarrow> jar_file \<Rightarrow> nat \<Rightarrow> prepared_options \<Rightarrow> url \<Rightarrow> http_request result" where
  "hop_request env jp file redirects opts u =
     and_then (hop_options env jp file redirects opts u) (\<lambda>o1.
       if \<not> env_method_ok env (po_method o1) then fail InvalidArgument ''invalid HTTP method {:?}''
       else and_then (http_header_map (env_hval env) (env_url_parse env) (env_now env) o1 (url_text u)) (\<lambda>hs.
         Inr \<lparr> rq_method = po_method o1, rq_url = u, rq_headers = hs, rq_body = po_body o1 \<rparr>))"

definition is_redirect_status :: "nat \<Rightarrow> bool" where
  "is_redirect_status s \<longleftrightarrow> s \<in> {301, 302, 303, 307, 308}"

text \<open>What the redirect keeps of the options: credentials per origin, method and body per status.\<close>

definition drop_credentials :: "prepared_options \<Rightarrow> prepared_options" where
  "drop_credentials opts =
     opts\<lparr> po_headers := filter (\<lambda>h. \<not> is_origin_scoped_header (ph_name h)) (po_headers opts),
           po_raw_cookie := None, po_raw_pairs := [], po_cookies := [] \<rparr>"

definition rewrite_method :: "nat \<Rightarrow> prepared_options \<Rightarrow> prepared_options" where
  "rewrite_method s opts =
     (if ((s = 301 \<or> s = 302) \<and> po_method opts = ''POST'') \<or> (s = 303 \<and> po_method opts \<noteq> ''HEAD'')
      then opts\<lparr> po_method := ''GET'', po_body := NoBody,
                 po_headers := filter (\<lambda>h. ph_name h \<notin> {''content-type'', ''content-encoding'',
                                 ''content-length'', ''transfer-encoding''}) (po_headers opts) \<rparr>
      else opts)"

definition redirect_options :: "'o http_env \<Rightarrow> url \<Rightarrow> url \<Rightarrow> nat \<Rightarrow> prepared_options \<Rightarrow> prepared_options" where
  "redirect_options env u next_url s opts =
     rewrite_method s (if env_origin env u \<noteq> env_origin env next_url then drop_credentials opts else opts)"

definition redirect_target :: "'o http_env \<Rightarrow> url \<Rightarrow> string option \<Rightarrow> url result" where
  "redirect_target env u location =
     (case Option.bind location (env_url_join env u) of
        Some v \<Rightarrow> if url_scheme v = ''http'' \<or> url_scheme v = ''https'' then Inr v
                  else fail IoError ''invalid HTTP redirect location''
      | None \<Rightarrow> fail IoError ''invalid HTTP redirect location'')"

definition send_error :: "bool \<Rightarrow> bool \<Rightarrow> string list \<Rightarrow> error" where
  "send_error is_timeout is_connect causes =
     error_new (classify_http_error_parts is_timeout is_connect (error_causes causes)) ''HTTP request: {error}''"

subsection \<open>The redirect loop\<close>

function http_hops ::
  "'o http_env \<Rightarrow> path option \<Rightarrow> nat \<Rightarrow> url \<Rightarrow> prepared_options \<Rightarrow> jar_file
   \<Rightarrow> http_response result \<times> jar_file \<times> (http_request \<times> jar_file) list" where
  "http_hops env jp redirects u opts file =
     (if redirects > 10 then (fail InternalError ''HTTP redirect loop ended unexpectedly'', file, [])
      else
       (let file = env_other env (3 * redirects) file
        in case hop_request env jp file redirects opts u of
             Inl e \<Rightarrow> (Inl e, file, [])
           | Inr rq \<Rightarrow>
              (case env_server env redirects rq of
                 SendFailed is_timeout is_connect causes \<Rightarrow>
                   (Inl (send_error is_timeout is_connect causes), file, [(rq, file)])
               | Reply r \<Rightarrow>
                  (case jp of
                     None \<Rightarrow> (Inr r, file, [(rq, file)])
                   | Some p \<Rightarrow>
                      (let file1 = env_other env (3 * redirects + 1) file;
                           file2 = env_other env (3 * redirects + 2) file1
                       in case persist_set_cookies (env_psl env) (env_parse_cookie env) (env_io env) (env_now env)
                                 p (List.map_filter id (rs_set_cookie r)) (rs_url r) file1 file2 of
                            (Inl e, file') \<Rightarrow> (Inl e, file', [(rq, file)])
                          | (Inr _, file') \<Rightarrow>
                             (if \<not> is_redirect_status (rs_status r) then (Inr r, file', [(rq, file)])
                              else (case rs_location r of
                                      None \<Rightarrow> (Inr r, file', [(rq, file)])
                                    | Some location \<Rightarrow>
                                       if redirects = 10
                                       then (fail IoError ''HTTP redirect limit exceeded (10 hops)'', file', [(rq, file)])
                                       else (case redirect_target env u location of
                                               Inl e \<Rightarrow> (Inl e, file', [(rq, file)])
                                             | Inr v \<Rightarrow>
                                                (case http_hops env jp (redirects + 1) v
                                                        (redirect_options env u v (rs_status r) opts) file' of
                                                   (res, file'', log) \<Rightarrow> (res, file'', (rq, file) # log))))))))))"
  by pat_completeness auto
termination
  by (relation "measure (\<lambda>(env, jp, redirects, u, opts, file). 11 - redirects)") auto

declare http_hops.simps [simp del]

definition send_http_response ::
  "'o http_env \<Rightarrow> fetch_builder \<Rightarrow> prepared_options \<Rightarrow> jar_file
   \<Rightarrow> http_response result \<times> jar_file \<times> (http_request \<times> jar_file) list" where
  "send_http_response env b opts file =
     (let jp = cj_path (b_cookie_jar b)
      in case env_url_parse env (b_url b) of
           None \<Rightarrow> (fail (if jp \<noteq> None then InvalidArgument else IoError) ''invalid HTTP request URL'', file, [])
         | Some u \<Rightarrow> http_hops env jp 0 u opts file)"

subsection \<open>What the hops send\<close>

lemma http_hops_cases:
  assumes "http_hops env jp k u opts fl = (res, f', log)" and "log \<noteq> []"
  shows "\<exists>rq jf log'. log = (rq, jf) # log' \<and> hop_request env jp jf k opts u = Inr rq \<and> k \<le> 10 \<and>
     (log' = [] \<or> (\<exists>p v s f''. jp = Some p \<and> k < 10 \<and>
         http_hops env jp (k + 1) v (redirect_options env u v s opts) f'' = (res, f', log')))"
proof -
  let ?jf = "env_other env (3 * k) fl"
  note unf = http_hops.simps [of env jp k u opts fl] Let_def
  from assms have k: "k \<le> 10" by (auto simp: unf split: if_splits)
  from assms k obtain rq where rq: "hop_request env jp ?jf k opts u = Inr rq"
    by (auto simp: unf split: sum.splits)
  show ?thesis
  proof (cases "env_server env k rq")
    case (SendFailed a b c)
    with assms k rq show ?thesis by (auto simp: unf)
  next
    case (Reply r)
    show ?thesis
    proof (cases jp)
      case None
      with assms k rq Reply show ?thesis by (auto simp: http_hops.simps [of env None k u opts fl] Let_def)
    next
      case (Some p)
      let ?f1 = "env_other env (3 * k + 1) ?jf"
      obtain pr f1 where per: "persist_set_cookies (env_psl env) (env_parse_cookie env) (env_io env) (env_now env) p
          (List.map_filter id (rs_set_cookie r)) (rs_url r) ?f1 (env_other env (3 * k + 2) ?f1) = (pr, f1)"
        by (metis prod.exhaust)
      note known = assms k rq Reply Some per
      note unf' = http_hops.simps [of env "Some p" k u opts fl] Let_def
      show ?thesis
      proof (cases "isl pr \<or> \<not> is_redirect_status (rs_status r) \<or> rs_location r = None \<or> k = 10
                    \<or> isl (redirect_target env u (the (rs_location r)))")
        case True
        with known show ?thesis
          by (cases pr; cases "rs_location r"; cases "redirect_target env u (the (rs_location r))")
             (auto simp: unf' split: if_splits)
      next
        case False
        then obtain x loc v where "pr = Inr x" "rs_location r = Some loc" "redirect_target env u loc = Inr v"
          by (metis isl_def old.sum.exhaust option.exhaust_sel)
        with False known show ?thesis by (auto simp: unf' split: prod.splits)
      qed
    qed
  qed
qed

definition creds_dropped :: "prepared_options \<Rightarrow> bool" where
  "creds_dropped opts \<longleftrightarrow>
     (\<forall>h \<in> set (po_headers opts). \<not> is_origin_scoped_header (ph_name h)) \<and> po_raw_cookie opts = None \<and> po_cookies opts = []"

lemma http_hops_next:
  assumes "http_hops env jp k u opts fl = (res, f', e # log)"
  obtains rq jf where "e = (rq, jf)" and "hop_request env jp jf k opts u = Inr rq" and "k \<le> 10"
    and "log = [] \<or> (\<exists>p v s f''. jp = Some p \<and> k < 10 \<and>
           http_hops env jp (k + 1) v (redirect_options env u v s opts) f'' = (res, f', log))"
proof -
  from http_hops_cases [OF assms] obtain rq jf log' where eq: "e # log = (rq, jf) # log'"
    and r: "hop_request env jp jf k opts u = Inr rq" "k \<le> 10"
      "log' = [] \<or> (\<exists>p v s f''. jp = Some p \<and> k < 10 \<and>
         http_hops env jp (k + 1) v (redirect_options env u v s opts) f'' = (res, f', log'))"
    by blast
  from eq have "e = (rq, jf)" "log = log'" by simp_all
  with r that show thesis by blast
qed

lemma http_hops_jar:
  assumes "http_hops env (Some p) k u opts fl = (res, f', e # log)"
  obtains rq jf where "e = (rq, jf)" and "hop_request env (Some p) jf k opts u = Inr rq"
    and "log = [] \<or> (\<exists>v s f''. http_hops env (Some p) (k + 1) v (redirect_options env u v s opts) f'' = (res, f', log))"
  by (rule http_hops_next [OF assms], rule that) blast+

text \<open>A request that carries none of the caller's credentials: only cookies of the jar, if any.\<close>

definition only_jar_credentials :: "'o http_env \<Rightarrow> path \<Rightarrow> http_request \<times> jar_file \<Rightarrow> bool" where
  "only_jar_credentials env p entry \<longleftrightarrow>
     (\<forall>n. is_origin_scoped_header n \<and> n \<noteq> ''cookie'' \<longrightarrow> map_of (rq_headers (fst entry)) n = None)
     \<and> (\<exists>jar. load p (snd entry) = Inr jar \<and>
          (map_of (rq_headers (fst entry)) ''cookie'' = None \<or>
           (\<exists>cs. set cs \<subseteq> set (jar_prepared env jar (rq_url (fst entry)))
               \<and> map_of (rq_headers (fst entry)) ''cookie'' = Some (join ''; '' (map cookie_text cs)))))"

lemma map_of_headers_none:
  "\<forall>h \<in> set hs. ph_name h \<noteq> n \<Longrightarrow> map_of m n = None \<Longrightarrow>
     map_of (foldl (\<lambda>m h. kv_put (ph_name h) (ph_value h) m) m hs) n = None"
  by (induction hs arbitrary: m) auto

lemma cookie_header_Some:
  assumes "cookie_header_for_url hval up now po t = Inr (Some h)"
  shows "\<exists>cs. set cs \<subseteq> set (po_cookies po) \<and> h = join ''; '' (map cookie_text cs)"
proof -
  from assms obtain v where "cookie_pairs now v (po_cookies po) = Inr (map cookie_text (filter (sendable now v) (po_cookies po)))"
    and h: "h = join ''; '' (map cookie_text (filter (sendable now v) (po_cookies po)))"
    by (auto simp: cookie_header_for_url_def and_then_Inr cookie_pairs_Inr split: if_splits)
  then show ?thesis by (intro exI [of _ "filter (sendable now v) (po_cookies po)"]) auto
qed

lemma dropped_hop:
  assumes "creds_dropped opts" and "hop_request env (Some p) jf k opts u = Inr rq"
  shows "only_jar_credentials env p (rq, jf)"
proof -
  from assms(2) obtain o1 hs where o1: "hop_options env (Some p) jf k opts u = Inr o1"
    and hs: "http_header_map (env_hval env) (env_url_parse env) (env_now env) o1 (url_text u) = Inr hs"
    and rq: "rq_headers rq = hs" "rq_url rq = u"
    by (auto simp: hop_request_def and_then_Inr split: if_splits)
  from o1 obtain jar where l: "load p jf = Inr jar"
    and "o1 = (if k > 0
               then (merge_jar_cookies (env_hval env) (jar_prepared env jar u) opts)
                      \<lparr> po_cookies := filter (\<lambda>c. validate_cookie_scope c u = Inr ())
                          (po_cookies (merge_jar_cookies (env_hval env) (jar_prepared env jar u) opts)) \<rparr>
               else merge_jar_cookies (env_hval env) (jar_prepared env jar u) opts)"
    by (auto simp: hop_options_def resolve_jar_cookies_def and_then_Inr)
  then have o1: "po_headers o1 = po_headers opts" "po_raw_cookie o1 = None"
      "set (po_cookies o1) \<subseteq> set (jar_prepared env jar u)" "po_user_agent o1 = po_user_agent opts"
    using assms(1) by (auto simp: merge_jar_cookies_def creds_dropped_def Let_def)
  let ?m = "foldl (\<lambda>m h. kv_put (ph_name h) (ph_value h) m) [] (po_headers o1)"
  have none: "map_of ?m n = None" if "is_origin_scoped_header n" for n
    using assms(1) that o1(1) by (intro map_of_headers_none) (auto simp: creds_dropped_def)
  have ua: "\<not> is_origin_scoped_header ''user-agent''" by (simp add: is_origin_scoped_header_def)
  have ck: "is_origin_scoped_header ''cookie''" by (simp add: is_origin_scoped_header_def)
  define m where "m = (case po_user_agent o1 of Some (_, v) \<Rightarrow> kv_put ''user-agent'' v ?m | None \<Rightarrow> ?m)"
  have m_none: "map_of m n = None" if "is_origin_scoped_header n" for n
    using none [OF that] that ua by (auto simp: m_def split: option.splits)
  from hs o1(2) obtain c where
    c: "cookie_header_for_url (env_hval env) (env_url_parse env) (env_now env) o1 (url_text u) = Inr c"
    and hs_eq: "hs = (case c of Some v \<Rightarrow> kv_put ''cookie'' v m | None \<Rightarrow> m)"
    unfolding http_header_map_def Let_def m_def [symmetric] by (auto simp: and_then_Inr)
  have "map_of hs n = None" if "is_origin_scoped_header n" "n \<noteq> ''cookie''" for n
    using m_none [OF that(1)] that(2) by (simp add: hs_eq split: option.split)
  moreover have "map_of hs ''cookie'' = None \<or>
      (\<exists>cs. set cs \<subseteq> set (jar_prepared env jar u) \<and> map_of hs ''cookie'' = Some (join ''; '' (map cookie_text cs)))"
  proof (cases c)
    case None
    then show ?thesis using m_none [OF ck] by (simp add: hs_eq)
  next
    case (Some h)
    from cookie_header_Some [OF c [unfolded Some]] obtain cs
      where "set cs \<subseteq> set (po_cookies o1)" "h = join ''; '' (map cookie_text cs)" by blast
    moreover have "map_of hs ''cookie'' = Some h" by (simp add: hs_eq Some)
    ultimately show ?thesis using o1(3) by blast
  qed
  ultimately show ?thesis using l by (auto simp: only_jar_credentials_def rq)
qed

lemma creds_dropped_redirect: "creds_dropped opts \<Longrightarrow> creds_dropped (redirect_options env u v s opts)"
  by (auto simp: creds_dropped_def redirect_options_def rewrite_method_def drop_credentials_def)

lemma creds_dropped_cross: "env_origin env u \<noteq> env_origin env v \<Longrightarrow> creds_dropped (redirect_options env u v s opts)"
  by (auto simp: creds_dropped_def redirect_options_def rewrite_method_def drop_credentials_def)

lemma dropped_hops:
  assumes "http_hops env (Some p) k u opts fl = (res, f', log)" and "creds_dropped opts" and "entry \<in> set log"
  shows "only_jar_credentials env p entry"
  using assms
proof (induction log arbitrary: k u opts fl)
  case (Cons e log)
  from http_hops_jar [OF Cons.prems(1)] obtain rq jf where e: "e = (rq, jf)"
    and rq: "hop_request env (Some p) jf k opts u = Inr rq"
    and next_hop: "log = [] \<or> (\<exists>v s f''. http_hops env (Some p) (k + 1) v (redirect_options env u v s opts) f'' = (res, f', log))" .
  from Cons.prems(3) consider "entry = e" | "entry \<in> set log" by auto
  then show ?case
  proof cases
    case 1
    then show ?thesis using dropped_hop [OF Cons.prems(2) rq] e by simp
  next
    case 2
    with next_hop obtain v s f''
      where h: "http_hops env (Some p) (k + 1) v (redirect_options env u v s opts) f'' = (res, f', log)" by auto
    show ?thesis by (rule Cons.IH [OF h creds_dropped_redirect [OF Cons.prems(2)] 2])
  qed
qed simp

lemma hop_request_url: "hop_request env jp jf k opts u = Inr rq \<Longrightarrow> rq_url rq = u"
  by (auto simp: hop_request_def and_then_Inr split: if_splits)

lemma hops_after_cross_origin:
  assumes "http_hops env (Some p) k u opts fl = (res, f', log)"
    and "i \<le> j" and "j < length log" and "env_origin env (rq_url (fst (log ! i))) \<noteq> env_origin env u"
  shows "only_jar_credentials env p (log ! j)"
  using assms
proof (induction log arbitrary: k u opts fl i j)
  case (Cons e log)
  from http_hops_jar [OF Cons.prems(1)] obtain rq jf where e: "e = (rq, jf)"
    and rq: "hop_request env (Some p) jf k opts u = Inr rq"
    and next_hop: "log = [] \<or> (\<exists>v s f''. http_hops env (Some p) (k + 1) v (redirect_options env u v s opts) f'' = (res, f', log))" .
  from Cons.prems(4) e hop_request_url [OF rq] obtain i' where i: "i = Suc i'" by (cases i) auto
  with Cons.prems(2) obtain j' where j: "j = Suc j'" by (cases j) auto
  from next_hop Cons.prems(3) j obtain v s f''
    where h: "http_hops env (Some p) (k + 1) v (redirect_options env u v s opts) f'' = (res, f', log)" by auto
  show ?case
  proof (cases "env_origin env u = env_origin env v")
    case True
    with Cons.IH [OF h, of i' j'] Cons.prems i j show ?thesis by simp
  next
    case False
    from dropped_hops [OF h creds_dropped_cross [OF False], of "log ! j'"] Cons.prems(3) j
    show ?thesis by simp
  qed
qed simp

text \<open>
  C1. The caller's credentials never leave the origin it asked for. In a redirect chain, from the
  first request whose URL has another origin on, also when the chain returns to the original origin,
  no request carries an \<open>Authorization\<close>, \<open>Proxy-Authorization\<close>, \<open>Cookie2\<close>, \<open>Host\<close> or
  \<open>WWW-Authenticate\<close> header of the caller, and its \<open>Cookie\<close> header, if it has one, consists of
  cookies that the jar itself holds for that request's URL.
\<close>

theorem credentials_stay_on_the_origin:
  assumes "send_http_response env b opts fl = (res, f', log)"
    and "cj_path (b_cookie_jar b) = Some p" and "env_url_parse env (b_url b) = Some u"
    and "i \<le> j" and "j < length log" and "env_origin env (rq_url (fst (log ! i))) \<noteq> env_origin env u"
  shows "only_jar_credentials env p (log ! j)"
  using hops_after_cross_origin [of env p 0 u opts fl res f' log] assms
  by (simp add: send_http_response_def)

lemma merge_jar_method [simp]:
  "po_method (merge_jar_cookies hval extras opts) = po_method opts"
  "po_body (merge_jar_cookies hval extras opts) = po_body opts"
  by (simp_all add: merge_jar_cookies_def Let_def split: option.split)

lemma hop_options_method:
  "hop_options env jp jf k opts u = Inr o1 \<Longrightarrow> po_method o1 = po_method opts \<and> po_body o1 = po_body opts"
  by (cases jp) (auto simp: hop_options_def resolve_jar_cookies_def and_then_Inr split: if_splits)

lemma hop_request_method:
  "hop_request env jp jf k opts u = Inr rq \<Longrightarrow> rq_method rq = po_method opts \<and> rq_body rq = po_body opts"
  by (auto simp: hop_request_def and_then_Inr split: if_splits dest: hop_options_method)

lemma redirect_method:
  "po_method (redirect_options env u v s opts) = po_method opts \<and> po_body (redirect_options env u v s opts) = po_body opts
   \<or> po_method (redirect_options env u v s opts) = ''GET'' \<and> po_body (redirect_options env u v s opts) = NoBody"
  by (simp add: redirect_options_def rewrite_method_def drop_credentials_def)

lemma hops_bounded:
  assumes "http_hops env jp k u opts fl = (res, f', log)"
  shows "length log \<le> 11 - k \<and> (jp = None \<longrightarrow> length log \<le> 1)
       \<and> (\<forall>entry \<in> set log. rq_method (fst entry) = po_method opts \<and> rq_body (fst entry) = po_body opts
              \<or> rq_method (fst entry) = ''GET'' \<and> rq_body (fst entry) = NoBody)"
  using assms
proof (induction log arbitrary: k u opts fl)
  case (Cons e log)
  from http_hops_next [OF Cons.prems] obtain rq jf where e: "e = (rq, jf)"
    and rq: "hop_request env jp jf k opts u = Inr rq" and k: "k \<le> 10"
    and next_hop: "log = [] \<or> (\<exists>p v s f''. jp = Some p \<and> k < 10 \<and>
         http_hops env jp (k + 1) v (redirect_options env u v s opts) f'' = (res, f', log))" .
  from next_hop show ?case
  proof
    assume "log = []"
    with e k hop_request_method [OF rq] show ?thesis by simp
  next
    assume "\<exists>p v s f''. jp = Some p \<and> k < 10 \<and>
         http_hops env jp (k + 1) v (redirect_options env u v s opts) f'' = (res, f', log)"
    then obtain p v s f'' where jp: "jp = Some p" and k: "k < 10"
      and h: "http_hops env jp (k + 1) v (redirect_options env u v s opts) f'' = (res, f', log)" by blast
    from Cons.IH [OF h] have len: "length log \<le> 11 - (k + 1)"
      and each: "\<forall>entry \<in> set log. rq_method (fst entry) = po_method (redirect_options env u v s opts)
              \<and> rq_body (fst entry) = po_body (redirect_options env u v s opts)
              \<or> rq_method (fst entry) = ''GET'' \<and> rq_body (fst entry) = NoBody" by blast+
    from len k have "length (e # log) \<le> 11 - k" by simp
    moreover have "\<forall>entry \<in> set (e # log). rq_method (fst entry) = po_method opts \<and> rq_body (fst entry) = po_body opts
              \<or> rq_method (fst entry) = ''GET'' \<and> rq_body (fst entry) = NoBody"
      using each redirect_method [of env u v s opts] hop_request_method [OF rq] e by fastforce
    ultimately show ?thesis using jp by blast
  qed
qed simp

text \<open>
  C20. Redirects are bounded: the loop always ends, after at most eleven requests (one without
  a jar, where the transport follows redirects), and every request has the caller's method and
  body unchanged, or is a \<open>GET\<close> without a body.
\<close>

theorem redirects_are_bounded:
  "\<exists>res f' log. send_http_response env b opts fl = (res, f', log)
     \<and> length log \<le> 11 \<and> (cj_path (b_cookie_jar b) = None \<longrightarrow> length log \<le> 1)
     \<and> (\<forall>entry \<in> set log. rq_method (fst entry) = po_method opts \<and> rq_body (fst entry) = po_body opts
            \<or> rq_method (fst entry) = ''GET'' \<and> rq_body (fst entry) = NoBody)"
proof -
  obtain res f' log where s: "send_http_response env b opts fl = (res, f', log)"
    by (metis prod.exhaust)
  show ?thesis
  proof (cases "env_url_parse env (b_url b)")
    case None
    with s show ?thesis by (auto simp: send_http_response_def Let_def)
  next
    case (Some u)
    with s have "http_hops env (cj_path (b_cookie_jar b)) 0 u opts fl = (res, f', log)"
      by (simp add: send_http_response_def)
    from hops_bounded [OF this] s show ?thesis by auto
  qed
qed

definition demo_url2 :: url where
  "demo_url2 = \<lparr> url_scheme = ''https'', url_host = Some ''evil.org'', url_port = None,
     url_path = ''/'', url_text = ''2'' \<rparr>"

definition demo_response :: "nat \<Rightarrow> http_response" where
  "demo_response n = \<lparr> rs_status = (if n = 0 then 302 else 200), rs_url = demo_url, rs_content_type = None,
     rs_set_cookie = [], rs_location = Some (Some ''x''), rs_chunks = [] \<rparr>"

definition demo_env :: "string option http_env" where
  "demo_env = \<lparr> env_psl = (\<lambda>_. None), env_parse_cookie = (\<lambda>_. None), env_url_parse = (\<lambda>_. Some demo_url),
     env_url_join = (\<lambda>_ _. Some demo_url2), env_origin = url_host, env_hval = (\<lambda>_. True),
     env_method_ok = (\<lambda>_. True), env_ts_ok = (\<lambda>_. True), env_dom_get = id, env_age_end = (\<lambda>_. None),
     env_now = 0, env_io = demo_io, env_server = (\<lambda>n _. Reply (demo_response n)), env_other = (\<lambda>_ f. f) \<rparr>"

definition demo_call :: "http_response result \<times> jar_file \<times> (http_request \<times> jar_file) list" where
  "demo_call = send_http_response demo_env
     (set_cookie_jar [RootDir, Normal ''j''] (builder_new (demo_client True) ''u'')) demo_options NoFile"

definition demo_request :: "nat \<Rightarrow> http_request" where
  "demo_request n = \<lparr> rq_method = ''GET'', rq_url = (if n = 0 then demo_url else demo_url2),
     rq_headers = (if n = 0 then [(''authorization'', ''t''), (''cookie'', ''a=1; a=1'')] else []),
     rq_body = NoBody \<rparr>"

lemma demo_run:
  "demo_call = (Inr (demo_response 1), NoFile, [(demo_request 0, NoFile), (demo_request 1, NoFile)])"
proof -
  let ?b = "set_cookie_jar [RootDir, Normal ''j''] (builder_new (demo_client True) ''u'')"
  have jar: "cj_path (b_cookie_jar ?b) = Some [RootDir, Normal ''j'']" by (simp add: set_cookie_jar_def)
  have url: "env_url_parse demo_env (b_url ?b) = Some demo_url" by (simp add: demo_env_def)
  let ?rq0 = "demo_request 0"
  let ?rq1 = "demo_request 1"
  have r0: "hop_request demo_env (Some [RootDir, Normal ''j'']) NoFile 0 demo_options demo_url = Inr ?rq0"
    by (simp add: hop_request_def hop_options_def resolve_jar_cookies_def load_def jar_prepared_def
        applicable_cookies_def merge_jar_cookies_def http_header_map_def cookie_header_for_url_def demo_env_def
        demo_options_def demo_prepared_def parse_cookie_url_def validate_cookie_scope_def cookie_is_expired_def
        join_def effective_cookie_secure_def List.map_filter_def demo_request_def)
  let ?o1 = "redirect_options demo_env demo_url demo_url2 302 demo_options"
  have o1: "?o1 = demo_options\<lparr> po_headers := [], po_cookies := [] \<rparr>"
    by (simp add: redirect_options_def rewrite_method_def drop_credentials_def demo_env_def demo_url_def demo_url2_def
        demo_options_def is_origin_scoped_header_def)
  have r1: "hop_request demo_env (Some [RootDir, Normal ''j'']) NoFile 1 ?o1 demo_url2 = Inr ?rq1"
    unfolding o1
    by (simp add: hop_request_def hop_options_def resolve_jar_cookies_def load_def jar_prepared_def
        applicable_cookies_def merge_jar_cookies_def http_header_map_def cookie_header_for_url_def demo_env_def
        demo_options_def List.map_filter_def demo_request_def)
  have env: "env_other demo_env n f = f" "env_server demo_env k rq = Reply (demo_response k)"
    "rs_location (demo_response k) = Some (Some ''x'')" "rs_set_cookie (demo_response k) = []" for n f k rq
    by (simp_all add: demo_env_def demo_response_def)
  have p0: "persist_set_cookies psl pc io now p [] u f1 f2 = (Inr (), f2)" for psl pc io now p u f1 f2
    by (simp add: persist_set_cookies_def)
  have t: "redirect_target demo_env demo_url (Some ''x'') = Inr demo_url2"
    by (simp add: redirect_target_def demo_env_def demo_url2_def)
  have last_hop: "http_hops demo_env (Some [RootDir, Normal ''j'']) 1 demo_url2 ?o1 NoFile = (Inr (demo_response 1), NoFile, [(?rq1, NoFile)])"
    using r1 by (simp add: http_hops.simps [of _ _ "Suc 0"] env p0 demo_response_def is_redirect_status_def
        List.map_filter_def)
  have s302: "rs_status (demo_response 0) = 302" by (simp add: demo_response_def)
  show ?thesis
    unfolding demo_call_def send_http_response_def Let_def jar url option.case
    using r0 last_hop t
    by (simp add: http_hops.simps [of _ _ 0] env p0 s302 is_redirect_status_def List.map_filter_def)
qed

theorem credentials_stay_on_the_origin_witness:
  "\<exists>rq0 rq1. snd (snd demo_call) = [(rq0, NoFile), (rq1, NoFile)]
     \<and> map_of (rq_headers rq0) ''authorization'' = Some ''t''
     \<and> only_jar_credentials demo_env [RootDir, Normal ''j''] (rq1, NoFile)"
proof -
  have "only_jar_credentials demo_env [RootDir, Normal ''j''] ([(demo_request 0, NoFile), (demo_request 1, NoFile)] ! 1)"
    by (rule credentials_stay_on_the_origin [OF demo_run [unfolded demo_call_def], where u = demo_url and i = 1])
       (simp_all add: demo_env_def demo_url_def demo_url2_def demo_request_def set_cookie_jar_def)
  then show ?thesis unfolding demo_run by (simp add: demo_request_def)
qed

theorem redirects_are_bounded_witness:
  "length (snd (snd demo_call)) = 2 \<and> rq_method (fst (snd (snd demo_call) ! 1)) = ''GET''"
proof -
  have m: "po_method demo_options = ''GET''" by (simp add: demo_options_def)
  have "\<exists>res f' log. demo_call = (res, f', log)
      \<and> (\<forall>entry \<in> set log. rq_method (fst entry) = ''GET'')"
    using redirects_are_bounded [of demo_env
        "set_cookie_jar [RootDir, Normal ''j''] (builder_new (demo_client True) ''u'')" demo_options NoFile]
    unfolding demo_call_def [symmetric] m by blast
  then show ?thesis by (auto simp: demo_run)
qed

end
