(* ===== verification/Pipeline.thy ===== *)
theory Pipeline
  imports HttpOnly
begin

text \<open>
  The render-mode state machine (\<open>pipeline/mod.rs\<close>), the envelope of the HTTP path
  (\<open>http_only\<close> of \<open>pipeline/http_only.rs\<close>), the atomic artifact writer (\<open>sdk/fetch/writer.rs\<close>)
  and one execution of a fetch under its timeout (\<open>execute_once_with_timeout\<close>).

  The two ways to fetch, over HTTP and in the browser, are arguments of \<open>execute\<close>: state
  transformers on a world of the caller's choice and the shared deadline. The phases
  that ran are returned beside the result.
\<close>

subsection \<open>The artifact writer\<close>

text \<open>
  The files as a store from paths to contents. The five outcomes are those of creating the directory,
  creating the temporary file, writing, flushing, and renaming; a failed write leaves some prefix.
\<close>

record write_io =
  w_mkdir :: bool
  w_create :: bool
  w_write :: "bytes option"
  w_flush :: bool
  w_rename :: bool

definition ensure_dir :: "bool \<Rightarrow> unit result" where
  "ensure_dir ok = (if ok then Inr () else fail IoError ''create_dir_all({}): {e}'')"

definition write_bytes ::
  "write_io \<Rightarrow> path \<Rightarrow> bytes \<Rightarrow> (path, bytes) kv \<Rightarrow> unit result \<times> (path, bytes) kv" where
  "write_bytes io target data fs =
     (case (if path_parent target \<noteq> None then ensure_dir (w_mkdir io) else Inr ()) of
        Inl e \<Rightarrow> (Inl e, fs)
      | Inr _ \<Rightarrow>
         (let tmp = sibling_tmp target
          in if \<not> w_create io then (fail IoError ''create({}): {e}'', fs)
             else (case w_write io of
                     Some part \<Rightarrow> (fail IoError ''write({}): {e}'', kv_put tmp part fs)
                   | None \<Rightarrow>
                      (let fs = kv_put tmp data fs
                       in if \<not> w_flush io then (fail IoError ''flush({}): {e}'', fs)
                          else if \<not> w_rename io then (fail IoError ''rename({} -> {}): {e}'', fs)
                          else (Inr (), kv_put target data (kv_del tmp fs))))))"

lemma sibling_tmp_ne: "sibling_tmp p \<noteq> p"
proof (cases p rule: rev_cases)
  case (snoc q c)
  then show ?thesis
    by (cases c) (auto simp: sibling_tmp_def path_with_file_name_def path_file_name_def)
qed (simp add: sibling_tmp_def path_with_file_name_def path_file_name_def)

text \<open>
  C22. Artifact writes are atomic for their target: whatever step fails, the target file holds all of the new bytes if
  the write succeeded and exactly what it held before if it did not. The one other file that is touched is the
  temporary sibling, the target's name with \<open>.tmp\<close> after it. A success leaves no such file. A failure leaves it as
  it was when nothing was created, and otherwise leaves it behind, in place of any file of that name, with all of
  the new bytes or with what a failed write had put there. Every other file stays as it was.
\<close>

theorem artifact_write_is_atomic:
  assumes "write_bytes io target data fs = (r, fs')"
  shows "(if isl r
        then map_of fs' target = map_of fs target
          \<and> map_of fs' (sibling_tmp target) =
                (if path_parent target \<noteq> None \<and> \<not> w_mkdir io \<or> \<not> w_create io then map_of fs (sibling_tmp target)
                 else case w_write io of Some part \<Rightarrow> Some part | None \<Rightarrow> Some data)
        else map_of fs' target = Some data \<and> map_of fs' (sibling_tmp target) = None)
    \<and> (\<forall>p. p \<noteq> target \<and> p \<noteq> sibling_tmp target \<longrightarrow> map_of fs' p = map_of fs p)"
  using assms sibling_tmp_ne [of target]
  by (auto simp: write_bytes_def ensure_dir_def Let_def split: if_splits option.splits)

theorem artifact_write_is_atomic_witness:
  "map_of (snd (write_bytes \<lparr> w_mkdir = True, w_create = True, w_write = Some [1], w_flush = True, w_rename = True \<rparr>
     [Normal ''b''] [1, 2] [([Normal ''b''], [9])])) [Normal ''b''] = Some [9]"
proof -
  let ?w = "write_bytes \<lparr> w_mkdir = True, w_create = True, w_write = Some [1], w_flush = True, w_rename = True \<rparr>
     [Normal ''b''] [1, 2] [([Normal ''b''], [9])]"
  have "isl (fst ?w)" by (simp add: write_bytes_def ensure_dir_def Let_def)
  moreover have "?w = (fst ?w, snd ?w)" by simp
  ultimately show ?thesis using artifact_write_is_atomic by fastforce
qed

subsection \<open>The HTTP envelope\<close>

record http_only_outcome =
  ho_result :: fetch_result
  ho_body :: bytes
  ho_content_type :: "string option"

definition to_text :: "bytes \<Rightarrow> string" where
  "to_text bs = map (\<lambda>b. char_of (unat b)) bs"

definition sensitive_capture :: "network_capture \<Rightarrow> string list" where
  "sensitive_capture n =
     (if \<not> redact n then [''network_redact_off_may_expose_tokens_or_pii''] else [])
     @ (if capture_ws n then [''capture_ws_may_expose_tokens_or_pii''] else [])
     @ (if capture_sse n then [''capture_sse_may_expose_tokens_or_pii''] else [])"

text \<open>The result built from a response whose body was read: the last third of \<open>http_only\<close>.\<close>

definition http_result ::
  "(string \<Rightarrow> (string \<times> html_element list) list) \<Rightarrow> (string \<Rightarrow> bool) \<Rightarrow> fetch_builder \<Rightarrow> string \<Rightarrow> trace
   \<Rightarrow> path option \<Rightarrow> http_response \<Rightarrow> bytes \<Rightarrow> nat option \<Rightarrow> fetch_result" where
  "http_result html_texts utf8 b request_id t body_path rs data truncated_at =
     (let r = fetch_result_new request_id (b_url b) t;
          r = r\<lparr> final_url := url_text (rs_url rs), status := rs_status rs, content_type := rs_content_type rs \<rparr>;
          r = (case body_path of Some p \<Rightarrow> set_artifact_file ABody p r | None \<Rightarrow> r);
          r = (case truncated_at of
                 Some cap \<Rightarrow> r\<lparr> warnings := warnings r @ [\<lparr> w_artifact = ABody, w_code = NetworkBodyTruncated,
                     w_detail = ''HTTP response body exceeded --max-response-bytes={cap}; stored prefix only ({} bytes)'' \<rparr>] \<rparr>
               | None \<Rightarrow> r)
      in case classify_http_body html_texts utf8 (to_text data) (rs_content_type rs) of
           Some c \<Rightarrow> (set_page_kind (cls_kind c) r)
                      \<lparr> warnings := warnings r @ [\<lparr> w_artifact = ABody, w_code = cls_code c, w_detail = cls_detail c \<rparr>] \<rparr>
         | None \<Rightarrow> r)"

text \<open>The trace entries set before the request.\<close>

definition http_trace :: "fetch_builder \<Rightarrow> string option \<Rightarrow> trace \<Rightarrow> trace" where
  "http_trace b escalation t =
     t\<lparr> render_decision := HttpOnly, render_used := False, escalation_reason := escalation,
        main_request_observed := True, cookie_jar_file := cj_path (b_cookie_jar b),
        cookie_jar_warning := cj_warning (b_cookie_jar b),
        tr_sensitive_capture := sensitive_capture (b_network b) \<rparr>"

text \<open>
  \<open>http_only\<close>: \<open>client_build\<close> is the per-fetch client (proxy, CA file, TLS), \<open>navigate\<close> and
  \<open>read_body\<close> the two staged futures, \<open>write_body\<close> the body artifact.
\<close>

definition http_only ::
  "(string \<Rightarrow> (string \<times> html_element list) list) \<Rightarrow> (string \<Rightarrow> bool) \<Rightarrow> bool \<Rightarrow> unit result
   \<Rightarrow> http_response stage_future \<Rightarrow> (http_response \<Rightarrow> (bytes \<times> nat option) stage_future)
   \<Rightarrow> (string option \<Rightarrow> bytes \<Rightarrow> path result) \<Rightarrow> fetch_builder \<Rightarrow> string \<Rightarrow> instant \<Rightarrow> string option
   \<Rightarrow> instant \<Rightarrow> fetch_deadline \<Rightarrow> http_only_outcome result \<times> instant \<times> fetch_deadline" where
  "http_only html_texts utf8 mkdir client_build navigate read_body write_body b request_id start escalation now d =
     (let d = set_stage ''prepare_http_fetch'' d
      in case and_then (ensure_dir mkdir) (\<lambda>_. if proxy (b_http b) \<noteq> None \<or> ca_cert (b_http b) \<noteq> None
                  \<or> tls_insecure (b_http b) \<or> cj_path (b_cookie_jar b) \<noteq> None then client_build else Inr ()) of
           Inl e \<Rightarrow> (Inl e, now, d)
         | Inr _ \<Rightarrow>
            (let d = update_trace (http_trace b escalation) d
             in case run_result now ''navigate'' NavigationTimeout navigate d of
                  (Inl e, now, d) \<Rightarrow> (Inl e, now, d)
                | (Inr rs, now, d) \<Rightarrow>
                   (case run_result now ''capture_body'' NavigationTimeout (read_body rs) d of
                      (Inl e, now, d) \<Rightarrow> (Inl e, now, d)
                    | (Inr (data, truncated_at), now, d) \<Rightarrow>
                       (case snapshot now d of
                          (t, d) \<Rightarrow>
                           (case (if ABody \<in> set (b_want b)
                                  then and_then (write_body (rs_content_type rs) data) (\<lambda>p. Inr (Some p))
                                  else Inr None) of
                              Inl e \<Rightarrow> (Inl e, now, d)
                            | Inr body_path \<Rightarrow>
                               (let r = http_result html_texts utf8 b request_id t body_path rs data truncated_at;
                                    d = update_trace (\<lambda>t. t\<lparr> tr_duration_ms := duration_ms (now - start) \<rparr>) d
                                in case complete_trace now d of
                                     (t, d) \<Rightarrow> (Inr \<lparr> ho_result = r\<lparr> fr_trace := t \<rparr>, ho_body = data,
                                                      ho_content_type = rs_content_type rs \<rparr>, now, d)))))))"

subsection \<open>The render-mode state machine\<close>

datatype phase = HttpPhase | BrowserPhase "string option"

definition reject_http_only_evaluate :: "prepared_options \<Rightarrow> unit result" where
  "reject_http_only_evaluate po =
     (if has_evaluate_after_wait po
      then fail InvalidArgument ''.evaluate_after_wait(...) requires a browser-backed fetch; use --render always or let --render auto escalate for another reason''
      else Inr ())"

type_synonym ('w, 'a) fetch_action = "'w \<times> fetch_deadline \<Rightarrow> 'a result \<times> 'w \<times> fetch_deadline"

definition decide_browser :: "string option \<Rightarrow> fetch_deadline \<Rightarrow> fetch_deadline" where
  "decide_browser reason d =
     update_trace (\<lambda>t. (t\<lparr> render_decision := BrowserDecision, render_used := True \<rparr>)
                        \<lparr> escalation_reason := (case reason of Some r \<Rightarrow> Some r | None \<Rightarrow> escalation_reason t) \<rparr>) d"

definition decide_http :: "fetch_deadline \<Rightarrow> fetch_deadline" where
  "decide_http d = update_trace (\<lambda>t. t\<lparr> render_decision := HttpOnly, render_used := False \<rparr>) d"

text \<open>Why an HTTP outcome of a resendable fetch is not the answer; None when it is.\<close>

definition escalation_for ::
  "(string \<Rightarrow> (string \<times> html_element list) list) \<Rightarrow> (string \<Rightarrow> bool) \<Rightarrow> artifact list \<Rightarrow> http_only_outcome result
   \<Rightarrow> string option" where
  "escalation_for html_texts utf8 want out =
     (case out of
        Inr o1 \<Rightarrow>
          if status (ho_result o1) < 400 then
            (case classify_http_body html_texts utf8 (to_text (ho_body o1)) (ho_content_type o1) of
               Some c \<Rightarrow> Some (as_str (cls_code c))
             | None \<Rightarrow>
                 if looks_like_empty_html_shell utf8 (to_text (ho_body o1)) (ho_content_type o1)
                 then Some empty_html_shell
                 else if Content \<in> set want \<or> ContentJson \<in> set want
                 then Some ''requested_content_artifact''
                 else None)
          else Some (http_status_reason (status (ho_result o1)))
      | Inl e \<Rightarrow>
          if error_code e = InvalidArgument then None
          else Some (http_failed_reason (as_str (error_code e))))"

definition run_browser ::
  "(string option \<Rightarrow> ('w, fetch_result) fetch_action) \<Rightarrow> string option \<Rightarrow> phase list \<Rightarrow> 'w \<times> fetch_deadline
   \<Rightarrow> fetch_result result \<times> 'w \<times> fetch_deadline \<times> phase list" where
  "run_browser browser reason phases s =
     (case browser reason (fst s, decide_browser reason (snd s)) of
        (r, w, d) \<Rightarrow> (r, w, d, phases @ [BrowserPhase reason]))"

definition execute_auto ::
  "(string \<Rightarrow> (string \<times> html_element list) list) \<Rightarrow> (string \<Rightarrow> bool)
   \<Rightarrow> ('w, http_only_outcome) fetch_action \<Rightarrow> (string option \<Rightarrow> ('w, fetch_result) fetch_action)
   \<Rightarrow> fetch_builder \<Rightarrow> prepared_options \<Rightarrow> 'w \<times> fetch_deadline
   \<Rightarrow> fetch_result result \<times> 'w \<times> fetch_deadline \<times> phase list" where
  "execute_auto html_texts utf8 http browser b po s =
     (let (w, d) = s;
          d = decide_http d;
          resendable = method_is_idempotent b
      in case (if resendable then Inr () else reject_http_only_evaluate po) of
           Inl e \<Rightarrow> (Inl e, w, d, [])
         | Inr _ \<Rightarrow>
            (case http (w, d) of
               (out, w, d) \<Rightarrow>
                if \<not> resendable then (and_then out (\<lambda>o1. Inr (ho_result o1)), w, d, [HttpPhase])
                else (case escalation_for html_texts utf8 (b_want b) out of
                        Some reason \<Rightarrow> run_browser browser (Some reason) [HttpPhase] (w, d)
                      | None \<Rightarrow>
                         (case out of
                            Inl e \<Rightarrow> (Inl e, w, d, [HttpPhase])
                          | Inr o1 \<Rightarrow>
                             (case reject_http_only_evaluate po of
                                Inl e \<Rightarrow> (Inl e, w, d, [HttpPhase])
                              | Inr _ \<Rightarrow> (Inr (ho_result o1), w, d, [HttpPhase]))))))"

text \<open>
  \<open>execute\<close> after the cookie jar is resolved and the options are prepared (both staged futures run
  before any request): \<open>resolved\<close> is the outcome of those two stages.
\<close>

definition execute_render ::
  "(string \<Rightarrow> (string \<times> html_element list) list) \<Rightarrow> (string \<Rightarrow> bool)
   \<Rightarrow> ('w, http_only_outcome) fetch_action \<Rightarrow> (string option \<Rightarrow> ('w, fetch_result) fetch_action)
   \<Rightarrow> fetch_builder \<Rightarrow> prepared_options \<Rightarrow> 'w \<times> fetch_deadline
   \<Rightarrow> fetch_result result \<times> 'w \<times> fetch_deadline \<times> phase list" where
  "execute_render html_texts utf8 http browser b po s =
     (case b_render b of
        RenderNone \<Rightarrow>
          (case reject_http_only_evaluate po of
             Inl e \<Rightarrow> (Inl e, fst s, decide_http (snd s), [])
           | Inr _ \<Rightarrow>
              (case http (fst s, decide_http (snd s)) of
                 (out, w, d) \<Rightarrow> (and_then out (\<lambda>o1. Inr (ho_result o1)), w, d, [HttpPhase])))
      | RenderAuto \<Rightarrow> execute_auto html_texts utf8 http browser b po s
      | RenderAlways \<Rightarrow> run_browser browser None [] s)"

definition execute ::
  "(string \<Rightarrow> (string \<times> html_element list) list) \<Rightarrow> (string \<Rightarrow> bool)
   \<Rightarrow> fetch_builder stage_future \<Rightarrow> (fetch_builder \<Rightarrow> prepared_options result)
   \<Rightarrow> (fetch_builder \<Rightarrow> prepared_options \<Rightarrow> ('w, http_only_outcome) fetch_action)
   \<Rightarrow> (fetch_builder \<Rightarrow> prepared_options \<Rightarrow> string option \<Rightarrow> ('w, fetch_result) fetch_action)
   \<Rightarrow> fetch_builder \<Rightarrow> instant \<Rightarrow> 'w \<Rightarrow> fetch_deadline
   \<Rightarrow> fetch_result result \<times> 'w \<times> fetch_deadline \<times> phase list" where
  "execute html_texts utf8 resolve_jar prepare http browser b now w d =
     (let d = update_trace (\<lambda>t. t\<lparr> tr_render_mode := as_trace (b_render b),
                                   tr_sensitive_capture := sensitive_capture (b_network b) \<rparr>) d
      in case run_result now ''resolve_cookie_jar'' NavigationTimeout resolve_jar d of
           (Inl e, now, d) \<Rightarrow> (Inl e, w, d, [])
         | (Inr b, now, d) \<Rightarrow>
            (let d = update_trace (\<lambda>t. t\<lparr> cookie_jar_file := cj_path (b_cookie_jar b),
                                          cookie_jar_warning := cj_warning (b_cookie_jar b) \<rparr>) d
             in case run_result now ''prepare_request'' NavigationTimeout (\<lambda>_ d. (d, 0, Some (prepare b))) d of
                  (Inl e, now, d) \<Rightarrow> (Inl e, w, d, [])
                | (Inr po, now, d) \<Rightarrow> execute_render html_texts utf8 (http b po) (browser b po) b po (w, d)))"

text \<open>
  One execution under the outer timer: the pipeline's outcome, or None when it was still running
  after the timeout plus the time allowed for closing a tab.
\<close>

definition execute_once_with_timeout ::
  "instant \<Rightarrow> (fetch_result result) option \<times> fetch_deadline \<Rightarrow> outcome" where
  "execute_once_with_timeout now run =
     (case run of
        (Some (Inr r), d) \<Rightarrow> Inr r
      | (Some (Inl e), d) \<Rightarrow> Inl (fetch_error_new e (fst (snapshot now d)))
      | (None, d) \<Rightarrow>
          (case timeout_error now d of
             (e, d) \<Rightarrow> Inl (fetch_error_new e (fst (snapshot now d)))))"

subsection \<open>Which phases run\<close>

lemma run_browser_phases:
  "run_browser browser reason ps s = (r, w, d, phases) \<Longrightarrow> phases = ps @ [BrowserPhase reason]"
  by (auto simp: run_browser_def split: prod.splits)

lemma execute_auto_phases:
  assumes "execute_auto html_texts utf8 http browser b po (w0, d0) = (r, w, d, phases)"
  shows "phases = [] \<and> isl r \<and> \<not> method_is_idempotent b
       \<or> phases = [HttpPhase] \<and> (method_is_idempotent b \<longrightarrow>
            escalation_for html_texts utf8 (b_want b) (fst (http (w0, decide_http d0))) = None)
          \<and> (\<not> isl r \<longrightarrow> \<not> has_evaluate_after_wait po)
       \<or> (\<exists>reason. phases = [HttpPhase, BrowserPhase (Some reason)] \<and> method_is_idempotent b
            \<and> escalation_for html_texts utf8 (b_want b) (fst (http (w0, decide_http d0))) = Some reason)"
proof -
  obtain out w1 d1 where h: "http (w0, decide_http d0) = (out, w1, d1)" by (metis prod.exhaust)
  show ?thesis
  proof (cases "method_is_idempotent b")
    case True
    show ?thesis
    proof (cases "escalation_for html_texts utf8 (b_want b) out")
      case None
      with True h assms show ?thesis
        by (auto simp: execute_auto_def reject_http_only_evaluate_def split: sum.splits if_splits)
    next
      case (Some reason)
      with True h assms run_browser_phases [of browser "Some reason" "[HttpPhase]" "(w1, d1)"] show ?thesis
        by (auto simp: execute_auto_def)
    qed
  next
    case False
    with h assms show ?thesis
      by (auto simp: execute_auto_def reject_http_only_evaluate_def split: if_splits)
  qed
qed

lemma fetch_phases:
  assumes "execute_render html_texts utf8 http browser b po (w0, d0) = (r, w, d, phases)"
  shows "phases \<in> {[], [HttpPhase], [BrowserPhase None]}
       \<or> (\<exists>reason. phases = [HttpPhase, BrowserPhase (Some reason)] \<and> b_render b = RenderAuto
            \<and> method_is_idempotent b
            \<and> escalation_for html_texts utf8 (b_want b) (fst (http (w0, decide_http d0))) = Some reason)"
    and "b_render b = RenderNone \<Longrightarrow> set phases \<subseteq> {HttpPhase}"
    and "b_render b = RenderAlways \<Longrightarrow> phases = [BrowserPhase None]"
    and "phases = [HttpPhase] \<Longrightarrow> \<not> isl r \<Longrightarrow> \<not> has_evaluate_after_wait po"
proof -
  have none: "phases = [] \<and> isl r \<or> phases = [HttpPhase] \<and> (\<not> isl r \<longrightarrow> \<not> has_evaluate_after_wait po)"
    if "b_render b = RenderNone"
    using assms that
    by (auto simp: execute_render_def reject_http_only_evaluate_def split: prod.splits if_splits)
  have always: "phases = [BrowserPhase None]" if "b_render b = RenderAlways"
    using assms that run_browser_phases [of browser None "[]" "(w0, d0)"] by (auto simp: execute_render_def)
  have auto: "execute_auto html_texts utf8 http browser b po (w0, d0) = (r, w, d, phases)"
    if "b_render b = RenderAuto"
    using assms that by (simp add: execute_render_def)
  note a = execute_auto_phases [OF auto]
  show "phases \<in> {[], [HttpPhase], [BrowserPhase None]}
       \<or> (\<exists>reason. phases = [HttpPhase, BrowserPhase (Some reason)] \<and> b_render b = RenderAuto
            \<and> method_is_idempotent b
            \<and> escalation_for html_texts utf8 (b_want b) (fst (http (w0, decide_http d0))) = Some reason)"
    using none always a by (cases "b_render b") auto
  show "set phases \<subseteq> {HttpPhase}" if "b_render b = RenderNone"
    using none [OF that] by auto
  show "phases = [BrowserPhase None]" if "b_render b = RenderAlways"
    by (rule always [OF that])
  show "\<not> has_evaluate_after_wait po" if "phases = [HttpPhase]" "\<not> isl r"
    using none always a that by (cases "b_render b") auto
qed

text \<open>
  C4. No request is sent twice unless it may be. A fetch runs at most one HTTP phase and then
  at most one browser phase; it runs both only in automatic mode, for GET or HEAD, with an HTTP
  outcome that calls for the browser, whose reason the browser phase gets; render mode \<open>none\<close> never
  starts a browser and \<open>always\<close> never takes the HTTP path; and a success without the browser never
  silently ignores a script the caller asked to evaluate.
\<close>

theorem fetch_escalates_only_when_resendable:
  assumes "execute_render html_texts utf8 http browser b po (w0, d0) = (r, w, d, phases)"
  shows "(phases \<in> {[], [HttpPhase], [BrowserPhase None]}
          \<or> (\<exists>reason. phases = [HttpPhase, BrowserPhase (Some reason)] \<and> b_render b = RenderAuto
               \<and> method_is_idempotent b
               \<and> escalation_for html_texts utf8 (b_want b) (fst (http (w0, decide_http d0))) = Some reason))
       \<and> (b_render b = RenderNone \<longrightarrow> set phases \<subseteq> {HttpPhase})
       \<and> (b_render b = RenderAlways \<longrightarrow> phases = [BrowserPhase None])
       \<and> (phases = [HttpPhase] \<and> \<not> isl r \<longrightarrow> \<not> has_evaluate_after_wait po)"
  using fetch_phases [OF assms] by blast

theorem fetch_escalates_only_when_resendable_witness:
  "\<exists>reason r w d. execute_render (\<lambda>_. []) (\<lambda>_. True) (\<lambda>(w, d). (fail IoError [], w, d)) (\<lambda>_ (w, d). (fail IoError [], w, d))
      (builder_new (demo_client True) ''u'') demo_options ((), deadline_new 0 1 TraceAuto)
    = (r, w, d, [HttpPhase, BrowserPhase (Some reason)])
    \<and> method_is_idempotent (builder_new (demo_client True) ''u'')"
proof -
  let ?b = "builder_new (demo_client True) ''u''"
  let ?run = "execute_render (\<lambda>_. []) (\<lambda>_. True) (\<lambda>(w, d). (fail IoError [], w, d)) (\<lambda>_ (w, d). (fail IoError [], w, d))
      ?b demo_options ((), deadline_new 0 1 TraceAuto)"
  obtain r w d phases where run: "?run = (r, w, d, phases)" by (metis prod.exhaust)
  have phases: "phases = [HttpPhase, BrowserPhase (Some (http_failed_reason ''io_error''))]"
    using run by (auto simp: execute_render_def execute_auto_def builder_new_def method_is_idempotent_def
        escalation_for_def error_new_def run_browser_def)
  from fetch_escalates_only_when_resendable [OF run] phases run show ?thesis by auto
qed

end
