(* ===== verification/Collectors.thy ===== *)
theory Collectors
  imports Json Redact Errors
begin

text \<open>
  The event collectors of the browser path (\<open>sdk/fetch/artifacts/collectors.rs\<close>): the aggregate
  a task folds the session's CDP events into, its limits, the redirect hops, the choice of the
  main document, the readiness signals and the final log, and the console log. The mutex makes
  every handler one atomic step, so the component is a step function on the aggregate, run on any
  interleaving of events and reader calls. Clocks and JSON reading and printing are arguments.
\<close>

subsection \<open>Floating-point timestamps\<close>

text \<open>
  A finite double is \<open>m * 2 ^ e\<close>. \<open>f64_round\<close> rounds to 53 significant bits, ties to even;
  \<open>f64_as_u64\<close> is the saturating cast. Overflow to infinity and subnormals are not modelled: the
  cast gives the same integer for them.
\<close>

fun bit_len :: "nat \<Rightarrow> nat" where
  "bit_len n = (if n = 0 then 0 else Suc (bit_len (n div 2)))"

declare bit_len.simps [simp del]

definition f64_round :: "int \<Rightarrow> int \<Rightarrow> int \<times> int" where
  "f64_round m e =
     (let s = bit_len (nat \<bar>m\<bar>) - 53; q = \<bar>m\<bar> div 2 ^ s; r = \<bar>m\<bar> mod 2 ^ s;
          up = (s \<noteq> 0 \<and> (2 * r > 2 ^ s \<or> (2 * r = 2 ^ s \<and> odd q)))
      in (sgn m * (q + of_bool up), e + int s))"

fun json_f64 :: "json \<Rightarrow> (int \<times> int) option" where
  "json_f64 (JNum (PosInt n)) = Some (f64_round (int n) 0)"
| "json_f64 (JNum (NegInt i)) = Some (f64_round i 0)"
| "json_f64 (JNum (Float m e)) = Some (m, e)"
| "json_f64 _ = None"

definition f64_as_u64 :: "int \<times> int \<Rightarrow> nat" where
  "f64_as_u64 x = (case x of (m, e) \<Rightarrow>
     min u64_max (nat (if 0 \<le> e then m * 2 ^ nat e else m div 2 ^ nat (- e))))"

text \<open>\<open>(t * 1000.0) as u64\<close>\<close>

definition seconds_to_ms :: "int \<times> int \<Rightarrow> nat" where
  "seconds_to_ms t = (case t of (m, e) \<Rightarrow> f64_as_u64 (f64_round (m * 1000) e))"

definition timestamp_ms :: "json \<Rightarrow> nat" where
  "timestamp_ms params =
     (case Option.bind (json_get params ''timestamp'') json_f64 of Some t \<Rightarrow> seconds_to_ms t | None \<Rightarrow> 0)"

subsection \<open>Entries\<close>

datatype entry_state = Pending | Responded | Finished | Failed

record network_timing =
  start_monotonic_ms :: nat
  end_monotonic_ms :: "nat option"

record network_entry =
  ne_request_id :: string
  ne_state :: entry_state
  ne_redirect_from :: "string option"
  ne_frame_id :: "string option"
  ne_loader_id :: "string option"
  ne_resource_type :: string
  ne_request_url :: string
  ne_method :: string
  ne_initiator :: "json option"
  ne_status :: "nat option"
  ne_mime_type :: "string option"
  ne_request_headers :: "(string, string) kv"
  ne_response_headers :: "(string, string) kv"
  ne_post_present :: bool
  ne_post_size :: "nat option"
  ne_body_file :: "string option"
  ne_timing :: network_timing
  ne_failure :: "string option"
  ne_hints :: "(string, json) kv"

record network_summary =
  ns_requests_total :: nat
  ns_responses_total :: nat
  ns_finished_total :: nat
  ns_failed_total :: nat
  ns_incomplete_total :: nat
  ns_inflight_total :: nat
  ns_pending_by_type :: "(string, nat) kv"
  ns_captured_body_files :: nat
  ns_redacted :: bool
  ns_events_dropped :: nat
  ns_truncated :: bool

record network_log =
  nl_schema_version :: nat
  nl_main_request_id :: "string option"
  nl_entries :: "network_entry list"
  nl_summary :: network_summary

record stream_events =
  se_events :: "json list"
  se_captured_total :: nat
  se_captured_bytes :: nat

record network_slot =
  sl_entry :: network_entry
  sl_started_at :: instant
  sl_updated_at :: instant

record network_inner =
  ni_slots :: "(string, network_slot) kv"
  ni_main :: "string option"
  ni_finished :: "(string, unit) kv"
  ni_ws :: "(string, stream_events) kv"
  ni_sse :: "(string, stream_events) kv"
  ni_hops :: "(string, nat) kv"
  ni_last_activity :: "instant option"
  ni_events_dropped :: nat
  ni_truncated :: bool

definition network_inner_default :: network_inner where
  "network_inner_default =
     \<lparr> ni_slots = [], ni_main = None, ni_finished = [], ni_ws = [], ni_sse = [], ni_hops = [],
       ni_last_activity = None, ni_events_dropped = 0, ni_truncated = False \<rparr>"

definition network_entry_limit :: nat where "network_entry_limit = 4096"
definition console_event_limit :: nat where "console_event_limit = 4096"
definition stream_event_limit :: nat where "stream_event_limit = 1024"
definition stream_payload_limit :: nat where "stream_payload_limit = 1024 * 1024"

definition default_entry :: network_entry where
  "default_entry =
     \<lparr> ne_request_id = [], ne_state = Pending, ne_redirect_from = None, ne_frame_id = None,
       ne_loader_id = None, ne_resource_type = ''Other'', ne_request_url = [], ne_method = ''GET'',
       ne_initiator = None, ne_status = None, ne_mime_type = None, ne_request_headers = [],
       ne_response_headers = [], ne_post_present = False, ne_post_size = None, ne_body_file = None,
       ne_timing = \<lparr> start_monotonic_ms = 0, end_monotonic_ms = None \<rparr>, ne_failure = None,
       ne_hints = [] \<rparr>"

subsection \<open>One event\<close>

record cdp_event =
  ev_method :: string
  ev_session :: "string option"
  ev_params :: json

text \<open>serde_json's printer and parser, the collector's options and the clocks read by a handler.\<close>

record capture_env =
  ce_json_text :: "json \<Rightarrow> string"
  ce_parse_json :: "string \<Rightarrow> json option"
  ce_session :: string
  ce_redact :: bool
  ce_ws :: bool
  ce_sse :: bool

definition string_field :: "json \<Rightarrow> string \<Rightarrow> string" where
  "string_field params k = str_or [] (get_str params k)"

definition headers_map :: "(json \<Rightarrow> string) \<Rightarrow> json option \<Rightarrow> (string, string) kv" where
  "headers_map json_text v =
     (case v of
        Some (JObj fs) \<Rightarrow>
          foldl (\<lambda>out (k, w). bt_put k (str_or (json_text w) (json_str w)) out) [] fs
      | _ \<Rightarrow> [])"

definition redact_inplace :: "(string, string) kv \<Rightarrow> (string, string) kv" where
  "redact_inplace m = map (\<lambda>(name, v). (name, if should_redact name then redacted_value else v)) m"

definition captured_headers :: "capture_env \<Rightarrow> json option \<Rightarrow> (string, string) kv" where
  "captured_headers env v =
     (let h = headers_map (ce_json_text env) v in if ce_redact env then redact_inplace h else h)"

definition is_redirect_hop :: "network_entry \<Rightarrow> bool" where
  "is_redirect_hop e \<longleftrightarrow> map_of (ne_hints e) ''redirected'' = Some (JBool True)"

definition put_hint :: "string \<Rightarrow> json \<Rightarrow> network_entry \<Rightarrow> network_entry" where
  "put_hint k v e = e\<lparr> ne_hints := bt_put k v (ne_hints e) \<rparr>"

definition put_hint_opt :: "string \<Rightarrow> json option \<Rightarrow> network_entry \<Rightarrow> network_entry" where
  "put_hint_opt k v e = (case v of Some w \<Rightarrow> put_hint k w e | None \<Rightarrow> e)"

text \<open>Change the entry of a slot, if there is one.\<close>

definition update_entry :: "string \<Rightarrow> (network_entry \<Rightarrow> network_entry) \<Rightarrow> network_inner \<Rightarrow> network_inner" where
  "update_entry r f inner =
     (case map_of (ni_slots inner) r of
        None \<Rightarrow> inner
      | Some sl \<Rightarrow> inner\<lparr> ni_slots := kv_put r (sl\<lparr> sl_entry := f (sl_entry sl) \<rparr>) (ni_slots inner) \<rparr>)"

definition hop_name :: "string \<Rightarrow> nat \<Rightarrow> string" where
  "hop_name r n = r @ ''#redirect'' @ show_nat n"

definition hop_ended :: "capture_env \<Rightarrow> string \<Rightarrow> json \<Rightarrow> nat \<Rightarrow> network_entry \<Rightarrow> network_entry" where
  "hop_ended env hop_id redirect t e =
     put_hint ''redirected'' (JBool True)
       (e\<lparr> ne_request_id := hop_id,
          ne_status := map_option (\<lambda>s. s mod 65536) (get_u64 redirect ''status''),
          ne_state := Finished,
          ne_timing := (ne_timing e)\<lparr> end_monotonic_ms := Some t \<rparr>,
          ne_response_headers := captured_headers env (json_get redirect ''headers'') \<rparr>)"

text \<open>The hop that just ended moves to its own entry; the result names it.\<close>

definition end_redirect_hop ::
  "capture_env \<Rightarrow> string \<Rightarrow> json \<Rightarrow> network_inner \<Rightarrow> string option \<times> network_inner" where
  "end_redirect_hop env r params inner =
     (case (json_get params ''redirectResponse'', map_of (ni_slots inner) r) of
        (Some redirect, Some hop) \<Rightarrow>
          (let inner = inner\<lparr> ni_slots := kv_del r (ni_slots inner) \<rparr>
           in if length (ni_slots inner) + 2 > network_entry_limit
              then (None, inner\<lparr> ni_truncated := True \<rparr>)
              else
                (let count = (case map_of (ni_hops inner) r of Some n \<Rightarrow> n | None \<Rightarrow> 0);
                     hop_id = hop_name r count
                 in (Some hop_id,
                     inner\<lparr> ni_hops := kv_put r (count + 1) (ni_hops inner),
                            ni_slots := kv_put hop_id
                              (hop\<lparr> sl_entry := hop_ended env hop_id redirect (timestamp_ms params) (sl_entry hop) \<rparr>)
                              (ni_slots inner) \<rparr>)))
      | _ \<Rightarrow> (None, inner))"

definition post_hints :: "capture_env \<Rightarrow> string option \<Rightarrow> network_entry \<Rightarrow> network_entry" where
  "post_hints env post e =
     (case post of
        None \<Rightarrow> e
      | Some p \<Rightarrow>
          (let e = e\<lparr> ne_post_present := True, ne_post_size := Some (length p) \<rparr>
           in case ce_parse_json env p of
                None \<Rightarrow> e
              | Some v \<Rightarrow>
                  (let e = put_hint ''request_body_json_valid'' (JBool True) e;
                       e = put_hint_opt ''graphql_operation_name'' (map_option JStr (get_str v ''operationName'')) e
                   in if json_get v ''query'' \<noteq> None
                      then put_hint ''graphql_operation_type'' (JStr ''request'') e else e)))"

definition on_request :: "capture_env \<Rightarrow> instant \<Rightarrow> json \<Rightarrow> network_inner \<Rightarrow> bool \<times> network_inner" where
  "on_request env now params inner =
     (let r = string_field params ''requestId'';
          rtype = str_or ''Other'' (get_str params ''type'');
          limit = (if ni_main inner = None \<and> rtype \<noteq> ''Document'' then network_entry_limit - 1
                   else network_entry_limit)
      in if r = [] \<or> (map_of (ni_slots inner) r = None \<and> length (ni_slots inner) \<ge> limit)
         then (False, inner\<lparr> ni_truncated := True \<rparr>)
         else
           (let inner = (if rtype = ''Document'' \<and> ni_main inner = None
                         then inner\<lparr> ni_main := Some r \<rparr> else inner);
                request = json_idx params ''request'';
                (from_hop, inner) = end_redirect_hop env r params inner;
                entry = default_entry
                  \<lparr> ne_request_id := r, ne_redirect_from := from_hop,
                    ne_frame_id := get_str params ''frameId'', ne_loader_id := get_str params ''loaderId'',
                    ne_resource_type := rtype, ne_request_url := string_field request ''url'',
                    ne_method := str_or ''GET'' (get_str request ''method''),
                    ne_initiator := json_get params ''initiator'',
                    ne_request_headers := captured_headers env (json_get request ''headers''),
                    ne_timing := \<lparr> start_monotonic_ms = timestamp_ms params, end_monotonic_ms = None \<rparr> \<rparr>;
                entry = post_hints env (get_str request ''postData'') entry;
                inner = inner\<lparr> ni_slots := kv_put r
                  \<lparr> sl_entry = entry, sl_started_at = now, sl_updated_at = now \<rparr> (ni_slots inner) \<rparr>
            in (ni_main inner = Some r, inner)))"

text \<open>\<open>encodedDataLength\<close>, when it is a number that is not negative.\<close>

definition encoded_length :: "json \<Rightarrow> json option" where
  "encoded_length v =
     (case json_get v ''encodedDataLength'' of
        None \<Rightarrow> None
      | Some n \<Rightarrow> (case json_f64 n of Some (m, e) \<Rightarrow> if 0 \<le> m then Some n else None | None \<Rightarrow> None))"

definition on_response :: "capture_env \<Rightarrow> json \<Rightarrow> network_inner \<Rightarrow> bool \<times> network_inner" where
  "on_response env params inner =
     (let r = string_field params ''requestId''; response = json_idx params ''response'';
          mime = get_str response ''mimeType'';
          inner = update_entry r (\<lambda>e.
            (let e = e\<lparr> ne_status := map_option (\<lambda>s. s mod 65536) (get_u64 response ''status''),
                        ne_state := Responded \<rparr>;
                 e = (if mime \<noteq> None then e\<lparr> ne_mime_type := mime \<rparr> else e);
                 e = e\<lparr> ne_response_headers := captured_headers env (json_get response ''headers'') \<rparr>;
                 e = put_hint_opt ''protocol'' (map_option JStr (get_str response ''protocol'')) e;
                 e = put_hint_opt ''remote_address'' (map_option JStr (get_str response ''remoteIPAddress'')) e
             in put_hint_opt ''encoded_header_length'' (encoded_length response) e)) inner
      in (ni_main inner = Some r, inner))"

definition mark_finished :: "string \<Rightarrow> network_inner \<Rightarrow> network_inner" where
  "mark_finished r inner =
     (if map_of (ni_slots inner) r = None then inner
      else inner\<lparr> ni_finished := bt_put r () (ni_finished inner) \<rparr>)"

definition on_finished :: "json \<Rightarrow> network_inner \<Rightarrow> bool \<times> network_inner" where
  "on_finished params inner =
     (let r = string_field params ''requestId'';
          inner = mark_finished r (update_entry r (\<lambda>e.
            put_hint_opt ''encoded_data_length'' (encoded_length params)
              (e\<lparr> ne_timing := (ne_timing e)\<lparr> end_monotonic_ms := Some (timestamp_ms params) \<rparr>,
                 ne_state := Finished \<rparr>)) inner)
      in (ni_main inner = Some r, inner))"

definition on_failed :: "json \<Rightarrow> network_inner \<Rightarrow> bool \<times> network_inner" where
  "on_failed params inner =
     (let r = string_field params ''requestId'';
          inner = mark_finished r (update_entry r (\<lambda>e.
            e\<lparr> ne_failure := Some (string_field params ''errorText''), ne_state := Failed \<rparr>) inner)
      in (ni_main inner = Some r, inner))"

definition touch_slot :: "instant \<Rightarrow> cdp_event \<Rightarrow> network_inner \<Rightarrow> network_inner" where
  "touch_slot now ev inner =
     (case get_str (ev_params ev) ''requestId'' of
        None \<Rightarrow> inner
      | Some r \<Rightarrow>
          (case map_of (ni_slots inner) r of
             None \<Rightarrow> inner
           | Some sl \<Rightarrow>
               if starts_with (ev_method ev) ''Network.''
               then inner\<lparr> ni_slots := kv_put r (sl\<lparr> sl_updated_at := now \<rparr>) (ni_slots inner) \<rparr>
               else inner))"

definition handle_event :: "capture_env \<Rightarrow> instant \<Rightarrow> cdp_event \<Rightarrow> network_inner \<Rightarrow> bool \<times> network_inner" where
  "handle_event env now ev inner =
     (let inner = touch_slot now ev inner;
          inner = (if ev_method ev \<in> {''Network.requestWillBeSent'', ''Network.responseReceived'',
                        ''Network.loadingFinished'', ''Network.loadingFailed'', ''Network.requestServedFromCache''}
                   then inner\<lparr> ni_last_activity := Some now \<rparr> else inner);
          p = ev_params ev
      in if ev_method ev = ''Network.requestWillBeSent'' then on_request env now p inner
         else if ev_method ev = ''Network.responseReceived'' then on_response env p inner
         else if ev_method ev = ''Network.loadingFinished'' then on_finished p inner
         else if ev_method ev = ''Network.loadingFailed'' then on_failed p inner
         else if ev_method ev = ''Network.requestServedFromCache''
         then (False, update_entry (string_field p ''requestId'') (put_hint ''served_from_cache'' (JBool True)) inner)
         else (False, inner))"

subsection \<open>Captured streams\<close>

definition is_char_boundary :: "string \<Rightarrow> nat \<Rightarrow> bool" where
  "is_char_boundary s i \<longleftrightarrow>
     i = 0 \<or> i = length s \<or> (i < length s \<and> \<not> (128 \<le> byte_val (s ! i) \<and> byte_val (s ! i) < 192))"

primrec boundary_below :: "string \<Rightarrow> nat \<Rightarrow> nat" where
  "boundary_below s 0 = 0"
| "boundary_below s (Suc i) = (if is_char_boundary s (Suc i) then Suc i else boundary_below s i)"

definition floor_char_boundary :: "string \<Rightarrow> nat \<Rightarrow> nat" where
  "floor_char_boundary s i = (if length s \<le> i then length s else boundary_below s i)"

definition payload_of :: "string \<Rightarrow> json \<Rightarrow> string" where
  "payload_of k v = str_or [] (get_str v k)"

definition empty_bucket :: stream_events where
  "empty_bucket = \<lparr> se_events = [], se_captured_total = 0, se_captured_bytes = 0 \<rparr>"

definition push_stream_event ::
  "(string, stream_events) kv \<Rightarrow> string \<Rightarrow> json \<Rightarrow> string \<Rightarrow> bool \<times> (string, stream_events) kv" where
  "push_stream_event m r event k =
     (if map_of m r = None \<and> length m \<ge> network_entry_limit then (False, m)
      else
        (let bucket = (case map_of m r of Some b \<Rightarrow> b | None \<Rightarrow> empty_bucket);
             m = kv_put r bucket m
         in if se_captured_total bucket \<ge> stream_event_limit then (False, m)
            else
              (let budget = stream_payload_limit - se_captured_bytes bucket;
                   payload = payload_of k event; payload_len = length payload
               in if payload_len > budget \<and> budget = 0 then (False, m)
                  else
                    (let (event, kept) =
                           (if payload_len > budget
                            then (json_obj_put ''payload_bytes'' (JNum (PosInt payload_len))
                                    (json_obj_put ''payload_truncated'' (JBool True)
                                      (json_obj_put k (JStr (take (floor_char_boundary payload budget) payload)) event)),
                                  budget)
                            else (event, payload_len));
                         bucket = \<lparr> se_events = se_events bucket @ [event],
                                    se_captured_total = se_captured_total bucket + 1,
                                    se_captured_bytes = se_captured_bytes bucket + kept \<rparr>
                     in (payload_len \<le> budget, kv_put r bucket m)))))"

definition ws_frame :: "string \<Rightarrow> json \<Rightarrow> nat \<Rightarrow> json" where
  "ws_frame direction response now_ms =
     JObj [(''mask'', JBool (get_bool response ''mask'' = Some True)),
           (''opcode'', JNum (PosInt (case get_u64 response ''opcode'' of Some n \<Rightarrow> n | None \<Rightarrow> 1))),
           (''payload'', JStr (string_field response ''payloadData'')),
           (''timestamp_epoch_ms'', JNum (PosInt now_ms)), (''type'', JStr direction)]"

definition ws_error_frame :: "json \<Rightarrow> nat \<Rightarrow> json" where
  "ws_error_frame params now_ms =
     JObj [(''error'', JStr (str_or ''unknown'' (get_str params ''errorMessage''))),
           (''timestamp_epoch_ms'', JNum (PosInt now_ms)), (''type'', JStr ''error'')]"

definition push_ws :: "string \<Rightarrow> json \<Rightarrow> network_inner \<Rightarrow> network_inner" where
  "push_ws r frame inner =
     (if r = [] then inner
      else
        (let (ok, m) = push_stream_event (ni_ws inner) r frame ''payload'';
             inner = inner\<lparr> ni_ws := m \<rparr>
         in if ok then inner else inner\<lparr> ni_truncated := True \<rparr>))"

definition handle_ws_event :: "instant \<Rightarrow> nat \<Rightarrow> cdp_event \<Rightarrow> network_inner \<Rightarrow> network_inner" where
  "handle_ws_event now now_ms ev inner =
     (if ev_method ev \<notin> {''Network.webSocketFrameSent'', ''Network.webSocketFrameReceived'',
           ''Network.webSocketFrameError''} then inner
      else
        (let inner = inner\<lparr> ni_last_activity := Some now \<rparr>; p = ev_params ev;
             r = string_field p ''requestId''
         in if ev_method ev = ''Network.webSocketFrameSent''
            then push_ws r (ws_frame ''sent'' (json_idx p ''response'') now_ms) inner
            else if ev_method ev = ''Network.webSocketFrameReceived''
            then push_ws r (ws_frame ''received'' (json_idx p ''response'') now_ms) inner
            else push_ws r (ws_error_frame p now_ms) inner))"

definition sse_event :: "json \<Rightarrow> json" where
  "sse_event p =
     JObj [(''data'', JStr (string_field p ''data'')), (''event_id'', JStr (string_field p ''eventId'')),
           (''event_name'', JStr (string_field p ''eventName'')),
           (''timestamp_monotonic_ms'', JNum (PosInt (timestamp_ms p)))]"

definition handle_sse_event :: "instant \<Rightarrow> cdp_event \<Rightarrow> network_inner \<Rightarrow> network_inner" where
  "handle_sse_event now ev inner =
     (if ev_method ev \<noteq> ''Network.eventSourceMessageReceived'' then inner
      else
        (let inner = inner\<lparr> ni_last_activity := Some now \<rparr>;
             r = string_field (ev_params ev) ''requestId''
         in if r = [] then inner
            else
              (let (ok, m) = push_stream_event (ni_sse inner) r (sse_event (ev_params ev)) ''data'';
                   inner = inner\<lparr> ni_sse := m \<rparr>
               in if ok then inner else inner\<lparr> ni_truncated := True \<rparr>)))"

definition take_stream_events ::
  "(string, stream_events) kv \<Rightarrow> (string \<times> json list) list \<times> (string, stream_events) kv" where
  "take_stream_events m =
     (map (\<lambda>(r, b). (r, se_events b)) (filter (\<lambda>(r, b). se_events b \<noteq> []) m),
      map (\<lambda>(r, b). (r, b\<lparr> se_events := [] \<rparr>)) m)"


subsection \<open>What readers see\<close>

text \<open>\<open>Iterator::max_by_key\<close>: the last of the greatest elements.\<close>

definition max_by_key :: "('a \<Rightarrow> nat) \<Rightarrow> 'a list \<Rightarrow> 'a option" where
  "max_by_key key xs =
     foldl (\<lambda>best x. case best of None \<Rightarrow> Some x | Some y \<Rightarrow> if key y \<le> key x then Some x else Some y) None xs"

definition is_main_candidate :: "string \<Rightarrow> network_entry \<Rightarrow> bool" where
  "is_main_candidate frame e \<longleftrightarrow>
     ne_resource_type e = ''Document'' \<and> ne_frame_id e = Some frame \<and> \<not> is_redirect_hop e"

definition slot_entries :: "network_inner \<Rightarrow> network_entry list" where
  "slot_entries inner = map (\<lambda>(_, sl). sl_entry sl) (ni_slots inner)"

definition select_main_document :: "string \<Rightarrow> network_inner \<Rightarrow> network_inner" where
  "select_main_document frame inner =
     (case max_by_key (\<lambda>e. start_monotonic_ms (ne_timing e))
             (filter (is_main_candidate frame) (slot_entries inner)) of
        None \<Rightarrow> inner
      | Some e \<Rightarrow> inner\<lparr> ni_main := Some (ne_request_id e) \<rparr>)"

definition entry_at :: "network_inner \<Rightarrow> string \<Rightarrow> network_entry option" where
  "entry_at inner r = map_option sl_entry (map_of (ni_slots inner) r)"

definition main_entry :: "network_inner \<Rightarrow> network_entry option" where
  "main_entry inner = Option.bind (ni_main inner) (entry_at inner)"

text \<open>
  \<open>wait_for_main_status\<close>: each element of the list is what happened to the aggregate until the
  next wake-up; the list ends when the timeout fires, with what happened until then.
\<close>

definition main_ready :: "string option \<Rightarrow> network_inner \<Rightarrow> network_entry option \<times> network_inner" where
  "main_ready frame inner =
     (let inner = (case frame of Some fr \<Rightarrow> select_main_document fr inner | None \<Rightarrow> inner)
      in (case main_entry inner of
            Some e \<Rightarrow> if ne_status e \<noteq> None \<or> ne_failure e \<noteq> None then Some e else None
          | None \<Rightarrow> None, inner))"

fun wait_for_main_status ::
  "string option \<Rightarrow> (network_inner \<Rightarrow> network_inner) list \<Rightarrow> (network_inner \<Rightarrow> network_inner)
   \<Rightarrow> network_inner \<Rightarrow> network_entry option \<times> network_inner" where
  "wait_for_main_status frame [] timeout inner =
     (case main_ready frame inner of
        (Some e, inner) \<Rightarrow> (Some e, inner)
      | (None, inner) \<Rightarrow> (let inner = timeout inner in (main_entry inner, inner)))"
| "wait_for_main_status frame (wake # wakes) timeout inner =
     (case main_ready frame inner of
        (Some e, inner) \<Rightarrow> (Some e, inner)
      | (None, inner) \<Rightarrow> wait_for_main_status frame wakes timeout (wake inner))"

record observed_request =
  or_entry :: network_entry
  or_waited :: duration
  or_idle_for :: duration

record readiness_network =
  rn_requests :: "observed_request list"
  rn_complete :: bool

definition readiness_snapshot :: "instant \<Rightarrow> string \<Rightarrow> network_inner \<Rightarrow> readiness_network \<times> network_inner" where
  "readiness_snapshot now frame inner =
     (let inner = select_main_document frame inner
      in (\<lparr> rn_requests = map (\<lambda>(_, sl). \<lparr> or_entry = sl_entry sl, or_waited = now - sl_started_at sl,
                                         or_idle_for = now - sl_updated_at sl \<rparr>) (ni_slots inner),
            rn_complete = (ni_events_dropped inner = 0 \<and> \<not> ni_truncated inner) \<rparr>, inner))"

definition in_flight :: "network_entry \<Rightarrow> bool" where
  "in_flight e \<longleftrightarrow> ne_state e = Pending \<or> ne_state e = Responded"

definition pending_by_resource_type :: "network_entry list \<Rightarrow> (string, nat) kv" where
  "pending_by_resource_type es =
     foldl (\<lambda>out e. if in_flight e
               then bt_put (ne_resource_type e)
                      (case map_of out (ne_resource_type e) of Some n \<Rightarrow> n + 1 | None \<Rightarrow> 1) out
               else out) [] es"

record quiet_snapshot =
  qs_quiet :: bool
  qs_idle_for :: duration
  qs_inflight_total :: nat
  qs_pending :: "(string, nat) kv"

definition quiet_snapshot :: "instant \<Rightarrow> duration \<Rightarrow> network_inner \<Rightarrow> quiet_snapshot" where
  "quiet_snapshot now idle inner =
     (let pending = pending_by_resource_type (slot_entries inner);
          total = sum_list (map snd pending);
          idle_for = (case ni_last_activity inner of Some t \<Rightarrow> now - t | None \<Rightarrow> secs (u64_max div 2))
      in \<lparr> qs_quiet = (total = 0 \<and> idle \<le> idle_for), qs_idle_for = idle_for,
           qs_inflight_total = total, qs_pending = pending \<rparr>)"

definition summarize_entries :: "network_entry list \<Rightarrow> bool \<Rightarrow> network_summary" where
  "summarize_entries es red =
     (let pending = pending_by_resource_type es; inflight = sum_list (map snd pending)
      in \<lparr> ns_requests_total = length es,
           ns_responses_total = length (filter (\<lambda>e. ne_status e \<noteq> None) es),
           ns_finished_total = length (filter (\<lambda>e. ne_state e = Finished) es),
           ns_failed_total = length (filter (\<lambda>e. ne_state e = Failed \<or> ne_failure e \<noteq> None) es),
           ns_incomplete_total = inflight, ns_inflight_total = inflight, ns_pending_by_type = pending,
           ns_captured_body_files = length (filter (\<lambda>e. ne_body_file e \<noteq> None) es),
           ns_redacted = red, ns_events_dropped = 0, ns_truncated = False \<rparr>)"

definition network_finish :: "capture_env \<Rightarrow> network_inner \<Rightarrow> network_log" where
  "network_finish env inner =
     (let es = sort_key ne_request_id (slot_entries inner)
      in \<lparr> nl_schema_version = 2, nl_main_request_id = ni_main inner, nl_entries = es,
           nl_summary = (summarize_entries es (ce_redact env))
             \<lparr> ns_events_dropped := ni_events_dropped inner, ns_truncated := ni_truncated inner \<rparr> \<rparr>)"

subsection \<open>The collector\<close>

text \<open>What the task receives, and the calls of the fetch, in any interleaving.\<close>

datatype net_op =
    Received instant nat cdp_event
  | Lagged instant nat
  | TakeWsFrames
  | TakeSseEvents
  | TakeFinished
  | SetBodyFile string string
  | SetHint string string json
  | SelectMain string

definition collect_event :: "capture_env \<Rightarrow> instant \<Rightarrow> nat \<Rightarrow> cdp_event \<Rightarrow> network_inner \<Rightarrow> bool \<times> network_inner" where
  "collect_event env now now_ms ev inner =
     (if ev_session ev \<noteq> Some (ce_session env) then (False, inner)
      else
        (let (touched_main, inner) = handle_event env now ev inner;
             inner = (if ce_ws env then handle_ws_event now now_ms ev inner else inner);
             inner = (if ce_sse env then handle_sse_event now ev inner else inner)
         in (touched_main, inner)))"

text \<open>The aggregate, and what the drains have handed out so far.\<close>

record net_run =
  nr_inner :: network_inner
  nr_ws_out :: "(string \<times> json list) list"
  nr_sse_out :: "(string \<times> json list) list"
  nr_finished_out :: "string list"

fun net_step :: "capture_env \<Rightarrow> net_run \<Rightarrow> net_op \<Rightarrow> net_run" where
  "net_step env s (Received now now_ms ev) =
     s\<lparr> nr_inner := snd (collect_event env now now_ms ev (nr_inner s)) \<rparr>"
| "net_step env s (Lagged now n) =
     s\<lparr> nr_inner := (nr_inner s)\<lparr> ni_events_dropped := sat_u64 (ni_events_dropped (nr_inner s) + n),
                                 ni_last_activity := Some now \<rparr> \<rparr>"
| "net_step env s TakeWsFrames =
     (let (out, m) = take_stream_events (ni_ws (nr_inner s))
      in s\<lparr> nr_inner := (nr_inner s)\<lparr> ni_ws := m \<rparr>, nr_ws_out := nr_ws_out s @ out \<rparr>)"
| "net_step env s TakeSseEvents =
     (let (out, m) = take_stream_events (ni_sse (nr_inner s))
      in s\<lparr> nr_inner := (nr_inner s)\<lparr> ni_sse := m \<rparr>, nr_sse_out := nr_sse_out s @ out \<rparr>)"
| "net_step env s TakeFinished =
     s\<lparr> nr_inner := (nr_inner s)\<lparr> ni_finished := [] \<rparr>,
        nr_finished_out := nr_finished_out s @ map fst (ni_finished (nr_inner s)) \<rparr>"
| "net_step env s (SetBodyFile r p) =
     s\<lparr> nr_inner := update_entry r (\<lambda>e. e\<lparr> ne_body_file := Some p \<rparr>) (nr_inner s) \<rparr>"
| "net_step env s (SetHint r k v) = s\<lparr> nr_inner := update_entry r (put_hint k v) (nr_inner s) \<rparr>"
| "net_step env s (SelectMain frame) = s\<lparr> nr_inner := select_main_document frame (nr_inner s) \<rparr>"

definition net_start :: net_run where
  "net_start = \<lparr> nr_inner = network_inner_default, nr_ws_out = [], nr_sse_out = [], nr_finished_out = [] \<rparr>"

definition net_collect :: "capture_env \<Rightarrow> net_op list \<Rightarrow> net_run" where
  "net_collect env ops = foldl (net_step env) net_start ops"

subsection \<open>The console\<close>

datatype console_level = LevelLog | LevelDebug | LevelInfo | LevelWarn | LevelError | LevelException

record console_event =
  ce_level :: console_level
  ce_timestamp :: "int \<times> int"
  ce_text :: string
  ce_source_url :: "string option"
  ce_line_number :: "nat option"

record console_inner =
  ci_events :: "console_event list"
  ci_events_dropped :: nat
  ci_truncated :: bool

record console_log =
  cl_schema_version :: nat
  cl_events :: "console_event list"
  cl_events_dropped :: nat
  cl_truncated :: bool

definition as_u32 :: "nat \<Rightarrow> nat" where "as_u32 n = n mod 4294967296"

definition console_arg :: "(json \<Rightarrow> string) \<Rightarrow> json \<Rightarrow> string option" where
  "console_arg json_text a =
     (case get_str a ''value'' of
        Some s \<Rightarrow> Some s
      | None \<Rightarrow> (case get_str a ''description'' of
            Some s \<Rightarrow> Some s
          | None \<Rightarrow> map_option json_text (json_get a ''value'')))"

definition format_args_array :: "(json \<Rightarrow> string) \<Rightarrow> json option \<Rightarrow> string" where
  "format_args_array json_text args =
     (case Option.bind args json_arr of
        None \<Rightarrow> []
      | Some xs \<Rightarrow> join '' '' (List.map_filter (console_arg json_text) xs))"

definition stack_frame_origin :: "json option \<Rightarrow> string option \<times> nat option" where
  "stack_frame_origin stack =
     (case Option.bind (Option.bind stack (\<lambda>s. json_get s ''callFrames'')) json_arr of
        Some (first # _) \<Rightarrow> (get_str first ''url'', map_option as_u32 (get_u64 first ''lineNumber''))
      | _ \<Rightarrow> (None, None))"

definition json_time :: "json \<Rightarrow> int \<times> int" where
  "json_time p = (case Option.bind (json_get p ''timestamp'') json_f64 of Some t \<Rightarrow> t | None \<Rightarrow> (0, 0))"

definition console_level_of :: "string \<Rightarrow> console_level" where
  "console_level_of t =
     (if t = ''debug'' then LevelDebug
      else if t = ''info'' then LevelInfo
      else if t = ''warning'' \<or> t = ''warn'' then LevelWarn
      else if t = ''error'' then LevelError
      else LevelLog)"

definition exception_text :: "json \<Rightarrow> string" where
  "exception_text details =
     (case Option.bind (json_get details ''exception'') (\<lambda>e. get_str e ''description'') of
        Some s \<Rightarrow> s
      | None \<Rightarrow> str_or ''exception'' (get_str details ''text''))"

definition map_console_event :: "(json \<Rightarrow> string) \<Rightarrow> cdp_event \<Rightarrow> console_event option" where
  "map_console_event json_text ev =
     (let p = ev_params ev
      in if ev_method ev = ''Runtime.consoleAPICalled'' then
           (let (u, line) = stack_frame_origin (json_get p ''stackTrace'')
            in Some \<lparr> ce_level = console_level_of (str_or ''log'' (get_str p ''type'')),
                      ce_timestamp = json_time p, ce_text = format_args_array json_text (json_get p ''args''),
                      ce_source_url = u, ce_line_number = line \<rparr>)
         else if ev_method ev = ''Runtime.exceptionThrown'' then
           map_option (\<lambda>details.
             \<lparr> ce_level = LevelException, ce_timestamp = json_time p, ce_text = exception_text details,
               ce_source_url = get_str details ''url'',
               ce_line_number = map_option as_u32 (get_u64 details ''lineNumber'') \<rparr>)
             (json_get p ''exceptionDetails'')
         else None)"

datatype rx_item = RxEvent cdp_event | RxLagged nat

fun console_step :: "capture_env \<Rightarrow> console_inner \<Rightarrow> rx_item \<Rightarrow> console_inner" where
  "console_step env inner (RxLagged n) =
     inner\<lparr> ci_events_dropped := sat_u64 (ci_events_dropped inner + n) \<rparr>"
| "console_step env inner (RxEvent ev) =
     (if ev_method ev \<notin> {''Runtime.consoleAPICalled'', ''Runtime.exceptionThrown''}
         \<or> ev_session ev \<noteq> Some (ce_session env) then inner
      else if length (ci_events inner) \<ge> console_event_limit then inner\<lparr> ci_truncated := True \<rparr>
      else (case map_console_event (ce_json_text env) ev of
              Some e \<Rightarrow> inner\<lparr> ci_events := ci_events inner @ [e] \<rparr>
            | None \<Rightarrow> inner))"

definition console_finish :: "console_inner \<Rightarrow> console_log" where
  "console_finish inner =
     \<lparr> cl_schema_version = 2, cl_events = ci_events inner, cl_events_dropped = ci_events_dropped inner,
       cl_truncated = ci_truncated inner \<rparr>"

definition console_collect :: "capture_env \<Rightarrow> rx_item list \<Rightarrow> console_inner" where
  "console_collect env items =
     foldl (console_step env) \<lparr> ci_events = [], ci_events_dropped = 0, ci_truncated = False \<rparr> items"

end
