(* ===== verification/CollectorFacts.thy ===== *)
theory CollectorFacts
  imports Collectors
begin

text \<open>
  The laws of the network collector: the capture stays within its limits whatever the page does,
  no captured header carries a credential, and the redirect links resolve.
\<close>

subsection \<open>Stream limits\<close>

lemma map_of_bt_put_any: "map_of (bt_put k v m) = (map_of m)(k \<mapsto> v)"
  by (induction k v m rule: bt_put.induct) (auto simp: fun_eq_iff)

lemma get_str_put [simp]:
  "get_str (json_obj_put k (JStr s) (JObj fs)) k = Some s"
  "j \<noteq> k \<Longrightarrow> get_str (json_obj_put k w (JObj fs)) j = get_str (JObj fs) j"
  by (simp_all add: get_str_def json_obj_put_def map_of_bt_put_any)

lemma json_obj_put_obj: "\<exists>fs'. json_obj_put k w (JObj fs) = JObj fs'"
  by (simp add: json_obj_put_def)

lemma boundary_below_le: "boundary_below s i \<le> i"
  by (induction i) auto

lemma floor_char_boundary_le: "floor_char_boundary s i \<le> i"
  using boundary_below_le [of s i] by (simp add: floor_char_boundary_def)

definition payload_bytes :: "string \<Rightarrow> json list \<Rightarrow> nat" where
  "payload_bytes k evs = sum_list (map (\<lambda>v. length (payload_of k v)) evs)"

definition handed_out :: "string \<Rightarrow> (string \<times> json list) list \<Rightarrow> json list" where
  "handed_out r out = concat (map snd (filter (\<lambda>p. fst p = r) out))"

definition kept_events :: "string \<Rightarrow> (string, stream_events) kv \<Rightarrow> (string \<times> json list) list \<Rightarrow> json list" where
  "kept_events r m out = handed_out r out @ (case map_of m r of Some b \<Rightarrow> se_events b | None \<Rightarrow> [])"

definition bucket_ok :: "string \<Rightarrow> json list \<Rightarrow> stream_events \<Rightarrow> bool" where
  "bucket_ok k evs b \<longleftrightarrow> length evs = se_captured_total b \<and> payload_bytes k evs \<le> se_captured_bytes b
     \<and> se_captured_total b \<le> stream_event_limit \<and> se_captured_bytes b \<le> stream_payload_limit"

definition stream_ok :: "string \<Rightarrow> (string, stream_events) kv \<Rightarrow> (string \<times> json list) list \<Rightarrow> bool" where
  "stream_ok k m out \<longleftrightarrow> kv_ok m \<and> length m \<le> network_entry_limit
     \<and> (\<forall>r. case map_of m r of None \<Rightarrow> handed_out r out = [] | Some b \<Rightarrow> bucket_ok k (kept_events r m out) b)"

lemma handed_out_append [simp]: "handed_out r (a @ b) = handed_out r a @ handed_out r b"
  by (simp add: handed_out_def)

lemma handed_out_Nil [simp]: "handed_out r [] = []"
  by (simp add: handed_out_def)

lemma handed_out_Cons: "handed_out r ((q, evs) # out) = (if q = r then evs else []) @ handed_out r out"
  by (simp add: handed_out_def)

lemma payload_bytes_simps [simp]:
  "payload_bytes k [] = 0" "payload_bytes k (a @ b) = payload_bytes k a + payload_bytes k b"
  "payload_bytes k [v] = length (payload_of k v)"
  by (simp_all add: payload_bytes_def)

lemma empty_bucket_ok [simp]: "bucket_ok k [] empty_bucket"
  by (simp add: bucket_ok_def empty_bucket_def)

lemma stream_ok_bucket:
  assumes "stream_ok k m out" and "map_of m r = Some b"
  shows "bucket_ok k (kept_events r m out) b"
  using assms by (auto simp: stream_ok_def split: option.splits dest: spec [of _ r])

lemma stream_ok_put:
  assumes ok: "stream_ok k m out" and room: "map_of m r \<noteq> None \<or> length m < network_entry_limit"
    and b: "bucket_ok k (handed_out r out @ se_events b) b"
  shows "stream_ok k (kv_put r b m) out"
proof -
  from ok have kv: "kv_ok m" and len: "length m \<le> network_entry_limit" by (auto simp: stream_ok_def)
  then have "length (kv_put r b m) \<le> network_entry_limit" by (rule kv.put_keeps_bound) (use room in auto)
  moreover have "case map_of (kv_put r b m) q of None \<Rightarrow> handed_out q out = []
      | Some c \<Rightarrow> bucket_ok k (kept_events q (kv_put r b m) out) c" for q
    using ok b by (auto simp: stream_ok_def kept_events_def split: option.splits dest: spec [of _ q])
  ultimately show ?thesis using kv by (auto simp: stream_ok_def)
qed

lemma payload_obj: "payload_of k v \<noteq> [] \<Longrightarrow> \<exists>fs. v = JObj fs"
  by (cases v) (auto simp: payload_of_def str_or_def get_str_def)

lemma payload_cut:
  assumes "payload_of k v \<noteq> []" and "k \<notin> {''payload_bytes'', ''payload_truncated''}"
  shows "payload_of k (json_obj_put ''payload_bytes'' a (json_obj_put ''payload_truncated'' b
           (json_obj_put k (JStr s) v))) = s"
proof -
  from payload_obj [OF assms(1)] obtain fs where v: "v = JObj fs" by blast
  obtain fs1 where 1: "json_obj_put k (JStr s) (JObj fs) = JObj fs1" using json_obj_put_obj by blast
  then have g: "get_str (JObj fs1) k = Some s" by (metis get_str_put(1))
  obtain fs2 where 2: "json_obj_put ''payload_truncated'' b (JObj fs1) = JObj fs2" using json_obj_put_obj by blast
  with g assms(2) have "get_str (JObj fs2) k = Some s"
    by (metis get_str_put(2) insertCI)
  with assms(2) have "get_str (json_obj_put ''payload_bytes'' a (JObj fs2)) k = Some s"
    by (subst get_str_put(2)) auto
  then show ?thesis by (simp add: v 1 2 payload_of_def str_or_def)
qed

lemma push_keeps_stream:
  assumes ok: "stream_ok k m out" and k: "k \<notin> {''payload_bytes'', ''payload_truncated''}"
    and p: "push_stream_event m r ev k = (kept, m')"
  shows "stream_ok k m' out"
proof (cases "map_of m r = None \<and> length m \<ge> network_entry_limit")
  case True
  with p ok show ?thesis by (simp add: push_stream_event_def)
next
  case room: False
  define b where "b = (case map_of m r of Some b \<Rightarrow> b | None \<Rightarrow> empty_bucket)"
  define n where "n = stream_payload_limit - se_captured_bytes b"
  define pl where "pl = payload_of k ev"
  from room have room': "map_of m r \<noteq> None \<or> length m < network_entry_limit" by auto
  have b_ok: "bucket_ok k (handed_out r out @ se_events b) b"
    using ok stream_ok_bucket [OF ok]
    by (auto simp: b_def kept_events_def stream_ok_def empty_bucket_def bucket_ok_def split: option.splits
        dest: spec [of _ r])
  have put: "stream_ok k (kv_put r b' (kv_put r b m)) out" if "bucket_ok k (handed_out r out @ se_events b') b'" for b'
    by (rule stream_ok_put [OF stream_ok_put [OF ok room' b_ok] _ that]) simp
  show ?thesis
  proof (cases "se_captured_total b \<ge> stream_event_limit \<or> (length pl > n \<and> n = 0)")
    case True
    with p room stream_ok_put [OF ok room' b_ok] show ?thesis
      by (auto simp: push_stream_event_def Let_def b_def [symmetric] n_def [symmetric] pl_def [symmetric] split: if_splits)
  next
    case False
    obtain ev' kb where e: "length (payload_of k ev') \<le> kb" "kb \<le> n"
      and m': "m' = kv_put r \<lparr> se_events = se_events b @ [ev'], se_captured_total = se_captured_total b + 1,
                      se_captured_bytes = se_captured_bytes b + kb \<rparr> (kv_put r b m)"
    proof (cases "length pl > n")
      case True
      then have ne: "payload_of k ev \<noteq> []" by (auto simp: pl_def)
      let ?ev = "json_obj_put ''payload_bytes'' (JNum (PosInt (length pl))) (json_obj_put ''payload_truncated'' (JBool True)
           (json_obj_put k (JStr (take (floor_char_boundary pl n) pl)) ev))"
      have "length (payload_of k ?ev) \<le> n"
        unfolding payload_cut [OF ne k] using floor_char_boundary_le [of pl n] by simp
      moreover have "m' = kv_put r \<lparr> se_events = se_events b @ [?ev], se_captured_total = se_captured_total b + 1,
                      se_captured_bytes = se_captured_bytes b + n \<rparr> (kv_put r b m)"
        using p room False True
        by (auto simp: push_stream_event_def Let_def b_def [symmetric] n_def [symmetric] pl_def [symmetric] split: if_splits)
      ultimately show ?thesis using that by blast
    next
      case le: False
      then have "m' = kv_put r \<lparr> se_events = se_events b @ [ev], se_captured_total = se_captured_total b + 1,
                      se_captured_bytes = se_captured_bytes b + length pl \<rparr> (kv_put r b m)"
        using p room False
        by (auto simp: push_stream_event_def Let_def b_def [symmetric] n_def [symmetric] pl_def [symmetric] split: if_splits)
      with le that [of ev "length pl"] show ?thesis by (simp add: pl_def)
    qed
    show ?thesis unfolding m'
      by (rule put) (use b_ok e False in \<open>auto simp: bucket_ok_def n_def\<close>)
  qed
qed

lemma map_of_drained:
  "map_of (map (\<lambda>(r, b). (r, b\<lparr> se_events := [] \<rparr>)) m) r = map_option (\<lambda>b. b\<lparr> se_events := [] \<rparr>) (map_of m r)"
  by (induction m) auto

lemma handed_out_drained:
  "kv_ok m \<Longrightarrow> handed_out r (map (\<lambda>(r, b). (r, se_events b)) (filter (\<lambda>(r, b). se_events b \<noteq> []) m))
     = (case map_of m r of Some b \<Rightarrow> se_events b | None \<Rightarrow> [])"
proof (induction m)
  case (Cons p m)
  obtain q b where p: "p = (q, b)" by fastforce
  from Cons.prems have kv: "kv_ok m" and q: "map_of m q = None"
    by (auto simp: kv_ok_def p map_of_eq_None_iff)
  from Cons.IH [OF kv] q show ?case by (cases "r = q") (simp_all add: p handed_out_Cons)
qed simp

lemma drain_keeps_stream:
  assumes ok: "stream_ok k m out" and t: "take_stream_events m = (o', m')"
  shows "stream_ok k m' (out @ o')"
proof -
  from ok have kv: "kv_ok m" by (simp add: stream_ok_def)
  from t have m': "m' = map (\<lambda>(r, b). (r, b\<lparr> se_events := [] \<rparr>)) m"
    and o': "o' = map (\<lambda>(r, b). (r, se_events b)) (filter (\<lambda>(r, b). se_events b \<noteq> []) m)"
    by (auto simp: take_stream_events_def)
  have "map fst m' = map fst m" unfolding m' by (induction m) auto
  with kv have kv': "kv_ok m'" by (simp add: kv_ok_def)
  have len: "length m' = length m" by (simp add: m')
  have "case map_of m' r of None \<Rightarrow> handed_out r (out @ o') = [] | Some b \<Rightarrow> bucket_ok k (kept_events r m' (out @ o')) b" for r
    using ok handed_out_drained [OF kv, of r]
    by (auto simp: m' map_of_drained o' stream_ok_def kept_events_def bucket_ok_def split: option.splits
        dest: spec [of _ r])
  with kv' ok len show ?thesis unfolding stream_ok_def by simp
qed


lemma push_ws_streams:
  assumes "stream_ok ''payload'' (ni_ws inner) out"
  shows "stream_ok ''payload'' (ni_ws (push_ws r frame inner)) out"
  using assms push_keeps_stream [OF assms]
  by (auto simp: push_ws_def Let_def split: prod.splits)

subsection \<open>What each handler touches\<close>

text \<open>A handler of one group leaves the state of the others alone.\<close>

lemma update_entry_frame [simp]:
  "ni_main (update_entry r f inner) = ni_main inner" "ni_ws (update_entry r f inner) = ni_ws inner"
  "ni_sse (update_entry r f inner) = ni_sse inner" "ni_hops (update_entry r f inner) = ni_hops inner"
  by (simp_all add: update_entry_def split: option.split)

lemma mark_finished_frame [simp]:
  "ni_main (mark_finished r inner) = ni_main inner" "ni_ws (mark_finished r inner) = ni_ws inner"
  "ni_sse (mark_finished r inner) = ni_sse inner" "ni_hops (mark_finished r inner) = ni_hops inner"
  "ni_slots (mark_finished r inner) = ni_slots inner"
  by (simp_all add: mark_finished_def)

lemma touch_slot_frame [simp]:
  "ni_main (touch_slot now ev inner) = ni_main inner" "ni_ws (touch_slot now ev inner) = ni_ws inner"
  "ni_sse (touch_slot now ev inner) = ni_sse inner" "ni_hops (touch_slot now ev inner) = ni_hops inner"
  by (simp_all add: touch_slot_def split: option.split)

lemma end_redirect_hop_frame:
  "end_redirect_hop env r p inner = (from_hop, inner') \<Longrightarrow>
     ni_ws inner' = ni_ws inner \<and> ni_sse inner' = ni_sse inner \<and> ni_main inner' = ni_main inner"
  by (auto simp: end_redirect_hop_def Let_def split: option.splits if_splits)

lemma on_request_streams [simp]:
  "ni_ws (snd (on_request env now p inner)) = ni_ws inner"
  "ni_sse (snd (on_request env now p inner)) = ni_sse inner"
  by (auto simp: on_request_def Let_def split: prod.splits dest!: end_redirect_hop_frame)

lemma handle_event_streams [simp]:
  "ni_ws (snd (handle_event env now ev inner)) = ni_ws inner"
  "ni_sse (snd (handle_event env now ev inner)) = ni_sse inner"
  by (simp_all add: handle_event_def Let_def on_response_def on_finished_def on_failed_def)

lemma push_ws_frame [simp]:
  "ni_slots (push_ws r fr inner) = ni_slots inner" "ni_sse (push_ws r fr inner) = ni_sse inner"
  "ni_hops (push_ws r fr inner) = ni_hops inner" "ni_main (push_ws r fr inner) = ni_main inner"
  by (simp_all add: push_ws_def Let_def split: prod.split)

lemma ws_event_frame [simp]:
  "ni_slots (handle_ws_event now ms ev inner) = ni_slots inner"
  "ni_sse (handle_ws_event now ms ev inner) = ni_sse inner"
  "ni_hops (handle_ws_event now ms ev inner) = ni_hops inner"
  "ni_main (handle_ws_event now ms ev inner) = ni_main inner"
  by (simp_all add: handle_ws_event_def Let_def)

lemma sse_event_frame [simp]:
  "ni_slots (handle_sse_event now ev inner) = ni_slots inner"
  "ni_ws (handle_sse_event now ev inner) = ni_ws inner"
  "ni_hops (handle_sse_event now ev inner) = ni_hops inner"
  "ni_main (handle_sse_event now ev inner) = ni_main inner"
  by (simp_all add: handle_sse_event_def Let_def split: prod.split)

lemma select_main_frame [simp]:
  "ni_slots (select_main_document frame inner) = ni_slots inner"
  "ni_ws (select_main_document frame inner) = ni_ws inner"
  "ni_sse (select_main_document frame inner) = ni_sse inner"
  "ni_hops (select_main_document frame inner) = ni_hops inner"
  by (simp_all add: select_main_document_def split: option.split)

lemma ws_event_streams:
  "stream_ok ''payload'' (ni_ws inner) out \<Longrightarrow> stream_ok ''payload'' (ni_ws (handle_ws_event now ms ev inner)) out"
  by (simp add: handle_ws_event_def Let_def push_ws_streams)

lemma sse_event_streams:
  "stream_ok ''data'' (ni_sse inner) out \<Longrightarrow> stream_ok ''data'' (ni_sse (handle_sse_event now ev inner)) out"
  by (auto simp: handle_sse_event_def Let_def split: prod.splits dest: push_keeps_stream)

lemma collect_event_streams:
  assumes "stream_ok ''payload'' (ni_ws inner) o1" and "stream_ok ''data'' (ni_sse inner) o2"
  shows "stream_ok ''payload'' (ni_ws (snd (collect_event env now ms ev inner))) o1
       \<and> stream_ok ''data'' (ni_sse (snd (collect_event env now ms ev inner))) o2"
proof -
  obtain t inner1 where h: "handle_event env now ev inner = (t, inner1)" by fastforce
  have "ni_ws inner1 = ni_ws inner" "ni_sse inner1 = ni_sse inner"
    using handle_event_streams [of env now ev inner] h by simp_all
  with assms show ?thesis
    by (auto simp: collect_event_def h Let_def ws_event_streams sse_event_streams)
qed

text \<open>The slots after one event: the touched slots, then the update of the event's kind.\<close>

lemma collect_event_slots:
  "ev_session ev = Some (ce_session env) \<Longrightarrow>
     ni_slots (snd (collect_event env now ms ev inner)) = ni_slots (snd (handle_event env now ev inner))"
  "ev_session ev = Some (ce_session env) \<Longrightarrow>
     ni_hops (snd (collect_event env now ms ev inner)) = ni_hops (snd (handle_event env now ev inner))"
  "ev_session ev \<noteq> Some (ce_session env) \<Longrightarrow> snd (collect_event env now ms ev inner) = inner"
  by (simp_all add: collect_event_def Let_def split: prod.split)

subsection \<open>The request limit\<close>

definition slots_ok :: "network_inner \<Rightarrow> bool" where
  "slots_ok inner \<longleftrightarrow> kv_ok (ni_slots inner) \<and> length (ni_slots inner) \<le> network_entry_limit"

lemma length_kv_put_old: "kv_ok m \<Longrightarrow> map_of m r \<noteq> None \<Longrightarrow> length (kv_put r v m) = length m"
  by (simp add: kv.count_put)

lemma slots_ok_update [simp]: "slots_ok inner \<Longrightarrow> slots_ok (update_entry r f inner)"
  by (auto simp: slots_ok_def update_entry_def length_kv_put_old split: option.split)

lemma slots_ok_touch [simp]: "slots_ok inner \<Longrightarrow> slots_ok (touch_slot now ev inner)"
  by (auto simp: slots_ok_def touch_slot_def length_kv_put_old split: option.split)

lemma slots_ok_cong: "ni_slots inner' = ni_slots inner \<Longrightarrow> slots_ok inner' = slots_ok inner"
  by (simp add: slots_ok_def)

lemma put_hint_frame [simp]:
  "ne_request_id (put_hint k v e) = ne_request_id e" "ne_state (put_hint k v e) = ne_state e"
  "ne_redirect_from (put_hint k v e) = ne_redirect_from e"
  "ne_request_headers (put_hint k v e) = ne_request_headers e"
  "ne_response_headers (put_hint k v e) = ne_response_headers e"
  by (simp_all add: put_hint_def)

lemma put_hint_opt_frame [simp]:
  "ne_request_id (put_hint_opt k v e) = ne_request_id e" "ne_state (put_hint_opt k v e) = ne_state e"
  "ne_redirect_from (put_hint_opt k v e) = ne_redirect_from e"
  "ne_request_headers (put_hint_opt k v e) = ne_request_headers e"
  "ne_response_headers (put_hint_opt k v e) = ne_response_headers e"
  by (simp_all add: put_hint_opt_def split: option.split)

lemma post_hints_frame [simp]:
  "ne_request_id (post_hints env post e) = ne_request_id e"
  "ne_redirect_from (post_hints env post e) = ne_redirect_from e"
  "ne_request_headers (post_hints env post e) = ne_request_headers e"
  "ne_response_headers (post_hints env post e) = ne_response_headers e"
  by (simp_all add: post_hints_def Let_def split: option.split)

text \<open>
  A request is refused, or it takes its slot with a fresh entry, after the hop that ended was
  moved away.
\<close>

lemma on_request_cases:
  fixes env now p inner
  defines "r \<equiv> string_field p ''requestId''"
  obtains
    (refused) "snd (on_request env now p inner) = inner\<lparr> ni_truncated := True \<rparr>"
  | (taken) inner1 from_hop inner2 e where
      "r \<noteq> []" "ni_slots inner1 = ni_slots inner" "ni_hops inner1 = ni_hops inner"
      "map_of (ni_slots inner) r \<noteq> None \<or> length (ni_slots inner) < network_entry_limit"
      "end_redirect_hop env r p inner1 = (from_hop, inner2)"
      "ni_slots (snd (on_request env now p inner)) =
         kv_put r \<lparr> sl_entry = e, sl_started_at = now, sl_updated_at = now \<rparr> (ni_slots inner2)"
      "ni_hops (snd (on_request env now p inner)) = ni_hops inner2"
      "ne_request_id e = r" "ne_redirect_from e = from_hop" "ne_response_headers e = []"
      "ne_request_headers e = captured_headers env (json_get (json_idx p ''request'') ''headers'')"
proof -
  define rtype where "rtype = str_or ''Other'' (get_str p ''type'')"
  define inner1 where "inner1 = (if rtype = ''Document'' \<and> ni_main inner = None then inner\<lparr> ni_main := Some r \<rparr> else inner)"
  obtain fh inner2 where e: "end_redirect_hop env r p inner1 = (fh, inner2)" by fastforce
  show thesis
  proof (cases "r = [] \<or> (map_of (ni_slots inner) r = None \<and> length (ni_slots inner) \<ge>
      (if ni_main inner = None \<and> rtype \<noteq> ''Document'' then network_entry_limit - 1 else network_entry_limit))")
    case True
    then have "snd (on_request env now p inner) = inner\<lparr> ni_truncated := True \<rparr>"
      unfolding on_request_def Let_def r_def rtype_def by (simp split: if_splits)
    then show thesis by (rule refused)
  next
    case False
    then have room: "map_of (ni_slots inner) r \<noteq> None \<or> length (ni_slots inner) < network_entry_limit"
      by (auto simp: not_le split: if_splits)
    from False have "\<exists>e. ni_slots (snd (on_request env now p inner)) =
           kv_put r \<lparr> sl_entry = e, sl_started_at = now, sl_updated_at = now \<rparr> (ni_slots inner2)
         \<and> ni_hops (snd (on_request env now p inner)) = ni_hops inner2
         \<and> ne_request_id e = r \<and> ne_redirect_from e = fh \<and> ne_response_headers e = []
         \<and> ne_request_headers e = captured_headers env (json_get (json_idx p ''request'') ''headers'')"
      using e unfolding on_request_def Let_def r_def [symmetric] rtype_def [symmetric] inner1_def [symmetric]
      by (auto simp: default_entry_def split: if_splits)
    with False room show thesis by (elim exE conjE) (rule taken [OF _ _ _ _ e], auto simp: inner1_def)
  qed
qed

lemma end_redirect_hop_cases:
  assumes "end_redirect_hop env r p inner = (from_hop, inner')"
  obtains
    (none) "from_hop = None" "inner' = inner"
  | (lost) hop where "from_hop = None" "map_of (ni_slots inner) r = Some hop"
      "inner' = inner\<lparr> ni_slots := kv_del r (ni_slots inner), ni_truncated := True \<rparr>"
      "network_entry_limit < length (kv_del r (ni_slots inner)) + 2"
  | (moved) hop redirect n where "map_of (ni_slots inner) r = Some hop"
      "n = (case map_of (ni_hops inner) r of Some n \<Rightarrow> n | None \<Rightarrow> 0)" "from_hop = Some (hop_name r n)"
      "length (kv_del r (ni_slots inner)) + 2 \<le> network_entry_limit"
      "ni_slots inner' = kv_put (hop_name r n)
         (hop\<lparr> sl_entry := hop_ended env (hop_name r n) redirect (timestamp_ms p) (sl_entry hop) \<rparr>)
         (kv_del r (ni_slots inner))"
      "ni_hops inner' = kv_put r (n + 1) (ni_hops inner)"
proof (cases "json_get p ''redirectResponse'' = None \<or> map_of (ni_slots inner) r = None")
  case True
  with assms show thesis by (intro none) (auto simp: end_redirect_hop_def split: option.splits)
next
  case False
  then obtain redirect hop where some: "json_get p ''redirectResponse'' = Some redirect" "map_of (ni_slots inner) r = Some hop"
    by auto
  show thesis
  proof (cases "network_entry_limit < length (kv_del r (ni_slots inner)) + 2")
    case True
    with assms some show thesis by (intro lost [of hop]) (simp_all add: end_redirect_hop_def Let_def)
  next
    case False
    with assms some show thesis by (intro moved [of hop _ redirect]) (auto simp: end_redirect_hop_def Let_def)
  qed
qed

text \<open>After the redirect hop moved, there is room for the request's own slot.\<close>

lemma end_redirect_hop_room:
  assumes ok: "slots_ok inner" and e: "end_redirect_hop env r p inner = (from_hop, inner')"
    and room: "map_of (ni_slots inner) r \<noteq> None \<or> length (ni_slots inner) < network_entry_limit"
  shows "slots_ok inner' \<and> (map_of (ni_slots inner') r \<noteq> None \<or> length (ni_slots inner') < network_entry_limit)"
proof -
  from ok have kv: "kv_ok (ni_slots inner)" and lim: "length (ni_slots inner) \<le> network_entry_limit"
    by (auto simp: slots_ok_def)
  have del: "length (kv_del r (ni_slots inner)) < network_entry_limit" if "map_of (ni_slots inner) r = Some hop" for hop
    using kv lim that by (simp add: kv.count_del) (simp add: network_entry_limit_def)
  have grow: "length (kv_put h sl (kv_del r (ni_slots inner))) \<le> Suc (length (kv_del r (ni_slots inner)))" for h sl
    using kv by (auto simp: kv.count_put kv_ok_del)
  from e show ?thesis
  proof (cases rule: end_redirect_hop_cases)
    case none
    with ok room show ?thesis by simp
  next
    case (lost hop)
    with kv del show ?thesis by (auto simp: slots_ok_def less_imp_le)
  next
    case (moved hop redirect n)
    have "length (ni_slots inner') < network_entry_limit"
      unfolding moved(5) using moved(4) by (intro le_less_trans [OF grow]) simp
    moreover have "kv_ok (ni_slots inner')" unfolding moved(5) using kv by blast
    ultimately show ?thesis by (simp add: slots_ok_def)
  qed
qed

lemma on_request_slots:
  assumes ok: "slots_ok inner"
  shows "slots_ok (snd (on_request env now p inner))"
proof (cases rule: on_request_cases [of env now p inner, case_names refused taken])
  case refused
  with ok show ?thesis by (simp add: slots_ok_def)
next
  case (taken inner1 fh inner2 e)
  from end_redirect_hop_room [OF _ taken(5)] taken(4) ok
  have "slots_ok inner2 \<and> (map_of (ni_slots inner2) (string_field p ''requestId'') \<noteq> None
      \<or> length (ni_slots inner2) < network_entry_limit)"
    by (simp add: slots_ok_cong [OF taken(2)] taken(2))
  then show ?thesis unfolding slots_ok_def taken(6) by (simp add: kv_ok_put kv.put_keeps_bound)
qed

lemma handle_event_slots:
  assumes "slots_ok inner"
  shows "slots_ok (snd (handle_event env now ev inner))"
proof -
  have "slots_ok (inner'\<lparr> ni_last_activity := t \<rparr>) = slots_ok inner'" for inner' t by (simp add: slots_ok_def)
  moreover have "slots_ok (mark_finished r inner') = slots_ok inner'" for r inner' by (simp add: slots_ok_def)
  ultimately show ?thesis using assms
    by (auto simp: handle_event_def Let_def on_response_def on_finished_def on_failed_def intro!: on_request_slots)
qed

definition net_ok :: "net_run \<Rightarrow> bool" where
  "net_ok s \<longleftrightarrow> slots_ok (nr_inner s) \<and> stream_ok ''payload'' (ni_ws (nr_inner s)) (nr_ws_out s)
     \<and> stream_ok ''data'' (ni_sse (nr_inner s)) (nr_sse_out s)"

lemma net_step_ok:
  assumes ok: "net_ok s"
  shows "net_ok (net_step env s op)"
proof (cases op)
  case (Received now ms ev)
  let ?inner = "nr_inner s"
  have "slots_ok (snd (collect_event env now ms ev ?inner))"
  proof (cases "ev_session ev = Some (ce_session env)")
    case True
    with ok handle_event_slots [of ?inner env now ev] show ?thesis
      by (simp add: slots_ok_def net_ok_def collect_event_slots(1) [OF True])
  qed (use ok in \<open>simp add: net_ok_def collect_event_slots(3)\<close>)
  with ok collect_event_streams [of ?inner "nr_ws_out s" "nr_sse_out s" env now ms ev] show ?thesis
    by (simp add: Received net_ok_def)
qed (use ok drain_keeps_stream in \<open>auto simp: net_ok_def slots_ok_def Let_def split: prod.splits
       intro!: slots_ok_update [unfolded slots_ok_def, THEN conjunct1] slots_ok_update [unfolded slots_ok_def, THEN conjunct2]\<close>)

interpretation net_run: invariant_run "net_step env" net_ok for env
  by unfold_locales (rule net_step_ok)


lemma stream_ok_kept:
  assumes "stream_ok k m out"
  shows "length (kept_events r m out) \<le> stream_event_limit
       \<and> payload_bytes k (kept_events r m out) \<le> stream_payload_limit"
  using assms by (auto simp: stream_ok_def bucket_ok_def kept_events_def split: option.splits dest: spec [of _ r])

lemma net_ok_collect: "net_ok (net_collect env ops)"
  unfolding net_collect_def
  by (rule net_run.run_inv)
     (simp add: net_ok_def net_start_def network_inner_default_def slots_ok_def stream_ok_def kv_ok_def)

text \<open>
  C24. The capture is bounded whatever the page does: after any interleaving of events, lag
  notices, drains and reader calls the aggregate holds at most 4096 requests and 4096 streams of each
  kind, and for every request the stream events captured in total, drained ones included, are at
  most 1024 and carry at most one mebibyte of payload.
\<close>

theorem capture_stays_bounded:
  "length (ni_slots (nr_inner (net_collect env ops))) \<le> 4096
   \<and> length (ni_ws (nr_inner (net_collect env ops))) \<le> 4096
   \<and> length (ni_sse (nr_inner (net_collect env ops))) \<le> 4096
   \<and> (let kept = kept_events r (ni_ws (nr_inner (net_collect env ops))) (nr_ws_out (net_collect env ops))
      in length kept \<le> 1024 \<and> payload_bytes ''payload'' kept \<le> 1048576)
   \<and> (let kept = kept_events r (ni_sse (nr_inner (net_collect env ops))) (nr_sse_out (net_collect env ops))
      in length kept \<le> 1024 \<and> payload_bytes ''data'' kept \<le> 1048576)"
proof -
  from net_ok_collect [of env ops]
  have slots: "slots_ok (nr_inner (net_collect env ops))"
    and ws: "stream_ok ''payload'' (ni_ws (nr_inner (net_collect env ops))) (nr_ws_out (net_collect env ops))"
    and sse: "stream_ok ''data'' (ni_sse (nr_inner (net_collect env ops))) (nr_sse_out (net_collect env ops))"
    by (auto simp: net_ok_def)
  from stream_ok_kept [OF ws, of r] stream_ok_kept [OF sse, of r] ws sse slots
  show ?thesis
    unfolding Let_def by (simp add: slots_ok_def stream_ok_def network_entry_limit_def stream_event_limit_def
        stream_payload_limit_def)
qed

subsection \<open>A law of every entry\<close>

text \<open>
  What holds of every captured entry by its id and its headers: it holds of a fresh entry, and an
  update that keeps the id and the request headers, and keeps the response headers or captures
  new ones, keeps it.
\<close>

locale entry_law =
  fixes env :: capture_env
    and P :: "string \<Rightarrow> network_entry \<Rightarrow> bool"
  assumes fresh: "ne_request_id e = r \<Longrightarrow> ne_request_headers e = captured_headers env v \<Longrightarrow>
      ne_response_headers e = [] \<Longrightarrow> P r e"
    and updated: "P r e \<Longrightarrow> ne_request_id e' = ne_request_id e \<Longrightarrow>
      ne_request_headers e' = ne_request_headers e \<Longrightarrow>
      ne_response_headers e' = ne_response_headers e \<or> ne_response_headers e' = captured_headers env v \<Longrightarrow> P r e'"
    and hop_moved: "P r e \<Longrightarrow> ne_request_id e' = h \<Longrightarrow> ne_request_headers e' = ne_request_headers e \<Longrightarrow>
      ne_response_headers e' = captured_headers env v \<Longrightarrow> P h e'"
begin

definition all_slots :: "(string, network_slot) kv \<Rightarrow> bool" where
  "all_slots m \<longleftrightarrow> (\<forall>r sl. map_of m r = Some sl \<longrightarrow> P r (sl_entry sl))"

lemma all_slots_put: "all_slots m \<Longrightarrow> P r (sl_entry sl) \<Longrightarrow> all_slots (kv_put r sl m)"
  by (simp add: all_slots_def)

lemma all_slots_del: "all_slots m \<Longrightarrow> all_slots (kv_del r m)"
  by (simp add: all_slots_def)

lemma all_slots_update:
  assumes "all_slots (ni_slots inner)" and "\<And>e. P r e \<Longrightarrow> P r (f e)"
  shows "all_slots (ni_slots (update_entry r f inner))"
  using assms by (auto simp: update_entry_def all_slots_def split: option.split)

lemma all_slots_touch:
  "all_slots (ni_slots inner) \<Longrightarrow> all_slots (ni_slots (touch_slot now ev inner))"
  by (auto simp: touch_slot_def all_slots_def split: option.split)

lemma all_slots_hop:
  assumes a: "all_slots (ni_slots inner)" and e: "end_redirect_hop env r p inner = (fh, inner')"
  shows "all_slots (ni_slots inner')"
  using e
proof (cases rule: end_redirect_hop_cases)
  case (moved hop redirect n)
  then have "P r (sl_entry hop)" using a by (simp add: all_slots_def)
  then have "P (hop_name r n) (hop_ended env (hop_name r n) redirect (timestamp_ms p) (sl_entry hop))"
    by (rule hop_moved [where v = "json_get redirect ''headers''"]) (simp_all add: hop_ended_def)
  with a show ?thesis unfolding moved(5) by (intro all_slots_put all_slots_del) simp_all
qed (use a in \<open>simp_all add: all_slots_del\<close>)

lemma all_slots_request:
  assumes a: "all_slots (ni_slots inner)"
  shows "all_slots (ni_slots (snd (on_request env now p inner)))"
proof (cases rule: on_request_cases [of env now p inner, case_names refused taken])
  case refused
  with a show ?thesis by simp
next
  case (taken inner1 fh inner2 e)
  from all_slots_hop [OF _ taken(5)] a taken(2) have "all_slots (ni_slots inner2)" by simp
  moreover have "P (string_field p ''requestId'') e" by (rule fresh) (use taken in simp_all)
  ultimately show ?thesis unfolding taken(6) by (intro all_slots_put) simp_all
qed

lemma all_slots_handle:
  assumes a: "all_slots (ni_slots inner)"
  shows "all_slots (ni_slots (snd (handle_event env now ev inner)))"
proof -
  define inner1 where "inner1 = (let i = touch_slot now ev inner in
     if ev_method ev \<in> {''Network.requestWillBeSent'', ''Network.responseReceived'',
                        ''Network.loadingFinished'', ''Network.loadingFailed'', ''Network.requestServedFromCache''}
     then i\<lparr> ni_last_activity := Some now \<rparr> else i)"
  have a1: "all_slots (ni_slots inner1)" using all_slots_touch [OF a] by (simp add: inner1_def Let_def)
  have upd: "all_slots (ni_slots (update_entry r f inner1))"
    if "\<And>e. ne_request_id (f e) = ne_request_id e \<and> ne_request_headers (f e) = ne_request_headers e
          \<and> (ne_response_headers (f e) = ne_response_headers e \<or> (\<exists>v. ne_response_headers (f e) = captured_headers env v))"
    for r f
    by (rule all_slots_update [OF a1]) (use that updated in blast)
  show ?thesis
    unfolding handle_event_def Let_def inner1_def [unfolded Let_def, symmetric]
    by (auto simp: on_response_def on_finished_def on_failed_def Let_def intro!: upd all_slots_request a1)
qed

lemma all_slots_step:
  assumes a: "all_slots (ni_slots (nr_inner s))"
  shows "all_slots (ni_slots (nr_inner (net_step env s op)))"
proof (cases op)
  case (Received now ms ev)
  with a all_slots_handle show ?thesis
    by (cases "ev_session ev = Some (ce_session env)") (simp_all add: collect_event_slots)
next
  case (SetBodyFile r p)
  with a show ?thesis by (simp, intro all_slots_update) (auto intro: updated)
next
  case (SetHint r k v)
  with a show ?thesis by (simp, intro all_slots_update) (auto intro: updated)
qed (use a in \<open>auto simp: Let_def split: prod.splits\<close>)

lemma all_slots_collect: "all_slots (ni_slots (nr_inner (net_collect env ops)))"
  unfolding net_collect_def
  by (rule foldl_invariant [where P = "\<lambda>s. all_slots (ni_slots (nr_inner s))"])
     (simp_all add: all_slots_step, simp add: all_slots_def net_start_def network_inner_default_def)

end

text \<open>The two laws: an entry is filed under its own id, and its headers carry no credential.\<close>

definition clean_headers :: "(string, string) kv \<Rightarrow> bool" where
  "clean_headers h \<longleftrightarrow> (\<forall>(name, v) \<in> set h. should_redact name \<longrightarrow> v = redacted_value)"

lemma clean_captured: "ce_redact env \<Longrightarrow> clean_headers (captured_headers env v)"
  by (auto simp: clean_headers_def captured_headers_def redact_inplace_def Let_def)

interpretation filed: entry_law env "\<lambda>r e. ne_request_id e = r" for env
  by unfold_locales simp_all

interpretation clean: entry_law env
  "\<lambda>_ e. ce_redact env \<longrightarrow> clean_headers (ne_request_headers e) \<and> clean_headers (ne_response_headers e)" for env
  by unfold_locales (auto simp: clean_captured, simp add: clean_headers_def)

lemma log_entries:
  assumes "e \<in> set (nl_entries (network_finish env (nr_inner (net_collect env ops))))"
  obtains r sl where "map_of (ni_slots (nr_inner (net_collect env ops))) r = Some sl" "e = sl_entry sl"
proof -
  have kv: "kv_ok (ni_slots (nr_inner (net_collect env ops)))"
    using net_ok_collect [of env ops] by (simp add: net_ok_def slots_ok_def)
  from assms obtain r sl where "(r, sl) \<in> set (ni_slots (nr_inner (net_collect env ops)))" "e = sl_entry sl"
    by (auto simp: network_finish_def Let_def slot_entries_def)
  with kv that show thesis by (metis kv_ok_def map_of_is_SomeI)
qed

text \<open>
  C23. No credential reaches \<open>network.json\<close>: with redaction on, in every entry of the final log,
  redirect hops included, each request or response header whose name is credential-bearing holds the
  redaction marker, whatever events arrived in whatever order.
\<close>

theorem network_log_has_no_credentials:
  assumes "ce_redact env"
    and "e \<in> set (nl_entries (network_finish env (nr_inner (net_collect env ops))))"
    and "(name, v) \<in> set (ne_request_headers e) \<or> (name, v) \<in> set (ne_response_headers e)"
    and "should_redact name"
  shows "v = redacted_value"
proof -
  from log_entries [OF assms(2)] obtain r sl
    where "map_of (ni_slots (nr_inner (net_collect env ops))) r = Some sl" "e = sl_entry sl" .
  with clean.all_slots_collect [of env ops] assms(1)
  have "clean_headers (ne_request_headers e) \<and> clean_headers (ne_response_headers e)"
    unfolding clean.all_slots_def by blast
  with assms(3,4) show ?thesis by (auto simp: clean_headers_def)
qed


subsection \<open>Redirect chains\<close>

text \<open>Chrome's request ids contain no \<open>#\<close>; the ids the collector makes up do.\<close>

definition plain_id :: "string \<Rightarrow> bool" where
  "plain_id r \<longleftrightarrow> CHR ''#'' \<notin> set r"

lemma hop_name_not_plain [simp]: "\<not> plain_id (hop_name r n)"
  by (simp add: plain_id_def hop_name_def)

lemma hop_name_inj:
  assumes "plain_id r" "plain_id q"
  shows "hop_name r n = hop_name q m \<longleftrightarrow> r = q \<and> n = m"
proof
  assume eq: "hop_name r n = hop_name q m"
  have "takeWhile (\<lambda>c. c \<noteq> CHR ''#'') (hop_name x k) = x" if "plain_id x" for x k
  proof -
    have "\<forall>c \<in> set x. c \<noteq> CHR ''#''" using that by (auto simp: plain_id_def)
    then show ?thesis by (simp add: hop_name_def takeWhile_append2)
  qed
  with assms eq have "r = q" by metis
  with eq show "r = q \<and> n = m" by (simp add: hop_name_def)
qed simp

text \<open>
  A slot is a live request, or the \<open>n\<close>-th hop of one, ended and marked; its link goes to an
  earlier hop of the same request. No hop is ever lost.
\<close>

definition hop_count :: "network_inner \<Rightarrow> string \<Rightarrow> nat" where
  "hop_count inner r = (case map_of (ni_hops inner) r of Some n \<Rightarrow> n | None \<Rightarrow> 0)"

definition links_below :: "string \<Rightarrow> nat \<Rightarrow> network_entry \<Rightarrow> bool" where
  "links_below r n e \<longleftrightarrow> (\<forall>h. ne_redirect_from e = Some h \<longrightarrow> (\<exists>m < n. h = hop_name r m))"

definition chain_slot :: "network_inner \<Rightarrow> string \<Rightarrow> network_entry \<Rightarrow> bool" where
  "chain_slot inner k e \<longleftrightarrow>
     (plain_id k \<and> links_below k (hop_count inner k) e)
   \<or> (\<exists>r n. k = hop_name r n \<and> plain_id r \<and> n < hop_count inner r \<and> is_redirect_hop e
          \<and> ne_state e = Finished \<and> links_below r n e)"

definition chains_ok :: "network_inner \<Rightarrow> bool" where
  "chains_ok inner \<longleftrightarrow>
     (\<forall>k sl. map_of (ni_slots inner) k = Some sl \<longrightarrow> chain_slot inner k (sl_entry sl))
   \<and> (\<forall>r n. plain_id r \<and> n < hop_count inner r \<longrightarrow> map_of (ni_slots inner) (hop_name r n) \<noteq> None)"

lemma chain_slot_hop:
  assumes "chain_slot inner (hop_name r n) e" and "plain_id r"
  shows "n < hop_count inner r \<and> is_redirect_hop e \<and> ne_state e = Finished \<and> links_below r n e"
  using assms by (auto simp: chain_slot_def hop_name_inj)

lemma chain_slot_link:
  assumes "chain_slot inner k e" and "ne_redirect_from e = Some h"
  shows "\<exists>r n. h = hop_name r n \<and> plain_id r \<and> n < hop_count inner r \<and> (k = r \<or> (\<exists>m > n. k = hop_name r m))"
  using assms(1) unfolding chain_slot_def
proof (elim disjE conjE exE)
  assume "plain_id k" "links_below k (hop_count inner k) e"
  with assms(2) show ?thesis unfolding links_below_def by blast
next
  fix r n assume "k = hop_name r n" "plain_id r" "n < hop_count inner r" "links_below r n e"
  moreover from this(4) assms(2) obtain m where "m < n" "h = hop_name r m" unfolding links_below_def by blast
  ultimately show ?thesis by (intro exI [of _ r] exI [of _ m]) auto
qed

lemma links_below_mono: "links_below r n e \<Longrightarrow> n \<le> m \<Longrightarrow> links_below r m e"
  unfolding links_below_def by (meson order_less_le_trans)

lemma chain_slot_plain: "plain_id k \<Longrightarrow> chain_slot inner k e \<longleftrightarrow> links_below k (hop_count inner k) e"
  by (auto simp: chain_slot_def)

text \<open>Changing the entry of a live request, its link apart.\<close>

lemma chains_put:
  assumes ok: "chains_ok inner" and k: "plain_id k" and l: "links_below k (hop_count inner k) (sl_entry sl)"
    and s: "ni_slots inner' = kv_put k sl (ni_slots inner)" and h: "ni_hops inner' = ni_hops inner"
  shows "chains_ok inner'"
proof -
  have hc: "hop_count inner' = hop_count inner" by (simp add: hop_count_def h fun_eq_iff)
  have cs: "chain_slot inner' = chain_slot inner" by (simp add: chain_slot_def hc fun_eq_iff)
  from k have ne: "hop_name r n \<noteq> k" for r n by (metis hop_name_not_plain)
  show ?thesis using ok k l ne unfolding chains_ok_def cs hc by (auto simp: s chain_slot_plain)
qed

lemma chains_cong:
  "ni_slots inner' = ni_slots inner \<Longrightarrow> ni_hops inner' = ni_hops inner \<Longrightarrow> chains_ok inner' = chains_ok inner"
  by (simp add: chains_ok_def chain_slot_def hop_count_def)

lemma chains_update:
  assumes ok: "chains_ok inner" and k: "plain_id k"
    and f: "\<And>e. ne_redirect_from (f e) = ne_redirect_from e"
  shows "chains_ok (update_entry k f inner)"
proof (cases "map_of (ni_slots inner) k")
  case (Some sl)
  with ok k have "links_below k (hop_count inner k) (sl_entry sl)"
    unfolding chains_ok_def by (metis chain_slot_plain)
  then have "links_below k (hop_count inner k) (f (sl_entry sl))" by (simp add: links_below_def f)
  with ok k show ?thesis
    by (intro chains_put [OF ok k, of "sl\<lparr> sl_entry := f (sl_entry sl) \<rparr>"]) (simp_all add: update_entry_def Some)
qed (simp add: update_entry_def ok)

lemma chains_same_entries:
  assumes ok: "chains_ok inner" and h: "ni_hops inner' = ni_hops inner"
    and e: "entry_at inner' = entry_at inner"
  shows "chains_ok inner'"
proof -
  have hc: "hop_count inner' = hop_count inner" by (simp add: hop_count_def h fun_eq_iff)
  have cs: "chain_slot inner' = chain_slot inner" by (simp add: chain_slot_def hc fun_eq_iff)
  have at: "chains_ok i \<longleftrightarrow> (\<forall>k en. entry_at i k = Some en \<longrightarrow> chain_slot i k en)
      \<and> (\<forall>r n. plain_id r \<and> n < hop_count i r \<longrightarrow> entry_at i (hop_name r n) \<noteq> None)" for i
    by (auto simp: chains_ok_def entry_at_def)
  from ok show ?thesis unfolding at e cs hc .
qed

lemma chains_touch:
  assumes ok: "chains_ok inner"
  shows "chains_ok (touch_slot now ev inner)"
  by (rule chains_same_entries [OF ok])
     (auto simp: touch_slot_def entry_at_def fun_eq_iff split: option.split)

lemma chains_request:
  assumes ok: "chains_ok inner" and r: "plain_id (string_field p ''requestId'')"
  shows "chains_ok (snd (on_request env now p inner))"
proof (cases rule: on_request_cases [of env now p inner, case_names refused taken])
  case refused
  with ok show ?thesis by (simp add: chains_cong [of "inner\<lparr> ni_truncated := True \<rparr>" inner])
next
  case (taken inner1 fh inner2 e)
  let ?r = "string_field p ''requestId''"
  from taken(2,3) ok have ok1: "chains_ok inner1" by (simp add: chains_cong [of inner1 inner])
  have other: "hop_name q n \<noteq> ?r" for q n using r by (metis hop_name_not_plain)
  from taken(5) have "links_below ?r (hop_count inner2 ?r) e \<and> chains_ok inner2"
  proof (cases rule: end_redirect_hop_cases)
    case none
    with ok1 taken(9) show ?thesis by (simp add: links_below_def)
  next
    case (lost hop)
    have hc: "hop_count inner2 = hop_count inner1" by (simp add: hop_count_def lost(3) fun_eq_iff)
    have "chain_slot inner2 = chain_slot inner1" by (simp add: chain_slot_def hc fun_eq_iff)
    then have "chains_ok inner2" using ok1 other unfolding chains_ok_def hc by (auto simp: lost(3))
    with lost(1) taken(9) show ?thesis by (simp add: links_below_def)
  next
    case (moved hop redirect n)
    have n: "n = hop_count inner1 ?r" by (simp add: moved(2) hop_count_def)
    have hc: "hop_count inner2 q = (if q = ?r then n + 1 else hop_count inner1 q)" for q
      by (simp add: hop_count_def moved(6))
    have grow: "hop_count inner1 q \<le> hop_count inner2 q" for q by (simp add: hc n)
    have mono: "chain_slot inner1 k e \<Longrightarrow> chain_slot inner2 k e" for k e
      unfolding chain_slot_def by (blast intro: less_le_trans [OF _ grow] links_below_mono [OF _ grow])
    from ok1 r moved(1) have l: "links_below ?r n (sl_entry hop)"
      unfolding chains_ok_def n by (metis chain_slot_plain)
    have "chain_slot inner2 (hop_name ?r n) (hop_ended env (hop_name ?r n) redirect (timestamp_ms p) (sl_entry hop))"
      unfolding chain_slot_def using r l
      by (intro disjI2 exI [of _ ?r] exI [of _ n])
         (simp add: hc hop_ended_def is_redirect_hop_def put_hint_def map_of_bt_put_any links_below_def)
    then have slots: "\<forall>k sl. map_of (ni_slots inner2) k = Some sl \<longrightarrow> chain_slot inner2 k (sl_entry sl)"
      using ok1 mono unfolding chains_ok_def moved(5) by (auto split: if_splits)
    have "map_of (ni_slots inner2) (hop_name q m) \<noteq> None" if "plain_id q" "m < hop_count inner2 q" for q m
      using that ok1 r other unfolding chains_ok_def moved(5) by (auto simp: hc n hop_name_inj less_Suc_eq split: if_splits)
    with slots have "chains_ok inner2" by (simp add: chains_ok_def)
    moreover have "links_below ?r (hop_count inner2 ?r) e"
      unfolding links_below_def taken(9) moved(3) by (auto simp: hc)
    ultimately show ?thesis by blast
  qed
  with r show ?thesis
    by (intro chains_put [OF _ r _ taken(6,7)]) simp_all
qed


fun op_plain :: "net_op \<Rightarrow> bool" where
  "op_plain (Received _ _ ev) = plain_id (string_field (ev_params ev) ''requestId'')"
| "op_plain (SetBodyFile r _) = plain_id r"
| "op_plain (SetHint r _ _) = plain_id r"
| "op_plain _ = True"

lemma chains_handle:
  assumes ok: "chains_ok inner" and r: "plain_id (string_field (ev_params ev) ''requestId'')"
  shows "chains_ok (snd (handle_event env now ev inner))"
proof -
  have t: "chains_ok (touch_slot now ev inner)" by (rule chains_touch [OF ok])
  have act: "chains_ok (i\<lparr> ni_last_activity := a \<rparr>) = chains_ok i" for i a
    by (rule chains_cong) simp_all
  have fin: "chains_ok (mark_finished q i) = chains_ok i" for q i by (rule chains_cong) simp_all
  show ?thesis unfolding handle_event_def Let_def
    using r t by (auto simp: on_response_def on_finished_def on_failed_def Let_def act fin
        intro!: chains_request chains_update)
qed

lemma chains_step:
  assumes ok: "chains_ok (nr_inner s)" and op: "op_plain op"
  shows "chains_ok (nr_inner (net_step env s op))"
proof (cases op)
  case (Received now ms ev)
  with ok op show ?thesis
    using chains_handle [OF ok, of ev env now]
    by (cases "ev_session ev = Some (ce_session env)")
       (simp_all add: collect_event_slots chains_cong [of "snd (collect_event env now ms ev (nr_inner s))"
          "snd (handle_event env now ev (nr_inner s))"])
next
  case (SetBodyFile r f)
  with ok op show ?thesis by (auto intro!: chains_update)
next
  case (SetHint r k v)
  with ok op show ?thesis by (auto intro!: chains_update)
next
  case (SelectMain frame)
  with ok show ?thesis by (simp add: chains_cong [of "select_main_document frame (nr_inner s)" "nr_inner s"])
qed (use ok in \<open>auto simp: Let_def chains_ok_def chain_slot_def hop_count_def split: prod.splits\<close>)

lemma chains_collect: "list_all op_plain ops \<Longrightarrow> chains_ok (nr_inner (net_collect env ops))"
  unfolding net_collect_def
  by (rule foldl_invariant [where P = "\<lambda>s. chains_ok (nr_inner s)"])
     (auto simp: list_all_iff intro: chains_step,
      simp add: chains_ok_def net_start_def network_inner_default_def hop_count_def)

text \<open>
  Redirect links resolve, and chains end: when an entry of the aggregate says it came from
  another one, that one is in the aggregate, is the ended and marked hop of the same request, filed
  under its own id, and a hop links only to an earlier hop; so following the links from any entry
  visits the request's hops in descending order. Nothing the page does loses a linked hop.
\<close>

theorem redirect_links_resolve:
  assumes "list_all op_plain ops"
    and "map_of (ni_slots (nr_inner (net_collect env ops))) k = Some sl"
    and "ne_redirect_from (sl_entry sl) = Some h"
  shows "\<exists>r n hop. h = hop_name r n
       \<and> map_of (ni_slots (nr_inner (net_collect env ops))) h = Some hop
       \<and> is_redirect_hop (sl_entry hop) \<and> ne_state (sl_entry hop) = Finished
       \<and> ne_request_id (sl_entry hop) = h
       \<and> (k = r \<or> (\<exists>m > n. k = hop_name r m))
       \<and> (\<forall>h'. ne_redirect_from (sl_entry hop) = Some h' \<longrightarrow> (\<exists>m < n. h' = hop_name r m))"
proof -
  let ?inner = "nr_inner (net_collect env ops)"
  have ok: "chains_ok ?inner" by (rule chains_collect [OF assms(1)])
  with assms(2) have "chain_slot ?inner k (sl_entry sl)" by (auto simp: chains_ok_def)
  with assms(3) obtain r n where h: "h = hop_name r n" and r: "plain_id r" and n: "n < hop_count ?inner r"
    and k: "k = r \<or> (\<exists>m > n. k = hop_name r m)"
    using chain_slot_link by blast
  with ok obtain hop where hop: "map_of (ni_slots ?inner) h = Some hop" unfolding chains_ok_def by blast
  with ok have "chain_slot ?inner h (sl_entry hop)" by (auto simp: chains_ok_def)
  from chain_slot_hop [OF this [unfolded h] r] have "is_redirect_hop (sl_entry hop)"
    "ne_state (sl_entry hop) = Finished" "links_below r n (sl_entry hop)" by auto
  moreover have "ne_request_id (sl_entry hop) = h"
    using filed.all_slots_collect [of env ops] hop unfolding filed.all_slots_def by blast
  ultimately show ?thesis using h hop k unfolding links_below_def by blast
qed

subsection \<open>The main document\<close>

lemma max_by_key_spec:
  "case max_by_key key xs of None \<Rightarrow> xs = [] | Some m \<Rightarrow> m \<in> set xs \<and> (\<forall>x \<in> set xs. key x \<le> key m)"
proof (induction xs rule: rev_induct)
  case (snoc x xs)
  then show ?case by (auto simp: max_by_key_def split: option.splits intro: order_trans)
qed (simp add: max_by_key_def)

lemma entry_at_listed:
  assumes "e \<in> set (slot_entries (nr_inner (net_collect env ops)))"
  shows "entry_at (nr_inner (net_collect env ops)) (ne_request_id e) = Some e"
proof -
  have kv: "kv_ok (ni_slots (nr_inner (net_collect env ops)))"
    using net_ok_collect [of env ops] by (simp add: net_ok_def slots_ok_def)
  from assms obtain r sl where "(r, sl) \<in> set (ni_slots (nr_inner (net_collect env ops)))" and e: "e = sl_entry sl"
    by (auto simp: slot_entries_def)
  with kv have m: "map_of (ni_slots (nr_inner (net_collect env ops))) r = Some sl" by (simp add: kv_ok_def)
  with filed.all_slots_collect [of env ops] e have "ne_request_id e = r" unfolding filed.all_slots_def by blast
  with m e show ?thesis by (simp add: entry_at_def)
qed

text \<open>
  The main document is the latest navigation of the root frame: once a document of that frame
  has been captured, the entry whose status becomes the page's is a document of that frame, never
  of a subframe and never a redirect hop, and no such document started later; before that the
  choice made so far stands.
\<close>

theorem main_document_is_the_latest:
  fixes env ops frame
  defines "inner \<equiv> nr_inner (net_collect env ops)"
  assumes "d \<in> set (slot_entries inner)" and "is_main_candidate frame d"
  shows "\<exists>e. main_entry (select_main_document frame inner) = Some e \<and> is_main_candidate frame e
       \<and> start_monotonic_ms (ne_timing d) \<le> start_monotonic_ms (ne_timing e)"
proof -
  let ?key = "\<lambda>e. start_monotonic_ms (ne_timing e)" and ?cands = "filter (is_main_candidate frame) (slot_entries inner)"
  from max_by_key_spec [where key = ?key and xs = ?cands] assms(2,3)
  obtain e where e: "max_by_key ?key ?cands = Some e" "e \<in> set ?cands" "\<forall>x \<in> set ?cands. ?key x \<le> ?key e"
    by (cases "max_by_key ?key ?cands") (auto simp: filter_empty_conv)
  from e(2) have "entry_at inner (ne_request_id e) = Some e"
    unfolding inner_def by (intro entry_at_listed) simp
  then have "main_entry (select_main_document frame inner) = Some e"
    by (simp add: main_entry_def select_main_document_def e(1) entry_at_def)
  with e assms(2,3) show ?thesis by auto
qed

subsection \<open>The reserved slot\<close>

text \<open>
  One slot is meant to be kept for a main document that arrives after the subresources. A redirect
  of a subresource still takes it for the hop that ended, and then the document is dropped: with
  4095 requests and no document yet, one redirect fills the table and the next new document
  finds no slot.
\<close>

lemma hop_takes_the_reserved_slot:
  assumes kv: "kv_ok (ni_slots inner)" and full: "length (ni_slots inner) = network_entry_limit - 1"
    and main: "ni_main inner = None" and r: "string_field p ''requestId'' \<noteq> []"
    and sub: "str_or ''Other'' (get_str p ''type'') \<noteq> ''Document''"
    and red: "json_get p ''redirectResponse'' \<noteq> None"
    and old: "map_of (ni_slots inner) (string_field p ''requestId'') = Some hop"
    and fresh: "map_of (ni_slots inner) (hop_name (string_field p ''requestId'') (hop_count inner (string_field p ''requestId''))) = None"
    and d: "map_of (ni_slots (snd (on_request env now p inner))) (string_field q ''requestId'') = None"
  shows "ni_main (snd (on_request env now' q (snd (on_request env now p inner)))) = None
       \<and> ni_truncated (snd (on_request env now' q (snd (on_request env now p inner))))"
proof -
  let ?r = "string_field p ''requestId''"
  let ?h = "hop_name ?r (hop_count inner ?r)"
  have ne: "?h \<noteq> ?r" using old fresh by force
  have del: "length (kv_del ?r (ni_slots inner)) + 2 = network_entry_limit"
    using full old kv by (simp add: kv.count_del network_entry_limit_def)
  obtain e where s: "ni_slots (snd (on_request env now p inner)) =
      kv_put ?r \<lparr> sl_entry = e, sl_started_at = now, sl_updated_at = now \<rparr>
        (kv_put ?h (hop\<lparr> sl_entry := hop_ended env ?h (the (json_get p ''redirectResponse'')) (timestamp_ms p) (sl_entry hop) \<rparr>)
          (kv_del ?r (ni_slots inner)))"
    and m: "ni_main (snd (on_request env now p inner)) = None"
    using r sub red old main del
    by (auto simp: on_request_def Let_def end_redirect_hop_def hop_count_def split: if_splits)
  have "length (ni_slots (snd (on_request env now p inner))) = network_entry_limit"
    unfolding s using kv del fresh ne by (simp add: kv.count_put kv_ok_put kv_ok_del)
  with m d show ?thesis by (simp add: on_request_def Let_def)
qed

subsection \<open>The console is bounded\<close>

lemma console_step_bounded:
  "length (ci_events c) \<le> console_event_limit \<Longrightarrow> length (ci_events (console_step env c x)) \<le> console_event_limit"
  by (cases x) (auto split: option.split)

interpretation console_run: invariant_run "console_step env"
  "\<lambda>c. length (ci_events c) \<le> console_event_limit" for env
  by unfold_locales (rule console_step_bounded)

lemma console_bounded: "length (cl_events (console_finish (console_collect env items))) \<le> 4096"
  using console_run.run_inv [of "\<lparr> ci_events = [], ci_events_dropped = 0, ci_truncated = False \<rparr>" env items]
  by (simp add: console_finish_def console_collect_def console_event_limit_def)

subsection \<open>A captured redirect\<close>

definition demo_capture :: capture_env where
  "demo_capture = \<lparr> ce_json_text = (\<lambda>_. []), ce_parse_json = (\<lambda>_. None), ce_session = ''s'',
     ce_redact = True, ce_ws = False, ce_sse = False \<rparr>"

definition request_event :: "(string \<times> json) list \<Rightarrow> net_op" where
  "request_event extra = Received 0 0 \<lparr> ev_method = ''Network.requestWillBeSent'', ev_session = Some ''s'',
     ev_params = JObj ([(''requestId'', JStr ''1''), (''type'', JStr ''Document''), (''frameId'', JStr ''f''),
        (''request'', JObj [(''headers'', JObj [(''cookie'', JStr ''a=1'')])])] @ extra) \<rparr>"

definition demo_ops :: "net_op list" where
  "demo_ops = [request_event [], request_event [(''redirectResponse'', JObj [])]]"

lemma demo_plain: "list_all op_plain demo_ops"
  by (simp add: demo_ops_def request_event_def plain_id_def string_field_def get_str_def str_or_def)

lemma demo_slots:
  obtains sl1 sl2 where
    "ni_slots (nr_inner (net_collect demo_capture demo_ops)) = [(hop_name ''1'' 0, sl1), (''1'', sl2)]"
    "map fst (ne_request_headers (sl_entry sl1)) = [''cookie'']" "map fst (ne_request_headers (sl_entry sl2)) = [''cookie'']"
    "ne_redirect_from (sl_entry sl2) = Some (hop_name ''1'' 0)" "is_main_candidate ''f'' (sl_entry sl2)"
proof -
  have ne: "hop_name ''1'' 0 \<noteq> ''1''" by (simp add: hop_name_def)
  show thesis
    by (rule that,
        simp_all add: ne demo_ops_def demo_capture_def request_event_def net_collect_def net_start_def
          network_inner_default_def collect_event_def handle_event_def on_request_def touch_slot_def get_str_def
          string_field_def str_or_def Let_def end_redirect_hop_def default_entry_def post_hints_def
          captured_headers_def headers_map_def redact_inplace_def json_idx_def timestamp_ms_def
          network_entry_limit_def hop_ended_def put_hint_def starts_with_def kv_del_def is_main_candidate_def
          is_redirect_hop_def split del: if_split,
        simp_all add: is_main_candidate_def is_redirect_hop_def)
qed

theorem network_log_has_no_credentials_witness:
  "\<exists>e \<in> set (nl_entries (network_finish demo_capture (nr_inner (net_collect demo_capture demo_ops)))).
     map_of (ne_request_headers e) ''cookie'' = Some redacted_value"
proof -
  let ?log = "network_finish demo_capture (nr_inner (net_collect demo_capture demo_ops))"
  from demo_slots obtain sl1 sl2 where
    s: "ni_slots (nr_inner (net_collect demo_capture demo_ops)) = [(hop_name ''1'' 0, sl1), (''1'', sl2)]"
    and h: "map fst (ne_request_headers (sl_entry sl2)) = [''cookie'']" by metis
  have e: "sl_entry sl2 \<in> set (nl_entries ?log)" by (simp add: network_finish_def Let_def slot_entries_def s)
  from h obtain v where v: "ne_request_headers (sl_entry sl2) = [(''cookie'', v)]" by (auto simp: map_eq_Cons_conv)
  have "ce_redact demo_capture" "should_redact ''cookie''"
    by (simp_all add: demo_capture_def should_redact_def always_redacted_def to_ascii_lowercase_def ascii_lower_char_def)
  from network_log_has_no_credentials [OF this(1) e _ this(2), of v] v have "v = redacted_value" by simp
  with v show ?thesis by (intro bexI [OF _ e]) simp
qed

theorem redirect_links_resolve_witness:
  "\<exists>hop. map_of (ni_slots (nr_inner (net_collect demo_capture demo_ops))) (hop_name ''1'' 0) = Some hop
     \<and> is_redirect_hop (sl_entry hop) \<and> ne_request_id (sl_entry hop) = hop_name ''1'' 0"
proof -
  from demo_slots obtain sl1 sl2 where
    s: "ni_slots (nr_inner (net_collect demo_capture demo_ops)) = [(hop_name ''1'' 0, sl1), (''1'', sl2)]"
    and h: "ne_redirect_from (sl_entry sl2) = Some (hop_name ''1'' 0)" by metis
  have "hop_name ''1'' 0 \<noteq> ''1''" by (simp add: hop_name_def)
  then have "map_of (ni_slots (nr_inner (net_collect demo_capture demo_ops))) ''1'' = Some sl2" by (simp add: s)
  from redirect_links_resolve [OF demo_plain this h] show ?thesis by blast
qed

theorem main_document_is_the_latest_witness:
  "\<exists>e. main_entry (select_main_document ''f'' (nr_inner (net_collect demo_capture demo_ops))) = Some e
     \<and> ne_frame_id e = Some ''f'' \<and> \<not> is_redirect_hop e"
proof -
  from demo_slots obtain sl1 sl2 where
    s: "ni_slots (nr_inner (net_collect demo_capture demo_ops)) = [(hop_name ''1'' 0, sl1), (''1'', sl2)]"
    and m: "is_main_candidate ''f'' (sl_entry sl2)" by metis
  then have "sl_entry sl2 \<in> set (slot_entries (nr_inner (net_collect demo_capture demo_ops)))"
    by (simp add: slot_entries_def)
  from main_document_is_the_latest [OF this m] show ?thesis by (auto simp: is_main_candidate_def)
qed

end
