(* ===== verification/Readiness.thy ===== *)
theory Readiness
  imports Collectors Deadline "HOL-Library.Product_Lexorder"
begin

text \<open>
  Page readiness (\<open>sdk/fetch/pipeline/browser/readiness.rs\<close> and \<open>wait.rs\<close>): the frame sampler, the
  assessment of a sample, the stability trackers, the readiness loop and the explicit waits. The
  CDP connection is a state-passing function that answers a command; the deserializers derived by
  serde, the metrics script and the standard library's hasher (whose algorithm is unspecified)
  are arguments. A loop takes what each iteration observes and how long that took.
\<close>

subsection \<open>What is measured\<close>

record frame =
  fm_id :: string
  fm_url :: string
  fm_loader :: string

datatype frame_tree = FrameTree frame "frame_tree list"

record page_metrics =
  pm_text_len :: nat
  pm_text_hash :: nat
  pm_node_count :: nat
  pm_dom_hash :: nat

record metrics =
  mt_page :: page_metrics
  mt_eligible :: bool
  mt_document_ready :: bool

record measurements =
  ms_body :: metrics
  ms_selected :: metrics

record scoped_frame =
  sf_frame :: frame
  sf_scope :: request_scope
  sf_metrics :: "metrics option"

record sample =
  sm_body :: page_metrics
  sm_target :: page_metrics
  sm_target_eligible :: bool
  sm_target_network_quiet :: bool
  sm_readiness :: readiness

definition frame_limit :: nat where "frame_limit = 32"
definition pending_limit :: nat where "pending_limit = 100"

definition unknown_readiness :: "instant \<Rightarrow> network_inner \<Rightarrow> string \<Rightarrow> readiness" where
  "unknown_readiness now inner selector =
     (let network = fst (readiness_snapshot now [] inner);
          pending = map (\<lambda>r. \<lparr> pr_request_id = ne_request_id (or_entry r), pr_request_url = ne_request_url (or_entry r),
                       pr_resource_type = ne_resource_type (or_entry r), pr_frame_id = ne_frame_id (or_entry r),
                       pr_frame_url = None, pr_scope = UnknownScope, pr_blocks_wait = True,
                       pr_waited_ms = duration_ms (or_waited r) \<rparr>)
                     (filter (\<lambda>r. in_flight (or_entry r)) (rn_requests network));
          pending = sort_key pr_request_id pending
      in \<lparr> rd_wait_satisfied = False, rd_timed_out = True, rd_main_document = Unknown,
           rd_target_content = Unknown, rd_ancillary = Unknown, rd_target_selector = selector,
           rd_target_dom_stable = False, rd_target_text_stable = False, rd_observation_complete = False,
           rd_unobserved_frame_ids = [], rd_pending_requests = take pending_limit pending,
           rd_pending_requests_truncated = (length pending > pending_limit) \<rparr>)"

subsection \<open>Sampling\<close>

text \<open>
  \<open>Sampler::send\<close> bounds each command by 200 ms and the fetch deadline; here it is the connection's
  answer. The state is the isolated-world contexts and the rest of the world.
\<close>

record 'w sampler =
  sp_send :: "string \<Rightarrow> json \<Rightarrow> 'w \<Rightarrow> json result \<times> 'w"
  sp_json_text :: "json \<Rightarrow> string"
  sp_parse_tree :: "json \<Rightarrow> frame_tree option"
  sp_parse_measurements :: "json \<Rightarrow> measurements option"
  sp_metrics_js :: string
  sp_hash :: "(string \<times> nat) list \<Rightarrow> nat"
  sp_selector :: string
  sp_strict :: bool

type_synonym 'w sampler_state = "(string, string \<times> int) kv \<times> 'w"

text \<open>Sequencing of fallible state-passing calls: \<open>?\<close> after an \<open>await\<close>.\<close>

definition wbind :: "'a result \<times> 's \<Rightarrow> ('a \<Rightarrow> 's \<Rightarrow> 'b result \<times> 's) \<Rightarrow> 'b result \<times> 's" where
  "wbind m f = (case m of (Inl e, s) \<Rightarrow> (Inl e, s) | (Inr v, s) \<Rightarrow> f v s)"

definition measure_page ::
  "'w sampler \<Rightarrow> string \<Rightarrow> int option \<Rightarrow> 'w \<Rightarrow> measurements result \<times> 'w" where
  "measure_page sp selector ctx w =
     (let expression = ''('' @ sp_metrics_js sp @ '')('' @ sp_json_text sp (JStr selector) @ '')'';
          params = JObj [(''expression'', JStr expression), (''returnByValue'', JBool True)];
          params = (case ctx of
              Some c \<Rightarrow> json_obj_put ''contextId'' (JNum (if c < 0 then NegInt c else PosInt (nat c))) params
            | None \<Rightarrow> params)
      in wbind (sp_send sp ''Runtime.evaluate'' params w) (\<lambda>result w.
           (let v = json_idx (json_idx result ''result'') ''value''
            in if json_bool (json_idx v ''invalid_selector'') = Some True
               then (fail InvalidArgument ''selector-stable requires valid CSS'', w)
               else (case sp_parse_measurements sp v of
                       Some m \<Rightarrow> (Inr m, w)
                     | None \<Rightarrow> (fail CdpError ''readiness metrics were unavailable'', w)))))"

text \<open>The function called on a frame's owner element: is it inside an element the selector matches?\<close>

definition owner_walk_js :: string where
  "owner_walk_js = ''function(selector) { const roots = Array.from(document.querySelectorAll(selector)); for (let node = this; node; node = node.parentNode || node.host) { if (roots.includes(node)) return true; } return false; }''"

definition owner_in_target :: "'w sampler \<Rightarrow> string \<Rightarrow> 'w \<Rightarrow> bool result \<times> 'w" where
  "owner_in_target sp frame_id w =
     wbind (sp_send sp ''DOM.getFrameOwner'' (JObj [(''frameId'', JStr frame_id)]) w) (\<lambda>owner w.
     wbind (sp_send sp ''DOM.resolveNode'' (JObj [(''backendNodeId'', json_idx owner ''backendNodeId'')]) w) (\<lambda>resolved w.
       (case json_str (json_idx (json_idx resolved ''object'') ''objectId'') of
          None \<Rightarrow> (fail CdpError ''frame owner could not be resolved'', w)
        | Some object_id \<Rightarrow>
            (case sp_send sp ''Runtime.callFunctionOn''
                (JObj [(''arguments'', JArr [JObj [(''value'', JStr (sp_selector sp))]]),
                       (''functionDeclaration'', JStr owner_walk_js),
                       (''objectId'', JStr object_id), (''returnByValue'', JBool True)]) w of
               (result, w) \<Rightarrow>
                 (case sp_send sp ''Runtime.releaseObject'' (JObj [(''objectId'', JStr object_id)]) w of
                    (_, w) \<Rightarrow>
                      wbind (result, w) (\<lambda>v w.
                        (case json_bool (json_idx (json_idx v ''result'') ''value'') of
                           Some b \<Rightarrow> (Inr b, w)
                         | None \<Rightarrow> (fail CdpError ''frame owner scope could not be inspected'', w))))))))"

definition create_context :: "'w sampler \<Rightarrow> frame \<Rightarrow> 'w sampler_state \<Rightarrow> int result \<times> 'w sampler_state" where
  "create_context sp f st =
     (case st of (ctxs, w) \<Rightarrow>
       (case sp_send sp ''Page.createIsolatedWorld''
             (JObj [(''frameId'', JStr (fm_id f)), (''worldName'', JStr ''afhttp-readiness'')]) w of
          (Inl e, w) \<Rightarrow> (Inl e, ctxs, w)
        | (Inr result, w) \<Rightarrow>
            (case json_i64 (json_idx result ''executionContextId'') of
               None \<Rightarrow> (fail CdpError ''frame execution context unavailable'', ctxs, w)
             | Some c \<Rightarrow> (Inr c, bt_put (fm_id f) (fm_loader f, c) ctxs, w))))"

definition frame_metrics :: "'w sampler \<Rightarrow> frame \<Rightarrow> 'w sampler_state \<Rightarrow> metrics result \<times> 'w sampler_state" where
  "frame_metrics sp f st =
     wbind (case map_of (fst st) (fm_id f) of
              Some (loader, c) \<Rightarrow> if loader = fm_loader f then (Inr c, st) else create_context sp f st
            | None \<Rightarrow> create_context sp f st)
       (\<lambda>c (ctxs, w).
         (case measure_page sp ''body'' (Some c) w of
            (Inr m, w) \<Rightarrow> (Inr (ms_selected m), ctxs, w)
          | (Inl e, w) \<Rightarrow> (Inl e, kv_del (fm_id f) ctxs, w)))"

text \<open>A frame's scope, inherited or found, and its metrics; the flag says it was not observed.\<close>

definition frame_scope ::
  "'w sampler \<Rightarrow> string \<Rightarrow> 'w sampler_state \<Rightarrow> request_scope \<times> 'w sampler_state" where
  "frame_scope sp frame_id st =
     (if sp_strict sp then (Target, st)
      else (case owner_in_target sp frame_id (snd st) of
              (Inr True, w) \<Rightarrow> (Target, fst st, w)
            | (Inr False, w) \<Rightarrow> (Ancillary, fst st, w)
            | (Inl _, w) \<Rightarrow> (UnknownScope, fst st, w)))"

definition observe_frame ::
  "'w sampler \<Rightarrow> frame \<Rightarrow> request_scope \<Rightarrow> 'w sampler_state \<Rightarrow> (scoped_frame \<times> bool) \<times> 'w sampler_state" where
  "observe_frame sp f scope st =
     (case (if scope = Target
            then (case frame_metrics sp f st of (r, st) \<Rightarrow> (res_ok r, st))
            else (None, st)) of
        (m, st) \<Rightarrow>
          ((\<lparr> sf_frame = f, sf_scope = scope, sf_metrics = m \<rparr>,
            scope = UnknownScope \<or> (scope = Target \<and> m = None)), st))"

fun tree_frame :: "frame_tree \<Rightarrow> frame" where "tree_frame (FrameTree f _) = f"
fun tree_children :: "frame_tree \<Rightarrow> frame_tree list" where "tree_children (FrameTree _ cs) = cs"

text \<open>The breadth-first walk over the renderer's frame tree.\<close>

fun queue_size :: "(frame_tree \<times> request_scope option) list \<Rightarrow> nat" where
  "queue_size q = sum_list (map (\<lambda>(t, _). size t) q)"

lemma size_children: "sum_list (map size (tree_children t)) < size t"
proof (cases t)
  case (FrameTree f cs)
  have "sum_list (map size cs) \<le> size_list size cs" by (induction cs) auto
  then show ?thesis by (simp add: FrameTree)
qed

function walk_frames ::
  "'w sampler \<Rightarrow> (frame_tree \<times> request_scope option) list \<Rightarrow> scoped_frame list \<Rightarrow> string list \<Rightarrow> 'w sampler_state
   \<Rightarrow> scoped_frame list \<times> string list \<times> 'w sampler_state" where
  "walk_frames sp [] frames missed st = (frames, missed, st)"
| "walk_frames sp ((child, parent_scope) # queue) frames missed st =
     (let f = tree_frame child
      in if frame_limit \<le> length frames then walk_frames sp queue frames (missed @ [fm_id f]) st
         else
           (case (case parent_scope of Some s \<Rightarrow> (s, st) | None \<Rightarrow> frame_scope sp (fm_id f) st) of
              (scope, st) \<Rightarrow>
                (case observe_frame sp f scope st of
                   ((sf, unseen), st) \<Rightarrow>
                     walk_frames sp (queue @ map (\<lambda>c. (c, Some scope)) (tree_children child)) (frames @ [sf])
                       (if unseen then missed @ [fm_id f] else missed) st)))"
  by pat_completeness auto
termination
proof (relation "measure (\<lambda>(_, q, _). queue_size q)", goal_cases)
  case (2 sp child parent queue frames missed st f)
  then show ?case by (cases child) simp
next
  case (3 sp child parent queue frames missed st f)
  have "sum_list (map ((\<lambda>(t, _). size t) \<circ> (\<lambda>c. (c, Some s))) (tree_children child)) = sum_list (map size (tree_children child))" for s :: request_scope
    by (simp add: comp_def)
  then show ?case using size_children [of child] by simp
qed simp

text \<open>Documents of other renderers, known from the network events only.\<close>

fun walk_documents ::
  "'w sampler \<Rightarrow> observed_request list \<Rightarrow> scoped_frame list \<Rightarrow> string list \<Rightarrow> 'w sampler_state
   \<Rightarrow> scoped_frame list \<times> string list \<times> 'w sampler_state" where
  "walk_documents sp [] frames missed st = (frames, missed, st)"
| "walk_documents sp (r # rs) frames missed st =
     (let entry = or_entry r
      in case ne_frame_id entry of
           None \<Rightarrow> walk_documents sp rs frames missed st
         | Some frame_id \<Rightarrow>
             if ne_resource_type entry \<noteq> ''Document'' \<or> list_ex (\<lambda>f. fm_id (sf_frame f) = frame_id) frames
             then walk_documents sp rs frames missed st
             else if frame_limit \<le> length frames then walk_documents sp rs frames (missed @ [frame_id]) st
             else
               (case frame_scope sp frame_id st of
                  (scope, st) \<Rightarrow>
                    (case observe_frame sp \<lparr> fm_id = frame_id, fm_url = ne_request_url entry,
                            fm_loader = str_or [] (ne_loader_id entry) \<rparr> scope st of
                       ((sf, unseen), st) \<Rightarrow>
                         walk_documents sp rs (frames @ [sf]) (if unseen then missed @ [frame_id] else missed) st)))"

subsection \<open>Assessing a sample\<close>

definition frame_by_id :: "scoped_frame list \<Rightarrow> string \<Rightarrow> scoped_frame option" where
  "frame_by_id frames = map_of (rev (map (\<lambda>f. (fm_id (sf_frame f), f)) frames))"

definition request_frame :: "scoped_frame list \<Rightarrow> network_entry \<Rightarrow> scoped_frame option" where
  "request_frame frames e = Option.bind (ne_frame_id e) (frame_by_id frames)"

definition request_scope_of :: "scoped_frame list \<Rightarrow> network_entry \<Rightarrow> request_scope" where
  "request_scope_of frames e =
     (if ne_resource_type e = ''Document'' \<and> ne_frame_id e = Some (fm_id (sf_frame (hd frames))) then MainDocument
      else (case request_frame frames e of Some f \<Rightarrow> sf_scope f | None \<Rightarrow> UnknownScope))"

definition is_required :: "scoped_frame list \<Rightarrow> observed_request \<Rightarrow> bool" where
  "is_required frames r \<longleftrightarrow> request_scope_of frames (or_entry r) \<noteq> Ancillary"

definition speaks_for_main :: "scoped_frame list \<Rightarrow> network_entry \<Rightarrow> bool" where
  "speaks_for_main frames e \<longleftrightarrow>
     request_scope_of frames e = MainDocument \<and> ne_loader_id e = Some (fm_loader (sf_frame (hd frames)))
     \<and> \<not> is_redirect_hop e"

definition main_document_state :: "scoped_frame list \<Rightarrow> observed_request list \<Rightarrow> readiness_state" where
  "main_document_state frames rs =
     foldl (\<lambda>st r. if speaks_for_main frames (or_entry r)
              then if ne_state (or_entry r) = Finished then Ready else Incomplete
              else st) Unknown rs"

definition failed_target_document :: "scoped_frame list \<Rightarrow> observed_request list \<Rightarrow> bool" where
  "failed_target_document frames rs =
     list_ex (\<lambda>r. let e = or_entry r in
        ne_resource_type e = ''Document'' \<and> ne_state e = Failed
        \<and> (case request_frame frames e of
             None \<Rightarrow> True
           | Some f \<Rightarrow> sf_scope f \<noteq> Ancillary \<and> ne_loader_id e = Some (fm_loader (sf_frame f)))) rs"

definition pending_of :: "scoped_frame list \<Rightarrow> bool \<Rightarrow> observed_request \<Rightarrow> pending_request" where
  "pending_of frames strict r =
     (let e = or_entry r
      in \<lparr> pr_request_id = ne_request_id e, pr_request_url = ne_request_url e,
           pr_resource_type = ne_resource_type e, pr_frame_id = ne_frame_id e,
           pr_frame_url = map_option (\<lambda>f. fm_url (sf_frame f)) (request_frame frames e),
           pr_scope = request_scope_of frames e, pr_blocks_wait = (strict \<or> is_required frames r),
           pr_waited_ms = duration_ms (or_waited r) \<rparr>)"

definition target_metrics :: "scoped_frame list \<Rightarrow> (string \<times> metrics) list" where
  "target_metrics frames =
     List.map_filter (\<lambda>f. if sf_scope f = Target then map_option (\<lambda>m. (fm_id (sf_frame f), m)) (sf_metrics f) else None) frames"

definition assess ::
  "((string \<times> nat) list \<Rightarrow> nat) \<Rightarrow> scoped_frame list \<Rightarrow> readiness_network \<Rightarrow> page_metrics \<Rightarrow> string \<Rightarrow> bool
   \<Rightarrow> duration \<Rightarrow> string list \<Rightarrow> sample" where
  "assess hash frames network body selector strict idle_for unobserved =
     (let rs = rn_requests network;
          unfinished = (\<lambda>r. in_flight (or_entry r));
          quiet = (rn_complete network
                   \<and> \<not> list_ex (\<lambda>r. is_required frames r \<and> (unfinished r \<or> or_idle_for r < idle_for)) rs);
          required_pending = list_ex (\<lambda>r. is_required frames r \<and> unfinished r) rs;
          ancillary_ready = (rn_complete network
                   \<and> \<not> list_ex (\<lambda>r. \<not> is_required frames r \<and> (unfinished r \<or> ne_state (or_entry r) = Failed)) rs);
          main_document = main_document_state frames rs;
          pending = map (pending_of frames strict) (filter unfinished rs);
          observation_complete = (rn_complete network \<and> unobserved = []);
          targets = filter (\<lambda>f. sf_scope f = Target) frames;
          measured = target_metrics frames;
          text_len = sum_list (map (\<lambda>(_, m). pm_text_len (mt_page m)) measured);
          eligible = (observation_complete \<and> \<not> failed_target_document frames rs \<and> main_document = Ready
                      \<and> list_all (\<lambda>f. case sf_metrics f of
                             Some m \<Rightarrow> mt_document_ready m \<and> (strict \<or> mt_eligible m) | None \<Rightarrow> False) targets
                      \<and> (strict \<or> 0 < text_len));
          pending = sort_key (\<lambda>p. (\<not> pr_blocks_wait p, pr_request_id p)) pending
      in \<lparr> sm_body = body,
           sm_target = \<lparr> pm_text_len = text_len,
                         pm_text_hash = hash (map (\<lambda>(i, m). (i, pm_text_hash (mt_page m))) measured),
                         pm_node_count = sum_list (map (\<lambda>(_, m). pm_node_count (mt_page m)) measured),
                         pm_dom_hash = hash (map (\<lambda>(i, m). (i, pm_dom_hash (mt_page m))) measured) \<rparr>,
           sm_target_eligible = eligible, sm_target_network_quiet = quiet,
           sm_readiness =
             \<lparr> rd_wait_satisfied = False, rd_timed_out = False, rd_main_document = main_document,
               rd_target_content = (if observation_complete \<or> required_pending then Incomplete else Unknown),
               rd_ancillary = (if \<not> rn_complete network then Unknown
                               else if ancillary_ready then Ready else Incomplete),
               rd_target_selector = selector, rd_target_dom_stable = False, rd_target_text_stable = False,
               rd_observation_complete = observation_complete, rd_unobserved_frame_ids = unobserved,
               rd_pending_requests = take pending_limit pending,
               rd_pending_requests_truncated = (length pending > pending_limit) \<rparr> \<rparr>)"

text \<open>\<open>Sampler::sample\<close>; the network is read after the frames, at the given time.\<close>

definition take_sample ::
  "'w sampler \<Rightarrow> instant \<Rightarrow> network_inner \<Rightarrow> duration \<Rightarrow> 'w sampler_state \<Rightarrow> sample result \<times> 'w sampler_state" where
  "take_sample sp now inner idle_for st =
     (case st of (ctxs, w) \<Rightarrow>
       (case sp_send sp ''Page.getFrameTree'' (JObj []) w of
          (Inl e, w) \<Rightarrow> (Inl e, ctxs, w)
        | (Inr v, w) \<Rightarrow>
            (case sp_parse_tree sp (json_idx v ''frameTree'') of
               None \<Rightarrow> (fail CdpError ''readiness frame tree unavailable'', ctxs, w)
             | Some tree \<Rightarrow>
                 (case measure_page sp (sp_selector sp) None w of
                    (Inl e, w) \<Rightarrow> (Inl e, ctxs, w)
                  | (Inr ms, w) \<Rightarrow>
                      (case walk_frames sp (map (\<lambda>c. (c, None)) (tree_children tree))
                              [\<lparr> sf_frame = tree_frame tree, sf_scope = Target, sf_metrics = Some (ms_selected ms) \<rparr>]
                              [] (ctxs, w) of
                         (frames, missed, st) \<Rightarrow>
                           (let network = fst (readiness_snapshot now (fm_id (tree_frame tree)) inner)
                            in case walk_documents sp (rn_requests network) frames missed st of
                                 (frames, missed, st) \<Rightarrow>
                                   (Inr (assess (sp_hash sp) frames network (mt_page (ms_body ms)) (sp_selector sp)
                                           (sp_strict sp) idle_for missed), st)))))))"

subsection \<open>Stability\<close>

record stability_tracker =
  st_last :: "page_metrics option"
  st_dom_since :: instant
  st_text_since :: instant
  st_dom_stable :: bool
  st_text_stable :: bool

definition tracker_new :: "instant \<Rightarrow> stability_tracker" where
  "tracker_new now = \<lparr> st_last = None, st_dom_since = now, st_text_since = now, st_dom_stable = False,
     st_text_stable = False \<rparr>"

definition same_dom :: "page_metrics \<Rightarrow> page_metrics \<Rightarrow> bool" where
  "same_dom a b \<longleftrightarrow> pm_node_count a = pm_node_count b \<and> pm_dom_hash a = pm_dom_hash b"

definition same_text :: "page_metrics \<Rightarrow> page_metrics \<Rightarrow> bool" where
  "same_text a b \<longleftrightarrow> pm_text_len a = pm_text_len b \<and> pm_text_hash a = pm_text_hash b"

definition tracker_observe :: "page_metrics \<Rightarrow> duration \<Rightarrow> instant \<Rightarrow> stability_tracker \<Rightarrow> stability_tracker" where
  "tracker_observe m stable_for now t =
     (let dom = (case st_last t of Some l \<Rightarrow> same_dom l m | None \<Rightarrow> False);
          txt = (case st_last t of Some l \<Rightarrow> same_text l m | None \<Rightarrow> False);
          dom_since = (if dom then st_dom_since t else now);
          text_since = (if txt then st_text_since t else now)
      in \<lparr> st_last = Some m, st_dom_since = dom_since, st_text_since = text_since,
           st_dom_stable = (dom \<and> stable_for \<le> now - dom_since),
           st_text_stable = (txt \<and> stable_for \<le> now - text_since) \<rparr>)"

subsection \<open>The readiness loop\<close>

record wait_outcome =
  wo_wait_mode :: string
  wo_satisfied_by :: "string option"
  wo_network_quiet :: "bool option"
  wo_dom_stable :: "bool option"
  wo_text_stable :: "bool option"
  wo_capture_reason :: string
  wo_timed_out :: bool
  wo_readiness :: "readiness option"

definition satisfied_outcome :: "wait \<Rightarrow> string \<Rightarrow> wait_outcome" where
  "satisfied_outcome w by_what =
     \<lparr> wo_wait_mode = mode_name w, wo_satisfied_by = Some by_what, wo_network_quiet = None, wo_dom_stable = None,
       wo_text_stable = None, wo_capture_reason = ''wait_satisfied'', wo_timed_out = False, wo_readiness = None \<rparr>"

text \<open>
  What the \<open>n\<close>-th iteration meets: how long the sample would take, its result, and the collector's
  aggregate when it is done. A sample longer than its budget is cut off at the budget.
\<close>

record wait_world =
  ww_cost :: "nat \<Rightarrow> duration"
  ww_sample :: "nat \<Rightarrow> sample result"
  ww_inner :: "nat \<Rightarrow> network_inner"

record wait_config =
  wc_deadline :: instant
  wc_idle_for :: duration
  wc_stable_for :: duration
  wc_strict :: bool
  wc_selector :: string

record loop_state =
  ls_body :: stability_tracker
  ls_target :: stability_tracker
  ls_outcome :: wait_outcome

definition give_up :: "wait_config \<Rightarrow> instant \<Rightarrow> network_inner \<Rightarrow> wait_outcome \<Rightarrow> wait_outcome" where
  "give_up cfg now inner oc =
     (let r = (case wo_readiness oc of Some r \<Rightarrow> r | None \<Rightarrow> unknown_readiness now inner (wc_selector cfg))
      in oc\<lparr> wo_readiness := Some (r\<lparr> rd_timed_out := True \<rparr>) \<rparr>)"

text \<open>A completed sample: the new state, and whether the wait is satisfied.\<close>

definition on_sample ::
  "wait_config \<Rightarrow> instant \<Rightarrow> instant \<Rightarrow> network_inner \<Rightarrow> sample \<Rightarrow> loop_state \<Rightarrow> bool \<times> loop_state" where
  "on_sample cfg now done_at inner smp s =
     (let body = tracker_observe (sm_body smp) (wc_stable_for cfg) now (ls_body s);
          target = (if sm_target_eligible smp
                    then tracker_observe (sm_target smp) (wc_stable_for cfg) now (ls_target s)
                    else tracker_new now);
          target_ready = (sm_target_eligible smp \<and> sm_target_network_quiet smp
                          \<and> st_dom_stable target \<and> st_text_stable target);
          rd = (sm_readiness smp)\<lparr> rd_target_dom_stable := st_dom_stable target,
                                  rd_target_text_stable := st_text_stable target \<rparr>;
          rd = (if target_ready then rd\<lparr> rd_target_content := Ready \<rparr> else rd);
          network = quiet_snapshot done_at (wc_idle_for cfg) inner;
          satisfied = (target_ready \<and> (\<not> wc_strict cfg \<or> qs_quiet network));
          rd = rd\<lparr> rd_wait_satisfied := satisfied \<rparr>;
          oc = (ls_outcome s)\<lparr> wo_network_quiet := Some (qs_quiet network),
                             wo_dom_stable := Some (st_dom_stable body),
                             wo_text_stable := Some (st_text_stable body), wo_readiness := Some rd \<rparr>;
          oc = (if satisfied
               then oc\<lparr> wo_satisfied_by := Some (if wc_strict cfg then ''network_quiet_dom_text_stable'' else ''selector_stable''),
                       wo_capture_reason := ''wait_satisfied'', wo_timed_out := False \<rparr>
               else oc)
      in (satisfied, \<lparr> ls_body = body, ls_target = target, ls_outcome = oc \<rparr>))"

definition on_lost_sample :: "instant \<Rightarrow> loop_state \<Rightarrow> loop_state" where
  "on_lost_sample now s =
     (let oc = (ls_outcome s)\<lparr> wo_dom_stable := Some False, wo_text_stable := Some False \<rparr>
      in \<lparr> ls_body = tracker_new now, ls_target = tracker_new now,
           ls_outcome = oc\<lparr> wo_readiness := map_option (\<lambda>r. r\<lparr> rd_observation_complete := False,
              rd_target_content := Unknown, rd_target_dom_stable := False, rd_target_text_stable := False \<rparr>)
              (wo_readiness oc) \<rparr> \<rparr>)"

text \<open>\<open>sleep_until_or_deadline\<close>: when it wakes up.\<close>

definition sleep_until :: "instant \<Rightarrow> duration \<Rightarrow> instant \<Rightarrow> instant" where
  "sleep_until deadline d now = now + min d (deadline - now)"

lemma sleep_until_progress: "now < deadline \<Longrightarrow> 0 < d \<Longrightarrow> now < sleep_until deadline d now"
  by (simp add: sleep_until_def)

lemma sleep_until_le [simp]: "now \<le> deadline \<Longrightarrow> sleep_until deadline d now \<le> deadline"
  by (simp add: sleep_until_def)

lemma sleep_until_ge [simp]: "now \<le> sleep_until deadline d now"
  by (simp add: sleep_until_def)

text \<open>When an iteration's sample is done or cut off, and when the next iteration starts.\<close>

definition sample_budget :: "wait_config \<Rightarrow> instant \<Rightarrow> duration" where
  "sample_budget cfg now = min (wc_deadline cfg - now) (millis 500)"

definition done_at :: "wait_config \<Rightarrow> wait_world \<Rightarrow> nat \<Rightarrow> instant \<Rightarrow> instant" where
  "done_at cfg ww n now = now + min (ww_cost ww n) (sample_budget cfg now)"

definition next_start :: "wait_config \<Rightarrow> wait_world \<Rightarrow> nat \<Rightarrow> instant \<Rightarrow> instant" where
  "next_start cfg ww n now = sleep_until (wc_deadline cfg) (millis 100) (done_at cfg ww n now)"

lemma next_iteration_later:
  "now < deadline \<Longrightarrow> now \<le> t \<Longrightarrow> t \<le> deadline \<Longrightarrow> now < sleep_until deadline (millis 100) t"
  by (cases "t < deadline") (auto simp: sleep_until_def millis_def)

function readiness_loop ::
  "wait_config \<Rightarrow> wait_world \<Rightarrow> nat \<Rightarrow> instant \<Rightarrow> loop_state \<Rightarrow> wait_outcome result \<times> instant" where
  "readiness_loop cfg ww n now s =
     (if wc_deadline cfg \<le> now then (Inr (give_up cfg now (ww_inner ww n) (ls_outcome s)), now)
      else if sample_budget cfg now < ww_cost ww n then
        (if sample_budget cfg now < millis 500
         then (Inr (give_up cfg (done_at cfg ww n now) (ww_inner ww n) (ls_outcome s)), done_at cfg ww n now)
         else readiness_loop cfg ww (n + 1) (next_start cfg ww n now) (on_lost_sample now s))
      else
        (case ww_sample ww n of
           Inr smp \<Rightarrow>
             (case on_sample cfg now (done_at cfg ww n now) (ww_inner ww n) smp s of
                (True, s) \<Rightarrow> (Inr (ls_outcome s), done_at cfg ww n now)
              | (False, s) \<Rightarrow> readiness_loop cfg ww (n + 1) (next_start cfg ww n now) s)
         | Inl e \<Rightarrow>
             if error_code e = InvalidArgument then (Inl e, done_at cfg ww n now)
             else readiness_loop cfg ww (n + 1) (next_start cfg ww n now) (on_lost_sample now s)))"
  by pat_completeness auto

termination
  by (relation "measure (\<lambda>(cfg, ww, n, now, s). wc_deadline cfg - now)")
     (auto simp: not_le next_start_def done_at_def sample_budget_def intro!: diff_less_mono2 next_iteration_later)

declare readiness_loop.simps [simp del]

definition auto_readiness_budget :: "duration \<Rightarrow> duration \<Rightarrow> duration" where
  "auto_readiness_budget rest timeout =
     (let reserve = min (millis 750) (timeout div 3)
      in if reserve \<le> rest then rest - reserve else min rest (millis 100))"

definition explicit_wait_budget :: "duration \<Rightarrow> duration \<Rightarrow> duration" where
  "explicit_wait_budget rest requested =
     (if millis 100 \<le> min rest requested then min rest requested - millis 100 else min rest requested)"

definition initial_outcome :: "wait \<Rightarrow> wait_outcome" where
  "initial_outcome w =
     \<lparr> wo_wait_mode = mode_name w, wo_satisfied_by = None, wo_network_quiet = Some False,
       wo_dom_stable = Some False, wo_text_stable = Some False, wo_capture_reason = ''readiness_timeout'',
       wo_timed_out = True, wo_readiness = None \<rparr>"

definition wait_cfg :: "instant \<Rightarrow> duration \<Rightarrow> wait \<Rightarrow> duration \<Rightarrow> nat \<Rightarrow> nat \<Rightarrow> wait_config" where
  "wait_cfg now rest w timeout idle_ms stable_ms =
     \<lparr> wc_deadline = now + auto_readiness_budget rest timeout, wc_idle_for = millis idle_ms,
       wc_stable_for = millis stable_ms, wc_strict = (w = WaitAuto),
       wc_selector = (case w of WaitSelectorStable s \<Rightarrow> s | _ \<Rightarrow> ''body'') \<rparr>"

definition wait_for_readiness ::
  "instant \<Rightarrow> wait \<Rightarrow> duration \<Rightarrow> nat \<Rightarrow> nat \<Rightarrow> wait_world \<Rightarrow> fetch_deadline
   \<Rightarrow> wait_outcome result \<times> instant \<times> fetch_deadline" where
  "wait_for_readiness now w timeout idle_ms stable_ms ww d =
     (case remaining now ''wait_readiness'' d of
        (Inl e, d) \<Rightarrow> (Inl e, now, d)
      | (Inr rest, d) \<Rightarrow>
          (case readiness_loop (wait_cfg now rest w timeout idle_ms stable_ms) ww 0 now
                     \<lparr> ls_body = tracker_new now, ls_target = tracker_new now, ls_outcome = initial_outcome w \<rparr> of
                (r, t) \<Rightarrow> (r, t, d)))"

subsection \<open>Explicit waits\<close>

text \<open>
  The polling loops: the \<open>n\<close>-th check takes some time and answers; a failed CDP command ends a selector
  wait and counts as "not yet" for the load wait.
\<close>

lemma poll_later: "now < deadline \<Longrightarrow> now < sleep_until deadline (millis 50) (now + cost)"
  by (cases "now + cost < deadline") (auto simp: sleep_until_def millis_def)

function poll_until ::
  "(nat \<Rightarrow> duration \<times> bool result) \<Rightarrow> instant \<Rightarrow> nat \<Rightarrow> instant \<Rightarrow> bool result \<times> instant" where
  "poll_until check deadline n now =
     (if deadline \<le> now then (Inr False, now)
      else (case check n of
              (cost, Inl e) \<Rightarrow> (Inl e, now + cost)
            | (cost, Inr True) \<Rightarrow> (Inr True, now + cost)
            | (cost, Inr False) \<Rightarrow>
                poll_until check deadline (n + 1) (sleep_until deadline (millis 50) (now + cost))))"
  by pat_completeness auto

termination
  by (relation "measure (\<lambda>(check, deadline, n, now). deadline - now)")
     (auto simp: not_le intro!: diff_less_mono2 poll_later)

declare poll_until.simps [simp del]

text \<open>
  \<open>wait_for_load\<close>: a first look, then the load event raced against polling; at a tie the event wins.
\<close>

definition wait_for_load ::
  "json result \<times> duration \<Rightarrow> unit result \<times> duration \<Rightarrow> (nat \<Rightarrow> duration \<times> json result) \<Rightarrow> duration \<Rightarrow> instant
   \<Rightarrow> unit result \<times> instant" where
  "wait_for_load first_look event polls timeout now =
     (let complete = (\<lambda>r. case r of Inr v \<Rightarrow> json_str (json_idx (json_idx v ''result'') ''value'') = Some ''complete'' | Inl _ \<Rightarrow> False);
          now = now + snd first_look
      in if complete (fst first_look) then (Inr (), now)
         else
           (case poll_until (\<lambda>n. (fst (polls n), Inr (complete (snd (polls n))))) (now + timeout) 0 now of
              (r, t) \<Rightarrow>
                if now + snd event \<le> t then (fst event, now + snd event)
                else ((case r of Inr True \<Rightarrow> Inr ()
                       | _ \<Rightarrow> fail CdpTimeout ''Wait::Load: readyState never became complete''), t)))"

text \<open>What the explicit waits meet.\<close>

record explicit_world =
  xw_first_look :: "json result \<times> duration"
  xw_load_event :: "unit result \<times> duration"
  xw_polls :: "nat \<Rightarrow> duration \<times> json result"
  xw_lifecycle_cost :: duration
  xw_idle_event :: "duration \<Rightarrow> unit result \<times> duration"

definition polled_true :: "json result \<Rightarrow> bool result" where
  "polled_true r = and_then r (\<lambda>v. Inr (json_bool (json_idx (json_idx v ''result'') ''value'') = Some True))"

definition selector_wait ::
  "wait \<Rightarrow> string \<Rightarrow> string \<Rightarrow> (nat \<Rightarrow> duration \<times> json result) \<Rightarrow> instant \<Rightarrow> instant \<Rightarrow> wait_outcome result \<times> instant" where
  "selector_wait w by_what message polls deadline now =
     (case poll_until (\<lambda>n. (fst (polls n), polled_true (snd (polls n)))) deadline 0 now of
        (Inl e, t) \<Rightarrow> (Inl e, t)
      | (Inr True, t) \<Rightarrow> (Inr (satisfied_outcome w by_what), t)
      | (Inr False, t) \<Rightarrow> (fail WaitSelectorUnmatched message, t))"

definition wait_for_condition ::
  "instant \<Rightarrow> wait \<Rightarrow> duration \<Rightarrow> nat \<Rightarrow> nat \<Rightarrow> wait_world \<Rightarrow> explicit_world \<Rightarrow> fetch_deadline
   \<Rightarrow> wait_outcome result \<times> instant \<times> fetch_deadline" where
  "wait_for_condition now w timeout idle_ms stable_ms ww xw d =
     (case w of
        WaitAuto \<Rightarrow> wait_for_readiness now w timeout idle_ms stable_ms ww d
      | WaitSelectorStable _ \<Rightarrow> wait_for_readiness now w timeout idle_ms stable_ms ww d
      | WaitLoad \<Rightarrow>
          (case remaining now ''wait_readiness'' d of
             (Inl e, d) \<Rightarrow> (Inl e, now, d)
           | (Inr rest, d) \<Rightarrow>
               (case wait_for_load (xw_first_look xw) (xw_load_event xw) (xw_polls xw)
                       (explicit_wait_budget rest timeout) now of
                  (r, t) \<Rightarrow> (and_then r (\<lambda>_. Inr (satisfied_outcome w ''load'')), t, d)))
      | WaitIdle \<Rightarrow>
          (let now = now + xw_lifecycle_cost xw
           in case remaining now ''wait_readiness'' d of
                (Inl e, d) \<Rightarrow> (Inl e, now, d)
              | (Inr rest, d) \<Rightarrow>
                  (case xw_idle_event xw (explicit_wait_budget rest timeout) of
                     (r, cost) \<Rightarrow> (and_then r (\<lambda>_. Inr (satisfied_outcome w ''network_idle_event'')), now + cost, d)))
      | WaitSelector _ \<Rightarrow>
          (case remaining now ''wait_readiness'' d of
             (Inl e, d) \<Rightarrow> (Inl e, now, d)
           | (Inr rest, d) \<Rightarrow>
               (case selector_wait w ''selector'' ''selector did not appear before --timeout-ms'' (xw_polls xw)
                       (now + explicit_wait_budget rest timeout) now of
                  (r, t) \<Rightarrow> (r, t, d)))
      | WaitSelectorVisible _ \<Rightarrow>
          (case remaining now ''wait_readiness'' d of
             (Inl e, d) \<Rightarrow> (Inl e, now, d)
           | (Inr rest, d) \<Rightarrow>
               (case selector_wait w ''selector_visible'' ''selector-visible did not appear visible before --timeout-ms''
                       (xw_polls xw) (now + explicit_wait_budget rest timeout) now of
                  (r, t) \<Rightarrow> (r, t, d)))
      | WaitMs n \<Rightarrow>
          (case remaining now ''wait_readiness'' d of
             (Inl e, d) \<Rightarrow> (Inl e, now, d)
           | (Inr rest, d) \<Rightarrow>
               (Inr (satisfied_outcome w ''ms''), now + min (millis n) (explicit_wait_budget rest timeout), d)))"

end
