(* ===== verification/ReadinessFacts.thy ===== *)
theory ReadinessFacts
  imports Readiness CollectorFacts
begin

text \<open>
  The laws of the readiness wait: it always returns inside its budget, it reports success only
  after an unbroken window of identical, eligible samples, and an eligible quiet sample overlooks
  no request of the page.
\<close>

subsection \<open>The loop returns in time\<close>

text \<open>What every intermediate outcome says: not satisfied yet.\<close>

definition open_outcome :: "wait_outcome \<Rightarrow> bool" where
  "open_outcome oc \<longleftrightarrow> wo_timed_out oc \<and> wo_satisfied_by oc = None
     \<and> (\<forall>r. wo_readiness oc = Some r \<longrightarrow> \<not> rd_wait_satisfied r)"

definition final_outcome :: "wait_outcome \<Rightarrow> bool" where
  "final_outcome oc \<longleftrightarrow> (\<exists>r. wo_readiness oc = Some r \<and> rd_wait_satisfied r = (\<not> wo_timed_out oc)
     \<and> (wo_timed_out oc \<longrightarrow> rd_timed_out r) \<and> (wo_satisfied_by oc = None \<longleftrightarrow> wo_timed_out oc))"

lemma open_initial [simp]: "open_outcome (initial_outcome w)"
  by (simp add: open_outcome_def initial_outcome_def)

lemma open_lost [simp]: "open_outcome (ls_outcome s) \<Longrightarrow> open_outcome (ls_outcome (on_lost_sample now s))"
  by (auto simp: open_outcome_def on_lost_sample_def Let_def)

lemma give_up_final: "open_outcome oc \<Longrightarrow> final_outcome (give_up cfg now inner oc)"
  by (auto simp: final_outcome_def open_outcome_def give_up_def unknown_readiness_def Let_def split: option.split)

lemma on_sample_outcome:
  assumes "on_sample cfg now t inner smp s = (sat, s')" and "open_outcome (ls_outcome s)"
  shows "if sat then final_outcome (ls_outcome s') \<and> \<not> wo_timed_out (ls_outcome s') else open_outcome (ls_outcome s')"
  using assms by (auto simp: on_sample_def Let_def open_outcome_def final_outcome_def split: if_splits)

text \<open>What one iteration observed; nothing when its sample was cut off or failed.\<close>

definition observed :: "wait_config \<Rightarrow> wait_world \<Rightarrow> nat \<Rightarrow> instant \<Rightarrow> sample option" where
  "observed cfg ww n now = (if sample_budget cfg now < ww_cost ww n then None else res_ok (ww_sample ww n))"

lemma done_at_bounds: "now < wc_deadline cfg \<Longrightarrow> now \<le> done_at cfg ww n now \<and> done_at cfg ww n now \<le> wc_deadline cfg"
  by (simp add: done_at_def sample_budget_def)

lemma next_start_bounds:
  "now < wc_deadline cfg \<Longrightarrow> now < next_start cfg ww n now \<and> next_start cfg ww n now \<le> wc_deadline cfg"
  using done_at_bounds [of now cfg ww n] next_iteration_later [of now "wc_deadline cfg"]
  by (simp add: next_start_def)

lemma readiness_loop_cases:
  assumes "readiness_loop cfg ww n now s = (r, t)"
  obtains
    (expired) "wc_deadline cfg \<le> now" "t = now" "r = Inr (give_up cfg now (ww_inner ww n) (ls_outcome s))"
  | (cut) "now < wc_deadline cfg" "t = done_at cfg ww n now" "r = Inr (give_up cfg t (ww_inner ww n) (ls_outcome s))"
  | (rejected) e where "now < wc_deadline cfg" "t = done_at cfg ww n now" "r = Inl e" "error_code e = InvalidArgument"
  | (satisfied) smp s' where "now < wc_deadline cfg" "observed cfg ww n now = Some smp" "t = done_at cfg ww n now"
      "on_sample cfg now t (ww_inner ww n) smp s = (True, s')" "r = Inr (ls_outcome s')"
  | (lost) "now < wc_deadline cfg" "observed cfg ww n now = None"
      "readiness_loop cfg ww (n + 1) (next_start cfg ww n now) (on_lost_sample now s) = (r, t)"
  | (sampled) smp s' where "now < wc_deadline cfg" "observed cfg ww n now = Some smp"
      "on_sample cfg now (done_at cfg ww n now) (ww_inner ww n) smp s = (False, s')"
      "readiness_loop cfg ww (n + 1) (next_start cfg ww n now) s' = (r, t)"
proof (cases "wc_deadline cfg \<le> now")
  case True
  with assms show thesis by (intro expired) (auto simp: readiness_loop.simps [where now = now])
next
  case False
  then have now: "now < wc_deadline cfg" by simp
  have eq: "(if sample_budget cfg now < ww_cost ww n then
        (if sample_budget cfg now < millis 500
         then (Inr (give_up cfg (done_at cfg ww n now) (ww_inner ww n) (ls_outcome s)), done_at cfg ww n now)
         else readiness_loop cfg ww (n + 1) (next_start cfg ww n now) (on_lost_sample now s))
      else
        (case ww_sample ww n of
           Inr smp \<Rightarrow>
             (case on_sample cfg now (done_at cfg ww n now) (ww_inner ww n) smp s of
                (True, s) \<Rightarrow> (Inr (ls_outcome s), done_at cfg ww n now)
              | (False, s) \<Rightarrow> readiness_loop cfg ww (n + 1) (next_start cfg ww n now) s)
         | Inl e \<Rightarrow>
             if error_code e = InvalidArgument then (Inl e, done_at cfg ww n now)
             else readiness_loop cfg ww (n + 1) (next_start cfg ww n now) (on_lost_sample now s))) = (r, t)"
    using assms by (simp only: readiness_loop.simps [where now = now] False if_False)
  show thesis
  proof (cases "sample_budget cfg now < ww_cost ww n")
    case True
    then have none: "observed cfg ww n now = None" by (simp add: observed_def)
    show thesis
    proof (cases "sample_budget cfg now < millis 500")
      case less: True
      from eq True less show thesis by (intro cut [OF now]) auto
    next
      case False
      from eq True False show thesis by (intro lost [OF now none]) simp
    qed
  next
    case in_time: False
    show thesis
    proof (cases "ww_sample ww n")
      case (Inl e)
      then have none: "observed cfg ww n now = None" by (simp add: observed_def res_ok_def)
      show thesis
      proof (cases "error_code e = InvalidArgument")
        case True
        from eq in_time Inl True show thesis by (intro rejected [OF now]) auto
      next
        case False
        from eq in_time Inl False show thesis by (intro lost [OF now none]) simp
      qed
    next
      case (Inr smp)
      obtain sat s' where o: "on_sample cfg now (done_at cfg ww n now) (ww_inner ww n) smp s = (sat, s')" by fastforce
      from Inr in_time have ob: "observed cfg ww n now = Some smp" by (simp add: observed_def res_ok_def)
      show thesis
      proof (cases sat)
        case True
        from eq in_time Inr o True show thesis by (intro satisfied [OF now ob]) auto
      next
        case False
        from eq in_time Inr o False show thesis by (intro sampled [OF now ob]) auto
      qed
    qed
  qed
qed

lemma readiness_loop_returns:
  assumes "readiness_loop cfg ww n now s = (r, t)" and "now \<le> wc_deadline cfg" and "open_outcome (ls_outcome s)"
  shows "now \<le> t \<and> t \<le> wc_deadline cfg
       \<and> (case r of Inl e \<Rightarrow> error_code e = InvalidArgument | Inr oc \<Rightarrow> final_outcome oc)"
  using assms
proof (induction "wc_deadline cfg - now" arbitrary: n now s rule: less_induct)
  case less
  have later: "wc_deadline cfg - next_start cfg ww n now < wc_deadline cfg - now" if "now < wc_deadline cfg"
    using that next_start_bounds [OF that, of ww n] by linarith
  from less.prems(1) show ?case
  proof (cases rule: readiness_loop_cases)
    case expired
    with less.prems give_up_final show ?thesis by simp
  next
    case cut
    with less.prems(3) give_up_final done_at_bounds [OF cut(1), of ww n] show ?thesis by simp
  next
    case (rejected e)
    with done_at_bounds [OF rejected(1), of ww n] show ?thesis by simp
  next
    case (satisfied smp s')
    with done_at_bounds [OF satisfied(1), of ww n] on_sample_outcome [OF satisfied(4) less.prems(3)]
    show ?thesis by simp
  next
    case lost
    from less.hyps [OF later lost(3)] lost(1) next_start_bounds [OF lost(1), of ww n] less.prems(3)
    show ?thesis by simp
  next
    case (sampled smp s')
    from less.hyps [OF later sampled(4)] sampled(1) next_start_bounds [OF sampled(1), of ww n]
      on_sample_outcome [OF sampled(3) less.prems(3)]
    show ?thesis by simp
  qed
qed

lemma auto_budget_le: "auto_readiness_budget rest timeout \<le> rest"
  by (simp add: auto_readiness_budget_def Let_def)

text \<open>
  C25. The readiness wait always returns, and in time: whatever the page and the browser do, it ends
  within the fetch deadline, leaving the reserve (750 ms, or a third of a short timeout) for the capture
  when that much was left, and it ends with an invalid-selector error or with a final outcome: satisfied
  with a reason and a readiness report that says so, or timed out with a report that says so.
\<close>

theorem readiness_wait_returns:
  assumes "remaining now ''wait_readiness'' d = (Inr rest, d')"
  shows "\<exists>r t. wait_for_readiness now w timeout idle_ms stable_ms ww d = (r, t, d')
       \<and> now \<le> t \<and> t \<le> now + rest
       \<and> (min (millis 750) (timeout div 3) \<le> rest \<longrightarrow> t + min (millis 750) (timeout div 3) \<le> now + rest)
       \<and> (case r of Inl e \<Rightarrow> error_code e = InvalidArgument
          | Inr oc \<Rightarrow> \<exists>rd. wo_readiness oc = Some rd \<and> rd_wait_satisfied rd = (\<not> wo_timed_out oc)
              \<and> (wo_timed_out oc \<longrightarrow> rd_timed_out rd) \<and> (wo_satisfied_by oc = None \<longleftrightarrow> wo_timed_out oc))"
proof -
  let ?cfg = "wait_cfg now rest w timeout idle_ms stable_ms"
  define s where "s = \<lparr> ls_body = tracker_new now, ls_target = tracker_new now, ls_outcome = initial_outcome w \<rparr>"
  obtain r t where l: "readiness_loop ?cfg ww 0 now s = (r, t)" by fastforce
  then have w: "wait_for_readiness now w timeout idle_ms stable_ms ww d = (r, t, d')"
    by (simp add: wait_for_readiness_def assms s_def)
  from readiness_loop_returns [OF l]
  have "now \<le> t \<and> t \<le> now + auto_readiness_budget rest timeout
      \<and> (case r of Inl e \<Rightarrow> error_code e = InvalidArgument | Inr oc \<Rightarrow> final_outcome oc)"
    by (simp add: wait_cfg_def s_def)
  with w auto_budget_le [of rest timeout] show ?thesis
    by (cases r) (auto simp: final_outcome_def auto_readiness_budget_def Let_def)
qed

subsection \<open>Stability is real\<close>

text \<open>The start of every iteration, and an unbroken window of iterations that agree with a measurement.\<close>

primrec starts_at :: "wait_config \<Rightarrow> wait_world \<Rightarrow> instant \<Rightarrow> nat \<Rightarrow> instant" where
  "starts_at cfg ww t0 0 = t0"
| "starts_at cfg ww t0 (Suc n) = next_start cfg ww n (starts_at cfg ww t0 n)"

definition stable_window ::
  "wait_config \<Rightarrow> wait_world \<Rightarrow> instant \<Rightarrow> (page_metrics \<Rightarrow> page_metrics \<Rightarrow> bool) \<Rightarrow> nat \<Rightarrow> nat \<Rightarrow> page_metrics \<Rightarrow> bool" where
  "stable_window cfg ww t0 same a n m \<longleftrightarrow>
     (\<forall>k. a \<le> k \<and> k \<le> n \<longrightarrow> (\<exists>smp. observed cfg ww k (starts_at cfg ww t0 k) = Some smp
        \<and> sm_target_eligible smp \<and> same (sm_target smp) m))"

definition since_ok ::
  "wait_config \<Rightarrow> wait_world \<Rightarrow> instant \<Rightarrow> (page_metrics \<Rightarrow> page_metrics \<Rightarrow> bool) \<Rightarrow> nat \<Rightarrow> page_metrics \<Rightarrow> instant \<Rightarrow> bool" where
  "since_ok cfg ww t0 same n m since \<longleftrightarrow>
     (\<exists>a \<le> n. since = starts_at cfg ww t0 a \<and> stable_window cfg ww t0 same a n m)"

definition tracker_ok :: "wait_config \<Rightarrow> wait_world \<Rightarrow> instant \<Rightarrow> nat \<Rightarrow> stability_tracker \<Rightarrow> bool" where
  "tracker_ok cfg ww t0 n t \<longleftrightarrow>
     (\<forall>l. st_last t = Some l \<longrightarrow> (\<exists>p. n = Suc p \<and> since_ok cfg ww t0 same_dom p l (st_dom_since t)
                                           \<and> since_ok cfg ww t0 same_text p l (st_text_since t)))"

lemma tracker_ok_new [simp]: "tracker_ok cfg ww t0 n (tracker_new now)"
  by (simp add: tracker_ok_def tracker_new_def)

lemma same_metrics_simps [simp]: "same_dom m m" "same_text m m"
  by (simp_all add: same_dom_def same_text_def)

lemma since_ok_fresh:
  assumes "observed cfg ww n (starts_at cfg ww t0 n) = Some smp" "sm_target_eligible smp" "same (sm_target smp) (sm_target smp)"
  shows "since_ok cfg ww t0 same n (sm_target smp) (starts_at cfg ww t0 n)"
  using assms by (auto simp: since_ok_def stable_window_def)

lemma since_ok_extend:
  assumes "since_ok cfg ww t0 same p l since" and "same l (sm_target smp)"
    and trans: "\<And>x y z. same x y \<Longrightarrow> same y z \<Longrightarrow> same x z" and refl: "same (sm_target smp) (sm_target smp)"
    and ob: "observed cfg ww (Suc p) (starts_at cfg ww t0 (Suc p)) = Some smp" "sm_target_eligible smp"
  shows "\<exists>a \<le> p. since = starts_at cfg ww t0 a \<and> stable_window cfg ww t0 same a (Suc p) (sm_target smp)"
proof -
  from assms(1) obtain a where a: "a \<le> p" "since = starts_at cfg ww t0 a" "stable_window cfg ww t0 same a p l"
    unfolding since_ok_def by blast
  have "stable_window cfg ww t0 same a (Suc p) (sm_target smp)"
    unfolding stable_window_def
  proof (intro allI impI)
    fix k assume k: "a \<le> k \<and> k \<le> Suc p"
    show "\<exists>smp'. observed cfg ww k (starts_at cfg ww t0 k) = Some smp' \<and> sm_target_eligible smp' \<and> same (sm_target smp') (sm_target smp)"
    proof (cases "k = Suc p")
      case True
      with ob refl show ?thesis by blast
    next
      case False
      with k a(3) obtain s' where "observed cfg ww k (starts_at cfg ww t0 k) = Some s'" "sm_target_eligible s'" "same (sm_target s') l"
        unfolding stable_window_def by (meson le_SucE)
      with trans assms(2) show ?thesis by blast
    qed
  qed
  with a show ?thesis by blast
qed

lemma same_trans:
  "same_dom x y \<Longrightarrow> same_dom y z \<Longrightarrow> same_dom x z" "same_text x y \<Longrightarrow> same_text y z \<Longrightarrow> same_text x z"
  by (simp_all add: same_dom_def same_text_def)

text \<open>An eligible observation keeps the tracker right, and what it calls stable is.\<close>

lemma tracker_observe_ok:
  fixes t stable_for
  assumes ok: "tracker_ok cfg ww t0 n t"
    and ob: "observed cfg ww n (starts_at cfg ww t0 n) = Some smp" "sm_target_eligible smp"
  defines "t' \<equiv> tracker_observe (sm_target smp) stable_for (starts_at cfg ww t0 n) t"
  shows "tracker_ok cfg ww t0 (Suc n) t'"
    and "st_dom_stable t' \<Longrightarrow> \<exists>a < n. stable_for \<le> starts_at cfg ww t0 n - starts_at cfg ww t0 a
            \<and> stable_window cfg ww t0 same_dom a n (sm_target smp)"
    and "st_text_stable t' \<Longrightarrow> \<exists>a < n. stable_for \<le> starts_at cfg ww t0 n - starts_at cfg ww t0 a
            \<and> stable_window cfg ww t0 same_text a n (sm_target smp)"
proof -
  have ext: "\<exists>a < n. since = starts_at cfg ww t0 a \<and> stable_window cfg ww t0 same a n (sm_target smp)"
    if l: "st_last t = Some l" and s: "same l (sm_target smp)"
      and kind: "same = same_dom \<and> since = st_dom_since t \<or> same = same_text \<and> since = st_text_since t" for l same since
  proof -
    from ok l obtain p where p: "n = Suc p" and so: "since_ok cfg ww t0 same p l since"
      using kind unfolding tracker_ok_def by blast
    have "\<exists>a \<le> p. since = starts_at cfg ww t0 a \<and> stable_window cfg ww t0 same a (Suc p) (sm_target smp)"
      by (rule since_ok_extend [OF so s _ _ ob(1) [unfolded p] ob(2)]) (use kind same_trans in blast, use kind in auto)
    then show ?thesis unfolding p by (metis less_Suc_eq_le)
  qed
  have fresh: "since_ok cfg ww t0 same n (sm_target smp) (starts_at cfg ww t0 n)" if "same = same_dom \<or> same = same_text" for same
    by (rule since_ok_fresh [OF ob]) (use that in auto)
  have so: "since_ok cfg ww t0 same n (sm_target smp) since"
    if "\<exists>a < n. since = starts_at cfg ww t0 a \<and> stable_window cfg ww t0 same a n (sm_target smp)" for same since
    using that unfolding since_ok_def by (blast intro: less_imp_le)
  show "tracker_ok cfg ww t0 (Suc n) t'"
    unfolding tracker_ok_def t'_def tracker_observe_def Let_def
    using ext fresh so by (auto split: option.splits)
  show "\<exists>a < n. stable_for \<le> starts_at cfg ww t0 n - starts_at cfg ww t0 a
            \<and> stable_window cfg ww t0 same_dom a n (sm_target smp)" if "st_dom_stable t'"
  proof -
    from that obtain l where l: "st_last t = Some l" "same_dom l (sm_target smp)"
      "stable_for \<le> starts_at cfg ww t0 n - st_dom_since t"
      unfolding t'_def tracker_observe_def Let_def by (auto split: option.splits if_splits)
    from ext [where same = same_dom, OF l(1,2), of "st_dom_since t"] l(3) show ?thesis by auto
  qed
  show "\<exists>a < n. stable_for \<le> starts_at cfg ww t0 n - starts_at cfg ww t0 a
            \<and> stable_window cfg ww t0 same_text a n (sm_target smp)" if "st_text_stable t'"
  proof -
    from that obtain l where l: "st_last t = Some l" "same_text l (sm_target smp)"
      "stable_for \<le> starts_at cfg ww t0 n - st_text_since t"
      unfolding t'_def tracker_observe_def Let_def by (auto split: option.splits if_splits)
    from ext [where same = same_text, OF l(1,2), of "st_text_since t"] l(3) show ?thesis by auto
  qed
qed

lemma on_sample_target:
  assumes "on_sample cfg now t inner smp s = (sat, s')"
  shows "ls_target s' = (if sm_target_eligible smp
           then tracker_observe (sm_target smp) (wc_stable_for cfg) now (ls_target s) else tracker_new now)"
    and "sat \<longleftrightarrow> sm_target_eligible smp \<and> sm_target_network_quiet smp \<and> st_dom_stable (ls_target s')
           \<and> st_text_stable (ls_target s')
           \<and> (wc_strict cfg \<longrightarrow> qs_quiet (quiet_snapshot t (wc_idle_for cfg) inner))"
  using assms by (auto simp: on_sample_def Let_def split: if_splits)

definition saw_stable_page :: "wait_config \<Rightarrow> wait_world \<Rightarrow> instant \<Rightarrow> instant \<Rightarrow> bool" where
  "saw_stable_page cfg ww t0 t \<longleftrightarrow>
     (\<exists>n smp a b. observed cfg ww n (starts_at cfg ww t0 n) = Some smp \<and> t = done_at cfg ww n (starts_at cfg ww t0 n)
        \<and> sm_target_eligible smp \<and> sm_target_network_quiet smp
        \<and> (wc_strict cfg \<longrightarrow> qs_quiet (quiet_snapshot t (wc_idle_for cfg) (ww_inner ww n)))
        \<and> a < n \<and> wc_stable_for cfg \<le> starts_at cfg ww t0 n - starts_at cfg ww t0 a
        \<and> stable_window cfg ww t0 same_dom a n (sm_target smp)
        \<and> b < n \<and> wc_stable_for cfg \<le> starts_at cfg ww t0 n - starts_at cfg ww t0 b
        \<and> stable_window cfg ww t0 same_text b n (sm_target smp))"

lemma satisfied_loop:
  assumes "readiness_loop cfg ww n (starts_at cfg ww t0 n) s = (Inr oc, t)" and "\<not> wo_timed_out oc"
    and "tracker_ok cfg ww t0 n (ls_target s)" and "open_outcome (ls_outcome s)"
  shows "saw_stable_page cfg ww t0 t"
  using assms
proof (induction "wc_deadline cfg - starts_at cfg ww t0 n" arbitrary: n s rule: less_induct)
  case less
  let ?now = "starts_at cfg ww t0 n"
  have later: "wc_deadline cfg - starts_at cfg ww t0 (Suc n) < wc_deadline cfg - ?now" if "?now < wc_deadline cfg"
    using that next_start_bounds [OF that, of ww n] by (simp add: diff_less_mono2)
  from less.prems(1) show ?case
  proof (cases rule: readiness_loop_cases)
    case expired
    with less.prems(2,4) show ?thesis by (auto simp: give_up_def open_outcome_def)
  next
    case cut
    with less.prems(2,4) show ?thesis by (auto simp: give_up_def open_outcome_def)
  next
    case (rejected e)
    then show ?thesis by simp
  next
    case (satisfied smp s')
    note tg = on_sample_target [OF satisfied(4)]
    then have el: "sm_target_eligible smp" "sm_target_network_quiet smp"
      and q: "wc_strict cfg \<longrightarrow> qs_quiet (quiet_snapshot t (wc_idle_for cfg) (ww_inner ww n))" by auto
    from tg el have st: "st_dom_stable (tracker_observe (sm_target smp) (wc_stable_for cfg) ?now (ls_target s))"
      "st_text_stable (tracker_observe (sm_target smp) (wc_stable_for cfg) ?now (ls_target s))" by auto
    note obs = tracker_observe_ok [OF less.prems(3) satisfied(2) el(1)]
    from obs(2) [OF st(1)] obs(3) [OF st(2)] el q satisfied(2,3) show ?thesis
      unfolding saw_stable_page_def by blast
  next
    case lost
    from lost(3) have "readiness_loop cfg ww (Suc n) (starts_at cfg ww t0 (Suc n)) (on_lost_sample ?now s) = (Inr oc, t)" by simp
    from less.hyps [OF later [OF lost(1)] this less.prems(2)] open_lost [OF less.prems(4)] show ?thesis
      by (simp add: on_lost_sample_def Let_def)
  next
    case (sampled smp s')
    from sampled(4) have l: "readiness_loop cfg ww (Suc n) (starts_at cfg ww t0 (Suc n)) s' = (Inr oc, t)" by simp
    have "tracker_ok cfg ww t0 (Suc n) (ls_target s')"
      using tracker_observe_ok(1) [OF less.prems(3) sampled(2)] on_sample_target(1) [OF sampled(3)] by simp
    from less.hyps [OF later [OF sampled(1)] l less.prems(2) this] on_sample_outcome [OF sampled(3) less.prems(4)]
    show ?thesis by simp
  qed
qed

text \<open>
  C26. A satisfied readiness wait saw a stable page: its last sample was eligible and network-quiet (for
  \<open>auto\<close>, with the whole page's network quiet at that moment), and for at least the stability time
  before it every iteration completed a sample, every sample was eligible and had the same DOM
  measurement, and likewise the same text. A lost sample, an ineligible one or a change restarts the
  window.
\<close>

theorem satisfied_wait_saw_a_stable_page:
  assumes "remaining now ''wait_readiness'' d = (Inr rest, d')"
    and "wait_for_readiness now w timeout idle_ms stable_ms ww d = (Inr oc, t, d'')" and "\<not> wo_timed_out oc"
  shows "saw_stable_page (wait_cfg now rest w timeout idle_ms stable_ms) ww now t"
proof -
  let ?cfg = "wait_cfg now rest w timeout idle_ms stable_ms"
  let ?s = "\<lparr> ls_body = tracker_new now, ls_target = tracker_new now, ls_outcome = initial_outcome w \<rparr>"
  from assms(1,2) have "readiness_loop ?cfg ww 0 (starts_at ?cfg ww now 0) ?s = (Inr oc, t)"
    by (simp add: wait_for_readiness_def split: prod.splits)
  from satisfied_loop [OF this assms(3)] show ?thesis by simp
qed

subsection \<open>A ready sample overlooks nothing\<close>

text \<open>
  What the page says of a frame, in the protocol's own terms: at some moment of the sampling the owner element of
  the frame was looked up and resolved, and the walk upwards from it met no element the selector matches. A
  frame is outside the awaited region when the page says so of it or of the child of the root it lies in.
\<close>

definition reached :: "'w sampler \<Rightarrow> 'w \<Rightarrow> 'w \<Rightarrow> bool" where
  "reached sp w w' \<longleftrightarrow> (\<exists>commands. w' = foldl (\<lambda>w (m, p). snd (sp_send sp m p w)) w commands)"

definition page_places_outside :: "'w sampler \<Rightarrow> 'w \<Rightarrow> string \<Rightarrow> bool" where
  "page_places_outside sp w0 fid \<longleftrightarrow>
     (\<exists>w owner w1 node w2 object_id call answer w3. reached sp w0 w
        \<and> sp_send sp ''DOM.getFrameOwner'' (JObj [(''frameId'', JStr fid)]) w = (Inr owner, w1)
        \<and> sp_send sp ''DOM.resolveNode'' (JObj [(''backendNodeId'', json_idx owner ''backendNodeId'')]) w1 = (Inr node, w2)
        \<and> json_str (json_idx (json_idx node ''object'') ''objectId'') = Some object_id
        \<and> sp_send sp ''Runtime.callFunctionOn'' call w2 = (Inr answer, w3)
        \<and> json_idx call ''objectId'' = JStr object_id
        \<and> json_idx call ''arguments'' = JArr [JObj [(''value'', JStr (sp_selector sp))]]
        \<and> json_idx call ''functionDeclaration'' = JStr owner_walk_js
        \<and> json_bool (json_idx (json_idx answer ''result'') ''value'') = Some False)"

fun tree_ids :: "frame_tree \<Rightarrow> string list" where
  "tree_ids (FrameTree f cs) = fm_id f # concat (map tree_ids cs)"

definition outside_region :: "'w sampler \<Rightarrow> frame_tree \<Rightarrow> 'w \<Rightarrow> string \<Rightarrow> bool" where
  "outside_region sp tree w0 fid \<longleftrightarrow>
     (\<exists>top. page_places_outside sp w0 top
        \<and> (fid = top \<or> (\<exists>c \<in> set (tree_children tree). fm_id (tree_frame c) = top \<and> fid \<in> set (tree_ids c))))"

lemma tree_ids_own: "fm_id (tree_frame t) \<in> set (tree_ids t)"
  by (cases t) simp

lemma tree_ids_child: "c \<in> set (tree_children t) \<Longrightarrow> set (tree_ids c) \<subseteq> set (tree_ids t)"
  by (cases t) auto

lemma reached_refl: "reached sp w w"
  unfolding reached_def by (rule exI [of _ "[]"]) simp

lemma reached_send:
  assumes "reached sp w0 w" and "sp_send sp m p w = (r, w')" shows "reached sp w0 w'"
proof -
  from assms(1) obtain cs where "w = foldl (\<lambda>w (m, p). snd (sp_send sp m p w)) w0 cs" by (auto simp: reached_def)
  then have "foldl (\<lambda>w (m, p). snd (sp_send sp m p w)) w0 (cs @ [(m, p)]) = snd (sp_send sp m p w)" by simp
  with assms(2) have "w' = foldl (\<lambda>w (m, p). snd (sp_send sp m p w)) w0 (cs @ [(m, p)])" by simp
  then show ?thesis unfolding reached_def by blast
qed

text \<open>The operations of the sampler only send commands.\<close>

lemma reached_measure:
  assumes "reached sp w0 w" and "measure_page sp sel ctx w = (m, w')" shows "reached sp w0 w'"
proof -
  obtain r w1 p where sent: "sp_send sp ''Runtime.evaluate'' p w = (r, w1)" and "w' = w1"
    using assms(2) by (auto simp: measure_page_def wbind_def Let_def split: prod.splits sum.splits if_splits option.splits)
  with reached_send [OF assms(1) sent] show ?thesis by simp
qed

lemma reached_context:
  assumes "reached sp w0 (snd st)" and "create_context sp f st = (r, st')" shows "reached sp w0 (snd st')"
proof -
  obtain a w' p where sent: "sp_send sp ''Page.createIsolatedWorld'' p (snd st) = (a, w')" and "snd st' = w'"
    using assms(2) by (auto simp: create_context_def split: prod.splits sum.splits option.splits)
  with reached_send [OF assms(1) sent] show ?thesis by simp
qed

lemma reached_metrics:
  assumes "reached sp w0 (snd st)" and "frame_metrics sp f st = (m, st')" shows "reached sp w0 (snd st')"
proof -
  obtain c st1 where ctx: "(case map_of (fst st) (fm_id f) of
      Some (loader, c) \<Rightarrow> if loader = fm_loader f then (Inr c, st) else create_context sp f st
    | None \<Rightarrow> create_context sp f st) = (c, st1)" by (metis surj_pair)
  then have "(c, st1) = (c, st) \<or> create_context sp f st = (c, st1)" by (auto split: option.splits if_splits)
  with assms(1) reached_context [OF assms(1)] have st1: "reached sp w0 (snd st1)" by blast
  show ?thesis
  proof (cases c)
    case Inl with assms(2) ctx st1 show ?thesis by (simp add: frame_metrics_def wbind_def)
  next
    case (Inr i)
    obtain r w' where page: "measure_page sp ''body'' (Some i) (snd st1) = (r, w')" by (metis surj_pair)
    have "snd st' = w'"
      using assms(2) ctx Inr page by (cases st1) (auto simp: frame_metrics_def wbind_def split: sum.splits)
    with reached_measure [OF st1 page] show ?thesis by simp
  qed
qed

lemma reached_owner:
  assumes "reached sp w0 w" and "owner_in_target sp fid w = (r, w')"
  shows "reached sp w0 w' \<and> (r = Inr False \<longrightarrow> page_places_outside sp w0 fid)"
proof -
  obtain r1 w1 where s1: "sp_send sp ''DOM.getFrameOwner'' (JObj [(''frameId'', JStr fid)]) w = (r1, w1)" by fastforce
  note w1 = reached_send [OF assms(1) s1]
  show ?thesis
  proof (cases r1)
    case Inl with assms(2) s1 w1 show ?thesis by (auto simp: owner_in_target_def wbind_def)
  next
    case (Inr owner)
    note s1 = s1 [unfolded Inr]
    obtain r2 w2 where s2: "sp_send sp ''DOM.resolveNode'' (JObj [(''backendNodeId'', json_idx owner ''backendNodeId'')]) w1 = (r2, w2)" by fastforce
    note w2 = reached_send [OF w1 s2]
    show ?thesis
    proof (cases "\<exists>node object_id. r2 = Inr node \<and> json_str (json_idx (json_idx node ''object'') ''objectId'') = Some object_id")
      case False
      with assms(2) s1 s2 w2 show ?thesis by (auto simp: owner_in_target_def wbind_def split: sum.splits option.splits)
    next
      case True
      then obtain node object_id where node: "r2 = Inr node" "json_str (json_idx (json_idx node ''object'') ''objectId'') = Some object_id" by blast
      define call where "call = JObj [(''arguments'', JArr [JObj [(''value'', JStr (sp_selector sp))]]),
          (''functionDeclaration'', JStr owner_walk_js),
          (''objectId'', JStr object_id), (''returnByValue'', JBool True)]"
      obtain r3 w3 where s3: "sp_send sp ''Runtime.callFunctionOn'' call w2 = (r3, w3)" by fastforce
      obtain r4 w4 where s4: "sp_send sp ''Runtime.releaseObject'' (JObj [(''objectId'', JStr object_id)]) w3 = (r4, w4)" by fastforce
      have "owner_in_target sp fid w = wbind (r3, w4) (\<lambda>v w. case json_bool (json_idx (json_idx v ''result'') ''value'') of
          Some b \<Rightarrow> (Inr b, w) | None \<Rightarrow> (fail CdpError ''frame owner scope could not be inspected'', w))"
        using s1 s2 node s3 s4 by (simp add: owner_in_target_def wbind_def call_def)
      with assms(2) have ends: "w' = w4"
        and answer: "r = Inr False \<Longrightarrow> \<exists>v. r3 = Inr v \<and> json_bool (json_idx (json_idx v ''result'') ''value'') = Some False"
        by (auto simp: wbind_def split: sum.splits option.splits)
      have "page_places_outside sp w0 fid" if "r = Inr False"
      proof -
        from answer [OF that] obtain v where v: "r3 = Inr v" "json_bool (json_idx (json_idx v ''result'') ''value'') = Some False" by blast
        have call: "json_idx call ''objectId'' = JStr object_id"
          "json_idx call ''arguments'' = JArr [JObj [(''value'', JStr (sp_selector sp))]]"
          "json_idx call ''functionDeclaration'' = JStr owner_walk_js"
          by (simp_all add: call_def json_idx_def)
        from assms(1) s1 s2 [unfolded node] node(2) s3 [unfolded v] call v(2) show ?thesis
          unfolding page_places_outside_def by blast
      qed
      with ends reached_send [OF reached_send [OF w2 s3] s4] show ?thesis by blast
    qed
  qed
qed

text \<open>
  The scope a frame can get: no frame is a main document, in \<open>auto\<close> none is ancillary, and in a selector wait only one
  outside the awaited region is.
\<close>

definition scope_ok :: "'w sampler \<Rightarrow> frame_tree \<Rightarrow> 'w \<Rightarrow> string \<Rightarrow> request_scope \<Rightarrow> bool" where
  "scope_ok sp tree w0 fid sc \<longleftrightarrow> sc \<noteq> MainDocument \<and> (sc = Ancillary \<longrightarrow> \<not> sp_strict sp \<and> outside_region sp tree w0 fid)"

definition frame_ok :: "'w sampler \<Rightarrow> frame_tree \<Rightarrow> 'w \<Rightarrow> scoped_frame \<Rightarrow> bool" where
  "frame_ok sp tree w0 f \<longleftrightarrow> scope_ok sp tree w0 (fm_id (sf_frame f)) (sf_scope f)"

lemma frame_scope_ok:
  assumes "reached sp w0 (snd st)" and "frame_scope sp fid st = (sc, st')"
  shows "reached sp w0 (snd st') \<and> sc \<noteq> MainDocument \<and> (sc = Ancillary \<longrightarrow> \<not> sp_strict sp \<and> page_places_outside sp w0 fid)"
proof (cases "sp_strict sp")
  case True with assms show ?thesis by (auto simp: frame_scope_def)
next
  case False
  obtain r w' where owner: "owner_in_target sp fid (snd st) = (r, w')" by fastforce
  from reached_owner [OF assms(1) owner] assms(2) owner False show ?thesis
    by (auto simp: frame_scope_def split: sum.splits bool.splits)
qed

lemma observe_frame_scope:
  assumes "reached sp w0 (snd st)" and "observe_frame sp f scope st = ((sf, unseen), st')"
  shows "sf_scope sf = scope \<and> sf_frame sf = f \<and> reached sp w0 (snd st')"
  using assms by (auto simp: observe_frame_def dest: reached_metrics split: prod.splits if_splits)

text \<open>What the walk over the renderer's frame tree still has to visit.\<close>

definition queue_ok :: "'w sampler \<Rightarrow> frame_tree \<Rightarrow> 'w \<Rightarrow> frame_tree \<times> request_scope option \<Rightarrow> bool" where
  "queue_ok sp tree w0 q \<longleftrightarrow>
     (case snd q of
        None \<Rightarrow> fst q \<in> set (tree_children tree)
      | Some sc \<Rightarrow> sc \<noteq> MainDocument \<and> (sc = Ancillary \<longrightarrow> \<not> sp_strict sp
          \<and> (\<exists>c \<in> set (tree_children tree). set (tree_ids (fst q)) \<subseteq> set (tree_ids c) \<and> page_places_outside sp w0 (fm_id (tree_frame c)))))"

lemma visited_scope_ok:
  assumes "queue_ok sp tree w0 (child, parent)" and "reached sp w0 (snd st)"
    and "(case parent of Some s \<Rightarrow> (s, st) | None \<Rightarrow> frame_scope sp (fm_id (tree_frame child)) st) = (scope, st1)"
  shows "reached sp w0 (snd st1) \<and> scope_ok sp tree w0 (fm_id (tree_frame child)) scope
       \<and> (\<forall>c \<in> set (tree_children child). queue_ok sp tree w0 (c, Some scope))"
proof (cases parent)
  case None
  with assms(3) have "frame_scope sp (fm_id (tree_frame child)) st = (scope, st1)" by simp
  from None assms(1) frame_scope_ok [OF assms(2) this] tree_ids_child show ?thesis
    unfolding queue_ok_def scope_ok_def outside_region_def by (auto; blast)
next
  case (Some s)
  with assms have "scope = s" "st1 = st" by auto
  have within: "set (tree_ids c) \<subseteq> X" "fm_id (tree_frame child) \<in> X"
    if "set (tree_ids child) \<subseteq> X" "c \<in> set (tree_children child)" for c X
    using that tree_ids_own [of child] tree_ids_child by blast+
  have own: "fm_id (tree_frame child) \<in> X" if "set (tree_ids child) \<subseteq> X" for X using that tree_ids_own by blast
  have "scope_ok sp tree w0 (fm_id (tree_frame child)) scope"
    using Some assms(1) \<open>scope = s\<close> own by (auto simp: queue_ok_def scope_ok_def outside_region_def; blast)
  moreover have "queue_ok sp tree w0 (c, Some scope)" if "c \<in> set (tree_children child)" for c
    using Some assms(1) \<open>scope = s\<close> within(1) [OF _ that] by (auto simp: queue_ok_def; blast)
  ultimately show ?thesis using assms(2) \<open>st1 = st\<close> by simp
qed

lemma walk_frames_scopes:
  assumes "\<forall>q \<in> set q. queue_ok sp tree w0 q" and "\<forall>f \<in> set frames. frame_ok sp tree w0 f" and "reached sp w0 (snd st)"
    and "walk_frames sp q frames missed st = (fs, ms, st')"
  shows "(\<forall>f \<in> set fs. frame_ok sp tree w0 f) \<and> reached sp w0 (snd st') \<and> (\<exists>more. fs = frames @ more)"
  using assms
proof (induction sp q frames missed st rule: walk_frames.induct)
  case (2 sp child parent queue frames missed st)
  show ?case
  proof (cases "frame_limit \<le> length frames")
    case True
    with 2 show ?thesis by simp
  next
    case False
    obtain scope st1 where sc: "(case parent of Some s \<Rightarrow> (s, st) | None \<Rightarrow> frame_scope sp (fm_id (tree_frame child)) st) = (scope, st1)"
      by (metis surj_pair)
    from "2.prems"(1) have "queue_ok sp tree w0 (child, parent)" by simp
    note at = visited_scope_ok [OF this "2.prems"(3) sc]
    obtain sf unseen st2 where ob: "observe_frame sp (tree_frame child) scope st1 = ((sf, unseen), st2)" by (metis prod.exhaust)
    note seen = observe_frame_scope [OF conjunct1 [OF at] ob]
    from "2.prems"(4) False sc ob
    have w: "walk_frames sp (queue @ map (\<lambda>c. (c, Some scope)) (tree_children child)) (frames @ [sf])
               (if unseen then missed @ [fm_id (tree_frame child)] else missed) st2 = (fs, ms, st')" by simp
    have "(\<forall>f \<in> set fs. frame_ok sp tree w0 f) \<and> reached sp w0 (snd st') \<and> (\<exists>more. fs = (frames @ [sf]) @ more)"
      by (rule "2.IH"(2) [OF refl False sc [symmetric] ob [symmetric] refl _ _ _ w])
         (use "2.prems"(1,2) at seen in \<open>auto simp: frame_ok_def\<close>)
    then show ?thesis by auto
  qed
qed simp

lemma walk_documents_scopes:
  assumes "\<forall>f \<in> set frames. frame_ok sp tree w0 f" and "reached sp w0 (snd st)"
    and "walk_documents sp rs frames missed st = (fs, ms, st')"
  shows "(\<forall>f \<in> set fs. frame_ok sp tree w0 f) \<and> (\<exists>more. fs = frames @ more)"
  using assms
proof (induction rs arbitrary: frames missed st)
  case (Cons r rs)
  show ?case
  proof (cases "\<exists>missed. walk_documents sp rs frames missed st = (fs, ms, st')")
    case True
    then show ?thesis using Cons.IH [OF Cons.prems(1,2)] by blast
  next
    case False
    with Cons.prems(3) obtain fid where fid: "ne_frame_id (or_entry r) = Some fid"
      and asked: "\<not> (ne_resource_type (or_entry r) \<noteq> ''Document'' \<or> list_ex (\<lambda>f. fm_id (sf_frame f) = fid) frames)" "\<not> frame_limit \<le> length frames"
      by (auto simp: Let_def split: option.splits if_splits)
    obtain scope st1 where sc: "frame_scope sp fid st = (scope, st1)" by (metis surj_pair)
    note at = frame_scope_ok [OF Cons.prems(2) sc]
    let ?f = "\<lparr> fm_id = fid, fm_url = ne_request_url (or_entry r), fm_loader = str_or [] (ne_loader_id (or_entry r)) \<rparr>"
    obtain sf unseen st2 where ob: "observe_frame sp ?f scope st1 = ((sf, unseen), st2)" by (metis prod.exhaust)
    note seen = observe_frame_scope [OF conjunct1 [OF at] ob]
    have "frame_ok sp tree w0 sf" using at seen by (auto simp: frame_ok_def scope_ok_def outside_region_def)
    with Cons.prems(1) have ok: "\<forall>f \<in> set (frames @ [sf]). frame_ok sp tree w0 f" by auto
    from Cons.prems(3) fid asked sc ob
    have w: "walk_documents sp rs (frames @ [sf]) (if unseen then missed @ [fid] else missed) st2 = (fs, ms, st')"
      by (simp add: Let_def)
    from Cons.IH [OF ok _ w] seen show ?thesis by auto
  qed
qed simp

text \<open>The last request that speaks for the main document has finished.\<close>

lemma main_document_ready:
  "main_document_state frames rs = Ready \<Longrightarrow>
     filter (speaks_for_main frames) (map or_entry rs) \<noteq> []
     \<and> ne_state (List.last (filter (speaks_for_main frames) (map or_entry rs))) = Finished"
  by (induction rs rule: rev_induct) (auto simp: main_document_state_def split: if_splits)

lemma assess_eligible:
  assumes "sm_target_eligible (assess hash frames network body selector strict idle_for unobserved)"
  shows "rn_complete network \<and> unobserved = [] \<and> main_document_state frames (rn_requests network) = Ready
       \<and> \<not> failed_target_document frames (rn_requests network)"
  using assms by (auto simp: assess_def Let_def)

lemma assess_quiet:
  assumes "sm_target_network_quiet (assess hash frames network body selector strict idle_for unobserved)"
    and "r \<in> set (rn_requests network)" and "is_required frames r"
  shows "\<not> in_flight (or_entry r) \<and> idle_for \<le> or_idle_for r"
  using assms by (auto simp: assess_def Let_def list_ex_iff not_less)

lemma take_sample_cases:
  assumes "take_sample sp now inner idle_for st = (Inr smp, st')"
  obtains frames missed root body answer w1 tree where
    "smp = assess (sp_hash sp) frames (fst (readiness_snapshot now root inner)) body (sp_selector sp) (sp_strict sp) idle_for missed"
    "\<forall>f \<in> set frames. frame_ok sp tree (snd st) f"
    "frames \<noteq> []" "sf_frame (hd frames) = tree_frame tree"
    "sp_send sp ''Page.getFrameTree'' (JObj []) (snd st) = (Inr answer, w1)"
    "sp_parse_tree sp (json_idx answer ''frameTree'') = Some tree"
proof -
  obtain ctxs w where st: "st = (ctxs, w)" by (cases st)
  obtain g w1 where g: "sp_send sp ''Page.getFrameTree'' (JObj []) w = (g, w1)" by fastforce
  from assms obtain v where v: "g = Inr v" by (cases g) (auto simp: take_sample_def st g)
  from assms obtain tree where tree: "sp_parse_tree sp (json_idx v ''frameTree'') = Some tree"
    by (cases "sp_parse_tree sp (json_idx v ''frameTree'')") (auto simp: take_sample_def st g v)
  obtain m w2 where m: "measure_page sp (sp_selector sp) None w1 = (m, w2)" by fastforce
  have w2: "reached sp w w2" by (rule reached_measure [OF reached_send [OF reached_refl g] m])
  from assms obtain ms where ms: "m = Inr ms" by (cases m) (auto simp: take_sample_def st g v tree m)
  let ?root = "\<lparr> sf_frame = tree_frame tree, sf_scope = Target, sf_metrics = Some (ms_selected ms) \<rparr>"
  obtain fs ms1 st1 where wf: "walk_frames sp (map (\<lambda>c. (c, None)) (tree_children tree)) [?root] [] (ctxs, w2) = (fs, ms1, st1)"
    by (metis prod.exhaust)
  let ?net = "fst (readiness_snapshot now (fm_id (tree_frame tree)) inner)"
  obtain frames missed st2 where wd: "walk_documents sp (rn_requests ?net) fs ms1 st1 = (frames, missed, st2)"
    by (metis prod.exhaust)
  have smp: "smp = assess (sp_hash sp) frames ?net (mt_page (ms_body ms)) (sp_selector sp) (sp_strict sp) idle_for missed"
    using assms by (simp add: take_sample_def st g v tree m ms wf wd Let_def)
  have walked: "(\<forall>f \<in> set fs. frame_ok sp tree w f) \<and> reached sp w (snd st1) \<and> (\<exists>more. fs = [?root] @ more)"
    by (rule walk_frames_scopes [OF _ _ _ wf]) (auto simp: queue_ok_def frame_ok_def scope_ok_def w2)
  then have "(\<forall>f \<in> set frames. frame_ok sp tree w f) \<and> (\<exists>more. frames = fs @ more)"
    using walk_documents_scopes [OF _ _ wd] by blast
  with walked have frames: "\<forall>f \<in> set frames. frame_ok sp tree (snd st) f" "frames \<noteq> []" "sf_frame (hd frames) = tree_frame tree"
    by (auto simp: st)
  have root: "sp_send sp ''Page.getFrameTree'' (JObj []) (snd st) = (Inr v, w1)" using g v st by simp
  from that [OF smp frames root tree] show thesis .
qed

lemma snapshot_requests:
  "rn_requests (fst (readiness_snapshot now frame inner)) =
     map (\<lambda>(_, sl). \<lparr> or_entry = sl_entry sl, or_waited = now - sl_started_at sl, or_idle_for = now - sl_updated_at sl \<rparr>)
       (ni_slots inner)"
  "rn_complete (fst (readiness_snapshot now frame inner)) \<longleftrightarrow> ni_events_dropped inner = 0 \<and> \<not> ni_truncated inner"
  by (simp_all add: readiness_snapshot_def select_main_document_def split: option.split)

text \<open>
  C27. A sample that counts towards readiness overlooks nothing: the collector lost no event and dropped no request,
  and the main document is there: of the document requests of the root frame under the loader the browser reports
  for it, redirect hops apart, the last has finished. Every request of the aggregate has ended and been silent
  for the idle time. In \<open>auto\<close> there is no exception: one request in flight anywhere, in any frame, keeps the page
  from being ready. In a selector wait the only exception is a request of a frame outside the awaited
  region, and never a document of the root frame: the page itself said, during this sample, that no element the
  selector matches holds the frame's owner, or that of the child of the root it lies in.
\<close>

theorem ready_sample_overlooks_nothing:
  assumes "take_sample sp now inner idle_for st = (Inr smp, st')"
    and "sm_target_eligible smp" and "sm_target_network_quiet smp"
  shows "ni_events_dropped inner = 0 \<and> \<not> ni_truncated inner
    \<and> (\<exists>answer w1 tree main. sp_send sp ''Page.getFrameTree'' (JObj []) (snd st) = (Inr answer, w1)
         \<and> sp_parse_tree sp (json_idx answer ''frameTree'') = Some tree
         \<and> main = filter (\<lambda>e. ne_resource_type e = ''Document'' \<and> ne_frame_id e = Some (fm_id (tree_frame tree))
                     \<and> ne_loader_id e = Some (fm_loader (tree_frame tree)) \<and> \<not> is_redirect_hop e) (slot_entries inner)
         \<and> main \<noteq> [] \<and> ne_state (List.last main) = Finished
         \<and> (\<forall>(r, sl) \<in> set (ni_slots inner).
              (\<not> in_flight (sl_entry sl) \<and> idle_for \<le> now - sl_updated_at sl)
              \<or> (\<not> sp_strict sp
                 \<and> \<not> (ne_resource_type (sl_entry sl) = ''Document'' \<and> ne_frame_id (sl_entry sl) = Some (fm_id (tree_frame tree)))
                 \<and> (\<exists>fid. ne_frame_id (sl_entry sl) = Some fid \<and> outside_region sp tree (snd st) fid))))"
proof -
  from take_sample_cases [OF assms(1)] obtain frames missed root body answer w1 tree where
    smp: "smp = assess (sp_hash sp) frames (fst (readiness_snapshot now root inner)) body (sp_selector sp) (sp_strict sp) idle_for missed"
    and ok: "\<forall>f \<in> set frames. frame_ok sp tree (snd st) f" and hd_frames: "sf_frame (hd frames) = tree_frame tree"
    and asked: "sp_send sp ''Page.getFrameTree'' (JObj []) (snd st) = (Inr answer, w1)"
      "sp_parse_tree sp (json_idx answer ''frameTree'') = Some tree" by metis
  from assess_eligible [OF assms(2) [unfolded smp]]
  have complete: "ni_events_dropped inner = 0 \<and> \<not> ni_truncated inner"
    and main: "main_document_state frames (rn_requests (fst (readiness_snapshot now root inner))) = Ready"
    by (auto simp: snapshot_requests)
  have known: "f \<in> set frames \<and> fm_id (sf_frame f) = fid" if "frame_by_id frames fid = Some f" for fid f
    using that by (auto simp: frame_by_id_def dest!: map_of_SomeD)
  let ?speaks = "\<lambda>e. ne_resource_type e = ''Document'' \<and> ne_frame_id e = Some (fm_id (tree_frame tree))
      \<and> ne_loader_id e = Some (fm_loader (tree_frame tree)) \<and> \<not> is_redirect_hop e"
  have scopes: "request_scope_of frames e = MainDocument \<longleftrightarrow> ne_resource_type e = ''Document'' \<and> ne_frame_id e = Some (fm_id (tree_frame tree))" for e
  proof (cases "request_frame frames e")
    case (Some f)
    then obtain fid where "frame_by_id frames fid = Some f" by (auto simp: request_frame_def bind_eq_Some_conv)
    with known ok have "sf_scope f \<noteq> MainDocument" by (auto simp: frame_ok_def scope_ok_def)
    with Some show ?thesis by (simp add: request_scope_of_def hd_frames)
  qed (simp add: request_scope_of_def hd_frames)
  have "speaks_for_main frames e \<longleftrightarrow> ?speaks e" for e
    unfolding speaks_for_main_def scopes hd_frames by simp
  then have "speaks_for_main frames = ?speaks" by blast
  moreover have "map or_entry (rn_requests (fst (readiness_snapshot now root inner))) = slot_entries inner"
    by (simp add: snapshot_requests slot_entries_def comp_def case_prod_unfold)
  ultimately have doc: "filter ?speaks (slot_entries inner) \<noteq> []" "ne_state (List.last (filter ?speaks (slot_entries inner))) = Finished"
    using main_document_ready [OF main] by simp_all
  have quiet: "(\<not> in_flight (sl_entry sl) \<and> idle_for \<le> now - sl_updated_at sl)
              \<or> (\<not> sp_strict sp
                 \<and> \<not> (ne_resource_type (sl_entry sl) = ''Document'' \<and> ne_frame_id (sl_entry sl) = Some (fm_id (tree_frame tree)))
                 \<and> (\<exists>fid. ne_frame_id (sl_entry sl) = Some fid \<and> outside_region sp tree (snd st) fid))"
    if sl: "(r, sl) \<in> set (ni_slots inner)" for r sl
  proof -
    let ?rq = "\<lparr> or_entry = sl_entry sl, or_waited = now - sl_started_at sl, or_idle_for = now - sl_updated_at sl \<rparr>"
    from sl have mem: "?rq \<in> set (rn_requests (fst (readiness_snapshot now root inner)))"
      by (force simp: snapshot_requests)
    show ?thesis
    proof (cases "is_required frames ?rq")
      case True
      from assess_quiet [OF assms(3) [unfolded smp] mem True] show ?thesis by simp
    next
      case False
      then obtain f where f: "request_frame frames (sl_entry sl) = Some f" "sf_scope f = Ancillary"
        and other: "\<not> (ne_resource_type (sl_entry sl) = ''Document'' \<and> ne_frame_id (sl_entry sl) = Some (fm_id (tree_frame tree)))"
        by (auto simp: is_required_def request_scope_of_def hd_frames split: if_splits option.splits)
      from f(1) obtain fid where fid: "ne_frame_id (sl_entry sl) = Some fid" "frame_by_id frames fid = Some f"
        by (auto simp: request_frame_def bind_eq_Some_conv)
      from known [OF fid(2)] ok f(2) have "\<not> sp_strict sp \<and> outside_region sp tree (snd st) fid"
        by (auto simp: frame_ok_def scope_ok_def)
      with fid(1) other show ?thesis by blast
    qed
  qed
  have "\<forall>(r, sl) \<in> set (ni_slots inner). (\<not> in_flight (sl_entry sl) \<and> idle_for \<le> now - sl_updated_at sl)
              \<or> (\<not> sp_strict sp
                 \<and> \<not> (ne_resource_type (sl_entry sl) = ''Document'' \<and> ne_frame_id (sl_entry sl) = Some (fm_id (tree_frame tree)))
                 \<and> (\<exists>fid. ne_frame_id (sl_entry sl) = Some fid \<and> outside_region sp tree (snd st) fid))" (is "\<forall>x \<in> _. ?quiet x")
  proof
    fix x assume "x \<in> set (ni_slots inner)"
    then show "?quiet x" using quiet [of "fst x" "snd x"] by (simp add: case_prod_unfold)
  qed
  with complete asked doc show ?thesis by (intro conjI exI) (simp_all only: simp_thms)
qed

subsection \<open>Concrete waits\<close>

definition demo_metrics :: page_metrics where
  "demo_metrics = \<lparr> pm_text_len = 4, pm_text_hash = 7, pm_node_count = 2, pm_dom_hash = 9 \<rparr>"

definition demo_sampler :: "unit sampler" where
  "demo_sampler = \<lparr> sp_send = (\<lambda>_ _ w. (Inr JNull, w)), sp_json_text = (\<lambda>_. []),
     sp_parse_tree = (\<lambda>_. Some (FrameTree \<lparr> fm_id = ''f'', fm_url = ''u'', fm_loader = ''l'' \<rparr> [])),
     sp_parse_measurements = (\<lambda>_. let m = \<lparr> mt_page = demo_metrics, mt_eligible = True, mt_document_ready = True \<rparr>
        in Some \<lparr> ms_body = m, ms_selected = m \<rparr>),
     sp_metrics_js = [], sp_hash = (\<lambda>_. 0), sp_selector = ''body'', sp_strict = True \<rparr>"

definition demo_document :: network_inner where
  "demo_document = network_inner_default\<lparr> ni_slots := [(''1'',
     \<lparr> sl_entry = default_entry\<lparr> ne_request_id := ''1'', ne_resource_type := ''Document'', ne_frame_id := Some ''f'',
          ne_loader_id := Some ''l'', ne_state := Finished \<rparr>, sl_started_at = 0, sl_updated_at = 2 \<rparr>)] \<rparr>"

definition demo_sample :: sample where
  "demo_sample = assess (\<lambda>_. 0) [\<lparr> sf_frame = \<lparr> fm_id = ''f'', fm_url = ''u'', fm_loader = ''l'' \<rparr>, sf_scope = Target,
       sf_metrics = Some \<lparr> mt_page = demo_metrics, mt_eligible = True, mt_document_ready = True \<rparr> \<rparr>]
     (fst (readiness_snapshot 5 ''f'' demo_document)) demo_metrics ''body'' True 3 []"

lemma demo_take_sample: "take_sample demo_sampler 5 demo_document 3 ([], ()) = (Inr demo_sample, ([], ()))"
  by (simp add: take_sample_def demo_sampler_def measure_page_def wbind_def json_idx_def Let_def snapshot_requests
      demo_document_def network_inner_default_def default_entry_def demo_sample_def)

lemma demo_sample_ready: "sm_target_eligible demo_sample" "sm_target_network_quiet demo_sample"
  by (simp_all add: demo_sample_def assess_def Let_def snapshot_requests demo_document_def network_inner_default_def
      default_entry_def main_document_state_def speaks_for_main_def request_scope_of_def is_redirect_hop_def
      failed_target_document_def in_flight_def)

theorem ready_sample_overlooks_nothing_witness:
  "\<exists>smp. take_sample demo_sampler 5 demo_document 3 ([], ()) = (Inr smp, ([], ())) \<and> sm_target_eligible smp
     \<and> (\<exists>e \<in> set (slot_entries demo_document). ne_state e = Finished)"
proof -
  from ready_sample_overlooks_nothing [OF demo_take_sample demo_sample_ready]
  obtain main P where "main = filter P (slot_entries demo_document)" "main \<noteq> []" "ne_state (List.last main) = Finished"
    by (elim conjE exE) (rule that)
  moreover from this have "List.last main \<in> set (slot_entries demo_document)" by (metis filter_is_subset last_in_set subset_iff)
  ultimately show ?thesis using demo_take_sample demo_sample_ready by blast
qed

definition demo_deadline :: fetch_deadline where "demo_deadline = deadline_new 0 (secs 10) TraceAuto"

lemma demo_remaining: "\<exists>d'. remaining 0 ''wait_readiness'' demo_deadline = (Inr (secs 10), d')"
  by (simp add: remaining_def remaining_without_stage_update_def set_stage_def demo_deadline_def deadline_new_def secs_def)

definition demo_world :: "(nat \<Rightarrow> sample result) \<Rightarrow> wait_world" where
  "demo_world f = \<lparr> ww_cost = (\<lambda>_. 0), ww_sample = f, ww_inner = (\<lambda>_. demo_document) \<rparr>"

theorem readiness_wait_returns_witness:
  "\<exists>r t d'. wait_for_readiness 0 WaitAuto (secs 10) 800 500 (demo_world (\<lambda>_. fail CdpError [])) demo_deadline = (r, t, d')
     \<and> t + millis 750 \<le> secs 10"
proof -
  from demo_remaining obtain d' where "remaining 0 ''wait_readiness'' demo_deadline = (Inr (secs 10), d')" by blast
  from readiness_wait_returns [OF this, of WaitAuto "secs 10" 800 500 "demo_world (\<lambda>_. fail CdpError [])"]
  have "\<exists>r t. wait_for_readiness 0 WaitAuto (secs 10) 800 500 (demo_world (\<lambda>_. fail CdpError [])) demo_deadline = (r, t, d')
     \<and> t + millis 750 \<le> secs 10"
    by (auto simp: secs_def millis_def)
  then show ?thesis by blast
qed

theorem satisfied_wait_saw_a_stable_page_witness:
  "\<exists>oc d''. wait_for_readiness 0 (WaitSelectorStable ''p'') (secs 10) 800 0 (demo_world (\<lambda>_. Inr demo_sample)) demo_deadline
       = (Inr oc, millis 100, d'') \<and> \<not> wo_timed_out oc
     \<and> saw_stable_page (wait_cfg 0 (secs 10) (WaitSelectorStable ''p'') (secs 10) 800 0) (demo_world (\<lambda>_. Inr demo_sample)) 0 (millis 100)"
proof -
  from demo_remaining obtain d' where r: "remaining 0 ''wait_readiness'' demo_deadline = (Inr (secs 10), d')" by blast
  define cfg where "cfg = wait_cfg 0 (secs 10) (WaitSelectorStable ''p'') (secs 10) 800 0"
  let ?ww = "demo_world (\<lambda>_. Inr demo_sample)"
  have cfg: "wc_deadline cfg = 9250000000" "wc_stable_for cfg = 0" "\<not> wc_strict cfg"
    by (simp_all add: cfg_def wait_cfg_def auto_readiness_budget_def secs_def millis_def)
  have ww: "ww_cost ?ww n = 0" "ww_sample ?ww n = Inr demo_sample" for n by (simp_all add: demo_world_def)
  have "\<exists>oc. readiness_loop cfg ?ww 0 0 \<lparr> ls_body = tracker_new 0, ls_target = tracker_new 0,
      ls_outcome = initial_outcome (WaitSelectorStable ''p'') \<rparr> = (Inr oc, millis 100) \<and> \<not> wo_timed_out oc"
    by (simp add: readiness_loop.simps [where n = 0] readiness_loop.simps [where n = "Suc 0"] cfg ww done_at_def next_start_def
        sample_budget_def sleep_until_def on_sample_def Let_def tracker_observe_def tracker_new_def demo_sample_ready
        same_dom_def same_text_def secs_def millis_def)
  with r obtain oc where w: "wait_for_readiness 0 (WaitSelectorStable ''p'') (secs 10) 800 0 ?ww demo_deadline
      = (Inr oc, millis 100, d')" and oc: "\<not> wo_timed_out oc"
    by (auto simp: wait_for_readiness_def cfg_def)
  from satisfied_wait_saw_a_stable_page [OF r w oc] w oc show ?thesis by blast
qed

end
