(* ===== verification/Session.thy ===== *)
theory Session
  imports Json Errors
begin

text \<open>
  The helpers around a CDP target (\<open>sdk/cdp/session.rs\<close>): creating, attaching, detaching, and closing a
  tab without losing the browser's last window. A command has the session it is for (none for the browser
  itself), its method and its parameters. The browser is an argument: what it answers, and after how
  long, to a command given all commands sent before it on this connection (newest first).
\<close>

type_synonym command = "string option \<times> string \<times> json"
type_synonym cdp_peer = "command list \<Rightarrow> json result \<times> duration"

text \<open>\<open>conn.send(..)\<close>: the command is sent, the reply awaited without a limit of its own.\<close>

definition ask :: "cdp_peer \<Rightarrow> string \<Rightarrow> json \<Rightarrow> command list \<Rightarrow> json result \<times> command list" where
  "ask peer m p h = (fst (peer ((None, m, p) # h)), (None, m, p) # h)"

text \<open>\<open>conn.send_timeout(..)\<close>, as far as its callers here look at it: the answer, if it came in time.\<close>

definition answer_within :: "cdp_peer \<Rightarrow> duration \<Rightarrow> string \<Rightarrow> json \<Rightarrow> command list \<Rightarrow> json option \<times> command list" where
  "answer_within peer limit m p h =
     (case peer ((None, m, p) # h) of (r, d) \<Rightarrow> (if d \<le> limit then res_ok r else None, (None, m, p) # h))"

definition target_param :: "string \<Rightarrow> json" where
  "target_param t = JObj [(''targetId'', JStr t)]"

definition create_blank_target :: "cdp_peer \<Rightarrow> command list \<Rightarrow> string result \<times> command list" where
  "create_blank_target peer h =
     (case ask peer ''Target.createTarget'' (JObj [(''url'', JStr ''about:blank'')]) h of
        (r, h) \<Rightarrow> (and_then r (\<lambda>target.
            ok_or (error_new CdpError ''Target.createTarget: no targetId returned'')
              (json_str (json_idx target ''targetId''))), h))"

definition attach_to_target :: "cdp_peer \<Rightarrow> string \<Rightarrow> command list \<Rightarrow> string result \<times> command list" where
  "attach_to_target peer t h =
     (case ask peer ''Target.attachToTarget'' (JObj [(''flatten'', JBool True), (''targetId'', JStr t)]) h of
        (r, h) \<Rightarrow> (and_then r (\<lambda>attach.
            ok_or (error_new CdpError ''Target.attachToTarget: no sessionId returned'')
              (json_str (json_idx attach ''sessionId''))), h))"

definition detach_from_target :: "cdp_peer \<Rightarrow> string \<Rightarrow> command list \<Rightarrow> unit result \<times> command list" where
  "detach_from_target peer sid h =
     (case ask peer ''Target.detachFromTarget'' (JObj [(''sessionId'', JStr sid)]) h of
        (r, h) \<Rightarrow> (and_then r (\<lambda>_. Inr ()), h))"

definition call_with_timeout :: "cdp_peer \<Rightarrow> string \<Rightarrow> json \<Rightarrow> duration \<Rightarrow> command list \<Rightarrow> json result \<times> command list" where
  "call_with_timeout peer m p limit h =
     (case peer ((None, m, p) # h) of
        (r, d) \<Rightarrow> (if d \<le> limit then r else fail CdpTimeout (''CDP '' @ m @ '': timeout''), (None, m, p) # h))"

subsection \<open>Closing a tab without closing the browser\<close>

definition window_anchor :: string where "window_anchor = ''about:blank#afhttp-window-anchor''"

text \<open>Lightpanda's answer while its one page exists.\<close>

definition refuses_second_target :: "error \<Rightarrow> bool" where
  "refuses_second_target e \<longleftrightarrow> error_code e = CdpError \<and> ends_with (detail e) '': TargetAlreadyLoaded''"

definition is_anchor :: "string \<Rightarrow> json \<Rightarrow> bool" where
  "is_anchor t page \<longleftrightarrow> json_str (json_idx page ''type'') = Some ''page''
     \<and> (case json_str (json_idx page ''targetId'') of Some i \<Rightarrow> i \<noteq> t | None \<Rightarrow> False)
     \<and> json_str (json_idx page ''url'') = Some window_anchor"

definition new_target :: "string \<Rightarrow> json \<Rightarrow> bool" where
  "new_target t reply \<longleftrightarrow>
     (case json_str (json_idx reply ''targetId'') of Some i \<Rightarrow> i \<noteq> [] \<and> i \<noteq> t | None \<Rightarrow> False)"

text \<open>
  One command inside \<open>tokio::time::timeout\<close>: when the reply comes too late the whole operation has
  timed out, with the command sent and nothing after it.
\<close>

type_synonym timed = "unit result \<times> duration \<times> command list"

definition within ::
  "cdp_peer \<Rightarrow> duration \<Rightarrow> string \<Rightarrow> json \<Rightarrow> duration \<Rightarrow> command list \<Rightarrow>
   (json result \<Rightarrow> duration \<Rightarrow> command list \<Rightarrow> timed) \<Rightarrow> timed" where
  "within peer limit m p used h k =
     (case peer ((None, m, p) # h) of
        (r, d) \<Rightarrow>
          if used + d \<le> limit then k r (used + d) ((None, m, p) # h)
          else (fail CdpTimeout ''safe target cleanup timed out; tab may remain open'', limit, (None, m, p) # h))"

definition close_it :: "cdp_peer \<Rightarrow> duration \<Rightarrow> string \<Rightarrow> duration \<Rightarrow> command list \<Rightarrow> timed" where
  "close_it peer limit t used h =
     within peer limit ''Target.closeTarget'' (target_param t) used h (\<lambda>r used h.
       (case r of
          Inl e \<Rightarrow> (Inl e, used, h)
        | Inr response \<Rightarrow>
            if json_bool (json_idx response ''success'') \<noteq> Some True
            then (fail CdpError ''Target.closeTarget did not confirm closure'', used, h)
            else (Inr (), used, h)))"

definition anchor_params :: json where
  "anchor_params = JObj [(''background'', JBool True), (''url'', JStr window_anchor)]"

definition close_target_preserving_browser :: "cdp_peer \<Rightarrow> string \<Rightarrow> duration \<Rightarrow> command list \<Rightarrow> timed" where
  "close_target_preserving_browser peer t limit h =
     within peer limit ''Target.getTargets'' (JObj []) 0 h (\<lambda>r used h.
       (case r of
          Inl e \<Rightarrow> (Inl e, used, h)
        | Inr targets \<Rightarrow>
            (case json_arr (json_idx targets ''targetInfos'') of
               None \<Rightarrow> (fail CdpError ''cannot protect the last browser window: target list unavailable'', used, h)
             | Some pages \<Rightarrow>
                 if list_ex (is_anchor t) pages then close_it peer limit t used h
                 else
                   within peer limit ''Target.createTarget'' anchor_params used h (\<lambda>r used h.
                     (case r of
                        Inr replacement \<Rightarrow>
                          if new_target t replacement then close_it peer limit t used h
                          else (fail CdpError ''cannot close the last browser window: replacement target was not created'', used, h)
                      | Inl e \<Rightarrow>
                          if refuses_second_target e then close_it peer limit t used h else (Inl e, used, h))))))"

definition close_target :: "cdp_peer \<Rightarrow> string \<Rightarrow> command list \<Rightarrow> timed" where
  "close_target peer t h = close_target_preserving_browser peer t (secs 2) h"

subsection \<open>What the browser had answered when the close was sent\<close>

definition close_command :: "string \<Rightarrow> command" where
  "close_command t = (None, ''Target.closeTarget'', target_param t)"

definition list_command :: command where "list_command = (None, ''Target.getTargets'', JObj [])"
definition anchor_command :: command where "anchor_command = (None, ''Target.createTarget'', anchor_params)"

text \<open>The browser listed another page that is the anchor.\<close>

definition anchor_listed :: "cdp_peer \<Rightarrow> string \<Rightarrow> command list \<Rightarrow> bool" where
  "anchor_listed peer t h \<longleftrightarrow>
     (case fst (peer (list_command # h)) of
        Inr targets \<Rightarrow> (case json_arr (json_idx targets ''targetInfos'') of
            Some pages \<Rightarrow> list_ex (is_anchor t) pages | None \<Rightarrow> False)
      | Inl _ \<Rightarrow> False)"

text \<open>The browser opened another page, or holds a single page and refuses a second.\<close>

definition anchor_made :: "cdp_peer \<Rightarrow> string \<Rightarrow> command list \<Rightarrow> bool" where
  "anchor_made peer t h \<longleftrightarrow>
     (case fst (peer (anchor_command # list_command # h)) of
        Inr replacement \<Rightarrow> new_target t replacement
      | Inl e \<Rightarrow> refuses_second_target e)"

lemma within_cases:
  assumes "within peer limit m p used h k = out"
  obtains (late) "out = (fail CdpTimeout ''safe target cleanup timed out; tab may remain open'', limit, (None, m, p) # h)"
  | (answered) r d where "peer ((None, m, p) # h) = (r, d)" "used + d \<le> limit" "out = k r (used + d) ((None, m, p) # h)"
  using assms unfolding within_def by (auto split: prod.splits if_splits)

lemma close_it_spec:
  assumes "close_it peer limit t used h = (r, used', h')" and "used \<le> limit"
  shows "used' \<le> limit \<and> h' = close_command t # h
    \<and> (r = Inr () \<longrightarrow> (\<exists>reply. fst (peer h') = Inr reply \<and> json_bool (json_idx reply ''success'') = Some True))"
  using assms(1) unfolding close_it_def
proof (cases rule: within_cases)
  case (answered rep d)
  then show ?thesis by (cases rep) (auto simp: close_command_def split: if_splits)
qed (auto simp: close_command_def)

text \<open>The three shapes of a cleanup: nothing closed, or a close behind one of the two guards.\<close>

lemma cleanup_shape:
  assumes "close_target_preserving_browser peer t limit h = (r, used, h')"
  shows "used \<le> limit \<and>
    ((r \<noteq> Inr () \<and> (h' = list_command # h \<or> h' = anchor_command # list_command # h))
     \<or> (anchor_listed peer t h \<and> h' = close_command t # list_command # h)
     \<or> (anchor_made peer t h \<and> h' = close_command t # anchor_command # list_command # h))
    \<and> (r = Inr () \<longrightarrow> (\<exists>reply. fst (peer h') = Inr reply \<and> json_bool (json_idx reply ''success'') = Some True))"
  using assms unfolding close_target_preserving_browser_def
proof (cases rule: within_cases)
  case late then show ?thesis by (auto simp: list_command_def)
next
  case (answered rep d)
  note listed = answered
  show ?thesis
  proof (cases rep)
    case (Inl e) with answered show ?thesis by (auto simp: list_command_def)
  next
    case (Inr targets)
    show ?thesis
    proof (cases "json_arr (json_idx targets ''targetInfos'')")
      case None with answered Inr show ?thesis by (auto simp: list_command_def)
    next
      case (Some pages)
      show ?thesis
      proof (cases "list_ex (is_anchor t) pages")
        case True
        with answered Inr Some
        have run: "close_it peer limit t d (list_command # h) = (r, used, h')" by (simp add: list_command_def)
        have "anchor_listed peer t h" using answered(1) Inr Some True by (simp add: anchor_listed_def list_command_def)
        with close_it_spec [OF run] answered(2) show ?thesis by auto
      next
        case False
        with answered(3) Inr Some
        have "within peer limit ''Target.createTarget'' anchor_params d (list_command # h) (\<lambda>r used h.
            (case r of
               Inr replacement \<Rightarrow>
                 if new_target t replacement then close_it peer limit t used h
                 else (fail CdpError ''cannot close the last browser window: replacement target was not created'', used, h)
             | Inl e \<Rightarrow> if refuses_second_target e then close_it peer limit t used h else (Inl e, used, h))) = (r, used, h')"
          by (simp add: list_command_def)
        then show ?thesis
        proof (cases rule: within_cases)
          case late then show ?thesis by (auto simp: anchor_command_def)
        next
          case (answered rep2 d2)
          show ?thesis
          proof (cases "anchor_made peer t h")
            case True
            with answered have run: "close_it peer limit t (d + d2) (anchor_command # list_command # h) = (r, used, h')"
              by (auto simp: anchor_made_def anchor_command_def split: sum.splits)
            from close_it_spec [OF run] answered(2) True show ?thesis by auto
          next
            case False
            with answered show ?thesis by (auto simp: anchor_made_def anchor_command_def split: sum.splits if_splits)
          qed
        qed
      qed
    qed
  qed
qed


text \<open>What a cleanup sends is put in front of what was sent before.\<close>

lemma cleanup_extends:
  assumes "close_target_preserving_browser peer t limit h = (r, used, h')"
  shows "\<exists>sent. h' = sent @ h"
  using cleanup_shape [OF assms] by (metis append_Cons append_Nil)

subsection \<open>Properties\<close>

text \<open>
  C28. Cleaning up a tab ends within its budget and never risks the browser's last window: the close is
  sent only after the browser listed the anchor page, or answered the request for one with another
  page, or refused a second page because it holds a single one. In every other case, a failed
  or late reply included, the tab is left open and an error is returned; success is
  returned only for a close the browser confirmed.
\<close>

theorem cleanup_keeps_a_window:
  assumes "close_target_preserving_browser peer t limit h = (r, used, h')"
  shows "used \<le> limit \<and> (\<exists>sent. h' = sent @ h
    \<and> (close_command t \<in> set sent \<longrightarrow> anchor_listed peer t h \<or> anchor_made peer t h)
    \<and> (close_command t \<notin> set sent \<longrightarrow> r \<noteq> Inr ())
    \<and> (r = Inr () \<longrightarrow> (\<exists>reply. fst (peer h') = Inr reply \<and> json_bool (json_idx reply ''success'') = Some True)))"
proof -
  have other: "close_command t \<noteq> list_command" "close_command t \<noteq> anchor_command"
    by (simp_all add: close_command_def list_command_def anchor_command_def)
  from cleanup_shape [OF assms] have "used \<le> limit"
    and shape: "(r \<noteq> Inr () \<and> (h' = [list_command] @ h \<or> h' = [anchor_command, list_command] @ h))
      \<or> (anchor_listed peer t h \<and> h' = [close_command t, list_command] @ h)
      \<or> (anchor_made peer t h \<and> h' = [close_command t, anchor_command, list_command] @ h)"
    and confirmed: "r = Inr () \<longrightarrow> (\<exists>reply. fst (peer h') = Inr reply \<and> json_bool (json_idx reply ''success'') = Some True)"
    by auto
  from shape obtain sent where "h' = sent @ h" "close_command t \<in> set sent \<longrightarrow> anchor_listed peer t h \<or> anchor_made peer t h"
    "close_command t \<notin> set sent \<longrightarrow> r \<noteq> Inr ()"
    using other by (metis insert_iff list.set(1) list.set(2) empty_iff)
  with \<open>used \<le> limit\<close> confirmed show ?thesis by blast
qed

text \<open>A browser with one page: it opens the anchor, then the page is closed.\<close>

definition one_page_browser :: cdp_peer where
  "one_page_browser h =
     (case h of
        [] \<Rightarrow> (fail CdpError ''nothing asked'', 0)
      | (_, m, _) # _ \<Rightarrow>
          if m = ''Target.getTargets'' then
            (Inr (JObj [(''targetInfos'', JArr [JObj [(''targetId'', JStr ''T''), (''type'', JStr ''page''), (''url'', JStr ''https://e/'')]])]), 1)
          else if m = ''Target.createTarget'' then (Inr (JObj [(''targetId'', JStr ''A'')]), 1)
          else (Inr (JObj [(''success'', JBool True)]), 1))"

lemma one_page_cleanup:
  "close_target_preserving_browser one_page_browser ''T'' 5 [] =
     (Inr (), 3, [close_command ''T'', anchor_command, list_command])"
  by (simp add: close_target_preserving_browser_def within_def close_it_def one_page_browser_def json_idx_def is_anchor_def
      window_anchor_def new_target_def close_command_def anchor_command_def list_command_def)

lemma cleanup_keeps_a_window_witness:
  "anchor_listed one_page_browser ''T'' [] \<or> anchor_made one_page_browser ''T'' []"
  using cleanup_keeps_a_window [OF one_page_cleanup] by auto

end
