(* ===== verification/Targets.thy ===== *)
theory Targets
  imports Json
begin

text \<open>
  Who drives which tab (\<open>host/listener/target_ledger.rs\<close>, the target part of \<open>host/listener/mod.rs\<close>
  and \<open>cdp_proxy.rs\<close>): each \<open>/cdp\<close> connection keeps a ledger of the targets it created or attached
  to, read off the frames it forwards; the host counts the holders of every target and records
  the orphans a connection leaves behind. The ledger and the host's counts are behind different
  locks, so between the two other connections may act: the system is a step relation whose steps
  are the critical sections. The JSON reader is an argument.
\<close>

subsection \<open>One connection's ledger\<close>

datatype holding = Took string | Closed string

definition max_inspected_response_bytes :: nat where "max_inspected_response_bytes = 16 * 1024"

text \<open>\<open>HashMap<u64, ()>\<close> and \<open>HashSet<String>\<close>, as stores with unit values.\<close>

record target_ledger =
  lg_pending :: "(nat, unit) kv"
  lg_owned :: "(string, unit) kv"

definition ledger_default :: target_ledger where
  "ledger_default = \<lparr> lg_pending = [], lg_owned = [] \<rparr>"

definition owns :: "target_ledger \<Rightarrow> string \<Rightarrow> bool" where
  "owns l t \<longleftrightarrow> map_of (lg_owned l) t \<noteq> None"

definition take_target :: "string \<Rightarrow> target_ledger \<Rightarrow> holding option \<times> target_ledger" where
  "take_target t l =
     (if owns l t then (None, l) else (Some (Took t), l\<lparr> lg_owned := kv_put t () (lg_owned l) \<rparr>))"

definition close_target :: "string \<Rightarrow> target_ledger \<Rightarrow> holding option \<times> target_ledger" where
  "close_target t l =
     (if owns l t then (Some (Closed t), l\<lparr> lg_owned := kv_del t (lg_owned l) \<rparr>) else (None, l))"

definition param_target :: "json \<Rightarrow> string option" where
  "param_target message = json_str (json_idx (json_idx message ''params'') ''targetId'')"

definition observe_request ::
  "(string \<Rightarrow> json option) \<Rightarrow> string \<Rightarrow> target_ledger \<Rightarrow> holding option \<times> target_ledger" where
  "observe_request parse_json frame l =
     (case parse_json frame of
        None \<Rightarrow> (None, l)
      | Some message \<Rightarrow>
          (case get_str message ''method'' of
             None \<Rightarrow> (None, l)
           | Some m \<Rightarrow>
               if m = ''Target.createTarget'' then
                 (case get_u64 message ''id'' of
                    Some i \<Rightarrow> (None, l\<lparr> lg_pending := kv_put i () (lg_pending l) \<rparr>)
                  | None \<Rightarrow> (None, l))
               else if m = ''Target.closeTarget'' then
                 (case param_target message of Some t \<Rightarrow> close_target t l | None \<Rightarrow> (None, l))
               else if m = ''Target.attachToTarget'' then
                 (case param_target message of Some t \<Rightarrow> take_target t l | None \<Rightarrow> (None, l))
               else (None, l)))"

definition observe_response ::
  "(string \<Rightarrow> json option) \<Rightarrow> string \<Rightarrow> target_ledger \<Rightarrow> holding option \<times> target_ledger" where
  "observe_response parse_json frame l =
     (if lg_pending l = [] \<or> length frame > max_inspected_response_bytes then (None, l)
      else
        (case parse_json frame of
           None \<Rightarrow> (None, l)
         | Some message \<Rightarrow>
             (case get_u64 message ''id'' of
                None \<Rightarrow> (None, l)
              | Some i \<Rightarrow>
                  if map_of (lg_pending l) i = None then (None, l)
                  else
                    (let l = l\<lparr> lg_pending := kv_del i (lg_pending l) \<rparr>
                     in case json_str (json_idx (json_idx message ''result'') ''targetId'') of
                          Some t \<Rightarrow> take_target t l
                        | None \<Rightarrow> (None, l)))))"

definition into_owned :: "target_ledger \<Rightarrow> string list" where
  "into_owned l = map fst (lg_owned l)"

subsection \<open>The host's count of holders\<close>

record host_targets =
  ht_holders :: "(string, nat) kv"
  ht_orphans :: "string set"

text \<open>\<open>release\<close>: one holder less; true when nobody holds the target any more.\<close>

definition release :: "string \<Rightarrow> (string, nat) kv \<Rightarrow> bool \<times> (string, nat) kv" where
  "release t holders =
     (case map_of holders t of
        Some n \<Rightarrow> if n > 1 then (False, kv_put t (n - 1) holders) else (True, kv_del t holders)
      | None \<Rightarrow> (True, holders))"

definition note_holding :: "holding option \<Rightarrow> host_targets \<Rightarrow> host_targets" where
  "note_holding h s =
     (case h of
        Some (Took t) \<Rightarrow>
          s\<lparr> ht_holders := kv_put t ((case map_of (ht_holders s) t of Some n \<Rightarrow> n | None \<Rightarrow> 0) + 1) (ht_holders s),
             ht_orphans := ht_orphans s - {t} \<rparr>
      | Some (Closed t) \<Rightarrow> s\<lparr> ht_holders := snd (release t (ht_holders s)) \<rparr>
      | None \<Rightarrow> s)"

fun release_all :: "string list \<Rightarrow> (string, nat) kv \<Rightarrow> string list \<times> (string, nat) kv" where
  "release_all [] holders = ([], holders)"
| "release_all (t # ts) holders =
     (case release t holders of
        (free, holders) \<Rightarrow>
          (case release_all ts holders of (rest, holders) \<Rightarrow> (if free then t # rest else rest, holders)))"

definition release_targets :: "string list \<Rightarrow> host_targets \<Rightarrow> host_targets" where
  "release_targets ts s =
     (case release_all ts (ht_holders s) of
        (orphaned, holders) \<Rightarrow> s\<lparr> ht_holders := holders, ht_orphans := ht_orphans s \<union> set orphaned \<rparr>)"

definition retain_orphaned_targets :: "string set \<Rightarrow> host_targets \<Rightarrow> host_targets" where
  "retain_orphaned_targets live s = s\<lparr> ht_orphans := ht_orphans s \<inter> live \<rparr>"

subsection \<open>The host with its connections\<close>

text \<open>A connection with the change its last frame made, until the host has noted it.\<close>

record cdp_conn =
  cn_ledger :: target_ledger
  cn_unnoted :: "holding option"

record host_system =
  sy_host :: host_targets
  sy_conns :: "(nat, cdp_conn) kv"

definition system_start :: host_system where
  "system_start = \<lparr> sy_host = \<lparr> ht_holders = [], ht_orphans = {} \<rparr>, sy_conns = [] \<rparr>"

definition put_conn :: "nat \<Rightarrow> cdp_conn \<Rightarrow> host_system \<Rightarrow> host_system" where
  "put_conn c cn s = s\<lparr> sy_conns := kv_put c cn (sy_conns s) \<rparr>"

inductive host_step :: "(string \<Rightarrow> json option) \<Rightarrow> host_system \<Rightarrow> host_system \<Rightarrow> bool"
  for parse_json :: "string \<Rightarrow> json option" where
  connect: "map_of (sy_conns s) c = None \<Longrightarrow>
     host_step parse_json s (put_conn c \<lparr> cn_ledger = ledger_default, cn_unnoted = None \<rparr> s)"
| request: "map_of (sy_conns s) c = Some cn \<Longrightarrow> cn_unnoted cn = None \<Longrightarrow>
     observe_request parse_json frame (cn_ledger cn) = (h, l) \<Longrightarrow>
     host_step parse_json s (put_conn c \<lparr> cn_ledger = l, cn_unnoted = h \<rparr> s)"
| response: "map_of (sy_conns s) c = Some cn \<Longrightarrow> cn_unnoted cn = None \<Longrightarrow>
     observe_response parse_json frame (cn_ledger cn) = (h, l) \<Longrightarrow>
     host_step parse_json s (put_conn c \<lparr> cn_ledger = l, cn_unnoted = h \<rparr> s)"
| note_it: "map_of (sy_conns s) c = Some cn \<Longrightarrow>
     host_step parse_json s
       ((put_conn c (cn\<lparr> cn_unnoted := None \<rparr>) s)\<lparr> sy_host := note_holding (cn_unnoted cn) (sy_host s) \<rparr>)"
| disconnect: "map_of (sy_conns s) c = Some cn \<Longrightarrow> cn_unnoted cn = None \<Longrightarrow>
     host_step parse_json s
       (s\<lparr> sy_conns := kv_del c (sy_conns s), sy_host := release_targets (into_owned (cn_ledger cn)) (sy_host s) \<rparr>)"
| retain: "host_step parse_json s (s\<lparr> sy_host := retain_orphaned_targets live (sy_host s) \<rparr>)"

inductive reachable_system :: "(string \<Rightarrow> json option) \<Rightarrow> host_system \<Rightarrow> bool"
  for parse_json :: "string \<Rightarrow> json option" where
  start: "reachable_system parse_json system_start"
| step: "reachable_system parse_json s \<Longrightarrow> host_step parse_json s s' \<Longrightarrow> reachable_system parse_json s'"

inductive_cases host_step_cases: "host_step parse_json s s'"

subsection \<open>The counts are exact\<close>

text \<open>What a connection contributes to a target's count: what it owns, as far as the host has noted it.\<close>

definition holds :: "string \<Rightarrow> cdp_conn \<Rightarrow> bool" where
  "holds t cn \<longleftrightarrow> (owns (cn_ledger cn) t \<and> cn_unnoted cn \<noteq> Some (Took t)) \<or> cn_unnoted cn = Some (Closed t)"

definition holder_count :: "string \<Rightarrow> host_system \<Rightarrow> nat" where
  "holder_count t s = length (filter (\<lambda>p. holds t (snd p)) (sy_conns s))"

definition noted_count :: "string \<Rightarrow> host_targets \<Rightarrow> nat" where
  "noted_count t s = (case map_of (ht_holders s) t of Some n \<Rightarrow> n | None \<Rightarrow> 0)"

definition conn_ok :: "cdp_conn \<Rightarrow> bool" where
  "conn_ok cn \<longleftrightarrow> kv_ok (lg_owned (cn_ledger cn)) \<and> kv_ok (lg_pending (cn_ledger cn))
     \<and> (\<forall>t. cn_unnoted cn = Some (Took t) \<longrightarrow> owns (cn_ledger cn) t)
     \<and> (\<forall>t. cn_unnoted cn = Some (Closed t) \<longrightarrow> \<not> owns (cn_ledger cn) t)"

definition host_ok :: "host_targets \<Rightarrow> bool" where
  "host_ok h \<longleftrightarrow> kv_ok (ht_holders h) \<and> (\<forall>t. map_of (ht_holders h) t \<noteq> Some 0)
     \<and> (\<forall>t \<in> ht_orphans h. noted_count t h = 0)"

definition system_ok :: "host_system \<Rightarrow> bool" where
  "system_ok s \<longleftrightarrow> kv_ok (sy_conns s) \<and> (\<forall>c cn. map_of (sy_conns s) c = Some cn \<longrightarrow> conn_ok cn)
     \<and> host_ok (sy_host s) \<and> (\<forall>t. noted_count t (sy_host s) = holder_count t s)"

lemma filter_kv_put:
  assumes "kv_ok m"
  shows "length (filter (\<lambda>p. P (snd p)) (kv_put c v m)) + (case map_of m c of Some w \<Rightarrow> of_bool (P w) | None \<Rightarrow> 0)
       = length (filter (\<lambda>p. P (snd p)) m) + of_bool (P v)"
  using assms
proof (induction m)
  case (Cons p m)
  obtain k w where p: "p = (k, w)" by fastforce
  from Cons.prems have "kv_ok m" by (simp add: kv_ok_def p)
  from Cons.IH [OF this] show ?case by (cases "k = c") (auto simp: p split: option.splits)
qed simp

lemma filter_kv_del:
  assumes "kv_ok m" and "map_of m c = Some w"
  shows "length (filter (\<lambda>p. P (snd p)) (kv_del c m)) + of_bool (P w) = length (filter (\<lambda>p. P (snd p)) m)"
  using assms
proof (induction m)
  case (Cons p m)
  obtain k u where p: "p = (k, u)" by fastforce
  from Cons.prems(1) have kv: "kv_ok m" and notin: "map_of m k = None" by (auto simp: kv_ok_def p map_of_eq_None_iff)
  have same: "kv_del k m = m" using notin by (auto simp: kv_del_def filter_id_conv map_of_eq_None_iff)
  show ?case
  proof (cases "k = c")
    case True
    with Cons.prems(2) same show ?thesis by (auto simp: p kv_del_def)
  next
    case False
    with Cons.IH [OF kv] Cons.prems(2) show ?thesis by (auto simp: p kv_del_def)
  qed
qed simp


text \<open>Reading a frame changes what the connection owns and not yet what the host has noted of it.\<close>

lemma conn_view_take:
  assumes "take_target t l = (h, l')" and "kv_ok (lg_owned l)"
  shows "lg_pending l' = lg_pending l \<and> kv_ok (lg_owned l')
    \<and> (\<forall>u. (owns l' u \<and> h \<noteq> Some (Took u)) \<or> h = Some (Closed u) \<longleftrightarrow> owns l u)
    \<and> (\<forall>u. h = Some (Took u) \<longrightarrow> owns l' u) \<and> (\<forall>u. h = Some (Closed u) \<longrightarrow> \<not> owns l' u)"
  using assms by (auto simp: take_target_def owns_def split: if_splits)

lemma conn_view_close:
  assumes "close_target t l = (h, l')" and "kv_ok (lg_owned l)"
  shows "lg_pending l' = lg_pending l \<and> kv_ok (lg_owned l')
    \<and> (\<forall>u. (owns l' u \<and> h \<noteq> Some (Took u)) \<or> h = Some (Closed u) \<longleftrightarrow> owns l u)
    \<and> (\<forall>u. h = Some (Took u) \<longrightarrow> owns l' u) \<and> (\<forall>u. h = Some (Closed u) \<longrightarrow> \<not> owns l' u)"
  using assms by (auto simp: close_target_def owns_def split: if_splits)

text \<open>Every frame leaves the ledger as it was, or is one take or one close after a change of the pending requests.\<close>

lemma observe_request_cases:
  assumes "observe_request parse_json frame l = (h, l')"
  obtains (pending) q where "h = None" "l' = l\<lparr> lg_pending := q \<rparr>" "kv_ok (lg_pending l) \<Longrightarrow> kv_ok q"
  | (take) t where "take_target t l = (h, l')"
  | (close) t where "close_target t l = (h, l')"
proof -
  have same: "\<exists>q. l = l\<lparr> lg_pending := q \<rparr> \<and> (kv_ok (lg_pending l) \<longrightarrow> kv_ok q)"
    by (rule exI [of _ "lg_pending l"]) simp
  have "(h = None \<and> (\<exists>q. l' = l\<lparr> lg_pending := q \<rparr> \<and> (kv_ok (lg_pending l) \<longrightarrow> kv_ok q)))
      \<or> (\<exists>t. take_target t l = (h, l')) \<or> (\<exists>t. close_target t l = (h, l'))"
    using assms same unfolding observe_request_def
    by (auto split: option.splits if_splits)
  then show thesis using pending take close by blast
qed

lemma observe_response_cases:
  assumes "observe_response parse_json frame l = (h, l')"
  obtains (pending) q where "h = None" "l' = l\<lparr> lg_pending := q \<rparr>" "kv_ok (lg_pending l) \<Longrightarrow> kv_ok q"
  | (take) t q where "take_target t (l\<lparr> lg_pending := q \<rparr>) = (h, l')" "kv_ok (lg_pending l) \<Longrightarrow> kv_ok q"
proof -
  have same: "\<exists>q. l = l\<lparr> lg_pending := q \<rparr> \<and> (kv_ok (lg_pending l) \<longrightarrow> kv_ok q)"
    by (rule exI [of _ "lg_pending l"]) simp
  have "(h = None \<and> (\<exists>q. l' = l\<lparr> lg_pending := q \<rparr> \<and> (kv_ok (lg_pending l) \<longrightarrow> kv_ok q)))
      \<or> (\<exists>t q. take_target t (l\<lparr> lg_pending := q \<rparr>) = (h, l') \<and> (kv_ok (lg_pending l) \<longrightarrow> kv_ok q))"
    using assms same unfolding observe_response_def Let_def
    by (auto split: option.splits if_splits)
  then show thesis using pending take by blast
qed

lemma owns_pending [simp]: "owns (l\<lparr> lg_pending := q \<rparr>) t = owns l t"
  by (simp add: owns_def)

lemma conn_view:
  assumes "conn_ok cn" and "cn_unnoted cn = None"
    and "observe_request parse_json frame (cn_ledger cn) = (h, l)
       \<or> observe_response parse_json frame (cn_ledger cn) = (h, l)"
  shows "conn_ok \<lparr> cn_ledger = l, cn_unnoted = h \<rparr>
    \<and> (\<forall>t. holds t \<lparr> cn_ledger = l, cn_unnoted = h \<rparr> \<longleftrightarrow> holds t cn)"
  using assms(3)
proof
  assume "observe_request parse_json frame (cn_ledger cn) = (h, l)"
  then show ?thesis
  proof (cases rule: observe_request_cases)
    case (take t) from conn_view_take [OF this] assms(1,2) show ?thesis by (auto simp: conn_ok_def holds_def)
  next
    case (close t) from conn_view_close [OF this] assms(1,2) show ?thesis by (auto simp: conn_ok_def holds_def)
  qed (use assms(1,2) in \<open>auto simp: conn_ok_def holds_def\<close>)
next
  assume "observe_response parse_json frame (cn_ledger cn) = (h, l)"
  then show ?thesis
  proof (cases rule: observe_response_cases)
    case (take t q) from conn_view_take [OF take(1)] take(2) assms(1,2)
    show ?thesis by (auto simp: conn_ok_def holds_def)
  qed (use assms(1,2) in \<open>auto simp: conn_ok_def holds_def\<close>)
qed

subsection \<open>Releasing targets\<close>

abbreviation count_in :: "(string, nat) kv \<Rightarrow> string \<Rightarrow> nat" where
  "count_in hs t \<equiv> (case map_of hs t of Some n \<Rightarrow> n | None \<Rightarrow> 0)"

definition counts_ok :: "(string, nat) kv \<Rightarrow> bool" where
  "counts_ok hs \<longleftrightarrow> kv_ok hs \<and> (\<forall>t. map_of hs t \<noteq> Some 0)"

lemma release_spec:
  assumes "release t hs = (free, hs')" and "counts_ok hs"
  shows "counts_ok hs' \<and> (free \<longleftrightarrow> count_in hs t \<le> 1)
    \<and> (\<forall>u. count_in hs' u = count_in hs u - of_bool (u = t))"
proof (cases "map_of hs t")
  case None with assms show ?thesis by (auto simp: release_def)
next
  case (Some n) with assms show ?thesis
    by (auto simp: release_def counts_ok_def split: if_splits)
qed

lemma release_all_spec:
  assumes "release_all ts hs = (orphaned, hs')" and "counts_ok hs" and "distinct ts"
  shows "counts_ok hs' \<and> set orphaned = {t \<in> set ts. count_in hs t \<le> 1}
    \<and> (\<forall>u. count_in hs' u = count_in hs u - of_bool (u \<in> set ts))"
  using assms
proof (induction ts arbitrary: hs hs' orphaned)
  case (Cons t ts)
  obtain free hs1 where r: "release t hs = (free, hs1)" by fastforce
  obtain rest hs2 where ra: "release_all ts hs1 = (rest, hs2)" by fastforce
  from release_spec [OF r Cons.prems(2)] have one: "counts_ok hs1" "free \<longleftrightarrow> count_in hs t \<le> 1"
    "\<And>u. count_in hs1 u = count_in hs u - of_bool (u = t)" by blast+
  from Cons.IH [OF ra one(1)] Cons.prems(3)
  have ih: "counts_ok hs2" "set rest = {t \<in> set ts. count_in hs1 t \<le> 1}"
    "\<And>u. count_in hs2 u = count_in hs1 u - of_bool (u \<in> set ts)" by auto
  from Cons.prems(1) r ra have hs': "hs' = hs2" and orph: "orphaned = (if free then t # rest else rest)" by auto
  have tail: "set rest = {t \<in> set ts. count_in hs t \<le> 1}" using ih(2) one(3) Cons.prems(3) by auto
  have "set orphaned = {u \<in> set (t # ts). count_in hs u \<le> 1}" using orph tail one(2) by auto
  moreover have "\<And>u. count_in hs2 u = count_in hs u - of_bool (u \<in> set (t # ts))"
    using ih(3) one(3) Cons.prems(3) by auto
  ultimately show ?case using ih(1) hs' by blast
qed simp

subsection \<open>Every step keeps the counts exact\<close>

lemma noted_count_count_in: "noted_count t h = count_in (ht_holders h) t"
  by (simp add: noted_count_def)

lemma host_ok_counts: "host_ok h \<longleftrightarrow> counts_ok (ht_holders h) \<and> (\<forall>t \<in> ht_orphans h. noted_count t h = 0)"
  by (auto simp: host_ok_def counts_ok_def)

lemma note_holding_spec:
  assumes "host_ok h"
  shows "host_ok (note_holding x h)
    \<and> noted_count t (note_holding x h) = noted_count t h + of_bool (x = Some (Took t)) - of_bool (x = Some (Closed t))"
proof (cases x)
  case None with assms show ?thesis by (simp add: note_holding_def)
next
  case (Some y)
  show ?thesis
  proof (cases y)
    case (Took u)
    with assms Some show ?thesis by (auto simp: note_holding_def host_ok_def noted_count_def)
  next
    case (Closed u)
    obtain free hs where r: "release u (ht_holders h) = (free, hs)" by fastforce
    from release_spec [OF r] assms have "counts_ok hs"
      "\<And>v. count_in hs v = count_in (ht_holders h) v - of_bool (v = u)" by (auto simp: host_ok_counts)
    with assms Some Closed r show ?thesis by (auto simp: note_holding_def host_ok_counts noted_count_count_in)
  qed
qed

lemma release_targets_spec:
  assumes "host_ok h" and "distinct ts"
  shows "host_ok (release_targets ts h)
    \<and> noted_count t (release_targets ts h) = noted_count t h - of_bool (t \<in> set ts)
    \<and> ht_orphans (release_targets ts h) = ht_orphans h \<union> {t \<in> set ts. noted_count t h \<le> 1}"
proof -
  obtain orphaned hs where r: "release_all ts (ht_holders h) = (orphaned, hs)" by fastforce
  from release_all_spec [OF r] assms have "counts_ok hs"
    "set orphaned = {t \<in> set ts. count_in (ht_holders h) t \<le> 1}"
    "\<And>u. count_in hs u = count_in (ht_holders h) u - of_bool (u \<in> set ts)" by (auto simp: host_ok_counts)
  with assms r show ?thesis by (auto simp: release_targets_def host_ok_counts noted_count_count_in)
qed

lemma holder_count_put:
  assumes "kv_ok (sy_conns s)"
  shows "holder_count t (put_conn c cn s)
      + (case map_of (sy_conns s) c of Some w \<Rightarrow> of_bool (holds t w) | None \<Rightarrow> 0)
    = holder_count t s + of_bool (holds t cn)"
  using filter_kv_put [OF assms, where P = "holds t" and c = c and v = cn]
  by (simp add: holder_count_def put_conn_def)

lemma holder_count_pos:
  assumes "map_of (sy_conns s) c = Some cn" and "holds t cn"
  shows "0 < holder_count t s"
  using assms(2) map_of_SomeD [OF assms(1)] by (force simp: holder_count_def filter_empty_conv)

lemma put_conn_ok:
  assumes "system_ok s" and "conn_ok cn"
    and "\<forall>t. holds t cn \<longleftrightarrow> (case map_of (sy_conns s) c of Some w \<Rightarrow> holds t w | None \<Rightarrow> False)"
  shows "system_ok (put_conn c cn s)"
proof -
  from assms(1) have kv: "kv_ok (sy_conns s)" by (simp add: system_ok_def)
  have "holder_count t (put_conn c cn s) = holder_count t s" for t
    using holder_count_put [OF kv, of t c cn] assms(3) by (auto split: option.splits)
  moreover have "conn_ok x" if "map_of (sy_conns (put_conn c cn s)) d = Some x" for d x
    using that assms(1,2) by (auto simp: put_conn_def system_ok_def split: if_splits)
  ultimately show ?thesis using assms(1) by (auto simp: system_ok_def put_conn_def)
qed

lemma note_it_ok:
  assumes "system_ok s" and "map_of (sy_conns s) c = Some cn"
  shows "system_ok ((put_conn c (cn\<lparr> cn_unnoted := None \<rparr>) s)\<lparr> sy_host := note_holding (cn_unnoted cn) (sy_host s) \<rparr>)"
proof -
  let ?cn = "cn\<lparr> cn_unnoted := None \<rparr>"
  from assms have kv: "kv_ok (sy_conns s)" and ok: "conn_ok cn" and host: "host_ok (sy_host s)"
    and exact: "\<And>t. noted_count t (sy_host s) = holder_count t s" by (auto simp: system_ok_def)
  have count: "noted_count t (note_holding (cn_unnoted cn) (sy_host s)) = holder_count t (put_conn c ?cn s)" for t
  proof -
    have bal: "holder_count t (put_conn c ?cn s) + of_bool (holds t cn) = holder_count t s + of_bool (holds t ?cn)"
      using holder_count_put [OF kv, of t c ?cn] assms(2) by simp
    have pos: "holds t cn \<longrightarrow> 0 < holder_count t s" using holder_count_pos [OF assms(2)] by blast
    show ?thesis
      using note_holding_spec [OF host, where t = t and x = "cn_unnoted cn"] bal pos ok exact [of t]
      by (auto simp: holds_def conn_ok_def)
  qed
  have "conn_ok x" if "map_of (sy_conns (put_conn c ?cn s)) d = Some x" for d x
    using that assms(1) ok by (auto simp: put_conn_def system_ok_def conn_ok_def split: if_splits)
  with count kv note_holding_spec [OF host, where x = "cn_unnoted cn"]
  show ?thesis by (auto simp: system_ok_def put_conn_def holder_count_def)
qed

lemma distinct_into_owned: "conn_ok cn \<Longrightarrow> distinct (into_owned (cn_ledger cn))"
  by (simp add: conn_ok_def into_owned_def kv_ok_def)

lemma in_into_owned: "t \<in> set (into_owned l) \<longleftrightarrow> owns l t"
  by (metis (no_types) into_owned_def list.set_map map_of_eq_None_iff owns_def)

lemma disconnect_counts:
  assumes "system_ok s" and "map_of (sy_conns s) c = Some cn" and "cn_unnoted cn = None"
  shows "length (filter (\<lambda>p. holds t (snd p)) (kv_del c (sy_conns s))) + of_bool (owns (cn_ledger cn) t) = holder_count t s"
  using filter_kv_del [where P = "holds t", OF _ assms(2)] assms(1,3)
  by (simp add: system_ok_def holder_count_def holds_def)

lemma disconnect_ok:
  assumes "system_ok s" and "map_of (sy_conns s) c = Some cn" and "cn_unnoted cn = None"
  shows "system_ok (s\<lparr> sy_conns := kv_del c (sy_conns s),
    sy_host := release_targets (into_owned (cn_ledger cn)) (sy_host s) \<rparr>)"
proof -
  from assms have kv: "kv_ok (sy_conns s)" and ok: "conn_ok cn" and host: "host_ok (sy_host s)"
    and exact: "\<And>t. noted_count t (sy_host s) = holder_count t s" by (auto simp: system_ok_def)
  note spec = release_targets_spec [OF host distinct_into_owned [OF ok]]
  have "noted_count t (release_targets (into_owned (cn_ledger cn)) (sy_host s))
      = length (filter (\<lambda>p. holds t (snd p)) (kv_del c (sy_conns s)))" for t
    using spec [of t] disconnect_counts [OF assms, of t] exact [of t] by (auto simp: in_into_owned)
  moreover have "conn_ok x" if "map_of (kv_del c (sy_conns s)) d = Some x" for d x
    using that assms(1) by (auto simp: system_ok_def split: if_splits)
  ultimately show ?thesis using kv spec by (auto simp: system_ok_def holder_count_def)
qed

lemma host_step_ok: "host_step parse_json s s' \<Longrightarrow> system_ok s \<Longrightarrow> system_ok s'"
proof (induction rule: host_step.induct)
  case (connect s c)
  then show ?case by (intro put_conn_ok) (auto simp: conn_ok_def holds_def ledger_default_def owns_def kv_ok_def)
next
  case (request s c cn frame h l)
  with conn_view [of cn parse_json frame h l] show ?case by (intro put_conn_ok) (auto simp: system_ok_def)
next
  case (response s c cn frame h l)
  with conn_view [of cn parse_json frame h l] show ?case by (intro put_conn_ok) (auto simp: system_ok_def)
next
  case (note_it s c cn) then show ?case by (intro note_it_ok)
next
  case (disconnect s c cn) then show ?case by (intro disconnect_ok)
next
  case (retain s live)
  then show ?case
    by (auto simp: system_ok_def retain_orphaned_targets_def host_ok_def noted_count_def holder_count_def)
qed

lemma system_start_ok: "system_ok system_start"
  by (simp add: system_ok_def system_start_def kv_ok_def host_ok_def noted_count_def holder_count_def)

lemma reachable_system_ok: "reachable_system parse_json s \<Longrightarrow> system_ok s"
  by (induction rule: reachable_system.induct) (auto intro: system_start_ok host_step_ok)


subsection \<open>Properties\<close>

text \<open>
  C13. In every interleaving of the connections' frames, the host's notes, disconnects and sweeps: the
  host's count of a target's holders is exactly the number of live connections holding it, and a
  target recorded as an orphan is driven by no live connection, but for one that has just taken it
  and whose take the host is about to note.
\<close>

theorem orphans_have_no_driver:
  assumes "reachable_system parse_json s"
  shows "noted_count t (sy_host s) = holder_count t s
    \<and> (\<forall>(c, cn) \<in> set (sy_conns s). t \<in> ht_orphans (sy_host s) \<and> owns (cn_ledger cn) t
          \<longrightarrow> cn_unnoted cn = Some (Took t))"
proof -
  from reachable_system_ok [OF assms] have ok: "system_ok s" .
  have "cn_unnoted cn = Some (Took t)"
    if mem: "(c, cn) \<in> set (sy_conns s)" and orphan: "t \<in> ht_orphans (sy_host s)" and own: "owns (cn_ledger cn) t" for c cn
  proof (rule ccontr)
    assume "cn_unnoted cn \<noteq> Some (Took t)"
    with own have holds: "holds t cn" by (simp add: holds_def)
    from mem ok have "map_of (sy_conns s) c = Some cn" by (simp add: system_ok_def kv_ok_def)
    from holder_count_pos [OF this holds] ok orphan show False by (auto simp: system_ok_def host_ok_def)
  qed
  with ok show ?thesis by (auto simp: system_ok_def)
qed

text \<open>
  When a connection ends, each target it still held is recorded as an orphan exactly when no
  other live connection holds it, and every target it did not hold keeps its standing.
\<close>

theorem last_driver_leaves_the_orphan:
  assumes "reachable_system parse_json s" and "map_of (sy_conns s) c = Some cn" and "cn_unnoted cn = None"
  shows "t \<in> ht_orphans (release_targets (into_owned (cn_ledger cn)) (sy_host s)) \<longleftrightarrow>
    (if owns (cn_ledger cn) t then \<forall>(d, other) \<in> set (kv_del c (sy_conns s)). \<not> holds t other
     else t \<in> ht_orphans (sy_host s))"
proof -
  from reachable_system_ok [OF assms(1)] have ok: "system_ok s" .
  with assms(2) have host: "host_ok (sy_host s)" and conn: "conn_ok cn"
    and exact: "noted_count t (sy_host s) = holder_count t s" by (auto simp: system_ok_def)
  note orphans = conjunct2 [OF conjunct2 [OF release_targets_spec [OF host distinct_into_owned [OF conn]]]]
  show ?thesis
  proof (cases "owns (cn_ledger cn) t")
    case True
    from disconnect_counts [OF ok assms(2,3), of t] True exact
    have count: "noted_count t (sy_host s) = length (filter (\<lambda>p. holds t (snd p)) (kv_del c (sy_conns s))) + 1" by simp
    with host have "t \<notin> ht_orphans (sy_host s)" by (auto simp: host_ok_def)
    with True count show ?thesis by (auto simp: orphans in_into_owned filter_empty_conv)
  next
    case False then show ?thesis by (simp add: orphans in_into_owned)
  qed
qed

text \<open>A driver attaches to a tab and leaves: the tab is an orphan.\<close>

definition attach_T :: "string \<Rightarrow> json option" where
  "attach_T frame = Some (JObj [(''method'', JStr ''Target.attachToTarget''), (''params'', JObj [(''targetId'', JStr frame)])])"

definition one_driver :: host_system where
  "one_driver = \<lparr> sy_host = \<lparr> ht_holders = [(''T'', 1)], ht_orphans = {} \<rparr>,
     sy_conns = [(0, \<lparr> cn_ledger = \<lparr> lg_pending = [], lg_owned = [(''T'', ())] \<rparr>, cn_unnoted = None \<rparr>)] \<rparr>"

lemma one_driver_reachable: "reachable_system attach_T one_driver"
proof -
  let ?cn0 = "\<lparr> cn_ledger = ledger_default, cn_unnoted = None \<rparr>"
  let ?l = "\<lparr> lg_pending = [], lg_owned = [(''T'', ())] \<rparr>"
  have 1: "reachable_system attach_T (put_conn 0 ?cn0 system_start)"
    by (rule reachable_system.step [OF reachable_system.start]) (rule host_step.connect, simp add: system_start_def)
  have 2: "reachable_system attach_T
      (put_conn 0 \<lparr> cn_ledger = ?l, cn_unnoted = Some (Took ''T'') \<rparr> (put_conn 0 ?cn0 system_start))"
    by (rule reachable_system.step [OF 1], rule host_step.request [where cn = ?cn0 and frame = "''T''"])
       (auto simp: put_conn_def system_start_def observe_request_def attach_T_def get_str_def json_idx_def
          param_target_def take_target_def owns_def ledger_default_def)
  show ?thesis
    using reachable_system.step [OF 2 host_step.note_it [where c = 0
      and cn = "\<lparr> cn_ledger = ?l, cn_unnoted = Some (Took ''T'') \<rparr>"]]
    by (simp add: one_driver_def put_conn_def system_start_def note_holding_def)
qed

lemma orphans_have_no_driver_witness: "noted_count ''T'' (sy_host one_driver) = holder_count ''T'' one_driver"
  using orphans_have_no_driver [OF one_driver_reachable] by blast

lemma last_driver_leaves_the_orphan_witness:
  "''T'' \<in> ht_orphans (release_targets [''T''] (sy_host one_driver))"
  using last_driver_leaves_the_orphan [OF one_driver_reachable, where c = 0 and t = "''T''"]
  by (simp add: one_driver_def into_owned_def owns_def kv_del_def)

end
