(* ===== verification/Reaper.thy ===== *)
theory Reaper
  imports Session Targets
begin

text \<open>
  The idle-tab reaper (\<open>host/reaper.rs\<close>): sweeps that run an idle clock per tab and close the tabs
  whose clock has run for the timeout. A sweep is a function of what it reads of the host (the view)
  and of the clocks it keeps; the browser it connects to is an argument of the view.
\<close>

definition connect_timeout :: duration where "connect_timeout = secs 2"
definition command_timeout :: duration where "command_timeout = secs 3"
definition default_tab_idle_timeout_s :: nat where "default_tab_idle_timeout_s = 900"

definition sweep_interval :: "duration \<Rightarrow> duration" where
  "sweep_interval idle_timeout = min (secs 60) (max (millis 500) (idle_timeout div 3))"

record tracker =
  tk_ws_url :: string
  tk_idle_since :: "(string, instant) kv"

definition tracker_default :: tracker where
  "tracker_default = \<lparr> tk_ws_url = [], tk_idle_since = [] \<rparr>"

record page_target =
  pt_id :: string
  pt_url :: string

definition str_default :: "string option \<Rightarrow> string" where
  "str_default x = (case x of Some s \<Rightarrow> s | None \<Rightarrow> [])"

definition page_targets :: "json \<Rightarrow> page_target list" where
  "page_targets response =
     (case Option.bind (json_get response ''targetInfos'') json_arr of
        Some targets \<Rightarrow>
          filter (\<lambda>t. pt_id t \<noteq> [])
            (map (\<lambda>t. \<lparr> pt_id = str_default (get_str t ''targetId''), pt_url = str_default (get_str t ''url'') \<rparr>)
              (filter (\<lambda>t. get_str t ''type'' = Some ''page'') targets))
      | None \<Rightarrow> [])"

definition is_reapable_url :: "string \<Rightarrow> bool" where
  "is_reapable_url url \<longleftrightarrow> starts_with url ''http://'' \<or> starts_with url ''https://''"

text \<open>What one sweep reads: no browser (\<open>sv_browser = None\<close>) when connecting failed or took too long.\<close>

record sweep_view =
  sv_profile :: "string option"
  sv_credentials :: bool
  sv_clients :: nat
  sv_orphans :: "string set"
  sv_browser :: "cdp_peer option"
  sv_now :: instant

text \<open>What it does: the new clocks, the orphans it keeps, the tabs it reports reaped, the commands it sent.\<close>

record sweep_result =
  sr_tracker :: tracker
  sr_retained :: "string set option"
  sr_reaped :: "string list"
  sr_sent :: "command list"

definition clear_clocks :: "tracker \<Rightarrow> tracker" where
  "clear_clocks tk = tk\<lparr> tk_idle_since := [] \<rparr>"

text \<open>Another browser: a profile switch starts every clock afresh.\<close>

definition arrived :: "string \<Rightarrow> tracker \<Rightarrow> tracker" where
  "arrived ws tk = (if tk_ws_url tk \<noteq> ws then (clear_clocks tk)\<lparr> tk_ws_url := ws \<rparr> else tk)"

definition stopped :: "tracker \<Rightarrow> command list \<Rightarrow> sweep_result" where
  "stopped tk sent = \<lparr> sr_tracker = tk, sr_retained = None, sr_reaped = [], sr_sent = sent \<rparr>"

text \<open>One pass over the listed pages.\<close>

definition held_by_driver :: "sweep_view \<Rightarrow> string \<Rightarrow> bool" where
  "held_by_driver v t \<longleftrightarrow> sv_clients v > 0 \<and> t \<notin> sv_orphans v"

definition visit_page ::
  "duration \<Rightarrow> sweep_view \<Rightarrow> (string, instant) kv \<times> string list \<Rightarrow> page_target \<Rightarrow> (string, instant) kv \<times> string list" where
  "visit_page idle_timeout v acc t =
     (case acc of (clocks, expired) \<Rightarrow>
        if \<not> is_reapable_url (pt_url t) \<or> held_by_driver v (pt_id t) then (kv_del (pt_id t) clocks, expired)
        else
          (let clocks = (if map_of clocks (pt_id t) = None then kv_put (pt_id t) (sv_now v) clocks else clocks);
               since = (case map_of clocks (pt_id t) of Some i \<Rightarrow> i | None \<Rightarrow> sv_now v)
           in (clocks, if sv_now v - since \<ge> idle_timeout then expired @ [pt_id t] else expired)))"

fun close_expired ::
  "cdp_peer \<Rightarrow> string list \<Rightarrow> (string, instant) kv \<Rightarrow> command list \<Rightarrow> (string, instant) kv \<times> string list \<times> command list" where
  "close_expired peer [] clocks h = (clocks, [], h)"
| "close_expired peer (t # ts) clocks h =
     (case close_target_preserving_browser peer t command_timeout h of
        (r, _, h) \<Rightarrow>
          (let closed = (r = Inr ());
               clocks = (if closed then kv_del t clocks else clocks)
           in case close_expired peer ts clocks h of
                (clocks, reaped, h) \<Rightarrow> (clocks, (if closed then t # reaped else reaped), h)))"

definition list_pages :: "cdp_peer \<Rightarrow> json option \<times> command list" where
  "list_pages peer = answer_within peer command_timeout ''Target.getTargets'' (JObj []) []"

definition sweep :: "duration \<Rightarrow> sweep_view \<Rightarrow> tracker \<Rightarrow> sweep_result" where
  "sweep idle_timeout v tk =
     (case sv_profile v of
        None \<Rightarrow> stopped (clear_clocks tk) []
      | Some ws_url \<Rightarrow>
          if sv_credentials v then stopped (clear_clocks tk) []
          else
            (let tk = arrived ws_url tk
             in if sv_clients v > 0 \<and> sv_orphans v = {} then stopped (clear_clocks tk) []
                else
                  (case sv_browser v of
                     None \<Rightarrow> stopped tk []
                   | Some peer \<Rightarrow>
                       (case list_pages peer of
                          (None, h) \<Rightarrow> stopped tk h
                        | (Some targets, h) \<Rightarrow>
                            (let seen = pt_id ` set (page_targets targets);
                                 scan = foldl (visit_page idle_timeout v) (tk_idle_since tk, []) (page_targets targets);
                                 clocks = filter (\<lambda>p. fst p \<in> seen) (fst scan)
                             in case close_expired peer (snd scan) clocks h of
                                  (clocks, reaped, h) \<Rightarrow>
                                    \<lparr> sr_tracker = tk\<lparr> tk_idle_since := clocks \<rparr>, sr_retained = Some seen,
                                      sr_reaped = reaped, sr_sent = h \<rparr>)))))"

definition sweeps :: "duration \<Rightarrow> sweep_view list \<Rightarrow> tracker" where
  "sweeps idle_timeout vs = foldl (\<lambda>tk v. sr_tracker (sweep idle_timeout v tk)) tracker_default vs"

subsection \<open>What a clock stands for\<close>

text \<open>
  A sweep leaves a tab's clock running: the same browser, no live takeover credential, no driver
  that might be at the tab, and, if the pages could be listed, a web page among them.
\<close>

definition listed :: "sweep_view \<Rightarrow> json option" where
  "listed v = (case sv_browser v of Some peer \<Rightarrow> fst (list_pages peer) | None \<Rightarrow> None)"

definition leaves_running :: "string \<Rightarrow> string \<Rightarrow> sweep_view \<Rightarrow> bool" where
  "leaves_running ws t v \<longleftrightarrow> sv_profile v = Some ws \<and> \<not> sv_credentials v
     \<and> (sv_clients v = 0 \<or> sv_orphans v \<noteq> {})
     \<and> (case listed v of
          Some targets \<Rightarrow> (\<exists>p \<in> set (page_targets targets). pt_id p = t \<and> is_reapable_url (pt_url p))
            \<and> \<not> held_by_driver v t
        | None \<Rightarrow> True)"

text \<open>The clock was started by an earlier sweep and has been left running since.\<close>

definition clock_since :: "sweep_view list \<Rightarrow> string \<Rightarrow> string \<Rightarrow> instant \<Rightarrow> bool" where
  "clock_since vs ws t i \<longleftrightarrow>
     (\<exists>pre v post. vs = pre @ v # post \<and> sv_now v = i \<and> listed v \<noteq> None \<and> (\<forall>u \<in> set (v # post). leaves_running ws t u))"


subsection \<open>The scan\<close>

definition reapable_in :: "sweep_view \<Rightarrow> page_target list \<Rightarrow> string \<Rightarrow> bool" where
  "reapable_in v ts t \<longleftrightarrow> (\<exists>p \<in> set ts. pt_id p = t \<and> is_reapable_url (pt_url p)) \<and> \<not> held_by_driver v t"

definition clock_from :: "sweep_view \<Rightarrow> (string, instant) kv \<Rightarrow> string \<Rightarrow> instant \<Rightarrow> bool" where
  "clock_from v clocks t i \<longleftrightarrow> map_of clocks t = Some i \<or> i = sv_now v"

lemma visit_spec:
  assumes "visit_page idle v (clocks, expired) p = (clocks', expired')"
    and clocks: "\<forall>t i. map_of clocks t = Some i \<longrightarrow>
      (t \<in> pt_id ` set ts \<longrightarrow> reapable_in v ts t) \<and> clock_from v clocks0 t i \<and> (map_of clocks0 t \<noteq> Some i \<longrightarrow> t \<in> pt_id ` set ts)"
    and expired: "\<forall>t \<in> set expired. reapable_in v ts t \<and> (\<exists>i. clock_from v clocks0 t i \<and> sv_now v - i \<ge> idle)"
  shows "(\<forall>t i. map_of clocks' t = Some i \<longrightarrow>
      (t \<in> pt_id ` set (ts @ [p]) \<longrightarrow> reapable_in v (ts @ [p]) t) \<and> clock_from v clocks0 t i
      \<and> (map_of clocks0 t \<noteq> Some i \<longrightarrow> t \<in> pt_id ` set (ts @ [p])))
    \<and> (\<forall>t \<in> set expired'. reapable_in v (ts @ [p]) t \<and> (\<exists>i. clock_from v clocks0 t i \<and> sv_now v - i \<ge> idle))"
proof -
  have mono: "reapable_in v ts t \<Longrightarrow> reapable_in v (ts @ [p]) t" for t by (auto simp: reapable_in_def)
  show ?thesis
  proof (cases "\<not> is_reapable_url (pt_url p) \<or> held_by_driver v (pt_id p)")
    case True
    with assms(1) have "clocks' = kv_del (pt_id p) clocks" "expired' = expired" by (auto simp: visit_page_def)
    with clocks expired mono show ?thesis by (auto split: if_splits)
  next
    case False
    then have here: "reapable_in v (ts @ [p]) (pt_id p)" by (auto simp: reapable_in_def)
    define started where "started = (if map_of clocks (pt_id p) = None then kv_put (pt_id p) (sv_now v) clocks else clocks)"
    obtain i where i: "map_of started (pt_id p) = Some i"
      by (cases "map_of clocks (pt_id p)") (auto simp: started_def)
    from False assms(1) i have new: "clocks' = started"
      "expired' = (if sv_now v - i \<ge> idle then expired @ [pt_id p] else expired)"
      by (auto simp: visit_page_def started_def Let_def)
    have from_i: "clock_from v clocks0 (pt_id p) i"
      using i clocks by (auto simp: started_def clock_from_def split: if_splits)
    have "\<forall>t j. map_of clocks' t = Some j \<longrightarrow>
      (t \<in> pt_id ` set (ts @ [p]) \<longrightarrow> reapable_in v (ts @ [p]) t) \<and> clock_from v clocks0 t j
      \<and> (map_of clocks0 t \<noteq> Some j \<longrightarrow> t \<in> pt_id ` set (ts @ [p]))"
      using clocks here mono from_i i unfolding new(1) started_def
      by (auto simp: clock_from_def split: if_splits)
    moreover have "\<forall>t \<in> set expired'. reapable_in v (ts @ [p]) t \<and> (\<exists>i. clock_from v clocks0 t i \<and> sv_now v - i \<ge> idle)"
      using expired here mono from_i unfolding new(2) by auto
    ultimately show ?thesis by blast
  qed
qed

lemma scan_spec:
  assumes "foldl (visit_page idle v) (clocks0, []) ts = (clocks, expired)"
  shows "(\<forall>t i. map_of clocks t = Some i \<longrightarrow>
      (t \<in> pt_id ` set ts \<longrightarrow> reapable_in v ts t) \<and> clock_from v clocks0 t i
      \<and> (map_of clocks0 t \<noteq> Some i \<longrightarrow> t \<in> pt_id ` set ts))
    \<and> (\<forall>t \<in> set expired. reapable_in v ts t \<and> (\<exists>i. clock_from v clocks0 t i \<and> sv_now v - i \<ge> idle))"
  using assms
proof (induction ts arbitrary: clocks expired rule: rev_induct)
  case Nil then show ?case by (auto simp: clock_from_def)
next
  case (snoc p ts)
  obtain c e where fold: "foldl (visit_page idle v) (clocks0, []) ts = (c, e)" by fastforce
  from snoc.prems fold have "visit_page idle v (c, e) p = (clocks, expired)" by simp
  from visit_spec [OF this conjunct1 [OF snoc.IH [OF fold]] conjunct2 [OF snoc.IH [OF fold]]] show ?case .
qed

lemma close_expired_spec:
  assumes "close_expired peer ts clocks h = (clocks', reaped, h')"
  shows "(\<forall>t i. map_of clocks' t = Some i \<longrightarrow> map_of clocks t = Some i) \<and> set reaped \<subseteq> set ts
    \<and> (\<forall>t. close_command t \<in> set h' \<longrightarrow> close_command t \<in> set h \<or> t \<in> set ts)"
  using assms
proof (induction ts arbitrary: clocks h clocks' reaped h')
  case (Cons t ts)
  obtain r used h1 where c: "close_target_preserving_browser peer t command_timeout h = (r, used, h1)"
    by (metis surj_pair)
  define c1 where "c1 = (if r = Inr () then kv_del t clocks else clocks)"
  obtain c2 reaped2 h2 where rest: "close_expired peer ts c1 h1 = (c2, reaped2, h2)" by (metis surj_pair)
  from Cons.prems c rest have out: "clocks' = c2" "reaped = (if r = Inr () then t # reaped2 else reaped2)" "h' = h2"
    by (auto simp: c1_def Let_def)
  have inj: "close_command u = close_command t \<longleftrightarrow> u = t" "close_command u \<noteq> list_command"
    "close_command u \<noteq> anchor_command" for u
    by (auto simp: close_command_def target_param_def list_command_def anchor_command_def)
  have sent: "close_command u \<in> set h1 \<Longrightarrow> close_command u \<in> set h \<or> u = t" for u
    using cleanup_shape [OF c] inj by auto
  note ih = Cons.IH [OF rest]
  have "map_of clocks u = Some i" if "map_of clocks' u = Some i" for u i
  proof -
    from that ih out have "map_of c1 u = Some i" by blast
    then show ?thesis by (auto simp: c1_def split: if_splits)
  qed
  moreover have "set reaped \<subseteq> set (t # ts)" using ih out by auto
  moreover have "close_command u \<in> set h \<or> u \<in> set (t # ts)" if "close_command u \<in> set h'" for u
    using that ih out(3) sent [of u] by auto
  ultimately show ?case by blast
qed auto

subsection \<open>The clocks across sweeps\<close>

text \<open>The clocks a sweep starts from, once a change of browser has cleared them.\<close>

definition carried :: "string \<Rightarrow> tracker \<Rightarrow> (string, instant) kv" where
  "carried ws tk = (if tk_ws_url tk \<noteq> ws then [] else tk_idle_since tk)"

text \<open>Every clock left after a sweep, and every clock a tab was closed by, is carried over or started now.\<close>

definition clocks_sound :: "sweep_view \<Rightarrow> tracker \<Rightarrow> sweep_result \<Rightarrow> bool" where
  "clocks_sound v tk sr \<longleftrightarrow>
     (\<forall>t i. map_of (tk_idle_since (sr_tracker sr)) t = Some i \<longrightarrow>
        leaves_running (tk_ws_url (sr_tracker sr)) t v \<and>
        (map_of (carried (tk_ws_url (sr_tracker sr)) tk) t = Some i \<or> i = sv_now v \<and> listed v \<noteq> None))"

definition closes_sound :: "duration \<Rightarrow> sweep_view \<Rightarrow> tracker \<Rightarrow> sweep_result \<Rightarrow> bool" where
  "closes_sound idle v tk sr \<longleftrightarrow>
     (\<forall>t. close_command t \<in> set (sr_sent sr) \<longrightarrow>
        (\<exists>ws i. leaves_running ws t v \<and> (map_of (carried ws tk) t = Some i \<or> i = sv_now v \<and> listed v \<noteq> None)
           \<and> sv_now v - i \<ge> idle))"

lemma cleared_sound: "clocks_sound v tk (stopped (clear_clocks tk') []) \<and> closes_sound idle v tk (stopped (clear_clocks tk') [])"
  by (simp add: clocks_sound_def closes_sound_def stopped_def clear_clocks_def)

lemma arrived_sel [simp]: "tk_ws_url (arrived ws tk) = ws" "tk_idle_since (arrived ws tk) = carried ws tk"
  by (auto simp: arrived_def carried_def clear_clocks_def)

lemma list_pages_sent: "list_pages peer = (r, h) \<Longrightarrow> h = [list_command]"
  by (auto simp: list_pages_def answer_within_def list_command_def split: prod.splits)

lemma close_is_no_list [simp]: "close_command u \<noteq> list_command"
  by (simp add: close_command_def list_command_def)

text \<open>No list of pages: the clocks stay as they are.\<close>

lemma unlisted_sound:
  assumes "sv_profile v = Some ws" and "\<not> sv_credentials v" and "sv_clients v = 0 \<or> sv_orphans v \<noteq> {}"
    and "listed v = None"
  shows "clocks_sound v tk (sweep idle v tk) \<and> closes_sound idle v tk (sweep idle v tk)"
proof -
  have "\<exists>h. sweep idle v tk = stopped (arrived ws tk) h \<and> (\<forall>u. close_command u \<notin> set h)"
  proof (cases "sv_browser v")
    case None with assms show ?thesis by (auto simp: sweep_def Let_def)
  next
    case (Some peer)
    with assms(4) obtain h where h: "list_pages peer = (None, h)" by (cases "list_pages peer") (auto simp: listed_def)
    with assms Some list_pages_sent [OF h] show ?thesis by (auto simp: sweep_def Let_def)
  qed
  then show ?thesis using assms by (auto simp: clocks_sound_def closes_sound_def stopped_def leaves_running_def)
qed

lemma listed_sound:
  assumes "sv_profile v = Some ws" and "\<not> sv_credentials v" and "sv_clients v = 0 \<or> sv_orphans v \<noteq> {}"
    and "listed v = Some targets"
  shows "clocks_sound v tk (sweep idle v tk) \<and> closes_sound idle v tk (sweep idle v tk)"
proof -
  let ?ts = "page_targets targets"
  from assms(4) obtain peer h where peer: "sv_browser v = Some peer" and h: "list_pages peer = (Some targets, h)"
    by (cases "sv_browser v"; cases "list_pages (the (sv_browser v))") (auto simp: listed_def)
  obtain scanned expired where scan: "foldl (visit_page idle v) (carried ws tk, []) ?ts = (scanned, expired)"
    by fastforce
  define kept where "kept = filter (\<lambda>p. fst p \<in> pt_id ` set ?ts) scanned"
  obtain clocks reaped h' where close: "close_expired peer expired kept h = (clocks, reaped, h')" by (metis surj_pair)
  have "sweep idle v tk = \<lparr> sr_tracker = (arrived ws tk)\<lparr> tk_idle_since := clocks \<rparr>, sr_retained = Some (pt_id ` set ?ts),
      sr_reaped = reaped, sr_sent = h' \<rparr>"
    using assms(1-3) peer h scan close
    by (auto simp: sweep_def kept_def Let_def)
  note sr = this
  have running: "leaves_running ws t v" if "reapable_in v ?ts t" for t
    using that assms by (auto simp: leaves_running_def reapable_in_def)
  have kept: "map_of scanned t = Some i \<and> t \<in> pt_id ` set ?ts" if "map_of kept t = Some i" for t i
    using that unfolding kept_def by (induction scanned) (auto split: if_splits)
  note spec = scan_spec [OF scan] and closes = close_expired_spec [OF close]
  have "leaves_running ws t v \<and> (map_of (carried ws tk) t = Some i \<or> i = sv_now v \<and> listed v \<noteq> None)"
    if "map_of clocks t = Some i" for t i
  proof -
    from that closes have "map_of kept t = Some i" by blast
    from kept [OF this] spec running assms(4) show ?thesis by (auto simp: clock_from_def)
  qed
  moreover have "\<exists>ws i. leaves_running ws t v \<and> (map_of (carried ws tk) t = Some i \<or> i = sv_now v \<and> listed v \<noteq> None)
      \<and> sv_now v - i \<ge> idle" if "close_command t \<in> set h'" for t
  proof -
    from that closes list_pages_sent [OF h] have "t \<in> set expired" by auto
    with spec obtain i where "reapable_in v ?ts t" "clock_from v (carried ws tk) t i" "sv_now v - i \<ge> idle" by blast
    with running assms(4) show ?thesis by (auto simp: clock_from_def)
  qed
  ultimately show ?thesis by (simp add: sr clocks_sound_def closes_sound_def)
qed

lemma sweep_sound: "clocks_sound v tk (sweep idle v tk) \<and> closes_sound idle v tk (sweep idle v tk)"
proof (cases "sv_profile v")
  case None with cleared_sound show ?thesis by (simp add: sweep_def)
next
  case (Some ws)
  show ?thesis
  proof (cases "sv_credentials v \<or> (sv_clients v > 0 \<and> sv_orphans v = {})")
    case True
    with Some cleared_sound show ?thesis by (cases "sv_credentials v") (auto simp: sweep_def Let_def)
  next
    case False
    with Some unlisted_sound listed_sound show ?thesis by (cases "listed v") auto
  qed
qed

text \<open>Every running clock was started by a sweep that listed the tab, and left running by all since.\<close>

lemma clock_since_snoc:
  assumes "clock_since vs ws t i" and "leaves_running ws t v"
  shows "clock_since (vs @ [v]) ws t i"
proof -
  from assms(1) obtain pre u post where "vs = pre @ u # post" "sv_now u = i" "listed u \<noteq> None"
    "\<forall>x \<in> set (u # post). leaves_running ws t x" by (auto simp: clock_since_def)
  with assms(2) show ?thesis
    unfolding clock_since_def by (intro exI [of _ pre] exI [of _ u] exI [of _ "post @ [v]"]) auto
qed

lemma clock_since_now:
  "leaves_running ws t v \<Longrightarrow> listed v \<noteq> None \<Longrightarrow> clock_since (vs @ [v]) ws t (sv_now v)"
  unfolding clock_since_def by (intro exI [of _ vs] exI [of _ v] exI [of _ "[]"]) simp

lemma sweeps_snoc: "sweeps idle (vs @ [v]) = sr_tracker (sweep idle v (sweeps idle vs))"
  by (simp add: sweeps_def)

lemma carried_clock: "map_of (carried ws tk) t = Some i \<Longrightarrow> tk_ws_url tk = ws \<and> map_of (tk_idle_since tk) t = Some i"
  by (auto simp: carried_def split: if_splits)

lemma clocks_since:
  "map_of (tk_idle_since (sweeps idle vs)) t = Some i \<Longrightarrow> clock_since vs (tk_ws_url (sweeps idle vs)) t i"
proof (induction vs arbitrary: i rule: rev_induct)
  case (snoc v vs)
  let ?ws = "tk_ws_url (sweeps idle (vs @ [v]))"
  from snoc.prems sweep_sound [of v "sweeps idle vs" idle]
  have run: "leaves_running ?ws t v"
    and from_: "map_of (carried ?ws (sweeps idle vs)) t = Some i \<or> i = sv_now v \<and> listed v \<noteq> None"
    by (auto simp: sweeps_snoc clocks_sound_def)
  from from_ show ?case
  proof
    assume "map_of (carried ?ws (sweeps idle vs)) t = Some i"
    with snoc.IH run show ?thesis by (metis carried_clock clock_since_snoc)
  next
    assume "i = sv_now v \<and> listed v \<noteq> None"
    with run clock_since_now [of ?ws t v vs] show ?thesis by simp
  qed
qed (simp add: sweeps_def tracker_default_def)

subsection \<open>Properties\<close>

text \<open>
  C11. After any history of sweeps, a close is sent only for a tab that an earlier sweep, at least the idle timeout ago,
  saw as an open web page at which no driver was; and every sweep from that one to this one was of the same browser
  and found no live takeover credential. Each of them that could list the pages saw the tab among them, an open web
  page still, with no driver connected or the tab an orphan. Of one that could not list them no more holds
  than that no driver was connected or that some tab was an orphan: a driver may have been at this very
  tab then, and its clock has run on (\<open>driven_tab_keeps_its_clock\<close> below).
\<close>

theorem reaped_tabs_were_idle:
  assumes "close_command t \<in> set (sr_sent (sweep idle_timeout v (sweeps idle_timeout vs)))"
  shows "\<exists>before seen since ws. vs @ [v] = before @ seen # since \<and> idle_timeout \<le> sv_now v - sv_now seen \<and> listed seen \<noteq> None
    \<and> (\<forall>u \<in> set (seen # since). sv_profile u = Some ws \<and> \<not> sv_credentials u
        \<and> (case listed u of
             Some targets \<Rightarrow> (\<exists>p \<in> set (page_targets targets). pt_id p = t \<and> is_reapable_url (pt_url p))
               \<and> (sv_clients u = 0 \<or> t \<in> sv_orphans u)
           | None \<Rightarrow> sv_clients u = 0 \<or> sv_orphans u \<noteq> {}))"
proof -
  from sweep_sound have "closes_sound idle_timeout v (sweeps idle_timeout vs) (sweep idle_timeout v (sweeps idle_timeout vs))"
    by blast
  with assms obtain ws i where run: "leaves_running ws t v" and long: "sv_now v - i \<ge> idle_timeout"
    and from_: "map_of (carried ws (sweeps idle_timeout vs)) t = Some i \<or> i = sv_now v \<and> listed v \<noteq> None"
    unfolding closes_sound_def by blast
  from from_ have "clock_since (vs @ [v]) ws t i"
  proof
    assume "map_of (carried ws (sweeps idle_timeout vs)) t = Some i"
    with run show ?thesis by (metis carried_clock clocks_since clock_since_snoc)
  next
    assume "i = sv_now v \<and> listed v \<noteq> None"
    with run clock_since_now show ?thesis by auto
  qed
  then obtain before seen since where since: "vs @ [v] = before @ seen # since" "sv_now seen = i" "listed seen \<noteq> None"
    "\<forall>u \<in> set (seen # since). leaves_running ws t u" by (auto simp: clock_since_def)
  have "sv_profile u = Some ws \<and> \<not> sv_credentials u
        \<and> (case listed u of
             Some targets \<Rightarrow> (\<exists>p \<in> set (page_targets targets). pt_id p = t \<and> is_reapable_url (pt_url p))
               \<and> (sv_clients u = 0 \<or> t \<in> sv_orphans u)
           | None \<Rightarrow> sv_clients u = 0 \<or> sv_orphans u \<noteq> {})" if "leaves_running ws t u" for u
    using that by (auto simp: leaves_running_def held_by_driver_def split: option.splits)
  with since long show ?thesis by (intro exI [of _ before] exI [of _ seen] exI [of _ since] exI [of _ ws]) simp
qed

text \<open>Two sweeps 900 s apart over an abandoned page: the second closes it.\<close>

definition quiet_view :: "instant \<Rightarrow> sweep_view" where
  "quiet_view now = \<lparr> sv_profile = Some ''ws://b'', sv_credentials = False, sv_clients = 0, sv_orphans = {},
     sv_browser = Some one_page_browser, sv_now = now \<rparr>"

lemma one_page_listed:
  "list_pages one_page_browser = (Some (JObj [(''targetInfos'', JArr [JObj [(''targetId'', JStr ''T''), (''type'', JStr ''page''), (''url'', JStr ''https://e/'')]])]), [list_command])"
  by (simp add: list_pages_def answer_within_def one_page_browser_def list_command_def command_timeout_def secs_def res_ok_def)

lemma one_page_targets:
  "page_targets (JObj [(''targetInfos'', JArr [JObj [(''targetId'', JStr ''T''), (''type'', JStr ''page''), (''url'', JStr ''https://e/'')]])])
     = [\<lparr> pt_id = ''T'', pt_url = ''https://e/'' \<rparr>]"
  by (simp add: page_targets_def get_str_def str_default_def)

lemma one_page_close:
  "close_target_preserving_browser one_page_browser ''T'' command_timeout h =
     (Inr (), 3, close_command ''T'' # anchor_command # list_command # h)"
  by (simp add: close_target_preserving_browser_def within_def close_it_def one_page_browser_def json_idx_def is_anchor_def
      window_anchor_def new_target_def close_command_def anchor_command_def list_command_def command_timeout_def secs_def)

lemma example_url: "is_reapable_url ''https://e/''"
  by (simp add: is_reapable_url_def starts_with_def)

lemmas sweep_example = sweep_def quiet_view_def one_page_listed one_page_targets visit_page_def example_url held_by_driver_def
  arrived_def clear_clocks_def stopped_def Let_def

lemma first_sweep:
  "sr_tracker (sweep 900 (quiet_view 0) tracker_default) = \<lparr> tk_ws_url = ''ws://b'', tk_idle_since = [(''T'', 0)] \<rparr>"
  by (simp add: sweep_example tracker_default_def)

lemma abandoned_page_is_closed:
  "close_command ''T'' \<in> set (sr_sent (sweep 900 (quiet_view 900) (sweeps 900 [quiet_view 0])))"
  by (simp add: sweeps_def first_sweep) (simp add: sweep_example one_page_close)

lemma reaped_tabs_were_idle_witness:
  "close_command ''T'' \<in> set (sr_sent (sweep 900 (quiet_view 900) (sweeps 900 [quiet_view 0])))
   \<and> (\<exists>before seen since. [quiet_view 0, quiet_view 900] = before @ seen # since \<and> 900 \<le> 900 - sv_now seen)"
proof -
  from reaped_tabs_were_idle [OF abandoned_page_is_closed]
  have "\<exists>before seen since. [quiet_view 0] @ [quiet_view 900] = before @ seen # since \<and> 900 \<le> sv_now (quiet_view 900) - sv_now seen"
    by blast
  with abandoned_page_is_closed show ?thesis by (simp add: quiet_view_def)
qed

text \<open>
  A driver that comes and goes between two sweeps, or during a sweep that cannot reach the browser
  while an orphan exists, does not reset the clock of a tab it drives: the tab is closed with no grace.
\<close>

definition unreachable_view :: sweep_view where
  "unreachable_view = \<lparr> sv_profile = Some ''ws://b'', sv_credentials = False, sv_clients = 1, sv_orphans = {''O''},
     sv_browser = None, sv_now = 890 \<rparr>"

lemma driven_tab_keeps_its_clock:
  "held_by_driver unreachable_view ''T''
   \<and> close_command ''T'' \<in> set (sr_sent (sweep 900 (quiet_view 900) (sweeps 900 [quiet_view 0, unreachable_view])))"
proof -
  have "sweeps 900 [quiet_view 0, unreachable_view] = sweeps 900 [quiet_view 0]"
    by (simp add: sweeps_def first_sweep) (simp add: sweep_example unreachable_view_def)
  with abandoned_page_is_closed show ?thesis by (simp add: held_by_driver_def unreachable_view_def)
qed

end
