(* ===== verification/ProfileStore.thy ===== *)
theory ProfileStore
  imports Paths Errors
begin

text \<open>
  Profiles on disk (\<open>sdk/profile/paths.rs\<close>, \<open>sdk/profile/mod.rs\<close>, \<open>sdk/profile/lock.rs\<close>): names, finding
  a profile under its backend, listing, deleting and pruning. What the file system answers is a
  record of functions; an operation that removes returns the removals it made, in order.
\<close>

subsection \<open>Names\<close>

definition known_backends :: "string list" where
  "known_backends = [''chromium'', ''chrome'', ''fingerprint-chromium'', ''edge'', ''brave'', ''lightpanda'', ''camoufox'']"

definition windows_reserved :: "string list" where
  "windows_reserved = [''con'', ''prn'', ''aux'', ''nul'', ''com1'', ''com2'', ''com3'', ''com4'', ''com5'', ''com6'',
     ''com7'', ''com8'', ''com9'', ''lpt1'', ''lpt2'', ''lpt3'', ''lpt4'', ''lpt5'', ''lpt6'', ''lpt7'', ''lpt8'', ''lpt9'']"

definition is_windows_reserved :: "string \<Rightarrow> bool" where
  "is_windows_reserved name \<longleftrightarrow>
     (let base = (case split_once CHR ''.'' name of Some (b, _) \<Rightarrow> b | None \<Rightarrow> name)
      in to_ascii_lowercase base \<in> set windows_reserved)"

definition name_char :: "char \<Rightarrow> bool" where
  "name_char c \<longleftrightarrow> is_ascii_alphanumeric c \<or> c = CHR ''-'' \<or> c = CHR ''_'' \<or> c = CHR ''.''"

definition validate_name :: "string \<Rightarrow> unit result" where
  "validate_name name =
     (if name = [] then fail ProfileInvalidName ''profile name cannot be empty''
      else if length name > 64 then fail ProfileInvalidName ''profile name longer than 64 characters''
      else if starts_with name ''.'' then fail ProfileInvalidName (''profile name cannot start with '' @ [CHR 0x27, CHR ''.'', CHR 0x27])
      else if ends_with name ''.'' then fail ProfileInvalidName (''profile name cannot end with '' @ [CHR 0x27, CHR ''.'', CHR 0x27])
      else if \<not> list_all name_char name then fail ProfileInvalidName ''profile name contains forbidden character: {c:?}''
      else if is_windows_reserved name then
        fail ProfileInvalidName ''profile name {name:?} matches a Windows reserved device name; pick another to keep profiles portable''
      else Inr ())"

definition validate_backend_key :: "string \<Rightarrow> unit result" where
  "validate_backend_key backend =
     (if backend \<in> set known_backends then Inr ()
      else fail InvalidArgument (''unknown profile backend {backend:?}; expected one of '' @ join '', '' known_backends))"

subsection \<open>The file system\<close>

datatype node_kind = DirNode | FileNode | LinkNode | OtherNode
datatype stat = StatError | Missing | Found node_kind

text \<open>A directory with what is below it, for its size; \<open>NoMeta\<close> is an entry that cannot be examined.\<close>

datatype fs_tree = FileT nat | DirT bool "fs_tree list" | OtherT | NoMeta

record profile_meta =
  pf_schema_version :: nat
  pf_name :: string
  pf_backend :: string
  pf_last_used :: string

record disk =
  dk_lstat :: "path \<Rightarrow> stat"
  dk_exists :: "path \<Rightarrow> bool"
  dk_is_dir :: "path \<Rightarrow> bool"
  dk_read_dir :: "path \<Rightarrow> (string \<times> node_kind option) option list option"
  dk_utf8 :: "string \<Rightarrow> bool"
  dk_read :: "path \<Rightarrow> string option"
  dk_parse_meta :: "string \<Rightarrow> profile_meta option"
  dk_file_len :: "path \<Rightarrow> nat option"
  dk_canonical :: "path \<Rightarrow> path option"
  dk_tree :: "path \<Rightarrow> fs_tree"
  dk_age :: "path \<Rightarrow> duration option"
  dk_probe :: "path \<Rightarrow> bool"
  dk_acquire :: "path \<Rightarrow> unit result"
  dk_create_dir :: "path \<Rightarrow> bool"
  dk_remove :: "path \<Rightarrow> bool"
  dk_missing_after :: "path \<Rightarrow> bool"

definition path_join :: "path \<Rightarrow> string \<Rightarrow> path" where
  "path_join p s = path_push p (parse_path s)"

definition kind_name :: "node_kind \<Rightarrow> string" where
  "kind_name k = (case k of LinkNode \<Rightarrow> ''symlink'' | FileNode \<Rightarrow> ''regular file'' | _ \<Rightarrow> ''non-directory entry'')"

definition ensure_no_filesystem_collision :: "disk \<Rightarrow> path \<Rightarrow> string \<Rightarrow> unit result" where
  "ensure_no_filesystem_collision d root name =
     (case dk_lstat d (path_join root name) of
        Missing \<Rightarrow> Inr ()
      | StatError \<Rightarrow> fail ProfileRootUnavailable ''stat {}: {e}''
      | Found DirNode \<Rightarrow> Inr ()
      | Found k \<Rightarrow> fail ProfileInvalidName (''profile name {name:?} would collide with a '' @ kind_name k
          @ '' at {} '' @ [CHR 0xE2, CHR 0x80, CHR 0x94] @ '' remove or rename it before reusing the name''))"

definition ensure_backend_dir :: "disk \<Rightarrow> path \<Rightarrow> string \<Rightarrow> path result" where
  "ensure_backend_dir d root backend =
     and_then (validate_backend_key backend) (\<lambda>_.
       (let dir = path_join root backend
        in case dk_lstat d dir of
             Found DirNode \<Rightarrow> Inr dir
           | Found k \<Rightarrow> fail ProfileRootUnavailable (''profile backend {backend:?} would collide with a '' @ kind_name k @ '' at {}'')
           | Missing \<Rightarrow> (if dk_create_dir d dir then Inr dir
                          else fail ProfileRootUnavailable ''create profile backend dir {}: {e}'')
           | StatError \<Rightarrow> fail ProfileRootUnavailable ''stat {}: {e}''))"

definition join_root_name :: "path \<Rightarrow> string \<Rightarrow> path result" where
  "join_root_name root name = and_then (validate_name name) (\<lambda>_. Inr (path_join root name))"

definition join_root_backend_name :: "path \<Rightarrow> string \<Rightarrow> string \<Rightarrow> path result" where
  "join_root_backend_name root backend name =
     and_then (validate_backend_key backend) (\<lambda>_.
     and_then (validate_name name) (\<lambda>_. Inr (path_join (path_join root backend) name)))"

definition lockfile :: "path \<Rightarrow> path" where "lockfile dir = path_join dir ''afhttp-profile.lock''"
definition pidfile :: "path \<Rightarrow> path" where "pidfile dir = path_join dir ''afhttp-profile.pid''"

record lock_status =
  lk_locked :: bool
  lk_lockfile :: path
  lk_owner_pid :: "nat option"

text \<open>\<open>pid\<close> is the text of the pid file, if it can be read.\<close>

definition status_of :: "disk \<Rightarrow> (path \<Rightarrow> string option) \<Rightarrow> path \<Rightarrow> lock_status" where
  "status_of d pid dir =
     (let locked = dk_probe d dir
      in \<lparr> lk_locked = locked, lk_lockfile = lockfile dir,
           lk_owner_pid = (if locked then Option.bind (pid (pidfile dir)) (\<lambda>s. parse_uint u32_max (trim s)) else None) \<rparr>)"

subsection \<open>The size of a profile\<close>

definition sat_add_u64 :: "nat \<Rightarrow> nat \<Rightarrow> nat" where "sat_add_u64 a b = sat_u64 (a + b)"

fun visit_entry :: "nat \<times> fs_tree list \<Rightarrow> fs_tree \<Rightarrow> nat \<times> fs_tree list" where
  "visit_entry (acc, stack) (FileT n) = (sat_add_u64 acc n, stack)"
| "visit_entry (acc, stack) (DirT b es) = (acc, DirT b es # stack)"
| "visit_entry (acc, stack) _ = (acc, stack)"

text \<open>The directories still to be read, the next one first.\<close>

lemma visit_entries_size:
  "foldl visit_entry (acc, stack) es = (acc', stack') \<Longrightarrow>
   size_list size stack' \<le> size_list size stack + size_list size es"
proof (induction es arbitrary: acc stack)
  case (Cons e es)
  obtain t s where s: "visit_entry (acc, stack) e = (t, s)" by fastforce
  then have "size_list size s \<le> size_list size stack + Suc (size e)" by (cases e) auto
  with Cons.IH [of t s] Cons.prems s show ?case by simp
qed simp

function size_loop :: "fs_tree list \<Rightarrow> nat \<Rightarrow> nat option" where
  "size_loop [] acc = Some acc"
| "size_loop (DirT True es # stack) acc =
     size_loop (snd (foldl visit_entry (acc, stack) es)) (fst (foldl visit_entry (acc, stack) es))"
| "size_loop (DirT False es # stack) acc = None"
| "size_loop (FileT n # stack) acc = None"
| "size_loop (OtherT # stack) acc = None"
| "size_loop (NoMeta # stack) acc = None"
  by pat_completeness auto

termination size_loop
proof (relation "measure (\<lambda>(stack, _). size_list size stack)")
  fix es stack and acc :: nat
  obtain t s where "foldl visit_entry (acc, stack) es = (t, s)" by fastforce
  with visit_entries_size [OF this]
  show "((snd (foldl visit_entry (acc, stack) es), fst (foldl visit_entry (acc, stack) es)), DirT True es # stack, acc)
      \<in> measure (\<lambda>(stack, _). size_list size stack)" by simp
qed simp

definition dir_size :: "fs_tree \<Rightarrow> nat option" where
  "dir_size t = size_loop [t] 0"

fun tree_bytes :: "fs_tree \<Rightarrow> nat" where
  "tree_bytes (FileT n) = n"
| "tree_bytes (DirT _ es) = sum_list (map tree_bytes es)"
| "tree_bytes _ = 0"

fun readable :: "fs_tree \<Rightarrow> bool" where
  "readable (DirT b es) \<longleftrightarrow> b \<and> list_all readable es"
| "readable _ \<longleftrightarrow> True"

definition is_dir_tree :: "fs_tree \<Rightarrow> bool" where
  "is_dir_tree t \<longleftrightarrow> (case t of DirT _ _ \<Rightarrow> True | _ \<Rightarrow> False)"

lemma sat_add: "sat_add_u64 (sat_u64 a) b = sat_u64 (a + b)"
  by (simp add: sat_add_u64_def sat_u64_def)

text \<open>Reading one directory adds its files and stacks its subdirectories.\<close>

lemma visit_entries_spec:
  "foldl visit_entry (sat_u64 acc, stack) es = (acc', stack') \<Longrightarrow>
   \<exists>a. acc' = sat_u64 a \<and> a + sum_list (map tree_bytes stack') = acc + sum_list (map tree_bytes stack) + sum_list (map tree_bytes es)
     \<and> (list_all readable stack' \<longleftrightarrow> list_all readable stack \<and> list_all readable es)
     \<and> (list_all is_dir_tree stack \<longrightarrow> list_all is_dir_tree stack')"
proof (induction es arbitrary: acc stack)
  case Nil then show ?case by auto
next
  case (Cons e es)
  show ?case
  proof (cases e)
    case (FileT n)
    with Cons.prems have "foldl visit_entry (sat_u64 (acc + n), stack) es = (acc', stack')" by (simp add: sat_add)
    from Cons.IH [OF this] FileT show ?thesis by (auto simp: algebra_simps)
  next
    case (DirT b ts)
    with Cons.prems have "foldl visit_entry (sat_u64 acc, DirT b ts # stack) es = (acc', stack')" by simp
    from Cons.IH [OF this] DirT show ?thesis by (auto simp: algebra_simps is_dir_tree_def)
  next
    case OtherT
    with Cons.prems have "foldl visit_entry (sat_u64 acc, stack) es = (acc', stack')" by simp
    from Cons.IH [OF this] OtherT show ?thesis by auto
  next
    case NoMeta
    with Cons.prems have "foldl visit_entry (sat_u64 acc, stack) es = (acc', stack')" by simp
    from Cons.IH [OF this] NoMeta show ?thesis by auto
  qed
qed

lemma size_loop_spec:
  "list_all is_dir_tree stack \<Longrightarrow>
   size_loop stack (sat_u64 acc) =
     (if list_all readable stack then Some (sat_u64 (acc + sum_list (map tree_bytes stack))) else None)"
proof (induction stack "sat_u64 acc" arbitrary: acc rule: size_loop.induct)
  case (2 es stack)
  obtain t s where fold: "foldl visit_entry (sat_u64 acc, stack) es = (t, s)" by fastforce
  from visit_entries_spec [OF fold] obtain a where a: "t = sat_u64 a"
    "a + sum_list (map tree_bytes s) = acc + sum_list (map tree_bytes stack) + sum_list (map tree_bytes es)"
    "list_all readable s \<longleftrightarrow> list_all readable stack \<and> list_all readable es"
    "list_all is_dir_tree stack \<longrightarrow> list_all is_dir_tree s" by blast
  from 2(1) [of a] fold a 2(2) show ?case by (auto simp: algebra_simps is_dir_tree_def)
qed (auto simp: is_dir_tree_def)

subsection \<open>Metadata and listing\<close>

definition meta_schema_version :: nat where "meta_schema_version = 2"

definition read_profile_meta :: "disk \<Rightarrow> path \<Rightarrow> profile_meta result" where
  "read_profile_meta d p =
     (case dk_read d p of
        None \<Rightarrow> fail IoError ''read profile metadata {}: {e}''
      | Some s \<Rightarrow>
          (case dk_parse_meta d s of
             Some m \<Rightarrow> Inr m
           | None \<Rightarrow> Inl (with_retryable (error_new IoError ''profile metadata {} is not schema v2: {e}; back up this profile and restore or repair only afhttp-profile.json. Browser data is separate; do not delete the profile directory'') False)))"

definition validate_profile_meta :: "profile_meta \<Rightarrow> string \<Rightarrow> string \<Rightarrow> unit result" where
  "validate_profile_meta m backend name =
     (if pf_schema_version m \<noteq> meta_schema_version then
        Inl (with_retryable (error_new IoError ''profile metadata at {} has schema_version {}; expected 2; back up this profile and restore compatible afhttp-profile.json metadata; preserve browser data'') False)
      else if pf_backend m \<noteq> backend then
        Inl (with_retryable (error_new IoError ''profile metadata backend {:?} does not match path backend {:?} at {}; back up this profile and repair afhttp-profile.json or select the matching backend; preserve browser data'') False)
      else if pf_name m \<noteq> name then
        Inl (with_retryable (error_new IoError ''profile metadata name {:?} does not match path name {:?} at {}; back up this profile and repair afhttp-profile.json or select the matching name; preserve browser data'') False)
      else Inr ())"

record profile_row =
  pe_backend :: string
  pe_name :: string
  pe_path :: path
  pe_size :: nat
  pe_metadata_present :: bool
  pe_last_used :: "string option"
  pe_locked :: bool

definition info_at :: "disk \<Rightarrow> path \<Rightarrow> string \<Rightarrow> string \<Rightarrow> profile_row result" where
  "info_at d dir backend name =
     (let meta_path = path_join dir ''afhttp-profile.json'';
          meta = (if dk_exists d meta_path then
                    and_then (read_profile_meta d meta_path) (\<lambda>m.
                    and_then (validate_profile_meta m backend name) (\<lambda>_. Inr (True, Some (pf_last_used m))))
                  else Inr (False, None))
      in and_then meta (\<lambda>(present, last_used). Inr
           \<lparr> pe_backend = backend, pe_name = name, pe_path = dir,
             pe_size = (case dir_size (dk_tree d dir) of Some n \<Rightarrow> n | None \<Rightarrow> 0),
             pe_metadata_present = present, pe_last_used = last_used, pe_locked = dk_probe d dir \<rparr>))"

text \<open>The directories of one backend: entries that cannot be read and names that are not UTF-8 are passed over.\<close>

definition profile_names :: "disk \<Rightarrow> (string \<times> node_kind option) option list \<Rightarrow> string list" where
  "profile_names d es = filter (dk_utf8 d) (map fst (filter (\<lambda>e. snd e = Some DirNode) (List.map_filter id es)))"

definition list_backend :: "disk \<Rightarrow> path \<Rightarrow> string \<Rightarrow> profile_row list result" where
  "list_backend d root backend =
     (let backend_dir = path_join root backend
      in if \<not> dk_is_dir d backend_dir then Inr []
         else (case dk_read_dir d backend_dir of
                 None \<Rightarrow> fail ProfileRootUnavailable ''read_dir({}): {e}''
               | Some es \<Rightarrow> try_map (\<lambda>n. info_at d (backend_dir @ [Normal n]) backend n) (profile_names d es)))"

text \<open>\<open>sort_by(backend, then name)\<close>: a stable sort by name, then a stable one by backend.\<close>

definition list_profiles :: "disk \<Rightarrow> path \<Rightarrow> profile_row list result" where
  "list_profiles d root =
     (if \<not> dk_exists d root then Inr []
      else and_then (try_map (list_backend d root) known_backends) (\<lambda>rows.
        Inr (sort_key pe_backend (sort_key pe_name (concat rows)))))"

definition resolve_backend_scoped_profile :: "disk \<Rightarrow> path \<Rightarrow> string \<Rightarrow> string option \<Rightarrow> (string \<times> path) result" where
  "resolve_backend_scoped_profile d root name backend =
     (case backend of
        Some backend \<Rightarrow>
          and_then (validate_backend_key backend) (\<lambda>_.
          and_then (join_root_backend_name root backend name) (\<lambda>dir.
            if dk_exists d dir then Inr (backend, dir)
            else fail ProfileNotFound ''profile {name:?} not found for backend {backend:?} at {}''))
      | None \<Rightarrow>
          (let candidates = filter (\<lambda>(b, dir). dk_exists d dir)
                 (map (\<lambda>b. (b, path_join (path_join root b) name)) known_backends)
           in case candidates of
                [] \<Rightarrow> fail ProfileNotFound ''profile {name:?} not found under backend-scoped root {}''
              | [c] \<Rightarrow> Inr c
              | _ \<Rightarrow> fail InvalidArgument (''profile {name:?} exists under multiple backends ('' @ join '', '' (map fst candidates)
                       @ ''); pass --backend <backend>'')))"

definition info :: "disk \<Rightarrow> path \<Rightarrow> string \<Rightarrow> string option \<Rightarrow> profile_row result" where
  "info d root name backend =
     and_then (validate_name name) (\<lambda>_.
     and_then (resolve_backend_scoped_profile d root name backend) (\<lambda>(b, dir). info_at d dir b name))"

definition profile_lock_status :: "disk \<Rightarrow> (path \<Rightarrow> string option) \<Rightarrow> path \<Rightarrow> string \<Rightarrow> string option \<Rightarrow> lock_status result" where
  "profile_lock_status d pid root name backend =
     and_then (validate_name name) (\<lambda>_.
     and_then (resolve_backend_scoped_profile d root name backend) (\<lambda>(_, dir). Inr (status_of d pid dir)))"

record download_row =
  dn_filename :: string
  dn_path :: path
  dn_size :: nat
  dn_state :: string

definition extension_of :: "string \<Rightarrow> string option" where
  "extension_of name = (case rsplit_once CHR ''.'' name of Some (b, e) \<Rightarrow> (if b = [] then None else Some e) | None \<Rightarrow> None)"

definition download_row_of :: "disk \<Rightarrow> path \<Rightarrow> string \<Rightarrow> download_row option" where
  "download_row_of d dir name =
     (let p = dir @ [Normal name]
      in case dk_file_len d p of
           Some n \<Rightarrow>
             if dk_utf8 d name then
               Some \<lparr> dn_filename = name,
                      dn_path = (case dk_canonical d p of Some q \<Rightarrow> q | None \<Rightarrow> p), dn_size = n,
                      dn_state = (if extension_of name = Some ''crdownload'' then ''in_progress'' else ''completed'') \<rparr>
             else None
         | None \<Rightarrow> None)"

definition downloads_at :: "disk \<Rightarrow> path \<Rightarrow> download_row list result" where
  "downloads_at d profile_dir =
     (let dir = path_join profile_dir ''downloads''
      in if \<not> dk_exists d dir then Inr []
         else (case dk_read_dir d dir of
                 None \<Rightarrow> fail IoError ''read_dir({}): {e}''
               | Some es \<Rightarrow> Inr (sort_key dn_filename
                   (List.map_filter (\<lambda>e. download_row_of d dir (fst e)) (List.map_filter id es)))))"

definition downloads :: "disk \<Rightarrow> path \<Rightarrow> string \<Rightarrow> string option \<Rightarrow> download_row list result" where
  "downloads d root name backend = and_then (info d root name backend) (\<lambda>row. downloads_at d (pe_path row))"

subsection \<open>Removing profiles\<close>

datatype removal = RemoveTree path | RemoveFile path | RemoveDir path

fun removed_path :: "removal \<Rightarrow> path" where
  "removed_path (RemoveTree p) = p"
| "removed_path (RemoveFile p) = p"
| "removed_path (RemoveDir p) = p"

text \<open>Everything but the lock file, while the lock is held; the first failure ends it.\<close>

fun remove_entries :: "disk \<Rightarrow> path \<Rightarrow> (string \<times> node_kind option) option list \<Rightarrow> unit result \<times> removal list" where
  "remove_entries d dir [] = (Inr (), [])"
| "remove_entries d dir (None # es) = (fail IoError ''read_dir({}): {e}'', [])"
| "remove_entries d dir (Some (name, kind) # es) =
     (let p = dir @ [Normal name]
      in if p = lockfile dir then remove_entries d dir es
         else (case kind of
                 None \<Rightarrow> (fail IoError ''file_type({}): {e}'', [])
               | Some k \<Rightarrow>
                   (let r = (if k = DirNode then RemoveTree p else RemoveFile p)
                    in if dk_remove d p then
                         (case remove_entries d dir es of (res, rs) \<Rightarrow> (res, r # rs))
                       else (fail IoError (if k = DirNode then ''remove_dir_all({}): {e}'' else ''remove_file({}): {e}''), [r]))))"

definition remove_profile_dir :: "disk \<Rightarrow> path \<Rightarrow> unit result \<times> removal list" where
  "remove_profile_dir d dir =
     (case dk_lstat d dir of
        StatError \<Rightarrow> (fail IoError ''symlink_metadata({}): {e}'', [])
      | Missing \<Rightarrow> (fail IoError ''symlink_metadata({}): {e}'', [])
      | Found k \<Rightarrow>
          if k \<noteq> DirNode then
            (fail InvalidArgument ''{} is not a profile directory (a link or a file); remove it by hand'', [])
          else
            (case dk_acquire d dir of
               Inl e \<Rightarrow> (Inl e, [])
             | Inr _ \<Rightarrow>
                 (case dk_read_dir d dir of
                    None \<Rightarrow> (fail IoError ''read_dir({}): {e}'', [])
                  | Some es \<Rightarrow>
                      (case remove_entries d dir es of
                         (Inl e, rs) \<Rightarrow> (Inl e, rs)
                       | (Inr _, rs) \<Rightarrow>
                           (let rs = rs @ [RemoveFile (lockfile dir)]
                            in if \<not> dk_remove d (lockfile dir) \<and> \<not> dk_missing_after d (lockfile dir)
                               then (fail IoError ''remove_file({}): {e}'', rs)
                               else (if dk_remove d dir then Inr () else fail IoError ''remove_dir({}): {e}'',
                                     rs @ [RemoveDir dir]))))))"

definition delete_profile ::
  "disk \<Rightarrow> path \<Rightarrow> string \<Rightarrow> string \<Rightarrow> string option \<Rightarrow> unit result \<times> removal list" where
  "delete_profile d root name confirm backend =
     (case validate_name name of
        Inl e \<Rightarrow> (Inl e, [])
      | Inr _ \<Rightarrow>
          if name \<noteq> confirm then
            (fail InvalidArgument ''profile delete: --confirm must match name (got {confirm:?})'', [])
          else
            (case resolve_backend_scoped_profile d root name backend of
               Inl e \<Rightarrow> (Inl e, [])
             | Inr (b, dir) \<Rightarrow>
                 (case remove_profile_dir d dir of
                    (Inl e, rs) \<Rightarrow>
                      (if error_code e = ProfileLocked
                       then fail ProfileDeleteLocked ''profile {backend}/{name:?} is locked; cannot delete'' else Inl e, rs)
                  | (Inr _, rs) \<Rightarrow> (Inr (), rs))))"

fun prune_rows ::
  "disk \<Rightarrow> duration \<Rightarrow> bool \<Rightarrow> profile_row list \<Rightarrow> profile_row list result \<times> removal list" where
  "prune_rows d older_than dry_run [] = (Inr [], [])"
| "prune_rows d older_than dry_run (row # rows) =
     (let too_old = (case dk_age d (pe_path row) of Some age \<Rightarrow> age \<ge> older_than | None \<Rightarrow> False)
      in if pe_locked row \<or> \<not> too_old then prune_rows d older_than dry_run rows
         else
           (let kept = (\<lambda>rs. case prune_rows d older_than dry_run rows of
                   (res, rest) \<Rightarrow> (map_sum id (Cons row) res, rs @ rest))
            in if dry_run then kept []
               else (case remove_profile_dir d (pe_path row) of
                       (Inr _, rs) \<Rightarrow> kept rs
                     | (Inl e, rs) \<Rightarrow>
                         if error_code e = ProfileLocked then
                           (case prune_rows d older_than dry_run rows of (res, rest) \<Rightarrow> (res, rs @ rest))
                         else (Inl e, rs))))"

definition prune :: "disk \<Rightarrow> duration \<Rightarrow> bool \<Rightarrow> path \<Rightarrow> profile_row list result \<times> removal list" where
  "prune d older_than dry_run root =
     (case list_profiles d root of
        Inl e \<Rightarrow> (Inl e, [])
      | Inr rows \<Rightarrow> prune_rows d older_than dry_run rows)"

subsection \<open>Names stay one component\<close>

lemma name_char_plain: "name_char c \<Longrightarrow> c \<noteq> CHR ''/''"
  by (auto simp: name_char_def is_ascii_alphanumeric_def is_ascii_digit_def)

lemma valid_name_path:
  assumes "validate_name name = Inr ()"
  shows "parse_path name = [Normal name]"
proof -
  from assms have ne: "name \<noteq> []" and nodot: "\<not> starts_with name ''.''" and all: "list_all name_char name"
    by (auto simp: validate_name_def split: if_splits)
  from all name_char_plain have noslash: "CHR ''/'' \<notin> set name" by (auto simp: list_all_iff)
  from ne obtain c s where cs: "name = c # s" by (cases name) auto
  from noslash cs have "\<not> starts_with name ''/''" by (simp add: starts_with_def)
  moreover from nodot cs have "c \<noteq> CHR ''.''" by (auto simp: starts_with_def)
  moreover have "split_on CHR ''/'' (c # s) = [c # s]" using noslash by (intro split_on_none) (simp add: cs)
  ultimately show ?thesis by (simp add: parse_path_def component_of_def cs del: split_on.simps)
qed

lemma known_backend_path: "b \<in> set known_backends \<Longrightarrow> parse_path b = [Normal b]"
  by (auto simp: known_backends_def parse_path_def starts_with_def component_of_def)

lemma profile_path:
  assumes "b \<in> set known_backends" and "validate_name name = Inr ()"
  shows "path_join (path_join root b) name = root @ [Normal b, Normal name]"
  using assms by (simp add: path_join_def path_push_def known_backend_path valid_name_path is_absolute_def)

subsection \<open>What a removal touches\<close>

lemma remove_entries_inside:
  "remove_entries d dir es = (res, rs) \<Longrightarrow> r \<in> set rs \<Longrightarrow> \<exists>n. removed_path r = dir @ [Normal n] \<and> removed_path r \<noteq> lockfile dir"
proof (induction d dir es arbitrary: res rs rule: remove_entries.induct)
  case (3 d dir name kind es)
  show ?case
  proof (cases "dir @ [Normal name] = lockfile dir")
    case True with 3 show ?thesis by simp
  next
    case False
    show ?thesis
    proof (cases kind)
      case None with 3(3,4) False show ?thesis by simp
    next
      case (Some k)
      show ?thesis
      proof (cases "dk_remove d (dir @ [Normal name])")
        case ok: True
        obtain res' rs' where rest: "remove_entries d dir es = (res', rs')" by fastforce
        from 3(3) False Some ok rest have "rs = (if k = DirNode then RemoveTree (dir @ [Normal name]) else RemoveFile (dir @ [Normal name])) # rs'"
          by (simp add: Let_def)
        with 3(2) [OF refl False Some refl ok rest] 3(4) False show ?thesis by (auto split: if_splits)
      next
        case bad: False
        with 3(3,4) False Some show ?thesis by (auto simp: Let_def split: if_splits)
      qed
    qed
  qed
qed auto

lemma lockfile_in: "lockfile dir = dir @ [Normal ''afhttp-profile.lock'']"
proof -
  have "parse_path ''afhttp-profile.lock'' = [Normal ''afhttp-profile.lock'']"
    by (simp add: parse_path_def starts_with_def component_of_def)
  then show ?thesis by (simp add: lockfile_def path_join_def path_push_def is_absolute_def)
qed

lemma remove_profile_dir_inside:
  assumes "remove_profile_dir d dir = (res, rs)" and "r \<in> set rs"
  shows "dk_lstat d dir = Found DirNode \<and> dk_acquire d dir = Inr () \<and> (\<exists>rest. removed_path r = dir @ rest)"
proof -
  obtain k where k: "dk_lstat d dir = Found k" using assms
    by (cases "dk_lstat d dir") (auto simp: remove_profile_dir_def)
  with assms have dirn: "k = DirNode" by (auto simp: remove_profile_dir_def split: if_splits)
  with k assms obtain u where acq: "dk_acquire d dir = Inr u" by (cases "dk_acquire d dir") (auto simp: remove_profile_dir_def)
  obtain es where es: "dk_read_dir d dir = Some es" using assms k dirn acq
    by (cases "dk_read_dir d dir") (auto simp: remove_profile_dir_def)
  obtain re res' where re: "remove_entries d dir es = (re, res')" by fastforce
  have sub: "set rs \<subseteq> set res' \<union> {RemoveFile (lockfile dir), RemoveDir dir}"
    using assms(1) k dirn acq es re by (cases re) (auto simp: remove_profile_dir_def Let_def split: if_splits)
  from assms(2) sub consider "r \<in> set res'" | "removed_path r = lockfile dir" | "removed_path r = dir" by auto
  then have "\<exists>rest. removed_path r = dir @ rest"
  proof cases
    case 1 with remove_entries_inside [OF re] show ?thesis by blast
  qed (auto simp: lockfile_in)
  with k dirn acq show ?thesis by simp
qed

lemma only_candidate:
  "(case xs of [] \<Rightarrow> Inl e | [c] \<Rightarrow> Inr c | _ \<Rightarrow> Inl e') = Inr v \<longleftrightarrow> xs = [v]"
  by (auto split: list.splits)

lemma resolve_path:
  assumes "resolve_backend_scoped_profile d root name backend = Inr (b, dir)" and "validate_name name = Inr ()"
  shows "b \<in> set known_backends \<and> dir = root @ [Normal b, Normal name] \<and> (backend = None \<or> backend = Some b) \<and> dk_exists d dir
    \<and> (backend = None \<longrightarrow> (\<forall>b' \<in> set known_backends. dk_exists d (root @ [Normal b', Normal name]) \<longrightarrow> b' = b))"
proof (cases backend)
  case (Some b')
  with assms(1) have "b' \<in> set known_backends" "b' = b" "dir = path_join (path_join root b) name" "dk_exists d dir"
    by (auto simp: resolve_backend_scoped_profile_def and_then_Inr validate_backend_key_def join_root_backend_name_def split: if_splits)
  with Some assms(2) show ?thesis by (auto simp: profile_path)
next
  case None
  let ?cands = "map (\<lambda>b. (b, path_join (path_join root b) name)) known_backends"
  have one: "filter (\<lambda>(b, dir). dk_exists d dir) ?cands = [(b, dir)]"
    using assms(1) unfolding None resolve_backend_scoped_profile_def Let_def option.case only_candidate .
  then have "(b, dir) \<in> set (filter (\<lambda>(b, dir). dk_exists d dir) ?cands)" by simp
  then have known: "b \<in> set known_backends" and dir: "dir = path_join (path_join root b) name" and ex: "dk_exists d dir"
    unfolding set_filter set_map by auto
  have "b' = b" if b': "b' \<in> set known_backends" and "dk_exists d (root @ [Normal b', Normal name])" for b'
  proof -
    from that profile_path [OF b' assms(2), of root]
    have "(b', path_join (path_join root b') name) \<in> set (filter (\<lambda>(b, dir). dk_exists d dir) ?cands)"
      unfolding set_filter set_map by auto
    then show ?thesis unfolding one by simp
  qed
  then have "\<forall>b' \<in> set known_backends. dk_exists d (root @ [Normal b', Normal name]) \<longrightarrow> b' = b" by blast
  with known ex None profile_path [OF known assms(2), of root] dir show ?thesis by metis
qed

lemma try_map_in:
  "try_map f xs = Inr ys \<Longrightarrow> y \<in> set ys \<Longrightarrow> \<exists>x \<in> set xs. f x = Inr y"
  by (induction xs arbitrary: ys) (auto simp: and_then_Inr)

lemma info_at_fields:
  "info_at d dir b n = Inr row \<Longrightarrow> pe_backend row = b \<and> pe_name row = n \<and> pe_path row = dir \<and> pe_locked row = dk_probe d dir"
  by (auto simp: info_at_def Let_def and_then_Inr)

lemma list_backend_rows:
  assumes "list_backend d root b = Inr rows" and "row \<in> set rows" and "b \<in> set known_backends"
  shows "\<exists>n. pe_path row = root @ [Normal b, Normal n] \<and> pe_backend row = b \<and> pe_name row = n"
proof -
  from assms(1,2) obtain es where "dk_read_dir d (path_join root b) = Some es"
    and rows: "try_map (\<lambda>n. info_at d (path_join root b @ [Normal n]) b n) (profile_names d es) = Inr rows"
    by (auto simp: list_backend_def Let_def split: if_splits option.splits)
  from try_map_in [OF rows assms(2)] obtain n where "info_at d (path_join root b @ [Normal n]) b n = Inr row" by blast
  with info_at_fields [OF this] assms(3) show ?thesis
    by (auto simp: path_join_def path_push_def known_backend_path is_absolute_def)
qed

lemma list_profiles_rows:
  assumes "list_profiles d root = Inr rows" and "row \<in> set rows"
  shows "\<exists>b n. b \<in> set known_backends \<and> pe_path row = root @ [Normal b, Normal n]"
proof -
  from assms obtain groups where groups: "try_map (list_backend d root) known_backends = Inr groups"
    and row: "row \<in> set (concat groups)"
    by (auto simp: list_profiles_def and_then_Inr split: if_splits)
  from row obtain g where "g \<in> set groups" "row \<in> set g" by auto
  with try_map_in [OF groups] list_backend_rows show ?thesis by blast
qed

lemma prune_rows_removes:
  "prune_rows d older_than dry_run rows = (res, rs) \<Longrightarrow> r \<in> set rs \<Longrightarrow>
   \<not> dry_run \<and> (\<exists>row \<in> set rows. \<not> pe_locked row \<and> (\<exists>age. dk_age d (pe_path row) = Some age \<and> age \<ge> older_than)
     \<and> dk_lstat d (pe_path row) = Found DirNode \<and> dk_acquire d (pe_path row) = Inr ()
     \<and> (\<exists>rest. removed_path r = pe_path row @ rest))"
proof (induction rows arbitrary: res rs)
  case (Cons row rows)
  obtain res1 rest where tl: "prune_rows d older_than dry_run rows = (res1, rest)" by fastforce
  obtain res2 own where rm: "remove_profile_dir d (pe_path row) = (res2, own)" by fastforce
  show ?case
  proof (cases "r \<in> set rest")
    case True
    with Cons.IH [OF tl] show ?thesis by auto
  next
    case False
    let ?old = "\<exists>age. dk_age d (pe_path row) = Some age \<and> age \<ge> older_than"
    have here: "\<not> pe_locked row" "?old" "\<not> dry_run" "r \<in> set own"
      using Cons.prems tl rm False
      by (auto simp: Let_def split: if_splits option.splits sum.splits)
    with remove_profile_dir_inside [OF rm here(4)] show ?thesis by auto
  qed
qed simp

subsection \<open>Properties\<close>

text \<open>
  C5. Deleting a profile and pruning remove nothing outside a profile directory
  \<open>root/backend/name\<close> of a known backend that is a real directory (not a link) whose lock was taken. A
  delete removes only the profile it was confirmed for, and without a backend only when no other
  backend has one of that name; a prune removes nothing in a dry run, and otherwise only profiles that
  are unlocked and at least as old as asked.
\<close>

theorem removal_stays_in_the_profile:
  shows "(\<forall>r \<in> set (snd (delete_profile d root name confirm backend)).
      confirm = name \<and> (\<exists>b \<in> set known_backends. (backend = None \<or> backend = Some b)
        \<and> (backend = None \<longrightarrow> (\<forall>b' \<in> set known_backends. dk_exists d (root @ [Normal b', Normal name]) \<longrightarrow> b' = b))
        \<and> dk_lstat d (root @ [Normal b, Normal name]) = Found DirNode \<and> dk_acquire d (root @ [Normal b, Normal name]) = Inr ()
        \<and> (\<exists>rest. removed_path r = root @ [Normal b, Normal name] @ rest)))
    \<and> (\<forall>r \<in> set (snd (prune d older_than dry_run root)).
      \<not> dry_run \<and> (\<exists>b \<in> set known_backends. \<exists>n age. dk_age d (root @ [Normal b, Normal n]) = Some age \<and> age \<ge> older_than
        \<and> dk_lstat d (root @ [Normal b, Normal n]) = Found DirNode \<and> dk_acquire d (root @ [Normal b, Normal n]) = Inr ()
        \<and> (\<exists>rest. removed_path r = root @ [Normal b, Normal n] @ rest)))"
proof (intro conjI ballI)
  fix r assume mem: "r \<in> set (snd (delete_profile d root name confirm backend))"
  then have valid: "validate_name name = Inr ()"
    by (cases "validate_name name") (auto simp: delete_profile_def)
  with mem have confirm: "confirm = name" by (auto simp: delete_profile_def split: if_splits)
  with mem valid obtain b dir where res: "resolve_backend_scoped_profile d root name backend = Inr (b, dir)"
    by (cases "resolve_backend_scoped_profile d root name backend") (auto simp: delete_profile_def)
  obtain out rs where rm: "remove_profile_dir d dir = (out, rs)" by fastforce
  with mem valid confirm res have "r \<in> set rs" by (cases out) (auto simp: delete_profile_def)
  from remove_profile_dir_inside [OF rm this] resolve_path [OF res valid]
  show "confirm = name" and "\<exists>b \<in> set known_backends. (backend = None \<or> backend = Some b)
        \<and> (backend = None \<longrightarrow> (\<forall>b' \<in> set known_backends. dk_exists d (root @ [Normal b', Normal name]) \<longrightarrow> b' = b))
        \<and> dk_lstat d (root @ [Normal b, Normal name]) = Found DirNode \<and> dk_acquire d (root @ [Normal b, Normal name]) = Inr ()
        \<and> (\<exists>rest. removed_path r = root @ [Normal b, Normal name] @ rest)"
    by (auto simp: confirm intro!: bexI [of _ b])
next
  fix r assume mem: "r \<in> set (snd (prune d older_than dry_run root))"
  then obtain rows where rows: "list_profiles d root = Inr rows"
    by (cases "list_profiles d root") (auto simp: prune_def)
  obtain res rs where pr: "prune_rows d older_than dry_run rows = (res, rs)" by fastforce
  with mem rows have "r \<in> set rs" by (simp add: prune_def)
  from prune_rows_removes [OF pr this] list_profiles_rows [OF rows]
  show "\<not> dry_run" and "\<exists>b \<in> set known_backends. \<exists>n age. dk_age d (root @ [Normal b, Normal n]) = Some age \<and> age \<ge> older_than
        \<and> dk_lstat d (root @ [Normal b, Normal n]) = Found DirNode \<and> dk_acquire d (root @ [Normal b, Normal n]) = Inr ()
        \<and> (\<exists>rest. removed_path r = root @ [Normal b, Normal n] @ rest)"
    by fastforce+
qed

text \<open>One old profile, with a cookie file and a lock file: the delete empties it and takes it away.\<close>

definition example_dir :: path where
  "example_dir = [RootDir, Normal ''chromium'', Normal ''work'']"

definition example_disk :: disk where
  "example_disk = \<lparr> dk_lstat = (\<lambda>p. if p = example_dir then Found DirNode else Missing),
     dk_exists = (\<lambda>p. p = example_dir), dk_is_dir = (\<lambda>p. p = example_dir),
     dk_read_dir = (\<lambda>p. if p = example_dir then Some [Some (''cookies'', Some FileNode), Some (''afhttp-profile.lock'', Some FileNode)] else None),
     dk_utf8 = (\<lambda>_. True), dk_read = (\<lambda>_. None), dk_parse_meta = (\<lambda>_. None), dk_file_len = (\<lambda>_. None),
     dk_canonical = (\<lambda>_. None), dk_tree = (\<lambda>_. NoMeta), dk_age = (\<lambda>_. Some 100), dk_probe = (\<lambda>_. False),
     dk_acquire = (\<lambda>_. Inr ()), dk_create_dir = (\<lambda>_. False), dk_remove = (\<lambda>_. True), dk_missing_after = (\<lambda>_. False) \<rparr>"

lemma example_name: "validate_name ''work'' = Inr ()"
  by (simp add: validate_name_def name_char_def is_ascii_alphanumeric_def is_ascii_digit_def is_windows_reserved_def
      windows_reserved_def split_once_def to_ascii_lowercase_def ascii_lower_char_def starts_with_def ends_with_def)

lemma example_resolve: "resolve_backend_scoped_profile example_disk [RootDir] ''work'' (Some ''chromium'') = Inr (''chromium'', example_dir)"
proof -
  have known: "''chromium'' \<in> set known_backends" by (simp add: known_backends_def)
  show ?thesis
    by (simp add: resolve_backend_scoped_profile_def validate_backend_key_def join_root_backend_name_def example_name known
        profile_path [OF known example_name]) (simp add: example_disk_def example_dir_def)
qed

lemma example_delete:
  "delete_profile example_disk [RootDir] ''work'' ''work'' (Some ''chromium'') =
     (Inr (), [RemoveFile (example_dir @ [Normal ''cookies'']), RemoveFile (lockfile example_dir), RemoveDir example_dir])"
  by (simp add: delete_profile_def example_name example_resolve)
     (simp add: remove_profile_dir_def example_disk_def lockfile_in Let_def)

lemma removal_stays_in_the_profile_witness:
  "dk_lstat example_disk example_dir = Found DirNode
   \<and> (\<exists>rest. removed_path (RemoveFile (lockfile example_dir)) = example_dir @ rest)"
  using conjunct1 [OF removal_stays_in_the_profile [of example_disk "[RootDir]" "''work''" "''work''" "Some ''chromium''" 0 True]]
  unfolding example_delete by (auto simp: example_dir_def)

text \<open>
  The size of a profile, computed by a loop over a stack of directories with a saturating sum, is the
  sum of the sizes of all regular files below it, cut off at the largest 64-bit value; it fails
  exactly when some directory below cannot be read.
\<close>

theorem dir_size_is_the_sum:
  "dir_size (DirT b es) =
     (if readable (DirT b es) then Some (sat_u64 (tree_bytes (DirT b es))) else None)"
  using size_loop_spec [of "[DirT b es]" 0] by (simp add: dir_size_def is_dir_tree_def sat_u64_def)

end
