(* ===== verification/ProfileLock.thy ===== *)
theory ProfileLock
  imports ProfileStore
begin

text \<open>
  Who may touch a profile directory, over every interleaving of processes: \<open>Guard::acquire\<close> and its drop
  (\<open>sdk/profile/lock.rs\<close>), a host that holds the guard while its browser runs, and
  \<open>remove_profile_dir\<close> (\<open>sdk/profile/mod.rs\<close>), system call by system call. A lock is taken on an open file
  (its inode), not on the path: the state keeps which inode the path names.
\<close>

datatype role = Host | Remover

text \<open>Where a process is: outside, with the lock file open, with the lock, past clearing, past unlocking, past unlinking.\<close>

datatype lock_phase =
    Outside
  | Opened nat role
  | Holding nat role
  | Cleared nat
  | Released
  | Unlinked

record lock_world =
  lw_path :: "nat option"
  lw_next :: nat
  lw_locks :: "nat set"
  lw_phase :: "nat \<Rightarrow> lock_phase"
  lw_unlinked :: bool

definition lock_start :: "nat option \<Rightarrow> lock_world" where
  "lock_start path = \<lparr> lw_path = path, lw_next = (case path of Some i \<Rightarrow> Suc i | None \<Rightarrow> 0), lw_locks = {},
     lw_phase = (\<lambda>_. Outside), lw_unlinked = False \<rparr>"

definition goto :: "nat \<Rightarrow> lock_phase \<Rightarrow> lock_world \<Rightarrow> lock_world" where
  "goto p ph w = w\<lparr> lw_phase := (lw_phase w)(p := ph) \<rparr>"

text \<open>\<open>OpenOptions::create(true)\<close>: the file the path names, or a new one.\<close>

definition open_lock :: "nat \<Rightarrow> role \<Rightarrow> lock_world \<Rightarrow> lock_world" where
  "open_lock p r w =
     (case lw_path w of
        Some i \<Rightarrow> goto p (Opened i r) w
      | None \<Rightarrow> goto p (Opened (lw_next w) r) (w\<lparr> lw_path := Some (lw_next w), lw_next := Suc (lw_next w) \<rparr>))"

text \<open>\<open>try_lock_exclusive\<close>: refused at once when the open file is locked.\<close>

definition try_lock :: "nat \<Rightarrow> nat \<Rightarrow> role \<Rightarrow> lock_world \<Rightarrow> lock_world" where
  "try_lock p i r w =
     (if i \<in> lw_locks w then goto p Outside w
      else goto p (Holding i r) (w\<lparr> lw_locks := insert i (lw_locks w) \<rparr>))"

definition unlock_to :: "nat \<Rightarrow> nat \<Rightarrow> lock_phase \<Rightarrow> lock_world \<Rightarrow> lock_world" where
  "unlock_to p i ph w = goto p ph (w\<lparr> lw_locks := lw_locks w - {i} \<rparr>)"

inductive lock_step :: "lock_world \<Rightarrow> lock_world \<Rightarrow> bool" where
  opens: "lw_phase w p = Outside \<Longrightarrow> lock_step w (open_lock p r w)"
| locks: "lw_phase w p = Opened i r \<Longrightarrow> lock_step w (try_lock p i r w)"
| host_drops: "lw_phase w p = Holding i Host \<Longrightarrow> lock_step w (unlock_to p i Outside w)"
| remover_clears: "lw_phase w p = Holding i Remover \<Longrightarrow> lock_step w (goto p (Cleared i) w)"
| remover_fails: "lw_phase w p = Holding i Remover \<Longrightarrow> lock_step w (unlock_to p i Outside w)"
| remover_drops: "lw_phase w p = Cleared i \<Longrightarrow> lock_step w (unlock_to p i Released w)"
| remover_unlinks: "lw_phase w p = Released \<Longrightarrow>
    lock_step w (goto p Unlinked (w\<lparr> lw_path := None, lw_unlinked := True \<rparr>))"
| remover_leaves: "lw_phase w p = Released \<or> lw_phase w p = Unlinked \<Longrightarrow> lock_step w (goto p Outside w)"

inductive lock_reachable :: "lock_world \<Rightarrow> bool" where
  start: "lock_reachable (lock_start path)"
| step: "lock_reachable w \<Longrightarrow> lock_step w w' \<Longrightarrow> lock_reachable w'"

inductive_cases lock_step_cases: "lock_step w w'"

definition has_lock :: "lock_world \<Rightarrow> nat \<Rightarrow> bool" where
  "has_lock w p \<longleftrightarrow> (case lw_phase w p of Holding _ _ \<Rightarrow> True | Cleared _ \<Rightarrow> True | _ \<Rightarrow> False)"

text \<open>The inode a process works with.\<close>

fun phase_inode :: "lock_phase \<Rightarrow> nat option" where
  "phase_inode (Opened i _) = Some i"
| "phase_inode (Holding i _) = Some i"
| "phase_inode (Cleared i) = Some i"
| "phase_inode _ = None"

fun phase_lock :: "lock_phase \<Rightarrow> nat option" where
  "phase_lock (Holding i _) = Some i"
| "phase_lock (Cleared i) = Some i"
| "phase_lock _ = None"

text \<open>
  A lock has one owner, and while the path has never been unlinked every process works with
  the inode the path names.
\<close>

definition lock_ok :: "lock_world \<Rightarrow> bool" where
  "lock_ok w \<longleftrightarrow>
     (\<forall>p i. phase_lock (lw_phase w p) = Some i \<longrightarrow> i \<in> lw_locks w)
     \<and> (\<forall>p q i. phase_lock (lw_phase w p) = Some i \<and> phase_lock (lw_phase w q) = Some i \<longrightarrow> p = q)
     \<and> (\<not> lw_unlinked w \<longrightarrow> (\<forall>p i. phase_inode (lw_phase w p) = Some i \<longrightarrow> lw_path w = Some i))"

lemmas lock_defs = lock_ok_def goto_def open_lock_def try_lock_def unlock_to_def

lemma lock_step_ok:
  assumes "lock_step w w'" and "lock_ok w"
  shows "lock_ok w'"
  using assms
proof (cases rule: lock_step.cases)
  case (opens p r)
  with assms(2) show ?thesis by (auto simp: lock_defs split: option.splits)
next
  case (locks p i r)
  with assms(2) have "phase_inode (lw_phase w p) = Some i" by simp
  show ?thesis
  proof (cases "i \<in> lw_locks w")
    case True with locks assms(2) show ?thesis by (auto simp: lock_defs)
  next
    case False
    with assms(2) have free: "\<And>q. phase_lock (lw_phase w q) \<noteq> Some i" by (auto simp: lock_ok_def)
    moreover have "\<not> lw_unlinked w \<Longrightarrow> lw_path w = Some i"
      using assms(2) \<open>phase_inode (lw_phase w p) = Some i\<close> unfolding lock_ok_def by blast
    ultimately show ?thesis using False locks assms(2) by (auto simp: lock_defs)
  qed
next
  case (host_drops p i)
  with assms(2) have "\<And>q. phase_lock (lw_phase w q) = Some i \<Longrightarrow> q = p" by (metis lock_ok_def phase_lock.simps(1))
  with host_drops assms(2) show ?thesis by (auto simp: lock_defs)
next
  case (remover_clears p i)
  then have here: "phase_lock (lw_phase w p) = Some i" "phase_inode (lw_phase w p) = Some i" by simp_all
  with assms(2) have "i \<in> lw_locks w" "\<And>q. phase_lock (lw_phase w q) = Some i \<Longrightarrow> q = p"
    "\<not> lw_unlinked w \<Longrightarrow> lw_path w = Some i" unfolding lock_ok_def by blast+
  with remover_clears assms(2) show ?thesis by (auto simp: lock_defs)
next
  case (remover_fails p i)
  with assms(2) have "\<And>q. phase_lock (lw_phase w q) = Some i \<Longrightarrow> q = p" by (metis lock_ok_def phase_lock.simps(1))
  with remover_fails assms(2) show ?thesis by (auto simp: lock_defs)
next
  case (remover_drops p i)
  with assms(2) have "\<And>q. phase_lock (lw_phase w q) = Some i \<Longrightarrow> q = p" by (metis lock_ok_def phase_lock.simps(2))
  with remover_drops assms(2) show ?thesis by (auto simp: lock_defs)
qed (use assms(2) in \<open>auto simp: lock_defs\<close>)

lemma lock_reachable_ok: "lock_reachable w \<Longrightarrow> lock_ok w"
proof (induction rule: lock_reachable.induct)
  case (start path) then show ?case by (simp add: lock_ok_def lock_start_def)
qed (rule lock_step_ok)

lemma has_lock_phase: "has_lock w p \<longleftrightarrow> (\<exists>i. phase_lock (lw_phase w p) = Some i)"
  by (cases "lw_phase w p") (auto simp: has_lock_def)

lemma phase_lock_inode: "phase_lock ph = Some i \<Longrightarrow> phase_inode ph = Some i"
  by (cases ph) auto

subsection \<open>Properties\<close>

text \<open>
  C29. As long as no removal of the profile has come to unlinking the lock file, at most one process,
  host or remover, has the profile's lock, in every interleaving: a profile is never cleared while a
  host runs on it.
\<close>

theorem one_process_has_the_profile:
  assumes "lock_reachable w" and "\<not> lw_unlinked w" and "has_lock w p" and "has_lock w q"
  shows "p = q"
proof -
  from lock_reachable_ok [OF assms(1)] have ok: "lock_ok w" .
  from assms(3,4) obtain i j where ij: "phase_lock (lw_phase w p) = Some i" "phase_lock (lw_phase w q) = Some j"
    by (auto simp: has_lock_phase)
  with ok assms(2) phase_lock_inode have "lw_path w = Some i" "lw_path w = Some j" unfolding lock_ok_def by blast+
  with ij ok show ?thesis unfolding lock_ok_def by auto
qed

definition one_host :: lock_world where
  "one_host = try_lock 0 0 Host (open_lock 0 Host (lock_start None))"

lemma one_host_reachable: "lock_reachable one_host"
proof -
  have 1: "lock_reachable (open_lock 0 Host (lock_start None))"
    by (rule lock_reachable.step [OF lock_reachable.start]) (rule lock_step.opens, simp add: lock_start_def)
  show ?thesis unfolding one_host_def
    by (rule lock_reachable.step [OF 1], rule lock_step.locks) (simp add: open_lock_def lock_start_def goto_def)
qed

lemma one_process_has_the_profile_witness: "has_lock one_host 0 \<and> \<not> has_lock one_host 1"
proof -
  have h: "has_lock one_host 0" "\<not> lw_unlinked one_host"
    by (simp_all add: has_lock_def one_host_def try_lock_def open_lock_def lock_start_def goto_def)
  with one_process_has_the_profile [OF one_host_reachable h(2) h(1), of 1] show ?thesis by auto
qed

text \<open>
  The restriction is needed. A host that takes the lock between the remover's unlock and its unlink
  loses the file the path names: the next process creates another one, and both have the lock.
\<close>

definition race :: lock_world where
  "race =
     (let w = open_lock 0 Remover (lock_start None);
          w = try_lock 0 0 Remover w;
          w = goto 0 (Cleared 0) w;
          w = unlock_to 0 0 Released w;
          w = open_lock 1 Host w;
          w = try_lock 1 0 Host w;
          w = goto 0 Unlinked (w\<lparr> lw_path := None, lw_unlinked := True \<rparr>);
          w = open_lock 2 Host w
      in try_lock 2 1 Host w)"

lemmas race_defs = lock_start_def goto_def open_lock_def try_lock_def unlock_to_def

lemma two_hosts_on_one_profile: "lock_reachable race \<and> has_lock race 1 \<and> has_lock race 2"
proof -
  let ?w1 = "open_lock 0 Remover (lock_start None)"
  let ?w2 = "try_lock 0 0 Remover ?w1"
  let ?w3 = "goto 0 (Cleared 0) ?w2"
  let ?w4 = "unlock_to 0 0 Released ?w3"
  let ?w5 = "open_lock 1 Host ?w4"
  let ?w6 = "try_lock 1 0 Host ?w5"
  let ?w7 = "goto 0 Unlinked (?w6\<lparr> lw_path := None, lw_unlinked := True \<rparr>)"
  let ?w8 = "open_lock 2 Host ?w7"
  have r1: "lock_reachable ?w1"
    by (rule lock_reachable.step [OF lock_reachable.start]) (rule lock_step.opens, simp add: race_defs)
  have r2: "lock_reachable ?w2" by (rule lock_reachable.step [OF r1], rule lock_step.locks) (simp add: race_defs)
  have r3: "lock_reachable ?w3" by (rule lock_reachable.step [OF r2], rule lock_step.remover_clears) (simp add: race_defs)
  have r4: "lock_reachable ?w4" by (rule lock_reachable.step [OF r3], rule lock_step.remover_drops) (simp add: race_defs)
  have r5: "lock_reachable ?w5" by (rule lock_reachable.step [OF r4], rule lock_step.opens) (simp add: race_defs)
  have r6: "lock_reachable ?w6" by (rule lock_reachable.step [OF r5], rule lock_step.locks) (simp add: race_defs)
  have r7: "lock_reachable ?w7" by (rule lock_reachable.step [OF r6], rule lock_step.remover_unlinks) (simp add: race_defs)
  have r8: "lock_reachable ?w8" by (rule lock_reachable.step [OF r7], rule lock_step.opens) (simp add: race_defs)
  have r9: "lock_reachable (try_lock 2 1 Host ?w8)"
    by (rule lock_reachable.step [OF r8], rule lock_step.locks) (simp add: race_defs)
  show ?thesis using r9 unfolding race_def Let_def by (auto simp: has_lock_def race_defs)
qed

end
