(* ===== verification/HostApp.thy ===== *)
theory HostApp
  imports ProfileStore Targets Net
begin

text \<open>
  The host's shared state (\<open>AppState\<close> of \<open>host/listener/mod.rs\<close>): the active profile and switching it, the
  connected \<open>/cdp\<close> clients, and the takeover credentials. A credential is AFUI's \<open>UiAccessToken\<close>, which
  is not under \<open>src/\<close>: its operations are an argument, with its shared state \<open>'u\<close>; what the host relies on
  of them is \<open>ui_laws\<close>.
\<close>

subsection \<open>Launch arguments\<close>

datatype browser_choice = AutoBrowser | Chromium | Chrome | FingerprintChromium | Edge | Brave | Lightpanda | Camoufox

definition browser_parse :: "string \<Rightarrow> string + browser_choice" where
  "browser_parse s =
     (if s = ''auto'' then Inr AutoBrowser else if s = ''chromium'' then Inr Chromium else if s = ''chrome'' then Inr Chrome
      else if s = ''fingerprint_chromium'' \<or> s = ''fingerprint-chromium'' then Inr FingerprintChromium
      else if s = ''edge'' then Inr Edge else if s = ''brave'' then Inr Brave else if s = ''lightpanda'' then Inr Lightpanda
      else if s = ''camoufox'' then Inr Camoufox else Inl ''unknown {other:?}'')"

definition profile_backend_key :: "browser_choice \<Rightarrow> string" where
  "profile_backend_key b = (case b of AutoBrowser \<Rightarrow> ''chromium'' | Chromium \<Rightarrow> ''chromium'' | Chrome \<Rightarrow> ''chrome''
     | FingerprintChromium \<Rightarrow> ''fingerprint-chromium'' | Edge \<Rightarrow> ''edge'' | Brave \<Rightarrow> ''brave''
     | Lightpanda \<Rightarrow> ''lightpanda'' | Camoufox \<Rightarrow> ''camoufox'')"

datatype profile_choice = Ephemeral | Persistent string

record host_args =
  hg_token :: "string option"
  hg_browser :: browser_choice
  hg_proxy :: "string option"
  hg_profile :: profile_choice
  hg_takeover :: bool
  hg_takeover_enabled :: bool
  hg_health_enabled :: bool
  hg_health_minimal :: bool
  hg_headful :: bool
  hg_engine_envs :: "(string \<times> string) list"
  hg_browser_args :: "string list"
  hg_recent_requests_cap :: nat

definition check_proxy :: "host_args \<Rightarrow> unit result" where
  "check_proxy args =
     (case hg_proxy args of
        None \<Rightarrow> Inr ()
      | Some proxy \<Rightarrow>
          if hg_browser args = Camoufox then
            fail BackendUnsupported ''--proxy is not supported with --browser camoufox; its traffic would not go through the proxy''
          else if CHR 0x40 \<in> set proxy then
            fail InvalidArgument ''--proxy must not carry credentials: the browser would receive them on its command line, readable by every local user, and Chromium ignores them there; use an unauthenticated or IP-allowlisted proxy''
          else Inr ())"

definition display_width :: nat where "display_width = 1280"
definition display_height :: nat where "display_height = 720"

text \<open>The arguments of the browser: on a takeover display it is headful and fills the framebuffer.\<close>

definition browser_launch_args :: "host_args \<Rightarrow> string option \<Rightarrow> profile_choice \<Rightarrow> host_args" where
  "browser_launch_args args display profile =
     (let a = args\<lparr> hg_profile := profile \<rparr>
      in case display of
           None \<Rightarrow> a
         | Some d \<Rightarrow>
             (let a = a\<lparr> hg_headful := True, hg_engine_envs := hg_engine_envs a @ [(''DISPLAY'', d)] \<rparr>
              in if hg_browser args = Camoufox \<or> hg_browser args = Lightpanda then a
                 else a\<lparr> hg_browser_args := hg_browser_args a @ [''window-position=0,0'',
                        ''window-size='' @ show_nat display_width @ '','' @ show_nat display_height] \<rparr>))"

record browser_handle =
  bh_family :: string
  bh_version :: string
  bh_ws_url :: string
  bh_profile_path :: path

definition launch_browser ::
  "(host_args \<Rightarrow> browser_handle result) \<Rightarrow> host_args \<Rightarrow> string option \<Rightarrow> profile_choice \<Rightarrow> browser_handle result" where
  "launch_browser start args display profile =
     and_then (check_proxy args) (\<lambda>_. start (browser_launch_args args display profile))"

subsection \<open>Access tokens\<close>

datatype ui_expiry = After duration | Idle duration

record ('t, 'u) ui_access =
  ui_issue :: "ui_expiry \<Rightarrow> instant \<Rightarrow> 'u \<Rightarrow> 't option \<times> 'u"
  ui_secret :: "'t \<Rightarrow> string"
  ui_authorize :: "'t \<Rightarrow> string \<Rightarrow> instant \<Rightarrow> 'u \<Rightarrow> bool \<times> 'u"
  ui_expired :: "'t \<Rightarrow> instant \<Rightarrow> 'u \<Rightarrow> bool"
  ui_revoked :: "'t \<Rightarrow> 'u \<Rightarrow> bool"
  ui_revoke :: "'t \<Rightarrow> 'u \<Rightarrow> 'u"
  ui_remaining :: "'t \<Rightarrow> instant \<Rightarrow> 'u \<Rightarrow> duration option"

text \<open>A token authorizes only its own secret; revoking a token is for good and concerns that token alone.\<close>

definition ui_laws :: "('t, 'u) ui_access \<Rightarrow> bool" where
  "ui_laws ui \<longleftrightarrow>
     (\<forall>t s now u u'. ui_authorize ui t s now u = (True, u') \<longrightarrow> s = ui_secret ui t)
     \<and> (\<forall>t s now u r. ui_revoked ui r (snd (ui_authorize ui t s now u)) = ui_revoked ui r u)
     \<and> (\<forall>t r u. ui_revoked ui r (ui_revoke ui t u) = (r = t \<or> ui_revoked ui r u))
     \<and> (\<forall>e now u r. ui_revoked ui r u \<longrightarrow> ui_revoked ui r (snd (ui_issue ui e now u)))"

subsection \<open>The state\<close>

record active_profile =
  ac_kind :: string
  ac_name :: string
  ac_handle :: browser_handle

record ('t, 'u) app_state =
  as_token :: "string option"
  as_takeover_enabled :: bool
  as_takeover :: bool
  as_health_enabled :: bool
  as_health_minimal :: bool
  as_profile :: "active_profile option"
  as_launch :: "(host_args \<times> string option) option"
  as_recent :: "json list option"
  as_recent_cap :: nat
  as_handoffs :: "'t list"
  as_ui :: 'u
  as_clients :: nat

definition is_live :: "('t, 'u) ui_access \<Rightarrow> instant \<Rightarrow> 'u \<Rightarrow> 't \<Rightarrow> bool" where
  "is_live ui now u t \<longleftrightarrow> \<not> ui_expired ui t now u \<and> \<not> ui_revoked ui t u"

definition retain_live :: "('t, 'u) ui_access \<Rightarrow> instant \<Rightarrow> ('t, 'u) app_state \<Rightarrow> ('t, 'u) app_state" where
  "retain_live ui now s = s\<lparr> as_handoffs := filter (is_live ui now (as_ui s)) (as_handoffs s) \<rparr>"

definition has_live_takeover_credentials ::
  "('t, 'u) ui_access \<Rightarrow> instant \<Rightarrow> ('t, 'u) app_state \<Rightarrow> bool \<times> ('t, 'u) app_state" where
  "has_live_takeover_credentials ui now s =
     (let s = retain_live ui now s in (as_handoffs s \<noteq> [], s))"

definition revoke_takeover_handoffs :: "('t, 'u) ui_access \<Rightarrow> ('t, 'u) app_state \<Rightarrow> nat \<times> ('t, 'u) app_state" where
  "revoke_takeover_handoffs ui s =
     (length (as_handoffs s),
      s\<lparr> as_handoffs := [], as_ui := foldl (\<lambda>u t. ui_revoke ui t u) (as_ui s) (as_handoffs s) \<rparr>)"

definition issue_takeover_token ::
  "('t, 'u) ui_access \<Rightarrow> ui_expiry \<Rightarrow> instant \<Rightarrow> ('t, 'u) app_state \<Rightarrow> 't result \<times> ('t, 'u) app_state" where
  "issue_takeover_token ui e now s =
     (case ui_issue ui e now (as_ui s) of
        (None, u) \<Rightarrow> (fail InternalError ''takeover access: could not mint a credential: {error}'', s\<lparr> as_ui := u \<rparr>)
      | (Some t, u) \<Rightarrow>
          (let s = retain_live ui now (s\<lparr> as_ui := u \<rparr>)
           in (Inr t, s\<lparr> as_handoffs := as_handoffs s @ [t] \<rparr>)))"

definition ui_session_idle_timeout_s :: nat where "ui_session_idle_timeout_s = 120"

definition issue_takeover_handoff ::
  "('t, 'u) ui_access \<Rightarrow> nat \<Rightarrow> instant \<Rightarrow> ('t, 'u) app_state \<Rightarrow> 't result \<times> ('t, 'u) app_state" where
  "issue_takeover_handoff ui ttl_s now s = issue_takeover_token ui (After (secs ttl_s)) now s"

definition issue_takeover_ui_session ::
  "('t, 'u) ui_access \<Rightarrow> instant \<Rightarrow> ('t, 'u) app_state \<Rightarrow> 't result \<times> ('t, 'u) app_state" where
  "issue_takeover_ui_session ui now s = issue_takeover_token ui (Idle (secs ui_session_idle_timeout_s)) now s"

text \<open>Every live credential is asked in turn; asking may renew an idle one.\<close>

fun find_authorized :: "('t, 'u) ui_access \<Rightarrow> string \<Rightarrow> instant \<Rightarrow> 't list \<Rightarrow> 'u \<Rightarrow> 't option \<times> 'u" where
  "find_authorized ui s now [] u = (None, u)"
| "find_authorized ui s now (t # ts) u =
     (case ui_authorize ui t s now u of (ok, u) \<Rightarrow> if ok then (Some t, u) else find_authorized ui s now ts u)"

definition revoke_takeover_handoff ::
  "('t, 'u) ui_access \<Rightarrow> string \<Rightarrow> instant \<Rightarrow> ('t, 'u) app_state \<Rightarrow> bool \<times> ('t, 'u) app_state" where
  "revoke_takeover_handoff ui secret now s =
     (let s = retain_live ui now s
      in case find_authorized ui secret now (as_handoffs s) (as_ui s) of
           (None, u) \<Rightarrow> (False, s\<lparr> as_ui := u \<rparr>)
         | (Some t, u) \<Rightarrow> (True, retain_live ui now (s\<lparr> as_ui := ui_revoke ui t u \<rparr>)))"

text \<open>The part of \<open>takeover_handoff_auth\<close> under the lock: who, if anyone, authorizes this secret.\<close>

definition authorize_handoff ::
  "('t, 'u) ui_access \<Rightarrow> string \<Rightarrow> instant \<Rightarrow> ('t, 'u) app_state \<Rightarrow> 't option \<times> ('t, 'u) app_state" where
  "authorize_handoff ui secret now s =
     (let s = retain_live ui now s
      in case find_authorized ui secret now (as_handoffs s) (as_ui s) of (t, u) \<Rightarrow> (t, s\<lparr> as_ui := u \<rparr>))"

subsection \<open>Switching profiles, connecting and serving\<close>

definition is_current :: "string \<Rightarrow> active_profile \<Rightarrow> bool" where
  "is_current name p \<longleftrightarrow> ac_name p = name \<and> ac_kind p = ''persistent''"

definition serves :: "string \<Rightarrow> ('t, 'u) app_state \<Rightarrow> bool" where
  "serves name s \<longleftrightarrow> (case as_profile s of Some p \<Rightarrow> is_current name p | None \<Rightarrow> False)"

text \<open>
  \<open>between\<close> is what others do to the state while this request waits for the switch lock, \<open>start\<close> the
  launch of the browser.
\<close>

definition ensure_profile ::
  "('t, 'u) ui_access \<Rightarrow> (host_args \<Rightarrow> browser_handle result) \<Rightarrow> (('t, 'u) app_state \<Rightarrow> ('t, 'u) app_state) \<Rightarrow> string \<Rightarrow>
   ('t, 'u) app_state \<Rightarrow> unit result \<times> ('t, 'u) app_state" where
  "ensure_profile ui start between name s =
     (if serves name s then (Inr (), s)
      else
        (case validate_name name of
           Inl e \<Rightarrow> (Inl e, s)
         | Inr _ \<Rightarrow>
             (case as_launch s of
                None \<Rightarrow> (fail InvalidArgument ''this host does not support runtime profile switching'', s)
              | Some (args, display) \<Rightarrow>
                  (let s = between s
                   in if serves name s then (Inr (), s)
                      else if as_clients s > 0 then
                        (Inl (with_retryable (error_new ProfileLocked (show_nat (as_clients s) @ '' CDP client(s) are using the current profile; switch profiles once they disconnect'')) True), s)
                      else
                        (case launch_browser start args display (Persistent name) of
                           Inl e \<Rightarrow> (Inl e, s)
                         | Inr handle \<Rightarrow>
                             (let s = s\<lparr> as_profile := Some \<lparr> ac_kind = ''persistent'', ac_name = name, ac_handle = handle \<rparr> \<rparr>;
                                  s = snd (revoke_takeover_handoffs ui s)
                              in (Inr (), s\<lparr> as_recent := map_option (\<lambda>_. []) (as_recent s) \<rparr>)))))))"

definition cdp_client_connects :: "('t, 'u) app_state \<Rightarrow> ('t, 'u) app_state" where
  "cdp_client_connects s = s\<lparr> as_clients := as_clients s + 1 \<rparr>"

definition cdp_client_leaves :: "('t, 'u) app_state \<Rightarrow> ('t, 'u) app_state" where
  "cdp_client_leaves s = s\<lparr> as_clients := as_clients s - 1 \<rparr>"

text \<open>The \<open>/cdp\<close> handler up to the upgrade: an answer with an error, or the browser to forward to.\<close>

datatype cdp_answer = Refused nat string string bool | ForwardTo string

definition switch_status :: "error_code \<Rightarrow> nat" where
  "switch_status c = (case c of InvalidArgument \<Rightarrow> 400 | ProfileInvalidName \<Rightarrow> 400 | ProfileLocked \<Rightarrow> 409 | _ \<Rightarrow> 503)"

definition cdp_handler ::
  "('t, 'u) ui_access \<Rightarrow> (host_args \<Rightarrow> browser_handle result) \<Rightarrow> (('t, 'u) app_state \<Rightarrow> ('t, 'u) app_state) \<Rightarrow> string option \<Rightarrow>
   ('t, 'u) app_state \<Rightarrow> cdp_answer \<times> ('t, 'u) app_state" where
  "cdp_handler ui start between profile s =
     (case (case profile of None \<Rightarrow> (Inr (), s) | Some name \<Rightarrow> ensure_profile ui start between name s) of
        (Inl e, s) \<Rightarrow> (Refused (switch_status (error_code e)) (as_str (error_code e))
            (''profile switch to {name:?} failed: '' @ detail e) False, s)
      | (Inr _, s) \<Rightarrow>
          (case as_profile s of
             None \<Rightarrow> (Refused 503 ''cdp_unavailable'' ''no browser backend is connected yet'' True, s)
           | Some p \<Rightarrow> (ForwardTo (bh_ws_url (ac_handle p)), cdp_client_connects s)))"

text \<open>\<open>launch\<close>: the guards, then the browser; \<open>provider\<close> starts the display and answers its name.\<close>

definition app_launch ::
  "'u \<Rightarrow> (host_args \<Rightarrow> browser_handle result) \<Rightarrow> string result \<Rightarrow> host_args \<Rightarrow> ('t, 'u) app_state result" where
  "app_launch u start provider args =
     (if (case hg_token args of Some token \<Rightarrow> trim token = [] | None \<Rightarrow> False) then
        fail InvalidArgument ''host token is empty or whitespace-only''
      else
        and_then
          (if hg_takeover args then
             (if hg_browser args = Lightpanda then
                fail BackendUnsupported ''display takeover requires a rendered browser; lightpanda has no display''
              else and_then provider (\<lambda>d. Inr (Some d)))
           else Inr None)
          (\<lambda>display.
            and_then (launch_browser start args display (hg_profile args)) (\<lambda>handle.
              Inr \<lparr> as_token = hg_token args, as_takeover_enabled = hg_takeover_enabled args, as_takeover = (display \<noteq> None),
                    as_health_enabled = hg_health_enabled args, as_health_minimal = hg_health_minimal args,
                    as_profile = Some \<lparr> ac_kind = (case hg_profile args of Ephemeral \<Rightarrow> ''ephemeral'' | Persistent _ \<Rightarrow> ''persistent''),
                        ac_name = (case hg_profile args of Ephemeral \<Rightarrow> ''default'' | Persistent n \<Rightarrow> n), ac_handle = handle \<rparr>,
                    as_launch = Some (args, display),
                    as_recent = (if hg_recent_requests_cap args > 0 then Some [] else None),
                    as_recent_cap = hg_recent_requests_cap args,
                    as_handoffs = [], as_ui = u, as_clients = 0 \<rparr>)))"

subsection \<open>Credentials over time\<close>

datatype cred_event = Mint ui_expiry instant | CheckLive instant | Authorize string instant | RevokeOne string instant | RevokeAll

fun cred_step :: "('t, 'u) ui_access \<Rightarrow> ('t, 'u) app_state \<Rightarrow> cred_event \<Rightarrow> ('t, 'u) app_state" where
  "cred_step ui s (Mint e now) = snd (issue_takeover_token ui e now s)"
| "cred_step ui s (CheckLive now) = snd (has_live_takeover_credentials ui now s)"
| "cred_step ui s (Authorize secret now) = snd (authorize_handoff ui secret now s)"
| "cred_step ui s (RevokeOne secret now) = snd (revoke_takeover_handoff ui secret now s)"
| "cred_step ui s RevokeAll = snd (revoke_takeover_handoffs ui s)"

text \<open>No unrevoked credential with this secret is in the list.\<close>

definition dead_secret :: "('t, 'u) ui_access \<Rightarrow> string \<Rightarrow> ('t, 'u) app_state \<Rightarrow> bool" where
  "dead_secret ui secret s \<longleftrightarrow>
     (\<forall>t \<in> set (as_handoffs s). ui_secret ui t = secret \<longrightarrow> ui_revoked ui t (as_ui s))"

text \<open>The random secrets of new tokens are not this one.\<close>

definition never_reissued :: "('t, 'u) ui_access \<Rightarrow> string \<Rightarrow> bool" where
  "never_reissued ui secret \<longleftrightarrow> (\<forall>e now u t. fst (ui_issue ui e now u) = Some t \<longrightarrow> ui_secret ui t \<noteq> secret)"

lemma find_authorized_spec:
  assumes "ui_laws ui"
  shows "find_authorized ui secret now ts u = (r, u') \<Longrightarrow>
    (\<forall>t. ui_revoked ui t u' = ui_revoked ui t u) \<and> (\<forall>t. r = Some t \<longrightarrow> t \<in> set ts \<and> ui_secret ui t = secret)"
proof (induction ts arbitrary: u)
  case (Cons t ts)
  obtain ok u1 where a: "ui_authorize ui t secret now u = (ok, u1)" by fastforce
  with assms have same: "\<forall>x. ui_revoked ui x u1 = ui_revoked ui x u" unfolding ui_laws_def by (metis snd_conv)
  show ?case
  proof (cases ok)
    case True
    with a have "ui_authorize ui t secret now u = (True, u1)" by simp
    with assms have "secret = ui_secret ui t" unfolding ui_laws_def by blast
    with Cons.prems a True same show ?thesis by auto
  next
    case False
    with Cons.prems a have "find_authorized ui secret now ts u1 = (r, u')" by simp
    from Cons.IH [OF this] same show ?thesis by auto
  qed
qed simp

lemma retain_live_sel [simp]:
  "as_ui (retain_live ui now s) = as_ui s"
  "set (as_handoffs (retain_live ui now s)) = {t \<in> set (as_handoffs s). is_live ui now (as_ui s) t}"
  by (auto simp: retain_live_def)

lemma dead_secret_retain: "dead_secret ui secret s \<Longrightarrow> dead_secret ui secret (retain_live ui now s)"
  by (simp add: dead_secret_def)

lemma dead_secret_same:
  assumes "dead_secret ui secret s" and "set (as_handoffs s') \<subseteq> set (as_handoffs s)"
    and "\<forall>t. ui_revoked ui t (as_ui s) \<longrightarrow> ui_revoked ui t (as_ui s')"
  shows "dead_secret ui secret s'"
  using assms by (auto simp: dead_secret_def)

lemma revoke_mono: "ui_laws ui \<Longrightarrow> ui_revoked ui r u \<Longrightarrow> ui_revoked ui r (ui_revoke ui t u)"
  by (simp add: ui_laws_def)

lemma cred_step_dead:
  assumes "ui_laws ui" and "never_reissued ui secret" and "dead_secret ui secret s"
  shows "dead_secret ui secret (cred_step ui s e)"
proof (cases e)
  case (Mint ex now)
  obtain t u where i: "ui_issue ui ex now (as_ui s) = (t, u)" by fastforce
  with assms(1) have mono: "\<forall>r. ui_revoked ui r (as_ui s) \<longrightarrow> ui_revoked ui r u" unfolding ui_laws_def by (metis snd_conv)
  then have kept: "dead_secret ui secret (s\<lparr> as_ui := u \<rparr>)" by (intro dead_secret_same [OF assms(3)]) auto
  show ?thesis
  proof (cases t)
    case None with Mint i kept show ?thesis by (simp add: issue_takeover_token_def)
  next
    case (Some tok)
    with i assms(2) have "ui_secret ui tok \<noteq> secret" unfolding never_reissued_def by (metis fst_conv)
    with Some Mint i kept show ?thesis by (auto simp: issue_takeover_token_def Let_def dead_secret_def)
  qed
next
  case (CheckLive now)
  with assms(3) show ?thesis by (simp add: has_live_takeover_credentials_def Let_def dead_secret_retain)
next
  case (Authorize sec now)
  obtain t u where f: "find_authorized ui sec now (as_handoffs (retain_live ui now s)) (as_ui s) = (t, u)" by fastforce
  from find_authorized_spec [OF assms(1) f] Authorize f show ?thesis
    by (auto simp: authorize_handoff_def Let_def intro!: dead_secret_same [OF assms(3)])
next
  case (RevokeOne sec now)
  obtain t u where f: "find_authorized ui sec now (as_handoffs (retain_live ui now s)) (as_ui s) = (t, u)" by fastforce
  from find_authorized_spec [OF assms(1) f] RevokeOne f revoke_mono [OF assms(1)] show ?thesis
    by (cases t) (auto simp: revoke_takeover_handoff_def Let_def intro!: dead_secret_same [OF assms(3)])
next
  case RevokeAll then show ?thesis by (simp add: revoke_takeover_handoffs_def dead_secret_def)
qed

lemma dead_secret_refused:
  assumes "ui_laws ui" and "dead_secret ui secret s"
  shows "fst (authorize_handoff ui secret now s) = None"
proof -
  obtain t u where f: "find_authorized ui secret now (as_handoffs (retain_live ui now s)) (as_ui s) = (t, u)" by fastforce
  have "t = None"
  proof (cases t)
    case (Some tok)
    with find_authorized_spec [OF assms(1) f] assms(2) show ?thesis by (auto simp: dead_secret_def is_live_def)
  qed
  with f show ?thesis by (simp add: authorize_handoff_def Let_def)
qed

lemma revoke_one_kills:
  assumes "ui_laws ui" and "distinct (map (ui_secret ui) (as_handoffs s))"
    and "revoke_takeover_handoff ui secret now s = (True, s')"
  shows "dead_secret ui secret s'"
proof -
  obtain t u where f: "find_authorized ui secret now (as_handoffs (retain_live ui now s)) (as_ui s) = (t, u)" by fastforce
  with assms(3) obtain tok where tok: "t = Some tok"
    by (cases t) (auto simp: revoke_takeover_handoff_def Let_def)
  from find_authorized_spec [OF assms(1) f] tok have "tok \<in> set (as_handoffs s)" "ui_secret ui tok = secret" by auto
  with assms(2) have "r = tok" if "r \<in> set (as_handoffs s)" "ui_secret ui r = secret" for r
    using that by (auto simp: distinct_map inj_on_def)
  moreover have "ui_revoked ui tok (ui_revoke ui tok u)" using assms(1) by (simp add: ui_laws_def)
  ultimately show ?thesis using assms(3) f tok by (auto simp: revoke_takeover_handoff_def Let_def dead_secret_def)
qed

lemma switch_kills:
  assumes "ensure_profile ui start between name s = (Inr (), s')" and "as_profile s' \<noteq> as_profile (between s)" and "\<not> serves name s"
  shows "dead_secret ui secret s' \<and> as_clients (between s) = 0 \<and> serves name s'"
  using assms
  by (auto simp: ensure_profile_def Let_def revoke_takeover_handoffs_def dead_secret_def serves_def is_current_def
      split: if_splits sum.splits option.splits)

text \<open>A request that fails to switch has changed neither the profile nor the credentials.\<close>

lemma failed_switch_changes_nothing:
  assumes "ensure_profile ui start between name s = (Inl e, s')"
  shows "s' = s \<or> s' = between s"
  using assms
  by (auto simp: ensure_profile_def Let_def split: if_splits sum.splits option.splits)

text \<open>The host marks a refused switch as worth retrying, and the \<open>/cdp\<close> answer says it is not.\<close>

lemma busy_switch_answer_loses_retryable:
  assumes "\<not> serves name s" and "validate_name name = Inr ()" and "as_launch s \<noteq> None" and "as_clients s > 0"
  shows "(\<exists>e. fst (ensure_profile ui start id name s) = Inl e \<and> retryable e)
    \<and> (\<exists>d. fst (cdp_handler ui start id (Some name) s) = Refused 409 ''profile_locked'' d False)"
  using assms
  by (auto simp: ensure_profile_def cdp_handler_def Let_def with_retryable_def switch_status_def split: option.splits)

subsection \<open>Properties\<close>

text \<open>
  C12. A takeover secret that was revoked, by exchanging it, by a profile switch or by shutdown,
  never authorizes a request again, whatever is minted, revoked, checked or tried afterwards.
\<close>

theorem revoked_secret_stays_dead:
  assumes "ui_laws ui" and "never_reissued ui secret" and "distinct (map (ui_secret ui) (as_handoffs s))"
    and "revoke_takeover_handoff ui secret now s = (True, s') \<or> s' = snd (revoke_takeover_handoffs ui s)
      \<or> (ensure_profile ui start between name s = (Inr (), s') \<and> as_profile s' \<noteq> as_profile (between s) \<and> \<not> serves name s)"
  shows "fst (authorize_handoff ui secret later (foldl (cred_step ui) s' es)) = None"
proof -
  have "dead_secret ui secret (snd (revoke_takeover_handoffs ui s))"
    by (simp add: revoke_takeover_handoffs_def dead_secret_def)
  with assms(1,3,4) revoke_one_kills switch_kills have "dead_secret ui secret s'" by metis
  moreover have "invariant_run (cred_step ui) (dead_secret ui secret)"
    using cred_step_dead [OF assms(1,2)] by unfold_locales
  ultimately have "dead_secret ui secret (foldl (cred_step ui) s' es)" by (simp add: invariant_run.run_inv)
  with assms(1) show ?thesis by (rule dead_secret_refused)
qed

text \<open>Tokens that never expire, with their revocations listed; a panel exchanges its secret.\<close>

definition plain_ui :: "(string, string list) ui_access" where
  "plain_ui = \<lparr> ui_issue = (\<lambda>_ _ u. (Some ''fresh'', u)), ui_secret = (\<lambda>t. t),
     ui_authorize = (\<lambda>t s _ u. (t = s \<and> t \<notin> set u, u)), ui_expired = (\<lambda>_ _ _. False),
     ui_revoked = (\<lambda>t u. t \<in> set u), ui_revoke = (\<lambda>t u. t # u), ui_remaining = (\<lambda>_ _ _. Some 1) \<rparr>"

definition plain_app :: "string list \<Rightarrow> string list \<Rightarrow> (string, string list) app_state" where
  "plain_app handoffs revoked = \<lparr> as_token = Some ''t'', as_takeover_enabled = True, as_takeover = True, as_health_enabled = True,
     as_health_minimal = False, as_profile = None, as_launch = None, as_recent = None, as_recent_cap = 0,
     as_handoffs = handoffs, as_ui = revoked, as_clients = 0 \<rparr>"

lemma plain_revoke:
  "revoke_takeover_handoff plain_ui ''old'' 0 (plain_app [''old'', ''other''] []) = (True, plain_app [''other''] [''old''])"
  by (simp add: revoke_takeover_handoff_def plain_ui_def plain_app_def retain_live_def is_live_def)

lemma plain_laws: "ui_laws plain_ui" "never_reissued plain_ui ''old''"
  by (auto simp: ui_laws_def never_reissued_def plain_ui_def)

lemma revoked_secret_stays_dead_witness:
  "fst (authorize_handoff plain_ui ''old'' 7 (foldl (cred_step plain_ui) (plain_app [''other''] [''old'']) [Mint (After 1) 3, CheckLive 5])) = None"
  by (rule revoked_secret_stays_dead [OF plain_laws, where s = "plain_app [''old'', ''other''] []" and now = 0])
     (simp_all add: plain_revoke, simp add: plain_app_def plain_ui_def)

end
