(* ===== verification/HostGate.thy ===== *)
theory HostGate
  imports HostApp
begin

text \<open>
  The host's door (\<open>host/listener/mod.rs\<close>): what a request must carry to be let through
  (\<open>token_middleware\<close>), how credentials are read off it, the takeover handlers behind it, and what the host
  may listen on. \<open>url::form_urlencoded\<close>, the cookie parser and \<open>Url::parse\<close> are arguments.
\<close>

record http_request =
  rq_path :: string
  rq_query :: "string option"
  rq_scheme :: "string option"
  rq_headers :: "(string \<times> string) list"
  rq_unix :: bool

record web_libs =
  wl_form :: "string \<Rightarrow> (string \<times> string) list"
  wl_cookies :: "string \<Rightarrow> (string \<times> string) list"
  wl_url :: "string \<Rightarrow> url option"
  wl_append :: "url \<Rightarrow> string \<Rightarrow> string \<Rightarrow> string"

text \<open>\<open>HeaderMap::get\<close> with a lower-case name: the first value. \<open>to_str\<close> answers visible ASCII only.\<close>

definition hget :: "http_request \<Rightarrow> string \<Rightarrow> string option" where
  "hget rq name = map_of (rq_headers rq) name"

definition header_text :: "string \<Rightarrow> string option" where
  "header_text v = (if list_all (\<lambda>c. (32 \<le> byte_val c \<and> byte_val c < 127) \<or> byte_val c = 9) v then Some v else None)"

definition htext :: "http_request \<Rightarrow> string \<Rightarrow> string option" where
  "htext rq name = Option.bind (hget rq name) header_text"

subsection \<open>Comparing secrets\<close>

fun fold_diff :: "bytes \<Rightarrow> bytes \<Rightarrow> 8 word \<Rightarrow> 8 word" where
  "fold_diff (x # xs) (y # ys) diff = fold_diff xs ys (or diff (xor x y))"
| "fold_diff _ _ diff = diff"

definition constant_time_eq :: "bytes \<Rightarrow> bytes \<Rightarrow> bool" where
  "constant_time_eq a b = (if length a \<noteq> length b then False else fold_diff a b 0 = 0)"

definition as_bytes :: "string \<Rightarrow> bytes" where
  "as_bytes s = map (\<lambda>c. word_of_nat (byte_val c)) s"

text \<open>No difference is ever lost: the loop over all bytes decides equality.\<close>

lemma fold_diff_zero: "length a = length b \<Longrightarrow> fold_diff a b diff = 0 \<longleftrightarrow> diff = 0 \<and> a = b"
proof (induction a b diff rule: fold_diff.induct)
  case (1 x xs y ys diff)
  have "or diff (xor x y) = 0 \<longleftrightarrow> diff = 0 \<and> x = y"
    by (metis or_eq_0_iff xor_self_eq xor.assoc xor.left_neutral)
  with 1 show ?case by auto
qed auto

lemma constant_time_eq_iff: "constant_time_eq a b \<longleftrightarrow> a = b"
  by (auto simp: constant_time_eq_def fold_diff_zero)

lemma as_bytes_inject: "as_bytes s = as_bytes t \<longleftrightarrow> s = t"
proof
  have "c = d" if "(word_of_nat (byte_val c) :: 8 word) = word_of_nat (byte_val d)" for c d
  proof -
    have val: "unat (word_of_nat (byte_val x) :: 8 word) = byte_val x" for x
      by (simp add: unat_of_nat byte_val_def)
    from that have "byte_val c = byte_val d" by (metis val)
    then show ?thesis by (simp add: byte_val_def)
  qed
  then show "as_bytes s = as_bytes t \<Longrightarrow> s = t"
    unfolding as_bytes_def by (metis (no_types, lifting) inj_onI map_inj_on)
qed simp

definition same_secret :: "string \<Rightarrow> string \<Rightarrow> bool" where
  "same_secret a b = constant_time_eq (as_bytes a) (as_bytes b)"

lemma same_secret_iff: "same_secret a b \<longleftrightarrow> a = b"
  by (simp add: same_secret_def constant_time_eq_iff as_bytes_inject)

subsection \<open>Credentials on a request\<close>

definition bearer_token :: "http_request \<Rightarrow> string option" where
  "bearer_token rq =
     (case htext rq ''authorization'' of
        None \<Rightarrow> None
      | Some s \<Rightarrow> (case strip_prefix ''Bearer '' s of Some rest \<Rightarrow> Some rest | None \<Rightarrow> strip_prefix ''bearer '' s))"

definition query_value :: "web_libs \<Rightarrow> string list \<Rightarrow> http_request \<Rightarrow> string option" where
  "query_value libs keys rq =
     (case rq_query rq of
        None \<Rightarrow> None
      | Some q \<Rightarrow> map_option snd (find (\<lambda>(k, v). k \<in> set keys) (wl_form libs q)))"

definition query_token :: "web_libs \<Rightarrow> http_request \<Rightarrow> string option" where
  "query_token libs rq = query_value libs [''token_secret''] rq"

definition query_handoff :: "web_libs \<Rightarrow> http_request \<Rightarrow> string option" where
  "query_handoff libs rq = query_value libs [''handoff_secret'', ''handoff''] rq"

definition supplied_long_token :: "web_libs \<Rightarrow> http_request \<Rightarrow> bool \<Rightarrow> string option" where
  "supplied_long_token libs rq accept_query =
     (case bearer_token rq of Some t \<Rightarrow> Some t | None \<Rightarrow> if accept_query then query_token libs rq else None)"

definition handoff_header :: "http_request \<Rightarrow> string option" where
  "handoff_header rq = Option.bind (htext rq ''authorization'') (strip_prefix ''Handoff '')"

definition handoff_cookie_name :: string where "handoff_cookie_name = ''afhttp_handoff''"

definition cookie_handoff :: "web_libs \<Rightarrow> http_request \<Rightarrow> string option" where
  "cookie_handoff libs rq =
     (case htext rq ''cookie'' of
        None \<Rightarrow> None
      | Some s \<Rightarrow> map_option snd (find (\<lambda>(n, v). n = handoff_cookie_name) (wl_cookies libs s)))"

definition handoff_secret_of :: "web_libs \<Rightarrow> http_request \<Rightarrow> string option" where
  "handoff_secret_of libs rq =
     (case handoff_header rq of
        Some x \<Rightarrow> Some x
      | None \<Rightarrow> (case query_handoff libs rq of Some x \<Rightarrow> Some x | None \<Rightarrow> cookie_handoff libs rq))"

definition request_scheme :: "http_request \<Rightarrow> string" where
  "request_scheme rq =
     (case rq_scheme rq of
        Some s \<Rightarrow> s
      | None \<Rightarrow>
          (case htext rq ''x-forwarded-proto'' of
             Some v \<Rightarrow> if trim (hd (split_on CHR '','' v)) = ''https'' then ''https'' else ''http''
           | None \<Rightarrow> ''http''))"

definition request_is_https :: "http_request \<Rightarrow> bool" where
  "request_is_https rq \<longleftrightarrow> request_scheme rq = ''https''"

record handoff_auth =
  hx_secret :: string
  hx_remaining_s :: nat
  hx_secure_cookie :: bool

definition takeover_handoff_auth ::
  "web_libs \<Rightarrow> ('t, 'u) ui_access \<Rightarrow> instant \<Rightarrow> http_request \<Rightarrow> ('t, 'u) app_state \<Rightarrow>
   handoff_auth option \<times> ('t, 'u) app_state" where
  "takeover_handoff_auth libs ui now rq s =
     (case handoff_secret_of libs rq of
        None \<Rightarrow> (None, s)
      | Some secret \<Rightarrow>
          (case authorize_handoff ui secret now s of
             (None, s) \<Rightarrow> (None, s)
           | (Some t, s) \<Rightarrow>
               (case ui_remaining ui t now (as_ui s) of
                  None \<Rightarrow> (None, s)
                | Some d \<Rightarrow> (Some \<lparr> hx_secret = secret, hx_remaining_s = max 1 (d div secs 1),
                                   hx_secure_cookie = request_is_https rq \<rparr>, s))))"

subsection \<open>A host without a token\<close>

definition is_loopback_authority :: "string \<Rightarrow> bool" where
  "is_loopback_authority a \<longleftrightarrow>
     (let host = (case strip_prefix ''['' a of
            Some bracketed \<Rightarrow> hd (split_on CHR '']'' bracketed)
          | None \<Rightarrow>
              (case rsplit_once CHR '':'' a of
                 None \<Rightarrow> a
               | Some (h, port) \<Rightarrow> if list_all is_ascii_digit port then h else a))
      in eq_ignore_ascii_case host ''localhost''
         \<or> (case parse_ip host of Some ip \<Rightarrow> is_loopback ip | None \<Rightarrow> False))"

definition from_another_site :: "http_request \<Rightarrow> bool" where
  "from_another_site rq \<longleftrightarrow>
     (case hget rq ''sec-fetch-site'' of
        None \<Rightarrow> False
      | Some site \<Rightarrow> header_text site \<notin> {Some ''same-origin'', Some ''none''})"

definition top_level :: "http_request \<Rightarrow> bool" where
  "top_level rq \<longleftrightarrow> hget rq ''sec-fetch-dest'' = Some ''document''"

definition same_origin :: "string \<Rightarrow> string \<Rightarrow> bool" where
  "same_origin origin host \<longleftrightarrow>
     eq_ignore_ascii_case origin (''http://'' @ host) \<or> eq_ignore_ascii_case origin (''https://'' @ host)"

definition reachable_without_token :: "http_request \<Rightarrow> bool" where
  "reachable_without_token rq \<longleftrightarrow>
     (if from_another_site rq \<and> \<not> top_level rq then False
      else
        (let host = htext rq ''host''
         in if (case host of Some h \<Rightarrow> \<not> is_loopback_authority h | None \<Rightarrow> False) then False
            else (case hget rq ''origin'' of
                    None \<Rightarrow> True
                  | Some v \<Rightarrow>
                      (case header_text v of
                         Some origin \<Rightarrow> (case host of Some h \<Rightarrow> same_origin origin h | None \<Rightarrow> False)
                       | None \<Rightarrow> False))))"

subsection \<open>The middleware\<close>

datatype verdict = ForbiddenOrigin | Unauthorized | Forward bool "handoff_auth option"

definition is_takeover_display_path :: "string \<Rightarrow> bool" where
  "is_takeover_display_path path \<longleftrightarrow> starts_with path ''/takeover/'' \<and> path \<noteq> ''/takeover/handoff''"

definition token_middleware ::
  "web_libs \<Rightarrow> ('t, 'u) ui_access \<Rightarrow> instant \<Rightarrow> http_request \<Rightarrow> ('t, 'u) app_state \<Rightarrow> verdict \<times> ('t, 'u) app_state" where
  "token_middleware libs ui now rq s =
     (if as_token s = None \<and> \<not> rq_unix rq \<and> \<not> reachable_without_token rq then (ForbiddenOrigin, s)
      else if is_takeover_display_path (rq_path rq) then
        (if (case (as_token s, bearer_token rq) of (Some expected, Some token) \<Rightarrow> same_secret token expected | _ \<Rightarrow> False)
         then (Forward True None, s)
         else
           (case takeover_handoff_auth libs ui now rq s of
              (Some h, s1) \<Rightarrow> (Forward True (Some h), s1)
            | (None, s1) \<Rightarrow> (if as_token s \<noteq> None then Unauthorized else Forward False None, s1)))
      else
        (case as_token s of
           None \<Rightarrow> (Forward False None, s)
         | Some expected \<Rightarrow>
             (case supplied_long_token libs rq True of
                Some t \<Rightarrow> (if same_secret t expected then Forward True None else Unauthorized, s)
              | None \<Rightarrow>
                  (if rq_path rq = ''/health'' \<and> as_health_minimal s then Forward False None else Unauthorized, s))))"

text \<open>The cookie a browser panel keeps its credential in.\<close>

record panel_cookie =
  pk_name :: string
  pk_value :: string
  pk_path :: string
  pk_max_age_s :: nat
  pk_http_only :: bool
  pk_same_site :: string
  pk_secure :: bool

definition takeover_handoff_cookie :: "string \<Rightarrow> handoff_auth \<Rightarrow> panel_cookie option" where
  "takeover_handoff_cookie path h =
     (if starts_with path ''/takeover/panel'' then
        Some \<lparr> pk_name = handoff_cookie_name, pk_value = hx_secret h, pk_path = ''/takeover'',
               pk_max_age_s = min (hx_remaining_s h) (nat i64_max), pk_http_only = True, pk_same_site = ''Lax'',
               pk_secure = hx_secure_cookie h \<rparr>
      else None)"

subsection \<open>The takeover handlers\<close>

datatype reply =
    ErrorReply nat string string bool
  | HandoffReply string nat
  | UiSessionReply string nat
  | EmptyReply nat

definition error_reply :: "nat \<Rightarrow> error \<Rightarrow> reply" where
  "error_reply status e = ErrorReply status (as_str (error_code e)) (detail e) (retryable e)"

definition takeover_panel_url_from_request :: "web_libs \<Rightarrow> http_request \<Rightarrow> url result" where
  "takeover_panel_url_from_request libs rq =
     (case htext rq ''host'' of
        None \<Rightarrow> fail InvalidEndpoint ''takeover handoff: missing Host''
      | Some host \<Rightarrow>
          (case wl_url libs (request_scheme rq @ ''://'' @ host @ ''/takeover/panel'') of
             Some u \<Rightarrow> Inr u
           | None \<Rightarrow> fail InvalidEndpoint ''takeover handoff URL from host {host:?}: {e}''))"

definition handoff_default_ttl_s :: nat where "handoff_default_ttl_s = 900"
definition handoff_min_ttl_s :: nat where "handoff_min_ttl_s = 60"
definition handoff_max_ttl_s :: nat where "handoff_max_ttl_s = 3600"

definition takeover_disabled :: reply where
  "takeover_disabled = ErrorReply 503 ''backend_unsupported'' ''display takeover is not enabled'' False"

text \<open>\<open>ready\<close> is what \<open>require_takeover_ready\<close> answers, \<open>body\<close> the parsed request body.\<close>

definition takeover_handoff_handler ::
  "web_libs \<Rightarrow> ('t, 'u) ui_access \<Rightarrow> instant \<Rightarrow> unit result \<Rightarrow> http_request \<Rightarrow> string + nat option \<Rightarrow> ('t, 'u) app_state \<Rightarrow>
   reply \<times> ('t, 'u) app_state" where
  "takeover_handoff_handler libs ui now ready rq body s =
     (case body of
        Inl text \<Rightarrow> (ErrorReply 400 ''invalid_json'' text False, s)
      | Inr ttl \<Rightarrow>
          if \<not> as_takeover_enabled s \<or> \<not> as_takeover s then (takeover_disabled, s)
          else
            (let ttl_s = (case ttl of Some n \<Rightarrow> n | None \<Rightarrow> handoff_default_ttl_s)
             in if \<not> (handoff_min_ttl_s \<le> ttl_s \<and> ttl_s \<le> handoff_max_ttl_s) then
                  (ErrorReply 400 ''invalid_argument'' (''takeover handoff ttl_s must be 60-3600, got '' @ show_nat ttl_s) False, s)
                else
                  (case ready of
                     Inl e \<Rightarrow> (error_reply 503 e, s)
                   | Inr _ \<Rightarrow>
                       (case takeover_panel_url_from_request libs rq of
                          Inl e \<Rightarrow> (error_reply 500 e, s)
                        | Inr url \<Rightarrow>
                            (case issue_takeover_handoff ui ttl_s now s of
                               (Inl e, s) \<Rightarrow> (error_reply 500 e, s)
                             | (Inr t, s) \<Rightarrow>
                                 (HandoffReply (wl_append libs url ''handoff_secret'' (ui_secret ui t)) ttl_s, s))))))"

definition takeover_ui_session_create ::
  "web_libs \<Rightarrow> ('t, 'u) ui_access \<Rightarrow> instant \<Rightarrow> unit result \<Rightarrow> handoff_auth option \<Rightarrow> http_request \<Rightarrow> ('t, 'u) app_state \<Rightarrow>
   reply \<times> ('t, 'u) app_state" where
  "takeover_ui_session_create libs ui now ready handoff rq s =
     (if \<not> as_takeover_enabled s \<or> \<not> as_takeover s then (takeover_disabled, s)
      else
        (case ready of
           Inl e \<Rightarrow> (error_reply 503 e, s)
         | Inr _ \<Rightarrow>
             (case issue_takeover_ui_session ui now s of
                (Inl e, s) \<Rightarrow> (error_reply 500 e, s)
              | (Inr t, s) \<Rightarrow>
                  (case takeover_panel_url_from_request libs rq of
                     Inl e \<Rightarrow> (error_reply 500 e, s\<lparr> as_ui := ui_revoke ui t (as_ui s) \<rparr>)
                   | Inr url \<Rightarrow>
                       (let answer = UiSessionReply (wl_append libs url ''handoff_secret'' (ui_secret ui t)) ui_session_idle_timeout_s
                        in case handoff of
                             None \<Rightarrow> (answer, s)
                           | Some h \<Rightarrow> (answer, snd (revoke_takeover_handoff ui (hx_secret h) now s)))))))"

definition takeover_ui_session_keep_alive :: "unit result \<Rightarrow> reply" where
  "takeover_ui_session_keep_alive ready = (case ready of Inr _ \<Rightarrow> EmptyReply 204 | Inl e \<Rightarrow> error_reply 503 e)"

definition takeover_ui_session_revoke ::
  "('t, 'u) ui_access \<Rightarrow> instant \<Rightarrow> http_request \<Rightarrow> ('t, 'u) app_state \<Rightarrow> reply \<times> ('t, 'u) app_state" where
  "takeover_ui_session_revoke ui now rq s =
     (case handoff_header rq of
        None \<Rightarrow> (EmptyReply 400, s)
      | Some secret \<Rightarrow>
          (case revoke_takeover_handoff ui secret now s of
             (ok, s) \<Rightarrow> (EmptyReply (if ok then 204 else 404), s)))"

subsection \<open>What the host listens on\<close>

text \<open>\<open>SocketAddr\<close>'s \<open>FromStr\<close>: an IPv4 or a bracketed IPv6 address, with a port.\<close>

definition read_port :: "string \<Rightarrow> (nat \<times> string) option" where
  "read_port s = Option.bind (read_char CHR '':'' s) (\<lambda>s. read_number 10 (length s) True 65536 s)"

definition read_scope :: "string \<Rightarrow> string option" where
  "read_scope s = (case read_char (CHR 0x25) s of
     None \<Rightarrow> Some s
   | Some t \<Rightarrow> (case read_number 10 (length t) True 4294967296 t of Some (_, u) \<Rightarrow> Some u | None \<Rightarrow> Some s))"

definition parse_socket_addr :: "string \<Rightarrow> (ip_addr \<times> nat) option" where
  "parse_socket_addr s =
     (case Option.bind (read_ipv4 s) (\<lambda>(a, t). map_option (\<lambda>(p, u). ((V4 a, p), u)) (read_port t)) of
        Some (addr, []) \<Rightarrow> Some addr
      | Some _ \<Rightarrow> None
      | None \<Rightarrow>
          (case Option.bind (read_char CHR ''['' s) (\<lambda>t. Option.bind (read_ipv6 t) (\<lambda>(a, t).
             Option.bind (read_scope t) (\<lambda>t. Option.bind (read_char CHR '']'' t) (\<lambda>t.
               map_option (\<lambda>(p, u). ((V6 a, p), u)) (read_port t))))) of
             Some (addr, []) \<Rightarrow> Some addr
           | _ \<Rightarrow> None))"

datatype listen_addr = Tcp ip_addr nat | UnixSocket path

definition parse_listen :: "string \<Rightarrow> listen_addr result" where
  "parse_listen spec =
     (case strip_prefix ''tcp:'' spec of
        Some rest \<Rightarrow>
          (case parse_socket_addr rest of
             Some (ip, port) \<Rightarrow> Inr (Tcp ip port)
           | None \<Rightarrow> fail InvalidArgument ''--listen tcp:: invalid address {rest:?}: {e}'')
      | None \<Rightarrow>
          (case strip_prefix ''unix:'' spec of
             Some p \<Rightarrow>
               if p = [] then fail InvalidArgument ''--listen unix: requires a path (e.g. unix:/run/afhttp.sock)''
               else Inr (UnixSocket (parse_path p))
           | None \<Rightarrow> fail InvalidArgument ''--listen: expected tcp:host:port or unix:/path (got {spec:?})''))"

text \<open>\<open>serve\<close> up to the accept loop, which is \<open>run\<close>; every credential is revoked on the way out.\<close>

definition app_serve ::
  "('t, 'u) ui_access \<Rightarrow> (listen_addr \<Rightarrow> ('t, 'u) app_state \<Rightarrow> unit result \<times> ('t, 'u) app_state) \<Rightarrow> string \<Rightarrow>
   ('t, 'u) app_state \<Rightarrow> unit result \<times> ('t, 'u) app_state" where
  "app_serve ui run spec s =
     (case parse_listen spec of
        Inl e \<Rightarrow> (Inl e, s)
      | Inr addr \<Rightarrow>
          if as_token s = None \<and> (case addr of Tcp ip _ \<Rightarrow> \<not> is_loopback ip | UnixSocket _ \<Rightarrow> False) then
            (fail InvalidArgument ''refusing to serve {addr} without a token: a token-less host is loopback-only'', s)
          else (case run addr s of (served, s) \<Rightarrow> (served, snd (revoke_takeover_handoffs ui s))))"

subsection \<open>Who is let through\<close>

lemma authorize_handoff_live:
  assumes "ui_laws ui" and "authorize_handoff ui secret now s = (Some t, s')"
  shows "t \<in> set (as_handoffs s) \<and> is_live ui now (as_ui s) t \<and> ui_secret ui t = secret"
proof -
  obtain r u where f: "find_authorized ui secret now (as_handoffs (retain_live ui now s)) (as_ui s) = (r, u)" by fastforce
  with assms(2) have "r = Some t" by (auto simp: authorize_handoff_def Let_def)
  with find_authorized_spec [OF assms(1) f] show ?thesis by auto
qed

lemma takeover_handoff_auth_live:
  assumes "ui_laws ui" and "takeover_handoff_auth libs ui now rq s = (Some h, s')"
  shows "handoff_secret_of libs rq = Some (hx_secret h)
    \<and> (\<exists>t \<in> set (as_handoffs s). is_live ui now (as_ui s) t \<and> ui_secret ui t = hx_secret h)"
proof -
  obtain secret where sec: "handoff_secret_of libs rq = Some secret" using assms(2)
    by (cases "handoff_secret_of libs rq") (auto simp: takeover_handoff_auth_def)
  obtain r s1 where a: "authorize_handoff ui secret now s = (r, s1)" by fastforce
  with sec assms(2) obtain t where t: "r = Some t" by (cases r) (auto simp: takeover_handoff_auth_def)
  with a sec assms(2) have "hx_secret h = secret"
    by (auto simp: takeover_handoff_auth_def split: option.splits)
  with authorize_handoff_live [OF assms(1)] a t sec show ?thesis by blast
qed

text \<open>The origin check of a host without a token, spelt out.\<close>

definition own_client :: "http_request \<Rightarrow> bool" where
  "own_client rq \<longleftrightarrow>
     (\<forall>host. htext rq ''host'' = Some host \<longrightarrow> is_loopback_authority host)
     \<and> (\<forall>v. hget rq ''origin'' = Some v \<longrightarrow>
          (\<exists>origin host. header_text v = Some origin \<and> htext rq ''host'' = Some host \<and> same_origin origin host))
     \<and> (from_another_site rq \<longrightarrow> top_level rq)"

lemma reachable_own_client: "reachable_without_token rq \<longleftrightarrow> own_client rq"
  unfolding reachable_without_token_def own_client_def Let_def
  by (cases "htext rq ''host''"; cases "hget rq ''origin''") (auto split: option.splits if_splits)

subsection \<open>Properties\<close>

text \<open>
  C3. Whatever the middleware lets through to the host: with a token configured, the request carries exactly
  that token (as a bearer, or in the query outside the takeover pages), or it is for a takeover page and carries
  the secret of a credential that is neither expired nor revoked, or it is the public minimal
  health page asked for without a token, and then it counts as not authenticated. Without a token,
  it came over the unix socket, or its Host is loopback or absent, its Origin is its own or absent,
  and another site can only have navigated to it.
\<close>

theorem host_gate:
  assumes "ui_laws ui" and "token_middleware libs ui now rq s = (Forward auth h, s')"
  shows "case as_token s of
      None \<Rightarrow> rq_unix rq \<or> own_client rq
    | Some expected \<Rightarrow>
        (auth \<and> bearer_token rq = Some expected)
        \<or> (auth \<and> query_token libs rq = Some expected \<and> \<not> is_takeover_display_path (rq_path rq))
        \<or> (auth \<and> is_takeover_display_path (rq_path rq)
            \<and> (\<exists>t \<in> set (as_handoffs s). is_live ui now (as_ui s) t \<and> handoff_secret_of libs rq = Some (ui_secret ui t)))
        \<or> (\<not> auth \<and> rq_path rq = ''/health'' \<and> as_health_minimal s \<and> supplied_long_token libs rq True = None)"
proof (cases "as_token s")
  case None
  with assms(2) show ?thesis by (auto simp: token_middleware_def reachable_own_client split: if_splits)
next
  case (Some expected)
  show ?thesis
  proof (cases "is_takeover_display_path (rq_path rq)")
    case True
    show ?thesis
    proof (cases "bearer_token rq = Some expected")
      case bearer: True
      with assms(2) Some True show ?thesis by (auto simp: token_middleware_def same_secret_iff)
    next
      case no: False
      with Some True assms(2) obtain h' s1 where "takeover_handoff_auth libs ui now rq s = (Some h', s1)" and "auth"
        by (cases "takeover_handoff_auth libs ui now rq s"; cases "fst (takeover_handoff_auth libs ui now rq s)")
           (auto simp: token_middleware_def same_secret_iff split: option.splits if_splits)
      with takeover_handoff_auth_live [OF assms(1)] Some True show ?thesis by fastforce
    qed
  next
    case False
    with assms(2) Some show ?thesis
      by (auto simp: token_middleware_def same_secret_iff supplied_long_token_def split: option.splits if_splits)
  qed
qed

definition plain_libs :: web_libs where
  "plain_libs = \<lparr> wl_form = (\<lambda>_. []), wl_cookies = (\<lambda>_. []), wl_url = (\<lambda>_. None), wl_append = (\<lambda>_ _ _. []) \<rparr>"

definition plain_request :: "string \<Rightarrow> (string \<times> string) list \<Rightarrow> http_request" where
  "plain_request path hs = \<lparr> rq_path = path, rq_query = None, rq_scheme = None, rq_headers = hs, rq_unix = False \<rparr>"

lemma panel_request_forwarded:
  "fst (token_middleware plain_libs plain_ui 0 (plain_request ''/takeover/panel'' [(''authorization'', ''Handoff old'')]) (plain_app [''old''] []))
     = Forward True (Some \<lparr> hx_secret = ''old'', hx_remaining_s = 1, hx_secure_cookie = False \<rparr>)"
  by (simp add: token_middleware_def is_takeover_display_path_def plain_request_def starts_with_def plain_app_def bearer_token_def
      htext_def hget_def header_text_def byte_val_def takeover_handoff_auth_def handoff_secret_of_def handoff_header_def
      authorize_handoff_def retain_live_def is_live_def plain_ui_def request_is_https_def request_scheme_def secs_def)

lemma host_gate_witness:
  "\<exists>t \<in> set [''old'']. is_live plain_ui 0 [] t \<and> ui_secret plain_ui t = ''old''"
proof -
  let ?rq = "plain_request ''/takeover/panel'' [(''authorization'', ''Handoff old'')]"
  let ?s = "plain_app [''old''] []"
  obtain s' where "token_middleware plain_libs plain_ui 0 ?rq ?s
      = (Forward True (Some \<lparr> hx_secret = ''old'', hx_remaining_s = 1, hx_secure_cookie = False \<rparr>), s')"
    using panel_request_forwarded by (metis prod.collapse)
  from host_gate [OF plain_laws(1) this] show ?thesis
    by (simp add: plain_app_def plain_request_def bearer_token_def htext_def hget_def header_text_def byte_val_def
        query_token_def query_value_def handoff_secret_of_def handoff_header_def)
qed

text \<open>
  Comparing secrets byte by byte without stopping early decides their equality: the accumulated
  difference is zero exactly when length and every byte agree.
\<close>

theorem constant_time_eq_is_equality:
  "constant_time_eq (as_bytes supplied) (as_bytes expected) \<longleftrightarrow> supplied = expected"
  by (simp add: constant_time_eq_iff as_bytes_inject)

subsection \<open>The handlers\<close>

text \<open>A credential whose URL could not be built authorizes nobody: none is minted, or it is revoked at once.\<close>

lemma failed_handoff_mints_nothing:
  assumes "takeover_handoff_handler libs ui now ready rq body s = (ErrorReply st c d b, s')"
    and "\<And>e now u u'. ui_issue ui e now u = (None, u') \<Longrightarrow> u' = u"
  shows "s' = s"
  using assms(1)
  by (auto simp: takeover_handoff_handler_def issue_takeover_handoff_def issue_takeover_token_def takeover_disabled_def
      error_reply_def Let_def dest: assms(2) split: sum.splits if_splits prod.splits option.splits)

text \<open>Exchanging a handoff for a session kills the handoff.\<close>

lemma exchange_kills_the_handoff:
  assumes "ui_laws ui" and "takeover_ui_session_create libs ui now ready (Some h) rq s = (UiSessionReply url ttl, s')"
    and "\<And>t u. fst (ui_issue ui (Idle (secs ui_session_idle_timeout_s)) now (as_ui s)) = Some t \<Longrightarrow>
           distinct (map (ui_secret ui) (as_handoffs s @ [t]))"
    and "fst (revoke_takeover_handoff ui (hx_secret h) now (snd (issue_takeover_ui_session ui now s)))"
  shows "dead_secret ui (hx_secret h) s'"
proof -
  obtain r s1 where i: "issue_takeover_ui_session ui now s = (r, s1)" by fastforce
  with assms(2) obtain t where t: "r = Inr t"
    by (cases r) (auto simp: takeover_ui_session_create_def takeover_disabled_def error_reply_def split: if_splits sum.splits)
  obtain ok s2 where rv: "revoke_takeover_handoff ui (hx_secret h) now s1 = (ok, s2)" by fastforce
  with assms(2) i t have s': "s' = s2"
    by (auto simp: takeover_ui_session_create_def takeover_disabled_def error_reply_def Let_def split: if_splits sum.splits)
  from i t obtain u where "ui_issue ui (Idle (secs ui_session_idle_timeout_s)) now (as_ui s) = (Some t, u)"
    and s1: "as_handoffs s1 = filter (is_live ui now u) (as_handoffs s) @ [t]"
    by (auto simp: issue_takeover_ui_session_def issue_takeover_token_def retain_live_def Let_def split: prod.splits option.splits)
  with assms(3) have "distinct (map (ui_secret ui) (as_handoffs s @ [t]))" by simp
  then have "distinct (map (ui_secret ui) (as_handoffs s1))"
    unfolding s1 by (auto simp: distinct_map_filter)
  moreover from assms(4) i rv have "ok" by simp
  ultimately show ?thesis using revoke_one_kills [OF assms(1), of s1 "hx_secret h" now s2] rv s' by simp
qed

end
