(* ===== verification/CdpClient.thy ===== *)
theory CdpClient
  imports Json Endpoint
begin

text \<open>
  The CDP websocket client (\<open>sdk/cdp/ws_client.rs\<close>): commands get increasing ids, the reader task matches
  replies to waiting calls by id and publishes the rest as events. The calls, the reader and the
  writer run concurrently: a connection is a step relation whose steps are the critical sections.
  A call is named by the id it was given.
\<close>

subsection \<open>Messages\<close>

definition show_int :: "int \<Rightarrow> string" where
  "show_int i = (if i < 0 then CHR ''-'' # show_nat (nat (- i)) else show_nat (nat i))"

record cdp_event =
  cv_method :: string
  cv_session_id :: "string option"
  cv_params :: json

definition command_body :: "nat \<Rightarrow> string \<Rightarrow> json \<Rightarrow> string option \<Rightarrow> json" where
  "command_body i m p sid =
     JObj ([(''id'', JNum (PosInt i)), (''method'', JStr m), (''params'', p)]
       @ (case sid of Some s \<Rightarrow> [(''sessionId'', JStr s)] | None \<Rightarrow> []))"

text \<open>What a reply settles its call with: \<open>CdpRemoteError\<close> as the call reports it, or the result.\<close>

definition remote_error :: "int \<Rightarrow> string \<Rightarrow> error" where
  "remote_error code message = error_new CdpError (''CDP error '' @ show_int code @ '': '' @ message)"

definition reply_of :: "json \<Rightarrow> json result" where
  "reply_of msg =
     (case json_get msg ''error'' of
        Some err \<Rightarrow> Inl (remote_error
            (case Option.bind (json_get err ''code'') json_i64 of Some c \<Rightarrow> c | None \<Rightarrow> - 1)
            (str_or [] (get_str err ''message'')))
      | None \<Rightarrow> Inr (case json_get msg ''result'' of Some r \<Rightarrow> r | None \<Rightarrow> JNull))"

definition msg_id :: "json \<Rightarrow> int option" where
  "msg_id msg = Option.bind (json_get msg ''id'') json_i64"

definition event_of :: "json \<Rightarrow> cdp_event option" where
  "event_of msg = map_option (\<lambda>m. \<lparr> cv_method = m, cv_session_id = get_str msg ''sessionId'',
     cv_params = (case json_get msg ''params'' of Some p \<Rightarrow> p | None \<Rightarrow> JNull) \<rparr>) (get_str msg ''method'')"

subsection \<open>The connection\<close>

datatype call = Unsent | Reserved | Waiting | GaveUp | Settled "json result"

record connection =
  cx_next_id :: nat
  cx_pending :: "(int, unit) kv"
  cx_closed :: bool
  cx_writer :: bool
  cx_frames :: "json list"
  cx_received :: "json list"
  cx_events :: "cdp_event list"
  cx_calls :: "nat \<Rightarrow> call"

definition connection_new :: connection where
  "connection_new = \<lparr> cx_next_id = 1, cx_pending = [], cx_closed = False, cx_writer = True, cx_frames = [],
     cx_received = [], cx_events = [], cx_calls = (\<lambda>_. Unsent) \<rparr>"

definition set_call :: "nat \<Rightarrow> call \<Rightarrow> connection \<Rightarrow> connection" where
  "set_call i st c = c\<lparr> cx_calls := (cx_calls c)(i := st) \<rparr>"

text \<open>\<open>next_id.fetch_add\<close>.\<close>

definition reserve :: "connection \<Rightarrow> connection" where
  "reserve c = set_call (cx_next_id c) Reserved (c\<lparr> cx_next_id := cx_next_id c + 1 \<rparr>)"

text \<open>Under the lock: register the call, then hand the frame to the writer.\<close>

definition submit :: "nat \<Rightarrow> string \<Rightarrow> json \<Rightarrow> string option \<Rightarrow> connection \<Rightarrow> connection" where
  "submit i m p sid c =
     (if cx_closed c then set_call i (Settled (fail CdpUnavailable ''CDP connection closed'')) c
      else if \<not> cx_writer c then
        set_call i (Settled (fail CdpUnavailable ''CDP writer closed before send'')) c
      else set_call i Waiting
        (c\<lparr> cx_pending := kv_put (int i) () (cx_pending c), cx_frames := cx_frames c @ [command_body i m p sid] \<rparr>))"

text \<open>A reply for a call that no longer listens is dropped by its closed channel.\<close>

definition settle :: "nat \<Rightarrow> json result \<Rightarrow> connection \<Rightarrow> connection" where
  "settle i r c = (if cx_calls c i = Waiting then set_call i (Settled r) c else c)"

text \<open>The reader's \<open>dispatch\<close>.\<close>

definition dispatch :: "json \<Rightarrow> connection \<Rightarrow> connection" where
  "dispatch msg c =
     (let c = c\<lparr> cx_received := cx_received c @ [msg] \<rparr>
      in case msg_id msg of
           Some i \<Rightarrow>
             if map_of (cx_pending c) i = None then c
             else settle (nat i) (reply_of msg) (c\<lparr> cx_pending := kv_del i (cx_pending c) \<rparr>)
         | None \<Rightarrow>
             (case event_of msg of Some ev \<Rightarrow> c\<lparr> cx_events := cx_events c @ [ev] \<rparr> | None \<Rightarrow> c))"

text \<open>The reader ends: every pending call fails, and later ones are refused.\<close>

definition closed_reply :: "json result" where
  "closed_reply = Inl (remote_error (- 1) ''CDP connection closed'')"

definition reader_ends :: "connection \<Rightarrow> connection" where
  "reader_ends c = c\<lparr> cx_closed := True, cx_pending := [],
     cx_calls := (\<lambda>i. if map_of (cx_pending c) (int i) \<noteq> None \<and> cx_calls c i = Waiting then Settled closed_reply
                       else cx_calls c i) \<rparr>"

text \<open>A timeout first stops listening, then, under the lock, takes its slot back.\<close>

definition timed_out :: "string \<Rightarrow> json result" where
  "timed_out m = fail CdpTimeout (m @ '': CDP reply timed out after {timeout:?}'')"

inductive cdp_step :: "connection \<Rightarrow> connection \<Rightarrow> bool" where
  reserves: "cdp_step c (reserve c)"
| submits: "cx_calls c i = Reserved \<Longrightarrow> cdp_step c (submit i m p sid c)"
| receives: "\<not> cx_closed c \<Longrightarrow> cdp_step c (dispatch msg c)"
| stops_listening: "cx_calls c i = Waiting \<Longrightarrow> cdp_step c (set_call i GaveUp c)"
| times_out: "cx_calls c i = GaveUp \<Longrightarrow>
    cdp_step c (set_call i (Settled (timed_out m)) (c\<lparr> cx_pending := kv_del (int i) (cx_pending c) \<rparr>))"
| writer_ends: "cdp_step c (c\<lparr> cx_writer := False \<rparr>)"
| ends: "\<not> cx_closed c \<Longrightarrow> cdp_step c (reader_ends c)"

inductive cdp_reachable :: "connection \<Rightarrow> bool" where
  start: "cdp_reachable connection_new"
| step: "cdp_reachable c \<Longrightarrow> cdp_step c c' \<Longrightarrow> cdp_reachable c'"

subsection \<open>The invariant\<close>

definition answered_by :: "connection \<Rightarrow> nat \<Rightarrow> json result \<Rightarrow> bool" where
  "answered_by c i r \<longleftrightarrow>
     (\<exists>msg \<in> set (cx_received c). msg_id msg = Some (int i) \<and> r = reply_of msg)
     \<or> (\<exists>m. r = timed_out m)
     \<or> (r = closed_reply \<and> cx_closed c)
     \<or> (r = fail CdpUnavailable ''CDP connection closed'' \<and> cx_closed c)
     \<or> (r = fail CdpUnavailable ''CDP writer closed before send'' \<and> \<not> cx_writer c)"

text \<open>The slots: a pending id belongs to a call that is, or was, waiting; a waiting call has its slot.\<close>

definition slots_ok :: "connection \<Rightarrow> bool" where
  "slots_ok c \<longleftrightarrow> kv_ok (cx_pending c) \<and> (cx_closed c \<longrightarrow> cx_pending c = [])
     \<and> (\<forall>i. cx_calls c i = Waiting \<longrightarrow> map_of (cx_pending c) (int i) \<noteq> None)
     \<and> (\<forall>j. map_of (cx_pending c) j \<noteq> None \<longrightarrow>
          (\<exists>i. j = int i \<and> (cx_calls c i = Waiting \<or> cx_calls c i = GaveUp)))"

definition ids_ok :: "connection \<Rightarrow> bool" where
  "ids_ok c \<longleftrightarrow> 0 < cx_next_id c \<and> (\<forall>i. cx_calls c i \<noteq> Unsent \<longrightarrow> 0 < i \<and> i < cx_next_id c)"

definition answers_ok :: "connection \<Rightarrow> bool" where
  "answers_ok c \<longleftrightarrow> (\<forall>i r. cx_calls c i = Settled r \<longrightarrow> answered_by c i r)"

lemma set_call_sel [simp]:
  "cx_calls (set_call i st c) = (cx_calls c)(i := st)" "cx_pending (set_call i st c) = cx_pending c"
  "cx_closed (set_call i st c) = cx_closed c" "cx_next_id (set_call i st c) = cx_next_id c"
  "cx_received (set_call i st c) = cx_received c" "cx_writer (set_call i st c) = cx_writer c"
  by (simp_all add: set_call_def)

lemma answered_by_mono:
  assumes "answered_by c i r" and "set (cx_received c) \<subseteq> set (cx_received c')"
    and "cx_closed c \<longrightarrow> cx_closed c'" and "cx_writer c' \<longrightarrow> cx_writer c"
  shows "answered_by c' i r"
  using assms unfolding answered_by_def by blast

text \<open>Every step only adds to what may settle a call.\<close>

lemma step_grows:
  "cdp_step c c' \<Longrightarrow> set (cx_received c) \<subseteq> set (cx_received c') \<and> (cx_closed c \<longrightarrow> cx_closed c')
     \<and> (cx_writer c' \<longrightarrow> cx_writer c)"
  by (induction rule: cdp_step.induct)
     (auto simp: reserve_def submit_def dispatch_def settle_def reader_ends_def Let_def split: option.splits)

lemma step_settles:
  assumes "cdp_step c c'" and "ids_ok c" and "slots_ok c" and "cx_calls c' i = Settled r"
  shows "cx_calls c i = Settled r \<or> answered_by c' i r"
  using assms
proof (cases rule: cdp_step.cases)
  case reserves with assms(4) show ?thesis by (auto simp: reserve_def split: if_splits)
next
  case (submits j m p sid) with assms(4) show ?thesis by (auto simp: submit_def answered_by_def split: if_splits)
next
  case (receives msg)
  show ?thesis
  proof (cases "msg_id msg")
    case None with receives assms(4) show ?thesis by (auto simp: dispatch_def Let_def split: option.splits)
  next
    case (Some j)
    show ?thesis
    proof (cases "map_of (cx_pending c) j")
      case None with Some receives assms(4) show ?thesis by (auto simp: dispatch_def Let_def)
    next
      case slot: (Some u)
      with assms(3) obtain k where "j = int k" unfolding slots_ok_def by blast
      with Some slot receives assms(4) show ?thesis
        by (auto simp: dispatch_def settle_def Let_def answered_by_def split: if_splits)
    qed
  qed
next
  case (stops_listening j) with assms(4) show ?thesis by (auto split: if_splits)
next
  case (times_out j m) with assms(4) show ?thesis by (auto simp: answered_by_def split: if_splits)
next
  case writer_ends with assms(4) show ?thesis by simp
next
  case ends with assms(4) show ?thesis by (auto simp: reader_ends_def answered_by_def split: if_splits)
qed

lemma answers_step:
  assumes "cdp_step c c'" and "ids_ok c" and "slots_ok c" and "answers_ok c"
  shows "answers_ok c'"
  unfolding answers_ok_def
proof (intro allI impI)
  fix i r assume "cx_calls c' i = Settled r"
  with step_settles [OF assms(1-3)] assms(4) answered_by_mono step_grows [OF assms(1)]
  show "answered_by c' i r" unfolding answers_ok_def by blast
qed

text \<open>Only taking an id starts a call.\<close>

lemma step_starts:
  "cdp_step c c' \<Longrightarrow> (cx_next_id c' = cx_next_id c \<and> (\<forall>j. cx_calls c' j \<noteq> Unsent \<longrightarrow> cx_calls c j \<noteq> Unsent)) \<or> c' = reserve c"
  by (induction rule: cdp_step.induct)
     (auto simp: submit_def dispatch_def settle_def reader_ends_def Let_def split: option.splits if_splits)

lemma ids_step:
  assumes "cdp_step c c'" and "ids_ok c"
  shows "ids_ok c'"
  using step_starts [OF assms(1)]
proof
  assume "c' = reserve c"
  with assms(2) show ?thesis by (auto simp: ids_ok_def reserve_def less_Suc_eq)
qed (use assms(2) in \<open>auto simp: ids_ok_def\<close>)

lemma kv_del_nil: "kv_del k [] = []"
  by (simp add: kv_del_def)

lemma slots_step:
  assumes "cdp_step c c'" and "ids_ok c" and "slots_ok c"
  shows "slots_ok c'"
  using assms(1)
proof (cases rule: cdp_step.cases)
  case reserves
  with assms(2) have "cx_calls c (cx_next_id c) = Unsent" unfolding ids_ok_def by blast
  with reserves assms(3) show ?thesis by (auto simp: slots_ok_def reserve_def; metis call.distinct(3,5))
next
  case (submits i m p sid)
  have others: "\<exists>k. j = int k \<and> k \<noteq> i \<and> (cx_calls c k = Waiting \<or> cx_calls c k = GaveUp)"
    if "map_of (cx_pending c) j \<noteq> None" for j
    using that assms(3) submits(2) unfolding slots_ok_def by (metis call.distinct(9,11))
  with submits assms(3) show ?thesis by (auto simp: slots_ok_def submit_def split: if_splits)
next
  case (receives msg)
  show ?thesis
  proof (cases "msg_id msg")
    case None with receives assms(3) show ?thesis by (auto simp: slots_ok_def dispatch_def Let_def split: option.splits)
  next
    case (Some j)
    show ?thesis
    proof (cases "map_of (cx_pending c) j")
      case None with Some receives assms(3) show ?thesis by (simp add: slots_ok_def dispatch_def Let_def)
    next
      case slot: (Some u)
      with assms(3) obtain k where k: "j = int k" "cx_calls c k = Waiting \<or> cx_calls c k = GaveUp" unfolding slots_ok_def by blast
      show ?thesis
      proof (cases "cx_calls c k = Waiting")
        case True
        with Some slot receives assms(3) k(1) show ?thesis
          by (auto simp: slots_ok_def dispatch_def settle_def Let_def)
      next
        case False
        with Some slot receives assms(3) k(1) show ?thesis
          by (auto simp: slots_ok_def dispatch_def settle_def Let_def)
      qed
    qed
  qed
next
  case (stops_listening i) with assms(3) show ?thesis by (auto simp: slots_ok_def)
next
  case (times_out i m) with assms(3) show ?thesis by (auto simp: slots_ok_def kv_del_nil)
next
  case writer_ends with assms(3) show ?thesis by (simp add: slots_ok_def)
next
  case ends with assms(3) show ?thesis by (auto simp: slots_ok_def reader_ends_def kv_ok_def)
qed

lemma cdp_reachable_ok: "cdp_reachable c \<Longrightarrow> ids_ok c \<and> slots_ok c \<and> answers_ok c"
proof (induction rule: cdp_reachable.induct)
  case start
  show ?case by (simp add: ids_ok_def slots_ok_def answers_ok_def connection_new_def kv_ok_def)
next
  case (step c c') with ids_step slots_step answers_step show ?case by blast
qed

subsection \<open>Properties\<close>

text \<open>
  C6. In every interleaving of calls, replies, timeouts and the end of the connection: a call that
  still waits is registered on an open connection, so a reply or the end of the connection will reach
  it; a settled call got the reply to its own id, or its own timeout, or the news that the
  connection is closed; and once the connection is closed no call waits.
\<close>

theorem every_call_gets_its_own_answer:
  assumes "cdp_reachable c"
  shows "(cx_calls c i = Waiting \<longrightarrow> \<not> cx_closed c \<and> map_of (cx_pending c) (int i) \<noteq> None)
    \<and> (cx_calls c i = Settled (Inr v) \<longrightarrow> (\<exists>msg \<in> set (cx_received c). msg_id msg = Some (int i) \<and> reply_of msg = Inr v))
    \<and> (cx_calls c i = Settled (Inl e) \<longrightarrow> answered_by c i (Inl e))
    \<and> (cx_closed c \<longrightarrow> cx_pending c = [] \<and> cx_calls c i \<noteq> Waiting)"
proof -
  from cdp_reachable_ok [OF assms] have slots: "slots_ok c" and answers: "answers_ok c" by simp_all
  have "\<exists>msg \<in> set (cx_received c). msg_id msg = Some (int i) \<and> reply_of msg = Inr v" if "cx_calls c i = Settled (Inr v)"
  proof -
    from that answers have "answered_by c i (Inr v)" by (simp add: answers_ok_def)
    then show ?thesis by (auto simp: answered_by_def timed_out_def closed_reply_def)
  qed
  moreover have "cx_closed c \<longrightarrow> cx_pending c = [] \<and> cx_calls c i \<noteq> Waiting" using slots by (fastforce simp: slots_ok_def)
  moreover have "cx_calls c i = Waiting \<longrightarrow> map_of (cx_pending c) (int i) \<noteq> None" using slots unfolding slots_ok_def by blast
  ultimately show ?thesis using answers unfolding answers_ok_def by blast
qed

text \<open>A reply for a forgotten call does nothing, and the reply to one call leaves every other call as it is.\<close>

lemma dispatch_others:
  assumes "msg_id msg = Some (int i)" and "j \<noteq> i"
  shows "cx_calls (dispatch msg c) j = cx_calls c j"
  using assms by (simp add: dispatch_def settle_def Let_def)

text \<open>One call, answered.\<close>

definition pong :: json where
  "pong = JObj [(''id'', JNum (PosInt 1)), (''result'', JBool True)]"

definition answered_connection :: connection where
  "answered_connection = dispatch pong (submit 1 ''Browser.getVersion'' (JObj []) None (reserve connection_new))"

lemma answered_reachable: "cdp_reachable answered_connection"
proof -
  have 1: "cdp_reachable (reserve connection_new)"
    by (rule cdp_reachable.step [OF cdp_reachable.start cdp_step.reserves])
  have 2: "cdp_reachable (submit 1 ''Browser.getVersion'' (JObj []) None (reserve connection_new))"
    by (rule cdp_reachable.step [OF 1], rule cdp_step.submits) (simp add: reserve_def connection_new_def)
  show ?thesis unfolding answered_connection_def
    by (rule cdp_reachable.step [OF 2], rule cdp_step.receives) (simp add: submit_def reserve_def connection_new_def)
qed

lemma answered_call: "cx_calls answered_connection 1 = Settled (Inr (JBool True))"
  by (simp add: answered_connection_def dispatch_def submit_def reserve_def connection_new_def pong_def msg_id_def i64_max_def
      settle_def reply_of_def Let_def)

lemma every_call_gets_its_own_answer_witness:
  "\<exists>msg \<in> set (cx_received answered_connection). msg_id msg = Some 1 \<and> reply_of msg = Inr (JBool True)"
  using every_call_gets_its_own_answer [OF answered_reachable, of 1 "JBool True"] answered_call by simp

subsection \<open>Waiting for an event\<close>

text \<open>What the event channel hands the waiter, and when.\<close>

datatype arrival = Arrived cdp_event | Lagged | ChannelClosed

fun wait_event_on :: "(cdp_event \<Rightarrow> bool) \<Rightarrow> instant \<Rightarrow> instant \<Rightarrow> (instant \<times> arrival) list \<Rightarrow> cdp_event result" where
  "wait_event_on pred deadline now [] = fail CdpTimeout ''wait_event: timed out''"
| "wait_event_on pred deadline now ((t, a) # rest) =
     (if deadline - now = 0 \<or> t > deadline then fail CdpTimeout ''wait_event: timed out''
      else
        (case a of
           Arrived ev \<Rightarrow> if pred ev then Inr ev else wait_event_on pred deadline (max now t) rest
         | Lagged \<Rightarrow> wait_event_on pred deadline (max now t) rest
         | ChannelClosed \<Rightarrow> fail CdpUnavailable ''wait_event: events channel closed''))"

definition wait_event :: "duration \<Rightarrow> (cdp_event \<Rightarrow> bool) \<Rightarrow> instant \<Rightarrow> (instant \<times> arrival) list \<Rightarrow> cdp_event result" where
  "wait_event limit pred now arrivals = wait_event_on pred (now + limit) now arrivals"

lemma wait_event_matches:
  assumes "wait_event_on pred deadline now arrivals = Inr ev"
  shows "pred ev \<and> (\<exists>t \<le> deadline. (t, Arrived ev) \<in> set arrivals)"
  using assms
proof (induction arrivals arbitrary: now)
  case (Cons x rest)
  obtain t a where x: "x = (t, a)" by fastforce
  from Cons.prems x have t: "t \<le> deadline" by (auto split: if_splits)
  show ?case
  proof (cases "a = Arrived ev \<and> pred ev")
    case True with t x show ?thesis by auto
  next
    case False
    with Cons.prems x have "wait_event_on pred deadline (max now t) rest = Inr ev"
      by (auto split: if_splits arrival.splits)
    from Cons.IH [OF this] show ?thesis by auto
  qed
qed simp

subsection \<open>Connecting\<close>

record ws_uri =
  wu_scheme :: "string option"
  wu_host :: "string option"
  wu_port :: "nat option"

datatype ws_failure = HttpAnswer string "string option" | TransportFailure string

text \<open>Url and URI parsing, the request builder, TCP and the handshakes: what they answer.\<close>

record transport =
  tr_append :: "string \<Rightarrow> (string \<times> string) list \<Rightarrow> string option"
  tr_request :: "string \<Rightarrow> unit result"
  tr_uri :: "string \<Rightarrow> ws_uri option"
  tr_tcp :: "string \<Rightarrow> nat \<Rightarrow> bool"
  tr_unix :: "path \<Rightarrow> bool"
  tr_handshake :: "string \<Rightarrow> ws_failure option"
  tr_remote_error :: "string \<Rightarrow> error option"

definition append_query_pairs :: "transport \<Rightarrow> string \<Rightarrow> (string \<times> string) list \<Rightarrow> string result" where
  "append_query_pairs tr url pairs =
     (case tr_append tr url pairs of Some u \<Rightarrow> Inr u | None \<Rightarrow> fail InvalidEndpoint (''CDP url '' @ url @ '': {e}''))"

definition cdp_connect_error :: "transport \<Rightarrow> string \<Rightarrow> string \<Rightarrow> ws_failure \<Rightarrow> error" where
  "cdp_connect_error tr context url f =
     (case f of
        TransportFailure e \<Rightarrow> error_new HostUnreachable (context @ '' '' @ url @ '': '' @ e)
      | HttpAnswer status body \<Rightarrow>
          (let prefix = context @ '' '' @ url @ '': HTTP '' @ status
           in case body of
                None \<Rightarrow> error_new HostUnreachable prefix
              | Some b \<Rightarrow>
                  (case tr_remote_error tr b of
                     Some remote \<Rightarrow> with_retryable (error_new (error_code remote) (prefix @ '': '' @ detail remote)) (retryable remote)
                   | None \<Rightarrow> if trim b \<noteq> [] then error_new HostUnreachable (prefix @ '': '' @ trim b)
                             else error_new HostUnreachable prefix)))"

definition trim_brackets :: "string \<Rightarrow> string" where
  "trim_brackets h = rev (trim_start_char CHR '']'' (rev (trim_start_char CHR ''['' h)))"

definition ws_connect :: "transport \<Rightarrow> string \<Rightarrow> string option \<Rightarrow> unit result" where
  "ws_connect tr ep token =
     and_then (case token of Some t \<Rightarrow> append_query_pairs tr ep [(''token_secret'', t)] | None \<Rightarrow> Inr ep) (\<lambda>url.
     and_then (tr_request tr url) (\<lambda>_.
       (case tr_uri tr url of
          None \<Rightarrow> fail InvalidEndpoint (''CDP url '' @ ep @ '': {e}'')
        | Some uri \<Rightarrow>
            (let secure = (case wu_scheme uri of Some s \<Rightarrow> eq_ignore_ascii_case s ''wss'' | None \<Rightarrow> False);
                 shake = (\<lambda>context. case tr_handshake tr url of
                     None \<Rightarrow> Inr () | Some f \<Rightarrow> Inl (cdp_connect_error tr context ep f))
             in if secure then shake ''CDP connect''
                else
                  (case wu_host uri of
                     None \<Rightarrow> fail InvalidEndpoint (''CDP url has no host: '' @ ep)
                   | Some host \<Rightarrow>
                       if tr_tcp tr (trim_brackets host) (case wu_port uri of Some p \<Rightarrow> p | None \<Rightarrow> 80)
                       then shake ''CDP websocket''
                       else fail HostUnreachable (''CDP connect '' @ ep @ '': {e}''))))))"

definition connect_unix :: "transport \<Rightarrow> path \<Rightarrow> string option \<Rightarrow> string option \<Rightarrow> unit result" where
  "connect_unix tr p token profile =
     (let pairs = (case token of Some t \<Rightarrow> [(''token_secret'', t)] | None \<Rightarrow> [])
          @ (case profile of Some n \<Rightarrow> [(''profile'', n)] | None \<Rightarrow> [])
      in and_then (if pairs = [] then Inr ''ws://localhost/cdp'' else append_query_pairs tr ''ws://localhost/cdp'' pairs) (\<lambda>url.
         and_then (tr_request tr url) (\<lambda>_.
           if \<not> tr_unix tr p then fail HostUnreachable ''CDP connect unix:{}: {e}''
           else (case tr_handshake tr url of None \<Rightarrow> Inr () | Some _ \<Rightarrow> fail HostUnreachable ''CDP websocket over unix:{}: {e}''))))"

definition connect_endpoint :: "transport \<Rightarrow> endpoint \<Rightarrow> string option \<Rightarrow> string option \<Rightarrow> unit result" where
  "connect_endpoint tr ep token profile =
     (case ep of
        Unix p \<Rightarrow> connect_unix tr p token profile
      | _ \<Rightarrow> and_then (case profile of
            Some n \<Rightarrow> append_query_pairs tr (cdp_ws_url ep) [(''profile'', n)]
          | None \<Rightarrow> Inr (cdp_ws_url ep)) (\<lambda>url. ws_connect tr url token))"

text \<open>
  The token is in no error: with another token of the same fate on the way (same URI, same
  answers), the connection fails with the very same error.
\<close>

lemma connect_errors_hide_the_token:
  assumes "tr_append tr ep [(''token_secret'', t)] = Some u" and "tr_append tr ep [(''token_secret'', t')] = Some u'"
    and "tr_request tr u = tr_request tr u'" and "tr_uri tr u = tr_uri tr u'" and "tr_handshake tr u = tr_handshake tr u'"
  shows "ws_connect tr ep (Some t) = ws_connect tr ep (Some t')"
  using assms by (cases "tr_request tr u'"; cases "tr_uri tr u'") (simp_all add: ws_connect_def append_query_pairs_def Let_def)

end
