(* ===== verification/TakeoverPanel.thy ===== *)
theory TakeoverPanel
  imports HostGate "HOL-Library.Sublist"
begin

text \<open>
  The takeover panel (\<open>host/takeover/mod.rs\<close>): how a request for it is answered or passed on to the display's own
  web server, what of the request goes along, the page that starts the display client, and the socket relay. What
  the HTTP client and the display answer is given, as are the icon of the \<open>agent_first_ui\<close> crate and serde_json's
  printer.
\<close>

subsection \<open>What is passed on\<close>

definition credential_pair :: "string \<Rightarrow> bool" where
  "credential_pair p \<longleftrightarrow>
     starts_with p ''handoff_secret='' \<or> starts_with p ''handoff='' \<or> starts_with p ''token_secret=''"

definition display_upstream_path_and_query :: "string \<Rightarrow> string option \<Rightarrow> string" where
  "display_upstream_path_and_query p q =
     (let suffix = (case strip_prefix ''/takeover/panel'' p of Some s \<Rightarrow> if s \<noteq> [] then s else ''/'' | None \<Rightarrow> ''/'');
          dest = (if starts_with suffix ''/'' then suffix else ''/'' @ suffix)
      in case q of
           None \<Rightarrow> dest
         | Some q \<Rightarrow>
             (let kept = filter (\<lambda>p. \<not> credential_pair p) (split_on CHR ''&'' q)
              in if kept = [] then dest else dest @ ''?'' @ join ''&'' kept))"

definition should_forward_header :: "string \<Rightarrow> bool" where
  "should_forward_header n \<longleftrightarrow>
     to_ascii_lowercase n \<notin> {''host'', ''accept-encoding'', ''connection'', ''upgrade'', ''content-length'',
       ''sec-websocket-key'', ''sec-websocket-version'', ''sec-websocket-protocol'', ''sec-websocket-extensions'',
       ''authorization'', ''cookie''}"

definition should_forward_response_header :: "string \<Rightarrow> bool" where
  "should_forward_response_header n \<longleftrightarrow>
     to_ascii_lowercase n \<notin> {''connection'', ''transfer-encoding'', ''upgrade'', ''content-length''}"

record panel_request = http_request +
  pr_method :: string
  pr_body :: "string + bytes"

record upstream_request =
  ur_method :: string
  ur_url :: string
  ur_headers :: "(string \<times> string) list"
  ur_body :: bytes

definition body_limit :: nat where "body_limit = 64 * 1024 * 1024"

text \<open>\<open>to_bytes\<close> with its limit.\<close>

definition read_panel_body :: "panel_request \<Rightarrow> string + bytes" where
  "read_panel_body rq =
     (case pr_body rq of
        Inl e \<Rightarrow> Inl e
      | Inr bs \<Rightarrow> if length bs \<le> body_limit then Inr bs else Inl ''length limit exceeded'')"

definition upstream_request :: "string \<Rightarrow> panel_request \<Rightarrow> bytes \<Rightarrow> upstream_request" where
  "upstream_request addr rq body =
     \<lparr> ur_method = pr_method rq,
       ur_url = ''http://'' @ addr @ display_upstream_path_and_query (rq_path rq) (rq_query rq),
       ur_headers = [(''accept-encoding'', ''identity'')]
         @ filter (\<lambda>(n, v). should_forward_header n) (rq_headers rq) @ [(''host'', addr)],
       ur_body = body \<rparr>"

subsection \<open>What comes back\<close>

record panel_response =
  pn_status :: nat
  pn_headers :: "(string, string) kv"
  pn_body :: bytes

record display_reply =
  yr_status :: nat
  yr_headers :: "(string \<times> string) list"
  yr_body :: "string + bytes"

definition text_response :: "nat \<Rightarrow> string \<Rightarrow> panel_response" where
  "text_response st t = \<lparr> pn_status = st, pn_headers = [(''content-type'', ''text/plain; charset=utf-8'')], pn_body = as_bytes t \<rparr>"

definition kept_response_headers :: "(string \<times> string) list \<Rightarrow> (string, string) kv" where
  "kept_response_headers hs =
     foldl (\<lambda>acc (n, v). if should_forward_response_header n then kv_put n v acc else acc) [] hs"

definition is_html_response :: "(string, string) kv \<Rightarrow> bool" where
  "is_html_response hs \<longleftrightarrow>
     (case Option.bind (map_of hs ''content-type'') header_text of Some v \<Rightarrow> starts_with v ''text/html'' | None \<Rightarrow> False)"

text \<open>
  \<open>watch\<close> is the text of \<open>health-watch.html\<close>, \<open>lossy\<close> is \<open>String::from_utf8_lossy\<close>. A page of the display gets the watch
  appended and loses the validators of its old content.
\<close>

definition answer_of_reply :: "(bytes \<Rightarrow> string) \<Rightarrow> string \<Rightarrow> display_reply \<Rightarrow> panel_response" where
  "answer_of_reply lossy watch r =
     (let hs = kept_response_headers (yr_headers r)
      in case yr_body r of
           Inl e \<Rightarrow> text_response 502 (''display proxy: upstream body failed: '' @ e)
         | Inr bs \<Rightarrow>
             if is_html_response hs \<and> 200 \<le> yr_status r \<and> yr_status r < 300
             then \<lparr> pn_status = yr_status r, pn_headers = kv_del ''content-encoding'' (kv_del ''etag'' hs),
                    pn_body = as_bytes (lossy bs @ watch) \<rparr>
             else \<lparr> pn_status = yr_status r, pn_headers = hs, pn_body = bs \<rparr>)"

record panel_world =
  pw_client_builds :: bool
  pw_send :: "upstream_request \<Rightarrow> string + display_reply"
  pw_lossy :: "bytes \<Rightarrow> string"
  pw_watch :: string
  pw_icon_path :: string
  pw_icon :: "string + string"
  pw_json_text :: "string \<Rightarrow> string"

definition forward_display_http :: "panel_world \<Rightarrow> string \<Rightarrow> panel_request \<Rightarrow> panel_response" where
  "forward_display_http w addr rq =
     (case read_panel_body rq of
        Inl e \<Rightarrow> text_response 400 (''display proxy: could not read request body: '' @ e)
      | Inr body \<Rightarrow>
          if \<not> pw_client_builds w then text_response 500 ''display proxy: could not build the loopback client''
          else (case pw_send w (upstream_request addr rq body) of
                  Inl e \<Rightarrow> text_response 502 (''display proxy: upstream request failed: '' @ e)
                | Inr r \<Rightarrow> answer_of_reply (pw_lossy w) (pw_watch w) r))"

subsection \<open>The landing page\<close>

definition kasmvnc_quality_params :: "nat \<Rightarrow> string" where
  "kasmvnc_quality_params pct =
     (let level = show_nat ((min pct 100 * 9 + 50) div 100)
      in ''&quality='' @ level @ ''&dynamic_quality_min='' @ level @ ''&dynamic_quality_max=9''
         @ ''&jpeg_video_quality='' @ level @ ''&webp_video_quality='' @ level
         @ ''&max_video_resolution_x=3840&max_video_resolution_y=2160'')"

definition js_string :: "(string \<Rightarrow> string) \<Rightarrow> string \<Rightarrow> string" where
  "js_string json_text s =
     concat (map (\<lambda>c. if c = CHR ''<'' then [CHR 0x5C] @ ''u003c'' else [c]) (json_text s))"

definition reseeded_pair :: "string \<Rightarrow> bool" where
  "reseeded_pair p \<longleftrightarrow>
     p = [] \<or> starts_with p ''path='' \<or> starts_with p ''resize='' \<or> starts_with p ''handoff_secret='' \<or> starts_with p ''handoff=''"

definition landing_settings :: "string \<Rightarrow> nat \<Rightarrow> string \<Rightarrow> string" where
  "landing_settings resize quality q =
     ''&resize='' @ resize @ kasmvnc_quality_params quality
     @ concat (map (\<lambda>p. ''&'' @ p) (filter (\<lambda>p. \<not> reseeded_pair p) (split_on CHR ''&'' q)))"

definition landing_page :: "string \<Rightarrow> string" where
  "landing_page settings =
     ''<!doctype html>'' @ [CHR 0x0A] @ ''<meta charset='' @ [CHR 0x22] @ ''utf-8'' @ [CHR 0x22] @ ''>'' @ [CHR 0x0A]
     @ ''<title>afhttp takeover</title>'' @ [CHR 0x0A]
     @ ''<noscript>The takeover panel needs JavaScript.</noscript>'' @ [CHR 0x0A] @ ''<script>'' @ [CHR 0x0A]
     @ ''(function () {'' @ [CHR 0x0A] @ ''  var path = location.pathname;'' @ [CHR 0x0A]
     @ ''  var base = path.charAt(path.length - 1) === '' @ [CHR 0x27] @ ''/'' @ [CHR 0x27] @ '' ? path : path + '' @ [CHR 0x27] @ ''/'' @ [CHR 0x27]
     @ '';'' @ [CHR 0x0A]
     @ ''  var websockify = base.replace(/^'' @ [CHR 0x5C] @ ''/+/, '' @ [CHR 0x27, CHR 0x27] @ '') + '' @ [CHR 0x27] @ ''websockify'' @ [CHR 0x27] @ '';'' @ [CHR 0x0A]
     @ ''  location.replace(base + '' @ [CHR 0x27] @ ''?path='' @ [CHR 0x27] @ '' + encodeURIComponent(websockify) + '' @ settings @ '');'' @ [CHR 0x0A]
     @ ''})();'' @ [CHR 0x0A] @ ''</script>'' @ [CHR 0x0A]"

definition landing_bootstrap :: "(string \<Rightarrow> string) \<Rightarrow> string \<Rightarrow> nat \<Rightarrow> string \<Rightarrow> panel_response" where
  "landing_bootstrap json_text resize quality q =
     \<lparr> pn_status = 200, pn_headers = [(''content-type'', ''text/html; charset=utf-8''), (''cache-control'', ''no-store'')],
       pn_body = as_bytes (landing_page (js_string json_text (landing_settings resize quality q))) \<rparr>"

subsection \<open>The door of the panel\<close>

definition websocket_origin_matches_host :: "http_request \<Rightarrow> bool" where
  "websocket_origin_matches_host rq \<longleftrightarrow>
     (case hget rq ''origin'' of
        None \<Rightarrow> True
      | Some raw \<Rightarrow>
          (case (header_text raw, htext rq ''host'') of
             (Some origin, Some host) \<Rightarrow>
               eq_ignore_ascii_case origin (''http://'' @ host) \<or> eq_ignore_ascii_case origin (''https://'' @ host)
           | _ \<Rightarrow> False))"

record panel_display =
  py_web_port :: nat
  py_window_manager :: bool
  py_quality :: nat

definition web_addr :: "panel_display \<Rightarrow> string" where
  "web_addr d = ''127.0.0.1:'' @ show_nat (py_web_port d)"

datatype panel_answer = Answer panel_response | OpenSocket string "string list"

definition proxy_kasmvnc :: "panel_world \<Rightarrow> panel_display \<Rightarrow> bool \<Rightarrow> panel_request \<Rightarrow> panel_answer" where
  "proxy_kasmvnc w d ws rq =
     (if rq_path rq = ''/takeover/panel/'' @ pw_icon_path w \<and> \<not> ws
      then Answer (case pw_icon w of
                     Inl e \<Rightarrow> text_response 500 e
                   | Inr svg \<Rightarrow> \<lparr> pn_status = 200, pn_headers = [(''content-type'', ''image/svg+xml''), (''cache-control'', ''no-store'')],
                                  pn_body = as_bytes svg \<rparr>)
      else
        (let resize = (if py_window_manager d then ''remote'' else ''scale'');
             is_landing = rq_path rq = ''/takeover/panel'' \<or> rq_path rq = ''/takeover/panel/'';
             q = (case rq_query rq of Some q \<Rightarrow> q | None \<Rightarrow> []);
             has_path = list_ex (\<lambda>p. starts_with p ''path='') (split_on CHR ''&'' q);
             resize_ok = list_ex (\<lambda>p. p = ''resize='' @ resize) (split_on CHR ''&'' q)
         in if is_landing \<and> \<not> ws \<and> \<not> (has_path \<and> resize_ok)
            then Answer (landing_bootstrap (pw_json_text w) resize (py_quality d) q)
            else if ws
            then (if \<not> websocket_origin_matches_host (http_request.truncate rq)
                  then Answer (text_response 403 ''cross-origin takeover socket refused'')
                  else OpenSocket (''ws://'' @ web_addr d @ display_upstream_path_and_query (rq_path rq) (rq_query rq)) [''binary''])
            else Answer (forward_display_http w (web_addr d) rq)))"

subsection \<open>The socket relay\<close>

datatype ws_message = WsText string | WsBinary bytes | WsPing bytes | WsPong bytes | WsClose | WsFrame

text \<open>
  What one side receives (\<open>None\<close> is an error of the stream), each message with whether sending it on works. A raw
  frame is only ever seen on the display's side, and skipped. The direction that ends first drops the other one.
\<close>

fun relay :: "(ws_message option \<times> bool) list \<Rightarrow> ws_message list" where
  "relay [] = []"
| "relay ((None, _) # _) = []"
| "relay ((Some WsClose, _) # _) = []"
| "relay ((Some WsFrame, _) # rest) = relay rest"
| "relay ((Some m, ok) # rest) = (if ok then m # relay rest else [])"

definition client_to_upstream :: "(ws_message option \<times> bool) list \<Rightarrow> ws_message list" where
  "client_to_upstream ms = relay ms @ [WsClose]"

definition upstream_to_client :: "(ws_message option \<times> bool) list \<Rightarrow> ws_message list" where
  "upstream_to_client ms = relay ms @ [WsClose]"

subsection \<open>What the display learns\<close>

definition kept_pairs :: "string \<Rightarrow> string list" where
  "kept_pairs q = filter (\<lambda>p. \<not> credential_pair p) (split_on CHR ''&'' q)"

lemma kept_pairs_split: "kept_pairs q \<noteq> [] \<Longrightarrow> split_on CHR ''&'' (join ''&'' (kept_pairs q)) = kept_pairs q"
  by (rule split_on_join) (auto simp: kept_pairs_def dest: split_on_pieces)

text \<open>Where a request for the panel ends up on the display.\<close>

lemma upstream_query:
  assumes "CHR ''?'' \<notin> set p"
  shows "split_once CHR ''?'' (display_upstream_path_and_query p q) =
    (case q of
       Some q \<Rightarrow> if kept_pairs q = [] then None
                 else Some (display_upstream_path_and_query p None, join ''&'' (kept_pairs q))
     | None \<Rightarrow> None)"
proof -
  have path: "CHR ''?'' \<notin> set (display_upstream_path_and_query p None)"
    using assms by (auto simp: display_upstream_path_and_query_def str_simps Let_def split: option.split)
  have "display_upstream_path_and_query p (Some q) =
      (if kept_pairs q = [] then display_upstream_path_and_query p None
       else display_upstream_path_and_query p None @ CHR ''?'' # join ''&'' (kept_pairs q))" for q
    by (simp add: display_upstream_path_and_query_def kept_pairs_def Let_def)
  with path show ?thesis
    by (cases q) (simp_all add: split_once_none split_once_at)
qed

lemma display_path:
  "display_upstream_path_and_query p None =
     (if starts_with p ''/takeover/panel''
      then (let below = drop (length ''/takeover/panel'') p in if starts_with below ''/'' then below else ''/'' @ below)
      else ''/'')"
  by (auto simp: display_upstream_path_and_query_def Let_def str_simps split: option.split)

lemma no_query: "kept_pairs q = [] \<Longrightarrow> display_upstream_path_and_query p (Some q) = display_upstream_path_and_query p None"
  by (simp add: display_upstream_path_and_query_def kept_pairs_def Let_def)

text \<open>
  C30. What the takeover display learns of a request for the panel. No \<open>Authorization\<close> and no \<open>Cookie\<close> header is
  passed on to it, and its only \<open>Host\<close> is the display's own address. The path it reads is the panel's own: what follows
  \<open>/takeover/panel\<close>, and \<open>/\<close> when nothing does. The query pairs it reads are exactly those of the request, in their
  order, less those written with the names \<open>handoff_secret\<close>, \<open>handoff\<close> and \<open>token_secret\<close>; a secret under a name with
  percent-encoded letters is not among these and does get there (\<open>encoded_secret_reaches_the_display\<close> below).
\<close>

theorem display_gets_no_credentials:
  assumes "CHR ''?'' \<notin> set (rq_path rq)"
  shows "{''authorization'', ''cookie''} \<inter> (to_ascii_lowercase \<circ> fst) ` set (ur_headers (upstream_request addr rq body)) = {}
    \<and> map snd (filter (\<lambda>h. to_ascii_lowercase (fst h) = ''host'') (ur_headers (upstream_request addr rq body))) = [addr]
    \<and> (\<exists>rest own kept. ur_url (upstream_request addr rq body) = ''http://'' @ addr @ rest
         \<and> own = (if starts_with (rq_path rq) ''/takeover/panel''
                 then (let below = drop (length ''/takeover/panel'') (rq_path rq)
                       in if starts_with below ''/'' then below else ''/'' @ below)
                 else ''/'')
         \<and> kept = (case rq_query rq of
                     None \<Rightarrow> []
                   | Some q \<Rightarrow> filter (\<lambda>p. \<not> starts_with p ''handoff_secret='' \<and> \<not> starts_with p ''handoff='' \<and> \<not> starts_with p ''token_secret='')
                                 (split_on CHR ''&'' q))
         \<and> (case split_once CHR ''?'' rest of
              None \<Rightarrow> rest = own \<and> kept = []
            | Some (p, q) \<Rightarrow> p = own \<and> split_on CHR ''&'' q = kept))"
proof -
  let ?rest = "display_upstream_path_and_query (rq_path rq) (rq_query rq)"
  let ?own = "if starts_with (rq_path rq) ''/takeover/panel''
                 then (let below = drop (length ''/takeover/panel'') (rq_path rq)
                       in if starts_with below ''/'' then below else ''/'' @ below)
                 else ''/''"
  let ?kept = "case rq_query rq of
                     None \<Rightarrow> []
                   | Some q \<Rightarrow> filter (\<lambda>p. \<not> starts_with p ''handoff_secret='' \<and> \<not> starts_with p ''handoff='' \<and> \<not> starts_with p ''token_secret='')
                                 (split_on CHR ''&'' q)"
  have no_host: "filter (\<lambda>h. (case h of (n, v) \<Rightarrow> should_forward_header n) \<and> to_ascii_lowercase (fst h) = ''host'') hs = []" for hs
    by (auto simp: filter_empty_conv should_forward_header_def)
  have own: "display_upstream_path_and_query (rq_path rq) None = ?own"
    by (rule display_path)
  have kept: "?kept = (case rq_query rq of None \<Rightarrow> [] | Some q \<Rightarrow> kept_pairs q)"
    by (auto simp: kept_pairs_def credential_pair_def intro!: filter_cong split: option.split)
  have headers: "{''authorization'', ''cookie''} \<inter> (to_ascii_lowercase \<circ> fst) ` set (ur_headers (upstream_request addr rq body)) = {}"
    "map snd (filter (\<lambda>h. to_ascii_lowercase (fst h) = ''host'') (ur_headers (upstream_request addr rq body))) = [addr]"
    by (auto simp: upstream_request_def should_forward_header_def to_ascii_lowercase_def ascii_lower_char_def)[1]
       (simp add: upstream_request_def no_host, simp add: to_ascii_lowercase_def ascii_lower_char_def)
  have "ur_url (upstream_request addr rq body) = ''http://'' @ addr @ ?rest" by (simp add: upstream_request_def)
  moreover have "case split_once CHR ''?'' ?rest of
              None \<Rightarrow> ?rest = ?own \<and> ?kept = []
            | Some (p, q) \<Rightarrow> p = ?own \<and> split_on CHR ''&'' q = ?kept"
    unfolding upstream_query [OF assms] kept
    by (cases "rq_query rq") (simp_all add: kept_pairs_split no_query own)
  ultimately show ?thesis using headers by blast
qed

definition demo_panel_request :: "string \<Rightarrow> panel_request" where
  "demo_panel_request q =
     \<lparr> rq_path = ''/takeover/panel/app.js'', rq_query = Some q, rq_scheme = None,
       rq_headers = [(''cookie'', ''afhttp_handoff=s''), (''accept'', ''*'')], rq_unix = False,
       pr_method = ''GET'', pr_body = Inr [] \<rparr>"

lemma display_gets_no_credentials_witness:
  "let u = upstream_request ''127.0.0.1:1'' (demo_panel_request ''handoff=s&v=1'') []
   in ur_url u = ''http://127.0.0.1:1/app.js?v=1'' \<and> {''authorization'', ''cookie''} \<inter> (to_ascii_lowercase \<circ> fst) ` set (ur_headers u) = {}"
proof -
  have "CHR ''?'' \<notin> set (rq_path (demo_panel_request ''handoff=s&v=1''))" by (simp add: demo_panel_request_def)
  note display_gets_no_credentials [OF this, of "''127.0.0.1:1''" "[]", THEN conjunct1]
  moreover have "ur_url (upstream_request ''127.0.0.1:1'' (demo_panel_request ''handoff=s&v=1'') []) = ''http://127.0.0.1:1/app.js?v=1''"
    by code_simp
  ultimately show ?thesis by (simp add: Let_def)
qed

text \<open>
  A hand-off secret under a percent-encoded name opens the panel, for the host decodes names before it compares them,
  but the filter does not: the secret reaches the display.
\<close>

lemma encoded_secret_reaches_the_display:
  assumes "wl_form libs ''handoff%5Fsecret=s'' = [(''handoff_secret'', ''s'')]"
  shows "query_handoff libs (http_request.truncate (demo_panel_request ''handoff%5Fsecret=s'')) = Some ''s''
    \<and> ur_url (upstream_request ''127.0.0.1:1'' (demo_panel_request ''handoff%5Fsecret=s'') []) = ''http://127.0.0.1:1/app.js?handoff%5Fsecret=s''"
proof
  show "query_handoff libs (http_request.truncate (demo_panel_request ''handoff%5Fsecret=s'')) = Some ''s''"
    by (simp add: query_handoff_def query_value_def demo_panel_request_def http_request.truncate_def assms)
  show "ur_url (upstream_request ''127.0.0.1:1'' (demo_panel_request ''handoff%5Fsecret=s'') []) = ''http://127.0.0.1:1/app.js?handoff%5Fsecret=s''"
    by code_simp
qed

subsection \<open>The landing page holds no markup of the caller's\<close>

definition markup :: "string \<Rightarrow> nat" where "markup s = length (filter (\<lambda>c. c = CHR ''<'') s)"

lemma js_string_is_inert: "CHR ''<'' \<notin> set (js_string json_text s)"
  by (auto simp: js_string_def)

lemma filter_absent: "c \<notin> set s \<Longrightarrow> filter (\<lambda>d. d = c) s = []"
  by (auto simp: filter_empty_conv)

lemma landing_markup: "CHR ''<'' \<notin> set settings \<Longrightarrow> markup (landing_page settings) = 8"
  by (simp add: markup_def landing_page_def filter_absent)

text \<open>
  C31. Nothing in the query of a takeover URL becomes markup. The landing page it is written into has the same eight
  opening brackets for every query, however serde_json prints the text, so no value closes the script element or
  opens another; and none of the settings it seeds is a hand-off secret of the request.
\<close>

theorem landing_page_is_inert:
  "markup (landing_page (js_string json_text (landing_settings resize quality q))) = 8
   \<and> (\<exists>kept. landing_settings resize quality q = ''&resize='' @ resize @ kasmvnc_quality_params quality @ concat (map (\<lambda>p. ''&'' @ p) kept)
        \<and> subseq kept (split_on CHR ''&'' q)
        \<and> filter (\<lambda>p. starts_with p ''handoff_secret='' \<or> starts_with p ''handoff='') kept = [])"
proof
  show "markup (landing_page (js_string json_text (landing_settings resize quality q))) = 8"
    by (rule landing_markup) (rule js_string_is_inert)
  let ?kept = "filter (\<lambda>p. \<not> reseeded_pair p) (split_on CHR ''&'' q)"
  have "subseq ?kept (split_on CHR ''&'' q)" by (rule subseq_filter_left)
  moreover have "filter (\<lambda>p. starts_with p ''handoff_secret='' \<or> starts_with p ''handoff='') ?kept = []"
    by (auto simp: filter_empty_conv reseeded_pair_def)
  ultimately show "\<exists>kept. landing_settings resize quality q = ''&resize='' @ resize @ kasmvnc_quality_params quality @ concat (map (\<lambda>p. ''&'' @ p) kept)
      \<and> subseq kept (split_on CHR ''&'' q)
      \<and> filter (\<lambda>p. starts_with p ''handoff_secret='' \<or> starts_with p ''handoff='') kept = []"
    unfolding landing_settings_def by blast
qed

text \<open>The quality level is a tier of the display's encoder.\<close>

lemma quality_is_a_tier: "(min pct 100 * 9 + 50) div 100 \<le> (9 :: nat)"
  by (auto simp: min_def)

subsection \<open>Who opens the display's socket\<close>

text \<open>
  C32. Only the panel itself opens the display's socket. A socket is opened only for an upgrade request without an
  \<open>Origin\<close>, which no page sends, or whose \<open>Origin\<close> is the host it was sent to, over http or https, up to the case of
  ASCII letters; and it always goes to the display's own loopback address.
\<close>

theorem socket_is_for_the_panel:
  assumes "proxy_kasmvnc w d ws rq = OpenSocket u protocols"
  shows "ws \<and> (\<exists>rest. u = ''ws://127.0.0.1:'' @ show_nat (py_web_port d) @ rest) \<and> protocols = [''binary'']
    \<and> (map_of (rq_headers rq) ''origin'' = None
       \<or> (\<exists>origin host. map_of (rq_headers rq) ''origin'' = Some origin \<and> map_of (rq_headers rq) ''host'' = Some host
            \<and> (eq_ignore_ascii_case origin (''http://'' @ host) \<or> eq_ignore_ascii_case origin (''https://'' @ host))))"
proof -
  have ws: ws and ok: "websocket_origin_matches_host (http_request.truncate rq)"
    and u: "u = ''ws://'' @ web_addr d @ display_upstream_path_and_query (rq_path rq) (rq_query rq)" "protocols = [''binary'']"
    using assms by (auto simp: proxy_kasmvnc_def Let_def split: if_splits)
  have "map_of (rq_headers rq) ''origin'' = None
       \<or> (\<exists>origin host. map_of (rq_headers rq) ''origin'' = Some origin \<and> map_of (rq_headers rq) ''host'' = Some host
            \<and> (eq_ignore_ascii_case origin (''http://'' @ host) \<or> eq_ignore_ascii_case origin (''https://'' @ host)))"
    using ok by (auto simp: websocket_origin_matches_host_def hget_def htext_def http_request.truncate_def header_text_def
        bind_eq_Some_conv split: option.splits if_splits)
  with ws u show ?thesis by (simp add: web_addr_def)
qed

definition demo_display :: panel_display where
  "demo_display = \<lparr> py_web_port = 1, py_window_manager = False, py_quality = 100 \<rparr>"

definition demo_panel :: panel_world where
  "demo_panel = \<lparr> pw_client_builds = True, pw_send = (\<lambda>_. Inl []), pw_lossy = (\<lambda>_. []), pw_watch = [], pw_icon_path = ''icon.svg'',
     pw_icon = Inr [], pw_json_text = (\<lambda>s. s) \<rparr>"

lemma socket_is_for_the_panel_witness:
  "\<exists>u protocols. proxy_kasmvnc demo_panel demo_display True (demo_panel_request []) = OpenSocket u protocols
     \<and> protocols = [''binary''] \<and> (\<exists>rest. u = ''ws://127.0.0.1:'' @ show_nat 1 @ rest)"
proof -
  have "\<exists>u protocols. proxy_kasmvnc demo_panel demo_display True (demo_panel_request []) = OpenSocket u protocols"
    by (simp add: proxy_kasmvnc_def demo_panel_def demo_panel_request_def Let_def websocket_origin_matches_host_def hget_def http_request.truncate_def)
  then obtain u protocols where run: "proxy_kasmvnc demo_panel demo_display True (demo_panel_request []) = OpenSocket u protocols" by blast
  from socket_is_for_the_panel [OF this] run show ?thesis by (auto simp: demo_display_def)
qed

end
