(* ===== verification/HostReports.thy ===== *)
theory HostReports
  imports TakeoverPanel Builder Reaper
begin

text \<open>
  What the host reports of itself (\<open>host/listener/health.rs\<close>, \<open>capabilities.rs\<close>, \<open>diagnostics.rs\<close>, \<open>profile.rs\<close>,
  \<open>recent_requests.rs\<close>) and the readiness check in front of the takeover panel (\<open>takeover_routes.rs\<close>). What the probes
  meet is given, and so are the URL redactors of the \<open>agent_first_data\<close> crate.
\<close>

subsection \<open>Probes\<close>

text \<open>The browser: its process (\<open>None\<close> when the host does not supervise it), and how connecting and asking it go.\<close>

record backend_view =
  bv_exited :: "bool result option"
  bv_connect :: "unit result \<times> duration"
  bv_targets :: "json result \<times> duration"

text \<open>The display: whether its process is the host's own, whether that has exited, and its two sockets.\<close>

record display_view =
  dv_supervised :: bool
  dv_exited :: "string + bool"
  dv_x :: "string + unit"
  dv_web :: "string + unit"
  dv_time :: duration

record report_libs =
  rp_redact_text :: "string \<Rightarrow> string"
  rp_redact_url :: "string \<Rightarrow> string"
  rp_redact_userinfo :: "string \<Rightarrow> string"
  rp_version :: string
  rp_build :: string
  rp_provider :: string

definition process_running :: "backend_view \<Rightarrow> bool option result" where
  "process_running v =
     (case bv_exited v of
        None \<Rightarrow> Inr None
      | Some (Inl e) \<Rightarrow> fail IoError (''probe browser process: '' @ detail e)
      | Some (Inr exited) \<Rightarrow> Inr (Some (\<not> exited)))"

definition count_pages :: "json \<Rightarrow> nat" where
  "count_pages v =
     (case Option.bind (json_get v ''targetInfos'') json_arr of
        Some ts \<Rightarrow> length (filter (\<lambda>t. get_str t ''type'' = Some ''page'') ts) mod 2 ^ 32
      | None \<Rightarrow> 0)"

definition probe_tabs_active :: "string \<Rightarrow> backend_view \<Rightarrow> nat result" where
  "probe_tabs_active ws_url v =
     (if ws_url = [] then fail CdpUnavailable ''backend CDP websocket URL is empty''
      else if secs 2 < snd (bv_connect v) then fail CdpTimeout ''connecting to the backend CDP websocket timed out after 2000ms''
      else
        and_then (fst (bv_connect v)) (\<lambda>_.
        and_then (if secs 3 < snd (bv_targets v) then fail CdpTimeout ''Target.getTargets: timed out'' else fst (bv_targets v)) (\<lambda>r.
          Inr (count_pages r))))"

definition display_check :: "display_view \<Rightarrow> string + unit" where
  "display_check v =
     and_then
       (if dv_supervised v
        then and_then (dv_exited v) (\<lambda>exited. if exited then Inl ''display provider process exited'' else dv_x v)
        else Inr ())
       (\<lambda>_. dv_web v)"

definition display_probe :: "display_view \<Rightarrow> unit result" where
  "display_probe v =
     (if secs 2 < dv_time v then fail CdpUnavailable ''takeover display connection probe timed out''
      else (case display_check v of
              Inl e \<Rightarrow> fail CdpUnavailable (''takeover display unavailable: '' @ e)
            | Inr _ \<Rightarrow> Inr ()))"

subsection \<open>Takeover readiness\<close>

record takeover_health =
  th_configured :: bool
  th_browser_running :: "bool option"
  th_cdp_connected :: bool
  th_display_connected :: bool
  th_ready :: bool
  th_reason :: "string option"

definition takeover_health ::
  "report_libs \<Rightarrow> backend_view \<Rightarrow> display_view \<Rightarrow> ('t, 'u) app_state \<Rightarrow> bool \<Rightarrow> takeover_health" where
  "takeover_health libs bv dv s cdp_connected =
     (let configured = as_takeover_enabled s \<and> as_takeover s;
          (browser_running, process_error) =
            (case as_profile s of
               Some _ \<Rightarrow> (case process_running bv of
                            Inr running \<Rightarrow> (running, None)
                          | Inl e \<Rightarrow> (None, Some (rp_redact_text libs (detail e))))
             | None \<Rightarrow> (Some False, None));
          display_error =
            (if as_takeover s
             then (case display_probe dv of Inl e \<Rightarrow> Some (rp_redact_text libs (detail e)) | Inr _ \<Rightarrow> None)
             else Some ''display takeover is not enabled'');
          reason =
            (if \<not> configured then Some ''display takeover is not enabled''
             else if browser_running = Some False
             then Some ''browser process exited; host/display liveness does not imply browser availability; profile data has been preserved''
             else if process_error \<noteq> None then process_error
             else if \<not> cdp_connected
             then Some ''browser CDP connection unavailable; the browser may have exited or stopped responding; profile data has been preserved''
             else display_error)
      in \<lparr> th_configured = configured, th_browser_running = browser_running, th_cdp_connected = cdp_connected,
           th_display_connected = (as_takeover s \<and> display_error = None), th_ready = (reason = None), th_reason = reason \<rparr>)"

definition require_takeover_ready ::
  "report_libs \<Rightarrow> backend_view \<Rightarrow> display_view \<Rightarrow> ('t, 'u) app_state \<Rightarrow> takeover_health result" where
  "require_takeover_ready libs bv dv s =
     (let cdp_connected = (case as_profile s of
                             Some p \<Rightarrow> \<not> isl (probe_tabs_active (bh_ws_url (ac_handle p)) bv)
                           | None \<Rightarrow> False);
          health = takeover_health libs bv dv s cdp_connected
      in if \<not> th_ready health
         then fail CdpUnavailable (case th_reason health of Some r \<Rightarrow> r | None \<Rightarrow> ''takeover is unavailable'')
         else Inr health)"

subsection \<open>Health\<close>

record backend_info =
  bi_family :: string
  bi_version :: string
  bi_connected :: bool

record health_response =
  hr_status :: string
  hr_version :: string
  hr_build :: "string option"
  hr_takeover :: "takeover_health option"
  hr_uptime_s :: nat
  hr_backend :: "backend_info option"
  hr_backend_error :: "(error_code \<times> string) option"
  hr_profile :: "profile_snapshot option"
  hr_tabs_active :: nat
  hr_capabilities_url :: "string option"

definition status_string :: "('t, 'u) app_state \<Rightarrow> bool \<Rightarrow> string" where
  "status_string s degraded = (if as_profile s = None then ''starting'' else if degraded then ''degraded'' else ''ok'')"

definition snapshot_of_profile :: "path option \<Rightarrow> active_profile \<Rightarrow> profile_snapshot" where
  "snapshot_of_profile p ac =
     \<lparr> ps_kind = ac_kind ac, ps_name = (if ac_kind ac = ''persistent'' then Some (ac_name ac) else None),
       ps_path = p, ps_locked = (ac_kind ac = ''persistent'') \<rparr>"

definition health_build ::
  "report_libs \<Rightarrow> backend_view \<Rightarrow> display_view \<Rightarrow> nat \<Rightarrow> ('t, 'u) app_state \<Rightarrow> bool \<Rightarrow> health_response" where
  "health_build libs bv dv uptime_s s authenticated =
     (if as_health_minimal s \<and> as_token s \<noteq> None \<and> \<not> authenticated
      then \<lparr> hr_status = status_string s False, hr_version = rp_version libs, hr_build = None, hr_takeover = None,
             hr_uptime_s = uptime_s, hr_backend = None, hr_backend_error = None, hr_profile = None,
             hr_tabs_active = 0, hr_capabilities_url = None \<rparr>
      else
        (let probe = map_option (\<lambda>ac. probe_tabs_active (bh_ws_url (ac_handle ac)) bv) (as_profile s);
             backend_connected = (case probe of Some (Inr _) \<Rightarrow> True | _ \<Rightarrow> False);
             backend_error = (case probe of Some (Inl e) \<Rightarrow> Some (error_code e, rp_redact_text libs (detail e)) | _ \<Rightarrow> None);
             takeover = takeover_health libs bv dv s backend_connected
         in \<lparr> hr_status = status_string s (backend_error \<noteq> None \<or> (th_configured takeover \<and> \<not> th_ready takeover)),
              hr_version = rp_version libs, hr_build = Some (rp_build libs), hr_takeover = Some takeover,
              hr_uptime_s = uptime_s,
              hr_backend = map_option (\<lambda>ac. \<lparr> bi_family = bh_family (ac_handle ac), bi_version = bh_version (ac_handle ac),
                                               bi_connected = backend_connected \<rparr>) (as_profile s),
              hr_backend_error = backend_error,
              hr_profile = map_option (snapshot_of_profile None) (as_profile s),
              hr_tabs_active = (case probe of Some (Inr n) \<Rightarrow> n | _ \<Rightarrow> 0),
              hr_capabilities_url = Some ''/capabilities'' \<rparr>))"

text \<open>\<open>GET /profile\<close>: 503 before a profile is resolved, else the snapshot with its path.\<close>

definition profile_handler :: "('t, 'u) app_state \<Rightarrow> nat + profile_snapshot" where
  "profile_handler s =
     (case as_profile s of
        None \<Rightarrow> Inl 503
      | Some ac \<Rightarrow> Inr (snapshot_of_profile (Some (bh_profile_path (ac_handle ac))) ac))"

text \<open>\<open>GET /diagnostics\<close>; \<open>stderr\<close> is the ring of the browser's last lines.\<close>

record diagnostics =
  di_version :: string
  di_uptime_s :: nat
  di_profile :: "(active_profile \<times> string list) option"

definition diagnostics_handler :: "report_libs \<Rightarrow> nat \<Rightarrow> string list \<Rightarrow> ('t, 'u) app_state \<Rightarrow> diagnostics" where
  "diagnostics_handler libs uptime_s stderr s =
     \<lparr> di_version = rp_version libs, di_uptime_s = uptime_s,
       di_profile = map_option (\<lambda>ac. (ac, map (rp_redact_userinfo libs) stderr)) (as_profile s) \<rparr>"

subsection \<open>Capabilities\<close>

record artifact_support =
  su_supported :: bool
  su_source :: "string option"
  su_body_capture :: "string list"

record feature_support =
  fe_supported :: bool
  fe_detail :: "string option"
  fe_risk :: "string option"

record capabilities =
  ca_backend :: "string \<times> string"
  ca_artifacts :: "(string, artifact_support) kv"
  ca_wait_modes :: "string list"
  ca_backend_capable :: bool
  ca_takeover :: bool
  ca_panel_url :: "string option"
  ca_provider :: "string option"
  ca_persistent :: bool
  ca_ephemeral :: bool
  ca_features :: "(string, feature_support) kv"
  ca_limits :: "(string, json) kv"

definition plain_support :: "bool \<Rightarrow> artifact_support" where
  "plain_support ok = \<lparr> su_supported = ok, su_source = None, su_body_capture = [] \<rparr>"

definition sourced_support :: "bool \<Rightarrow> string \<Rightarrow> artifact_support" where
  "sourced_support ok src = \<lparr> su_supported = ok, su_source = Some src, su_body_capture = [] \<rparr>"

definition artifact_capabilities :: "bool \<Rightarrow> bool \<Rightarrow> (string, artifact_support) kv" where
  "artifact_capabilities ready cdp_subset =
     foldl (\<lambda>m (k, v). bt_put k v m) []
       [(''body'', plain_support ready), (''rendered_html'', plain_support ready), (''text'', plain_support ready),
        (''console'', plain_support ready), (''content'', sourced_support ready ''composed_dom''),
        (''content_json'', sourced_support ready ''composed_dom''), (''screenshot'', plain_support (ready \<and> \<not> cdp_subset)),
        (''network'', \<lparr> su_supported = ready, su_source = None,
                       su_body_capture = (if ready then [''off'', ''xhr'', ''all''] else []) \<rparr>),
        (''observation'', sourced_support ready ''accessibility+dom''), (''storage'', sourced_support ready ''browser_storage'')]"

definition feature :: "bool \<Rightarrow> string \<Rightarrow> string option \<Rightarrow> feature_support" where
  "feature ok text risk = \<lparr> fe_supported = ok, fe_detail = Some text, fe_risk = risk \<rparr>"

definition feature_capabilities :: "bool \<Rightarrow> bool \<Rightarrow> bool \<Rightarrow> (string, feature_support) kv" where
  "feature_capabilities ready panel recent =
     foldl (\<lambda>m (k, v). bt_put k v m) []
       [(''selector_visible'', feature True ''--wait selector-visible:<css>'' None),
        (''selector_stable'', feature True ''--wait selector-stable:<css>; frame-aware scoped readiness'' None),
        (''network_body_capture'', feature ready ''--network-bodies xhr|all'' None),
        (''capture_ws'', feature ready ''--capture-ws'' (Some ''may expose tokens or PII in frame payload artifacts'')),
        (''capture_sse'', feature ready ''--capture-sse'' (Some ''may expose tokens or PII in event payload artifacts'')),
        (''takeover'', feature panel ''/takeover/panel'' None),
        (''recent_requests'', feature recent ''--recent-requests-cap > 0'' None),
        (''profile_persistence'', feature True ''persistent and ephemeral profiles'' None),
        (''network_redact_off'', feature True ''--no-network-redact''
           (Some ''writes raw credential headers and other PII into network artifacts''))]"

definition default_limits :: "(string, json) kv" where
  "default_limits = [(''network_body_max_bytes_default'', JNum (PosInt default_network_body_max_bytes))]"

definition capabilities_build :: "report_libs \<Rightarrow> ('t, 'u) app_state \<Rightarrow> capabilities" where
  "capabilities_build libs s =
     (let ready = as_profile s \<noteq> None;
          (family, version) = (case as_profile s of
                                 Some ac \<Rightarrow> (bh_family (ac_handle ac), bh_version (ac_handle ac)) | None \<Rightarrow> (''unknown'', []));
          cdp_subset = (family = ''lightpanda'' \<or> family = ''camoufox'');
          panel = as_takeover s
      in \<lparr> ca_backend = (family, version), ca_artifacts = artifact_capabilities ready cdp_subset,
           ca_wait_modes = [''auto'', ''load'', ''idle'', ''selector'', ''selector_visible'', ''selector_stable'', ''ms''],
           ca_backend_capable = (ready \<and> family \<noteq> ''lightpanda''), ca_takeover = panel,
           ca_panel_url = (if panel then Some ''/takeover/panel'' else None),
           ca_provider = (if panel then Some (rp_provider libs) else None),
           ca_persistent = True, ca_ephemeral = True,
           ca_features = feature_capabilities ready panel (as_recent s \<noteq> None), ca_limits = default_limits \<rparr>)"

subsection \<open>Recent requests\<close>

definition ring_push :: "nat \<Rightarrow> json list \<Rightarrow> json \<Rightarrow> json list" where
  "ring_push cap ring r =
     (if cap = 0 then ring else (if cap \<le> length ring then tl ring else ring) @ [r])"

definition str_at :: "json \<Rightarrow> string list \<Rightarrow> string option" where
  "str_at v ks = Option.bind (json_at v (map Key ks)) json_str"

definition record_of_event :: "report_libs \<Rightarrow> string \<Rightarrow> json \<Rightarrow> json option" where
  "record_of_event libs m p =
     (if m = ''Network.responseReceived'' then
        Some (JObj
          [(''mime_type'', JStr (str_or [] (str_at p [''response'', ''mimeType'']))),
           (''request_id'', JStr (str_or [] (get_str p ''requestId''))),
           (''resource_type'', JStr (str_or [] (get_str p ''type''))),
           (''response_url'', JStr (rp_redact_url libs (str_or [] (str_at p [''response'', ''url''])))),
           (''status'', JNum (PosInt (case Option.bind (json_at p [Key ''response'', Key ''status'']) json_u64 of Some n \<Rightarrow> n | None \<Rightarrow> 0))),
           (''type'', JStr ''response'')])
      else if m = ''Network.requestWillBeSent'' then
        Some (JObj
          [(''method'', JStr (str_or ''GET'' (str_at p [''request'', ''method'']))),
           (''request_id'', JStr (str_or [] (get_str p ''requestId''))),
           (''request_url'', JStr (rp_redact_url libs (str_or [] (str_at p [''request'', ''url''])))),
           (''resource_type'', JStr (str_or [] (get_str p ''type''))),
           (''type'', JStr ''request'')])
      else None)"

text \<open>The subscriber, over the events it receives until its stream ends or it is stopped.\<close>

definition subscribe_loop :: "report_libs \<Rightarrow> nat \<Rightarrow> (string \<times> json) list \<Rightarrow> json list \<Rightarrow> json list" where
  "subscribe_loop libs cap evs ring =
     foldl (\<lambda>ring (m, p). case record_of_event libs m p of Some r \<Rightarrow> ring_push cap ring r | None \<Rightarrow> ring) ring evs"

definition recent_requests_body :: "('t, 'u) app_state \<Rightarrow> json" where
  "recent_requests_body s =
     (case as_recent s of
        None \<Rightarrow> JObj [(''enabled'', JBool False), (''reason'', JStr ''start the host with --recent-requests-cap N to enable''),
                      (''requests'', JArr [])]
      | Some ring \<Rightarrow> JObj [(''cap'', JNum (PosInt (as_recent_cap s))), (''count'', JNum (PosInt (length ring))),
                           (''enabled'', JBool True), (''requests'', JArr ring)])"

subsection \<open>The panel behind its readiness\<close>

datatype panel_reply = Unavailable string | ReadinessReport takeover_health | Panel panel_answer

definition needs_live_browser :: "bool \<Rightarrow> string \<Rightarrow> bool" where
  "needs_live_browser ws p \<longleftrightarrow>
     ws \<or> ends_with p ''/panel'' \<or> ends_with p ''/'' \<or> ends_with p ''.html'' \<or> ends_with p ''/afhttp-status''"

definition display_proxy ::
  "report_libs \<Rightarrow> backend_view \<Rightarrow> display_view \<Rightarrow> panel_world \<Rightarrow> panel_display \<Rightarrow> ('t, 'u) app_state \<Rightarrow> bool \<Rightarrow> panel_request
   \<Rightarrow> panel_reply" where
  "display_proxy libs bv dv w d s ws rq =
     (if \<not> as_takeover s then Unavailable ''display takeover is not enabled''
      else if needs_live_browser ws (rq_path rq)
      then (case require_takeover_ready libs bv dv s of
              Inl e \<Rightarrow> Unavailable (detail e)
            | Inr health \<Rightarrow> if ends_with (rq_path rq) ''/afhttp-status'' then ReadinessReport health
                           else Panel (proxy_kasmvnc w d ws rq))
      else Panel (proxy_kasmvnc w d ws rq))"

subsection \<open>Properties\<close>

text \<open>
  Without the token, public health tells nothing but that the host is there. Two hosts of the same version and age
  that both have a browser, or both have none, give the same minimal answer, whatever their profiles, browsers,
  tabs, displays and credentials are, and no probe is made for it.
\<close>

theorem minimal_health_tells_nothing:
  assumes "as_health_minimal s" "as_token s \<noteq> None" and "as_health_minimal s'" "as_token s' \<noteq> None"
    and "as_profile s = None \<longleftrightarrow> as_profile s' = None"
  shows "health_build libs bv dv uptime_s s False = health_build libs bv' dv' uptime_s s' False"
  using assms by (simp add: health_build_def status_string_def)

definition demo_libs :: report_libs where
  "demo_libs = \<lparr> rp_redact_text = (\<lambda>s. s), rp_redact_url = (\<lambda>s. s), rp_redact_userinfo = (\<lambda>s. s), rp_version = ''1'', rp_build = [],
     rp_provider = ''kasmvnc'' \<rparr>"

definition live_backend :: backend_view where
  "live_backend = \<lparr> bv_exited = Some (Inr False), bv_connect = (Inr (), 0), bv_targets = (Inr (JObj []), 0) \<rparr>"

definition dead_backend :: backend_view where
  "dead_backend = live_backend\<lparr> bv_exited := Some (Inr True) \<rparr>"

definition live_display :: display_view where
  "live_display = \<lparr> dv_supervised = True, dv_exited = Inr False, dv_x = Inr (), dv_web = Inr (), dv_time = 0 \<rparr>"

definition demo_host_state :: "string option \<Rightarrow> (string, string list) app_state" where
  "demo_host_state tok = (plain_app [] [])\<lparr> as_token := tok, as_health_minimal := True, as_takeover_enabled := True, as_takeover := True,
     as_profile := Some \<lparr> ac_kind = ''persistent'', ac_name = ''p'',
       ac_handle = \<lparr> bh_family = ''chromium'', bh_version = [], bh_ws_url = ''ws'', bh_profile_path = [] \<rparr> \<rparr> \<rparr>"

lemma minimal_health_tells_nothing_witness:
  "health_build demo_libs live_backend live_display 7 (demo_host_state (Some ''a'')) False
     = health_build demo_libs dead_backend live_display 7 (demo_host_state (Some ''b'')) False"
  by (rule minimal_health_tells_nothing) (simp_all add: demo_host_state_def)

text \<open>What the readiness of a takeover rests on.\<close>

lemma takeover_ready_iff:
  "th_ready (takeover_health libs bv dv s cdp) \<longleftrightarrow>
     as_takeover_enabled s \<and> as_takeover s \<and> as_profile s \<noteq> None
     \<and> (case bv_exited bv of None \<Rightarrow> True | Some r \<Rightarrow> r = Inr False) \<and> cdp \<and> display_probe dv = Inr ()"
  by (cases "display_probe dv"; cases "as_profile s"; cases "bv_exited bv")
     (auto simp: takeover_health_def process_running_def Let_def split: sum.splits)

text \<open>
  C33. The takeover panel is opened only onto a live browser. A page of the panel or its socket is served only while the
  display is enabled and answers, the browser process the host supervises has not exited, and the browser
  answered a command on its CDP connection; in every other case the caller gets the reason instead.
\<close>

theorem panel_needs_a_live_browser:
  assumes "needs_live_browser ws (rq_path rq)"
  shows "(\<exists>why. display_proxy libs bv dv w d s ws rq = Unavailable why)
    \<or> (as_takeover s \<and> display_probe dv = Inr ()
       \<and> (\<exists>ac. as_profile s = Some ac \<and> \<not> isl (probe_tabs_active (bh_ws_url (ac_handle ac)) bv))
       \<and> bv_exited bv \<in> {None, Some (Inr False)})"
proof (cases "as_takeover s \<and> \<not> isl (require_takeover_ready libs bv dv s)")
  case False
  then have "\<exists>why. display_proxy libs bv dv w d s ws rq = Unavailable why"
    using assms by (auto simp: display_proxy_def isl_def split: sum.split)
  then show ?thesis ..
next
  case True
  let ?cdp = "case as_profile s of Some p \<Rightarrow> \<not> isl (probe_tabs_active (bh_ws_url (ac_handle p)) bv) | None \<Rightarrow> False"
  from True have "th_ready (takeover_health libs bv dv s ?cdp)"
    by (auto simp: require_takeover_ready_def Let_def split: if_splits)
  then show ?thesis
    unfolding takeover_ready_iff by (auto split: option.splits)
qed

definition landing_request :: panel_request where
  "landing_request = (demo_panel_request [])\<lparr> rq_path := ''/takeover/panel/'' \<rparr>"

lemma panel_needs_a_live_browser_witness:
  "needs_live_browser False (rq_path landing_request)
   \<and> (\<exists>why. display_proxy demo_libs dead_backend live_display demo_panel demo_display (demo_host_state None) False landing_request = Unavailable why)"
proof -
  have needs: "needs_live_browser False (rq_path landing_request)" by code_simp
  from needs panel_needs_a_live_browser [OF needs, of demo_libs dead_backend live_display demo_panel demo_display "demo_host_state None"]
  show ?thesis by (auto simp: dead_backend_def live_backend_def)
qed

lemma ring_push_last:
  "ring_push cap (drop (length rs - cap) rs) r = drop (length (rs @ [r]) - cap) (rs @ [r])"
proof (cases "cap = 0")
  case False
  show ?thesis
  proof (cases "cap \<le> length rs")
    case True
    then have "Suc (length rs) - cap = Suc (length rs - cap)" by simp
    with False True show ?thesis by (simp add: ring_push_def drop_Suc tl_drop)
  next
    case room: False
    with False show ?thesis by (simp add: ring_push_def)
  qed
qed (simp add: ring_push_def)

lemma subscribe_from:
  "subscribe_loop libs cap evs (drop (length rs - cap) rs) =
     (let all = rs @ List.map_filter (\<lambda>(m, p). record_of_event libs m p) evs in drop (length all - cap) all)"
proof (induction evs arbitrary: rs)
  case (Cons e evs)
  obtain m p where e: "e = (m, p)" by (cases e)
  show ?case
  proof (cases "record_of_event libs m p")
    case None
    with Cons.IH [of rs] e show ?thesis by (simp add: subscribe_loop_def map_filter_simps)
  next
    case (Some r)
    with e have "subscribe_loop libs cap (e # evs) (drop (length rs - cap) rs)
        = subscribe_loop libs cap evs (drop (length (rs @ [r]) - cap) (rs @ [r]))"
      by (simp only: subscribe_loop_def foldl_Cons prod.case option.case ring_push_last)
    with Some e show ?thesis unfolding Cons.IH by (simp add: map_filter_simps)
  qed
qed (simp add: subscribe_loop_def map_filter_simps)

text \<open>
  C34. The ring of recent requests holds exactly the last requests. After any sequence of events it is the
  last \<open>cap\<close> of all records made so far, in order: no record is lost while there is room, none is kept over a newer one,
  and the ring never outgrows its limit.
\<close>

theorem recent_requests_are_the_last:
  "subscribe_loop libs cap evs [] =
     (let records = List.map_filter (\<lambda>(m, p). record_of_event libs m p) evs in drop (length records - cap) records)"
  using subscribe_from [of libs cap evs "[]"] by simp

end
