(* ===== verification/ContainerPlan.thy ===== *)
theory ContainerPlan
  imports HostReports Collectors
begin

text \<open>
  What \<open>afhttp container\<close> decides without running anything (\<open>cli/cmd/container.rs\<close>, \<open>container/inspection.rs\<close>,
  \<open>container/process.rs\<close>, \<open>runtime_selection.rs\<close>): the runtime, the components of an image and its tag, the
  defaults and checks of an install, the command lines, and how answers of the runtime and its logs are read. Paths
  are texts here, as the commands get them; \<open>version\<close> is the version the program was built as.
\<close>

subsection \<open>The runtime\<close>

datatype runtime = Docker | Podman | Apple

fun runtime_bin :: "runtime \<Rightarrow> string" where
  "runtime_bin Docker = ''docker''"
| "runtime_bin Podman = ''podman''"
| "runtime_bin Apple = ''container''"

fun runtime_label :: "runtime \<Rightarrow> string" where
  "runtime_label Docker = ''docker''"
| "runtime_label Podman = ''podman''"
| "runtime_label Apple = ''apple''"

definition runtime_from_env :: "(string \<Rightarrow> string option) \<Rightarrow> string option" where
  "runtime_from_env get =
     find (\<lambda>v. v \<noteq> []) (map trim (List.map_filter get [''AFHTTP_CONTAINER_RUNTIME'', ''AF_CONTAINER_RUNTIME'']))"

definition runtime_from_str :: "string \<Rightarrow> runtime result" where
  "runtime_from_str v =
     (if v = ''docker'' then Inr Docker
      else if v = ''podman'' then Inr Podman
      else if v = ''apple'' \<or> v = ''container'' then Inr Apple
      else fail InvalidArgument ''invalid container runtime '{other}': expected apple, podman, or docker'')"

text \<open>\<open>detect_runtime\<close>: the first runtime whose binary is on the path; Apple's only on macOS.\<close>

definition detect_with :: "bool \<Rightarrow> (string \<Rightarrow> bool) \<Rightarrow> string option" where
  "detect_with is_macos available =
     map_option fst
       (find (\<lambda>(runtime, binary). (runtime \<noteq> ''apple'' \<or> is_macos) \<and> available binary)
         [(''apple'', ''container''), (''podman'', ''podman''), (''docker'', ''docker'')])"

definition resolve_runtime ::
  "(string \<Rightarrow> string option) \<Rightarrow> bool \<Rightarrow> (string \<Rightarrow> bool) \<Rightarrow> runtime option \<Rightarrow> runtime result" where
  "resolve_runtime env is_macos available explicit =
     (case explicit of
        Some r \<Rightarrow> Inr r
      | None \<Rightarrow>
         (case runtime_from_env env of
            Some v \<Rightarrow> runtime_from_str v
          | None \<Rightarrow>
             (case detect_with is_macos available of
                Some r \<Rightarrow> runtime_from_str r
              | None \<Rightarrow> fail InvalidArgument
                  ''no container runtime found: install Apple `container`, Podman, or Docker, or pass --runtime'')))"

lemma detected_runtime_is_known:
  assumes "detect_with is_macos available = Some r"
  obtains rt where "runtime_from_str r = Inr rt" "runtime_label rt = r" "available (runtime_bin rt)" "rt = Apple \<Longrightarrow> is_macos"
proof -
  have "\<exists>rt. runtime_from_str r = Inr rt \<and> runtime_label rt = r \<and> available (runtime_bin rt) \<and> (rt = Apple \<longrightarrow> is_macos)"
    using assms
    by (auto simp: detect_with_def runtime_from_str_def split: if_splits
        intro: exI [of _ Apple] exI [of _ Podman] exI [of _ Docker])
  with that show thesis by blast
qed

subsection \<open>Names\<close>

definition default_container_name :: string where "default_container_name = ''afhttp-host''"
definition default_container_port :: nat where "default_container_port = 9222"
definition image_repo :: string where "image_repo = ''afhttp-host''"
definition image_user :: string where "image_user = ''afhttp''"
definition host_token_path :: string where "host_token_path = ''/data/afhttp/host-token''"

definition validate_container_name :: "string \<Rightarrow> unit result" where
  "validate_container_name name =
     (case name of
        c # cs \<Rightarrow>
          if is_ascii_alphanumeric c \<and> list_all (\<lambda>c. is_ascii_alphanumeric c \<or> c \<in> {CHR ''_'', CHR ''.'', CHR ''-''}) cs
          then Inr ()
          else fail InvalidArgument ''--name: expected a letter or digit followed by letters, digits, `_`, `.` or `-`''
      | [] \<Rightarrow> fail InvalidArgument ''--name: expected a letter or digit followed by letters, digits, `_`, `.` or `-`'')"

definition volume_name :: "string \<Rightarrow> string" where
  "volume_name name = name @ ''-data''"

definition endpoint_url :: "nat \<Rightarrow> string" where
  "endpoint_url port = ''ws://127.0.0.1:'' @ show_nat port"

definition client_command :: "string \<Rightarrow> nat \<Rightarrow> string" where
  "client_command name port =
     (if name = default_container_name then ''afhttp fetch https://example.com''
      else ''afhttp fetch https://example.com --endpoint-url ws://127.0.0.1:'' @ show_nat port
           @ '' --token-secret container:'' @ name)"

definition target_triple :: "runtime \<Rightarrow> string \<Rightarrow> string" where
  "target_triple rt host_arch =
     (if rt = Apple \<or> host_arch \<in> {''aarch64'', ''arm64''} then ''aarch64-unknown-linux-gnu''
      else ''x86_64-unknown-linux-gnu'')"

definition is_host_image :: "string \<Rightarrow> bool" where
  "is_host_image reference \<longleftrightarrow> starts_with (List.last (split_on CHR ''/'' reference)) (image_repo @ '':'')"

subsection \<open>Components of an image\<close>

record image_backend =
  ib_name :: string
  ib_build_arg :: string

definition image_backends :: "image_backend list" where
  "image_backends =
     [\<lparr> ib_name = ''lightpanda'', ib_build_arg = ''WITH_LIGHTPANDA'' \<rparr>,
      \<lparr> ib_name = ''fingerprint-chromium'', ib_build_arg = ''WITH_FINGERPRINT_CHROMIUM'' \<rparr>,
      \<lparr> ib_name = ''camoufox'', ib_build_arg = ''WITH_CAMOUFOX'' \<rparr>,
      \<lparr> ib_name = ''chrome'', ib_build_arg = ''WITH_CHROME'' \<rparr>,
      \<lparr> ib_name = ''brave'', ib_build_arg = ''WITH_BRAVE'' \<rparr>,
      \<lparr> ib_name = ''kasmvnc'', ib_build_arg = ''WITH_KASMVNC'' \<rparr>]"

definition image_tag :: "string \<Rightarrow> image_backend list \<Rightarrow> string" where
  "image_tag version backends =
     image_repo @ '':'' @ version @ concat (map (\<lambda>b. ''-'' @ ib_name b) (filter (\<lambda>b. b \<in> set backends) image_backends))"

definition resolve_backends :: "string list \<Rightarrow> image_backend list" where
  "resolve_backends names =
     foldl (\<lambda>out name.
        (case find (\<lambda>b. ib_name b = name) image_backends of
           Some b \<Rightarrow> if b \<in> set out then out else out @ [b]
         | None \<Rightarrow> out)) [] names"

record takeover_backend =
  tb_browser :: string
  tb_component :: string
  tb_probe_bin :: string

definition takeover_backends :: "takeover_backend list" where
  "takeover_backends =
     [\<lparr> tb_browser = ''brave'', tb_component = ''brave'', tb_probe_bin = ''brave-browser'' \<rparr>,
      \<lparr> tb_browser = ''chrome'', tb_component = ''chrome'', tb_probe_bin = ''google-chrome-stable'' \<rparr>]"

definition default_takeover_backend :: takeover_backend where
  "default_takeover_backend = takeover_backends ! 0"

definition takeover_backend_of :: "string \<Rightarrow> takeover_backend option" where
  "takeover_backend_of browser = find (\<lambda>b. tb_browser b = browser) takeover_backends"


subsection \<open>An install\<close>

datatype takeover_provider_kind = KasmVnc
datatype takeover_choice = TakeoverOff | TakeoverOn takeover_provider_kind

fun provider_str :: "takeover_provider_kind \<Rightarrow> string" where
  "provider_str KasmVnc = ''kasmvnc''"

record install_args =
  ia_runtime :: "runtime option"
  ia_name :: string
  ia_port :: nat
  ia_profile :: "string option"
  ia_shm_size :: "string option"
  ia_takeover :: takeover_choice
  ia_with :: "string list"
  ia_rebuild :: bool
  ia_from_source :: bool
  ia_context :: "string option"
  ia_host_args :: "string list"
  ia_reveal_token_secret :: bool

definition install_takeover_provider :: "install_args \<Rightarrow> string option" where
  "install_takeover_provider a =
     (case ia_takeover a of TakeoverOff \<Rightarrow> None | TakeoverOn p \<Rightarrow> Some (provider_str p))"

definition effective_profile :: "install_args \<Rightarrow> string" where
  "effective_profile a = (case ia_profile a of Some p \<Rightarrow> p | None \<Rightarrow> ''-'')"

definition effective_shm_size :: "install_args \<Rightarrow> string" where
  "effective_shm_size a =
     (case ia_shm_size a of Some s \<Rightarrow> s | None \<Rightarrow> if install_takeover_provider a \<noteq> None then ''2g'' else ''1g'')"

definition host_arg_present :: "string list \<Rightarrow> string \<Rightarrow> bool" where
  "host_arg_present args name \<longleftrightarrow> list_ex (\<lambda>arg. arg = name \<or> starts_with arg (name @ ''='')) args"

text \<open>The last value wins; \<open>peek\<close> does not consume, so a value is looked at as an argument of its own too.\<close>

fun host_arg_scan :: "string \<Rightarrow> string list \<Rightarrow> string option \<Rightarrow> string option" where
  "host_arg_scan name [] v = v"
| "host_arg_scan name (arg # args) v =
     host_arg_scan name args
       (if arg = name then (case args of next # _ \<Rightarrow> Some next | [] \<Rightarrow> v)
        else (case strip_prefix (name @ ''='') arg of Some x \<Rightarrow> Some x | None \<Rightarrow> v))"

definition host_arg_value :: "string list \<Rightarrow> string \<Rightarrow> string option" where
  "host_arg_value args name = host_arg_scan name args None"

definition selected_takeover_backend :: "string list \<Rightarrow> takeover_backend" where
  "selected_takeover_backend args =
     (case Option.bind (host_arg_value args ''--browser'') takeover_backend_of of
        Some b \<Rightarrow> b | None \<Rightarrow> default_takeover_backend)"

definition takeover_browser_list :: string where
  "takeover_browser_list = join ''|'' (map tb_browser takeover_backends)"

definition push_backend_if_missing :: "string list \<Rightarrow> string \<Rightarrow> string list" where
  "push_backend_if_missing backends b = (if b \<in> set backends then backends else backends @ [b])"

definition push_host_arg_default :: "string list \<Rightarrow> string \<Rightarrow> string \<Rightarrow> string list" where
  "push_host_arg_default args name v = (if host_arg_present args name then args else args @ [name, v])"

definition apply_hard_site_defaults :: "install_args \<Rightarrow> install_args" where
  "apply_hard_site_defaults a =
     (case install_takeover_provider a of
        None \<Rightarrow> a
      | Some provider \<Rightarrow>
         (let b = selected_takeover_backend (ia_host_args a)
          in a\<lparr> ia_with := push_backend_if_missing (push_backend_if_missing (ia_with a) (tb_component b)) ''kasmvnc'',
                ia_host_args := push_host_arg_default (push_host_arg_default (ia_host_args a) ''--browser'' (tb_browser b))
                                  ''--takeover-provider'' provider \<rparr>))"

definition hard_site_install_error :: "string \<Rightarrow> error" where
  "hard_site_install_error d =
     error_new InvalidArgument (d @ ''. Use `afhttp container install` (takeover is on by default), or `--takeover-provider off` for a lean host.'')"

definition require_hard_site_host_arg :: "string list \<Rightarrow> string \<Rightarrow> string \<Rightarrow> unit result" where
  "require_hard_site_host_arg args name expected =
     (case host_arg_value args name of
        None \<Rightarrow> Inl (hard_site_install_error (''takeover requires host arg `'' @ name @ '' '' @ expected @ ''`''))
      | Some v \<Rightarrow>
         if v = expected then Inr ()
         else Inl (hard_site_install_error (''takeover requires host arg `'' @ name @ '' '' @ expected @ ''`; got `'' @ name @ '' '' @ v @ ''`'')))"

definition validate_hard_site_install_args ::
  "install_args \<Rightarrow> image_backend list \<Rightarrow> string \<Rightarrow> unit result" where
  "validate_hard_site_install_args a backends provider =
     (let browser = host_arg_value (ia_host_args a) ''--browser''
      in case Option.bind browser takeover_backend_of of
           None \<Rightarrow> Inl (hard_site_install_error (''takeover requires host arg `--browser <'' @ takeover_browser_list @ ''>`''
                     @ (case browser of Some v \<Rightarrow> ''; got `--browser '' @ v @ ''`'' | None \<Rightarrow> [])))
         | Some b \<Rightarrow>
            if \<not> list_ex (\<lambda>x. ib_name x = tb_component b) backends
            then Inl (hard_site_install_error (''takeover with `--browser '' @ tb_browser b @ ''` requires the '' @ tb_component b
                       @ '' backend; omit conflicting backend overrides''))
            else if \<not> list_ex (\<lambda>x. ib_name x = ''kasmvnc'') backends
            then Inl (hard_site_install_error ''takeover requires the KasmVNC display backend'')
            else require_hard_site_host_arg (ia_host_args a) ''--takeover-provider'' provider)"

definition host_args_select_camoufox :: "string list \<Rightarrow> bool" where
  "host_args_select_camoufox args \<longleftrightarrow> host_arg_value args ''--browser'' = Some ''camoufox''"

definition validate_install_args :: "install_args \<Rightarrow> image_backend list \<Rightarrow> unit result" where
  "validate_install_args a backends =
     and_then (case install_takeover_provider a of
                 Some provider \<Rightarrow> validate_hard_site_install_args a backends provider | None \<Rightarrow> Inr ())
       (\<lambda>_. if effective_profile a \<noteq> ''-'' \<and> list_ex (\<lambda>b. ib_name b = ''camoufox'') backends
               \<and> host_args_select_camoufox (ia_host_args a)
            then fail InvalidArgument ''afhttp's camoufox backend does not yet support persistent profiles; use `--profile -` for camoufox hosts. Example: `afhttp container install --profile - --with camoufox -- --browser camoufox`.''
            else Inr ())"

definition host_args_need_takeover_support :: "string list \<Rightarrow> bool" where
  "host_args_need_takeover_support args \<longleftrightarrow>
     (case host_arg_value args ''--takeover-provider'' of Some v \<Rightarrow> v \<noteq> ''off'' | None \<Rightarrow> False)"

subsection \<open>Command lines\<close>

text \<open>\<open>Path::join\<close> of a relative path, on texts.\<close>

definition path_join :: "string \<Rightarrow> string \<Rightarrow> string" where
  "path_join dir rel = (if dir = [] \<or> ends_with dir ''/'' then dir @ rel else dir @ ''/'' @ rel)"

datatype build_source = Embedded string string | FromSource string

fun build_context :: "build_source \<Rightarrow> string" where
  "build_context (Embedded ctx target) = ctx"
| "build_context (FromSource ctx) = ctx"

definition build_args :: "string \<Rightarrow> string \<Rightarrow> runtime \<Rightarrow> build_source \<Rightarrow> image_backend list \<Rightarrow> string list" where
  "build_args version img rt source backends =
     [''build''] @ (if rt = Apple then [''--platform'', ''linux/arm64''] else [])
     @ (case source of
          Embedded ctx target \<Rightarrow>
            [''--build-arg'', ''AFHTTP_BIN_FROM=downloader'', ''--build-arg'', ''AFHTTP_VERSION='' @ version,
             ''--build-arg'', ''AFHTTP_TARGET='' @ target]
        | FromSource ctx \<Rightarrow> [''--build-arg'', ''AFHTTP_BIN_FROM=builder''])
     @ concat (map (\<lambda>b. [''--build-arg'', ib_build_arg b @ ''=1'']) backends)
     @ [''-t'', img, ''-f'', path_join (build_context source) ''container/docker/Dockerfile'', build_context source]"

definition run_args :: "string \<Rightarrow> string \<Rightarrow> nat \<Rightarrow> string \<Rightarrow> string \<Rightarrow> string list \<Rightarrow> string list" where
  "run_args name img port profile shm_size host_args =
     [''run'', ''-d'', ''--name'', name, ''-v'', volume_name name @ '':/data'', ''-e'', ''AFHTTP_PORT='' @ show_nat port,
      ''-e'', ''AFHTTP_PROFILE='' @ profile, ''--shm-size'', shm_size,
      ''-p'', ''127.0.0.1:'' @ show_nat port @ '':'' @ show_nat port, img] @ host_args"

definition data_volume_chown_args :: "string \<Rightarrow> string \<Rightarrow> string list" where
  "data_volume_chown_args name img =
     [''run'', ''--rm'', ''--user'', ''root'', ''--entrypoint'', ''/bin/sh'', ''-v'', volume_name name @ '':/data'', img, ''-c'',
      ''chown -R '' @ image_user @ '':'' @ image_user @ '' /data'']"

definition image_host_help_args :: "string \<Rightarrow> string list" where
  "image_host_help_args img =
     [''run'', ''--rm'', ''--entrypoint'', ''/usr/local/bin/afhttp'', img, ''host'', ''--help'']"

definition takeover_components_args :: "string \<Rightarrow> takeover_backend \<Rightarrow> string list" where
  "takeover_components_args img b =
     [''run'', ''--rm'', ''--entrypoint'', ''/bin/sh'', img, ''-lc'',
      ''command -v '' @ tb_probe_bin b @ '' >/dev/null 2>&1 && test -x \"${AFHTTP_KASMVNC_BIN:-/usr/bin/Xvnc}\" && test -d \"${AFHTTP_KASMVNC_WEB_ROOT:-/usr/share/kasmvnc/www}\"'']"

definition image_remove_args :: "string \<Rightarrow> string list" where
  "image_remove_args img = [''image'', ''rm'', img]"

definition token_args :: "string \<Rightarrow> string list" where
  "token_args name = [''exec'', name, ''cat'', host_token_path]"

definition inspect_arguments :: "runtime \<Rightarrow> string \<Rightarrow> string list" where
  "inspect_arguments rt name =
     (if rt = Apple then [''inspect'', name] else [''inspect'', ''--type'', ''container'', name])"

definition running_list_arguments :: "runtime \<Rightarrow> string list" where
  "running_list_arguments rt = (if rt = Apple then [''ls'', ''--quiet''] else [''ps'', ''--format'', ''{{.Names}}''])"

text \<open>\<open>VALUE_HIDDEN_FLAGS\<close> and the command line as it may be shown.\<close>

definition value_hidden_flags :: "string list" where
  "value_hidden_flags = [''--engine-env'', ''--token-secret'', ''--proxy'', ''--proxy-url'', ''-e'', ''--env'']"

fun shown_args :: "bool \<Rightarrow> string list \<Rightarrow> string list" where
  "shown_args hide [] = []"
| "shown_args True (arg # args) = ''[redacted]'' # shown_args False args"
| "shown_args False (arg # args) =
     (case split_once CHR ''='' arg of
        Some (flag, v) \<Rightarrow>
          if flag \<in> set value_hidden_flags then (flag @ ''=[redacted]'') # shown_args False args
          else arg # shown_args (arg \<in> set value_hidden_flags) args
      | None \<Rightarrow> arg # shown_args (arg \<in> set value_hidden_flags) args)"

definition display_args :: "string list \<Rightarrow> string" where
  "display_args args = join '' '' (shown_args False args)"


subsection \<open>What the runtime answers\<close>

record container_state =
  ct_running :: bool
  ct_exit_code :: "int option"
  ct_host_port :: "nat option"

definition first_or_self :: "json \<Rightarrow> json" where
  "first_or_self v = (case v of JArr (x # xs) \<Rightarrow> x | _ \<Rightarrow> v)"

definition inspected_name_matches :: "json \<Rightarrow> string \<Rightarrow> bool" where
  "inspected_name_matches v name \<longleftrightarrow>
     (case get_str (first_or_self v) ''Name'' of Some resolved \<Rightarrow> trim_start_char CHR ''/'' resolved = name | None \<Rightarrow> True)"

definition parse_container_state :: "json \<Rightarrow> container_state option" where
  "parse_container_state v =
     (let first = first_or_self v
      in case json_get first ''State'' of
           Some st \<Rightarrow> Some \<lparr> ct_running = (get_bool st ''Running'' = Some True),
                             ct_exit_code = Option.bind (json_get st ''ExitCode'') json_i64, ct_host_port = None \<rparr>
         | None \<Rightarrow>
            map_option (\<lambda>st. \<lparr> ct_running = eq_ignore_ascii_case st ''running'', ct_exit_code = None, ct_host_port = None \<rparr>)
              (Option.bind (json_get first ''status'') (\<lambda>status. get_str status ''state'')))"

definition str_at_path :: "json \<Rightarrow> string list \<Rightarrow> string option" where
  "str_at_path v keys = Option.bind (json_at v (map Key keys)) json_str"

definition arr_at_path :: "json \<Rightarrow> string list \<Rightarrow> json list" where
  "arr_at_path v keys = (case Option.bind (json_at v (map Key keys)) json_arr of Some vs \<Rightarrow> vs | None \<Rightarrow> [])"

fun first_some :: "('a \<Rightarrow> 'b option) \<Rightarrow> 'a list \<Rightarrow> 'b option" where
  "first_some f [] = None"
| "first_some f (x # xs) = (case f x of Some y \<Rightarrow> Some y | None \<Rightarrow> first_some f xs)"

lemma first_some_Some: "first_some f xs = Some y \<Longrightarrow> \<exists>x \<in> set xs. f x = Some y"
  by (induction xs) (auto split: option.splits)

definition container_image_reference :: "json \<Rightarrow> string option" where
  "container_image_reference v =
     first_some (str_at_path (first_or_self v))
       [[''ImageName''], [''Config'', ''Image''], [''configuration'', ''image'', ''reference'']]"

text \<open>\<open>str::parse::<u16>\<close> of the trimmed text.\<close>

definition parse_port :: "string \<Rightarrow> nat option" where
  "parse_port s = parse_uint 65536 (trim s)"

definition listener_env :: "json \<Rightarrow> json list" where
  "listener_env first =
     (case json_at first [Key ''Config'', Key ''Env''] of
        Some env \<Rightarrow> (case json_arr env of Some vs \<Rightarrow> vs | None \<Rightarrow> [])
      | None \<Rightarrow> arr_at_path first [''configuration'', ''initProcess'', ''environment''])"

definition listener_port :: "json \<Rightarrow> nat" where
  "listener_port first =
     (case Option.bind (first_some (strip_prefix ''AFHTTP_PORT='') (List.map_filter json_str (listener_env first))) parse_port of
        Some p \<Rightarrow> p | None \<Rightarrow> default_container_port)"

definition binding_port :: "json \<Rightarrow> nat option" where
  "binding_port binding =
     (case Option.bind (get_str binding ''HostPort'') parse_port of
        Some p \<Rightarrow> if p \<noteq> 0 then Some p else None | None \<Rightarrow> None)"

text \<open>One entry of Apple's \<open>publishedPorts\<close>; \<open>count\<close> widens it to a range.\<close>

definition u16_of :: "nat \<Rightarrow> nat option" where
  "u16_of n = (if n < 65536 then Some n else None)"

definition published_entry :: "nat \<Rightarrow> json \<Rightarrow> nat option" where
  "published_entry listener entry =
     (if \<not> eq_ignore_ascii_case (str_or ''tcp'' (get_str entry ''proto'')) ''tcp'' then None
      else
        Option.bind (Option.bind (get_u64 entry ''containerPort'') u16_of) (\<lambda>container.
        Option.bind (Option.bind (get_u64 entry ''hostPort'') u16_of) (\<lambda>host.
          let count = max 1 (case get_u64 entry ''count'' of Some n \<Rightarrow> n | None \<Rightarrow> 1)
          in if listener < container \<or> count \<le> listener - container then None
             else (case u16_of (host + (listener - container)) of
                     Some p \<Rightarrow> if p \<noteq> 0 then Some p else None | None \<Rightarrow> None))))"

definition listener_bindings :: "nat \<Rightarrow> json \<Rightarrow> string list \<Rightarrow> json list" where
  "listener_bindings listener first keys =
     arr_at_path first (keys @ [show_nat listener @ ''/tcp''])"

definition published_host_port :: "json \<Rightarrow> nat option" where
  "published_host_port v =
     (let first = first_or_self v; listener = listener_port first
      in case first_some binding_port (listener_bindings listener first [''NetworkSettings'', ''Ports'']) of
           Some p \<Rightarrow> Some p
         | None \<Rightarrow>
            (case first_some binding_port (listener_bindings listener first [''HostConfig'', ''PortBindings'']) of
               Some p \<Rightarrow> Some p
             | None \<Rightarrow> first_some (published_entry listener) (arr_at_path first [''configuration'', ''publishedPorts''])))"

subsection \<open>Lines and logs\<close>

text \<open>\<open>str::lines\<close>: pieces between newlines, a carriage return before one dropped, no empty last piece.\<close>

definition strip_cr :: "string \<Rightarrow> string" where
  "strip_cr s = (if s \<noteq> [] \<and> List.last s = CHR 0x0D then butlast s else s)"

definition str_lines :: "string \<Rightarrow> string list" where
  "str_lines s =
     (let ps = split_on CHR 0x0A s
      in map strip_cr (butlast ps) @ (if List.last ps = [] then [] else [List.last ps]))"

definition lists_container :: "string \<Rightarrow> string \<Rightarrow> bool" where
  "lists_container output name \<longleftrightarrow> name \<noteq> [] \<and> list_ex (\<lambda>line. trim line = name) (str_lines output)"

text \<open>\<open>ceil_char_boundary\<close> and \<open>byte_suffix\<close>.\<close>

fun ceil_from :: "string \<Rightarrow> nat \<Rightarrow> nat \<Rightarrow> nat" where
  "ceil_from s i 0 = i"
| "ceil_from s i (Suc k) = (if is_char_boundary s i then i else ceil_from s (Suc i) k)"

definition ceil_char_boundary :: "string \<Rightarrow> nat \<Rightarrow> nat" where
  "ceil_char_boundary s i = (if length s < i then length s else ceil_from s i (length s - i))"

definition byte_suffix :: "string \<Rightarrow> nat \<Rightarrow> string" where
  "byte_suffix s max_len = drop (ceil_char_boundary s (length s - max_len)) s"

definition logs_summary :: "string \<Rightarrow> string" where
  "logs_summary combined =
     (let summary = join '' | '' (rev (take 60 (rev (str_lines combined))))
      in if 4000 < length summary then ''...'' @ byte_suffix summary 4000 else summary)"

text \<open>The name of a log file is a plain name: other characters become underscores.\<close>

definition safe_name :: "string \<Rightarrow> string" where
  "safe_name name =
     map (\<lambda>c. if is_ascii_alphanumeric c \<or> c \<in> {CHR ''-'', CHR ''_''} then c else CHR ''_'')
       (filter (\<lambda>c. \<not> (128 \<le> byte_val c \<and> byte_val c < 192)) name)"

text \<open>\<open>tail_lines_from_file\<close>, on the text after its last 256 KiB were read; \<open>clipped\<close> when something came before.\<close>

definition tail_lines :: "bool \<Rightarrow> string \<Rightarrow> nat \<Rightarrow> string list \<times> bool" where
  "tail_lines clipped txt max_lines =
     (let ls = str_lines txt;
          ls = (if clipped \<and> \<not> starts_with txt [CHR 0x0A] \<and> ls \<noteq> [] then tl ls else ls)
      in (drop (length ls - max_lines) ls, clipped \<or> max_lines < length ls))"

text \<open>Why an image build failed, from its log. The first 400 characters of the last complaint.\<close>

definition char_starts :: "string \<Rightarrow> nat list" where
  "char_starts s = filter (is_char_boundary s) [0..<length s]"

definition first_chars :: "nat \<Rightarrow> string \<Rightarrow> string option" where
  "first_chars n s = (if n < length (char_starts s) then Some (take (char_starts s ! n) s) else None)"

function trim_start_str :: "string \<Rightarrow> string \<Rightarrow> string" where
  "trim_start_str p s =
     (if p = [] then s else (case strip_prefix p s of Some r \<Rightarrow> trim_start_str p r | None \<Rightarrow> s))"
  by pat_completeness auto
termination by (relation "measure (length \<circ> snd)") (auto simp: strip_prefix_Some)

declare trim_start_str.simps [simp del]

definition build_failure_reason :: "string \<Rightarrow> string option" where
  "build_failure_reason log =
     Option.bind (find (\<lambda>l. contains l ''ERROR:'' \<or> starts_with l ''Error:'' \<or> contains l ''failed to solve'')
                    (rev (map trim (str_lines log))))
       (\<lambda>l. let line = trim (trim_start_str ''Error: '' l)
             in if line = [] then None
                else (case first_chars 400 line of
                        Some s \<Rightarrow> Some (s @ [CHR 0xE2, CHR 0x80, CHR 0xA6]) | None \<Rightarrow> Some line))"

definition downloader_fetch_failed :: "string \<Rightarrow> bool" where
  "downloader_fetch_failed log \<longleftrightarrow>
     list_ex (\<lambda>l. contains l ''curl:'' \<and> (contains l ''404'' \<or> contains l ''The requested URL returned error'')) (str_lines log)"

definition build_failed_error :: "string \<Rightarrow> string \<Rightarrow> string \<Rightarrow> error" where
  "build_failed_error target log_file log =
     error_new InternalError
       (''image build for '' @ target @ '' failed''
        @ (case build_failure_reason log of Some reason \<Rightarrow> '': '' @ reason | None \<Rightarrow> [])
        @ (if downloader_fetch_failed log
           then ''. The release asset for v{VERSION} {target} could not be fetched; if none is published for this target, build from a source checkout instead: `afhttp container install --from-source` (or docker compose -f container/docker/compose.yaml up --build)''
           else [])
        @ ''. Full output: '' @ log_file)"


subsection \<open>A tag is its components\<close>

lemma unique_decoding:
  assumes code: "\<And>x y r. x \<in> C \<Longrightarrow> y \<in> C \<Longrightarrow> x = y @ r \<Longrightarrow> r = []" and "[] \<notin> C"
  shows "set xs \<subseteq> C \<Longrightarrow> set ys \<subseteq> C \<Longrightarrow> concat xs = concat ys \<Longrightarrow> xs = ys"
proof (induction xs arbitrary: ys)
  case Nil
  with \<open>[] \<notin> C\<close> show ?case by (cases ys) auto
next
  case (Cons x xs)
  then obtain y ys' where ys: "ys = y # ys'" using \<open>[] \<notin> C\<close> by (cases ys) auto
  with Cons.prems have "x @ concat xs = y @ concat ys'" and mem: "x \<in> C" "y \<in> C" by auto
  then obtain r where "x = y @ r \<and> r @ concat xs = concat ys' \<or> x @ r = y \<and> concat xs = r @ concat ys'"
    by (auto simp: append_eq_append_conv2)
  with code mem have "x = y" "concat xs = concat ys'" by force+
  with Cons ys show ?case by simp
qed

lemma tag_code:
  "x \<in> (\<lambda>b. ''-'' @ ib_name b) ` set image_backends \<Longrightarrow> y \<in> (\<lambda>b. ''-'' @ ib_name b) ` set image_backends \<Longrightarrow> x = y @ r \<Longrightarrow> r = []"
  by (auto simp: image_backends_def)

lemma tag_pieces_inj: "inj_on (\<lambda>b. ''-'' @ ib_name b) (set image_backends)"
  by (auto simp: inj_on_def image_backends_def)

lemma image_tag_eq:
  "image_tag v A = image_tag v B \<longleftrightarrow> set image_backends \<inter> set A = set image_backends \<inter> set B"
proof
  let ?f = "\<lambda>S. filter (\<lambda>b. b \<in> set S) image_backends" and ?piece = "\<lambda>b. ''-'' @ ib_name b"
  assume "image_tag v A = image_tag v B"
  then have "concat (map ?piece (?f A)) = concat (map ?piece (?f B))" by (simp add: image_tag_def)
  moreover have "[] \<notin> ?piece ` set image_backends" "set (map ?piece (?f S)) \<subseteq> ?piece ` set image_backends" for S by auto
  ultimately have "map ?piece (?f A) = map ?piece (?f B)"
    by (intro unique_decoding [of "?piece ` set image_backends"] tag_code)
  then have "?piece ` set (?f A) = ?piece ` set (?f B)" by (metis list.set_map)
  then have "set (?f A) = set (?f B)"
    by (rule inj_on_image_eq_iff [OF tag_pieces_inj filter_is_subset filter_is_subset, THEN iffD1])
  then show "set image_backends \<inter> set A = set image_backends \<inter> set B" by auto
next
  assume "set image_backends \<inter> set A = set image_backends \<inter> set B"
  then have "filter (\<lambda>b. b \<in> set A) image_backends = filter (\<lambda>b. b \<in> set B) image_backends"
    by (intro filter_cong) auto
  then show "image_tag v A = image_tag v B" by (simp add: image_tag_def)
qed

lemma find_by_key:
  "distinct (map f xs) \<Longrightarrow> find (\<lambda>x. f x = k) xs = Some x \<longleftrightarrow> x \<in> set xs \<and> f x = k"
  by (induction xs) auto

lemma find_backend: "find (\<lambda>b. ib_name b = n) image_backends = Some b \<longleftrightarrow> b \<in> set image_backends \<and> ib_name b = n"
  by (rule find_by_key) (simp add: image_backends_def)

lemma set_resolve_backends: "set (resolve_backends names) = {b \<in> set image_backends. ib_name b \<in> set names}"
proof -
  have "set (foldl (\<lambda>out name. case find (\<lambda>b. ib_name b = name) image_backends of
           Some b \<Rightarrow> if b \<in> set out then out else out @ [b] | None \<Rightarrow> out) out names)
        = set out \<union> {b \<in> set image_backends. ib_name b \<in> set names}" for out
  proof (induction names arbitrary: out)
    case (Cons n names)
    have "{b \<in> set image_backends. ib_name b \<in> set (n # names)}
        = {b \<in> set image_backends. ib_name b = n} \<union> {b \<in> set image_backends. ib_name b \<in> set names}" by auto
    moreover have "{b \<in> set image_backends. ib_name b = n} = set_option (find (\<lambda>b. ib_name b = n) image_backends)"
      using find_backend [of n] by (auto simp: set_eq_iff elem_set)
    ultimately show ?case
      by (cases "find (\<lambda>b. ib_name b = n) image_backends") (simp_all add: Cons.IH insert_absorb)
  qed simp
  then show ?thesis by (simp add: resolve_backends_def)
qed

text \<open>
  C39. The tag of an image names exactly its components. Two installs get the same tag just when they ask for the same
  known components, whatever the order and repetitions, so no install runs an image built with others.
\<close>

theorem image_tag_names_its_components:
  "image_tag version (resolve_backends a) = image_tag version (resolve_backends b)
   \<longleftrightarrow> set (map ib_name image_backends) \<inter> set a = set (map ib_name image_backends) \<inter> set b"
proof -
  have "set image_backends \<inter> set (resolve_backends a) = set image_backends \<inter> set (resolve_backends b)
        \<longleftrightarrow> {x \<in> set image_backends. ib_name x \<in> set a} = {x \<in> set image_backends. ib_name x \<in> set b}"
    by (auto simp: set_resolve_backends)
  also have "\<dots> \<longleftrightarrow> set (map ib_name image_backends) \<inter> set a = set (map ib_name image_backends) \<inter> set b"
    by auto
  finally show ?thesis unfolding image_tag_eq .
qed

subsection \<open>Ports\<close>

lemma trim_plain:
  assumes "\<And>c. c \<in> set s \<Longrightarrow> \<not> ws_byte c"
  shows "trim s = s"
proof -
  have "ws_width s = 0"
  proof (rule ccontr)
    assume "ws_width s \<noteq> 0"
    then obtain c cs where "take (ws_width s) s = c # cs" by (cases s; cases "ws_width s") auto
    with ws_width_bytes [of c s] assms show False by (metis in_set_takeD list.set_intros(1))
  qed
  moreover have "ws_suffix s = 0"
  proof (rule ccontr)
    assume "ws_suffix s \<noteq> 0"
    then have "drop (length s - ws_suffix s) s \<noteq> []" using ws_suffix_le [of s] by simp
    then obtain c cs where "drop (length s - ws_suffix s) s = c # cs" by (cases "drop (length s - ws_suffix s) s") auto
    with ws_suffix_bytes [of c s] assms show False by (metis in_set_dropD list.set_intros(1))
  qed
  ultimately show ?thesis by (simp add: trim_def trim_start.simps [of s] trim_end.simps [of s])
qed

lemma parse_port_show:
  assumes "n < 65536"
  shows "parse_port (show_nat n) = Some n"
proof -
  have digits: "48 \<le> byte_val c \<and> byte_val c < 58" if "c \<in> set (show_nat n)" for c
    using that by (rule show_nat_digits)
  then have "trim (show_nat n) = show_nat n" by (intro trim_plain) (fastforce simp: ws_byte_def)
  moreover obtain c cs where show_c: "show_nat n = c # cs" by (cases "show_nat n") auto
  moreover have "c \<noteq> CHR ''+''" using digits [of c] show_c by (auto simp: byte_val_def)
  moreover have "list_all is_ascii_digit (show_nat n)"
    using digits by (fastforce simp: list_all_iff is_ascii_digit_def byte_val_def)
  ultimately show ?thesis using assms digits_val_show [of n] by (simp add: parse_port_def parse_uint_def)
qed

text \<open>A running container with one published port, as Docker and Podman describe it.\<close>

definition published_answer :: "nat \<Rightarrow> nat \<Rightarrow> (string \<times> json) list \<Rightarrow> json" where
  "published_answer listener port rest =
     JArr [JObj ([(''Config'', JObj [(''Env'', JArr [JStr (''AFHTTP_PORT='' @ show_nat listener)])]),
                  (''NetworkSettings'', JObj [(''Ports'',
                      JObj [(show_nat listener @ ''/tcp'',
                             JArr [JObj [(''HostIp'', JStr ''127.0.0.1''), (''HostPort'', JStr (show_nat port))]])])])] @ rest)]"

lemma published_port_is_read_back:
  assumes "listener < 65536" and "0 < port" "port < 65536"
  shows "published_host_port (published_answer listener port rest) = Some port"
proof -
  let ?first = "first_or_self (published_answer listener port rest)"
  have "listener_port ?first = listener"
    by (simp add: listener_port_def listener_env_def first_or_self_def published_answer_def map_filter_simps parse_port_show assms)
  then show ?thesis
    using assms
    by (simp add: published_host_port_def listener_bindings_def arr_at_path_def binding_port_def get_str_def parse_port_show)
       (simp add: first_or_self_def published_answer_def binding_port_def get_str_def parse_port_show)
qed

lemma binding_port_range: "binding_port b = Some p \<Longrightarrow> 0 < p \<and> p < 65536"
  by (auto simp: binding_port_def parse_port_def parse_uint_def Let_def split: option.splits if_splits bind_splits)

text \<open>
  The port a host is reached at is one published for its own listener. Every answer is a port of 1 to 65535 bound
  to the listener's tcp port, or the listener's place in a published range that covers it; a mapping of another
  container port is never an answer.
\<close>

theorem published_port_is_the_listeners:
  assumes "published_host_port v = Some p"
  defines "first \<equiv> first_or_self v"
  defines "listener \<equiv> listener_port (first_or_self v)"
  shows "0 < p \<and> p < 65536
    \<and> ((\<exists>b. binding_port b = Some p \<and> b \<in> set (listener_bindings listener first [''NetworkSettings'', ''Ports''])
                                        \<union> set (listener_bindings listener first [''HostConfig'', ''PortBindings'']))
       \<or> (\<exists>e container host. e \<in> set (arr_at_path first [''configuration'', ''publishedPorts''])
            \<and> get_u64 e ''containerPort'' = Some container \<and> get_u64 e ''hostPort'' = Some host
            \<and> container \<le> listener \<and> p = host + (listener - container)
            \<and> listener - container < max 1 (case get_u64 e ''count'' of Some n \<Rightarrow> n | None \<Rightarrow> 1)))"
proof -
  have entry: "published_entry l e = Some p \<Longrightarrow> 0 < p \<and> p < 65536 \<and> (\<exists>container host.
      get_u64 e ''containerPort'' = Some container \<and> get_u64 e ''hostPort'' = Some host \<and> container \<le> l
      \<and> p = host + (l - container) \<and> l - container < max 1 (case get_u64 e ''count'' of Some n \<Rightarrow> n | None \<Rightarrow> 1))" for l e
    by (auto simp: published_entry_def u16_of_def bind_eq_Some_conv Let_def split: if_splits option.splits)
  consider b where "binding_port b = Some p" "b \<in> set (listener_bindings listener first [''NetworkSettings'', ''Ports''])
        \<union> set (listener_bindings listener first [''HostConfig'', ''PortBindings''])"
    | e where "e \<in> set (arr_at_path first [''configuration'', ''publishedPorts''])" "published_entry listener e = Some p"
    using assms(1) unfolding published_host_port_def Let_def first_def listener_def
    by (auto split: option.splits dest!: first_some_Some)
  then show ?thesis
  proof cases
    case (1 b)
    with binding_port_range show ?thesis by blast
  next
    case (2 e)
    with entry show ?thesis by blast
  qed
qed

lemma published_port_is_the_listeners_witness:
  "\<exists>b. binding_port b = Some 9333
     \<and> b \<in> set (listener_bindings 9222 (first_or_self (published_answer 9222 9333 [])) [''NetworkSettings'', ''Ports''])
           \<union> set (listener_bindings 9222 (first_or_self (published_answer 9222 9333 [])) [''HostConfig'', ''PortBindings''])"
proof -
  have p: "published_host_port (published_answer 9222 9333 []) = Some 9333" by (rule published_port_is_read_back) simp_all
  have "listener_port (first_or_self (published_answer 9222 9333 [])) = 9222"
    by (simp add: listener_port_def listener_env_def first_or_self_def published_answer_def map_filter_simps parse_port_show)
  moreover have "arr_at_path (first_or_self (published_answer 9222 9333 [])) [''configuration'', ''publishedPorts''] = []"
    by (simp add: arr_at_path_def first_or_self_def published_answer_def)
  ultimately show ?thesis using published_port_is_the_listeners [OF p] by simp
qed

end
