(* ===== verification/ContainerRun.thy ===== *)
theory ContainerRun
  imports ContainerPlan
begin

text \<open>
  What \<open>afhttp container\<close> runs and asks (\<open>cli/cmd/container.rs\<close>): install, uninstall, status, logs, the discovery of the
  local host and the tokens it reads. The commands and questions so far are a list, and what the container runtime
  or a host answers may depend on all of them.
\<close>

subsection \<open>Surroundings\<close>

text \<open>The text of a log line is what this program writes; what a command prints into the log is the runtime's.\<close>

datatype act =
    Command string "string list"
  | LogLine string string
  | AskHealth string "string option"
  | AskCapabilities string "string option"
  | Pause duration
  | DropContext string

record command_output =
  co_success :: bool
  co_stdout :: string
  co_stderr :: string

text \<open>
  \<open>cw_spawn\<close> is the outcome of the last command of a history (\<open>Inl not_found\<close> when it could not be started),
  \<open>cw_log\<close> whether a log file opens, takes its header and is cloned, \<open>cw_stage\<close> what writing the build context does,
  \<open>cw_is_file\<close> whether a path is a file, \<open>cw_lossy\<close> is \<open>String::from_utf8_lossy\<close>.
\<close>

record container_world =
  cw_version :: string
  cw_arch :: string
  cw_macos :: bool
  cw_on_path :: "string \<Rightarrow> bool"
  cw_env :: "string \<Rightarrow> string option"
  cw_spawn :: "act list \<Rightarrow> bool + command_output"
  cw_health :: "act list \<Rightarrow> health_response result"
  cw_capabilities :: "act list \<Rightarrow> capabilities result"
  cw_url_parse :: "string \<Rightarrow> url option"
  cw_http_builds :: bool
  cw_json :: "string \<Rightarrow> json option"
  cw_lossy :: "string \<Rightarrow> string"
  cw_cache_dir :: "string option"
  cw_private_dir :: "string \<Rightarrow> unit result"
  cw_uuid :: string
  cw_log :: "string \<Rightarrow> unit result"
  cw_log_text :: "act list \<Rightarrow> string \<Rightarrow> string"
  cw_log_clone :: "string \<Rightarrow> unit result"
  cw_header :: "string \<Rightarrow> unit result"
  cw_stage :: "string \<Rightarrow> unit result"
  cw_cwd :: "string option"
  cw_manifest_dir :: string
  cw_is_file :: "string \<Rightarrow> bool"
  cw_tail :: "act list \<Rightarrow> string \<Rightarrow> (bool \<times> string) result"
  cw_log_len :: "act list \<Rightarrow> string \<Rightarrow> nat result"

type_synonym 'a run = "act list \<Rightarrow> 'a \<times> act list"

definition spawn_error :: "bool \<Rightarrow> error" where
  "spawn_error not_found =
     (if not_found then error_new InvalidArgument ''container runtime `{bin}` not found on PATH''
      else error_new IoError ''spawning `{bin}` failed: {err}'')"

definition capture_command :: "container_world \<Rightarrow> runtime \<Rightarrow> string list \<Rightarrow> command_output result run" where
  "capture_command w rt argv h =
     (let h = h @ [Command (runtime_bin rt) argv]
      in (case cw_spawn w h of Inl nf \<Rightarrow> Inl (spawn_error nf) | Inr out \<Rightarrow> Inr out, h))"

text \<open>\<open>capture(..).map(|o| o.status.success()).unwrap_or(false)\<close>.\<close>

definition succeeds :: "container_world \<Rightarrow> runtime \<Rightarrow> string list \<Rightarrow> bool run" where
  "succeeds w rt argv h =
     (case capture_command w rt argv h of (r, h) \<Rightarrow> (case r of Inr out \<Rightarrow> co_success out | Inl _ \<Rightarrow> False, h))"

definition command_failed :: "string list \<Rightarrow> runtime \<Rightarrow> string \<Rightarrow> error" where
  "command_failed argv rt rest =
     error_new InternalError (''`'' @ runtime_bin rt @ '' '' @ display_args argv @ ''` failed ({status})'' @ rest)"

definition exec_inherit :: "container_world \<Rightarrow> runtime \<Rightarrow> string list \<Rightarrow> unit result run" where
  "exec_inherit w rt argv h =
     (case capture_command w rt argv h of
        (Inl e, h) \<Rightarrow> (Inl e, h)
      | (Inr out, h) \<Rightarrow> (if co_success out then Inr () else Inl (command_failed argv rt []), h))"

definition exec_to_log_impl :: "container_world \<Rightarrow> runtime \<Rightarrow> string list \<Rightarrow> string \<Rightarrow> bool \<Rightarrow> unit result run" where
  "exec_to_log_impl w rt argv log_file header h =
     (case cw_log w log_file of
        Inl e \<Rightarrow> (Inl e, h)
      | Inr _ \<Rightarrow>
         (case (if header then cw_header w log_file else Inr ()) of
            Inl e \<Rightarrow> (Inl e, h)
          | Inr _ \<Rightarrow>
             (let h = (if header then h @ [LogLine log_file ([CHR 0x0A] @ ''$ '' @ runtime_bin rt @ '' '' @ display_args argv)] else h)
              in case cw_log_clone w log_file of
                   Inl e \<Rightarrow> (Inl e, h)
                 | Inr _ \<Rightarrow>
                    (case capture_command w rt argv h of
                       (Inl e, h) \<Rightarrow> (Inl e, h)
                     | (Inr out, h) \<Rightarrow>
                         (if co_success out then Inr ()
                          else Inl (command_failed argv rt (''; full output was written to '' @ log_file)), h)))))"

definition exec_to_log :: "container_world \<Rightarrow> runtime \<Rightarrow> string list \<Rightarrow> string \<Rightarrow> unit result run" where
  "exec_to_log w rt argv log_file = exec_to_log_impl w rt argv log_file True"

subsection \<open>Inspecting\<close>

definition image_exists :: "container_world \<Rightarrow> runtime \<Rightarrow> string \<Rightarrow> bool run" where
  "image_exists w rt img = succeeds w rt [''image'', ''inspect'', img]"

definition inspect_answer :: "container_world \<Rightarrow> string \<Rightarrow> command_output result \<Rightarrow> json option" where
  "inspect_answer w name r =
     (case r of
        Inl _ \<Rightarrow> None
      | Inr out \<Rightarrow>
         if \<not> co_success out then None
         else (case cw_json w (co_stdout out) of
                 Some v \<Rightarrow> if inspected_name_matches v name then Some v else None | None \<Rightarrow> None))"

definition inspect_container :: "container_world \<Rightarrow> runtime \<Rightarrow> string \<Rightarrow> json option run" where
  "inspect_container w rt name h =
     (case capture_command w rt (inspect_arguments rt name) h of (r, h) \<Rightarrow> (inspect_answer w name r, h))"

definition state_of_inspected :: "json \<Rightarrow> container_state option" where
  "state_of_inspected v = map_option (\<lambda>st. st\<lparr> ct_host_port := published_host_port v \<rparr>) (parse_container_state v)"

definition inspect_container_state :: "container_world \<Rightarrow> runtime \<Rightarrow> string \<Rightarrow> container_state option run" where
  "inspect_container_state w rt name h =
     (case inspect_container w rt name h of (v, h) \<Rightarrow> (Option.bind v state_of_inspected, h))"

definition inspect_container_image :: "container_world \<Rightarrow> runtime \<Rightarrow> string \<Rightarrow> string option run" where
  "inspect_container_image w rt name h =
     (case inspect_container w rt name h of (v, h) \<Rightarrow> (Option.bind v container_image_reference, h))"

definition listed_running :: "container_world \<Rightarrow> runtime \<Rightarrow> string \<Rightarrow> bool run" where
  "listed_running w rt name h =
     (case capture_command w rt (running_list_arguments rt) h of
        (r, h) \<Rightarrow> (case r of Inr out \<Rightarrow> co_success out \<and> lists_container (cw_lossy w (co_stdout out)) name | Inl _ \<Rightarrow> False, h))"

definition container_running :: "container_world \<Rightarrow> runtime \<Rightarrow> string \<Rightarrow> bool run" where
  "container_running w rt name h =
     (case inspect_container_state w rt name h of
        (Some st, h) \<Rightarrow> (ct_running st, h)
      | (None, h) \<Rightarrow> listed_running w rt name h)"

definition refuse_foreign_container :: "container_world \<Rightarrow> runtime \<Rightarrow> string \<Rightarrow> unit result run" where
  "refuse_foreign_container w rt name h =
     (case inspect_container_image w rt name h of
        (img, h) \<Rightarrow>
          (case img of
             Some i \<Rightarrow> if \<not> is_host_image i
                       then fail InvalidArgument ''container {name:?} runs image {image:?}, not an afhttp host; choose another --name or remove it yourself''
                       else Inr ()
           | None \<Rightarrow> Inr (), h))"

definition container_logs_summary :: "container_world \<Rightarrow> runtime \<Rightarrow> string \<Rightarrow> string run" where
  "container_logs_summary w rt name h =
     (case capture_command w rt [''logs'', name] h of
        (r, h) \<Rightarrow> (case r of Inl _ \<Rightarrow> [] | Inr out \<Rightarrow> logs_summary (cw_lossy w (co_stdout out) @ cw_lossy w (co_stderr out)), h))"

definition container_launch_failure_error :: "container_world \<Rightarrow> runtime \<Rightarrow> string \<Rightarrow> string \<Rightarrow> error run" where
  "container_launch_failure_error w rt name reason h =
     (case container_logs_summary w rt name h of
        (logs, h) \<Rightarrow>
          (let lower = to_ascii_lowercase logs;
               code = (if contains lower ''backend_unsupported'' \<or> contains lower ''persistent profiles''
                          \<or> contains lower ''does not yet support''
                       then BackendUnsupported else BrowserLaunchFailed)
           in (error_new code (''container host launch failed: '' @ reason @ (if logs \<noteq> [] then ''; recent logs: '' @ logs else [])), h)))"

subsection \<open>Tokens\<close>

definition token_of_output :: "container_world \<Rightarrow> command_output result \<Rightarrow> string option" where
  "token_of_output w r =
     (case r of
        Inr out \<Rightarrow> if co_success out \<and> trim (cw_lossy w (co_stdout out)) \<noteq> [] then Some (trim (cw_lossy w (co_stdout out))) else None
      | Inl _ \<Rightarrow> None)"

text \<open>\<open>read_token\<close>; the argument counts the attempts left.\<close>

fun token_attempts :: "container_world \<Rightarrow> runtime \<Rightarrow> string \<Rightarrow> nat \<Rightarrow> string result run" where
  "token_attempts w rt name 0 h =
     (case container_launch_failure_error w rt name ''host token was not available before the startup deadline'' h of
        (e, h) \<Rightarrow> (Inl e, h))"
| "token_attempts w rt name (Suc n) h =
     (case capture_command w rt (token_args name) h of
        (r, h) \<Rightarrow>
          (case token_of_output w r of
             Some token \<Rightarrow> (Inr token, h)
           | None \<Rightarrow>
              (case container_running w rt name h of
                 (False, h) \<Rightarrow>
                   (case container_launch_failure_error w rt name ''container exited before the host token could be read'' h of
                      (e, h) \<Rightarrow> (Inl e, h))
               | (True, h) \<Rightarrow> token_attempts w rt name n (if n = 0 then h else h @ [Pause (millis 500)]))))"

definition read_token :: "container_world \<Rightarrow> runtime \<Rightarrow> string \<Rightarrow> string result run" where
  "read_token w rt name = token_attempts w rt name 20"

definition container_token_error :: "string \<Rightarrow> string \<Rightarrow> error" where
  "container_token_error name d =
     error_new InvalidArgument (''--token-secret container:'' @ name @ '' could not read the host token: '' @ d
       @ ''. Check it with `afhttp container status --name '' @ name @ ''`.'')"

definition choose_runtime :: "container_world \<Rightarrow> runtime option \<Rightarrow> runtime result" where
  "choose_runtime w explicit = resolve_runtime (cw_env w) (cw_macos w) (cw_on_path w) explicit"

text \<open>\<open>--token-secret container:NAME\<close>: one attempt.\<close>

definition read_host_token :: "container_world \<Rightarrow> string \<Rightarrow> string result run" where
  "read_host_token w name h =
     (if isl (validate_container_name name)
      then (Inl (container_token_error name ''not a container name (a letter or digit followed by letters, digits, `_`, `.` or `-`)''), h)
      else
        (case choose_runtime w None of
           Inl e \<Rightarrow> (Inl (container_token_error name (''no container runtime is available: '' @ detail e)), h)
         | Inr rt \<Rightarrow>
            (case capture_command w rt (token_args name) h of
               (Inl e, h) \<Rightarrow> (Inl (container_token_error name (runtime_label rt @ '' failed: '' @ detail e)), h)
             | (Inr out, h) \<Rightarrow>
                 (if \<not> co_success out
                  then Inl (container_token_error name ''the container is not running, or holds no host token yet'')
                  else if trim (cw_lossy w (co_stdout out)) = []
                  then Inl (container_token_error name ''its host token file is empty'')
                  else Inr (trim (cw_lossy w (co_stdout out))), h))))"


subsection \<open>Asking a host\<close>

definition connect_host :: "container_world \<Rightarrow> string \<Rightarrow> client result" where
  "connect_host w endpoint = client_connect (cw_url_parse w) (cw_http_builds w) endpoint"

definition ask_health :: "container_world \<Rightarrow> string \<Rightarrow> string option \<Rightarrow> health_response result run" where
  "ask_health w endpoint token h = (let h = h @ [AskHealth endpoint token] in (cw_health w h, h))"

definition ask_capabilities :: "container_world \<Rightarrow> string \<Rightarrow> string option \<Rightarrow> capabilities result run" where
  "ask_capabilities w endpoint token h = (let h = h @ [AskCapabilities endpoint token] in (cw_capabilities w h, h))"

text \<open>\<open>wait_for_container_health\<close>: the argument counts the attempts left, \<open>last_unhappy\<close> is the last reading's reason.\<close>

definition unhappy_reading :: "health_response \<Rightarrow> error option" where
  "unhappy_reading r =
     map_option (\<lambda>(code, txt). error_new code (''container host /health reported '' @ hr_status r @ '': '' @ txt)) (hr_backend_error r)"

fun health_attempts ::
  "container_world \<Rightarrow> runtime \<Rightarrow> string \<Rightarrow> string \<Rightarrow> string \<Rightarrow> nat \<Rightarrow> error option \<Rightarrow> unit result run" where
  "health_attempts w rt name endpoint token 0 last_unhappy h =
     (case last_unhappy of
        Some e \<Rightarrow> (Inl e, h)
      | None \<Rightarrow>
         (case container_launch_failure_error w rt name ''container host did not pass /health before the startup deadline'' h of
            (e, h) \<Rightarrow> (Inl e, h)))"
| "health_attempts w rt name endpoint token (Suc n) last_unhappy h =
     (case container_running w rt name h of
        (False, h) \<Rightarrow>
          (case container_launch_failure_error w rt name ''container exited before /health became ready'' h of
             (e, h) \<Rightarrow> (Inl e, h))
      | (True, h) \<Rightarrow>
          (case ask_health w endpoint (Some token) h of
             (r, h) \<Rightarrow>
               (let again = (\<lambda>u. health_attempts w rt name endpoint token n u (if n = 0 then h else h @ [Pause (millis 500)]))
                in case r of
                     Inl e \<Rightarrow> again last_unhappy
                   | Inr health \<Rightarrow>
                      if hr_version health \<noteq> cw_version w
                      then (fail InternalError ''container host version mismatch after startup: host={}, driver={VERSION}'', h)
                      else if hr_status health = ''ok'' then (Inr (), h)
                      else again (unhappy_reading health))))"

definition wait_for_container_health :: "container_world \<Rightarrow> runtime \<Rightarrow> string \<Rightarrow> nat \<Rightarrow> string \<Rightarrow> unit result run" where
  "wait_for_container_health w rt name port token h =
     (case connect_host w (endpoint_url port) of
        Inl e \<Rightarrow> (Inl e, h)
      | Inr _ \<Rightarrow> health_attempts w rt name (endpoint_url port) token 30 None h)"

definition is_hard_site_capabilities :: "capabilities \<Rightarrow> bool" where
  "is_hard_site_capabilities caps \<longleftrightarrow>
     takeover_backend_of (fst (ca_backend caps)) \<noteq> None \<and> ca_takeover caps \<and> ca_provider caps = Some ''kasmvnc''"

definition hard_site_host_error :: "string \<Rightarrow> error" where
  "hard_site_host_error d =
     error_new BackendUnsupported (d @ ''. Build a takeover-ready host with `afhttp container install`.'')"

definition validate_hard_site_capabilities :: "capabilities \<Rightarrow> unit result" where
  "validate_hard_site_capabilities caps =
     (if takeover_backend_of (fst (ca_backend caps)) = None
      then Inl (hard_site_host_error (''takeover host requires backend.family=<'' @ takeover_browser_list @ ''>; host reported ''
                  @ fst (ca_backend caps)))
      else if \<not> ca_takeover caps then Inl (hard_site_host_error ''takeover host requires takeover.supported=true'')
      else if ca_provider caps \<noteq> Some ''kasmvnc''
      then Inl (hard_site_host_error ''takeover host requires takeover.provider=kasmvnc; host reported {:?}'')
      else Inr ())"

definition validate_running_hard_site :: "container_world \<Rightarrow> string \<Rightarrow> string \<Rightarrow> unit result run" where
  "validate_running_hard_site w endpoint token h =
     (case connect_host w endpoint of
        Inl e \<Rightarrow> (Inl e, h)
      | Inr _ \<Rightarrow>
         (case ask_health w endpoint (Some token) h of
            (Inl e, h) \<Rightarrow> (Inl (with_retryable (error_new (error_code e) (''takeover host /health failed after startup: '' @ detail e)) (retryable e)), h)
          | (Inr health, h) \<Rightarrow>
             if hr_version health \<noteq> cw_version w
             then (fail InternalError ''takeover host version mismatch after startup: host={}, driver={VERSION}'', h)
             else if hr_status health \<noteq> ''ok''
             then (fail BrowserLaunchFailed (''takeover host was not ready after startup: ''
                     @ (case hr_backend_error health of Some (code, txt) \<Rightarrow> as_str code @ '': '' @ txt
                        | None \<Rightarrow> ''status='' @ hr_status health)), h)
             else
               (case ask_capabilities w endpoint (Some token) h of
                  (Inl e, h) \<Rightarrow> (Inl (with_retryable (error_new (error_code e) (''takeover host /capabilities failed after startup: '' @ detail e)) (retryable e)), h)
                | (Inr caps, h) \<Rightarrow> (validate_hard_site_capabilities caps, h))))"

definition live_takeover_ready :: "bool \<Rightarrow> bool option \<Rightarrow> takeover_health option \<Rightarrow> bool option" where
  "live_takeover_ready configured backend_connected health =
     (if \<not> configured \<or> backend_connected = Some False then Some False
      else map_option (\<lambda>t. th_ready t \<and> th_cdp_connected t \<and> th_display_connected t \<and> th_browser_running t \<noteq> Some False) health)"

subsection \<open>Finding the local host\<close>

record local_host =
  lh_endpoint :: string
  lh_token :: "string option"

definition local_host_error_with_recovery :: "string \<Rightarrow> bool \<Rightarrow> error" where
  "local_host_error_with_recovery d missing =
     (let d = rev (dropWhile (\<lambda>c. c = CHR ''.'') (rev d));
          recovery = (if missing then ''Start one with `afhttp container install`, inspect it with `afhttp container status`,''
                      else ''Inspect it with `afhttp container status`,'')
      in error_new InvalidArgument
           (''no --endpoint-url or AFHTTP_ENDPOINT_URL was given, so afhttp looked for the default local host, and '' @ d @ ''. ''
            @ recovery @ '' or pass --endpoint-url/--token-secret explicitly.''))"

definition local_host_error :: "string \<Rightarrow> error" where
  "local_host_error d = local_host_error_with_recovery d False"

definition local_host_missing_error :: "string \<Rightarrow> error" where
  "local_host_missing_error d = local_host_error_with_recovery d True"

definition host_version_mismatch_detail :: "string \<Rightarrow> string \<Rightarrow> string \<Rightarrow> string" where
  "host_version_mismatch_detail version name host_version =
     ''local container `'' @ name @ ''` is running afhttp host version '' @ host_version @ '', but this driver is version ''
     @ version @ ''. Run `afhttp container install` to recreate the container with the matching image; the `'' @ volume_name name
     @ ''` volume is reused, so the host token and persistent profiles are preserved.''"

definition host_version_warning :: "string \<Rightarrow> string \<Rightarrow> string \<Rightarrow> string option" where
  "host_version_warning version name host_version =
     (if host_version \<noteq> version then Some (host_version_mismatch_detail version name host_version) else None)"

text \<open>The state of a container and whether it runs, as \<open>status\<close> and the discovery ask for them.\<close>

definition state_and_running :: "container_world \<Rightarrow> runtime \<Rightarrow> string \<Rightarrow> (container_state option \<times> bool) run" where
  "state_and_running w rt name h =
     (case inspect_container_state w rt name h of
        (Some st, h) \<Rightarrow> ((Some st, ct_running st), h)
      | (None, h) \<Rightarrow> (case container_running w rt name h of (running, h) \<Rightarrow> ((None, running), h)))"

text \<open>The checks of the host that was found.\<close>

definition verify_local_host :: "container_world \<Rightarrow> nat \<Rightarrow> string \<Rightarrow> local_host result run" where
  "verify_local_host w port token h =
     (let endpoint = endpoint_url port
      in case connect_host w endpoint of
           Inl e \<Rightarrow> (Inl e, h)
         | Inr _ \<Rightarrow>
            (case ask_health w endpoint (Some token) h of
               (Inl e, h) \<Rightarrow>
                 (Inl (with_retryable (local_host_error (''default local container `'' @ default_container_name @ ''` at '' @ endpoint
                         @ '' could not be verified: '' @ detail e)) (retryable e)), h)
             | (Inr health, h) \<Rightarrow>
                (if hr_version health \<noteq> cw_version w
                 then Inl (local_host_error (host_version_mismatch_detail (cw_version w) default_container_name (hr_version health)))
                 else if hr_status health = ''starting''
                 then Inl (local_host_error (''default local container `'' @ default_container_name @ ''` at '' @ endpoint
                        @ '' is still starting and has no browser yet''))
                 else Inr \<lparr> lh_endpoint = endpoint, lh_token = Some token \<rparr>, h)))"

definition discover_default_local_host :: "container_world \<Rightarrow> string option \<Rightarrow> local_host result run" where
  "discover_default_local_host w token_override h =
     (case choose_runtime w None of
        Inl e \<Rightarrow> (Inl (local_host_missing_error (''could not choose a container runtime to inspect `'' @ default_container_name
                   @ ''`: '' @ detail e)), h)
      | Inr rt \<Rightarrow>
         (case state_and_running w rt default_container_name h of
            ((st, running), h) \<Rightarrow>
              if \<not> running
              then (Inl (local_host_missing_error (''default local container `'' @ default_container_name @ ''` is not running'')), h)
              else
                (case Option.bind st ct_host_port of
                   None \<Rightarrow> (Inl (local_host_error (''default local container `'' @ default_container_name @ ''` is running, but ''
                             @ runtime_label rt @ '' reports no published host port for its afhttp listener'')), h)
                 | Some port \<Rightarrow>
                    (case token_override of
                       Some token \<Rightarrow> verify_local_host w port token h
                     | None \<Rightarrow>
                        (case read_token w rt default_container_name h of
                           (Inl e, h) \<Rightarrow> (Inl (local_host_error (''default local container `'' @ default_container_name
                                            @ ''` is running, but its token could not be read: '' @ detail e)), h)
                         | (Inr token, h) \<Rightarrow> verify_local_host w port token h)))))"

definition discover_default_takeover_host :: "container_world \<Rightarrow> string option \<Rightarrow> local_host result run" where
  "discover_default_takeover_host w token_override h =
     (case discover_default_local_host w token_override h of
        (Inl e, h) \<Rightarrow> (Inl e, h)
      | (Inr host, h) \<Rightarrow>
         (case connect_host w (lh_endpoint host) of
            Inl e \<Rightarrow> (Inl e, h)
          | Inr _ \<Rightarrow>
             (case ask_capabilities w (lh_endpoint host) (lh_token host) h of
                (Inl e, h) \<Rightarrow>
                  (Inl (with_retryable (local_host_error (''default local container `'' @ default_container_name @ ''` at ''
                         @ lh_endpoint host @ '' could not be verified: '' @ detail e)) (retryable e)), h)
              | (Inr caps, h) \<Rightarrow>
                 (case validate_hard_site_capabilities caps of
                    Inl e \<Rightarrow> (Inl (local_host_error (''default local container `'' @ default_container_name @ ''` at ''
                               @ lh_endpoint host @ '' is not takeover-ready: '' @ detail e)), h)
                  | Inr _ \<Rightarrow> (Inr host, h)))))"


subsection \<open>Status\<close>

record host_status =
  hs_runtime :: string
  hs_container :: string
  hs_running :: bool
  hs_endpoint :: "string option"
  hs_driver_version :: string
  hs_host_version :: "string option"
  hs_host_build :: "string option"
  hs_backend_connected :: "bool option"
  hs_takeover_health :: "takeover_health option"
  hs_takeover_configured :: "bool option"
  hs_version_match :: "bool option"
  hs_profile_kind :: "string option"
  hs_profile :: "string option"
  hs_profile_backend :: "string option"
  hs_backend :: "(string \<times> string) option"
  hs_provider :: "string option"
  hs_takeover_ready :: "bool option"
  hs_token_available :: bool
  hs_token_source :: "string option"
  hs_token_secret :: "string option"
  hs_client_command :: "string option"
  hs_exit_code :: "int option"
  hs_log_summary :: "string option"
  hs_warnings :: "string list"

text \<open>What the host itself says: \<open>/health\<close>, then \<open>/capabilities\<close>, whatever became of the first.\<close>

definition warn_status :: "string list \<Rightarrow> host_status \<Rightarrow> host_status" where
  "warn_status ws s = s\<lparr> hs_warnings := hs_warnings s @ ws \<rparr>"

definition opt_list :: "'a option \<Rightarrow> 'a list" where
  "opt_list x = (case x of Some y \<Rightarrow> [y] | None \<Rightarrow> [])"

definition note_health :: "string \<Rightarrow> health_response result \<Rightarrow> host_status \<Rightarrow> host_status" where
  "note_health version r s =
     (case r of
        Inl e \<Rightarrow> warn_status [''could not read /health: '' @ detail e] s
      | Inr health \<Rightarrow>
         (let s = warn_status (opt_list (host_version_warning version (hs_container s) (hr_version health))
                     @ (case hr_backend_error health of Some (_, txt) \<Rightarrow> [''browser health: '' @ txt] | None \<Rightarrow> [])) s;
              s = s\<lparr> hs_host_build := hr_build health, hs_backend_connected := map_option bi_connected (hr_backend health),
                      hs_takeover_health := hr_takeover health, hs_version_match := Some (hr_version health = version),
                      hs_host_version := Some (hr_version health) \<rparr>
          in case hr_profile health of
               Some p \<Rightarrow> s\<lparr> hs_profile_kind := Some (ps_kind p), hs_profile := ps_name p \<rparr>
             | None \<Rightarrow> s))"

definition note_capabilities :: "capabilities result \<Rightarrow> host_status \<Rightarrow> host_status" where
  "note_capabilities r s =
     (case r of
        Inl e \<Rightarrow> warn_status [''could not read /capabilities: '' @ detail e] s
      | Inr caps \<Rightarrow>
         (let configured = is_hard_site_capabilities caps;
              ready = live_takeover_ready configured (hs_backend_connected s) (hs_takeover_health s);
              s = s\<lparr> hs_profile_backend := map_option (\<lambda>_. fst (ca_backend caps)) (hs_profile_kind s),
                      hs_provider := ca_provider caps, hs_takeover_configured := Some configured, hs_takeover_ready := ready,
                      hs_backend := Some (ca_backend caps) \<rparr>
          in warn_status
               ((if ready = None then [''host does not report live display health; takeover readiness is unknown (configured support alone is insufficient)''] else [])
                @ (case Option.bind (hs_takeover_health s) th_reason of Some reason \<Rightarrow> [''takeover health: '' @ reason] | None \<Rightarrow> [])) s))"

definition status_base :: "container_world \<Rightarrow> runtime \<Rightarrow> string \<Rightarrow> bool \<Rightarrow> nat option \<Rightarrow> host_status" where
  "status_base w rt name running port =
     \<lparr> hs_runtime = runtime_label rt, hs_container = name, hs_running = running, hs_endpoint = map_option endpoint_url port,
       hs_driver_version = cw_version w, hs_host_version = None, hs_host_build = None, hs_backend_connected = None,
       hs_takeover_health = None, hs_takeover_configured = None, hs_version_match = None, hs_profile_kind = None,
       hs_profile = None, hs_profile_backend = None, hs_backend = None, hs_provider = None, hs_takeover_ready = None,
       hs_token_available = False, hs_token_source = None, hs_token_secret = None, hs_client_command = None,
       hs_exit_code = None, hs_log_summary = None,
       hs_warnings = (if running \<and> port = None
                      then [''container `'' @ name @ ''` publishes no host port for its afhttp listener; the host was not contacted'']
                      else []) \<rparr>"

definition note_token :: "bool \<Rightarrow> nat option \<Rightarrow> string option \<Rightarrow> host_status \<Rightarrow> host_status" where
  "note_token reveal port token s =
     s\<lparr> hs_token_available := (token \<noteq> None), hs_token_source := map_option (\<lambda>_. ''container_volume'') token,
         hs_token_secret := (if reveal then token else None),
         hs_client_command := (case (token, port) of (Some _, Some p) \<Rightarrow> Some (client_command (hs_container s) p) | _ \<Rightarrow> None) \<rparr>"

definition read_status_token :: "container_world \<Rightarrow> runtime \<Rightarrow> host_status \<Rightarrow> (string option \<times> host_status) run" where
  "read_status_token w rt s h =
     (if hs_running s
      then (case read_token w rt (hs_container s) h of
              (Inr token, h) \<Rightarrow> ((Some token, s), h)
            | (Inl e, h) \<Rightarrow> ((None, warn_status [''could not read token: '' @ detail e] s), h))
      else ((None, s), h))"

definition ask_status :: "container_world \<Rightarrow> string option \<Rightarrow> host_status \<Rightarrow> host_status result run" where
  "ask_status w token s h =
     (case (hs_running s, token, hs_endpoint s) of
        (True, Some token, Some endpoint) \<Rightarrow>
          (case connect_host w endpoint of
             Inl e \<Rightarrow> (Inl e, h)
           | Inr _ \<Rightarrow>
              (case ask_health w endpoint (Some token) h of
                 (health, h) \<Rightarrow>
                   (case ask_capabilities w endpoint (Some token) h of
                      (caps, h) \<Rightarrow> (Inr (note_capabilities caps (note_health (cw_version w) health s)), h))))
      | _ \<Rightarrow> (Inr s, h))"

definition note_exit :: "container_world \<Rightarrow> runtime \<Rightarrow> int option \<Rightarrow> host_status \<Rightarrow> host_status run" where
  "note_exit w rt exit_code s h =
     (if hs_running s then (s, h)
      else (case container_logs_summary w rt (hs_container s) h of
              (logs, h) \<Rightarrow> (s\<lparr> hs_exit_code := exit_code, hs_log_summary := (if logs \<noteq> [] then Some logs else None) \<rparr>, h)))"

definition status_result :: "container_world \<Rightarrow> runtime option \<Rightarrow> string \<Rightarrow> bool \<Rightarrow> host_status result run" where
  "status_result w explicit name reveal h =
     (case choose_runtime w explicit of
        Inl e \<Rightarrow> (Inl e, h)
      | Inr rt \<Rightarrow>
         (case state_and_running w rt name h of
            ((st, running), h) \<Rightarrow>
              (let port = Option.bind st ct_host_port
               in case read_status_token w rt (status_base w rt name running port) h of
                    ((token, s), h) \<Rightarrow>
                      (case ask_status w token (note_token reveal port token s) h of
                         (Inl e, h) \<Rightarrow> (Inl e, h)
                       | (Inr s, h) \<Rightarrow>
                           (case note_exit w rt (Option.bind st ct_exit_code) s h of (s, h) \<Rightarrow> (Inr s, h))))))"

subsection \<open>Logs\<close>

definition container_log_dir :: "container_world \<Rightarrow> string result" where
  "container_log_dir w =
     (case cw_cache_dir w of
        None \<Rightarrow> fail IoError ''cannot resolve a per-user cache dir for container logs: set HOME or XDG_CACHE_HOME''
      | Some base \<Rightarrow> Inr (path_join (path_join base ''afhttp'') ''container-logs''))"

definition container_operation_log_file :: "container_world \<Rightarrow> string \<Rightarrow> string result" where
  "container_operation_log_file w name =
     and_then (container_log_dir w) (\<lambda>dir.
     and_then (cw_private_dir w dir) (\<lambda>_.
       Inr (path_join dir (safe_name name @ ''-'' @ cw_uuid w @ ''.log''))))"

record logs_result =
  lr_runtime :: string
  lr_container :: string
  lr_log_file :: string
  lr_bytes :: nat
  lr_truncated :: bool
  lr_tail_lines :: "string list"

definition logs_args :: "string \<Rightarrow> bool \<Rightarrow> string list" where
  "logs_args name follow = [''logs''] @ (if follow then [''-f''] else []) @ [name]"

definition container_logs ::
  "container_world \<Rightarrow> runtime option \<Rightarrow> string \<Rightarrow> bool \<Rightarrow> bool \<Rightarrow> logs_result option result run" where
  "container_logs w explicit name follow raw h =
     (case choose_runtime w explicit of
        Inl e \<Rightarrow> (Inl e, h)
      | Inr rt \<Rightarrow>
         if raw then (case exec_inherit w rt (logs_args name follow) h of (r, h) \<Rightarrow> (and_then r (\<lambda>_. Inr None), h))
         else
           (case container_operation_log_file w name of
              Inl e \<Rightarrow> (Inl e, h)
            | Inr log_file \<Rightarrow>
               (case exec_to_log_impl w rt (logs_args name follow) log_file False h of
                  (Inl e, h) \<Rightarrow> (Inl e, h)
                | (Inr _, h) \<Rightarrow>
                    (and_then (cw_tail w h log_file) (\<lambda>(clipped, txt).
                     and_then (cw_log_len w h log_file) (\<lambda>bytes.
                       let (ls, truncated) = tail_lines clipped txt 80
                       in Inr (Some \<lparr> lr_runtime = runtime_label rt, lr_container = name, lr_log_file = log_file,
                                      lr_bytes = bytes, lr_truncated = truncated, lr_tail_lines = ls \<rparr>))), h))))"


subsection \<open>Building an image\<close>

definition dockerfile :: "string \<Rightarrow> string" where
  "dockerfile dir = path_join dir ''container/docker/Dockerfile''"

definition resolve_source_context :: "container_world \<Rightarrow> string option \<Rightarrow> string result" where
  "resolve_source_context w arg =
     (case arg of
        Some p \<Rightarrow> if cw_is_file w (dockerfile p) then Inr p
                  else fail InvalidArgument ''--from-source {source} needs a source checkout: {} not found (run from the spore root or pass --context <dir>)''
      | None \<Rightarrow>
         (case cw_cwd w of
            None \<Rightarrow> fail IoError ''cannot read current dir: {e}''
          | Some cwd \<Rightarrow>
             if cw_is_file w (dockerfile cwd) then Inr cwd
             else if cw_manifest_dir w \<noteq> cwd \<and> cw_is_file w (dockerfile (cw_manifest_dir w)) then Inr (cw_manifest_dir w)
             else fail InvalidArgument ''--from-source needs a source checkout: checked {} and {} (run from the spore root or pass --context <dir>)''))"

definition cache_context_dir :: "container_world \<Rightarrow> string result" where
  "cache_context_dir w =
     (case cw_cache_dir w of
        None \<Rightarrow> fail IoError ''cannot resolve a per-user cache dir for the build context: set HOME or XDG_CACHE_HOME''
      | Some base \<Rightarrow> Inr (path_join (path_join (path_join base ''afhttp'') ''container'') (cw_version w)))"

definition write_build_context :: "container_world \<Rightarrow> string result" where
  "write_build_context w = and_then (cache_context_dir w) (\<lambda>root. and_then (cw_stage w root) (\<lambda>_. Inr root))"

definition start_daemon :: "container_world \<Rightarrow> runtime \<Rightarrow> unit run" where
  "start_daemon w rt h =
     (if rt = Apple then (case capture_command w rt [''system'', ''start''] h of (_, h) \<Rightarrow> ((), h)) else ((), h))"

definition build_image ::
  "container_world \<Rightarrow> runtime \<Rightarrow> install_args \<Rightarrow> image_backend list \<Rightarrow> string \<Rightarrow> string \<Rightarrow> unit result run" where
  "build_image w rt a backends img log_file h =
     (if ia_from_source a
      then (case resolve_source_context w (ia_context a) of
              Inl e \<Rightarrow> (Inl e, h)
            | Inr ctx \<Rightarrow> exec_to_log w rt (build_args (cw_version w) img rt (FromSource ctx) backends) log_file h)
      else
        (case (if ia_rebuild a then (True, h) else (case image_exists w rt img h of (ex, h) \<Rightarrow> (\<not> ex, h))) of
           (False, h) \<Rightarrow> (Inr (), h)
         | (True, h) \<Rightarrow>
            (case write_build_context w of
               Inl e \<Rightarrow> (Inl e, h)
             | Inr ctx \<Rightarrow>
                (let target = target_triple rt (cw_arch w)
                 in case exec_to_log w rt (build_args (cw_version w) img rt (Embedded ctx target) backends) log_file h of
                      (Inl e, h) \<Rightarrow> (Inl (build_failed_error target log_file (cw_log_text w h log_file)), h)
                    | (Inr u, h) \<Rightarrow> (Inr u, h)))))"

definition container_image_host_help :: "container_world \<Rightarrow> runtime \<Rightarrow> string \<Rightarrow> string option run" where
  "container_image_host_help w rt img h =
     (case capture_command w rt (image_host_help_args img) h of
        (r, h) \<Rightarrow>
          (case r of
             Inl _ \<Rightarrow> None
           | Inr out \<Rightarrow> if co_success out then Some (cw_lossy w (co_stdout out) @ cw_lossy w (co_stderr out)) else None, h))"

definition validate_container_image_host_args ::
  "container_world \<Rightarrow> runtime \<Rightarrow> string \<Rightarrow> string list \<Rightarrow> unit result run" where
  "validate_container_image_host_args w rt img host_args h =
     (if \<not> host_args_need_takeover_support host_args then (Inr (), h)
      else
        (case container_image_host_help w rt img h of
           (None, h) \<Rightarrow> (Inr (), h)
         | (Some help, h) \<Rightarrow>
            if \<not> contains help ''--takeover-quality-percent''
            then (fail InvalidArgument ''container image `{image}` contains an older afhttp host binary that does not support the `--takeover-provider <provider>` display surface; rebuild from this source checkout: `afhttp container install --from-source --rebuild`'', h)
            else
              (case Option.bind (host_arg_value host_args ''--browser'') takeover_backend_of of
                 None \<Rightarrow> (Inr (), h)
               | Some b \<Rightarrow>
                  (case succeeds w rt (takeover_components_args img b) h of
                     (True, h) \<Rightarrow> (Inr (), h)
                   | (False, h) \<Rightarrow>
                      (fail BackendUnsupported ''container image `{image}` does not expose the {browser} + KasmVNC takeover components; rebuild it with `afhttp container install --rebuild --with {component} -- --browser {browser}`'', h)))))"

subsection \<open>Install\<close>

record install_result =
  ir_runtime :: string
  ir_image :: string
  ir_container :: string
  ir_endpoint :: string
  ir_profile :: string
  ir_token_available :: bool
  ir_token_source :: string
  ir_token_secret :: "string option"
  ir_client_command :: string
  ir_log_file :: "string option"
  ir_backends :: "string list"
  ir_takeover_ready :: bool

text \<open>Replacing the container: the old one is stopped and removed, the data volume is handed to the image's user
  on Apple's runtime, the new one is started.\<close>

definition replace_container ::
  "container_world \<Rightarrow> runtime \<Rightarrow> install_args \<Rightarrow> string \<Rightarrow> string \<Rightarrow> unit result run" where
  "replace_container w rt a img log_file h =
     (case refuse_foreign_container w rt (ia_name a) h of
        (Inl e, h) \<Rightarrow> (Inl e, h)
      | (Inr _, h) \<Rightarrow>
         (case capture_command w rt [''stop'', ia_name a] h of (_, h) \<Rightarrow>
         (case capture_command w rt [''rm'', ia_name a] h of (_, h) \<Rightarrow>
         (case (if rt = Apple then exec_to_log w rt (data_volume_chown_args (ia_name a) img) log_file h else (Inr (), h)) of
            (Inl e, h) \<Rightarrow> (Inl e, h)
          | (Inr _, h) \<Rightarrow>
             exec_to_log w rt
               (run_args (ia_name a) img (ia_port a) (effective_profile a) (effective_shm_size a) (ia_host_args a)) log_file h))))"

text \<open>Waiting for the new container and checking it.\<close>

definition check_installed ::
  "container_world \<Rightarrow> runtime \<Rightarrow> install_args \<Rightarrow> image_backend list \<Rightarrow> string \<Rightarrow> string \<Rightarrow> install_result result run" where
  "check_installed w rt a backends img log_file h =
     (case read_token w rt (ia_name a) h of
        (Inl e, h) \<Rightarrow> (Inl e, h)
      | (Inr token, h) \<Rightarrow>
         (case wait_for_container_health w rt (ia_name a) (ia_port a) token h of
            (Inl e, h) \<Rightarrow> (Inl e, h)
          | (Inr _, h) \<Rightarrow>
             (let takeover_ready = (install_takeover_provider a \<noteq> None)
              in case (if takeover_ready then validate_running_hard_site w (endpoint_url (ia_port a)) token h else (Inr (), h)) of
                   (Inl e, h) \<Rightarrow> (Inl e, h)
                 | (Inr _, h) \<Rightarrow>
                    (Inr \<lparr> ir_runtime = runtime_label rt, ir_image = img, ir_container = ia_name a,
                           ir_endpoint = endpoint_url (ia_port a), ir_profile = effective_profile a,
                           ir_token_available = True, ir_token_source = ''container_volume'',
                           ir_token_secret = (if ia_reveal_token_secret a then Some token else None),
                           ir_client_command = client_command (ia_name a) (ia_port a), ir_log_file = Some log_file,
                           ir_backends = map ib_name backends, ir_takeover_ready = takeover_ready \<rparr>, h))))"

definition install :: "container_world \<Rightarrow> install_args \<Rightarrow> install_result result run" where
  "install w args h =
     (let a = apply_hard_site_defaults args; backends = resolve_backends (ia_with a)
      in case validate_install_args a backends of
           Inl e \<Rightarrow> (Inl e, h)
         | Inr _ \<Rightarrow>
            (case choose_runtime w (ia_runtime a) of
               Inl e \<Rightarrow> (Inl e, h)
             | Inr rt \<Rightarrow>
                (let img = image_tag (cw_version w) backends
                 in case container_operation_log_file w (ia_name a) of
                      Inl e \<Rightarrow> (Inl e, h)
                    | Inr log_file \<Rightarrow>
                       (case start_daemon w rt h of (_, h) \<Rightarrow>
                       (case build_image w rt a backends img log_file h of
                          (Inl e, h) \<Rightarrow> (Inl e, h)
                        | (Inr _, h) \<Rightarrow>
                           (case validate_container_image_host_args w rt img (ia_host_args a) h of
                              (Inl e, h) \<Rightarrow> (Inl e, h)
                            | (Inr _, h) \<Rightarrow>
                               (case replace_container w rt a img log_file h of
                                  (Inl e, h) \<Rightarrow> (Inl e, h)
                                | (Inr _, h) \<Rightarrow> check_installed w rt a backends img log_file h)))))))"

subsection \<open>Uninstall\<close>

record uninstall_result =
  un_runtime :: string
  un_container :: string
  un_removed :: bool
  un_image_removed :: bool
  un_purged :: bool

text \<open>With \<open>purge\<close> the image and the cached build context go too; the image is the container's, else the plain tag.\<close>

definition purge_image :: "container_world \<Rightarrow> runtime \<Rightarrow> string option \<Rightarrow> bool run" where
  "purge_image w rt found h =
     (case succeeds w rt (image_remove_args (case found of Some i \<Rightarrow> i | None \<Rightarrow> image_tag (cw_version w) [])) h of
        (gone, h) \<Rightarrow> (gone, case cache_context_dir w of Inr ctx \<Rightarrow> h @ [DropContext ctx] | Inl _ \<Rightarrow> h))"

definition uninstall :: "container_world \<Rightarrow> runtime option \<Rightarrow> string \<Rightarrow> bool \<Rightarrow> uninstall_result result run" where
  "uninstall w explicit name purge h =
     (case choose_runtime w explicit of
        Inl e \<Rightarrow> (Inl e, h)
      | Inr rt \<Rightarrow>
         (case refuse_foreign_container w rt name h of
            (Inl e, h) \<Rightarrow> (Inl e, h)
          | (Inr _, h) \<Rightarrow>
             (case (if purge then inspect_container_image w rt name h else (None, h)) of (found, h) \<Rightarrow>
             (case capture_command w rt [''stop'', name] h of (_, h) \<Rightarrow>
             (case succeeds w rt [''rm'', name] h of (removed, h) \<Rightarrow>
             (case (if purge then purge_image w rt found h else (False, h)) of (image_removed, h) \<Rightarrow>
               (Inr \<lparr> un_runtime = runtime_label rt, un_container = name, un_removed = removed,
                      un_image_removed = image_removed, un_purged = purge \<rparr>, h)))))))"

end
