(* ===== verification/ContainerFacts.thy ===== *)
theory ContainerFacts
  imports ContainerRun
begin

text \<open>
  Laws of \<open>afhttp container\<close>: where the token of a container is sent, which container is replaced or removed, what an
  install that succeeds has seen, and what of a command line is written down. Most rest on which acts an operation
  can add to a history, which \<open>act_policy\<close> states once for every policy that lets harmless commands through.
\<close>

subsection \<open>Histories only grow\<close>

definition grows :: "(act \<Rightarrow> bool) \<Rightarrow> act list \<Rightarrow> act list \<Rightarrow> bool" where
  "grows P h h' \<longleftrightarrow> (\<exists>acts. h' = h @ acts \<and> list_all P acts)"

named_theorems grown

lemma grows_refl [grown]: "grows P h h"
  by (simp add: grows_def)

lemma grows_trans: "grows P h h' \<Longrightarrow> grows P h' h'' \<Longrightarrow> grows P h h''"
  by (auto simp: grows_def)

lemma grows_snoc: "P a \<Longrightarrow> grows P h h' \<Longrightarrow> grows P h (h' @ [a])"
  by (auto simp: grows_def)

lemma grows_step: "P a \<Longrightarrow> grows P (h @ [a]) h' \<Longrightarrow> grows P h h'"
  by (auto simp: grows_def)

lemma grows_mono: "grows P h h' \<Longrightarrow> (\<And>a. P a \<Longrightarrow> Q a) \<Longrightarrow> grows Q h h'"
  by (auto simp: grows_def list_all_iff)

text \<open>One run after another.\<close>

lemma grows_then:
  assumes "grows P h (snd r)" and "\<And>x h'. r = (x, h') \<Longrightarrow> grows P h' (snd (k x h'))"
  shows "grows P h (snd (case r of (x, h') \<Rightarrow> k x h'))"
  using assms by (cases r) (auto intro: grows_trans)

text \<open>Commands that look, build or run something that goes away by itself.\<close>

definition harmless :: "string list \<Rightarrow> bool" where
  "harmless argv \<longleftrightarrow>
     take 1 argv \<in> {[''inspect''], [''ls''], [''ps''], [''logs''], [''exec''], [''build''], [''system'']}
     \<or> take 2 argv \<in> {[''run'', ''--rm''], [''image'', ''inspect'']}"

lemma harmless_commands [simp]:
  "harmless (inspect_arguments rt name)" "harmless (running_list_arguments rt)" "harmless [''logs'', name]"
  "harmless (token_args name)" "harmless (build_args version img rt src backends)" "harmless (data_volume_chown_args name img)"
  "harmless (image_host_help_args img)" "harmless (takeover_components_args img b)" "harmless [''image'', ''inspect'', img]"
  "harmless [''system'', ''start'']"
  by (simp_all add: harmless_def inspect_arguments_def running_list_arguments_def token_args_def build_args_def
      data_volume_chown_args_def image_host_help_args_def takeover_components_args_def)

locale act_policy =
  fixes ok :: "act \<Rightarrow> bool"
  assumes pause_ok: "ok (Pause d)"
    and log_ok: "ok (LogLine f t)"
    and harmless_ok [simp, intro]: "harmless argv \<Longrightarrow> ok (Command b argv)"
begin

lemma capture_grows [grown]: "ok (Command (runtime_bin rt) argv) \<Longrightarrow> grows ok h (snd (capture_command w rt argv h))"
  by (simp add: capture_command_def Let_def grows_snoc grows_refl)

lemma succeeds_grows [grown]: "ok (Command (runtime_bin rt) argv) \<Longrightarrow> grows ok h (snd (succeeds w rt argv h))"
  by (simp add: succeeds_def split_beta capture_grows)

lemma inspect_grows [grown]:
  "grows ok h (snd (inspect_container w rt name h))"
  "grows ok h (snd (inspect_container_state w rt name h))"
  "grows ok h (snd (inspect_container_image w rt name h))"
  "grows ok h (snd (refuse_foreign_container w rt name h))"
  by (simp_all add: inspect_container_def inspect_container_state_def inspect_container_image_def
      refuse_foreign_container_def split_beta capture_grows)

lemma running_grows [grown]: "grows ok h (snd (container_running w rt name h))"
  unfolding container_running_def listed_running_def
  by (rule grows_then) (auto simp: split_beta intro: grown split: option.splits)

lemma state_and_running_grows [grown]: "grows ok h (snd (state_and_running w rt name h))"
  unfolding state_and_running_def
  by (rule grows_then) (auto simp: split_beta intro: grown split: option.splits)

lemma failure_grows [grown]:
  "grows ok h (snd (container_logs_summary w rt name h))"
  "grows ok h (snd (container_launch_failure_error w rt name reason h))"
  by (simp_all add: container_logs_summary_def container_launch_failure_error_def split_beta Let_def capture_grows)

lemma token_attempts_grows: "grows ok h (snd (token_attempts w rt name n h))"
proof (induction n arbitrary: h)
  case 0
  show ?case by (simp add: split_beta failure_grows)
next
  case (Suc n)
  have again: "grows ok h1 (snd (token_attempts w rt name n (h1 @ [Pause (millis 500)])))"
    "n = 0 \<Longrightarrow> grows ok h1 (snd (token_attempts w rt name 0 h1))" for h1
    using Suc.IH [of h1] grows_step [where P = ok, OF pause_ok Suc.IH, of h1] by simp_all
  show ?case
    unfolding token_attempts.simps
    by (rule grows_then)
       (auto simp del: token_attempts.simps intro!: grows_then running_grows failure_grows capture_grows grows_refl again
          split: option.split bool.split)
qed

lemma read_token_grows [grown]: "grows ok h (snd (read_token w rt name h))"
  by (simp add: read_token_def token_attempts_grows)

lemma exec_to_log_grows [grown]:
  assumes "ok (Command (runtime_bin rt) argv)"
  shows "grows ok h (snd (exec_to_log w rt argv log_file h))"
proof -
  let ?run = "\<lambda>h. case capture_command w rt argv h of
      (Inl e, h) \<Rightarrow> (Inl e, h)
    | (Inr out, h) \<Rightarrow>
        (if co_success out then Inr () else Inl (command_failed argv rt (''; full output was written to '' @ log_file)), h)"
  have run: "grows ok h (snd (?run h))" for h
    by (rule grows_then) (auto intro: capture_grows assms grows_refl split: sum.splits)
  have "grows ok h (snd (case cw_log_clone w log_file of Inl e \<Rightarrow> (Inl e, h @ [LogLine f t]) | Inr _ \<Rightarrow> ?run (h @ [LogLine f t])))" for f t
    by (rule grows_step [where P = ok, OF log_ok, of _ f t]) (use run in \<open>auto intro: grows_refl split: sum.splits\<close>)
  then show ?thesis
    unfolding exec_to_log_def exec_to_log_impl_def Let_def by (auto intro: grows_refl split: sum.splits)
qed

lemma start_daemon_grows [grown]: "grows ok h (snd (start_daemon w rt h))"
  by (simp add: start_daemon_def split_beta capture_grows grows_refl)

lemma build_image_grows [grown]: "grows ok h (snd (build_image w rt a backends img log_file h))"
proof -
  have build: "grows ok h1 (snd (case write_build_context w of Inl e \<Rightarrow> (Inl e, h1) | Inr ctx \<Rightarrow>
      (case exec_to_log w rt (build_args (cw_version w) img rt (Embedded ctx (target_triple rt (cw_arch w))) backends) log_file h1 of
         (Inl e, h) \<Rightarrow> (Inl (build_failed_error (target_triple rt (cw_arch w)) log_file (cw_log_text w h log_file)), h)
       | (Inr u, h) \<Rightarrow> (Inr u, h))))" for h1
    by (auto intro!: grows_then exec_to_log_grows grows_refl split: sum.split)
  show ?thesis
  proof (cases "ia_from_source a")
    case True
    then show ?thesis by (auto simp: build_image_def intro: exec_to_log_grows grows_refl split: sum.split)
  next
    case False
    have "grows ok h (snd (if ia_rebuild a then (True, h) else (case image_exists w rt img h of (ex, h) \<Rightarrow> (\<not> ex, h))))"
      by (simp add: image_exists_def split_beta succeeds_grows grows_refl)
    with False show ?thesis
      unfolding build_image_def Let_def if_not_P [OF False]
      by (rule_tac grows_then) (auto intro: build grows_refl split: bool.split)
  qed
qed

lemma validate_image_grows [grown]: "grows ok h (snd (validate_container_image_host_args w rt img args h))"
proof -
  have said: "grows ok h (snd (container_image_host_help w rt img h))" for h
    by (simp add: container_image_host_help_def split_beta capture_grows)
  show ?thesis
    unfolding validate_container_image_host_args_def
    by (auto intro!: grows_then said succeeds_grows grows_refl split: option.split bool.split)
qed

lemma status_parts_grow [grown]:
  "grows ok h (snd (read_status_token w rt s h))" "grows ok h (snd (note_exit w rt code s h))"
  by (auto simp: read_status_token_def note_exit_def intro!: grows_then read_token_grows failure_grows grows_refl split: sum.split)

end

text \<open>A policy that lets questions to a host through as well.\<close>

locale asking_policy = act_policy +
  assumes health_ok: "ok (AskHealth e t)"
    and capabilities_ok: "ok (AskCapabilities e t)"
begin

lemma ask_grows [grown]:
  "grows ok h (snd (ask_health w e t h))" "grows ok h (snd (ask_capabilities w e t h))"
  by (simp_all add: ask_health_def ask_capabilities_def Let_def grows_snoc grows_refl health_ok capabilities_ok)

lemma health_attempts_grows: "grows ok h (snd (health_attempts w rt name e token n u h))"
proof (induction n arbitrary: u h)
  case 0
  show ?case by (auto intro!: grows_then failure_grows grows_refl split: option.split)
next
  case (Suc n)
  have again: "grows ok h1 (snd (health_attempts w rt name e token n u (h1 @ [Pause (millis 500)])))"
    "n = 0 \<Longrightarrow> grows ok h1 (snd (health_attempts w rt name e token 0 u h1))" for h1 u
    using Suc.IH [of h1 u] grows_step [where P = ok, OF pause_ok Suc.IH, of h1] by simp_all
  show ?case
    unfolding health_attempts.simps Let_def
    by (rule grows_then)
       (auto simp del: health_attempts.simps intro!: grows_then running_grows failure_grows ask_grows grows_refl again
          split: sum.split bool.split)
qed

lemma wait_grows [grown]: "grows ok h (snd (wait_for_container_health w rt name port token h))"
  by (auto simp: wait_for_container_health_def intro: health_attempts_grows grows_refl split: sum.split)

lemma validate_running_grows [grown]: "grows ok h (snd (validate_running_hard_site w e token h))"
  unfolding validate_running_hard_site_def
  by (auto intro!: grows_then ask_grows grows_refl split: sum.split)

lemma check_installed_grows [grown]: "grows ok h (snd (check_installed w rt a backends img log_file h))"
  unfolding check_installed_def Let_def
  by (auto intro!: grows_then read_token_grows wait_grows validate_running_grows grows_refl split: sum.split)

end

subsection \<open>Which container is replaced or removed\<close>

text \<open>Commands that stop, remove or start the container of a name.\<close>

fun destructive :: "string \<Rightarrow> act \<Rightarrow> bool" where
  "destructive name (Command b argv) \<longleftrightarrow> argv \<in> {[''stop'', name], [''rm'', name]} \<or> take 2 argv = [''run'', ''-d'']"
| "destructive name _ \<longleftrightarrow> False"

fun question :: "act \<Rightarrow> bool" where
  "question (AskHealth e t) \<longleftrightarrow> True"
| "question (AskCapabilities e t) \<longleftrightarrow> True"
| "question _ \<longleftrightarrow> False"

interpretation quiet: act_policy "\<lambda>a. \<not> question a"
  by unfold_locales simp_all

interpretation sparing: asking_policy "\<lambda>a. \<not> destructive name a" for name
proof unfold_locales
  show "\<not> destructive name (Command b argv)" if "harmless argv" for b argv
    using that by (cases argv; cases "tl argv") (auto simp: harmless_def)
qed simp_all

interpretation anything: asking_policy "\<lambda>a. True"
  by unfold_locales simp_all

lemma after_prefix:
  assumes "xs @ d # ys = a @ i # rest" and "P d" and "list_all (\<lambda>x. \<not> P x) a" and "\<not> P i"
  shows "\<exists>p. xs = a @ i # p"
proof -
  from assms(1) obtain us where "xs = a @ us \<and> us @ d # ys = i # rest \<or> xs @ us = a \<and> d # ys = us @ i # rest"
    by (auto simp: append_eq_append_conv2)
  then show ?thesis
  proof
    assume us: "xs = a @ us \<and> us @ d # ys = i # rest"
    with assms show ?thesis by (cases us) auto
  next
    assume us: "xs @ us = a \<and> d # ys = us @ i # rest"
    with assms show ?thesis by (cases us) auto
  qed
qed

text \<open>What the check before a removal found: no image that is not afhttp's.\<close>

definition not_foreign :: "container_world \<Rightarrow> runtime \<Rightarrow> string \<Rightarrow> act list \<Rightarrow> bool" where
  "not_foreign w rt name h \<longleftrightarrow>
     (case fst (inspect_container_image w rt name h) of Some i \<Rightarrow> is_host_image i | None \<Rightarrow> True)"

lemma refuse_result:
  "snd (refuse_foreign_container w rt name h) = h @ [Command (runtime_bin rt) (inspect_arguments rt name)]"
  "isl (fst (refuse_foreign_container w rt name h)) \<longleftrightarrow> \<not> not_foreign w rt name h"
  by (simp_all add: refuse_foreign_container_def not_foreign_def inspect_container_image_def inspect_container_def
      capture_command_def Let_def split_beta split: option.split)

text \<open>The shape of a history in which a container may have been replaced: nothing destructive, the check, the rest.\<close>

definition guarded_history :: "container_world \<Rightarrow> string \<Rightarrow> act list \<Rightarrow> act list \<Rightarrow> bool" where
  "guarded_history w name h h' \<longleftrightarrow>
     grows (\<lambda>a. \<not> destructive name a) h h'
     \<or> (\<exists>rt h1. grows (\<lambda>a. \<not> destructive name a) h h1 \<and> not_foreign w rt name h1
          \<and> grows (\<lambda>a. True) (h1 @ [Command (runtime_bin rt) (inspect_arguments rt name)]) h')"

lemma guarded_destruction:
  assumes "guarded_history w name h (h @ pre @ d # post)" and "destructive name d"
  shows "\<exists>rt p1 p2. pre = p1 @ Command (runtime_bin rt) (inspect_arguments rt name) # p2 \<and> not_foreign w rt name (h @ p1)"
  using assms(1) unfolding guarded_history_def
proof
  assume "grows (\<lambda>a. \<not> destructive name a) h (h @ pre @ d # post)"
  with assms(2) show ?thesis by (auto simp: grows_def)
next
  assume "\<exists>rt h1. grows (\<lambda>a. \<not> destructive name a) h h1 \<and> not_foreign w rt name h1
      \<and> grows (\<lambda>a. True) (h1 @ [Command (runtime_bin rt) (inspect_arguments rt name)]) (h @ pre @ d # post)"
  then obtain rt a rest where h1: "list_all (\<lambda>x. \<not> destructive name x) a" "not_foreign w rt name (h @ a)"
    "pre @ d # post = a @ Command (runtime_bin rt) (inspect_arguments rt name) # rest"
    by (auto simp: grows_def)
  have "\<not> destructive name (Command (runtime_bin rt) (inspect_arguments rt name))"
    by (rule sparing.harmless_ok) simp
  from after_prefix [where P = "destructive name", OF h1(3) assms(2) h1(1) this] h1(2) show ?thesis by blast
qed

lemma guarded_by_check:
  assumes before: "grows (\<lambda>a. \<not> destructive name a) h h1"
    and after: "\<And>h2. grows (\<lambda>a. True) h2 (snd (k h2))"
  shows "guarded_history w name h (snd (case refuse_foreign_container w rt name h1 of (Inl e, h) \<Rightarrow> (Inl e, h) | (Inr _, h) \<Rightarrow> k h))"
proof (cases "refuse_foreign_container w rt name h1")
  case (Pair r h2)
  with refuse_result [of w rt name h1] have h2: "h2 = h1 @ [Command (runtime_bin rt) (inspect_arguments rt name)]"
    and r: "isl r \<longleftrightarrow> \<not> not_foreign w rt name h1" by simp_all
  have "grows (\<lambda>a. \<not> destructive name a) h h2"
    unfolding h2 by (rule grows_snoc [OF _ before]) (rule sparing.harmless_ok, simp)
  with Pair r before after [of h2] show ?thesis
    by (cases r) (auto simp: guarded_history_def h2)
qed

lemma guarded_before: "grows (\<lambda>a. \<not> destructive name a) h h1 \<Longrightarrow> guarded_history w name h1 h2 \<Longrightarrow> guarded_history w name h h2"
  unfolding guarded_history_def by (blast intro: grows_trans)

lemma guarded_plain: "grows (\<lambda>a. \<not> destructive name a) h h1 \<Longrightarrow> guarded_history w name h h1"
  by (simp add: guarded_history_def)

lemma guarded_then:
  assumes "guarded_history w name h (snd r)" and "\<And>x h'. r = (x, h') \<Longrightarrow> grows (\<lambda>a. \<not> destructive name a) h' (snd (k x h'))"
  shows "guarded_history w name h (snd (case r of (x, h') \<Rightarrow> k x h'))"
proof (cases r)
  case (Pair x h')
  with assms have "guarded_history w name h h'" and more: "grows (\<lambda>a. \<not> destructive name a) h' (snd (k x h'))" by auto
  moreover have "grows (\<lambda>a. True) h' (snd (k x h'))" using more by (rule grows_mono) simp
  ultimately show ?thesis using Pair unfolding guarded_history_def by (auto intro: grows_trans)
qed

lemma uninstall_guarded: "guarded_history w name h (snd (uninstall w explicit name purge h))"
proof -
  have purge: "grows (\<lambda>a. True) h (snd (purge_image w rt found h))" for rt found h
    unfolding purge_image_def
    by (rule grows_then) (auto intro: anything.succeeds_grows grows_snoc grows_refl split: sum.split)
  show ?thesis
  proof (cases "choose_runtime w explicit")
    case (Inl e)
    then show ?thesis by (simp add: uninstall_def guarded_plain [OF grows_refl])
  next
    case (Inr rt)
    then show ?thesis
      unfolding uninstall_def sum.case
      by simp (rule guarded_by_check [OF grows_refl],
        auto intro!: grows_then purge anything.capture_grows anything.succeeds_grows anything.inspect_grows grows_refl)
  qed
qed

lemma replace_guarded: "guarded_history w (ia_name a) h (snd (replace_container w rt a img log_file h))"
  unfolding replace_container_def
  by (intro guarded_by_check grows_refl)
     (auto intro!: grows_then anything.capture_grows anything.exec_to_log_grows grows_refl split: sum.split)

lemma install_guarded: "guarded_history w (ia_name args) h (snd (install w args h))"
proof -
  have name: "ia_name (apply_hard_site_defaults args) = ia_name args"
    by (simp add: apply_hard_site_defaults_def Let_def split: option.split)
  have rest: "guarded_history w (ia_name a) h (snd (case replace_container w rt a img log_file h of
      (Inl e, h) \<Rightarrow> (Inl e, h) | (Inr _, h) \<Rightarrow> check_installed w rt a backends img log_file h))" for rt a img log_file backends h
    by (rule guarded_then [OF replace_guarded]) (auto intro: sparing.check_installed_grows grows_refl split: sum.split)
  have checked: "guarded_history w (ia_name a) h (snd (case validate_container_image_host_args w rt img (ia_host_args a) h of
      (Inl e, h) \<Rightarrow> (Inl e, h)
    | (Inr _, h) \<Rightarrow> (case replace_container w rt a img log_file h of
        (Inl e, h) \<Rightarrow> (Inl e, h) | (Inr _, h) \<Rightarrow> check_installed w rt a backends img log_file h)))" for rt a img log_file backends h
    using sparing.validate_image_grows [of "ia_name a" h w rt img "ia_host_args a"]
    by (cases "validate_container_image_host_args w rt img (ia_host_args a) h")
       (auto intro: guarded_plain guarded_before [OF _ rest] split: sum.split)
  have built: "guarded_history w (ia_name a) h (snd (case build_image w rt a backends img log_file h of
      (Inl e, h) \<Rightarrow> (Inl e, h)
    | (Inr _, h) \<Rightarrow> (case validate_container_image_host_args w rt img (ia_host_args a) h of
        (Inl e, h) \<Rightarrow> (Inl e, h)
      | (Inr _, h) \<Rightarrow> (case replace_container w rt a img log_file h of
          (Inl e, h) \<Rightarrow> (Inl e, h) | (Inr _, h) \<Rightarrow> check_installed w rt a backends img log_file h))))" for rt a img log_file backends h
    using sparing.build_image_grows [of "ia_name a" h w rt a backends img log_file]
    by (cases "build_image w rt a backends img log_file h")
       (auto intro: guarded_plain guarded_before [OF _ checked] split: sum.split)
  let ?a = "apply_hard_site_defaults args"
  let ?b = "resolve_backends (ia_with ?a)"
  show ?thesis
  proof (cases "isl (validate_install_args ?a ?b) \<or> isl (choose_runtime w (ia_runtime ?a))
      \<or> isl (container_operation_log_file w (ia_name ?a))")
    case True
    then have "snd (install w args h) = h" by (auto simp: install_def Let_def isl_def split: sum.split)
    then show ?thesis by (simp add: guarded_plain [OF grows_refl])
  next
    case False
    then obtain rt log_file where ok: "validate_install_args ?a ?b = Inr ()" "choose_runtime w (ia_runtime ?a) = Inr rt"
      "container_operation_log_file w (ia_name ?a) = Inr log_file"
      by (auto simp: isl_def) (metis (full_types) obj_sumE old.unit.exhaust)
    obtain u h1 where daemon: "start_daemon w rt h = (u, h1)" by (cases "start_daemon w rt h")
    with sparing.start_daemon_grows [of "ia_name ?a" h w rt] have "grows (\<lambda>x. \<not> destructive (ia_name ?a) x) h h1" by simp
    from guarded_before [OF this built] ok daemon show ?thesis by (simp add: install_def Let_def name)
  qed
qed

text \<open>
  C35. A container that is not afhttp's is left alone. Whatever the runtime answers, before install or uninstall stops,
  removes or starts the container of a name, it has asked the runtime for the image of that very name, and the
  answer was no image of another program.
\<close>

theorem foreign_container_is_left_alone:
  assumes "snd (uninstall w explicit name purge h) = h @ pre @ d # post
         \<or> (ia_name args = name \<and> snd (install w args h) = h @ pre @ d # post)"
    and "destructive name d"
  shows "\<exists>rt p1 p2. pre = p1 @ Command (runtime_bin rt) (inspect_arguments rt name) # p2
    \<and> (case fst (inspect_container_image w rt name (h @ p1)) of Some i \<Rightarrow> is_host_image i | None \<Rightarrow> True)"
proof -
  from assms(1) have "guarded_history w name h (h @ pre @ d # post)"
    using uninstall_guarded [of w name h explicit purge] install_guarded [of w args h] by auto
  from guarded_destruction [OF this assms(2)] show ?thesis by (simp add: not_foreign_def)
qed

subsection \<open>Where a token is sent\<close>

definition asks_at :: "string set \<Rightarrow> act \<Rightarrow> bool" where
  "asks_at E a \<longleftrightarrow> (case a of AskHealth e t \<Rightarrow> e \<in> E | AskCapabilities e t \<Rightarrow> e \<in> E | _ \<Rightarrow> True)"

interpretation asking_at: act_policy "asks_at E" for E
  by unfold_locales (simp_all add: asks_at_def)

definition port_found :: "container_world \<Rightarrow> runtime \<Rightarrow> string \<Rightarrow> act list \<Rightarrow> nat option" where
  "port_found w rt name h = Option.bind (fst (inspect_container_state w rt name h)) ct_host_port"

lemma port_found_published:
  assumes "port_found w rt name h = Some p"
  shows "\<exists>v. fst (inspect_container w rt name h) = Some v \<and> published_host_port v = Some p"
  using assms
  by (auto simp: port_found_def inspect_container_state_def split_beta state_of_inspected_def bind_eq_Some_conv)

lemma state_and_running_port:
  "state_and_running w rt name h = ((st, running), h') \<Longrightarrow> Option.bind st ct_host_port = port_found w rt name h"
  by (auto simp: state_and_running_def port_found_def split_beta split: option.splits)

lemma ask_at:
  "e \<in> E \<Longrightarrow> grows (asks_at E) h (snd (ask_health w e t h))"
  "e \<in> E \<Longrightarrow> grows (asks_at E) h (snd (ask_capabilities w e t h))"
  by (simp_all add: ask_health_def ask_capabilities_def Let_def grows_snoc grows_refl asks_at_def)

abbreviation found_endpoint :: "container_world \<Rightarrow> runtime \<Rightarrow> string \<Rightarrow> act list \<Rightarrow> string set" where
  "found_endpoint w rt name h \<equiv> endpoint_url ` set_option (port_found w rt name h)"

lemma verify_at: "endpoint_url port \<in> E \<Longrightarrow> grows (asks_at E) h (snd (verify_local_host w port token h))"
  by (auto simp: verify_local_host_def Let_def intro!: grows_then ask_at grows_refl split: sum.split)

lemma verified_endpoint: "verify_local_host w port token h = (Inr host, h') \<Longrightarrow> lh_endpoint host = endpoint_url port"
  by (auto simp: verify_local_host_def Let_def split: sum.splits prod.splits if_splits)

lemma discover_at:
  assumes rt: "choose_runtime w None = Inr rt"
    and E: "E = found_endpoint w rt default_container_name h"
  shows "grows (asks_at E) h (snd (discover_default_local_host w tok h))"
    and "discover_default_local_host w tok h = (Inr host, h') \<Longrightarrow> lh_endpoint host \<in> E"
proof -
  obtain st running h1 where st: "state_and_running w rt default_container_name h = ((st, running), h1)"
    by (metis surj_pair)
  note port = state_and_running_port [OF st]
  have token: "grows (asks_at E') h1 (snd (read_token w rt default_container_name h1))" for E' by (rule asking_at.read_token_grows)
  have "grows (asks_at E) h h1" using asking_at.state_and_running_grows [of E h w rt default_container_name] st by simp
  moreover have "grows (asks_at E) h1 (snd (discover_default_local_host w tok h))"
    unfolding discover_default_local_host_def rt sum.case st prod.case port
    by (auto simp: E intro!: grows_then verify_at token grows_refl split: option.split sum.split)
  ultimately show "grows (asks_at E) h (snd (discover_default_local_host w tok h))" by (rule grows_trans)
  show "discover_default_local_host w tok h = (Inr host, h') \<Longrightarrow> lh_endpoint host \<in> E"
    unfolding discover_default_local_host_def rt sum.case st prod.case port
    by (auto simp: E dest: verified_endpoint split: option.splits sum.splits prod.splits if_splits)
qed

lemma discover_takeover_at:
  assumes rt: "choose_runtime w None = Inr rt"
  shows "grows (asks_at (found_endpoint w rt default_container_name h)) h (snd (discover_default_takeover_host w tok h))"
  unfolding discover_default_takeover_host_def
  by (rule grows_then [OF discover_at(1) [OF rt refl]])
     (auto intro!: grows_then ask_at discover_at(2) [OF rt refl] grows_refl split: sum.split)

lemma status_at:
  assumes rt: "choose_runtime w explicit = Inr rt"
  shows "grows (asks_at (found_endpoint w rt name h)) h (snd (status_result w explicit name reveal h))"
proof -
  let ?E = "found_endpoint w rt name h"
  obtain st running h1 where st: "state_and_running w rt name h = ((st, running), h1)" by (metis surj_pair)
  note port = state_and_running_port [OF st]
  have "grows (asks_at ?E) h h1" using asking_at.state_and_running_grows [of ?E h w rt name] st by simp
  moreover have asked: "grows (asks_at ?E) h2 (snd (ask_status w token s h2))" if "set_option (hs_endpoint s) \<subseteq> ?E" for token s h2
    using that unfolding ask_status_def
    by (auto intro!: grows_then ask_at grows_refl split: bool.split option.split sum.split)
  have kept: "hs_endpoint (note_token reveal p token (snd (fst (read_status_token w rt (status_base w rt name running p) h2)))) = map_option endpoint_url p" for p token h2
    by (simp add: note_token_def read_status_token_def status_base_def warn_status_def split_beta split: sum.split)
  have "grows (asks_at ?E) h1 (snd (status_result w explicit name reveal h))"
    unfolding status_result_def rt sum.case st prod.case port Let_def
  proof (rule grows_then [OF asking_at.status_parts_grow(1)])
    fix x h2
    assume read: "read_status_token w rt (status_base w rt name running (port_found w rt name h)) h1 = (x, h2)"
    show "grows (asks_at ?E) h2 (snd (case x of (token, s) \<Rightarrow>
        case ask_status w token (note_token reveal (port_found w rt name h) token s) h2 of
          (Inl e, h) \<Rightarrow> (Inl e, h)
        | (Inr s, h) \<Rightarrow> (case note_exit w rt (Option.bind st ct_exit_code) s h of (s, h) \<Rightarrow> (Inr s, h))))"
    proof (cases x)
      case (Pair token s)
      with read kept [of "port_found w rt name h" token h1]
      have "hs_endpoint (note_token reveal (port_found w rt name h) token s) = map_option endpoint_url (port_found w rt name h)" by simp
      then have "grows (asks_at ?E) h2 (snd (ask_status w token (note_token reveal (port_found w rt name h) token s) h2))"
        by (intro asked) (auto simp: option.set_map)
      then show ?thesis
        unfolding Pair prod.case
        by (rule grows_then) (auto intro!: grows_then asking_at.status_parts_grow grows_refl split: sum.split)
    qed
  qed
  ultimately show ?thesis by (blast intro: grows_trans)
qed

text \<open>
  C36. A token goes to the container's own published port and nowhere else. Every question that the discovery of the
  local host or \<open>container status\<close> asks, token or not, is asked at a loopback port which the runtime, asked for the
  very container, named as published for afhttp's listener; when it named none, nothing is asked.
\<close>

theorem token_goes_to_the_published_port:
  assumes "choose_runtime w explicit = Inr rt"
    and "explicit = None \<and> name = default_container_name \<and> snd (discover_default_takeover_host w token h) = h @ acts
       \<or> snd (status_result w explicit name reveal h) = h @ acts"
    and "AskHealth e t \<in> set acts \<or> AskCapabilities e t \<in> set acts"
  shows "\<exists>v port. fst (inspect_container w rt name h) = Some v \<and> published_host_port v = Some port
    \<and> e = ''ws://127.0.0.1:'' @ show_nat port"
proof -
  have "grows (asks_at (found_endpoint w rt name h)) h (h @ acts)"
    using assms(1,2) discover_takeover_at [of w rt h token] status_at [of w explicit rt name h reveal] by auto
  then have "list_all (asks_at (found_endpoint w rt name h)) acts" by (simp add: grows_def)
  with assms(3) have "e \<in> found_endpoint w rt name h" by (auto simp: list_all_iff asks_at_def)
  then obtain port where "port_found w rt name h = Some port" "e = endpoint_url port" by (auto simp: elem_set)
  with port_found_published show ?thesis by (fastforce simp: endpoint_url_def)
qed

subsection \<open>What a finished install has seen\<close>

lemma token_nonempty: "token_attempts w rt name n h = (Inr token, h') \<Longrightarrow> token \<noteq> []"
proof (induction n arbitrary: h)
  case (Suc n)
  then show ?case
    by (auto simp: split_beta token_of_output_def simp del: token_attempts.simps(1) split: option.splits sum.splits bool.splits if_splits)
qed (simp add: split_beta)

text \<open>A host that answered as this version and as well.\<close>

definition healthy_at :: "container_world \<Rightarrow> string \<Rightarrow> string \<Rightarrow> act list \<Rightarrow> bool" where
  "healthy_at w e token h \<longleftrightarrow>
     (\<exists>h1 health. h = h1 @ [AskHealth e (Some token)] \<and> cw_health w h = Inr health
        \<and> hr_version health = cw_version w \<and> hr_status health = ''ok'')"

lemma health_seen: "health_attempts w rt name e token n u h = (Inr (), h') \<Longrightarrow> healthy_at w e token h'"
proof (induction n arbitrary: u h)
  case (Suc n)
  obtain running h1 where run: "container_running w rt name h = (running, h1)" by (cases "container_running w rt name h")
  let ?h2 = "h1 @ [AskHealth e (Some token)]"
  have running
    using Suc.prems run by (cases running) (auto simp: split_beta)
  with Suc.prems run have "(let again = (\<lambda>u. health_attempts w rt name e token n u (if n = 0 then ?h2 else ?h2 @ [Pause (millis 500)]))
      in case cw_health w ?h2 of
           Inl e \<Rightarrow> again u
         | Inr health \<Rightarrow>
             if hr_version health \<noteq> cw_version w
             then (fail InternalError ''container host version mismatch after startup: host={}, driver={VERSION}'', ?h2)
             else if hr_status health = ''ok'' then (Inr (), ?h2) else again (unhappy_reading health)) = (Inr (), h')"
    by (simp add: ask_health_def Let_def)
  with Suc.IH show ?case
    by (auto simp: Let_def healthy_at_def split: sum.splits if_splits)
qed (auto simp: split_beta split: option.splits)

lemma wait_seen: "wait_for_container_health w rt name port token h = (Inr u, h') \<Longrightarrow> healthy_at w (endpoint_url port) token h'"
  by (auto simp: wait_for_container_health_def dest: health_seen split: sum.splits)

lemma validated_capabilities: "validate_hard_site_capabilities caps = Inr u \<longleftrightarrow> is_hard_site_capabilities caps"
  by (auto simp: validate_hard_site_capabilities_def is_hard_site_capabilities_def)

lemma takeover_seen:
  assumes "validate_running_hard_site w e token h = (Inr u, h')"
  shows "\<exists>h1 caps. healthy_at w e token h1 \<and> h' = h1 @ [AskCapabilities e (Some token)]
    \<and> cw_capabilities w h' = Inr caps \<and> is_hard_site_capabilities caps"
  using assms
  by (auto simp: validate_running_hard_site_def ask_health_def ask_capabilities_def Let_def healthy_at_def validated_capabilities
      split: sum.splits if_splits)

lemma check_installed_seen:
  assumes "check_installed w rt a backends img log_file h = (Inr r, h')"
  shows "\<exists>token. token \<noteq> [] \<and> ir_token_secret r = (if ia_reveal_token_secret a then Some token else None)
    \<and> ir_endpoint r = endpoint_url (ia_port a) \<and> ir_takeover_ready r = (ia_takeover a \<noteq> TakeoverOff)
    \<and> (if ia_takeover a = TakeoverOff then healthy_at w (endpoint_url (ia_port a)) token h'
       else \<exists>h1 caps. healthy_at w (endpoint_url (ia_port a)) token h1
              \<and> h' = h1 @ [AskCapabilities (endpoint_url (ia_port a)) (Some token)]
              \<and> cw_capabilities w h' = Inr caps \<and> is_hard_site_capabilities caps)"
proof -
  obtain token h1 h2 where t: "read_token w rt (ia_name a) h = (Inr token, h1)"
    and wait: "wait_for_container_health w rt (ia_name a) (ia_port a) token h1 = (Inr (), h2)"
    using assms by (auto simp: check_installed_def split: prod.splits sum.splits)
  have "token \<noteq> []" using t token_nonempty by (simp add: read_token_def)
  moreover note wait_seen [OF wait]
  ultimately show ?thesis
    using assms t wait takeover_seen [of w "endpoint_url (ia_port a)" token h2]
    by (cases "ia_takeover a")
       (auto simp: check_installed_def install_takeover_provider_def Let_def split: prod.splits sum.splits)
qed

text \<open>
  C37. An install that succeeds has a working host. Its endpoint is the loopback port asked for; the token read there is
  not empty and is shown only on request; with that token the host there answered, as the last thing asked about its
  health, with this very version and the status ok; and with takeover on, the capabilities asked for after that are
  those of a takeover host.
\<close>

theorem install_leaves_a_working_host:
  assumes "install w args h = (Inr r, h')"
  shows "\<exists>token. token \<noteq> [] \<and> ir_token_secret r = (if ia_reveal_token_secret args then Some token else None)
    \<and> ir_endpoint r = endpoint_url (ia_port args) \<and> ir_takeover_ready r = (ia_takeover args \<noteq> TakeoverOff)
    \<and> (if ia_takeover args = TakeoverOff then healthy_at w (endpoint_url (ia_port args)) token h'
       else \<exists>h1 caps. healthy_at w (endpoint_url (ia_port args)) token h1
              \<and> h' = h1 @ [AskCapabilities (endpoint_url (ia_port args)) (Some token)]
              \<and> cw_capabilities w h' = Inr caps \<and> is_hard_site_capabilities caps)"
proof -
  let ?a = "apply_hard_site_defaults args"
  have same: "ia_port ?a = ia_port args" "ia_takeover ?a = ia_takeover args" "ia_reveal_token_secret ?a = ia_reveal_token_secret args"
    by (simp_all add: apply_hard_site_defaults_def Let_def split: option.split)
  from assms obtain rt backends img log_file h1 where "check_installed w rt ?a backends img log_file h1 = (Inr r, h')"
    by (auto simp: install_def Let_def split: sum.splits prod.splits)
  from check_installed_seen [OF this] show ?thesis unfolding same .
qed

subsection \<open>What is written down of a command line\<close>

text \<open>
  The flags whose value may carry a credential, listed here on their own; and two command lines that differ in
  nothing but the values of such flags, in either spelling.
\<close>

definition credential_flags :: "string set" where
  "credential_flags = {''--engine-env'', ''--token-secret'', ''--proxy'', ''--proxy-url'', ''-e'', ''--env''}"

inductive same_but_credentials :: "string list \<Rightarrow> string list \<Rightarrow> bool" where
  no_args: "same_but_credentials [] []"
| same_arg: "arg \<notin> credential_flags \<Longrightarrow> same_but_credentials as bs \<Longrightarrow> same_but_credentials (arg # as) (arg # bs)"
| value_after: "flag \<in> credential_flags \<Longrightarrow> same_but_credentials as bs \<Longrightarrow>
    same_but_credentials (flag # v # as) (flag # v' # bs)"
| value_inside: "flag \<in> credential_flags \<Longrightarrow> same_but_credentials as bs \<Longrightarrow>
    same_but_credentials ((flag @ ''='' @ v) # as) ((flag @ ''='' @ v') # bs)"
| flag_alone: "flag \<in> credential_flags \<Longrightarrow> same_but_credentials [flag] [flag]"

lemma credential_flags_hidden: "set value_hidden_flags = credential_flags"
  by (simp add: value_hidden_flags_def credential_flags_def)

lemma hidden_flag_plain: "flag \<in> credential_flags \<Longrightarrow> CHR ''='' \<notin> set flag"
  by (auto simp: credential_flags_def)

lemma shown_same: "same_but_credentials as bs \<Longrightarrow> shown_args False as = shown_args False bs"
proof (induction rule: same_but_credentials.induct)
  case (value_after flag as bs v v')
  then show ?case by (simp add: split_once_none [OF hidden_flag_plain] credential_flags_hidden)
next
  case (value_inside flag as bs v v')
  then show ?case by (simp add: split_once_at [OF hidden_flag_plain] credential_flags_hidden)
qed (auto simp: credential_flags_hidden split: option.split)

fun log_line :: "act \<Rightarrow> string option" where
  "log_line (LogLine f t) = Some t"
| "log_line _ = None"

text \<open>
  C38. The values of the credential-bearing flags are not written down. Two command lines that differ only in the values of
  \<open>--engine-env\<close>, \<open>--token-secret\<close>, \<open>--proxy\<close>, \<open>--proxy-url\<close>, \<open>-e\<close> and \<open>--env\<close>, given as the next argument or
  after an equals sign, are shown as the same text, leave the same lines in the log and give the same error
  when the command fails. No other flag's value is hidden: one of \<open>--browser-arg\<close>, which may hold a proxy with its
  password, is shown (\<open>browser_arg_is_shown\<close> below).
\<close>

theorem command_line_hides_credentials:
  assumes "same_but_credentials as bs"
  shows "display_args as = display_args bs \<and> command_failed as rt rest = command_failed bs rt rest
    \<and> List.map_filter log_line (snd (exec_to_log w rt as log_file h)) = List.map_filter log_line (snd (exec_to_log w rt bs log_file h))"
proof -
  have shown: "display_args as = display_args bs" by (simp add: display_args_def shown_same [OF assms])
  moreover have "List.map_filter log_line (h1 @ [Command b as]) = List.map_filter log_line (h1 @ [Command b bs])" for h1 b
    by (simp add: map_filter_def)
  ultimately show ?thesis
    by (auto simp: command_failed_def exec_to_log_def exec_to_log_impl_def capture_command_def Let_def map_filter_def split: sum.split)
qed

subsection \<open>Concrete runs\<close>

text \<open>A runtime whose every command succeeds and a host that is well.\<close>

definition running_host :: json where
  "running_host = published_answer 9222 9333
     [(''State'', JObj [(''Running'', JBool True)]), (''ImageName'', JStr ''localhost/afhttp-host:1'')]"

definition well :: health_response where
  "well = \<lparr> hr_status = ''ok'', hr_version = ''1'', hr_build = None, hr_takeover = None, hr_uptime_s = 1, hr_backend = None,
     hr_backend_error = None, hr_profile = None, hr_tabs_active = 0, hr_capabilities_url = None \<rparr>"

definition demo_docker :: "json \<Rightarrow> container_world" where
  "demo_docker answer = \<lparr> cw_version = ''1'', cw_arch = ''x86_64'', cw_macos = False, cw_on_path = (\<lambda>b. b = ''docker''), cw_env = (\<lambda>_. None),
     cw_spawn = (\<lambda>_. Inr \<lparr> co_success = True, co_stdout = ''t'', co_stderr = [] \<rparr>),
     cw_health = (\<lambda>_. Inr well), cw_capabilities = (\<lambda>_. fail HostUnreachable []),
     cw_url_parse = (\<lambda>_. Some \<lparr> url_scheme = ''http'', url_host = Some ''127.0.0.1'', url_port = Some 9333, url_path = ''/'', url_text = [] \<rparr>),
     cw_http_builds = True, cw_json = (\<lambda>_. Some answer), cw_lossy = (\<lambda>s. s), cw_cache_dir = Some ''/c'',
     cw_private_dir = (\<lambda>_. Inr ()), cw_uuid = ''u'', cw_log = (\<lambda>_. Inr ()), cw_log_text = (\<lambda>_ _. []), cw_log_clone = (\<lambda>_. Inr ()),
     cw_header = (\<lambda>_. Inr ()), cw_stage = (\<lambda>_. Inr ()), cw_cwd = None, cw_manifest_dir = [], cw_is_file = (\<lambda>_. False),
     cw_tail = (\<lambda>_ _. fail IoError []), cw_log_len = (\<lambda>_ _. fail IoError []) \<rparr>"

lemma demo_inspect:
  "inspect_container (demo_docker v) rt name h =
     (if inspected_name_matches v name then Some v else None, h @ [Command (runtime_bin rt) (inspect_arguments rt name)])"
  by (simp add: inspect_container_def inspect_answer_def capture_command_def demo_docker_def)

lemma demo_runtime: "choose_runtime (demo_docker v) None = Inr Docker"
  by (simp add: choose_runtime_def resolve_runtime_def runtime_from_env_def map_filter_simps detect_with_def runtime_from_str_def demo_docker_def)

lemma running_host_reads:
  "inspected_name_matches running_host name" "published_host_port running_host = Some 9333"
  "container_image_reference running_host = Some ''localhost/afhttp-host:1''"
  "parse_container_state running_host = Some \<lparr> ct_running = True, ct_exit_code = None, ct_host_port = None \<rparr>"
proof -
  show "published_host_port running_host = Some 9333"
    unfolding running_host_def by (rule published_port_is_read_back) simp_all
qed (simp_all add: running_host_def published_answer_def inspected_name_matches_def first_or_self_def get_str_def get_bool_def
       container_image_reference_def str_at_path_def parse_container_state_def)

lemma demo_uninstall:
  "snd (uninstall (demo_docker running_host) None ''x'' False []) =
     [Command ''docker'' [''inspect'', ''--type'', ''container'', ''x'']] @ Command ''docker'' [''stop'', ''x''] # [Command ''docker'' [''rm'', ''x'']]"
proof -
  have "is_host_image ''localhost/afhttp-host:1''" by code_simp
  then show ?thesis
    by (simp add: uninstall_def demo_runtime refuse_foreign_container_def inspect_container_image_def demo_inspect running_host_reads
        succeeds_def capture_command_def split_beta inspect_arguments_def Let_def)
qed

lemma foreign_container_is_left_alone_witness:
  "\<exists>rt p1 p2. [Command ''docker'' [''inspect'', ''--type'', ''container'', ''x'']] = p1 @ Command (runtime_bin rt) (inspect_arguments rt ''x'') # p2"
proof -
  have "snd (uninstall (demo_docker running_host) None ''x'' False []) =
     [] @ [Command ''docker'' [''inspect'', ''--type'', ''container'', ''x'']] @ Command ''docker'' [''stop'', ''x''] # [Command ''docker'' [''rm'', ''x'']]"
    by (simp add: demo_uninstall)
  from foreign_container_is_left_alone [OF disjI1 [OF this]] show ?thesis by auto
qed

text \<open>
  Docker also resolves a container by the beginning of its id. The check then inspects a container of another name and
  discards the answer, as if there were none, but \<open>stop\<close> and \<open>rm\<close> act on that container.
\<close>

definition foreign_by_id :: json where
  "foreign_by_id = JArr [JObj [(''Name'', JStr ''/database''), (''ImageName'', JStr ''postgres:16''), (''State'', JObj [(''Running'', JBool True)])]]"

lemma id_prefix_is_stopped:
  "snd (uninstall (demo_docker foreign_by_id) None ''abc'' False []) =
     [Command ''docker'' [''inspect'', ''--type'', ''container'', ''abc''], Command ''docker'' [''stop'', ''abc''], Command ''docker'' [''rm'', ''abc'']]"
proof -
  have "\<not> inspected_name_matches foreign_by_id ''abc''" by code_simp
  then show ?thesis
    by (simp add: uninstall_def demo_runtime refuse_foreign_container_def inspect_container_image_def demo_inspect
        succeeds_def capture_command_def split_beta inspect_arguments_def Let_def)
qed

lemma demo_connect: "\<exists>c. connect_host (demo_docker v) (endpoint_url 9333) = Inr c"
proof -
  have host: "plain_host ''127.0.0.1''" by (simp add: plain_host_def plain_char_def byte_val_def)
  have "reads_authority (cw_url_parse (demo_docker v)) False ''127.0.0.1'' 9333 []"
    by (simp add: reads_authority_def demo_docker_def)
  from split_host_port_plain [OF this host] show ?thesis
    by (simp add: connect_host_def client_connect_def endpoint_parse_def endpoint_url_def demo_docker_def)
qed

lemma demo_state:
  "inspect_container_state (demo_docker running_host) rt name h =
     (Some \<lparr> ct_running = True, ct_exit_code = None, ct_host_port = Some 9333 \<rparr>, h @ [Command (runtime_bin rt) (inspect_arguments rt name)])"
  by (simp add: inspect_container_state_def demo_inspect running_host_reads state_of_inspected_def)

lemma demo_discovery:
  "\<exists>acts. snd (discover_default_takeover_host (demo_docker running_host) (Some ''t'') []) = [] @ acts
     \<and> AskHealth (endpoint_url 9333) (Some ''t'') \<in> set acts"
proof -
  obtain c where "connect_host (demo_docker running_host) (endpoint_url 9333) = Inr c" using demo_connect by blast
  moreover have "hr_version well = cw_version (demo_docker running_host)" "cw_health (demo_docker running_host) = (\<lambda>_. Inr well)"
    "hr_status well = ''ok''" by (simp_all add: well_def demo_docker_def)
  ultimately show ?thesis
    by (simp add: discover_default_takeover_host_def discover_default_local_host_def demo_runtime state_and_running_def demo_state
        verify_local_host_def ask_health_def ask_capabilities_def Let_def split: sum.split)
qed

lemma token_goes_to_the_published_port_witness:
  "\<exists>v port. fst (inspect_container (demo_docker running_host) Docker default_container_name []) = Some v
     \<and> published_host_port v = Some port \<and> endpoint_url 9333 = ''ws://127.0.0.1:'' @ show_nat port"
proof -
  obtain acts where "snd (discover_default_takeover_host (demo_docker running_host) (Some ''t'') []) = [] @ acts"
    "AskHealth (endpoint_url 9333) (Some ''t'') \<in> set acts" using demo_discovery by blast
  with token_goes_to_the_published_port [OF demo_runtime, where name = default_container_name] show ?thesis by blast
qed

definition demo_install :: install_args where
  "demo_install = \<lparr> ia_runtime = None, ia_name = ''x'', ia_port = 9333, ia_profile = None, ia_shm_size = None, ia_takeover = TakeoverOff,
     ia_with = [], ia_rebuild = False, ia_from_source = False, ia_context = None, ia_host_args = [], ia_reveal_token_secret = True \<rparr>"

lemma demo_capture:
  "capture_command (demo_docker v) rt argv h = (Inr \<lparr> co_success = True, co_stdout = ''t'', co_stderr = [] \<rparr>, h @ [Command (runtime_bin rt) argv])"
  by (simp add: capture_command_def demo_docker_def)

lemma demo_exec:
  "\<exists>h'. exec_to_log (demo_docker v) rt argv log_file h = (Inr (), h')"
proof -
  have "cw_log (demo_docker v) log_file = Inr ()" "cw_header (demo_docker v) log_file = Inr ()" "cw_log_clone (demo_docker v) log_file = Inr ()"
    by (simp_all add: demo_docker_def)
  then show ?thesis by (simp add: exec_to_log_def exec_to_log_impl_def demo_capture Let_def)
qed

lemma demo_running: "\<exists>h'. container_running (demo_docker running_host) rt name h = (True, h')"
  by (simp add: container_running_def demo_state)

lemma demo_token: "\<exists>h'. read_token (demo_docker v) rt name h = (Inr ''t'', h')"
proof -
  have "trim ''t'' = ''t''" by code_simp
  then have "token_of_output (demo_docker v) (Inr \<lparr> co_success = True, co_stdout = ''t'', co_stderr = [] \<rparr>) = Some ''t''"
    by (simp add: token_of_output_def demo_docker_def)
  then show ?thesis
    by (simp add: read_token_def demo_capture token_attempts.simps(2) [of _ _ _ "19", simplified] del: token_attempts.simps)
qed

lemma demo_wait: "\<exists>h'. wait_for_container_health (demo_docker running_host) rt name 9333 token h = (Inr (), h')"
proof -
  obtain c where "connect_host (demo_docker running_host) (endpoint_url 9333) = Inr c" using demo_connect by blast
  moreover obtain h1 where "container_running (demo_docker running_host) rt name h = (True, h1)" using demo_running by blast
  moreover have "hr_version well = cw_version (demo_docker running_host)" "cw_health (demo_docker running_host) = (\<lambda>_. Inr well)"
    "hr_status well = ''ok''" by (simp_all add: well_def demo_docker_def)
  ultimately show ?thesis
    by (simp add: wait_for_container_health_def health_attempts.simps(2) [of _ _ _ _ _ "29", simplified] ask_health_def Let_def
        del: health_attempts.simps)
qed

lemma demo_installed: "\<exists>r h'. install (demo_docker running_host) demo_install [] = (Inr r, h')"
proof -
  let ?w = "demo_docker running_host"
  have ok: "is_host_image ''localhost/afhttp-host:1''" by code_simp
  have plain: "apply_hard_site_defaults demo_install = demo_install" "validate_install_args demo_install (resolve_backends [])  = Inr ()"
    "ia_with demo_install = []" "ia_runtime demo_install = None" "install_takeover_provider demo_install = None" "ia_port demo_install = 9333"
    by (simp_all add: demo_install_def apply_hard_site_defaults_def validate_install_args_def install_takeover_provider_def effective_profile_def)
  have image: "\<exists>h'. build_image ?w Docker demo_install b img l h = (Inr (), h')" for b img l h
    by (simp add: build_image_def demo_install_def image_exists_def succeeds_def demo_capture)
  have args: "validate_container_image_host_args ?w Docker img (ia_host_args demo_install) h = (Inr (), h)" for img h
    by (simp add: validate_container_image_host_args_def host_args_need_takeover_support_def host_arg_value_def demo_install_def)
  have replaced: "\<exists>h'. replace_container ?w Docker demo_install img l h = (Inr (), h')" for img l h
    using demo_exec by (simp add: replace_container_def refuse_foreign_container_def inspect_container_image_def demo_inspect
        running_host_reads ok demo_capture)
  have checked: "\<exists>r h'. check_installed ?w Docker demo_install b img l h = (Inr r, h')" for b img l h
  proof -
    obtain h1 where "read_token ?w Docker (ia_name demo_install) h = (Inr ''t'', h1)" using demo_token by blast
    moreover obtain h2 where "wait_for_container_health ?w Docker (ia_name demo_install) 9333 ''t'' h1 = (Inr (), h2)" using demo_wait by blast
    ultimately show ?thesis by (simp add: check_installed_def plain)
  qed
  obtain l where log_file: "container_operation_log_file ?w (ia_name demo_install) = Inr l"
    by (simp add: container_operation_log_file_def container_log_dir_def demo_docker_def)
  obtain h1 where "build_image ?w Docker demo_install (resolve_backends []) (image_tag (cw_version ?w) (resolve_backends [])) l [] = (Inr (), h1)"
    using image by blast
  moreover obtain h2 where "replace_container ?w Docker demo_install (image_tag (cw_version ?w) (resolve_backends [])) l h1 = (Inr (), h2)"
    using replaced by blast
  ultimately show ?thesis
    using checked [of "resolve_backends []" "image_tag (cw_version ?w) (resolve_backends [])" l h2]
    by (simp add: install_def plain demo_runtime log_file start_daemon_def args Let_def)
qed

lemma install_leaves_a_working_host_witness:
  "\<exists>r h' token. install (demo_docker running_host) demo_install [] = (Inr r, h') \<and> token \<noteq> [] \<and> ir_token_secret r = Some token
     \<and> ir_endpoint r = endpoint_url 9333 \<and> healthy_at (demo_docker running_host) (endpoint_url 9333) token h'"
proof -
  obtain r h' where run: "install (demo_docker running_host) demo_install [] = (Inr r, h')" using demo_installed by blast
  from install_leaves_a_working_host [OF run] run show ?thesis by (auto simp: demo_install_def)
qed

lemma command_line_hides_credentials_witness:
  "display_args [''--browser'', ''brave'', ''--engine-env'', ''A=b'', ''--token-secret'', ''s'', ''--proxy'', ''p'', ''-e'', ''x'', ''--env=E=1'', ''--proxy-url=http://u:p@h''] =
   display_args [''--browser'', ''brave'', ''--engine-env'', ''C=d'', ''--token-secret'', ''t'', ''--proxy'', ''q'', ''-e'', ''y'', ''--env=F=2'', ''--proxy-url=http://v:q@g'']"
proof -
  have "same_but_credentials
      [''--browser'', ''brave'', ''--engine-env'', ''A=b'', ''--token-secret'', ''s'', ''--proxy'', ''p'', ''-e'', ''x'', ''--env'' @ ''='' @ ''E=1'', ''--proxy-url'' @ ''='' @ ''http://u:p@h'']
      [''--browser'', ''brave'', ''--engine-env'', ''C=d'', ''--token-secret'', ''t'', ''--proxy'', ''q'', ''-e'', ''y'', ''--env'' @ ''='' @ ''F=2'', ''--proxy-url'' @ ''='' @ ''http://v:q@g'']"
    by (intro same_but_credentials.intros) (simp_all add: credential_flags_def)
  from command_line_hides_credentials [OF this] show ?thesis by simp
qed

text \<open>A browser flag is an argument of the host as well, and its value is shown.\<close>

lemma browser_arg_is_shown:
  "display_args [''--browser-arg'', ''--proxy-server=http://user:pw@proxy''] = ''--browser-arg --proxy-server=http://user:pw@proxy''"
  by code_simp

end
