(* ===== verification/CliFetch.thy ===== *)
theory CliFetch
  imports ContainerFacts Deadline
begin

text \<open>
  \<open>afhttp fetch\<close> as a command (\<open>cli/cmd/fetch.rs\<close>, \<open>cli/connect.rs\<close>, \<open>cli/token_source.rs\<close>): which host it talks to and
  with which token, the profile of a takeover, the arguments that may hold a credential, the builder it makes and what
  becomes of the outcome. Sources of a token other than a container are the \<open>agent_first_data\<close> crate's, \<open>Url::parse\<close>,
  the public suffix list and the parser of \<open>Set-Cookie\<close> are crates; each is a field of the surroundings.
\<close>

subsection \<open>Surroundings\<close>

datatype value_source = HostSource string string | GeneralSource string

datatype parsed_host = DomainHost string | Ipv4Host string | Ipv6Host string

text \<open>
  \<open>fw_read_secret\<close> reads a general source (\<open>Inl\<close> the crate's message), \<open>fw_host\<close> is \<open>Url::parse\<close> followed by \<open>host\<close>,
  \<open>fw_psl\<close> is \<open>psl::domain_str\<close>, \<open>fw_inline\<close> starts an inline host (lazily or at once), \<open>fw_send\<close> is the outcome of
  \<open>send_detailed\<close> and \<open>fw_handoff\<close> that of minting a takeover URL.
\<close>

record handoff =
  ho_url_secret :: string
  ho_expires_at :: string
  ho_ttl_s :: nat
  ho_scope :: string

record fetch_world =
  fw_containers :: container_world
  fw_read_secret :: "string \<Rightarrow> string + string"
  fw_host :: "string \<Rightarrow> parsed_host option option"
  fw_psl :: "string \<Rightarrow> string option"
  fw_cookie :: "string \<Rightarrow> cookie option"
  fw_file :: "string \<Rightarrow> bytes option"
  fw_env_jar :: "string option"
  fw_inline :: "bool \<Rightarrow> client result"
  fw_send :: "fetch_builder \<Rightarrow> trace fetch_error + fetch_result"
  fw_handoff :: "client \<Rightarrow> string option \<Rightarrow> handoff result"

subsection \<open>Connections and tokens\<close>

definition container_scheme :: string where "container_scheme = ''container''"

definition read_source :: "fetch_world \<Rightarrow> value_source \<Rightarrow> string result run" where
  "read_source w src h =
     (case src of
        HostSource scheme v \<Rightarrow>
          if scheme = container_scheme then read_host_token (fw_containers w) v h
          else (fail InvalidArgument ''--token-secret {error}'', h)
      | GeneralSource s \<Rightarrow>
          (case fw_read_secret w s of
             Inl e \<Rightarrow> (fail InvalidArgument (''--token-secret '' @ e), h)
           | Inr token \<Rightarrow> (Inr token, h)))"

record connection =
  cn_endpoint :: "string option"
  cn_token :: "value_source option"

record resolved =
  rs_endpoint :: string
  rs_token :: "string option"

definition is_explicit :: "connection \<Rightarrow> bool" where
  "is_explicit c \<longleftrightarrow> cn_endpoint c \<noteq> None"

text \<open>\<open>self.token.as_ref().map(token_source::read).transpose()\<close>.\<close>

definition read_token_option :: "fetch_world \<Rightarrow> connection \<Rightarrow> string option result run" where
  "read_token_option w c h =
     (case cn_token c of
        None \<Rightarrow> (Inr None, h)
      | Some src \<Rightarrow> (case read_source w src h of (Inl e, h) \<Rightarrow> (Inl e, h) | (Inr t, h) \<Rightarrow> (Inr (Some t), h)))"

definition resolve :: "fetch_world \<Rightarrow> connection \<Rightarrow> resolved result run" where
  "resolve w c h =
     (case read_token_option w c h of
        (Inl e, h) \<Rightarrow> (Inl e, h)
      | (Inr token, h) \<Rightarrow>
         (case cn_endpoint c of
            Some endpoint \<Rightarrow> (Inr \<lparr> rs_endpoint = endpoint, rs_token = token \<rparr>, h)
          | None \<Rightarrow>
             (case discover_default_local_host (fw_containers w) token h of
                (Inl e, h) \<Rightarrow> (Inl e, h)
              | (Inr host, h) \<Rightarrow> (Inr \<lparr> rs_endpoint = lh_endpoint host, rs_token = lh_token host \<rparr>, h))))"

definition resolved_client :: "fetch_world \<Rightarrow> resolved \<Rightarrow> client result" where
  "resolved_client w r =
     and_then (connect_host (fw_containers w) (rs_endpoint r))
       (\<lambda>c. Inr (case rs_token r of Some t \<Rightarrow> with_token True t c | None \<Rightarrow> c))"

definition prepare_host :: "fetch_world \<Rightarrow> connection \<Rightarrow> bool \<Rightarrow> string option \<Rightarrow> resolved option result run" where
  "prepare_host w c takeover profile h =
     (case read_token_option w c h of
        (Inl e, h) \<Rightarrow> (Inl e, h)
      | (Inr token, h) \<Rightarrow>
         (case cn_endpoint c of
            Some endpoint \<Rightarrow> (Inr (Some \<lparr> rs_endpoint = endpoint, rs_token = token \<rparr>), h)
          | None \<Rightarrow>
             if \<not> takeover \<and> profile = None then (Inr None, h)
             else
               (case (if takeover then discover_default_takeover_host (fw_containers w) token h
                      else discover_default_local_host (fw_containers w) token h) of
                  (Inl e, h) \<Rightarrow> (Inl e, h)
                | (Inr host, h) \<Rightarrow>
                   (Inr (Some \<lparr> rs_endpoint = lh_endpoint host,
                                 rs_token = (case token of Some t \<Rightarrow> Some t | None \<Rightarrow> lh_token host) \<rparr>), h))))"

subsection \<open>The profile of a takeover\<close>

definition normalize_profile_host :: "string \<Rightarrow> string" where
  "normalize_profile_host host = to_ascii_lowercase (rev (dropWhile (\<lambda>c. c = CHR ''.'') (rev host)))"

definition default_profile_for_url :: "fetch_world \<Rightarrow> string \<Rightarrow> string result" where
  "default_profile_for_url w raw_url =
     (case fw_host w raw_url of
        None \<Rightarrow> fail InvalidArgument ''--takeover default profile needs a valid URL with a host; could not parse {raw_url:?}: {e}; pass --profile <name>''
      | Some None \<Rightarrow> fail InvalidArgument ''--takeover default profile needs URL {raw_url:?} to include a host; pass --profile <name>''
      | Some (Some host) \<Rightarrow>
         (let profile = (case host of
                           DomainHost d \<Rightarrow> (case fw_psl w (normalize_profile_host d) of Some p \<Rightarrow> p | None \<Rightarrow> normalize_profile_host d)
                         | Ipv4Host a \<Rightarrow> a
                         | Ipv6Host a \<Rightarrow> a)
          in case validate_name profile of
               Inl e \<Rightarrow> fail (error_code e) (''derived --takeover profile {profile:?} from URL host {normalized_host:?} is invalid: ''
                          @ detail e @ ''; pass --profile <name>'')
             | Inr _ \<Rightarrow> Inr profile))"

subsection \<open>Arguments that may hold a credential\<close>

definition parse_header_arg :: "string \<Rightarrow> (string \<times> string) result" where
  "parse_header_arg raw =
     (case split_once CHR '':'' raw of
        None \<Rightarrow> fail InvalidArgument ''--header: expected NAME:VALUE, with a colon separating them''
      | Some (name, v) \<Rightarrow>
         if trim name = [] then fail InvalidArgument ''--header: the header name before the colon must not be empty''
         else Inr (trim name, trim_start v))"

definition parse_cookie_arg :: "fetch_world \<Rightarrow> string \<Rightarrow> cookie result" where
  "parse_cookie_arg w raw =
     (if CHR ''='' \<notin> set raw
      then fail InvalidArgument ''--cookie: expected Set-Cookie style NAME=VALUE, with an equals sign separating them''
      else (case fw_cookie w raw of
              None \<Rightarrow> fail InvalidArgument ''--cookie: not a parseable Set-Cookie value''
            | Some c \<Rightarrow>
               if trim (ck_name c) = []
               then fail InvalidArgument ''--cookie: the cookie name before the equals sign must not be empty''
               else Inr c))"

definition parse_form_arg :: "string \<Rightarrow> (string \<times> string) result" where
  "parse_form_arg raw =
     (case split_once CHR ''='' raw of
        None \<Rightarrow> fail InvalidArgument ''--form: expected KEY=VALUE, with an equals sign separating them''
      | Some kv \<Rightarrow> Inr kv)"

definition parse_artifact :: "string \<Rightarrow> artifact option" where
  "parse_artifact token =
     map_of [(''body'', ABody), (''rendered_html'', RenderedHtml), (''text'', Text), (''content'', Content),
             (''content_json'', ContentJson), (''screenshot'', Screenshot), (''network'', Network), (''console'', Console),
             (''observation'', Observation), (''storage'', Storage)] token"

definition resolve_want :: "string list \<Rightarrow> artifact list option" where
  "resolve_want want = (if want = [] then None else Some (List.map_filter parse_artifact want))"

definition explicit_jar_needs_a_host_profile :: "bool \<Rightarrow> unit result" where
  "explicit_jar_needs_a_host_profile has_host =
     (if has_host then Inr ()
      else fail InvalidArgument ''--cookie-jar/AFHTTP_COOKIE_JAR names a host profile's cookie jar, and this fetch has no host profile: the jar is profile-internal, never an arbitrary path. Pass --endpoint-url and --profile to use a profile's jar, or drop --cookie-jar'')"


subsection \<open>The builder\<close>

record fetch_args =
  fa_url :: string
  fa_connection :: connection
  fa_render :: render_mode
  fa_tab :: string
  fa_takeover :: bool
  fa_profile :: "string option"
  fa_wait :: string
  fa_headers :: "string list"
  fa_cookies :: "string list"
  fa_user_agent :: "string option"
  fa_evaluate_after_wait :: "string list"
  fa_want :: "string list"
  fa_method :: string
  fa_data :: "string option"
  fa_form :: "string list"
  fa_network_bodies :: network_bodies
  fa_network_body_max_bytes :: nat
  fa_readiness_idle_ms :: nat
  fa_readiness_stable_ms :: nat
  fa_readiness_min_text_bytes :: nat
  fa_no_network_redact :: bool
  fa_out :: "path option"
  fa_cookie_jar :: "path option"
  fa_no_cookie_jar :: bool
  fa_observe_main_wait_ms :: nat
  fa_max_response_bytes :: nat
  fa_retry :: nat
  fa_backoff_ms :: nat
  fa_proxy :: "string option"
  fa_ca_cert :: "path option"
  fa_tls_insecure :: bool
  fa_timeout_ms :: nat
  fa_capture_ws :: bool
  fa_capture_sse :: bool

definition resolve_body :: "fetch_world \<Rightarrow> fetch_args \<Rightarrow> bytes option result" where
  "resolve_body w a =
     (case fa_data a of
        None \<Rightarrow> Inr None
      | Some text \<Rightarrow>
         (case strip_prefix ''@'' text of
            Some p \<Rightarrow> (case fw_file w p of Some bytes \<Rightarrow> Inr (Some bytes) | None \<Rightarrow> fail IoError (''--data @'' @ p @ '': {e}''))
          | None \<Rightarrow> Inr (Some (map of_char text))))"

definition build_client :: "fetch_world \<Rightarrow> resolved option \<Rightarrow> render_mode \<Rightarrow> client result" where
  "build_client w host render =
     (case host of
        Some r \<Rightarrow> resolved_client w r
      | None \<Rightarrow>
         if render = RenderNone then client_http_only (cw_url_parse (fw_containers w)) (cw_http_builds (fw_containers w))
         else fw_inline w (render = RenderAuto))"

definition apply_if :: "bool \<Rightarrow> ('b \<Rightarrow> 'b) \<Rightarrow> 'b \<Rightarrow> 'b" where
  "apply_if c f x = (if c then f x else x)"

definition apply_some :: "'v option \<Rightarrow> ('v \<Rightarrow> 'b \<Rightarrow> 'b) \<Rightarrow> 'b \<Rightarrow> 'b" where
  "apply_some v f x = (case v of Some y \<Rightarrow> f y x | None \<Rightarrow> x)"

definition first_options :: "fetch_args \<Rightarrow> wait \<Rightarrow> bytes option \<Rightarrow> fetch_builder \<Rightarrow> fetch_builder" where
  "first_options a w body b =
     apply_some body set_body
       (apply_some (resolve_want (fa_want a)) set_want
         (set_method (fa_method a) (network_redact (\<not> fa_no_network_redact a)
           (readiness_min_text_bytes (fa_readiness_min_text_bytes a) (readiness_stable_ms (fa_readiness_stable_ms a)
             (readiness_idle_ms (fa_readiness_idle_ms a) (network_body_max_bytes (fa_network_body_max_bytes a)
               (set_network_bodies (fa_network_bodies a) (set_timeout (millis (fa_timeout_ms a)) (set_wait w
                 (set_render (fa_render a) b)))))))))))"

definition credential_options ::
  "(string \<times> string) list \<Rightarrow> (string \<times> string) list \<Rightarrow> cookie list \<Rightarrow> fetch_builder \<Rightarrow> fetch_builder" where
  "credential_options form headers cookies b =
     fold add_cookie_full cookies (fold (\<lambda>(n, v). add_header n v) headers (fold (\<lambda>(k, v). add_form_field k v) form b))"

definition last_options :: "fetch_args \<Rightarrow> fetch_builder \<Rightarrow> fetch_builder" where
  "last_options a b =
     apply_if (fa_capture_sse a) (set_capture_sse True) (apply_if (fa_capture_ws a) (set_capture_ws True)
       (apply_if (fa_tls_insecure a) (set_tls_insecure True) (apply_some (fa_ca_cert a) set_ca_cert (apply_some (fa_proxy a) set_proxy
         (set_backoff_ms (fa_backoff_ms a) (set_retry (fa_retry a) (set_max_response_bytes (fa_max_response_bytes a)
           (set_observe_main_wait_ms (fa_observe_main_wait_ms a) (apply_some (fa_out a) set_out_dir
             (apply_if (fa_takeover a) (set_keep_tab_open True) (apply_if (fa_tab a \<noteq> ''new'') (set_tab (fa_tab a))
               (fold add_evaluate_after_wait (fa_evaluate_after_wait a) (apply_some (fa_user_agent a) set_user_agent b)))))))))))))"

definition jar_option :: "fetch_world \<Rightarrow> fetch_args \<Rightarrow> bool \<Rightarrow> fetch_builder \<Rightarrow> fetch_builder result" where
  "jar_option w a has_host b =
     (if fa_no_cookie_jar a then Inr (no_cookie_jar b)
      else
        (let jar = (case fa_cookie_jar a of
                      Some p \<Rightarrow> Some p
                    | None \<Rightarrow> (case fw_env_jar w of Some v \<Rightarrow> if v \<noteq> [] then Some (parse_path v) else None | None \<Rightarrow> None))
         in case jar of
              None \<Rightarrow> Inr b
            | Some p \<Rightarrow> and_then (explicit_jar_needs_a_host_profile has_host) (\<lambda>_. Inr (set_cookie_jar p b))))"

definition fetch_builder_of ::
  "fetch_world \<Rightarrow> fetch_args \<Rightarrow> resolved option \<Rightarrow> string option \<Rightarrow> fetch_builder result" where
  "fetch_builder_of w a host profile =
     and_then (wait_parse (fa_wait a)) (\<lambda>wait.
     and_then (resolve_body w a) (\<lambda>body.
     and_then (build_client w host (fa_render a)) (\<lambda>client.
     and_then (try_map parse_form_arg (fa_form a)) (\<lambda>form.
     and_then (try_map parse_header_arg (fa_headers a)) (\<lambda>headers.
     and_then (try_map (parse_cookie_arg w) (fa_cookies a)) (\<lambda>cookies.
       jar_option w a (host \<noteq> None)
         (last_options a (credential_options form headers cookies
           (first_options a wait body (builder_new (apply_some profile (with_profile True) client) (fa_url a)))))))))))"

subsection \<open>The run\<close>

datatype cli_outcome =
    Finished fetch_result bool
  | FetchFailed error trace
  | Rejected error

definition takeover_recommended_endpoint :: "string option \<Rightarrow> bool \<Rightarrow> string option" where
  "takeover_recommended_endpoint endpoint preconfigured = (if preconfigured then endpoint else None)"

definition mint_handoff :: "fetch_world \<Rightarrow> string \<Rightarrow> string option \<Rightarrow> string option \<Rightarrow> handoff result" where
  "mint_handoff w endpoint token tab =
     and_then (resolved_client w \<lparr> rs_endpoint = endpoint, rs_token = token \<rparr>) (\<lambda>c. fw_handoff w c tab)"

definition retain_after_handoff_failure :: "error \<Rightarrow> fetch_result \<Rightarrow> fetch_result" where
  "retain_after_handoff_failure e r =
     r\<lparr> warnings := warnings r @ [\<lparr> w_artifact = RenderedHtml, w_code = error_code e,
         w_detail = ''takeover URL unavailable; tab_id and captured artifacts retained for manual review: '' @ detail e \<rparr>] \<rparr>"

definition with_takeover :: "fetch_world \<Rightarrow> fetch_args \<Rightarrow> resolved \<Rightarrow> fetch_result \<Rightarrow> fetch_result" where
  "with_takeover w a host r =
     (let recommended = takeover_recommended_endpoint (Some (rs_endpoint host)) (is_explicit (fa_connection a));
          r = prepare_takeover_retry recommended (fa_profile a) r
      in case mint_handoff w (rs_endpoint host) (rs_token host) (fr_tab_id r) of
           Inr ho \<Rightarrow> attach_takeover_with_context (ho_url_secret ho) (Some (ho_expires_at ho)) (Some (ho_ttl_s ho)) (Some (ho_scope ho))
                       recommended (fa_profile a) r
         | Inl e \<Rightarrow> retain_after_handoff_failure e r)"

definition finish_fetch :: "fetch_world \<Rightarrow> fetch_args \<Rightarrow> resolved option \<Rightarrow> fetch_builder \<Rightarrow> cli_outcome" where
  "finish_fetch w a host b =
     (case fw_send w b of
        Inl e \<Rightarrow> FetchFailed (into_error e) (fe_trace e)
      | Inr r \<Rightarrow>
         Finished (if fa_takeover a \<and> fr_next_action r \<noteq> None
                   then (case host of Some hst \<Rightarrow> with_takeover w a hst r | None \<Rightarrow> r) else r) (fa_takeover a))"

definition fetch_profile :: "fetch_world \<Rightarrow> fetch_args \<Rightarrow> string option result" where
  "fetch_profile w a =
     (case fa_profile a of
        Some p \<Rightarrow> Inr (Some p)
      | None \<Rightarrow> if fa_takeover a then and_then (default_profile_for_url w (fa_url a)) (\<lambda>p. Inr (Some p)) else Inr None)"

definition fetch_command :: "fetch_world \<Rightarrow> fetch_args \<Rightarrow> cli_outcome run" where
  "fetch_command w a h =
     (case fetch_profile w a of
        Inl e \<Rightarrow> (Rejected e, h)
      | Inr profile \<Rightarrow>
         (case prepare_host w (fa_connection a) (fa_takeover a) profile h of
            (Inl e, h) \<Rightarrow> (Rejected e, h)
          | (Inr host, h) \<Rightarrow>
             (case fetch_builder_of w a host profile of
                Inl e \<Rightarrow> (Rejected e, h)
              | Inr b \<Rightarrow> (finish_fetch w a host b, h))))"


subsection \<open>Properties\<close>

text \<open>What the errors about header, cookie and form arguments can say: five fixed texts, nothing of the argument.\<close>

lemma credential_arguments_are_never_quoted:
  "parse_header_arg raw = Inl e \<Longrightarrow> detail e \<in> {''--header: expected NAME:VALUE, with a colon separating them'',
     ''--header: the header name before the colon must not be empty''}"
  "parse_cookie_arg w raw = Inl e \<Longrightarrow> detail e \<in> {''--cookie: expected Set-Cookie style NAME=VALUE, with an equals sign separating them'',
     ''--cookie: not a parseable Set-Cookie value'', ''--cookie: the cookie name before the equals sign must not be empty''}"
  "parse_form_arg raw = Inl e \<Longrightarrow> detail e = ''--form: expected KEY=VALUE, with an equals sign separating them''"
  by (auto simp: parse_header_arg_def parse_cookie_arg_def parse_form_arg_def split: option.splits if_splits)

text \<open>A derived profile is a valid name, the same for every spelling of the host.\<close>

lemma derived_profile_is_valid: "default_profile_for_url w u = Inr p \<Longrightarrow> validate_name p = Inr ()"
  by (auto simp: default_profile_for_url_def Let_def split: option.splits parsed_host.splits sum.splits)

lemma derived_profile_is_per_site:
  assumes "fw_host w u = Some (Some (DomainHost d))" "fw_host w u' = Some (Some (DomainHost d'))"
    and "normalize_profile_host d = normalize_profile_host d'"
  shows "default_profile_for_url w u = default_profile_for_url w u'"
  by (simp only: default_profile_for_url_def assms option.case parsed_host.case)

text \<open>
  C40. A fetch goes where the caller says, with the caller's token. Only a fetch that names no host and wants neither a
  takeover nor a profile has none; a host that is named is the one used, nothing is looked for, and it gets the
  caller's token or none, never that of a container; a token the caller gives is the one any host gets; and only
  without one does a host that was found get its own.
\<close>

theorem fetch_goes_where_the_caller_says:
  assumes "prepare_host w c takeover profile h = (Inr r, h')"
  shows "(r = None \<longleftrightarrow> cn_endpoint c = None \<and> \<not> takeover \<and> profile = None)
    \<and> (cn_endpoint c \<noteq> None \<or> r = None \<longrightarrow> h' = snd (read_token_option w c h))
    \<and> (\<exists>token. fst (read_token_option w c h) = Inr token
         \<and> (case r of None \<Rightarrow> True
            | Some host \<Rightarrow>
                (case cn_endpoint c of
                   Some e \<Rightarrow> rs_endpoint host = e \<and> rs_token host = token
                 | None \<Rightarrow> (\<exists>found. rs_endpoint host = lh_endpoint found
                              \<and> rs_token host = (if token = None then lh_token found else token)
                              \<and> fst (if takeover then discover_default_takeover_host (fw_containers w) token (snd (read_token_option w c h))
                                     else discover_default_local_host (fw_containers w) token (snd (read_token_option w c h))) = Inr found))))"
proof -
  obtain t h1 where read: "read_token_option w c h = (t, h1)" by (cases "read_token_option w c h")
  with assms obtain token where t: "t = Inr token" by (cases t) (auto simp: prepare_host_def)
  show ?thesis
  proof (cases "cn_endpoint c")
    case (Some e)
    with assms read t show ?thesis by (auto simp: prepare_host_def)
  next
    case None
    with assms read t show ?thesis
      by (auto simp: prepare_host_def split: if_splits prod.splits sum.splits option.splits)
  qed
qed

definition demo_fetch_world :: fetch_world where
  "demo_fetch_world = \<lparr> fw_containers = demo_docker running_host, fw_read_secret = (\<lambda>_. Inr ''t''), fw_host = (\<lambda>_. None),
     fw_psl = (\<lambda>_. None), fw_cookie = (\<lambda>_. None), fw_file = (\<lambda>_. None), fw_env_jar = None,
     fw_inline = (\<lambda>_. Inr (demo_client True)), 
     fw_send = (\<lambda>_. Inl (fetch_error_new (error_new IoError []) (empty_trace TraceAuto 0 []))), fw_handoff = (\<lambda>_ _. fail CdpUnavailable []) \<rparr>"

lemma fetch_goes_where_the_caller_says_witness:
  "\<exists>w c r. prepare_host w c True None [] = (Inr (Some r), []) \<and> rs_endpoint r = ''ws://h:1'' \<and> rs_token r = Some ''t''"
proof -
  let ?w = "demo_fetch_world"
  let ?c = "\<lparr> cn_endpoint = Some ''ws://h:1'', cn_token = Some (GeneralSource ''x'') \<rparr>"
  let ?r = "\<lparr> rs_endpoint = ''ws://h:1'', rs_token = Some ''t'' \<rparr>"
  have read: "read_token_option ?w ?c [] = (Inr (Some ''t''), [])"
    by (simp add: read_token_option_def read_source_def demo_fetch_world_def)
  then have run: "prepare_host ?w ?c True None [] = (Inr (Some ?r), [])" by (simp add: prepare_host_def)
  from fetch_goes_where_the_caller_says [OF this] read run show ?thesis by fastforce
qed

subsection \<open>The builder holds the caller's options\<close>

lemma fold_add_form_field:
  "fold (\<lambda>(k, v). add_form_field k v) kvs b = b\<lparr> b_request := (b_request b)\<lparr> ro_form := ro_form (b_request b) @ kvs \<rparr> \<rparr>"
  by (induction kvs arbitrary: b) (auto simp: add_form_field_def)

lemma fold_add_header:
  "fold (\<lambda>(n, v). add_header n v) hs b = b\<lparr> b_request := (b_request b)\<lparr> ro_headers := ro_headers (b_request b) @ hs \<rparr> \<rparr>"
  by (induction hs arbitrary: b) (auto simp: add_header_def)

lemma fold_add_cookie_full:
  "fold add_cookie_full cs b = b\<lparr> b_request := (b_request b)\<lparr> ro_cookies := ro_cookies (b_request b) @ cs \<rparr> \<rparr>"
  by (induction cs arbitrary: b) (auto simp: add_cookie_full_def)

lemma fold_add_evaluate:
  "fold add_evaluate_after_wait js b =
     b\<lparr> b_request := (b_request b)\<lparr> ro_evaluate_after_wait := ro_evaluate_after_wait (b_request b) @ js \<rparr> \<rparr>"
  by (induction js arbitrary: b) (auto simp: add_evaluate_after_wait_def)

lemmas setter_defs =
  set_render_def set_wait_def set_timeout_def readiness_idle_ms_def readiness_stable_ms_def readiness_min_text_bytes_def
  set_observe_main_wait_ms_def set_want_def set_tab_def set_keep_tab_open_def set_network_bodies_def set_user_agent_def
  set_method_def set_body_def set_cookie_jar_def no_cookie_jar_def set_retry_def set_backoff_ms_def set_proxy_def
  set_ca_cert_def set_tls_insecure_def set_max_response_bytes_def network_body_max_bytes_def network_redact_def
  set_capture_ws_def set_capture_sse_def set_out_dir_def builder_new_def

lemma builder_new_rest:
  "tls_insecure (b_http (builder_new c u)) = False" "cj_path (b_cookie_jar (builder_new c u)) = None"
  by (simp_all add: builder_new_def)

lemma first_options_request:
  "b_request (first_options a w body (builder_new c u)) =
     \<lparr> ro_headers = [], ro_user_agent = None, ro_cookies = [], ro_evaluate_after_wait = [], ro_method = Some (fa_method a),
       ro_body = body, ro_form = [] \<rparr>"
  by (cases body; cases "resolve_want (fa_want a)") (simp_all add: first_options_def apply_some_def setter_defs)

lemma first_options_rest:
  "b_url (first_options a w body (builder_new c u)) = u" "b_client (first_options a w body (builder_new c u)) = c"
  "b_render (first_options a w body (builder_new c u)) = fa_render a" "b_wait (first_options a w body (builder_new c u)) = w"
  "b_timeout (first_options a w body (builder_new c u)) = millis (fa_timeout_ms a)"
  "b_keep_tab_open (first_options a w body (builder_new c u)) = False"
  "redact (b_network (first_options a w body (builder_new c u))) = (\<not> fa_no_network_redact a)"
  "b_http (first_options a w body (builder_new c u)) = b_http (builder_new c u)"
  "b_cookie_jar (first_options a w body (builder_new c u)) = b_cookie_jar (builder_new c u)"
  by (cases body; cases "resolve_want (fa_want a)"; simp add: first_options_def apply_some_def setter_defs)+

lemma last_options_request:
  "b_request (last_options a b) =
     (b_request b)\<lparr> ro_user_agent := (case fa_user_agent a of Some u \<Rightarrow> Some u | None \<Rightarrow> ro_user_agent (b_request b)),
                     ro_evaluate_after_wait := ro_evaluate_after_wait (b_request b) @ fa_evaluate_after_wait a \<rparr>"
  by (cases "fa_user_agent a"; cases "fa_ca_cert a"; cases "fa_proxy a"; cases "fa_out a")
     (simp_all add: last_options_def apply_some_def apply_if_def fold_add_evaluate setter_defs)

lemma last_options_rest:
  "b_url (last_options a b) = b_url b" "b_client (last_options a b) = b_client b" "b_render (last_options a b) = b_render b"
  "b_wait (last_options a b) = b_wait b" "b_timeout (last_options a b) = b_timeout b"
  "b_keep_tab_open (last_options a b) = (fa_takeover a \<or> b_keep_tab_open b)" "b_cookie_jar (last_options a b) = b_cookie_jar b"
  "redact (b_network (last_options a b)) = redact (b_network b)"
  "tls_insecure (b_http (last_options a b)) = (fa_tls_insecure a \<or> tls_insecure (b_http b))"
  "proxy (b_http (last_options a b)) = (case fa_proxy a of Some p \<Rightarrow> Some p | None \<Rightarrow> proxy (b_http b))"
  by (cases "fa_user_agent a"; cases "fa_ca_cert a"; cases "fa_proxy a"; cases "fa_out a";
      simp add: last_options_def apply_some_def apply_if_def fold_add_evaluate setter_defs)+


text \<open>
  The command makes the fetch its arguments describe. The headers, cookies and form fields of the request are
  exactly the parsed arguments, in their order; address, render mode, wait, method, body, scripts, redaction and TLS checks
  are the caller's; the tab stays open for a takeover only; and a cookie jar is named only with a host to hold it.
\<close>

theorem command_makes_the_callers_fetch:
  assumes "fetch_builder_of w a host profile = Inr b"
  shows "try_map parse_header_arg (fa_headers a) = Inr (ro_headers (b_request b))
    \<and> try_map (parse_cookie_arg w) (fa_cookies a) = Inr (ro_cookies (b_request b))
    \<and> try_map parse_form_arg (fa_form a) = Inr (ro_form (b_request b))
    \<and> resolve_body w a = Inr (ro_body (b_request b)) \<and> wait_parse (fa_wait a) = Inr (b_wait b)
    \<and> ro_method (b_request b) = Some (fa_method a) \<and> ro_evaluate_after_wait (b_request b) = fa_evaluate_after_wait a
    \<and> b_url b = fa_url a \<and> b_render b = fa_render a \<and> b_timeout b = millis (fa_timeout_ms a)
    \<and> redact (b_network b) = (\<not> fa_no_network_redact a) \<and> tls_insecure (b_http b) = fa_tls_insecure a
    \<and> b_keep_tab_open b = fa_takeover a
    \<and> (cj_path (b_cookie_jar b) \<noteq> None \<longrightarrow> host \<noteq> None \<and> \<not> fa_no_cookie_jar a)
    \<and> (\<exists>c. build_client w host (fa_render a) = Inr c \<and> cl_token (b_client b) = cl_token c \<and> cl_endpoint (b_client b) = cl_endpoint c)"
proof -
  obtain wt body c form headers cookies where parsed: "wait_parse (fa_wait a) = Inr wt" "resolve_body w a = Inr body"
    "build_client w host (fa_render a) = Inr c" "try_map parse_form_arg (fa_form a) = Inr form"
    "try_map parse_header_arg (fa_headers a) = Inr headers" "try_map (parse_cookie_arg w) (fa_cookies a) = Inr cookies"
    and jar: "jar_option w a (host \<noteq> None) (last_options a (credential_options form headers cookies
        (first_options a wt body (builder_new (apply_some profile (with_profile True) c) (fa_url a))))) = Inr b"
    using assms by (auto simp: fetch_builder_of_def and_then_Inr)
  let ?b = "last_options a (credential_options form headers cookies
        (first_options a wt body (builder_new (apply_some profile (with_profile True) c) (fa_url a))))"
  have same: "b = ?b\<lparr> b_cookie_jar := b_cookie_jar b \<rparr>"
    and path: "cj_path (b_cookie_jar b) \<noteq> None \<Longrightarrow> cj_path (b_cookie_jar ?b) = None \<Longrightarrow> host \<noteq> None \<and> \<not> fa_no_cookie_jar a"
    using jar
    by (auto simp: jar_option_def Let_def no_cookie_jar_def set_cookie_jar_def explicit_jar_needs_a_host_profile_def and_then_Inr
        split: option.splits if_splits)
  have fresh: "cj_path (b_cookie_jar ?b) = None"
    by (simp add: last_options_rest credential_options_def fold_add_cookie_full fold_add_header fold_add_form_field first_options_rest
        builder_new_rest)
  have request: "b_request b = b_request ?b" "b_url b = b_url ?b" "b_render b = b_render ?b" "b_timeout b = b_timeout ?b"
    "b_wait b = b_wait ?b" "b_network b = b_network ?b" "b_http b = b_http ?b" "b_keep_tab_open b = b_keep_tab_open ?b" "b_client b = b_client ?b"
    by (subst same, simp)+
  show ?thesis
    unfolding request
    using parsed path fresh
    by (auto simp: last_options_request last_options_rest credential_options_def fold_add_cookie_full fold_add_header
        fold_add_form_field first_options_request first_options_rest builder_new_rest apply_some_def
        with_profile_def split: option.split)
qed

definition demo_fetch_args :: fetch_args where
  "demo_fetch_args = \<lparr> fa_url = ''https://a.test/'', fa_connection = \<lparr> cn_endpoint = None, cn_token = None \<rparr>, fa_render = RenderAuto,
     fa_tab = ''new'', fa_takeover = False, fa_profile = None, fa_wait = ''load'', fa_headers = [''A: b''], fa_cookies = [],
     fa_user_agent = None, fa_evaluate_after_wait = [], fa_want = [], fa_method = ''POST'', fa_data = Some ''x'', fa_form = [''k=v''],
     fa_network_bodies = BodiesOff, fa_network_body_max_bytes = 1, fa_readiness_idle_ms = 1, fa_readiness_stable_ms = 1,
     fa_readiness_min_text_bytes = 1, fa_no_network_redact = False, fa_out = None, fa_cookie_jar = None, fa_no_cookie_jar = False,
     fa_observe_main_wait_ms = 1, fa_max_response_bytes = 1, fa_retry = 0, fa_backoff_ms = 0, fa_proxy = None, fa_ca_cert = None,
     fa_tls_insecure = False, fa_timeout_ms = 5, fa_capture_ws = False, fa_capture_sse = False \<rparr>"

lemma command_makes_the_callers_fetch_witness:
  "\<exists>w b. fetch_builder_of w demo_fetch_args None None = Inr b \<and> ro_headers (b_request b) = [(''A'', ''b'')]
     \<and> ro_form (b_request b) = [(''k'', ''v'')] \<and> cj_path (b_cookie_jar b) = None"
proof -
  let ?w = "demo_fetch_world"
  have parsed: "parse_header_arg ''A: b'' = Inr (''A'', ''b'')" "parse_form_arg ''k=v'' = Inr (''k'', ''v'')"
    "wait_parse ''load'' = Inr WaitLoad" by code_simp+
  have "\<exists>b. fetch_builder_of ?w demo_fetch_args None None = Inr b"
    by (simp add: fetch_builder_of_def demo_fetch_args_def parsed resolve_body_def build_client_def jar_option_def)
       (simp add: demo_fetch_world_def)
  then obtain b where run: "fetch_builder_of ?w demo_fetch_args None None = Inr b" by blast
  from command_makes_the_callers_fetch [OF run] have
    "try_map parse_header_arg (fa_headers demo_fetch_args) = Inr (ro_headers (b_request b))"
    "try_map parse_form_arg (fa_form demo_fetch_args) = Inr (ro_form (b_request b))" "cj_path (b_cookie_jar b) = None" by auto
  with run parsed show ?thesis by (auto simp: demo_fetch_args_def)
qed

end
