(* ===== verification/CdpRun.thy ===== *)
theory CdpRun
  imports Session Deadline
begin

text \<open>
  Running the browser path: what one fetch does on a CDP connection while its clock runs. A task reads and
  changes the run (the clock, the shared deadline, the commands sent so far) and ends with a result,
  or is dropped by an enclosing \<open>tokio::time::timeout\<close>, whose end is the task's \<open>cutoff\<close>.
  \<open>cdp_send\<close> and the staged calls of \<open>pipeline/browser/mod.rs\<close> and \<open>sdk/fetch/deadline.rs\<close> are tasks.
\<close>

text \<open>
  What the code awaits with no limit of its own: the lock of the inline host, which is held while a browser is
  launched, and the operations on files. The run keeps an account of them and of the time each took.
\<close>

datatype open_wait = HostLock | MakeDir | ListDir | WriteFile

record run =
  rs_now :: instant
  rs_deadline :: fetch_deadline
  rs_sent :: "command list"
  rs_waits :: "(open_wait \<times> duration) list"

type_synonym ('a, 'z) task = "instant \<Rightarrow> 'z run_scheme \<Rightarrow> 'a result option \<times> 'z run_scheme"

subsection \<open>Composing tasks\<close>

definition give :: "'a result \<Rightarrow> ('a, 'z) task" where
  "give r cutoff s = (Some r, s)"

text \<open>\<open>match t.await { .. }\<close>.\<close>

definition settle_with :: "('a, 'z) task \<Rightarrow> ('a result \<Rightarrow> ('b, 'z) task) \<Rightarrow> ('b, 'z) task" where
  "settle_with t k cutoff s =
     (case t cutoff s of (None, s) \<Rightarrow> (None, s) | (Some r, s) \<Rightarrow> k r cutoff s)"

text \<open>\<open>t.await?\<close>.\<close>

definition and_next :: "('a, 'z) task \<Rightarrow> ('a \<Rightarrow> ('b, 'z) task) \<Rightarrow> ('b, 'z) task" where
  "and_next t k = settle_with t (\<lambda>r. case r of Inl e \<Rightarrow> give (Inl e) | Inr v \<Rightarrow> k v)"

definition reading :: "('z run_scheme \<Rightarrow> 'a) \<Rightarrow> ('a \<Rightarrow> ('b, 'z) task) \<Rightarrow> ('b, 'z) task" where
  "reading g k cutoff s = k (g s) cutoff s"

definition change :: "('z run_scheme \<Rightarrow> 'z run_scheme) \<Rightarrow> (unit, 'z) task" where
  "change f cutoff s = (Some (Inr ()), f s)"

text \<open>A wait on something outside the connection: its outcome and how long it takes.\<close>

definition wait_out :: "'a result \<times> duration \<Rightarrow> ('a, 'z) task" where
  "wait_out out cutoff s =
     (if rs_now s + snd out \<le> cutoff then (Some (fst out), s\<lparr> rs_now := rs_now s + snd out \<rparr>)
      else (None, s\<lparr> rs_now := max (rs_now s) cutoff \<rparr>))"

text \<open>The same for a wait of the account; the outer timer may end this one, too.\<close>

definition await_open :: "open_wait \<Rightarrow> 'a result \<times> duration \<Rightarrow> ('a, 'z) task" where
  "await_open what out cutoff s =
     (case wait_out out cutoff s of (r, s') \<Rightarrow> (r, s'\<lparr> rs_waits := (what, rs_now s' - rs_now s) # rs_waits s \<rparr>))"

definition on_deadline :: "(fetch_deadline \<Rightarrow> fetch_deadline) \<Rightarrow> (unit, 'z) task" where
  "on_deadline f = change (\<lambda>s. s\<lparr> rs_deadline := f (rs_deadline s) \<rparr>)"

subsection \<open>Commands\<close>

text \<open>
  \<open>Connection::send_timeout\<close>: the command goes out; its answer, or a timeout error once the limit has passed.
\<close>

definition cdp_call :: "cdp_peer \<Rightarrow> string option \<Rightarrow> string \<Rightarrow> json \<Rightarrow> duration \<Rightarrow> (json, 'z) task" where
  "cdp_call peer sid m p limit cutoff s =
     (case peer ((sid, m, p) # rs_sent s) of
        (r, d) \<Rightarrow> wait_out (if d \<le> limit then r else fail CdpTimeout (''CDP '' @ m @ '': timeout''), min d limit)
                    cutoff (s\<lparr> rs_sent := (sid, m, p) # rs_sent s \<rparr>))"

definition rest_of :: "string \<Rightarrow> (duration, 'z) task" where
  "rest_of stg cutoff s =
     (case remaining (rs_now s) stg (rs_deadline s) of (r, d) \<Rightarrow> (Some r, s\<lparr> rs_deadline := d \<rparr>))"

definition cdp_send :: "cdp_peer \<Rightarrow> string \<Rightarrow> string \<Rightarrow> json \<Rightarrow> string \<Rightarrow> (json, 'z) task" where
  "cdp_send peer sid m p stg = and_next (rest_of stg) (\<lambda>limit. cdp_call peer (Some sid) m p limit)"

definition cdp_send_no_session :: "cdp_peer \<Rightarrow> string \<Rightarrow> json \<Rightarrow> string \<Rightarrow> (json, 'z) task" where
  "cdp_send_no_session peer m p stg = and_next (rest_of stg) (\<lambda>limit. cdp_call peer None m p limit)"

text \<open>\<open>conn.send(..)\<close>: awaited for as long as the enclosing stage lets it.\<close>

definition cdp_await :: "cdp_peer \<Rightarrow> string option \<Rightarrow> string \<Rightarrow> json \<Rightarrow> (json, 'z) task" where
  "cdp_await peer sid m p cutoff s =
     (case peer ((sid, m, p) # rs_sent s) of
        out \<Rightarrow> wait_out out cutoff (s\<lparr> rs_sent := (sid, m, p) # rs_sent s \<rparr>))"

subsection \<open>Stages\<close>

text \<open>
  \<open>FetchDeadline::run_result\<close> around a task: the task is dropped when the fetch's time is up, and what it
  did until then stays done.
\<close>

definition stage :: "string \<Rightarrow> error_code \<Rightarrow> ('a, 'z) task \<Rightarrow> ('a, 'z) task" where
  "stage name code t cutoff s =
     (case begin_stage (rs_now s) name (rs_deadline s) of
        (Inl e, d) \<Rightarrow> (Some (Inl e), s\<lparr> rs_deadline := d \<rparr>)
      | (Inr token, d) \<Rightarrow>
         (case remaining_without_stage_update (rs_now s) d of
            (Inl e, d) \<Rightarrow> (Some (Inl e), s\<lparr> rs_deadline := d \<rparr>)
          | (Inr rest, d) \<Rightarrow>
             (let ends = rs_now s + rest;
                  finish = (\<lambda>st s. s\<lparr> rs_deadline := finish_stage (rs_now s) token st (rs_deadline s) \<rparr>)
              in case t (min cutoff ends) (s\<lparr> rs_deadline := d \<rparr>) of
                   (Some (Inr v), s) \<Rightarrow> (Some (Inr v), finish StageOk s)
                 | (Some (Inl err), s) \<Rightarrow> (Some (Inl err), finish (status_for_error (error_code err)) s)
                 | (None, s) \<Rightarrow>
                     if cutoff < ends then (None, s)
                     else (Some (fail code ''fetch timed out after {}ms during {stage}''), finish StageTimeout s))))"

subsection \<open>Promptness\<close>

text \<open>
  A task is prompt when it never runs past its cutoff, ends without a result only when the cutoff has come, keeps the
  fetch's clock and the recorder's health as they are, and only adds to what was sent and to the account of waits.
\<close>

definition same_budget :: "fetch_deadline \<Rightarrow> fetch_deadline \<Rightarrow> bool" where
  "same_budget d d' \<longleftrightarrow> dl_started d' = dl_started d \<and> dl_timeout d' = dl_timeout d \<and> dl_poisoned d' = dl_poisoned d"

definition moves :: "'z run_scheme \<Rightarrow> 'z run_scheme \<Rightarrow> bool" where
  "moves s s' \<longleftrightarrow> rs_now s \<le> rs_now s' \<and> same_budget (rs_deadline s) (rs_deadline s')
     \<and> (\<exists>more. rs_sent s' = more @ rs_sent s) \<and> (\<exists>more. rs_waits s' = more @ rs_waits s)"

definition prompt :: "('a, 'z) task \<Rightarrow> bool" where
  "prompt t \<longleftrightarrow> (\<forall>cutoff s r s'. t cutoff s = (r, s') \<longrightarrow>
     moves s s' \<and> rs_now s' \<le> max (rs_now s) cutoff \<and> (r = None \<longrightarrow> cutoff \<le> rs_now s'))"

named_theorems prompts

lemma same_budget_refl [simp]: "same_budget d d" by (simp add: same_budget_def)

lemma same_budget_trans: "same_budget a b \<Longrightarrow> same_budget b c \<Longrightarrow> same_budget a c"
  by (simp add: same_budget_def)

lemma moves_refl [simp]: "moves s s" by (simp add: moves_def)

lemma moves_trans: "moves a b \<Longrightarrow> moves b c \<Longrightarrow> moves a c"
  unfolding moves_def by (metis append.assoc le_trans same_budget_trans)

lemma same_budget_ops [simp]:
  "same_budget d (set_stage n d)" "same_budget d (update_trace f d)"
  "same_budget d (mark_current_stage now st d)" "same_budget d (finish_stage now tk st d)"
  by (auto simp: same_budget_def set_stage_def update_trace_def mark_current_stage_def finish_stage_def Let_def
      split: option.splits)

lemma same_budget_rest:
  assumes "remaining_without_stage_update now d = (r, d')" shows "same_budget d d'"
  using assms unfolding remaining_without_stage_update_def timeout_error_def
  by (cases "dl_timeout d \<le> now - dl_started d") (auto simp: Let_def)

lemma same_budget_remaining:
  assumes "remaining now n d = (r, d')" shows "same_budget d d'"
  using assms same_budget_rest same_budget_trans [OF same_budget_ops(1)] unfolding remaining_def by blast

lemma same_budget_begin:
  assumes "begin_stage now n d = (t, d')" shows "same_budget d d'"
proof (cases "dl_poisoned d")
  case False
  with assms show ?thesis by (auto simp: begin_stage_def Let_def same_budget_def split: if_splits)
qed (use assms in \<open>simp add: begin_stage_def\<close>)

lemma promptI:
  assumes "\<And>cutoff s r s'. t cutoff s = (r, s') \<Longrightarrow>
    moves s s' \<and> rs_now s' \<le> max (rs_now s) cutoff \<and> (r = None \<longrightarrow> cutoff \<le> rs_now s')"
  shows "prompt t"
  using assms by (simp add: prompt_def)

lemma promptD:
  assumes "prompt t" and "t cutoff s = (r, s')"
  shows "moves s s'" and "rs_now s' \<le> max (rs_now s) cutoff" and "r = None \<Longrightarrow> cutoff \<le> rs_now s'"
  using assms by (auto simp: prompt_def)

lemma prompt_give [prompts]: "prompt (give r)"
  by (simp add: prompt_def give_def)

lemma prompt_settle [prompts]:
  assumes t: "prompt t" and k: "\<And>r. prompt (k r)"
  shows "prompt (settle_with t k)"
proof (rule promptI)
  fix cutoff s r s' assume run: "settle_with t k cutoff s = (r, s')"
  obtain r1 s1 where a: "t cutoff s = (r1, s1)" by (cases "t cutoff s")
  note first = promptD [OF t a]
  show "moves s s' \<and> rs_now s' \<le> max (rs_now s) cutoff \<and> (r = None \<longrightarrow> cutoff \<le> rs_now s')"
  proof (cases r1)
    case None with run a first show ?thesis by (simp add: settle_with_def)
  next
    case (Some v)
    with run a have "k v cutoff s1 = (r, s')" by (simp add: settle_with_def)
    from promptD [OF k this] first show ?thesis by (auto intro: moves_trans)
  qed
qed

lemma prompt_next [prompts]: "prompt t \<Longrightarrow> (\<And>v. prompt (k v)) \<Longrightarrow> prompt (and_next t k)"
  unfolding and_next_def by (intro prompt_settle) (auto intro: prompt_give split: sum.split)

lemma prompt_reading [prompts]: "(\<And>v. prompt (k v)) \<Longrightarrow> prompt (reading g k)"
  unfolding prompt_def reading_def by blast

lemma prompt_change [prompts]: "(\<And>s. moves s (f s)) \<Longrightarrow> (\<And>s. rs_now (f s) = rs_now s) \<Longrightarrow> prompt (change f)"
  by (auto simp: prompt_def change_def)

lemma prompt_wait [prompts]: "prompt (wait_out out)"
  by (auto simp: prompt_def wait_out_def moves_def)

lemma prompt_await_open [prompts]: "prompt (await_open what out)"
  by (auto simp: prompt_def await_open_def wait_out_def moves_def)

lemma prompt_on_deadline [prompts]: "(\<And>d. same_budget d (f d)) \<Longrightarrow> prompt (on_deadline f)"
  unfolding on_deadline_def by (rule prompt_change) (auto simp: moves_def)

lemma prompt_sending:
  assumes "prompt (w :: ('a, 'z) task)"
  shows "prompt (\<lambda>cutoff s. w cutoff (s\<lparr> rs_sent := c # rs_sent s \<rparr>))"
proof (rule promptI)
  fix cutoff s r s' assume "w cutoff (s\<lparr> rs_sent := c # rs_sent s \<rparr>) = (r, s')"
  from promptD [OF assms this] show "moves s s' \<and> rs_now s' \<le> max (rs_now s) cutoff \<and> (r = None \<longrightarrow> cutoff \<le> rs_now s')"
    by (auto simp: moves_def)
qed

lemma prompt_call [prompts]: "prompt (cdp_call peer sid m p limit)"
proof (rule promptI)
  fix cutoff s r s' assume run: "cdp_call peer sid m p limit cutoff (s :: 'b run_scheme) = (r, s')"
  obtain out where "wait_out out cutoff (s\<lparr> rs_sent := (sid, m, p) # rs_sent s \<rparr>) = (r, s')"
    using run by (auto simp: cdp_call_def split: prod.splits)
  from promptD [OF prompt_sending [OF prompt_wait] this]
  show "moves s s' \<and> rs_now s' \<le> max (rs_now s) cutoff \<and> (r = None \<longrightarrow> cutoff \<le> rs_now s')" by simp
qed

lemma prompt_await [prompts]: "prompt (cdp_await peer sid m p)"
proof (rule promptI)
  fix cutoff s r s' assume "cdp_await peer sid m p cutoff (s :: 'a run_scheme) = (r, s')"
  then have "wait_out (peer ((sid, m, p) # rs_sent s)) cutoff (s\<lparr> rs_sent := (sid, m, p) # rs_sent s \<rparr>) = (r, s')"
    by (simp add: cdp_await_def)
  from promptD [OF prompt_sending [OF prompt_wait] this]
  show "moves s s' \<and> rs_now s' \<le> max (rs_now s) cutoff \<and> (r = None \<longrightarrow> cutoff \<le> rs_now s')" by simp
qed

lemma prompt_rest [prompts]: "prompt (rest_of stg)"
  by (auto simp: prompt_def rest_of_def moves_def dest: same_budget_remaining split: prod.splits)

lemma prompt_send [prompts]: "prompt (cdp_send peer sid m p stg)"
  unfolding cdp_send_def by (intro prompts)

lemma prompt_send_no_session [prompts]: "prompt (cdp_send_no_session peer m p stg)"
  unfolding cdp_send_no_session_def by (intro prompts)

text \<open>A staged task also ends with the fetch's own budget, whatever the task does.\<close>

definition ends_at :: "fetch_deadline \<Rightarrow> instant" where
  "ends_at d = dl_started d + dl_timeout d"

lemma ends_at_same: "same_budget d d' \<Longrightarrow> ends_at d' = ends_at d"
  by (simp add: same_budget_def ends_at_def)

lemma rest_left:
  "remaining_without_stage_update now d = (Inr n, d') \<Longrightarrow> now - dl_started d < dl_timeout d \<and> dl_timeout d - (now - dl_started d) = n \<and> d = d'"
  by (auto simp: remaining_without_stage_update_def timeout_error_def Let_def not_le split: if_splits)

lemma stage_cases:
  assumes "stage name code t cutoff s = (r, s')"
  obtains (refused) e d where "r = Some (Inl e)" "s' = s\<lparr> rs_deadline := d \<rparr>" "same_budget (rs_deadline s) d"
  | (ran) rest d r1 s1 st token where "same_budget (rs_deadline s) d" "dl_timeout d > rs_now s - dl_started d"
      "rest = dl_timeout d - (rs_now s - dl_started d)"
      "t (min cutoff (rs_now s + rest)) (s\<lparr> rs_deadline := d \<rparr>) = (r1, s1)"
      "r = r1 \<and> (r1 = None \<longrightarrow> cutoff < rs_now s + rest)
        \<or> (r1 = None \<and> rs_now s + rest \<le> cutoff \<and> (\<exists>msg. r = Some (fail code msg)))"
      "s' = s1 \<or> s' = s1\<lparr> rs_deadline := finish_stage (rs_now s1) token st (rs_deadline s1) \<rparr>"
proof -
  obtain b d1 where bgn: "begin_stage (rs_now s) name (rs_deadline s) = (b, d1)" by (cases "begin_stage (rs_now s) name (rs_deadline s)")
  note d1 = same_budget_begin [OF bgn]
  show ?thesis
  proof (cases b)
    case (Inl e)
    with assms bgn d1 show ?thesis by (intro refused) (auto simp: stage_def)
  next
    case (Inr token)
    show ?thesis
    proof (cases "dl_timeout d1 \<le> rs_now s - dl_started d1")
      case True
      then obtain e d2 where "remaining_without_stage_update (rs_now s) d1 = (Inl e, d2)"
        by (auto simp: remaining_without_stage_update_def timeout_error_def)
      with assms bgn Inr same_budget_trans [OF d1 same_budget_rest [OF this]] show ?thesis
        by (intro refused [of e d2]) (auto simp: stage_def)
    next
      case False
      define rest where "rest = dl_timeout d1 - (rs_now s - dl_started d1)"
      obtain r1 s1 where run: "t (min cutoff (rs_now s + rest)) (s\<lparr> rs_deadline := d1 \<rparr>) = (r1, s1)"
        by (cases "t (min cutoff (rs_now s + rest)) (s\<lparr> rs_deadline := d1 \<rparr>)")
      have rem: "remaining_without_stage_update (rs_now s) d1 = (Inr rest, d1)"
        using False by (simp add: remaining_without_stage_update_def rest_def)
      show ?thesis
      proof (rule ran [OF d1 _ rest_def run])
        show "dl_timeout d1 > rs_now s - dl_started d1" using False by simp
        show "r = r1 \<and> (r1 = None \<longrightarrow> cutoff < rs_now s + rest)
            \<or> (r1 = None \<and> rs_now s + rest \<le> cutoff \<and> (\<exists>msg. r = Some (fail code msg)))"
          using assms bgn Inr rem run by (auto simp: stage_def Let_def not_less split: option.splits sum.splits if_splits)
        show "s' = s1 \<or> s' = s1\<lparr> rs_deadline := finish_stage (rs_now s1) token
            (case r1 of Some (Inr _) \<Rightarrow> StageOk | Some (Inl e) \<Rightarrow> status_for_error (error_code e) | None \<Rightarrow> StageTimeout)
            (rs_deadline s1) \<rparr>"
          using assms bgn Inr rem run by (auto simp: stage_def Let_def split: option.splits sum.splits if_splits)
      qed
    qed
  qed
qed

lemma prompt_stage [prompts]:
  assumes t: "prompt t" shows "prompt (stage name code t)"
proof (rule promptI)
  fix cutoff s r s' assume run: "stage name code t cutoff s = (r, s')"
  from run show "moves s s' \<and> rs_now s' \<le> max (rs_now s) cutoff \<and> (r = None \<longrightarrow> cutoff \<le> rs_now s')"
  proof (cases rule: stage_cases)
    case (ran rest d r1 s1 st token)
    from promptD [OF t ran(4)] ran(1) have "moves s s1" "rs_now s1 \<le> max (rs_now s) cutoff"
      by (auto simp: moves_def dest: same_budget_trans)
    moreover have "cutoff \<le> rs_now s1" if "r = None"
      using that ran(5) promptD(3) [OF t ran(4)] by auto
    ultimately show ?thesis using ran(6) by (auto simp: moves_def intro: same_budget_trans)
  qed (auto simp: moves_def)
qed

lemma stage_ends:
  assumes t: "prompt t" and run: "stage name code t cutoff s = (r, s')"
    and clock: "dl_started (rs_deadline s) \<le> rs_now s"
  shows "rs_now s' \<le> max (rs_now s) (ends_at (rs_deadline s))"
  using run
proof (cases rule: stage_cases)
  case (ran rest d r1 s1 st token)
  have "rs_now s + rest = ends_at (rs_deadline s)"
    using ran(1-3) clock by (auto simp: same_budget_def ends_at_def)
  with promptD(2) [OF t ran(4)] have "rs_now s1 \<le> max (rs_now s) (ends_at (rs_deadline s))" by simp
  with ran(6) show ?thesis by auto
qed auto

text \<open>\<open>cdp_send\<close> waits no longer than the fetch has left.\<close>

lemma send_ends:
  assumes "cdp_send peer sid m p stg cutoff s = (r, s')" and "dl_started (rs_deadline s) \<le> rs_now s"
  shows "rs_now s' \<le> max (rs_now s) (ends_at (rs_deadline s))"
proof -
  obtain lim d where rem: "remaining (rs_now s) stg (rs_deadline s) = (lim, d)" by (cases "remaining (rs_now s) stg (rs_deadline s)")
  note same = same_budget_remaining [OF rem]
  show ?thesis
  proof (cases lim)
    case (Inl e)
    with rem assms show ?thesis
      by (auto simp: cdp_send_def and_next_def settle_with_def rest_of_def give_def)
  next
    case (Inr n)
    have n: "rs_now s + n = ends_at (rs_deadline s)"
      using rem Inr assms(2) rest_left [of "rs_now s" "set_stage stg (rs_deadline s)" n d] same_budget_ops(1) [of "rs_deadline s" stg]
      by (auto simp: remaining_def ends_at_def same_budget_def)
    from Inr rem assms(1) have "cdp_call peer (Some sid) m p n cutoff (s\<lparr> rs_deadline := d \<rparr>) = (r, s')"
      by (simp add: cdp_send_def and_next_def settle_with_def rest_of_def)
    then show ?thesis using n
      by (auto simp: cdp_call_def wait_out_def min_def max_def split: prod.splits if_splits)
  qed
qed

text \<open>
  A stage is \<open>run_result\<close>: the same outcome, end and recorder as the staged future of the deadline gives,
  for the task seen as a future (the outer timer not firing).
\<close>

definition as_future :: "('a, 'z) task \<Rightarrow> 'z run_scheme \<Rightarrow> 'a stage_future" where
  "as_future t s rest d =
     (case t (rs_now s + rest) (s\<lparr> rs_deadline := d \<rparr>) of
        (out, s') \<Rightarrow> (rs_deadline s', rs_now s' - rs_now s, out))"

lemma stage_is_run_result:
  assumes "prompt t"
  shows "\<exists>s'. stage name code t (rs_now s + dl_timeout (rs_deadline s)) s =
             (Some (fst (run_result (rs_now s) name code (as_future t s) (rs_deadline s))), s')
     \<and> rs_now s' = fst (snd (run_result (rs_now s) name code (as_future t s) (rs_deadline s)))
     \<and> rs_deadline s' = snd (snd (run_result (rs_now s) name code (as_future t s) (rs_deadline s)))"
proof -
  obtain b d1 where bgn: "begin_stage (rs_now s) name (rs_deadline s) = (b, d1)" by (cases "begin_stage (rs_now s) name (rs_deadline s)")
  note d1 = same_budget_begin [OF bgn]
  show ?thesis
  proof (cases b)
    case (Inr token)
    obtain rem d2 where rem: "remaining_without_stage_update (rs_now s) d1 = (rem, d2)"
      by (cases "remaining_without_stage_update (rs_now s) d1")
    show ?thesis
    proof (cases rem)
      case (Inr rest)
      have within: "rest \<le> dl_timeout (rs_deadline s)"
        using rem Inr d1 rest_left [of "rs_now s" d1 rest d2] by (auto simp: same_budget_def)
      obtain out s1 where run: "t (rs_now s + rest) (s\<lparr> rs_deadline := d2 \<rparr>) = (out, s1)"
        by (cases "t (rs_now s + rest) (s\<lparr> rs_deadline := d2 \<rparr>)")
      have later: "rs_now s \<le> rs_now s1" using promptD(1) [OF assms run] by (simp add: moves_def)
      show ?thesis
        using bgn \<open>b = Inr token\<close> rem Inr run later within
        by (auto simp: stage_def run_result_def as_future_def Let_def min_absorb2 split: option.splits sum.splits)
    qed (use bgn Inr rem in \<open>simp add: stage_def run_result_def\<close>)
  qed (use bgn in \<open>simp add: stage_def run_result_def\<close>)
qed

end
