(* ===== verification/Navigate.thy ===== *)
theory Navigate
  imports Pipeline CdpRun Collectors
begin

text \<open>
  Issuing the navigation (\<open>pipeline/browser/navigate.rs\<close>): a plain \<open>Page.navigate\<close>, or a request intercept
  that reissues the document request with the caller's method and body and adds the caller's
  credential headers to requests for the target's origin only.

  The \<open>url\<close> crate (parsing, the tuple origin of a URL, its text), base64 and serde_json's printer are arguments.
\<close>

record 'o nav_libs =
  nl_parse :: "string \<Rightarrow> url option"
  nl_origin :: "url \<Rightarrow> 'o option"
  nl_origin_text :: "'o \<Rightarrow> string"
  nl_json_text :: "json \<Rightarrow> string"
  nl_base64 :: "string \<Rightarrow> string"

subsection \<open>The body of the document request\<close>

definition unreserved :: "char \<Rightarrow> bool" where
  "unreserved c \<longleftrightarrow> is_ascii_alphanumeric c \<or> c = CHR ''-'' \<or> c = CHR ''_'' \<or> c = CHR ''.'' \<or> c = CHR ''~''"

definition upper_hex :: "nat \<Rightarrow> char" where
  "upper_hex n = (if n < 10 then char_of (48 + n) else char_of (55 + n))"

definition encode_byte :: "char \<Rightarrow> string" where
  "encode_byte c =
     (if unreserved c then [c]
      else if c = CHR '' '' then ''+''
      else [CHR ''%'', upper_hex (byte_val c div 16), upper_hex (byte_val c mod 16)])"

definition urlencoding_simple :: "string \<Rightarrow> string" where
  "urlencoding_simple s = concat (map encode_byte s)"

definition form_text :: "(string \<times> string) list \<Rightarrow> string" where
  "form_text fs =
     join ''&'' (map (\<lambda>(k, v). urlencoding_simple k @ ''='' @ urlencoding_simple v) fs)"

fun post_data_b64 :: "'o nav_libs \<Rightarrow> body_payload \<Rightarrow> string option" where
  "post_data_b64 libs NoBody = None"
| "post_data_b64 libs (Bytes bs) = Some (nl_base64 libs (to_text bs))"
| "post_data_b64 libs (Form fs) = Some (nl_base64 libs (form_text fs))"

subsection \<open>One paused request\<close>

record main_override =
  mo_method :: string
  mo_post_data :: "string option"
  mo_form :: bool

record 'o intercept_scope =
  is_origin :: "'o option"
  is_everywhere :: "(string, string) kv"
  is_origin_only :: "(string \<times> string) list"

definition set_header :: "string \<Rightarrow> string \<Rightarrow> (string \<times> string) list \<Rightarrow> (string \<times> string) list" where
  "set_header name v headers = filter (\<lambda>h. \<not> eq_ignore_ascii_case (fst h) name) headers @ [(name, v)]"

definition set_headers :: "(string \<times> string) list \<Rightarrow> (string \<times> string) list \<Rightarrow> (string \<times> string) list" where
  "set_headers hs headers = foldl (\<lambda>acc (n, v). set_header n v acc) headers hs"

definition own_headers :: "'o nav_libs \<Rightarrow> json \<Rightarrow> (string \<times> string) list" where
  "own_headers libs request =
     (case json_get request ''headers'' of
        Some (JObj fs) \<Rightarrow> map (\<lambda>(n, v). (n, case json_str v of Some s \<Rightarrow> s | None \<Rightarrow> nl_json_text libs v)) fs
      | _ \<Rightarrow> [])"

definition same_origin_request :: "'o nav_libs \<Rightarrow> 'o intercept_scope \<Rightarrow> json \<Rightarrow> bool" where
  "same_origin_request libs scope request \<longleftrightarrow>
     (case is_origin scope of
        None \<Rightarrow> False
      | Some target \<Rightarrow>
          (case Option.bind (get_str request ''url'') (nl_parse libs) of
             Some u \<Rightarrow> nl_origin libs u = Some target
           | None \<Rightarrow> False))"

definition header_json :: "string \<times> string \<Rightarrow> json" where
  "header_json h = JObj [(''name'', JStr (fst h)), (''value'', JStr (snd h))]"

definition continue_params :: "'o nav_libs \<Rightarrow> json \<Rightarrow> main_override option \<Rightarrow> 'o intercept_scope \<Rightarrow> json" where
  "continue_params libs paused main scope =
     (let request = json_idx paused ''request'';
          params = JObj [(''requestId'', JStr (str_or [] (get_str paused ''requestId'')))];
          headers = own_headers libs request;
          same = same_origin_request libs scope request;
          headers = (if same then set_headers (is_origin_only scope) (set_headers (is_everywhere scope) headers) else headers);
          params = (case main of
                      None \<Rightarrow> params
                    | Some m \<Rightarrow>
                        (let params = json_obj_put ''method'' (JStr (mo_method m)) params
                         in case mo_post_data m of
                              Some b64 \<Rightarrow> json_obj_put ''postData'' (JStr b64) params | None \<Rightarrow> params));
          form = (case main of Some m \<Rightarrow> mo_form m | None \<Rightarrow> False);
          headers = (if form then set_header ''Content-Type'' ''application/x-www-form-urlencoded''
                                   (set_headers (is_everywhere scope) headers) else headers)
      in if same \<or> form then json_obj_put ''headers'' (JArr (map header_json headers)) params else params)"

subsection \<open>The intercept\<close>

text \<open>What its receiver yields; the override still to apply, whether the loop runs, what it sent, its reply.\<close>

datatype icpt_event = Received cdp_event | LaggedBehind | EventsClosed

record intercept =
  ic_main :: "main_override option"
  ic_running :: bool
  ic_sent :: "command list"
  ic_reply :: "unit result option"

definition intercept_start :: "main_override option \<Rightarrow> intercept" where
  "intercept_start main = \<lparr> ic_main = main, ic_running = True, ic_sent = [], ic_reply = None \<rparr>"

definition is_pause :: "string \<Rightarrow> cdp_event \<Rightarrow> bool" where
  "is_pause sid e \<longleftrightarrow> ev_method e = ''Fetch.requestPaused'' \<and> ev_session e = Some sid"

definition is_document :: "cdp_event \<Rightarrow> bool" where
  "is_document e \<longleftrightarrow> get_str (ev_params e) ''resourceType'' = Some ''Document''"

text \<open>One round of \<open>run_intercept\<close>; \<open>answer\<close> is what the browser replies to the continued document.\<close>

definition intercept_step ::
  "'o nav_libs \<Rightarrow> string \<Rightarrow> 'o intercept_scope \<Rightarrow> (json \<Rightarrow> unit result) \<Rightarrow> intercept \<Rightarrow> icpt_event \<Rightarrow> intercept" where
  "intercept_step libs sid scope answer ic ev =
     (if \<not> ic_running ic then ic
      else
        (case ev of
           EventsClosed \<Rightarrow> ic\<lparr> ic_running := False \<rparr>
         | LaggedBehind \<Rightarrow> ic
         | Received e \<Rightarrow>
             if \<not> is_pause sid e then ic
             else
               (let main_here = (if is_document e then ic_main ic else None);
                    ic = (if is_document e then ic\<lparr> ic_main := None \<rparr> else ic);
                    params = continue_params libs (ev_params e) main_here scope;
                    ic = ic\<lparr> ic_sent := ic_sent ic @ [(Some sid, ''Fetch.continueRequest'', params)] \<rparr>
                in if main_here = None then ic
                   else
                     (let ic = ic\<lparr> ic_reply := Some (answer params) \<rparr>
                      in if is_origin scope \<noteq> None then ic
                         else ic\<lparr> ic_sent := ic_sent ic @ [(Some sid, ''Fetch.disable'', JObj [])],
                                 ic_running := False \<rparr>))))"

definition run_intercept ::
  "'o nav_libs \<Rightarrow> string \<Rightarrow> 'o intercept_scope \<Rightarrow> (json \<Rightarrow> unit result) \<Rightarrow> main_override option \<Rightarrow> icpt_event list \<Rightarrow> intercept" where
  "run_intercept libs sid scope answer main evs =
     foldl (intercept_step libs sid scope answer) (intercept_start main) evs"

subsection \<open>Navigating\<close>

text \<open>
  Two futures awaited together: a task, and one whose outcome and time are given; the slower decides.
\<close>

definition join_with :: "('a, 'z) task \<Rightarrow> 'b result \<times> duration \<Rightarrow> ('a result \<times> 'b result, 'z) task" where
  "join_with t out cutoff s =
     (case t cutoff s of
        (None, s') \<Rightarrow> (None, s')
      | (Some r, s') \<Rightarrow>
          (let ends = max (rs_now s') (rs_now s + snd out)
           in if ends \<le> cutoff \<or> ends = rs_now s' then (Some (Inr (r, fst out)), s'\<lparr> rs_now := ends \<rparr>)
              else (None, s'\<lparr> rs_now := max (rs_now s') cutoff \<rparr>)))"

definition url_param :: "string \<Rightarrow> json" where
  "url_param u = JObj [(''url'', JStr u)]"

text \<open>\<open>/frameTree/frame/id\<close>, when it is a non-empty string.\<close>

definition frame_tree_id :: "json \<Rightarrow> string option" where
  "frame_tree_id tree =
     (case Option.bind (json_at tree [Key ''frameTree'', Key ''frame'', Key ''id'']) json_str of
        Some i \<Rightarrow> if i \<noteq> [] then Some i else None
      | None \<Rightarrow> None)"

definition plain_navigate :: "cdp_peer \<Rightarrow> string \<Rightarrow> string \<Rightarrow> (json, 'z) task" where
  "plain_navigate peer sid u =
     settle_with (cdp_send peer sid ''Page.getFrameTree'' (JObj []) ''navigate'')
       (\<lambda>r. let params = (case r of
                   Inr tree \<Rightarrow> (case frame_tree_id tree of
                                  Some i \<Rightarrow> json_obj_put ''frameId'' (JStr i) (url_param u) | None \<Rightarrow> url_param u)
                 | Inl _ \<Rightarrow> url_param u)
            in cdp_send peer sid ''Page.navigate'' params ''navigate'')"

text \<open>Whether and after how long the caller learns that its method and body went out.\<close>

definition reissued :: "duration \<Rightarrow> intercept \<Rightarrow> duration \<Rightarrow> unit result \<times> duration" where
  "reissued timeout ic after =
     (if timeout < after then (fail CdpTimeout ''wait_event: timed out'', timeout)
      else (case ic_reply ic of
              Some r \<Rightarrow> (r, after)
            | None \<Rightarrow>
                if ic_running ic then (fail CdpTimeout ''wait_event: timed out'', timeout)
                else (fail CdpUnavailable ''navigate: request intercept ended before the document request'', after)))"

definition fetch_patterns :: "'o nav_libs \<Rightarrow> bool \<Rightarrow> 'o option \<Rightarrow> json" where
  "fetch_patterns libs override_main target =
     JObj [(''patterns'', JArr
       ((if override_main then [JObj [(''requestStage'', JStr ''Request''), (''resourceType'', JStr ''Document'')]] else [])
        @ (case target of
             Some t \<Rightarrow> [JObj [(''requestStage'', JStr ''Request''), (''urlPattern'', JStr (nl_origin_text libs t @ ''/*''))]]
           | None \<Rightarrow> [])))]"

text \<open>What happens beside the navigation: the events the intercept receives until it is heard of, and when that is.\<close>

record beside =
  bs_events :: "icpt_event list"
  bs_answer :: "json \<Rightarrow> unit result"
  bs_after :: duration

definition overrides_main :: "string \<Rightarrow> body_payload \<Rightarrow> bool" where
  "overrides_main verb body \<longleftrightarrow> \<not> eq_ignore_ascii_case verb ''GET'' \<or> body \<noteq> NoBody"

definition scope_origin :: "'o nav_libs \<Rightarrow> string \<Rightarrow> (string \<times> string) list \<Rightarrow> 'o option" where
  "scope_origin libs u origin_only =
     (if origin_only = [] then None else Option.bind (nl_parse libs u) (nl_origin libs))"

definition navigation_scope ::
  "'o nav_libs \<Rightarrow> string \<Rightarrow> (string, string) kv \<times> (string \<times> string) list \<Rightarrow> 'o intercept_scope" where
  "navigation_scope libs u hs =
     \<lparr> is_origin = scope_origin libs u (snd hs), is_everywhere = fst hs, is_origin_only = snd hs \<rparr>"

definition navigation_override :: "'o nav_libs \<Rightarrow> string \<Rightarrow> body_payload \<Rightarrow> main_override option" where
  "navigation_override libs verb body =
     (if overrides_main verb body
      then Some \<lparr> mo_method = verb, mo_post_data = post_data_b64 libs body,
                  mo_form = (case body of Form _ \<Rightarrow> True | _ \<Rightarrow> False) \<rparr>
      else None)"

text \<open>\<open>navigate_with_method\<close>: the reply, and the intercept that lives on.\<close>

definition navigate_with_method ::
  "'o nav_libs \<Rightarrow> cdp_peer \<Rightarrow> beside \<Rightarrow> string \<Rightarrow> string \<Rightarrow> string \<Rightarrow> body_payload \<Rightarrow>
   (string, string) kv \<times> (string \<times> string) list \<Rightarrow> duration \<Rightarrow> (json \<times> intercept option, 'z) task" where
  "navigate_with_method libs peer world sid u verb body hs timeout =
     (let scope = navigation_scope libs u hs;
          main = navigation_override libs verb body
      in if main = None \<and> is_origin scope = None
         then and_next (plain_navigate peer sid u) (\<lambda>v. give (Inr (v, None)))
         else
           and_next (cdp_send peer sid ''Fetch.enable'' (fetch_patterns libs (main \<noteq> None) (is_origin scope)) ''navigate'')
             (\<lambda>_. let ic = run_intercept libs sid scope (bs_answer world) main (bs_events world)
                   in if main = None
                      then and_next (plain_navigate peer sid u) (\<lambda>v. give (Inr (v, Some ic)))
                      else
                        and_next (join_with (cdp_send peer sid ''Page.navigate'' (url_param u) ''navigate'')
                                    (reissued timeout ic (bs_after world)))
                          (\<lambda>(nav, sent). give (and_then sent (\<lambda>_. and_then nav (\<lambda>v. Inr (v, Some ic)))))))"

lemma prompt_join [prompts]: "prompt t \<Longrightarrow> prompt (join_with t out)"
  unfolding prompt_def join_with_def
  by (fastforce simp: Let_def moves_def split: option.splits prod.splits if_splits)

lemma prompt_plain_navigate [prompts]: "prompt (plain_navigate peer sid u)"
  unfolding plain_navigate_def Let_def by (intro prompts)

lemma prompt_navigate [prompts]: "prompt (navigate_with_method libs peer world sid u verb body hs timeout)"
  unfolding navigate_with_method_def Let_def
  by (auto intro!: prompts split: prod.split)

subsection \<open>Form encoding\<close>

text \<open>How the receiver reads \<open>application/x-www-form-urlencoded\<close>.\<close>

fun percent_decode :: "string \<Rightarrow> string" where
  "percent_decode [] = []"
| "percent_decode (c # s) =
     (if c = CHR ''+'' then CHR '' '' # percent_decode s
      else if c = CHR ''%'' then
        (case s of
           a # b # t \<Rightarrow>
             (case (hex_val a, hex_val b) of
                (Some x, Some y) \<Rightarrow> char_of (16 * x + y) # percent_decode t
              | _ \<Rightarrow> c # percent_decode s)
         | _ \<Rightarrow> c # percent_decode s)
      else c # percent_decode s)"

definition form_decode :: "string \<Rightarrow> (string \<times> string) list" where
  "form_decode s =
     map (\<lambda>p. case split_once CHR ''='' p of
            Some (k, v) \<Rightarrow> (percent_decode k, percent_decode v)
          | None \<Rightarrow> (percent_decode p, [])) (split_on CHR ''&'' s)"

lemma hex_digits: "k < 16 \<Longrightarrow> hex_val (upper_hex k) = Some k"
proof -
  assume "k < 16"
  then have "k \<in> set [0..<16]" by simp
  moreover have "\<forall>i \<in> set [0..<16]. hex_val (upper_hex i) = Some i"
    by (simp add: upt_rec hex_val_def upper_hex_def byte_val_def of_char_of)
  ultimately show ?thesis by blast
qed

lemma unreserved_not [simp]:
  "\<not> unreserved CHR ''+''" "\<not> unreserved CHR ''%''" "\<not> unreserved CHR ''&''" "\<not> unreserved CHR ''=''" "\<not> unreserved CHR '' ''"
  by (simp_all add: unreserved_def is_ascii_alphanumeric_def)

lemma upper_hex_not:
  assumes "k < 16" shows "upper_hex k \<noteq> CHR ''&''" "upper_hex k \<noteq> CHR ''=''"
  using hex_digits [OF assms] by (auto simp: hex_val_def byte_val_def)

lemma byte_halves: "byte_val c div 16 < 16" "byte_val c mod 16 < 16" "char_of (16 * (byte_val c div 16) + byte_val c mod 16) = c"
proof -
  have "byte_val c < 256" by (simp add: byte_val_def)
  then show "byte_val c div 16 < 16" by simp
  show "char_of (16 * (byte_val c div 16) + byte_val c mod 16) = c"
    by (simp only: mult_div_mod_eq byte_val_def char_of_char)
qed simp

lemma decode_byte: "percent_decode (encode_byte c @ s) = c # percent_decode s"
proof (cases "unreserved c \<or> c = CHR '' ''")
  case True
  then show ?thesis using unreserved_not by (auto simp: encode_byte_def)
next
  case False
  then show ?thesis using byte_halves [of c] by (simp add: encode_byte_def hex_digits)
qed

lemma decode_encoded: "percent_decode (urlencoding_simple s @ t) = s @ percent_decode t"
  by (induction s) (simp_all add: urlencoding_simple_def decode_byte)

lemma encoded_not:
  "CHR ''&'' \<notin> set (urlencoding_simple s)" "CHR ''='' \<notin> set (urlencoding_simple s)"
proof -
  have "CHR ''&'' \<notin> set (encode_byte c) \<and> CHR ''='' \<notin> set (encode_byte c)" for c
    using upper_hex_not [OF byte_halves(1) [of c]] upper_hex_not [OF byte_halves(2) [of c]] unreserved_not
    by (auto simp: encode_byte_def)
  then show "CHR ''&'' \<notin> set (urlencoding_simple s)" "CHR ''='' \<notin> set (urlencoding_simple s)"
    by (auto simp: urlencoding_simple_def)
qed

text \<open>
  C16. The form body is read back as the caller's fields. Whatever bytes the names and values hold,
  decoding the encoded body as \<open>application/x-www-form-urlencoded\<close> gives exactly the fields,
  in order.
\<close>

theorem form_body_is_read_back:
  assumes "fs \<noteq> []"
  shows "form_decode (form_text fs) = fs"
proof -
  let ?pair = "\<lambda>(k, v). urlencoding_simple k @ ''='' @ urlencoding_simple v"
  obtain f0 rest where fs: "fs = f0 # rest" using assms by (cases fs) auto
  have "\<forall>p \<in> set (map ?pair fs). CHR ''&'' \<notin> set p" using encoded_not by auto
  then have split: "split_on CHR ''&'' (form_text fs) = map ?pair fs"
    using split_on_join [of "map ?pair (f0 # rest)" "CHR ''&''"] by (simp add: form_text_def fs)
  have "percent_decode (urlencoding_simple t) = t" for t using decode_encoded [of t "[]"] by simp
  then show ?thesis
    by (simp add: form_decode_def split comp_def case_prod_beta split_once_at encoded_not)
qed

theorem form_body_is_read_back_witness:
  "form_decode (form_text [(''a b'', ''1&2=3''), (''c'', [])]) = [(''a b'', ''1&2=3''), (''c'', [])]"
  by (rule form_body_is_read_back) simp

subsection \<open>Who gets the credentials\<close>

text \<open>The headers a continued request is given; none when it keeps its own.\<close>

definition headers_given :: "json \<Rightarrow> (string \<times> string) list" where
  "headers_given params =
     (case json_get params ''headers'' of
        Some (JArr hs) \<Rightarrow> map (\<lambda>h. (string_field h ''name'', string_field h ''value'')) hs
      | _ \<Rightarrow> [])"

lemma header_json_fields [simp]:
  "(string_field (header_json h) ''name'', string_field (header_json h) ''value'') = h"
  by (simp add: string_field_def get_str_def header_json_def str_or_def)

lemma set_header_sub: "h \<in> set (set_header n v hs) \<Longrightarrow> h \<in> set hs \<or> h = (n, v)"
  by (auto simp: set_header_def)

lemma set_headers_sub: "h \<in> set (set_headers new hs) \<Longrightarrow> h \<in> set hs \<or> h \<in> set new"
  unfolding set_headers_def
proof (induction new arbitrary: hs)
  case (Cons a new)
  then show ?case using set_header_sub by (cases a) fastforce
qed simp

lemma map_of_bt_put_same [simp]: "map_of (bt_put k v m) k = Some v"
  by (induction m) auto

lemma bt_put_absent: "k \<noteq> k' \<Longrightarrow> map_of m k' = None \<Longrightarrow> map_of (bt_put k v m) k' = None"
  by (auto simp: map_of_eq_None_iff)

lemma headers_of_continue:
  "headers_given (continue_params libs paused main scope) =
     (let same = same_origin_request libs scope (json_idx paused ''request'');
          hs = own_headers libs (json_idx paused ''request'');
          hs = (if same then set_headers (is_origin_only scope) (set_headers (is_everywhere scope) hs) else hs);
          form = (case main of Some m \<Rightarrow> mo_form m | None \<Rightarrow> False)
      in if form then set_header ''Content-Type'' ''application/x-www-form-urlencoded''
                        (set_headers (is_everywhere scope) hs)
         else if same then hs else [])"
  by (cases main)
     (auto simp: continue_params_def Let_def headers_given_def json_obj_put_def comp_def bt_put_absent split: option.splits)

lemma continued_header:
  assumes "h \<in> set (headers_given (continue_params libs paused main scope))"
    and "\<not> same_origin_request libs scope (json_idx paused ''request'')"
  shows "h \<in> set (own_headers libs (json_idx paused ''request'')) \<or> h \<in> set (is_everywhere scope)
    \<or> h = (''Content-Type'', ''application/x-www-form-urlencoded'')"
proof -
  from assms have "h \<in> set (set_header ''Content-Type'' ''application/x-www-form-urlencoded''
      (set_headers (is_everywhere scope) (own_headers libs (json_idx paused ''request''))))"
    by (simp add: headers_of_continue Let_def split: if_splits option.splits)
  from set_header_sub [OF this] show ?thesis using set_headers_sub by fast
qed

text \<open>The credential headers are split off before anything is sent everywhere.\<close>

definition scoped_apart :: "(string, string) kv \<times> (string \<times> string) list \<Rightarrow> bool" where
  "scoped_apart hs \<longleftrightarrow> (\<forall>h \<in> set (fst hs). \<not> is_origin_scoped_header (fst h))
     \<and> (\<forall>h \<in> set (snd hs). is_origin_scoped_header (fst h))"

lemma bt_put_sub: "set (bt_put k v m) \<subseteq> insert (k, v) (set m)"
  by (induction m) (auto split: if_splits)

lemma foldl_keeps:
  assumes "I a" and "\<And>a x. I a \<Longrightarrow> x \<in> set xs \<Longrightarrow> I (f a x)"
  shows "I (foldl f a xs)"
  using assms by (induction xs arbitrary: a) auto

lemma scope_split:
  assumes "\<forall>h \<in> set (po_headers po). ph_cdp_name h = ph_name h"
  shows "scoped_apart (cdp_headers_by_scope po)"
  unfolding cdp_headers_by_scope_def
proof (rule foldl_keeps)
  fix hs h assume hs: "scoped_apart hs" and h: "h \<in> set (po_headers po)"
  obtain e x where [simp]: "hs = (e, x)" by (cases hs)
  have same: "ph_cdp_name h = ph_name h" using assms h by blast
  show "scoped_apart ((\<lambda>(everywhere, origin_only) h.
      if is_origin_scoped_header (ph_name h)
      then (everywhere, origin_only @ [(ph_cdp_name h, ph_cdp_value h)])
      else (bt_put (ph_cdp_name h) (ph_cdp_value h) everywhere, origin_only)) hs h)"
  proof (cases "is_origin_scoped_header (ph_name h)")
    case True
    with hs show ?thesis unfolding scoped_apart_def by (simp add: same ball_Un)
  next
    case False
    have "\<not> is_origin_scoped_header (fst g)" if "g \<in> set (bt_put (ph_name h) (ph_cdp_value h) e)" for g
      using that bt_put_sub [of "ph_name h" "ph_cdp_value h" e] hs False unfolding scoped_apart_def by (cases "g \<in> set e") auto
    with hs False show ?thesis unfolding scoped_apart_def by (simp add: same)
  qed
qed (simp add: scoped_apart_def)

text \<open>What one round may send, and that the override is applied to the first document only.\<close>

lemma intercept_step_sends:
  assumes "c \<in> set (ic_sent (intercept_step libs sid scope answer ic ev))" and "c \<notin> set (ic_sent ic)"
  shows "c = (Some sid, ''Fetch.disable'', JObj []) \<or>
    (\<exists>e m. ev = Received e \<and> is_pause sid e \<and> m \<in> {None, ic_main ic}
       \<and> c = (Some sid, ''Fetch.continueRequest'', continue_params libs (ev_params e) m scope))"
  using assms by (cases ev) (auto simp: intercept_step_def Let_def split: if_splits)

lemma run_intercept_sends:
  assumes "c \<in> set (ic_sent (run_intercept libs sid scope answer main evs))"
  shows "c = (Some sid, ''Fetch.disable'', JObj []) \<or>
    (\<exists>e m. Received e \<in> set evs \<and> is_pause sid e
       \<and> c = (Some sid, ''Fetch.continueRequest'', continue_params libs (ev_params e) m scope))"
  using assms unfolding run_intercept_def
proof (induction evs rule: rev_induct)
  case Nil then show ?case by (simp add: intercept_start_def)
next
  case (snoc ev evs)
  let ?ic = "foldl (intercept_step libs sid scope answer) (intercept_start main) evs"
  show ?case
  proof (cases "c \<in> set (ic_sent ?ic)")
    case True with snoc.IH show ?thesis by auto
  next
    case False
    with intercept_step_sends [of c libs sid scope answer ?ic ev] snoc.prems show ?thesis by auto
  qed
qed

text \<open>
  C17. The caller's credential headers reach the target's origin only. Nothing that is set for all requests
  is a credential header; and whatever requests the browser pauses, in whatever order, a
  request continued by the intercept gets a credential header it did not carry itself only when its
  URL has the origin of the URL the caller asked for.
\<close>

theorem browser_credentials_stay_on_the_origin:
  assumes "\<forall>h \<in> set (po_headers po). ph_cdp_name h = ph_name h"
    and "ic = run_intercept libs sid (navigation_scope libs u (cdp_headers_by_scope po)) answer main evs"
    and "(Some sid, ''Fetch.continueRequest'', params) \<in> set (ic_sent ic)"
    and "h \<in> set (headers_given params)" and "is_origin_scoped_header (fst h)"
  shows "(\<forall>g \<in> set (fst (cdp_headers_by_scope po)). \<not> is_origin_scoped_header (fst g))
    \<and> (\<exists>e. Received e \<in> set evs \<and> is_pause sid e
         \<and> (h \<in> set (own_headers libs (json_idx (ev_params e) ''request''))
            \<or> (\<exists>v target. Option.bind (get_str (json_idx (ev_params e) ''request'') ''url'') (nl_parse libs) = Some v
                 \<and> nl_origin libs v = Some target \<and> Option.bind (nl_parse libs u) (nl_origin libs) = Some target)))"
proof -
  obtain everywhere origin_only where hs: "cdp_headers_by_scope po = (everywhere, origin_only)" by (cases "cdp_headers_by_scope po")
  have scoped: "\<forall>g \<in> set everywhere. \<not> is_origin_scoped_header (fst g)"
    using scope_split [OF assms(1)] hs by (simp add: scoped_apart_def)
  let ?scope = "navigation_scope libs u (everywhere, origin_only)"
  have "(Some sid, ''Fetch.continueRequest'', params) \<in> set (ic_sent (run_intercept libs sid ?scope answer main evs))"
    using assms(2,3) hs by simp
  from run_intercept_sends [OF this] obtain e m where e: "Received e \<in> set evs" "is_pause sid e"
    and params: "params = continue_params libs (ev_params e) m ?scope" by auto
  let ?request = "json_idx (ev_params e) ''request''"
  have not_form: "h \<noteq> (''Content-Type'', ''application/x-www-form-urlencoded'')"
    using assms(5) by (auto simp: is_origin_scoped_header_def)
  have "h \<in> set (own_headers libs ?request) \<or> same_origin_request libs ?scope ?request"
  proof (rule ccontr)
    assume no: "\<not> (h \<in> set (own_headers libs ?request) \<or> same_origin_request libs ?scope ?request)"
    with continued_header [of h libs "ev_params e" m ?scope] assms(4) not_form params have "h \<in> set everywhere"
      by (auto simp: navigation_scope_def)
    with scoped assms(5) show False by blast
  qed
  moreover have "\<exists>v target. Option.bind (get_str ?request ''url'') (nl_parse libs) = Some v
      \<and> nl_origin libs v = Some target \<and> Option.bind (nl_parse libs u) (nl_origin libs) = Some target"
    if "same_origin_request libs ?scope ?request"
    using that by (auto simp: same_origin_request_def navigation_scope_def scope_origin_def split: option.splits if_splits)
  ultimately show ?thesis using e scoped hs by auto
qed

text \<open>A page on another origin requests both: only the target's own request gets the token.\<close>

definition demo_nav_libs :: "string nav_libs" where
  "demo_nav_libs = \<lparr> nl_parse = (\<lambda>s. Some (demo_url\<lparr> url_text := s, url_host := Some s \<rparr>)),
     nl_origin = url_host, nl_origin_text = (\<lambda>t. t), nl_json_text = (\<lambda>_. []), nl_base64 = (\<lambda>s. s) \<rparr>"

definition paused_request :: "string \<Rightarrow> string \<Rightarrow> cdp_event" where
  "paused_request i u = \<lparr> ev_method = ''Fetch.requestPaused'', ev_session = Some ''S'',
     ev_params = JObj [(''request'', JObj [(''headers'', JObj []), (''url'', JStr u)]), (''requestId'', JStr i), (''resourceType'', JStr ''XHR'')] \<rparr>"

theorem browser_credentials_stay_on_the_origin_witness:
  "let ic = run_intercept demo_nav_libs ''S'' (navigation_scope demo_nav_libs ''a'' (cdp_headers_by_scope demo_options))
         (\<lambda>_. Inr ()) None [Received (paused_request ''1'' ''b''), Received (paused_request ''2'' ''a'')]
   in map (\<lambda>c. headers_given (snd (snd c))) (ic_sent ic) = [[], [(''authorization'', ''t'')]]
      \<and> (\<exists>v. nl_parse demo_nav_libs ''a'' = Some v \<and> nl_origin demo_nav_libs v = Some ''a'')"
proof -
  define ic where "ic = run_intercept demo_nav_libs ''S'' (navigation_scope demo_nav_libs ''a'' (cdp_headers_by_scope demo_options))
     (\<lambda>_. Inr ()) None [Received (paused_request ''1'' ''b''), Received (paused_request ''2'' ''a'')]"
  have hs: "cdp_headers_by_scope demo_options = ([], [(''authorization'', ''t'')])"
    by (simp add: cdp_headers_by_scope_def demo_options_def is_origin_scoped_header_def)
  let ?params = "\<lambda>e. continue_params demo_nav_libs (ev_params e) None (navigation_scope demo_nav_libs ''a'' ([], [(''authorization'', ''t'')]))"
  have sent: "ic_sent ic = [(Some ''S'', ''Fetch.continueRequest'', ?params (paused_request ''1'' ''b'')),
      (Some ''S'', ''Fetch.continueRequest'', ?params (paused_request ''2'' ''a''))]"
    by (simp add: ic_def hs run_intercept_def intercept_step_def intercept_start_def is_pause_def is_document_def
        paused_request_def get_str_def Let_def)
  have given: "headers_given (?params (paused_request ''1'' ''b'')) = []"
    "headers_given (?params (paused_request ''2'' ''a'')) = [(''authorization'', ''t'')]"
    by (simp_all add: headers_of_continue Let_def same_origin_request_def navigation_scope_def scope_origin_def
        demo_nav_libs_def demo_url_def paused_request_def json_idx_def get_str_def own_headers_def set_headers_def set_header_def)
  have "is_origin_scoped_header ''authorization''" by (simp add: is_origin_scoped_header_def)
  moreover have "\<forall>h \<in> set (po_headers demo_options). ph_cdp_name h = ph_name h" by (simp add: demo_options_def)
  ultimately have origin: "\<exists>v. nl_parse demo_nav_libs ''a'' = Some v \<and> nl_origin demo_nav_libs v = Some ''a''"
    using browser_credentials_stay_on_the_origin [of demo_options ic demo_nav_libs "''S''" "''a''" "\<lambda>_. Inr ()" None
        "[Received (paused_request ''1'' ''b''), Received (paused_request ''2'' ''a'')]"
        "?params (paused_request ''2'' ''a'')" "(''authorization'', ''t'')"] sent given
    by (auto simp: ic_def demo_nav_libs_def)
  have "map (\<lambda>c. headers_given (snd (snd c))) (ic_sent ic) = [[], [(''authorization'', ''t'')]]"
    by (simp add: sent given)
  with origin show ?thesis unfolding Let_def ic_def [symmetric] by blast
qed

subsection \<open>The caller's body goes out once\<close>

definition carries_override :: "command \<Rightarrow> bool" where
  "carries_override c \<longleftrightarrow> json_get (snd (snd c)) ''method'' \<noteq> None \<or> json_get (snd (snd c)) ''postData'' \<noteq> None"

lemma continue_override:
  "carries_override (s, m, continue_params libs paused main scope) \<longleftrightarrow> main \<noteq> None"
  by (cases main)
     (auto simp: continue_params_def Let_def carries_override_def json_obj_put_def bt_put_absent split: option.splits)

text \<open>
  The caller's method and body are applied once, to the first paused document request of the session,
  and to no other request: before it nothing is overridden, after it nothing is, and without a document
  request the override is still waiting.
\<close>

theorem override_applies_once:
  assumes "ic = run_intercept libs sid scope answer (Some m) evs"
  shows "length (filter carries_override (ic_sent ic)) = (if ic_main ic = None then 1 else 0)
    \<and> (\<forall>c \<in> set (ic_sent ic). carries_override c \<longrightarrow>
         (\<exists>e. Received e \<in> set evs \<and> is_pause sid e \<and> is_document e
            \<and> c = (Some sid, ''Fetch.continueRequest'', continue_params libs (ev_params e) (Some m) scope)))
    \<and> (ic_main ic = None \<longrightarrow> ic_reply ic \<noteq> None) \<and> ic_main ic \<in> {None, Some m}"
  using assms unfolding run_intercept_def
proof (induction evs arbitrary: ic rule: rev_induct)
  case Nil then show ?case by (simp add: intercept_start_def)
next
  case (snoc ev evs)
  define a where "a = foldl (intercept_step libs sid scope answer) (intercept_start (Some m)) evs"
  note IH = snoc.IH [OF a_def]
  have ic: "ic = intercept_step libs sid scope answer a ev" using snoc.prems by (simp add: a_def)
  have plain: "\<not> carries_override (Some sid, ''Fetch.disable'', JObj [])" by (simp add: carries_override_def)
  show ?case
  proof (cases "ic_running a \<and> (\<exists>e. ev = Received e \<and> is_pause sid e)")
    case False
    then have same: "ic_sent ic = ic_sent a \<and> ic_main ic = ic_main a \<and> ic_reply ic = ic_reply a"
      unfolding ic by (cases ev) (auto simp: intercept_step_def)
    show ?thesis using IH same by auto
  next
    case True
    then obtain e where ev: "ev = Received e" "is_pause sid e" "ic_running a" by blast
    show ?thesis
    proof (cases "is_document e \<and> ic_main a \<noteq> None")
      case True
      then have "ic_main a = Some m" using IH by auto
      with True ev have "filter carries_override (ic_sent ic) = filter carries_override (ic_sent a)
            @ [(Some sid, ''Fetch.continueRequest'', continue_params libs (ev_params e) (Some m) scope)]"
        and "set (ic_sent ic) \<subseteq> set (ic_sent a) \<union> {(Some sid, ''Fetch.continueRequest'', continue_params libs (ev_params e) (Some m) scope),
              (Some sid, ''Fetch.disable'', JObj [])}"
        and "ic_main ic = None" "ic_reply ic \<noteq> None"
        unfolding ic by (auto simp: intercept_step_def Let_def continue_override plain)
      then show ?thesis using IH \<open>ic_main a = Some m\<close> ev True plain by auto
    next
      case False
      with ev have main: "ic_main ic = ic_main a" and reply: "ic_reply ic = ic_reply a"
        and sent: "ic_sent ic = ic_sent a @ [(Some sid, ''Fetch.continueRequest'', continue_params libs (ev_params e) None scope)]"
        unfolding ic by (auto simp: intercept_step_def Let_def)
      show ?thesis using IH by (auto simp: main reply sent continue_override)
    qed
  qed
qed

theorem override_applies_once_witness:
  "length (filter carries_override (ic_sent (run_intercept demo_nav_libs ''S'' (navigation_scope demo_nav_libs ''a'' ([], [])) (\<lambda>_. Inr ())
      (Some \<lparr> mo_method = ''POST'', mo_post_data = Some ''x'', mo_form = False \<rparr>) []))) = 0"
  by (subst override_applies_once [OF refl, THEN conjunct1]) (simp add: run_intercept_def intercept_start_def)

end
