(* ===== verification/Capture.thy ===== *)
theory Capture
  imports CdpRun Pipeline
begin

text \<open>
  Reading the page (\<open>pipeline/browser/capture.rs\<close>): its location, a snapshot, rendered HTML, text, composed
  content, a screenshot, response bodies and the navigation's status. The scripts evaluated in the page are
  JavaScript, run by the browser: only their texts are sent, and the long ones are arguments, as are
  serde_json's parser and the base64 decoder.
\<close>

record capture_libs =
  cl_snapshot_js :: string
  cl_content_js :: string
  cl_status_js :: string
  cl_parse_json :: "string \<Rightarrow> json option"
  cl_base64_decode :: "string \<Rightarrow> bytes option"

record page_snapshot =
  ps_url :: string
  ps_title :: string
  ps_ready_state :: string
  ps_text :: string
  ps_html :: string

definition has_dom_content :: "page_snapshot \<Rightarrow> bool" where
  "has_dom_content p \<longleftrightarrow> trim (ps_html p) \<noteq> [] \<and> trim (ps_html p) \<noteq> ''<html><head></head><body></body></html>''"

definition evaluate_params :: "string \<Rightarrow> json" where
  "evaluate_params js = JObj [(''expression'', JStr js), (''returnByValue'', JBool True)]"

text \<open>\<open>reply["result"]["value"]\<close>\<close>

definition result_value :: "json \<Rightarrow> json" where
  "result_value reply = json_idx (json_idx reply ''result'') ''value''"

definition capture_location :: "cdp_peer \<Rightarrow> string \<Rightarrow> (string option, 'z) task" where
  "capture_location peer sid =
     and_next (cdp_send peer sid ''Runtime.evaluate'' (evaluate_params ''location.href'') ''capture_location'')
       (\<lambda>reply. give (Inr (json_str (result_value reply))))"

definition snapshot_of :: "(string \<Rightarrow> json option) \<Rightarrow> json \<Rightarrow> page_snapshot" where
  "snapshot_of parse reply =
     (let s = str_or ''{}'' (json_str (result_value reply));
          v = (case parse s of Some v \<Rightarrow> v | None \<Rightarrow> JNull);
          get = (\<lambda>k. str_or [] (json_str (json_idx v k)))
      in \<lparr> ps_url = get ''url'', ps_title = get ''title'', ps_ready_state = get ''ready_state'',
           ps_text = get ''text'', ps_html = get ''html'' \<rparr>)"

definition capture_page_snapshot :: "capture_libs \<Rightarrow> cdp_peer \<Rightarrow> string \<Rightarrow> (page_snapshot, 'z) task" where
  "capture_page_snapshot cl peer sid =
     and_next (cdp_send peer sid ''Runtime.evaluate'' (evaluate_params (cl_snapshot_js cl)) ''capture_page_snapshot'')
       (\<lambda>reply. give (Inr (snapshot_of (cl_parse_json cl) reply)))"

definition cdp_response_body_max_bytes :: nat where
  "cdp_response_body_max_bytes = 10 * 1024 * 1024"

definition of_text :: "string \<Rightarrow> bytes" where
  "of_text s = map (\<lambda>c. of_nat (byte_val c)) s"

definition decode_response_body :: "capture_libs \<Rightarrow> json \<Rightarrow> bytes result" where
  "decode_response_body cl resp =
     (let body_str = str_or [] (get_str resp ''body'')
      in if get_bool resp ''base64Encoded'' = Some True
         then (case cl_base64_decode cl body_str of
                 Some bs \<Rightarrow> Inr bs
               | None \<Rightarrow> fail ArtifactCaptureFailed ''base64 decode for {request_id}: {e}'')
         else Inr (of_text body_str))"

definition capture_response_body :: "capture_libs \<Rightarrow> cdp_peer \<Rightarrow> string \<Rightarrow> string \<Rightarrow> (bytes, 'z) task" where
  "capture_response_body cl peer sid request_id =
     and_next (cdp_send peer sid ''Network.getResponseBody'' (JObj [(''requestId'', JStr request_id)]) ''capture_body'')
       (\<lambda>resp. give (decode_response_body cl resp))"

definition status_of_reply :: "json \<Rightarrow> nat option" where
  "status_of_reply reply =
     (case json_u64 (result_value reply) of
        Some n \<Rightarrow> if 100 \<le> n \<and> n \<le> 599 then Some n else None
      | None \<Rightarrow> None)"

definition navigation_status_from_performance :: "capture_libs \<Rightarrow> cdp_peer \<Rightarrow> string \<Rightarrow> (nat option, 'z) task" where
  "navigation_status_from_performance cl peer sid =
     settle_with (cdp_send peer sid ''Runtime.evaluate'' (evaluate_params (cl_status_js cl)) ''capture_status'')
       (\<lambda>r. give (Inr (case r of Inr reply \<Rightarrow> status_of_reply reply | Inl _ \<Rightarrow> None)))"

definition capture_outer_html_via_runtime :: "cdp_peer \<Rightarrow> string \<Rightarrow> (string, 'z) task" where
  "capture_outer_html_via_runtime peer sid =
     and_next (cdp_send peer sid ''Runtime.evaluate''
                 (evaluate_params (''document.documentElement ? document.documentElement.outerHTML : '' @ [CHR 0x27, CHR 0x27]))
                 ''capture_rendered_html'')
       (\<lambda>reply. give (Inr (str_or [] (json_str (result_value reply)))))"

definition dom_outer_html :: "cdp_peer \<Rightarrow> string \<Rightarrow> (string, 'z) task" where
  "dom_outer_html peer sid =
     and_next (cdp_send peer sid ''DOM.getDocument''
                 (JObj [(''depth'', JNum (NegInt (- 1))), (''pierce'', JBool True)]) ''capture_rendered_html'')
       (\<lambda>doc. case json_i64 (json_idx (json_idx doc ''root'') ''nodeId'') of
          None \<Rightarrow> give (fail CdpError ''DOM.getDocument: missing root nodeId'')
        | Some node_id \<Rightarrow>
            and_next (cdp_send peer sid ''DOM.getOuterHTML''
                        (JObj [(''nodeId'', JNum (if node_id < 0 then NegInt node_id else PosInt (nat node_id)))])
                        ''capture_rendered_html'')
              (\<lambda>outer. give (ok_or (error_new CdpError ''DOM.getOuterHTML: missing outerHTML'')
                                (json_str (json_idx outer ''outerHTML'')))))"

definition capture_outer_html :: "cdp_peer \<Rightarrow> string \<Rightarrow> (string, 'z) task" where
  "capture_outer_html peer sid =
     settle_with (capture_outer_html_via_runtime peer sid)
       (\<lambda>r. case r of
          Inr html \<Rightarrow> if html \<noteq> [] then give (Inr html) else dom_outer_html peer sid
        | Inl _ \<Rightarrow> dom_outer_html peer sid)"

definition capture_inner_text :: "cdp_peer \<Rightarrow> string \<Rightarrow> (string, 'z) task" where
  "capture_inner_text peer sid =
     and_next (cdp_send peer sid ''Runtime.evaluate''
                 (evaluate_params (''document.body ? document.body.innerText : '' @ [CHR 0x27, CHR 0x27])) ''capture_text'')
       (\<lambda>reply. give (Inr (str_or [] (json_str (result_value reply)))))"

record content_capture =
  cc_markdown :: string
  cc_json :: json

definition content_of :: "(string \<Rightarrow> json option) \<Rightarrow> json \<Rightarrow> content_capture result" where
  "content_of parse reply =
     (case parse (str_or ''{}'' (json_str (result_value reply))) of
        None \<Rightarrow> fail ArtifactCaptureFailed ''content: parse json: {e}''
      | Some v \<Rightarrow> Inr \<lparr> cc_markdown = str_or [] (json_str (json_idx v ''markdown'')),
                       cc_json = (case json_get v ''content'' of Some c \<Rightarrow> c | None \<Rightarrow> JNull) \<rparr>)"

definition capture_content :: "capture_libs \<Rightarrow> cdp_peer \<Rightarrow> string \<Rightarrow> (content_capture, 'z) task" where
  "capture_content cl peer sid =
     and_next (cdp_send peer sid ''Runtime.evaluate''
                 (JObj [(''awaitPromise'', JBool True), (''expression'', JStr (cl_content_js cl)), (''returnByValue'', JBool True)])
                 ''capture_content'')
       (\<lambda>reply. give (content_of (cl_parse_json cl) reply))"

definition capture_screenshot :: "capture_libs \<Rightarrow> cdp_peer \<Rightarrow> string \<Rightarrow> (bytes, 'z) task" where
  "capture_screenshot cl peer sid =
     and_next (cdp_send peer sid ''Page.captureScreenshot''
                 (JObj [(''captureBeyondViewport'', JBool False), (''format'', JStr ''png'')]) ''capture_screenshot'')
       (\<lambda>reply. case json_str (json_idx reply ''data'') of
          None \<Rightarrow> give (fail CdpError ''captureScreenshot: missing data'')
        | Some b64 \<Rightarrow>
            give (case cl_base64_decode cl b64 of
                    Some bs \<Rightarrow> Inr bs
                  | None \<Rightarrow> fail ArtifactCaptureFailed ''screenshot base64 decode: {e}''))"

lemma prompt_captures [prompts]:
  "prompt (capture_location peer sid)"
  "prompt (capture_page_snapshot cl peer sid)"
  "prompt (capture_response_body cl peer sid i)"
  "prompt (navigation_status_from_performance cl peer sid)"
  "prompt (capture_outer_html_via_runtime peer sid)"
  "prompt (capture_inner_text peer sid)"
  "prompt (capture_content cl peer sid)"
  "prompt (capture_screenshot cl peer sid)"
  by (auto intro!: prompts split: option.split
      simp: capture_location_def capture_page_snapshot_def capture_response_body_def navigation_status_from_performance_def
        capture_outer_html_via_runtime_def capture_inner_text_def capture_content_def capture_screenshot_def)

lemma prompt_outer_html [prompts]: "prompt (capture_outer_html peer sid)"
  by (auto intro!: prompts split: option.split sum.split simp: capture_outer_html_def dom_outer_html_def)

text \<open>A body that is plain text on the wire is captured byte for byte.\<close>

lemma to_text_of_text [simp]: "to_text (of_text s) = s"
  by (induction s) (simp_all add: to_text_def of_text_def byte_val_def unat_of_nat)

lemma plain_body_is_kept:
  "get_bool resp ''base64Encoded'' \<noteq> Some True \<Longrightarrow>
     decode_response_body cl resp = Inr bs \<Longrightarrow> to_text bs = str_or [] (get_str resp ''body'')"
  by (auto simp: decode_response_body_def Let_def)

end
