(* ===== verification/ArtifactWrites.thy ===== *)
theory ArtifactWrites
  imports Capture
begin

text \<open>
  The artifact files of a fetch (\<open>sdk/fetch/artifacts/*.rs\<close>): where each goes and under which extension, and
  the two captures that live beside their files, web storage with its size cap and the observation.
  Printing and decoding typed values is serde's, extensions of rare types are \<open>mime_guess\<close>'s: arguments.
\<close>

type_synonym files = "(path, bytes) kv"

text \<open>The \<open>write\<close> functions of the artifacts with a fixed name.\<close>

definition write_to :: "write_io \<Rightarrow> path \<Rightarrow> bytes \<Rightarrow> files \<Rightarrow> path result \<times> files" where
  "write_to io target data fs =
     (case write_bytes io target data fs of (r, fs) \<Rightarrow> (and_then r (\<lambda>_. Inr target), fs))"

definition write_artifact ::
  "(path \<Rightarrow> write_io) \<Rightarrow> artifact_paths \<Rightarrow> artifact \<Rightarrow> bytes \<Rightarrow> files \<Rightarrow> path result \<times> files" where
  "write_artifact io paths a data fs = write_to (io (file_for paths a)) (file_for paths a) data fs"

text \<open>The artifacts that are printed first (\<open>to_vec_pretty\<close>), which may fail.\<close>

definition write_printed ::
  "(path \<Rightarrow> write_io) \<Rightarrow> artifact_paths \<Rightarrow> artifact \<Rightarrow> bytes result \<Rightarrow> files \<Rightarrow> path result \<times> files" where
  "write_printed io paths a printed fs =
     (case printed of
        Inl e \<Rightarrow> (Inl e, fs)
      | Inr data \<Rightarrow> write_artifact io paths a data fs)"

subsection \<open>The body\<close>

text \<open>\<open>PathBuf::set_extension\<close> on the artifact's name, which has none.\<close>

definition body_path :: "artifact_paths \<Rightarrow> string \<Rightarrow> path" where
  "body_path paths ext =
     path_with_file_name (file_for paths ABody)
       (if ext = [] then filename_template ABody else filename_template ABody @ ''.'' @ ext)"

definition body_write ::
  "(path \<Rightarrow> write_io) \<Rightarrow> (string \<Rightarrow> string list option) \<Rightarrow> artifact_paths \<Rightarrow> string option \<Rightarrow> bytes \<Rightarrow> files \<Rightarrow> path result \<times> files" where
  "body_write io guess paths mime data fs =
     (let target = body_path paths (extension_for guess mime) in write_to (io target) target data fs)"

text \<open>One network body, named by its request.\<close>

definition network_body_path :: "artifact_paths \<Rightarrow> string \<Rightarrow> string \<Rightarrow> path" where
  "network_body_path paths request_id ext =
     path_push (network_bodies_dir paths) (parse_path (request_id @ ''.'' @ ext))"

definition network_body_write ::
  "(path \<Rightarrow> write_io) \<Rightarrow> artifact_paths \<Rightarrow> string \<Rightarrow> string \<Rightarrow> bytes \<Rightarrow> files \<Rightarrow> path result \<times> files" where
  "network_body_write io paths request_id ext data fs =
     (let target = network_body_path paths request_id ext
      in case ensure_dir (w_mkdir (io target)) of
           Inl e \<Rightarrow> (Inl e, fs)
         | Inr _ \<Rightarrow> write_to (io target) target data fs)"

subsection \<open>Web storage\<close>

definition storage_cap_bytes :: nat where "storage_cap_bytes = 256 * 1024"

record storage_snapshot =
  st_page_url :: string
  st_local :: json
  st_session :: json
  st_idb_names :: "string list"
  st_truncated :: "nat option"

text \<open>The three scripts and serde's parser and printer of the snapshot.\<close>

record storage_libs =
  sl_local_js :: string
  sl_session_js :: string
  sl_idb_js :: string
  sl_parse :: "string \<Rightarrow> json option"
  sl_text :: "storage_snapshot \<Rightarrow> string option"

definition evaluated_string :: "json \<Rightarrow> string result" where
  "evaluated_string reply =
     (if json_get reply ''exceptionDetails'' \<noteq> None
      then fail ArtifactCaptureFailed ''storage: reading {area} threw: {message}''
      else ok_or (error_new ArtifactCaptureFailed ''storage: reading {area} returned no string'')
             (json_str (result_value reply)))"

definition storage_eval :: "cdp_peer \<Rightarrow> string \<Rightarrow> string \<Rightarrow> (string, 'z) task" where
  "storage_eval peer sid js =
     and_next (cdp_await peer (Some sid) ''Runtime.evaluate''
                 (JObj [(''awaitPromise'', JBool True), (''expression'', JStr js), (''returnByValue'', JBool True)]))
       (\<lambda>reply. give (evaluated_string reply))"

definition eval_json :: "storage_libs \<Rightarrow> cdp_peer \<Rightarrow> string \<Rightarrow> string \<Rightarrow> (json, 'z) task" where
  "eval_json sl peer sid js =
     and_next (storage_eval peer sid js)
       (\<lambda>s. give (ok_or (error_new ArtifactCaptureFailed ''storage: parse json: {e}'') (sl_parse sl s)))"

definition eval_str_array :: "storage_libs \<Rightarrow> cdp_peer \<Rightarrow> string \<Rightarrow> string \<Rightarrow> (string list, 'z) task" where
  "eval_str_array sl peer sid js =
     and_next (storage_eval peer sid js)
       (\<lambda>s. give (case Option.bind (sl_parse sl s) json_arr of
                     Some vs \<Rightarrow> Inr (List.map_filter json_str vs)
                   | None \<Rightarrow> fail ArtifactCaptureFailed ''storage: parse idb names: {e}''))"

text \<open>Past the cap every value goes.\<close>

definition cap_storage :: "(storage_snapshot \<Rightarrow> string option) \<Rightarrow> storage_snapshot \<Rightarrow> storage_snapshot" where
  "cap_storage text snap =
     (case text snap of
        Some t \<Rightarrow>
          if length t > storage_cap_bytes
          then snap\<lparr> st_local := JNull, st_session := JNull, st_idb_names := [], st_truncated := Some storage_cap_bytes \<rparr>
          else snap
      | None \<Rightarrow> snap)"

definition storage_capture :: "storage_libs \<Rightarrow> cdp_peer \<Rightarrow> string \<Rightarrow> string \<Rightarrow> (storage_snapshot, 'z) task" where
  "storage_capture sl peer sid u =
     and_next (eval_json sl peer sid (sl_local_js sl)) (\<lambda>ls.
     and_next (eval_json sl peer sid (sl_session_js sl)) (\<lambda>ss.
     settle_with (eval_str_array sl peer sid (sl_idb_js sl)) (\<lambda>idb.
       give (Inr (cap_storage (sl_text sl)
         \<lparr> st_page_url = u, st_local = ls, st_session = ss,
            st_idb_names = (case idb of Inr names \<Rightarrow> names | Inl _ \<Rightarrow> []), st_truncated = None \<rparr>)))))"

definition storage_write ::
  "(path \<Rightarrow> write_io) \<Rightarrow> (storage_snapshot \<Rightarrow> bytes result) \<Rightarrow> artifact_paths \<Rightarrow> storage_snapshot \<Rightarrow> files \<Rightarrow> path result \<times> files" where
  "storage_write io printed paths snap fs =
     (case ensure_dir (w_mkdir (io (file_for paths Storage))) of
        Inl e \<Rightarrow> (Inl e, fs)
      | Inr _ \<Rightarrow> write_printed io paths Storage (printed snap) fs)"

subsection \<open>The observation\<close>

text \<open>What the page script reports, as serde decodes it; its nodes, frames and forms are plain data.\<close>

record obs_snapshot =
  os_nodes :: "json list"
  os_forms :: "json list"
  os_frames :: "json list"
  os_focused :: "string option"
  os_truncated :: "json option"

record viewport =
  vp_width :: nat
  vp_height :: nat
  vp_scale :: "json option"

record observation =
  ob_page_url :: string
  ob_title :: string
  ob_viewport :: viewport
  ob_snapshot :: obs_snapshot

definition page_meta :: "(string \<Rightarrow> json option) \<Rightarrow> json \<Rightarrow> string \<times> viewport" where
  "page_meta parse meta =
     (case json_str (result_value meta) of
        Some s \<Rightarrow>
          (let v = (case parse s of Some v \<Rightarrow> v | None \<Rightarrow> JNull);
               dim = (\<lambda>k. (case json_u64 (json_idx v k) of Some n \<Rightarrow> n | None \<Rightarrow> 0) mod 2 ^ 32)
           in (str_or [] (json_str (json_idx v ''title'')),
               \<lparr> vp_width = dim ''w'', vp_height = dim ''h'', vp_scale = json_get v ''dpr'' \<rparr>))
      | None \<Rightarrow> ([], \<lparr> vp_width = 0, vp_height = 0, vp_scale = None \<rparr>))"

definition observation_capture ::
  "(string \<Rightarrow> json option) \<Rightarrow> (string \<Rightarrow> obs_snapshot result) \<Rightarrow> string \<Rightarrow> string \<Rightarrow> cdp_peer \<Rightarrow> string \<Rightarrow> string \<Rightarrow> (observation, 'z) task" where
  "observation_capture parse parse_snapshot meta_js observation_js peer sid u =
     and_next (cdp_await peer (Some sid) ''Runtime.evaluate'' (evaluate_params meta_js)) (\<lambda>meta.
     and_next (cdp_await peer (Some sid) ''Runtime.evaluate'' (evaluate_params observation_js)) (\<lambda>dom.
       give (and_then (ok_or (error_new ArtifactCaptureFailed ''observation snapshot did not return a JSON string'')
                         (json_str (result_value dom)))
          (\<lambda>raw. and_then (parse_snapshot raw)
            (\<lambda>snap. Inr \<lparr> ob_page_url = u, ob_title = fst (page_meta parse meta),
                           ob_viewport = snd (page_meta parse meta), ob_snapshot = snap \<rparr>)))))"

lemma prompt_storage [prompts]: "prompt (storage_capture sl peer sid u)"
  by (auto intro!: prompts simp: storage_capture_def eval_json_def eval_str_array_def storage_eval_def)

lemma prompt_observation [prompts]: "prompt (observation_capture parse ps mj oj peer sid u)"
  by (auto intro!: prompts simp: observation_capture_def)

subsection \<open>Where artifacts go\<close>

lemma write_to_ok:
  "write_to io target data fs = (Inr p, fs') \<Longrightarrow> p = target"
  by (auto simp: write_to_def and_then_Inr split: prod.splits)

text \<open>Every artifact of a fetch is a file directly below the fetch's own directory.\<close>

lemma body_path_below: "body_path paths ext = ap_root paths @ [Normal (if ext = [] then ''body'' else ''body.'' @ ext)]"
  by (simp add: body_path_def file_for_normal path_with_file_name_def path_file_name_def)

lemma capped_storage_holds_no_value:
  "text snap = Some t \<Longrightarrow> length t > storage_cap_bytes \<Longrightarrow>
     st_local (cap_storage text snap) = JNull \<and> st_session (cap_storage text snap) = JNull
     \<and> st_idb_names (cap_storage text snap) = [] \<and> st_truncated (cap_storage text snap) = Some storage_cap_bytes"
  by (simp add: cap_storage_def)

end
