(* ===== verification/BrowserBase.thy ===== *)
theory BrowserBase
  imports Navigate ArtifactWrites Readiness
begin

text \<open>
  The parts the browser path is put together from (\<open>pipeline/browser/mod.rs\<close>): what it runs against, its own
  state beside the connection, the checks of what was captured, the warnings, the request options given to the
  browser, and the end of a tab.
\<close>

subsection \<open>The environment and the state\<close>

text \<open>
  What the code calls and does not define, and what happens beside it: the browser, the \<open>url\<close>, cookie and
  printing crates, the outcome of each file operation and the time it takes (given those before), how far a write got
  that the outer timer cut off, the events that reach the collector until the commands sent are a given list, the
  pages the readiness wait meets, the answers of the host.
\<close>

record 'o browser_env =
  be_peer :: cdp_peer
  be_nav :: "'o nav_libs"
  be_cap :: capture_libs
  be_storage :: storage_libs
  be_meta_js :: string
  be_observation_js :: string
  be_parse_observation :: "string \<Rightarrow> obs_snapshot result"
  be_normal_url :: "string \<Rightarrow> string option"
  be_collect :: capture_env
  be_arrivals :: "command list \<Rightarrow> net_op list"
  be_main_wakes :: "net_op list list"
  be_main_rest :: "net_op list"
  be_main_cost :: duration
  be_beside :: beside
  be_wait :: wait_world
  be_explicit :: explicit_world
  be_io :: "path \<Rightarrow> write_io"
  be_cut_io :: "path \<Rightarrow> write_io"
  be_file_time :: "open_wait \<Rightarrow> (open_wait \<times> duration) list \<Rightarrow> duration"
  be_path_text :: "path \<Rightarrow> string"
  be_mime_extensions :: "string \<Rightarrow> string list option"
  be_print_json :: "json \<Rightarrow> bytes result"
  be_print_network :: "network_log \<Rightarrow> bytes result"
  be_print_console :: "console_log \<Rightarrow> bytes result"
  be_print_observation :: "observation \<Rightarrow> bytes result"
  be_print_storage :: "storage_snapshot \<Rightarrow> bytes result"
  be_json_line :: "json \<Rightarrow> string option"
  be_html_texts :: "string \<Rightarrow> (string \<times> html_element list) list"
  be_console :: console_inner
  be_epoch :: int
  be_age_end :: "int \<Rightarrow> int option"
  be_hval :: "string \<Rightarrow> bool"
  be_ts_ok :: "int \<Rightarrow> bool"
  be_dom_get :: "string \<Rightarrow> string"
  be_psl :: "string \<Rightarrow> string option"
  be_conv :: "json \<Rightarrow> cookie option"
  be_jar_io :: jar_io
  be_jar_start :: jar_file
  be_jar_load :: jar_file
  be_jar_lock :: jar_file
  be_jar_wait :: duration

record browser_run = run +
  br_net :: net_run
  br_files :: files
  br_result :: fetch_result
  br_warnings :: "warning list"
  br_jar :: jar_file

type_synonym 'a btask = "('a, \<lparr> br_net :: net_run, br_files :: files, br_result :: fetch_result,
  br_warnings :: warning list, br_jar :: jar_file \<rparr>) task"

definition warn :: "artifact \<Rightarrow> error_code \<Rightarrow> string \<Rightarrow> warning" where
  "warn a c d = \<lparr> w_artifact = a, w_code = c, w_detail = d \<rparr>"

definition warn_error :: "artifact \<Rightarrow> error \<Rightarrow> warning" where
  "warn_error a e = warn a (error_code e) (detail e)"

definition push_warnings :: "warning list \<Rightarrow> unit btask" where
  "push_warnings ws = change (\<lambda>s. s\<lparr> br_warnings := br_warnings s @ ws \<rparr>)"

definition on_result :: "(fetch_result \<Rightarrow> fetch_result) \<Rightarrow> unit btask" where
  "on_result f = change (\<lambda>s. s\<lparr> br_result := f (br_result s) \<rparr>)"

text \<open>A call of the fetch on the collector, after whatever events arrived before it.\<close>

definition net_call :: "'o browser_env \<Rightarrow> net_op list \<Rightarrow> unit btask" where
  "net_call env ops =
     change (\<lambda>s. s\<lparr> br_net := foldl (net_step (be_collect env)) (br_net s) (be_arrivals env (rs_sent s) @ ops) \<rparr>)"

text \<open>
  A file operation, and a write of the fetch: they are awaited with no limit of their own. Of a write that the outer
  timer cuts off, the steps that were done by then stay done.
\<close>

definition file_wait :: "'o browser_env \<Rightarrow> open_wait \<Rightarrow> 'a result \<Rightarrow> 'a btask" where
  "file_wait env what r cutoff s = await_open what (r, be_file_time env what (rs_waits s)) cutoff s"

definition write_out :: "'o browser_env \<Rightarrow> ((path \<Rightarrow> write_io) \<Rightarrow> files \<Rightarrow> path result \<times> files) \<Rightarrow> path btask" where
  "write_out env w cutoff s =
     (case file_wait env WriteFile (fst (w (be_io env) (br_files s))) cutoff s of
        (Some r, s') \<Rightarrow> (Some r, s'\<lparr> br_files := snd (w (be_io env) (br_files s)) \<rparr>)
      | (None, s') \<Rightarrow> (None, s'\<lparr> br_files := snd (w (be_cut_io env) (br_files s)) \<rparr>))"

definition writing ::
  "'o browser_env \<Rightarrow> ((path \<Rightarrow> write_io) \<Rightarrow> files \<Rightarrow> path result \<times> files) \<Rightarrow> (path result \<Rightarrow> 'a btask) \<Rightarrow> 'a btask" where
  "writing env w k = settle_with (write_out env w) k"

text \<open>The trace so far, and the finished one.\<close>

definition take_snapshot :: "(trace, 'z) task" where
  "take_snapshot cutoff s =
     (case snapshot (rs_now s) (rs_deadline s) of (t, d) \<Rightarrow> (Some (Inr t), s\<lparr> rs_deadline := d \<rparr>))"

definition finish_trace :: "(trace, 'z) task" where
  "finish_trace cutoff s =
     (case complete_trace (rs_now s) (rs_deadline s) of (t, d) \<Rightarrow> (Some (Inr t), s\<lparr> rs_deadline := d \<rparr>))"

text \<open>\<open>NetworkCollector::wait_for_main_status\<close>: the events that wake it are operations of the collector's task.\<close>

definition run_ops :: "'o browser_env \<Rightarrow> net_op list \<Rightarrow> network_inner \<Rightarrow> network_inner" where
  "run_ops env ops inner = nr_inner (foldl (net_step (be_collect env)) (net_start\<lparr> nr_inner := inner \<rparr>) ops)"

definition main_status :: "'o browser_env \<Rightarrow> nat \<Rightarrow> string option \<Rightarrow> network_entry option btask" where
  "main_status env ms frame =
     and_next (wait_out (Inr (), min (be_main_cost env) (millis ms))) (\<lambda>_ cutoff s.
       case wait_for_main_status frame (map (run_ops env) (be_main_wakes env)) (run_ops env (be_main_rest env))
              (nr_inner (br_net s)) of
         (e, inner) \<Rightarrow> (Some (Inr e), s\<lparr> br_net := (br_net s)\<lparr> nr_inner := inner \<rparr> \<rparr>))"

subsection \<open>Checks\<close>

definition urls_same_ignoring_fragment :: "(string \<Rightarrow> string option) \<Rightarrow> string \<Rightarrow> string \<Rightarrow> bool" where
  "urls_same_ignoring_fragment norm a b \<longleftrightarrow>
     (let normalized = (\<lambda>raw. case norm raw of Some t \<Rightarrow> t | None \<Rightarrow> raw) in normalized a = normalized b)"

definition validate_navigation_capture ::
  "(string \<Rightarrow> string option) \<Rightarrow> string \<Rightarrow> string option \<Rightarrow> string \<Rightarrow> network_entry option \<Rightarrow> page_snapshot option \<Rightarrow> unit result" where
  "validate_navigation_capture norm requested initial final main snap =
     (let same = urls_same_ignoring_fragment norm in
      if requested = ''about:blank'' then Inr ()
      else
        (let final = trim final
         in if final = [] \<or> final = ''about:blank''
            then fail NavigationStale ''navigation did not commit: requested {request_url}, page stayed at {final_url:?}''
            else if (case initial of
                       Some i \<Rightarrow> same final i \<and> \<not> same requested i
                         \<and> (case main of None \<Rightarrow> True
                             | Some e \<Rightarrow> ne_request_url e \<noteq> [] \<and> \<not> same final (ne_request_url e))
                     | None \<Rightarrow> False)
            then fail NavigationStale ''navigation captured a stale page: requested {request_url}, initial {initial}, final {final_url}''
            else if main = None \<and> (case snap of Some p \<Rightarrow> \<not> has_dom_content p \<and> ps_ready_state p = ''complete'' | None \<Rightarrow> False)
            then fail ArtifactCaptureFailed ''navigation to {request_url} did not produce a main document network request and the captured DOM was empty''
            else Inr ()))"

definition should_warn_main_not_observed :: "string \<Rightarrow> string \<Rightarrow> page_snapshot option \<Rightarrow> bool" where
  "should_warn_main_not_observed requested final snap \<longleftrightarrow>
     (if requested = ''about:blank'' \<or> final = ''about:blank'' then True
      else \<not> (case snap of Some p \<Rightarrow> has_dom_content p | None \<Rightarrow> False))"

definition unverifying_codes :: "error_code set" where
  "unverifying_codes = {ArtifactCaptureFailed, ArtifactCaptureTimeout, ArtifactEmpty, ObservationEmpty,
     NavigationStale, ReadinessTimeout, WaitSelectorUnmatched}"

definition takeover_content_verified :: "fetch_result \<Rightarrow> page_snapshot option \<Rightarrow> warning list \<Rightarrow> bool" where
  "takeover_content_verified r snap ws \<longleftrightarrow>
     200 \<le> status r \<and> status r < 300
     \<and> fr_next_action r = None \<and> fr_page_kind r = None
     \<and> (case snap of
          Some p \<Rightarrow> has_dom_content p \<and> trim (ps_text p) \<noteq> [] \<and> ps_ready_state p \<in> {''interactive'', ''complete''}
        | None \<Rightarrow> False)
     \<and> (case fr_readiness r of
          Some rd \<Rightarrow> rd_wait_satisfied rd \<and> \<not> rd_timed_out rd \<and> rd_target_content rd = Ready
        | None \<Rightarrow> True)
     \<and> \<not> list_ex (\<lambda>w. w_code w \<in> unverifying_codes) ws"

definition close_after_success :: "bool \<Rightarrow> bool \<Rightarrow> bool \<Rightarrow> bool" where
  "close_after_success created takeover verified = (if takeover then verified else created)"

definition classify_navigate_error :: "string \<Rightarrow> error_code" where
  "classify_navigate_error t =
     (if contains t ''NAME_NOT_RESOLVED'' \<or> contains t ''ICANN_NAME_COLLISION'' then DnsResolutionFailed
      else if contains t ''CERT_'' \<or> contains t ''SSL_'' then TlsError
      else if contains t ''CONNECTION_'' \<or> contains t ''ADDRESS_UNREACHABLE'' then TargetUnreachable
      else HostUnreachable)"

subsection \<open>Warnings\<close>

definition size_warning :: "artifact \<Rightarrow> nat \<Rightarrow> nat \<Rightarrow> warning list" where
  "size_warning a trimmed tiny =
     (if trimmed = 0 then [warn a ArtifactEmpty (artifact_str a @ '' artifact was empty after trimming whitespace'')]
      else if trimmed < tiny
      then [warn a ArtifactTiny (artifact_str a @ '' artifact was '' @ show_nat trimmed @ '' bytes; threshold is '' @ show_nat tiny)]
      else [])"

definition cookie_jar_sync_warning :: "nat result \<Rightarrow> warning list" where
  "cookie_jar_sync_warning synced =
     (case synced of
        Inr n \<Rightarrow> if n = 0 then [] else [warn Network CookieRejected (''cookie jar sync: rejected_cookie_count='' @ show_nat n)]
      | Inl e \<Rightarrow> [warn Network (error_code e) (''cookie jar sync: '' @ detail e)])"

definition network_capture_warnings :: "network_summary \<Rightarrow> warning list" where
  "network_capture_warnings sm =
     (if ns_events_dropped sm > 0
      then [warn Network ArtifactCaptureFailed (''network capture lost '' @ show_nat (ns_events_dropped sm) @ '' CDP event(s); network quiet could not be verified'')]
      else [])
     @ (if ns_truncated sm
        then [warn Network ArtifactCaptureFailed ''network capture reached a fixed request or stream event limit; network quiet could not be verified'']
        else [])"

definition network_readiness_warnings :: "network_summary \<Rightarrow> warning list" where
  "network_readiness_warnings sm =
     network_capture_warnings sm
     @ (if ns_inflight_total sm > 0
        then [warn Network NetworkNotIdle (show_nat (ns_inflight_total sm) @ '' request(s) were still pending/responded at capture'')]
        else [])
     @ (if list_ex (\<lambda>kind. case map_of (ns_pending_by_type sm) kind of Some n \<Rightarrow> n > 0 | None \<Rightarrow> False)
             [''XHR'', ''Fetch'', ''EventSource'']
        then [warn Network PendingXhrAtCapture ''pending XHR/fetch/EventSource at capture: {:?}'']
        else [])"

subsection \<open>Request options for the browser\<close>

fun cdp_same_site :: "same_site \<Rightarrow> string" where
  "cdp_same_site Strict = ''Strict''"
| "cdp_same_site Lax = ''Lax''"
| "cdp_same_site SameSiteNone = ''None''"

definition cookie_top_level_site :: "url \<Rightarrow> string" where
  "cookie_top_level_site u = url_scheme u @ ''://'' @ str_or [] (url_host u)"

definition json_int :: "int \<Rightarrow> json" where
  "json_int i = JNum (if i < 0 then NegInt i else PosInt (nat i))"

definition put_some :: "string \<Rightarrow> ('a \<Rightarrow> json) \<Rightarrow> 'a option \<Rightarrow> json \<Rightarrow> json" where
  "put_some k conv x v = (case x of Some y \<Rightarrow> json_obj_put k (conv y) v | None \<Rightarrow> v)"

definition cdp_cookie_param :: "prepared_cookie \<Rightarrow> url \<Rightarrow> json" where
  "cdp_cookie_param c u =
     (let p = json_obj_put ''url'' (JStr (url_text u)) (json_obj_put ''value'' (JStr (pc_value c))
                (json_obj_put ''name'' (JStr (pc_name c)) (JObj [])));
          p = put_some ''domain'' JStr (pc_domain c) p;
          p = put_some ''path'' JStr (pc_path c) p;
          p = (if pc_secure c \<noteq> None \<or> effective_cookie_secure c
               then json_obj_put ''secure'' (JBool (effective_cookie_secure c)) p else p);
          p = put_some ''httpOnly'' JBool (pc_http_only c) p;
          p = put_some ''sameSite'' (\<lambda>s. JStr (cdp_same_site s)) (pc_same_site c) p;
          p = put_some ''expires'' json_int (pc_expires c) p
      in if pc_partitioned c = Some True
         then json_obj_put ''partitionKey''
                (JObj [(''hasCrossSiteAncestor'', JBool False), (''topLevelSite'', JStr (cookie_top_level_site u))]) p
         else p)"

text \<open>The parameters of the cookies that may go there, until one is out of scope.\<close>

fun cookie_params :: "int \<Rightarrow> url \<Rightarrow> prepared_cookie list \<Rightarrow> json list result" where
  "cookie_params now u [] = Inr []"
| "cookie_params now u (c # cs) =
     and_then (validate_cookie_scope c u) (\<lambda>_.
       if effective_cookie_secure c \<and> url_scheme u \<noteq> ''https'' then cookie_params now u cs
       else if cookie_is_expired now c then cookie_params now u cs
       else and_then (cookie_params now u cs) (\<lambda>ps. Inr (cdp_cookie_param c u # ps)))"

definition set_cookies :: "'o browser_env \<Rightarrow> string \<Rightarrow> string \<Rightarrow> prepared_cookie list \<Rightarrow> (unit, 'z) task" where
  "set_cookies env sid u cookies =
     (if cookies = [] then give (Inr ())
      else
        (case and_then (parse_cookie_url (nl_parse (be_nav env)) u) (\<lambda>v. cookie_params (be_epoch env) v cookies) of
           Inl e \<Rightarrow> give (Inl e)
         | Inr params \<Rightarrow>
             if params = [] then give (Inr ())
             else and_next (cdp_send (be_peer env) sid ''Network.setCookies'' (JObj [(''cookies'', JArr params)]) ''apply_request_options'')
                    (\<lambda>_. give (Inr ()))))"

definition apply_browser_request_options ::
  "'o browser_env \<Rightarrow> string \<Rightarrow> string \<Rightarrow> prepared_options \<Rightarrow> (string, string) kv \<Rightarrow> (unit, 'z) task" where
  "apply_browser_request_options env sid u po extra =
     and_next (if extra = [] then give (Inr JNull)
               else cdp_send (be_peer env) sid ''Network.setExtraHTTPHeaders''
                      (JObj [(''headers'', JObj (map (\<lambda>(k, v). (k, JStr v)) extra))]) ''apply_request_options'') (\<lambda>_.
     and_next (case po_user_agent po of
                 None \<Rightarrow> give (Inr JNull)
               | Some (ua, _) \<Rightarrow> cdp_send (be_peer env) sid ''Network.setUserAgentOverride''
                                  (JObj [(''userAgent'', JStr ua)]) ''apply_request_options'') (\<lambda>_.
       set_cookies env sid u (browser_cookies po)))"

definition runtime_exception_detail :: "json \<Rightarrow> string" where
  "runtime_exception_detail ex =
     (let described = Option.bind (json_get ex ''exception'')
            (\<lambda>e. case json_get e ''description'' of Some d \<Rightarrow> Some d | None \<Rightarrow> json_get e ''value'')
      in case Option.bind described json_str of
           Some s \<Rightarrow> s
         | None \<Rightarrow> str_or ''Runtime.evaluate returned exceptionDetails'' (get_str ex ''text''))"

fun evaluate_after_wait :: "'o browser_env \<Rightarrow> string \<Rightarrow> nat \<Rightarrow> string list \<Rightarrow> (unit, 'z) task" where
  "evaluate_after_wait env sid idx [] = give (Inr ())"
| "evaluate_after_wait env sid idx (js # rest) =
     settle_with (cdp_send (be_peer env) sid ''Runtime.evaluate''
                    (JObj [(''awaitPromise'', JBool True), (''expression'', JStr js), (''returnByValue'', JBool False)])
                    ''evaluate_after_wait'')
       (\<lambda>r. case r of
          Inl e \<Rightarrow> give (Inl (with_retryable (error_new (error_code e)
                          (''evaluate_after_wait['' @ show_nat idx @ '']: '' @ detail e)) (retryable e)))
        | Inr reply \<Rightarrow>
            (case json_get reply ''exceptionDetails'' of
               Some ex \<Rightarrow> give (fail CdpError (''evaluate_after_wait['' @ show_nat idx @ '']: '' @ runtime_exception_detail ex))
             | None \<Rightarrow> evaluate_after_wait env sid (idx + 1) rest))"

definition root_frame_id :: "'o browser_env \<Rightarrow> string \<Rightarrow> (string option, 'z) task" where
  "root_frame_id env sid =
     settle_with (cdp_send (be_peer env) sid ''Page.getFrameTree'' (JObj []) ''browser_enable'')
       (\<lambda>r. give (Inr (case r of Inr tree \<Rightarrow> frame_tree_id tree | Inl _ \<Rightarrow> None)))"

subsection \<open>The end of a tab\<close>

definition target_cleanup_timeout :: duration where "target_cleanup_timeout = secs 2"

text \<open>
  \<open>close_target_preserving_browser\<close> inside whatever timer encloses the fetch: when that fires first, what
  was sent by then is sent.
\<close>

definition closing :: "cdp_peer \<Rightarrow> string \<Rightarrow> duration \<Rightarrow> (unit, 'z) task" where
  "closing peer t limit cutoff s =
     (case close_target_preserving_browser peer t limit (rs_sent s) of
        (r, used, h) \<Rightarrow>
          if rs_now s + used \<le> cutoff then (Some r, s\<lparr> rs_now := rs_now s + used, rs_sent := h \<rparr>)
          else (None, s\<lparr> rs_now := max (rs_now s) cutoff,
                  rs_sent := snd (snd (close_target_preserving_browser peer t (cutoff - rs_now s) (rs_sent s))) \<rparr>))"

definition finish_target :: "'o browser_env \<Rightarrow> string \<Rightarrow> string \<Rightarrow> bool \<Rightarrow> (bool, 'z) task" where
  "finish_target env t sid close =
     (if close then settle_with (closing (be_peer env) t target_cleanup_timeout) (\<lambda>r. give (Inr (\<not> isl r)))
      else settle_with (cdp_call (be_peer env) None ''Target.detachFromTarget'' (JObj [(''sessionId'', JStr sid)]) target_cleanup_timeout)
             (\<lambda>_. give (Inr False)))"

definition retain_tab :: "string \<Rightarrow> (unit, 'z) task" where
  "retain_tab t = on_deadline (update_trace (\<lambda>tr. tr\<lparr> retained_tab_id := Some t \<rparr>))"

definition finish_failed_target :: "'o browser_env \<Rightarrow> string \<Rightarrow> string \<Rightarrow> bool \<Rightarrow> (unit, 'z) task" where
  "finish_failed_target env t sid close =
     and_next (finish_target env t sid close) (\<lambda>ok. if ok then give (Inr ()) else retain_tab t)"

subsection \<open>Waiting for the navigation to commit\<close>

definition sleep_towards :: "instant \<Rightarrow> duration \<Rightarrow> (unit, 'z) task" where
  "sleep_towards stop_at d cutoff s = wait_out (Inr (), min d (stop_at - rs_now s)) cutoff s"

definition committed :: "(string \<Rightarrow> string option) \<Rightarrow> string \<Rightarrow> string option result \<Rightarrow> bool" where
  "committed norm initial r \<longleftrightarrow>
     (case r of
        Inr (Some current) \<Rightarrow> \<not> urls_same_ignoring_fragment norm current initial \<and> current \<noteq> ''about:blank''
      | _ \<Rightarrow> False)"

lemma location_moves:
  "capture_location peer sid cutoff s = (r, s') \<Longrightarrow> rs_now s \<le> rs_now s'"
  using promptD(1) [OF prompt_captures(1)] by (fastforce simp: moves_def)

lemma poll_advances:
  assumes "\<not> stop_at \<le> rs_now s" and "(Some r, s1) = capture_location peer sid cutoff s"
    and "(Some r', s2) = sleep_towards stop_at (millis 50) cutoff s1"
  shows "stop_at - rs_now s2 < stop_at - rs_now s"
proof -
  have "rs_now s \<le> rs_now s1" using location_moves assms(2) by metis
  moreover have "rs_now s2 = rs_now s1 + min (millis 50) (stop_at - rs_now s1)"
    using assms(3) by (auto simp: sleep_towards_def wait_out_def split: if_splits)
  ultimately show ?thesis using assms(1) by (auto simp: millis_def min_def)
qed

function commit_loop ::
  "'o browser_env \<Rightarrow> string \<Rightarrow> instant \<Rightarrow> string \<Rightarrow> instant \<Rightarrow> 'z run_scheme \<Rightarrow> unit result option \<times> 'z run_scheme" where
  "commit_loop env sid stop_at initial cutoff s =
     (if stop_at \<le> rs_now s then (Some (Inr ()), s)
      else
        (case capture_location (be_peer env) sid cutoff s of
           (None, s1) \<Rightarrow> (None, s1)
         | (Some r, s1) \<Rightarrow>
             if committed (be_normal_url env) initial r then (Some (Inr ()), s1)
             else
               (case sleep_towards stop_at (millis 50) cutoff s1 of
                  (None, s2) \<Rightarrow> (None, s2)
                | (Some _, s2) \<Rightarrow> commit_loop env sid stop_at initial cutoff s2)))"
  by pat_completeness auto

termination
  by (relation "measure (\<lambda>(env, sid, stop_at, initial, cutoff, s). stop_at - rs_now s)")
     (auto dest: poll_advances)

declare commit_loop.simps [simp del]

definition wait_for_navigation_commit :: "'o browser_env \<Rightarrow> string \<Rightarrow> string \<Rightarrow> string option \<Rightarrow> (unit, 'z) task" where
  "wait_for_navigation_commit env sid requested initial cutoff s =
     (case initial of
        None \<Rightarrow> (Some (Inr ()), s)
      | Some i \<Rightarrow>
          if requested = ''about:blank'' \<or> urls_same_ignoring_fragment (be_normal_url env) requested i then (Some (Inr ()), s)
          else
            (case bounded_remaining (rs_now s) ''wait_navigation_commit'' (secs 3) (rs_deadline s) of
               (Inl e, d) \<Rightarrow> (Some (Inl e), s\<lparr> rs_deadline := d \<rparr>)
             | (Inr limit, d) \<Rightarrow> commit_loop env sid (rs_now s + limit) i cutoff (s\<lparr> rs_deadline := d \<rparr>)))"

subsection \<open>Stream events\<close>

definition frames_path :: "artifact_paths \<Rightarrow> string \<Rightarrow> path" where
  "frames_path paths request_id = path_push (network_bodies_dir paths) (parse_path (request_id @ ''.frames.jsonl''))"

definition frame_lines :: "(json \<Rightarrow> string option) \<Rightarrow> json list \<Rightarrow> string" where
  "frame_lines line frames =
     concat (map (\<lambda>f. case line f of Some s \<Rightarrow> s @ [CHR 0x0A] | None \<Rightarrow> []) frames)"

fun write_frames_jsonl :: "'o browser_env \<Rightarrow> artifact_paths \<Rightarrow> (string \<times> json list) list \<Rightarrow> unit btask" where
  "write_frames_jsonl env paths [] = give (Inr ())"
| "write_frames_jsonl env paths ((request_id, frames) # rest) =
     (if frames = [] then write_frames_jsonl env paths rest
      else
        settle_with (file_wait env MakeDir (ensure_dir (w_mkdir (be_io env (network_bodies_dir paths))))) (\<lambda>made.
          case made of
            Inl e \<Rightarrow> and_next (push_warnings [warn Network (error_code e) (''frames jsonl mkdir: '' @ detail e)])
                      (\<lambda>_. write_frames_jsonl env paths rest)
          | Inr _ \<Rightarrow>
             (let target = frames_path paths request_id
              in writing env (\<lambda>io. write_to (io target) target (of_text (frame_lines (be_json_line env) frames)))
                   (\<lambda>r. case r of
                      Inl e \<Rightarrow> and_next (push_warnings [warn Network (error_code e) (''frames jsonl write {}: '' @ detail e)])
                                 (\<lambda>_. write_frames_jsonl env paths rest)
                    | Inr _ \<Rightarrow> write_frames_jsonl env paths rest))))"

subsection \<open>Promptness\<close>

lemma prompt_closing [prompts]: "prompt (closing peer t limit)"
proof (rule promptI)
  fix cutoff s r s' assume run: "closing peer t limit cutoff (s :: _ run_scheme) = (r, s')"
  obtain r1 used h where c: "close_target_preserving_browser peer t limit (rs_sent s) = (r1, used, h)" by (metis surj_pair)
  obtain r2 used2 h2 where c2: "close_target_preserving_browser peer t (cutoff - rs_now s) (rs_sent s) = (r2, used2, h2)" by (metis surj_pair)
  have "\<exists>more. h = more @ rs_sent s" "\<exists>more. h2 = more @ rs_sent s"
    using cleanup_extends [OF c] cleanup_extends [OF c2] by blast+
  then show "moves s s' \<and> rs_now s' \<le> max (rs_now s) cutoff \<and> (r = None \<longrightarrow> cutoff \<le> rs_now s')"
    using run c c2 by (auto simp: closing_def moves_def split: if_splits)
qed

lemma prompt_finish_target [prompts]: "prompt (finish_target env t sid close)"
  by (auto intro!: prompts simp: finish_target_def)

lemma prompt_retain [prompts]: "prompt (retain_tab t)"
  by (auto intro!: prompts simp: retain_tab_def)

lemma prompt_finish_failed [prompts]: "prompt (finish_failed_target env t sid close)"
  by (auto intro!: prompts simp: finish_failed_target_def)

lemma prompt_sleep [prompts]: "prompt (sleep_towards stop_at d)"
  using prompt_wait unfolding prompt_def sleep_towards_def by blast

lemma commit_loop_moves:
  "commit_loop env sid stop_at initial cutoff s = (r, s') \<Longrightarrow>
     moves s s' \<and> rs_now s' \<le> max (rs_now s) cutoff \<and> (r = None \<longrightarrow> cutoff \<le> rs_now s')"
proof (induction env sid stop_at initial cutoff s arbitrary: r s' rule: commit_loop.induct)
  case (1 env sid stop_at initial cutoff s)
  obtain r1 s1 where loc: "capture_location (be_peer env) sid cutoff s = (r1, s1)" by (metis surj_pair)
  note first = promptD [OF prompt_captures(1) loc]
  show ?case
  proof (cases "stop_at \<le> rs_now s \<or> r1 = None \<or> committed (be_normal_url env) initial (the r1)")
    case True
    with "1.prems" loc first show ?thesis
      by (subst (asm) commit_loop.simps) (auto split: if_splits option.splits)
  next
    case False
    then obtain v where v: "r1 = Some v" by auto
    obtain r2 s2 where slept: "sleep_towards stop_at (millis 50) cutoff s1 = (r2, s2)" by (metis surj_pair)
    note second = promptD [OF prompt_sleep slept]
    show ?thesis
    proof (cases r2)
      case None
      with "1.prems" loc first second slept v False show ?thesis
        by (subst (asm) commit_loop.simps) (auto intro: moves_trans)
    next
      case (Some w)
      with "1.prems" loc slept v False have "commit_loop env sid stop_at initial cutoff s2 = (r, s')"
        by (subst (asm) commit_loop.simps) simp
      from "1.IH" [OF _ loc [symmetric] v _ slept [symmetric] Some this] False v first second
      show ?thesis by (auto intro: moves_trans)
    qed
  qed
qed

lemma prompt_commit [prompts]: "prompt (wait_for_navigation_commit env sid requested initial)"
proof (rule promptI)
  fix cutoff s r s' assume run: "wait_for_navigation_commit env sid requested initial cutoff (s :: _ run_scheme) = (r, s')"
  obtain b d where rem: "bounded_remaining (rs_now s) ''wait_navigation_commit'' (secs 3) (rs_deadline s) = (b, d)" by (metis surj_pair)
  then have same: "same_budget (rs_deadline s) d"
    by (auto simp: bounded_remaining_def dest: same_budget_remaining split: prod.splits)
  show "moves s s' \<and> rs_now s' \<le> max (rs_now s) cutoff \<and> (r = None \<longrightarrow> cutoff \<le> rs_now s')"
  proof (cases "\<exists>i limit. initial = Some i \<and> b = Inr limit \<and> (Some (Inr ()), s) \<noteq> (r, s')")
    case True
    then obtain i limit where "commit_loop env sid (rs_now s + limit) i cutoff (s\<lparr> rs_deadline := d \<rparr>) = (r, s')"
      using run rem by (auto simp: wait_for_navigation_commit_def split: if_splits)
    from commit_loop_moves [OF this] same show ?thesis
      by (auto simp: moves_def intro: same_budget_trans)
  next
    case False
    with run rem same show ?thesis
      by (auto simp: wait_for_navigation_commit_def moves_def split: option.splits if_splits sum.splits)
  qed
qed

lemma prompt_evaluate [prompts]: "prompt (evaluate_after_wait env sid idx scripts)"
  by (induction scripts arbitrary: idx) (auto intro!: prompts split: sum.split option.split)

lemma prompt_root_frame [prompts]: "prompt (root_frame_id env sid)"
  by (auto intro!: prompts simp: root_frame_id_def)

lemma prompt_options [prompts]: "prompt (apply_browser_request_options env sid u po extra)"
  by (auto intro!: prompts split: option.split sum.split simp: apply_browser_request_options_def set_cookies_def)

lemma prompt_state [prompts]:
  "prompt (push_warnings ws)" "prompt (on_result f)" "prompt (net_call env ops)"
  by (auto simp: push_warnings_def on_result_def net_call_def prompt_def change_def moves_def)

lemma prompt_file_wait [prompts]: "prompt (file_wait env what r)"
  using prompt_await_open unfolding prompt_def file_wait_def by blast

lemma prompt_write_out: "prompt (write_out env w)"
proof (rule promptI)
  fix cutoff s r s' assume run: "write_out env w cutoff s = (r, s')"
  obtain r1 s1 where waited: "file_wait env WriteFile (fst (w (be_io env) (br_files s))) cutoff s = (r1, s1)" by (metis surj_pair)
  from promptD [OF prompt_file_wait this] run waited
  show "moves s s' \<and> rs_now s' \<le> max (rs_now s) cutoff \<and> (r = None \<longrightarrow> cutoff \<le> rs_now s')"
    by (auto simp: write_out_def moves_def split: option.splits)
qed

lemma prompt_writing [prompts]: "(\<And>r. prompt (k r)) \<Longrightarrow> prompt (writing env w k)"
  unfolding writing_def by (intro prompt_settle prompt_write_out)

lemma prompt_frames [prompts]: "prompt (write_frames_jsonl env paths streams)"
  by (induction streams rule: write_frames_jsonl.induct) (auto intro!: prompts split: sum.split simp: Let_def)

lemma same_budget_snapshot: "snapshot_inner now fin d = (t, d') \<Longrightarrow> same_budget d d'"
  by (auto simp: snapshot_inner_def Let_def same_budget_def split: if_splits)

lemma prompt_snapshot [prompts]: "prompt take_snapshot" "prompt finish_trace"
  by (auto simp: prompt_def take_snapshot_def finish_trace_def snapshot_def complete_trace_def moves_def
      dest: same_budget_snapshot split: prod.splits)

lemma prompt_main_status [prompts]: "prompt (main_status env ms frame)"
  unfolding main_status_def by (rule prompt_next [OF prompt_wait]) (auto simp: prompt_def moves_def split: prod.splits)

end
