(* ===== verification/NetworkBodies.thy ===== *)
theory NetworkBodies
  imports BrowserBase
begin

text \<open>
  Capturing response bodies (\<open>pipeline/browser/network_bodies.rs\<close>): which finished responses are asked for,
  which are too large to ask for, and what is written of them.
\<close>

subsection \<open>Sizes\<close>

text \<open>Doubles as in the collector; \<open>f64_minus\<close> rounds the exact difference.\<close>

definition f64_minus :: "int \<times> int \<Rightarrow> int \<times> int \<Rightarrow> int \<times> int" where
  "f64_minus a b =
     (let e = min (snd a) (snd b)
      in f64_round (fst a * 2 ^ nat (snd a - e) - fst b * 2 ^ nat (snd b - e)) e)"

text \<open>\<open>x.ceil()\<close> of a positive double as an exact integer.\<close>

definition f64_ceil :: "int \<times> int \<Rightarrow> nat" where
  "f64_ceil x = (case x of (m, e) \<Rightarrow> nat (if 0 \<le> e then m * 2 ^ nat e else - ((- m) div 2 ^ nat (- e))))"

definition length_hint :: "network_entry \<Rightarrow> string \<Rightarrow> (int \<times> int) option" where
  "length_hint e k =
     (case Option.bind (map_of (ne_hints e) k) json_f64 of
        Some x \<Rightarrow> if 0 \<le> fst x then Some x else None
      | None \<Rightarrow> None)"

definition encoded_exceeds :: "network_entry \<Rightarrow> nat \<Rightarrow> bool" where
  "encoded_exceeds e max_bytes \<longleftrightarrow>
     (case length_hint e ''encoded_data_length'' of
        None \<Rightarrow> False
      | Some len \<Rightarrow>
          (let body = f64_minus len (case length_hint e ''encoded_header_length'' of Some h \<Rightarrow> h | None \<Rightarrow> (0, 0))
           in fst body > 0 \<and> (f64_ceil body \<ge> 2 ^ 64 \<or> min u64_max (f64_ceil body) > max_bytes)))"

definition known_body_exceeds_limit :: "network_entry \<Rightarrow> nat \<Rightarrow> bool" where
  "known_body_exceeds_limit e max_bytes \<longleftrightarrow>
     encoded_exceeds e max_bytes
     \<or> list_ex (\<lambda>(name, v). eq_ignore_ascii_case name ''content-length''
          \<and> (case parse_uint (u64_max + 1) (trim v) of Some n \<Rightarrow> n > max_bytes | None \<Rightarrow> False)) (ne_response_headers e)"

fun network_bodies_eligible :: "network_bodies \<Rightarrow> string \<Rightarrow> bool" where
  "network_bodies_eligible BodiesOff kind = False"
| "network_bodies_eligible BodiesAll kind = True"
| "network_bodies_eligible BodiesXhr kind = (kind \<in> {''XHR'', ''Fetch'', ''EventSource''})"

definition ext_for_mime :: "string option \<Rightarrow> string" where
  "ext_for_mime mime =
     (let m = str_or [] mime in
      if starts_with m ''application/json'' then ''json''
      else if starts_with m ''text/html'' then ''html''
      else if starts_with m ''text/css'' then ''css''
      else if starts_with m ''application/javascript'' \<or> starts_with m ''text/javascript'' then ''js''
      else if starts_with m ''text/plain'' then ''txt''
      else if starts_with m ''image/png'' then ''png''
      else if starts_with m ''image/jpeg'' then ''jpg''
      else if starts_with m ''image/webp'' then ''webp''
      else if starts_with m ''image/svg'' then ''svg''
      else if starts_with m ''text/event-stream'' then ''txt''
      else ''bin'')"

subsection \<open>The loop over the finished requests\<close>

definition bounded_rest :: "string \<Rightarrow> duration \<Rightarrow> (duration, 'z) task" where
  "bounded_rest stg cap cutoff s =
     (case bounded_remaining (rs_now s) stg cap (rs_deadline s) of (r, d) \<Rightarrow> (Some r, s\<lparr> rs_deadline := d \<rparr>))"

definition stored_body :: "nat \<Rightarrow> bytes \<Rightarrow> bytes" where
  "stored_body max_bytes data = (if length data > max_bytes then take max_bytes data else data)"

text \<open>A body that has arrived: cut to the cap, written, noted on its entry.\<close>

definition keep_body :: "'o browser_env \<Rightarrow> artifact_paths \<Rightarrow> nat \<Rightarrow> string \<Rightarrow> network_entry \<Rightarrow> bytes \<Rightarrow> unit btask" where
  "keep_body env paths max_bytes r e data =
     (let final = stored_body max_bytes data
      in writing env (\<lambda>io. network_body_write io paths r (ext_for_mime (ne_mime_type e)) final)
           (\<lambda>out. case out of
              Inl err \<Rightarrow> push_warnings [warn_error Network err]
            | Inr p \<Rightarrow>
                and_next (net_call env [SetBodyFile r (be_path_text env p)]) (\<lambda>_.
                and_next (if length data > max_bytes
                          then push_warnings [warn Network NetworkBodyTruncated (''body for '' @ r @ '' truncated to '' @ show_nat max_bytes @ '' bytes'')]
                          else give (Inr ())) (\<lambda>_.
                  if (case ne_mime_type e of Some m \<Rightarrow> contains m ''json'' | None \<Rightarrow> False)
                     \<and> cl_parse_json (be_cap env) (to_text final) \<noteq> None
                  then net_call env [SetHint r ''json_valid'' (JBool True)]
                  else give (Inr ())))))"

definition skip_above :: "nat \<Rightarrow> nat" where
  "skip_above max_bytes = min max_bytes cdp_response_body_max_bytes"

text \<open>
  One request; the answer says whether the loop goes on. Only a fetch that has run out of time ends it.
\<close>

definition capture_one ::
  "'o browser_env \<Rightarrow> artifact_paths \<Rightarrow> string \<Rightarrow> network_bodies \<Rightarrow> nat \<Rightarrow> string \<Rightarrow> network_entry \<Rightarrow> bool btask" where
  "capture_one env paths sid mode max_bytes r e =
     (let go_on = (\<lambda>t. and_next t (\<lambda>_. give (Inr True)))
      in if \<not> network_bodies_eligible mode (ne_resource_type e) then give (Inr True)
         else if known_body_exceeds_limit e (skip_above max_bytes)
         then go_on (and_next (net_call env [SetHint r ''body_skipped_size_limit'' (JBool True)])
                (\<lambda>_. push_warnings [warn Network NetworkBodyTruncated (''body for '' @ r @ '' skipped before capture: known size exceeds '' @ show_nat (skip_above max_bytes) @ '' bytes'')]))
         else
           settle_with (bounded_rest ''capture_network_bodies'' (millis 750))
             (\<lambda>t. case t of
                Inl err \<Rightarrow> and_next (push_warnings [warn_error Network err]) (\<lambda>_. give (Inr False))
              | Inr limit \<Rightarrow>
                  settle_with (cdp_call (be_peer env) (Some sid) ''Network.getResponseBody'' (JObj [(''requestId'', JStr r)]) limit)
                    (\<lambda>reply. case reply of
                       Inl err \<Rightarrow> go_on (push_warnings [warn Network
                           (if error_code err = CdpTimeout then ArtifactCaptureTimeout else ArtifactCaptureFailed)
                           (''getResponseBody('' @ r @ ''): '' @ detail err)])
                     | Inr resp \<Rightarrow>
                         (case decode_response_body (be_cap env) resp of
                            Inl err \<Rightarrow> go_on (push_warnings [warn_error Network err])
                          | Inr data \<Rightarrow> go_on (keep_body env paths max_bytes r e data)))))"

fun capture_bodies ::
  "'o browser_env \<Rightarrow> artifact_paths \<Rightarrow> string \<Rightarrow> network_bodies \<Rightarrow> nat \<Rightarrow> string list \<Rightarrow> unit btask" where
  "capture_bodies env paths sid mode max_bytes [] = give (Inr ())"
| "capture_bodies env paths sid mode max_bytes (r # rs) =
     and_next (net_call env []) (\<lambda>_.
       reading (\<lambda>s. entry_at (nr_inner (br_net s)) r)
         (\<lambda>found. and_next (case found of Some e \<Rightarrow> capture_one env paths sid mode max_bytes r e | None \<Rightarrow> give (Inr True))
            (\<lambda>go. if go then capture_bodies env paths sid mode max_bytes rs else give (Inr ()))))"

definition capture_network_bodies ::
  "'o browser_env \<Rightarrow> artifact_paths \<Rightarrow> string \<Rightarrow> network_bodies \<Rightarrow> nat \<Rightarrow> unit btask" where
  "capture_network_bodies env paths sid mode max_bytes =
     and_next (net_call env []) (\<lambda>_.
       reading (\<lambda>s. map fst (ni_finished (nr_inner (br_net s))))
         (\<lambda>finished. and_next (net_call env [TakeFinished])
            (\<lambda>_. capture_bodies env paths sid mode max_bytes finished)))"

lemma prompt_bounded_rest [prompts]: "prompt (bounded_rest stg cap)"
  by (auto simp: prompt_def bounded_rest_def bounded_remaining_def moves_def dest: same_budget_remaining split: prod.splits)

lemma prompt_keep_body [prompts]: "prompt (keep_body env paths max_bytes r e data)"
  by (auto intro!: prompts split: sum.split simp: keep_body_def Let_def)

lemma prompt_capture_one [prompts]: "prompt (capture_one env paths sid mode max_bytes r e)"
  by (auto intro!: prompts split: sum.split simp: capture_one_def Let_def)

lemma prompt_bodies [prompts]: "prompt (capture_bodies env paths sid mode max_bytes rs)"
  by (induction rs) (auto intro!: prompts split: option.split)

lemma prompt_network_bodies [prompts]: "prompt (capture_network_bodies env paths sid mode max_bytes)"
  by (auto intro!: prompts simp: capture_network_bodies_def)

end
