(* ===== verification/Download.thy ===== *)
theory Download
  imports BrowserBase ProfileStore
begin

text \<open>
  Navigations that become downloads (\<open>pipeline/browser/download.rs\<close>): whose download an event announces, the
  wait for the file to be complete, and the result of a fetch that ends with one.
\<close>

subsection \<open>The announcement\<close>

record download_start =
  ds_url :: "string option"
  ds_suggested :: "string option"

record download_frames =
  df_session :: string
  df_target :: string
  df_main_frame :: "string option"

definition frames_own :: "download_frames \<Rightarrow> cdp_event \<Rightarrow> bool" where
  "frames_own fr e \<longleftrightarrow>
     (if ev_method e = ''Page.downloadWillBegin'' then ev_session e = Some (df_session fr)
      else if ev_method e = ''Browser.downloadWillBegin''
      then (case get_str (ev_params e) ''frameId'' of
              Some f \<Rightarrow> f = df_target fr \<or> Some f = df_main_frame fr
            | None \<Rightarrow> False)
      else False)"

definition download_start_from_event :: "cdp_event \<Rightarrow> download_frames \<Rightarrow> download_start option" where
  "download_start_from_event e fr =
     (let field = (\<lambda>k. case get_str (ev_params e) k of Some v \<Rightarrow> if v \<noteq> [] then Some v else None | None \<Rightarrow> None)
      in if \<not> frames_own fr e then None
         else Some \<lparr> ds_url = field ''url'', ds_suggested = field ''suggestedFilename'' \<rparr>)"

text \<open>\<open>try_recv\<close> on what is buffered.\<close>

fun poll_download_start :: "download_frames \<Rightarrow> icpt_event list \<Rightarrow> download_start option" where
  "poll_download_start fr [] = None"
| "poll_download_start fr (Received e # evs) =
     (case download_start_from_event e fr of Some d \<Rightarrow> Some d | None \<Rightarrow> poll_download_start fr evs)"
| "poll_download_start fr (LaggedBehind # evs) = poll_download_start fr evs"
| "poll_download_start fr (EventsClosed # evs) = None"

text \<open>What arrives later, each at its time.\<close>

fun await_download_start ::
  "download_frames \<Rightarrow> instant \<Rightarrow> instant \<Rightarrow> (instant \<times> icpt_event) list \<Rightarrow> download_start option \<times> instant" where
  "await_download_start fr ends now [] = (None, max now ends)"
| "await_download_start fr ends now ((t, ev) # evs) =
     (if ends \<le> now then (None, now)
      else if ends < t then (None, ends)
      else
        (case ev of
           Received e \<Rightarrow>
             (case download_start_from_event e fr of
                Some d \<Rightarrow> (Some d, max now t)
              | None \<Rightarrow> await_download_start fr ends (max now t) evs)
         | LaggedBehind \<Rightarrow> await_download_start fr ends (max now t) evs
         | EventsClosed \<Rightarrow> (None, max now t)))"

definition wait_for_download_start ::
  "download_frames \<Rightarrow> icpt_event list \<Rightarrow> (instant \<times> icpt_event) list \<Rightarrow> duration \<Rightarrow> instant \<Rightarrow> download_start option \<times> instant" where
  "wait_for_download_start fr buffered later timeout now =
     (case poll_download_start fr buffered of
        Some d \<Rightarrow> (Some d, now)
      | None \<Rightarrow> if timeout = 0 then (None, now) else await_download_start fr (now + timeout) now later)"

definition navigate_has_download_flag :: "json \<Rightarrow> bool" where
  "navigate_has_download_flag nav \<longleftrightarrow> get_bool nav ''isDownload'' = Some True"

definition navigation_became_download :: "json \<Rightarrow> download_start option \<Rightarrow> bool" where
  "navigation_became_download nav start \<longleftrightarrow> start \<noteq> None \<or> navigate_has_download_flag nav"

subsection \<open>The file\<close>

definition strip_suffix :: "string \<Rightarrow> string \<Rightarrow> string option" where
  "strip_suffix suf s = (if ends_with s suf then Some (take (length s - length suf) s) else None)"

definition strip_circumfix :: "string \<Rightarrow> string \<Rightarrow> string \<Rightarrow> string option" where
  "strip_circumfix pre suf s = Option.bind (strip_prefix pre s) (strip_suffix suf)"

text \<open>The name before its extension, and the extension with its dot.\<close>

definition split_extension :: "string \<Rightarrow> string \<times> string" where
  "split_extension s =
     (case rposition (\<lambda>c. c = CHR ''.'') s of
        Some dot \<Rightarrow> if dot > 0 then (take dot s, drop dot s) else (s, [])
      | None \<Rightarrow> (s, []))"

definition is_download_named :: "string \<Rightarrow> string \<Rightarrow> bool" where
  "is_download_named name expected \<longleftrightarrow>
     (if name = expected then True
      else
        (case Option.bind (strip_circumfix (fst (split_extension expected)) (snd (split_extension expected)) name)
                (strip_circumfix '' ('' '')'') of
           Some n \<Rightarrow> n \<noteq> [] \<and> list_all is_ascii_digit n
         | None \<Rightarrow> False))"

text \<open>
  One look at the directory: its entries in the order the file system gives them, with the file name when it is
  UTF-8 and, unless reading it failed, whether it is a file and when it was modified.
\<close>

record dir_entry =
  de_path :: path
  de_name :: "string option"
  de_meta :: "(bool \<times> nat) option"

definition eligible_download :: "path set \<Rightarrow> string option \<Rightarrow> dir_entry \<Rightarrow> bool" where
  "eligible_download before expected d \<longleftrightarrow>
     de_path d \<notin> before
     \<and> Option.bind (de_name d) extension_of \<noteq> Some ''crdownload''
     \<and> (case expected of
          Some x \<Rightarrow> (case de_name d of Some n \<Rightarrow> is_download_named n x | None \<Rightarrow> False)
        | None \<Rightarrow> True)
     \<and> (case de_meta d of Some (is_file, _) \<Rightarrow> is_file | None \<Rightarrow> False)"

fun newest_step :: "path set \<Rightarrow> string option \<Rightarrow> (nat \<times> dir_entry) option \<Rightarrow> dir_entry \<Rightarrow> (nat \<times> dir_entry) option" where
  "newest_step before expected newest d =
     (if \<not> eligible_download before expected d then newest
      else
        (let modified = (case de_meta d of Some (_, t) \<Rightarrow> t | None \<Rightarrow> 0)
         in case newest of
              Some (current, _) \<Rightarrow> if modified > current then Some (modified, d) else newest
            | None \<Rightarrow> Some (modified, d)))"

definition newest_completed_download :: "dir_entry list option \<Rightarrow> path set \<Rightarrow> string option \<Rightarrow> dir_entry option" where
  "newest_completed_download listing before expected =
     (case listing of
        None \<Rightarrow> None
      | Some ds \<Rightarrow> map_option snd (foldl (newest_step before expected) None ds))"

record completed_download =
  cd_path :: path
  cd_bytes :: nat
  cd_filename :: string

text \<open>What the \<open>n\<close>-th round of the wait finds: the directory, and the file's size before and after a pause.\<close>

record download_round =
  dr_listing :: "dir_entry list option"
  dr_size1 :: "path \<Rightarrow> nat option"
  dr_size2 :: "path \<Rightarrow> nat option"

definition settled_download :: "path set \<Rightarrow> string option \<Rightarrow> download_round \<Rightarrow> completed_download option" where
  "settled_download before expected rd =
     (case newest_completed_download (dr_listing rd) before expected of
        None \<Rightarrow> None
      | Some d \<Rightarrow>
          (case (dr_size1 rd (de_path d), dr_size2 rd (de_path d)) of
             (Some a, Some b) \<Rightarrow>
               if a = b then Some \<lparr> cd_path = de_path d, cd_bytes = b, cd_filename = str_or ''download'' (de_name d) \<rparr>
               else None
           | _ \<Rightarrow> None))"

definition round_cost :: "path set \<Rightarrow> string option \<Rightarrow> download_round \<Rightarrow> duration" where
  "round_cost before expected rd =
     (if newest_completed_download (dr_listing rd) before expected = None then 0 else millis 100)"

function wait_for_download_file ::
  "(nat \<Rightarrow> download_round) \<Rightarrow> path set \<Rightarrow> string option \<Rightarrow> instant \<Rightarrow> nat \<Rightarrow> instant \<Rightarrow> completed_download result \<times> instant" where
  "wait_for_download_file rounds before expected ends n now =
     (if ends \<le> now then (fail NavigationTimeout ''download did not complete in {}'', now)
      else
        (let now = now + round_cost before expected (rounds n)
         in case settled_download before expected (rounds n) of
              Some c \<Rightarrow> (Inr c, now)
            | None \<Rightarrow> wait_for_download_file rounds before expected ends (n + 1) (now + millis 50)))"
  by pat_completeness auto
termination
  by (relation "measure (\<lambda>(rounds, before, expected, ends, n, now). ends - now)") (auto simp: millis_def)

declare wait_for_download_file.simps [simp del]

subsection \<open>The fetch that ends with a download\<close>

text \<open>What the download part meets: the host's profile, the directory, the events and the rounds of the wait.\<close>

record download_env =
  dn_info :: "profile_snapshot result \<times> duration"
  dn_mkdir :: "bool \<times> duration"
  dn_before :: "path set \<times> duration"
  dn_buffered :: "icpt_event list"
  dn_later :: "(instant \<times> icpt_event) list"
  dn_rounds :: "nat \<Rightarrow> download_round"

definition configure_download_capture :: "'o browser_env \<Rightarrow> download_env \<Rightarrow> (path option, 'z) task" where
  "configure_download_capture env dn =
     settle_with
       (and_next (rest_of ''configure_download_capture'') (\<lambda>limit.
        and_next (wait_out (if snd (dn_info dn) \<le> limit then dn_info dn else (fail CdpTimeout [], limit))) (\<lambda>info.
          case ps_path info of
            None \<Rightarrow> give (fail IoError [])
          | Some profile_dir \<Rightarrow>
              (let dir = path_push profile_dir (parse_path ''downloads'')
               in and_next (await_open MakeDir (if fst (dn_mkdir dn) then Inr () else fail IoError [], snd (dn_mkdir dn))) (\<lambda>_.
                  and_next (cdp_send_no_session (be_peer env) ''Browser.setDownloadBehavior''
                                   (JObj [(''behavior'', JStr ''allow''), (''downloadPath'', JStr (be_path_text env dir)), (''eventsEnabled'', JBool True)])
                                   ''configure_download_capture'')
                         (\<lambda>_. give (Inr dir)))))))
       (\<lambda>r. give (Inr (res_ok r)))"

text \<open>\<open>snapshot_download_dir\<close>: what the directory lists before the navigation.\<close>

definition list_downloads :: "download_env \<Rightarrow> path option \<Rightarrow> (unit, 'z) task" where
  "list_downloads dn dir =
     (case dir of Some _ \<Rightarrow> await_open ListDir (Inr (), snd (dn_before dn)) | None \<Rightarrow> give (Inr ()))"

definition download_start_task :: "download_frames \<Rightarrow> download_env \<Rightarrow> duration \<Rightarrow> (download_start option, 'z) task" where
  "download_start_task fr dn timeout cutoff s =
     (case wait_for_download_start fr (dn_buffered dn) (dn_later dn) timeout (rs_now s) of
        (d, t) \<Rightarrow> wait_out (Inr d, t - rs_now s) cutoff s)"

definition download_file_task :: "download_env \<Rightarrow> string option \<Rightarrow> duration \<Rightarrow> (completed_download, 'z) task" where
  "download_file_task dn expected timeout cutoff s =
     (case wait_for_download_file (dn_rounds dn) (fst (dn_before dn)) expected (rs_now s + timeout) 0 (rs_now s) of
        (r, t) \<Rightarrow> wait_out (r, t - rs_now s) cutoff s)"

definition wait_for_download_with_deadline :: "download_env \<Rightarrow> string option \<Rightarrow> (completed_download, 'z) task" where
  "wait_for_download_with_deadline dn expected =
     stage ''capture_download'' NavigationTimeout
       (and_next (rest_of ''capture_download'') (\<lambda>limit. download_file_task dn expected limit))"

text \<open>What the code moves into \<open>DownloadNavigation\<close>.\<close>

record download_navigation =
  nv_builder :: fetch_builder
  nv_dir :: "path option"
  nv_start :: "download_start option"
  nv_request_id :: string
  nv_paths :: artifact_paths
  nv_began :: instant
  nv_duration :: duration
  nv_escalation :: "string option"
  nv_target :: string
  nv_session :: string
  nv_main_frame :: "string option"
  nv_created :: bool

definition download_trace :: "download_navigation \<Rightarrow> bool \<Rightarrow> trace \<Rightarrow> trace" where
  "download_trace nv observed t =
     (let b = nv_builder nv in
      t\<lparr> render_decision := BrowserDecision, tr_render_mode := as_trace (b_render b), render_used := True,
         escalation_reason := nv_escalation nv, main_request_observed := observed,
         navigation_duration_ms := Some (duration_ms (nv_duration nv)), wait_mode := Some (mode_name (b_wait b)),
         wait_satisfied_by := Some ''download'', capture_reason := Some ''download'',
         cookie_jar_file := cj_path (b_cookie_jar b), cookie_jar_warning := cj_warning (b_cookie_jar b),
         tr_sensitive_capture := sensitive_capture (b_network b) \<rparr>)"

definition download_result ::
  "download_navigation \<Rightarrow> completed_download \<Rightarrow> network_entry option \<Rightarrow> trace \<Rightarrow> fetch_result" where
  "download_result nv done_file main t =
     (fetch_result_new (nv_request_id nv) (b_url (nv_builder nv)) t)
       \<lparr> status := (case Option.bind main ne_status of Some st \<Rightarrow> st | None \<Rightarrow> 0),
         fr_tab_id := Some (nv_target nv),
         download_file := Some (cd_path done_file), download_bytes := Some (cd_bytes done_file),
         download_filename := Some (cd_filename done_file),
         download_url := (case Option.bind (nv_start nv) ds_url of Some u \<Rightarrow> Some u | None \<Rightarrow> Some (b_url (nv_builder nv))),
         download_state := Some ''completed'' \<rparr>"

text \<open>The logs that a completed download still writes; a failed write is dropped silently.\<close>

definition quiet_write :: "'o browser_env \<Rightarrow> artifact \<Rightarrow> ((path \<Rightarrow> write_io) \<Rightarrow> files \<Rightarrow> path result \<times> files) \<Rightarrow> unit btask" where
  "quiet_write env a w = writing env w (\<lambda>r. case r of Inr p \<Rightarrow> on_result (set_artifact_file a p) | Inl _ \<Rightarrow> give (Inr ()))"

definition download_logs :: "'o browser_env \<Rightarrow> download_navigation \<Rightarrow> unit btask" where
  "download_logs env nv =
     (let want = b_want (nv_builder nv); paths = nv_paths nv in
      and_next (if Console \<in> set want
                then quiet_write env Console (\<lambda>io. write_printed io paths Console (be_print_console env (console_finish (be_console env))))
                else give (Inr ())) (\<lambda>_.
      and_next (net_call env []) (\<lambda>_.
        if Network \<in> set want
        then reading (\<lambda>s. network_finish (be_collect env) (nr_inner (br_net s)))
               (\<lambda>log. quiet_write env Network (\<lambda>io. write_printed io paths Network (be_print_network env log)))
        else give (Inr ()))))"

definition download_cleanup :: "'o browser_env \<Rightarrow> download_navigation \<Rightarrow> unit btask" where
  "download_cleanup env nv =
     and_next (finish_target env (nv_target nv) (nv_session nv) (nv_created nv)) (\<lambda>closed.
       if closed then on_result (\<lambda>r. r\<lparr> fr_tab_id := None \<rparr>)
       else if nv_created nv
       then and_next (on_result (\<lambda>r. r\<lparr> warnings := warnings r @ [warn RenderedHtml CdpError ''completed download retained its tab because safe cleanup failed''] \<rparr>))
              (\<lambda>_. and_next (finish_target env (nv_target nv) (nv_session nv) False) (\<lambda>_. give (Inr ())))
       else give (Inr ()))"

text \<open>The last lines of both ways a browser fetch succeeds.\<close>

definition conclude :: "instant \<Rightarrow> fetch_result btask" where
  "conclude began =
     and_next (reading rs_now (\<lambda>now. on_deadline (update_trace (\<lambda>t. t\<lparr> tr_duration_ms := duration_ms (now - began) \<rparr>)))) (\<lambda>_.
     and_next finish_trace (\<lambda>t. and_next (on_result (\<lambda>r. r\<lparr> fr_trace := t \<rparr>)) (\<lambda>_.
       reading br_result (\<lambda>r. give (Inr r)))))"

definition may_close :: "download_navigation \<Rightarrow> bool" where
  "may_close nv \<longleftrightarrow> nv_created nv \<and> \<not> b_keep_tab_open (nv_builder nv)"

definition fail_after :: "'o browser_env \<Rightarrow> string \<Rightarrow> string \<Rightarrow> bool \<Rightarrow> error \<Rightarrow> 'a btask" where
  "fail_after env t sid close e = and_next (finish_failed_target env t sid close) (\<lambda>_. give (Inl e))"

definition finish_download_navigation :: "'o browser_env \<Rightarrow> download_env \<Rightarrow> download_navigation \<Rightarrow> fetch_result btask" where
  "finish_download_navigation env dn nv =
     (case nv_dir nv of
        None \<Rightarrow> fail_after env (nv_target nv) (nv_session nv) (may_close nv)
                  (error_new ArtifactCaptureFailed ''navigation became a download, but the host profile download directory was unavailable'')
      | Some _ \<Rightarrow>
          settle_with (wait_for_download_with_deadline dn (Option.bind (nv_start nv) ds_suggested))
            (\<lambda>r. case r of
               Inl e \<Rightarrow> fail_after env (nv_target nv) (nv_session nv) (may_close nv) e
             | Inr done_file \<Rightarrow>
                 and_next (main_status env (observe_main_wait_ms (b_readiness (nv_builder nv))) (nv_main_frame nv)) (\<lambda>main.
                 and_next (on_deadline (update_trace (download_trace nv (main \<noteq> None)))) (\<lambda>_.
                 and_next take_snapshot (\<lambda>t.
                 and_next (on_result (\<lambda>_. download_result nv done_file main t)) (\<lambda>_.
                 and_next (download_logs env nv) (\<lambda>_.
                 and_next (download_cleanup env nv) (\<lambda>_. conclude (nv_began nv)))))))))"

subsection \<open>Promptness\<close>

lemma prompt_download_basics [prompts]:
  "prompt (download_start_task fr dn timeout)" "prompt (download_file_task dn expected limit)"
  using prompt_wait unfolding prompt_def download_start_task_def download_file_task_def by (fastforce split: prod.splits)+

lemma prompt_list_downloads [prompts]: "prompt (list_downloads dn dir)"
  by (auto intro!: prompts split: option.split simp: list_downloads_def)

lemma prompt_download [prompts]:
  "prompt (configure_download_capture env dn)"
  "prompt (wait_for_download_with_deadline dn expected)"
  "prompt (quiet_write env a w)"
  "prompt (fail_after env t sid close e)"
  "prompt (download_cleanup env nv)"
  by (auto intro!: prompts split: option.split sum.split
      simp: configure_download_capture_def Let_def wait_for_download_with_deadline_def quiet_write_def
        fail_after_def download_cleanup_def)

lemma prompt_conclude [prompts]: "prompt (conclude began)"
  by (auto intro!: prompts simp: conclude_def)

lemma prompt_finish_download [prompts]: "prompt (finish_download_navigation env dn nv)"
  by (auto intro!: prompts split: option.split sum.split simp: finish_download_navigation_def download_logs_def Let_def)

end
