(* ===== verification/BrowserFetch.thy ===== *)
theory BrowserFetch
  imports NetworkBodies Download
begin

text \<open>
  The browser path of a fetch (\<open>browser_path\<close> of \<open>pipeline/browser/mod.rs\<close>), from the host it needs to the result
  it returns: the tab it opens or is given, the navigation, the wait, the artifacts and the end of the tab.
\<close>

subsection \<open>Before the tab\<close>

text \<open>What the host side answers: the inline host, the jar's place, the artifact directory, the connection.\<close>

record host_env =
  he_inline_started :: "bool \<times> duration"
  he_inline_endpoint :: "endpoint result \<times> duration"
  he_cwd :: "path option"
  he_metadata :: "path \<Rightarrow> (bool \<times> bool) option"
  he_started_now :: bool
  he_profile :: "profile_snapshot result \<times> duration"
  he_mkdir :: "bool \<times> duration"
  he_connect :: "unit result \<times> duration"

record browser_call =
  bc_request_id :: string
  bc_paths :: artifact_paths
  bc_began :: instant
  bc_reason :: "string option"

definition jar_trace :: "fetch_builder \<Rightarrow> trace \<Rightarrow> trace" where
  "jar_trace b t = t\<lparr> cookie_jar_file := cj_path (b_cookie_jar b), cookie_jar_warning := cj_warning (b_cookie_jar b) \<rparr>"

definition browser_trace :: "fetch_builder \<Rightarrow> string option \<Rightarrow> trace \<Rightarrow> trace" where
  "browser_trace b reason t =
     (jar_trace b t)\<lparr> render_decision := BrowserDecision, tr_render_mode := as_trace (b_render b), render_used := True,
        escalation_reason := reason, tr_sensitive_capture := sensitive_capture (b_network b) \<rparr>"

definition with_default_want :: "fetch_builder \<Rightarrow> fetch_builder" where
  "with_default_want b = (if b_want_explicit b then b else b\<lparr> b_want := browser_default \<rparr>)"

text \<open>
  \<open>inline_host_started().await\<close>: asking takes the lock that a launch by another fetch holds until its browser is
  up, and no stage of this fetch surrounds the wait.
\<close>

definition inline_host_started :: "host_env \<Rightarrow> fetch_builder \<Rightarrow> (bool, 'z) task" where
  "inline_host_started he b =
     (if cl_inline_host (b_client b) then await_open HostLock (Inr (fst (he_inline_started he)), snd (he_inline_started he))
      else give (Inr False))"

definition start_inline_host :: "host_env \<Rightarrow> fetch_builder \<Rightarrow> (fetch_builder, 'z) task" where
  "start_inline_host he b =
     and_next (on_deadline (set_stage ''resolve_inline_host'')) (\<lambda>_.
     and_next (inline_host_started he b) (\<lambda>started.
       if cl_inline_host (b_client b) \<and> \<not> started \<and> cj_path (b_cookie_jar b) = None \<and> \<not> cj_disabled (b_cookie_jar b)
       then and_next (stage ''resolve_inline_host'' NavigationTimeout
                       (wait_out (effective_endpoint (fst (he_inline_endpoint he)) (b_client b), snd (he_inline_endpoint he)))) (\<lambda>_.
            and_next (stage ''resolve_cookie_jar'' NavigationTimeout
                       (wait_out (resolve_cookie_jar_path (he_cwd he) (he_metadata he) (he_started_now he) (fst (he_profile he)) b,
                                  snd (he_profile he)))) (\<lambda>b.
            and_next (on_deadline (update_trace (jar_trace b))) (\<lambda>_. give (Inr b))))
       else give (Inr b)))"

fun endpoint_is_remote :: "endpoint \<Rightarrow> bool" where
  "endpoint_is_remote (Ws _ _ _) = True"
| "endpoint_is_remote (Http _ _ _) = True"
| "endpoint_is_remote (Unix _) = True"

text \<open>The jar's cookies join the caller's; the loaded jar is kept for the way back.\<close>

definition inject_jar ::
  "'o browser_env \<Rightarrow> fetch_builder \<Rightarrow> prepared_options \<Rightarrow> prepared_options \<times> cookie_jar option" where
  "inject_jar env b po =
     (case (cj_path (b_cookie_jar b), nl_parse (be_nav env) (b_url b)) of
        (Some jp, Some u) \<Rightarrow>
          (case load jp (be_jar_start env) of
             Inr jar \<Rightarrow>
               (merge_jar_cookies (be_hval env)
                  (List.map_filter (\<lambda>c. res_ok (prepare_cookie (be_age_end env) c)) (applicable_cookies (be_ts_ok env) (be_dom_get env) (be_epoch env) jar u)) po,
                Some jar)
           | Inl _ \<Rightarrow> (po, None))
      | _ \<Rightarrow> (po, None))"

subsection \<open>The tab\<close>

definition create_tab :: "'o browser_env \<Rightarrow> (string, 'z) task" where
  "create_tab env =
     and_next (cdp_await (be_peer env) None ''Target.createTarget'' (JObj [(''url'', JStr ''about:blank'')]))
       (\<lambda>target. give (ok_or (error_new CdpError ''Target.createTarget: no targetId returned'')
                         (json_str (json_idx target ''targetId''))))"

definition attach_tab :: "'o browser_env \<Rightarrow> string \<Rightarrow> (string, 'z) task" where
  "attach_tab env t =
     and_next (cdp_await (be_peer env) None ''Target.attachToTarget'' (JObj [(''flatten'', JBool True), (''targetId'', JStr t)]))
       (\<lambda>attach. give (ok_or (error_new CdpError ''Target.attachToTarget: no sessionId returned'')
                         (json_str (json_idx attach ''sessionId''))))"

text \<open>Target, session, and whether the fetch created the target.\<close>

definition open_tab :: "'o browser_env \<Rightarrow> fetch_builder \<Rightarrow> (string \<times> string \<times> bool, 'z) task" where
  "open_tab env b =
     (case b_tab b of
        Some t \<Rightarrow> and_next (stage ''attach_target'' NavigationTimeout (attach_tab env t)) (\<lambda>sid. give (Inr (t, sid, False)))
      | None \<Rightarrow>
          and_next (stage ''open_target'' NavigationTimeout (create_tab env)) (\<lambda>t.
            settle_with (stage ''attach_target'' NavigationTimeout (attach_tab env t))
              (\<lambda>r. case r of
                 Inr sid \<Rightarrow> give (Inr (t, sid, True))
               | Inl e \<Rightarrow>
                   and_next (if b_keep_tab_open b then retain_tab t
                             else settle_with (closing (be_peer env) t target_cleanup_timeout) (\<lambda>_. give (Inr ())))
                     (\<lambda>_. give (Inl e)))))"

text \<open>A step of the tab whose failure ends the tab first.\<close>

definition or_finish ::
  "'o browser_env \<Rightarrow> string \<Rightarrow> string \<Rightarrow> bool \<Rightarrow> (error \<Rightarrow> error) \<Rightarrow> 'a btask \<Rightarrow> ('a \<Rightarrow> 'b btask) \<Rightarrow> 'b btask" where
  "or_finish env t sid close on_err step k =
     settle_with step (\<lambda>r. case r of Inl e \<Rightarrow> fail_after env t sid close (on_err e) | Inr v \<Rightarrow> k v)"

definition same_error :: "error \<Rightarrow> error" where "same_error e = e"

definition as_navigation_timeout :: "error \<Rightarrow> error" where
  "as_navigation_timeout e = (if error_code e = CdpTimeout then error_new NavigationTimeout (detail e) else e)"

fun enable_domains :: "'o browser_env \<Rightarrow> string \<Rightarrow> string list \<Rightarrow> (unit, 'z) task" where
  "enable_domains env sid [] = give (Inr ())"
| "enable_domains env sid (m # ms) =
     and_next (cdp_send (be_peer env) sid m (JObj []) ''browser_enable'') (\<lambda>_. enable_domains env sid ms)"

definition browser_domains :: "string list" where
  "browser_domains = [''Page.enable'', ''Runtime.enable'', ''Network.enable'', ''DOM.enable'']"

definition first_location :: "'o browser_env \<Rightarrow> string \<Rightarrow> (string option, 'z) task" where
  "first_location env sid =
     settle_with (capture_location (be_peer env) sid)
       (\<lambda>r. give (Inr (case r of Inr u \<Rightarrow> u | Inl _ \<Rightarrow> None)))"

text \<open>The wait of the readiness model, as a task of the fetch.\<close>

definition wait_task :: "'o browser_env \<Rightarrow> fetch_builder \<Rightarrow> (wait_outcome, 'z) task" where
  "wait_task env b cutoff s =
     (case wait_for_condition (rs_now s) (b_wait b) (b_timeout b) (idle_ms (b_readiness b)) (stable_ms (b_readiness b))
             (be_wait env) (be_explicit env) (rs_deadline s) of
        (r, t, d) \<Rightarrow> wait_out (r, t - rs_now s) cutoff (s\<lparr> rs_deadline := d \<rparr>))"

subsection \<open>The result before its artifacts\<close>

definition outcome_trace :: "fetch_builder \<Rightarrow> duration \<Rightarrow> wait_outcome \<Rightarrow> bool \<Rightarrow> trace \<Rightarrow> trace" where
  "outcome_trace b nav_duration wo observed t =
     (jar_trace b t)\<lparr> main_request_observed := observed, navigation_duration_ms := Some (duration_ms nav_duration),
        wait_mode := Some (wo_wait_mode wo), wait_satisfied_by := wo_satisfied_by wo,
        network_quiet := wo_network_quiet wo, dom_stable := wo_dom_stable wo, text_stable := wo_text_stable wo,
        capture_reason := Some (wo_capture_reason wo), tr_sensitive_capture := sensitive_capture (b_network b) \<rparr>"

definition timeout_warning :: "wait_outcome \<Rightarrow> warning list" where
  "timeout_warning wo =
     (if wo_timed_out wo
      then [warn Network ReadinessTimeout ''requested wait condition timed out; artifacts may contain usable partial content: network_quiet={:?}, dom_stable={:?}, text_stable={:?}'']
      else [])"

definition blocked_readiness :: "fetch_result \<Rightarrow> fetch_result" where
  "blocked_readiness r =
     r\<lparr> fr_readiness := map_option (\<lambda>rd. rd\<lparr> rd_target_content := Blocked, rd_wait_satisfied := False \<rparr>) (fr_readiness r) \<rparr>"

definition classify_page :: "'o browser_env \<Rightarrow> page_snapshot option \<Rightarrow> unit btask" where
  "classify_page env snap =
     (case Option.bind snap (\<lambda>p. classify (be_html_texts env) (Some (ps_html p)) (Some (ps_text p)) (Some (ps_title p))) of
        None \<Rightarrow> give (Inr ())
      | Some c \<Rightarrow>
          and_next (on_result (\<lambda>r. blocked_readiness (set_page_kind (cls_kind c) r)))
            (\<lambda>_. push_warnings [warn RenderedHtml (cls_code c) (cls_detail c)]))"

definition report_main :: "fetch_builder \<Rightarrow> network_entry option \<Rightarrow> page_snapshot option \<Rightarrow> unit btask" where
  "report_main b main snap =
     (case main of
        Some e \<Rightarrow>
          and_next (on_result (\<lambda>r. r\<lparr> content_type := ne_mime_type e \<rparr>)) (\<lambda>_.
            case ne_status e of
              Some st \<Rightarrow> on_result (\<lambda>r. r\<lparr> status := st \<rparr>)
            | None \<Rightarrow> push_warnings [warn Network ArtifactCaptureFailed (''main request '' @ ne_request_id e @ '' had no response status'')])
      | None \<Rightarrow>
          reading br_result (\<lambda>r.
            if should_warn_main_not_observed (b_url b) (final_url r) snap
            then push_warnings [warn Network ArtifactCaptureFailed ''main document network request was not observed'']
            else give (Inr ())))"

definition status_fallback :: "'o browser_env \<Rightarrow> string \<Rightarrow> unit btask" where
  "status_fallback env sid =
     reading br_result (\<lambda>r.
       if status r \<noteq> 0 then give (Inr ())
       else and_next (navigation_status_from_performance (be_cap env) (be_peer env) sid)
              (\<lambda>st. case st of Some n \<Rightarrow> on_result (\<lambda>r. r\<lparr> status := n \<rparr>) | None \<Rightarrow> give (Inr ())))"

subsection \<open>The artifacts, in the order they are captured\<close>

definition wanted :: "fetch_builder \<Rightarrow> artifact \<Rightarrow> unit btask \<Rightarrow> unit btask" where
  "wanted b a t = (if a \<in> set (b_want b) then t else give (Inr ()))"

text \<open>A capture whose failure is a warning of its artifact.\<close>

definition capturing :: "artifact \<Rightarrow> 'a btask \<Rightarrow> ('a \<Rightarrow> unit btask) \<Rightarrow> unit btask" where
  "capturing a step k =
     settle_with step (\<lambda>r. case r of Inl e \<Rightarrow> push_warnings [warn_error a e] | Inr v \<Rightarrow> k v)"

definition write_or_warn :: "'o browser_env \<Rightarrow> artifact \<Rightarrow> ((path \<Rightarrow> write_io) \<Rightarrow> files \<Rightarrow> path result \<times> files) \<Rightarrow> unit btask" where
  "write_or_warn env a w =
     writing env w (\<lambda>r. case r of Inr p \<Rightarrow> on_result (set_artifact_file a p) | Inl e \<Rightarrow> push_warnings [warn_error a e])"

definition html_step :: "'o browser_env \<Rightarrow> artifact_paths \<Rightarrow> string \<Rightarrow> unit btask" where
  "html_step env paths sid =
     capturing RenderedHtml (stage ''capture_rendered_html'' ArtifactCaptureTimeout (capture_outer_html (be_peer env) sid))
       (\<lambda>html. and_next (push_warnings (size_warning RenderedHtml (length (trim html)) 1))
         (\<lambda>_. quiet_write env RenderedHtml (\<lambda>io. write_artifact io paths RenderedHtml (of_text html))))"

definition text_step :: "'o browser_env \<Rightarrow> artifact_paths \<Rightarrow> fetch_builder \<Rightarrow> string \<Rightarrow> unit btask" where
  "text_step env paths b sid =
     capturing Text (stage ''capture_text'' ArtifactCaptureTimeout (capture_inner_text (be_peer env) sid))
       (\<lambda>txt. and_next (push_warnings (size_warning Text (length (trim txt)) (min_text_bytes (b_readiness b))))
         (\<lambda>_. quiet_write env Text (\<lambda>io. write_artifact io paths Text (of_text txt))))"

definition keep_content :: "'o browser_env \<Rightarrow> artifact_paths \<Rightarrow> fetch_builder \<Rightarrow> content_capture \<Rightarrow> unit btask" where
  "keep_content env paths b c =
     and_next (wanted b Content
                 (and_next (push_warnings (size_warning Content (length (trim (cc_markdown c))) (min_text_bytes (b_readiness b))))
                    (\<lambda>_. write_or_warn env Content (\<lambda>io. write_artifact io paths Content (of_text (cc_markdown c))))))
       (\<lambda>_. wanted b ContentJson
              (write_or_warn env ContentJson (\<lambda>io. write_printed io paths ContentJson (be_print_json env (cc_json c)))))"

definition content_step :: "'o browser_env \<Rightarrow> artifact_paths \<Rightarrow> fetch_builder \<Rightarrow> string \<Rightarrow> unit btask" where
  "content_step env paths b sid =
     (if Content \<in> set (b_want b) \<or> ContentJson \<in> set (b_want b)
      then settle_with (stage ''capture_content'' ArtifactCaptureTimeout (capture_content (be_cap env) (be_peer env) sid))
             (\<lambda>r. case r of
                Inr c \<Rightarrow> keep_content env paths b c
              | Inl e \<Rightarrow> and_next (wanted b Content (push_warnings [warn_error Content e]))
                           (\<lambda>_. wanted b ContentJson (push_warnings [warn_error ContentJson e])))
      else give (Inr ()))"

definition screenshot_step :: "'o browser_env \<Rightarrow> artifact_paths \<Rightarrow> string \<Rightarrow> unit btask" where
  "screenshot_step env paths sid =
     capturing Screenshot (stage ''capture_screenshot'' ArtifactCaptureTimeout (capture_screenshot (be_cap env) (be_peer env) sid))
       (\<lambda>png. quiet_write env Screenshot (\<lambda>io. write_artifact io paths Screenshot png))"

definition body_step :: "'o browser_env \<Rightarrow> artifact_paths \<Rightarrow> string \<Rightarrow> network_entry option \<Rightarrow> unit btask" where
  "body_step env paths sid main =
     (case main of
        None \<Rightarrow> push_warnings [warn ABody ArtifactCaptureFailed ''cannot write body_file: main document request was not observed'']
      | Some e \<Rightarrow>
          if known_body_exceeds_limit e cdp_response_body_max_bytes
          then push_warnings [warn ABody NetworkBodyTruncated
                 (''body for '' @ ne_request_id e @ '' skipped before capture: known size exceeds '' @ show_nat cdp_response_body_max_bytes
                  @ '' bytes, more than one CDP message carries safely'')]
          else
            settle_with (stage ''capture_body'' ArtifactCaptureTimeout
                           (capture_response_body (be_cap env) (be_peer env) sid (ne_request_id e)))
              (\<lambda>r. case r of
                 Inr data \<Rightarrow> write_or_warn env ABody (\<lambda>io. body_write io (be_mime_extensions env) paths (ne_mime_type e) data)
               | Inl err \<Rightarrow> push_warnings [warn ABody
                     (if error_code err = CdpTimeout then ArtifactCaptureTimeout else error_code err) (detail err)]))"

text \<open>The network log points at the body file.\<close>

definition link_body :: "'o browser_env \<Rightarrow> fetch_builder \<Rightarrow> network_entry option \<Rightarrow> unit btask" where
  "link_body env b main =
     (if ABody \<in> set (b_want b) \<and> Network \<in> set (b_want b)
      then reading br_result (\<lambda>r.
             case (main, artifact_file ABody r) of
               (Some e, Some p) \<Rightarrow> net_call env [SetBodyFile (ne_request_id e) (be_path_text env p)]
             | _ \<Rightarrow> give (Inr ()))
      else give (Inr ()))"

definition observation_step :: "'o browser_env \<Rightarrow> artifact_paths \<Rightarrow> string \<Rightarrow> unit btask" where
  "observation_step env paths sid =
     reading br_result (\<lambda>r.
       capturing Observation
         (stage ''capture_observation'' ArtifactCaptureTimeout
            (observation_capture (cl_parse_json (be_cap env)) (be_parse_observation env) (be_meta_js env)
               (be_observation_js env) (be_peer env) sid (final_url r)))
         (\<lambda>obs. and_next (if os_nodes (ob_snapshot obs) = []
                          then push_warnings [warn Observation ObservationEmpty ''observation contained zero projected nodes'']
                          else give (Inr ()))
           (\<lambda>_. quiet_write env Observation (\<lambda>io. write_printed io paths Observation (be_print_observation env obs)))))"

definition storage_step :: "'o browser_env \<Rightarrow> artifact_paths \<Rightarrow> string \<Rightarrow> unit btask" where
  "storage_step env paths sid =
     reading br_result (\<lambda>r.
       capturing Storage
         (stage ''capture_storage'' ArtifactCaptureTimeout (storage_capture (be_storage env) (be_peer env) sid (final_url r)))
         (\<lambda>snap. quiet_write env Storage (\<lambda>io. storage_write io (be_print_storage env) paths snap)))"

definition console_step_of :: "'o browser_env \<Rightarrow> artifact_paths \<Rightarrow> unit btask" where
  "console_step_of env paths =
     capturing Console
       (stage ''capture_console'' ArtifactCaptureTimeout
          (writing env (\<lambda>io. write_printed io paths Console (be_print_console env (console_finish (be_console env)))) give))
       (\<lambda>p. on_result (set_artifact_file Console p))"

definition stream_step :: "'o browser_env \<Rightarrow> artifact_paths \<Rightarrow> bool \<Rightarrow> net_op \<Rightarrow> (net_run \<Rightarrow> (string \<times> json list) list) \<Rightarrow> unit btask" where
  "stream_step env paths enabled op out =
     (if enabled
      then and_next (net_call env [op]) (\<lambda>_. reading (\<lambda>s. out (br_net s)) (write_frames_jsonl env paths))
      else give (Inr ()))"

definition effective_bodies :: "fetch_builder \<Rightarrow> network_bodies" where
  "effective_bodies b =
     (if bodies (b_network b) = BodiesOff \<and> (case b_wait b of WaitAuto \<Rightarrow> True | WaitSelectorStable _ \<Rightarrow> True | _ \<Rightarrow> False)
      then BodiesXhr else bodies (b_network b))"

definition bodies_step :: "'o browser_env \<Rightarrow> artifact_paths \<Rightarrow> fetch_builder \<Rightarrow> string \<Rightarrow> unit btask" where
  "bodies_step env paths b sid =
     (if effective_bodies b = BodiesOff then give (Inr ())
      else capturing Network
             (stage ''capture_network_bodies'' ArtifactCaptureTimeout
                (capture_network_bodies env paths sid (effective_bodies b) (body_max_bytes (b_network b))))
             (\<lambda>_. give (Inr ())))"

text \<open>\<open>NetworkCollector::finish\<close>\<close>

definition finish_network :: "'o browser_env \<Rightarrow> (network_log \<Rightarrow> 'a btask) \<Rightarrow> 'a btask" where
  "finish_network env k =
     and_next (net_call env []) (\<lambda>_. reading (\<lambda>s. network_finish (be_collect env) (nr_inner (br_net s))) k)"

definition network_log_step :: "'o browser_env \<Rightarrow> artifact_paths \<Rightarrow> fetch_builder \<Rightarrow> unit btask" where
  "network_log_step env paths b =
     (if Network \<in> set (b_want b)
      then capturing Network (stage ''capture_network'' ArtifactCaptureTimeout (finish_network env (\<lambda>log. give (Inr log))))
             (\<lambda>log. and_next (push_warnings (network_readiness_warnings (nl_summary log)))
                (\<lambda>_. write_or_warn env Network (\<lambda>io. write_printed io paths Network (be_print_network env log))))
      else finish_network env (\<lambda>log. reading br_result (\<lambda>r.
             push_warnings (if fr_readiness r \<noteq> None then network_readiness_warnings (nl_summary log)
                            else network_capture_warnings (nl_summary log)))))"

text \<open>
  The browser's cookies go back to the jar. The jar is written on a blocking thread: once started, the write
  ends whether or not the fetch still waits for it.
\<close>

definition sync_jar :: "'o browser_env \<Rightarrow> string \<Rightarrow> string \<Rightarrow> path \<Rightarrow> cookie_jar option \<Rightarrow> nat btask" where
  "sync_jar env sid page_url jp injected =
     (let merged = (\<lambda>reply. sync_browser_cookies_to_jar (be_psl env) (be_conv env) (nl_parse (be_nav env)) reply (be_jar_io env)
                       (be_epoch env) page_url jp injected (be_jar_load env) (be_jar_lock env))
      in case nl_parse (be_nav env) page_url of
           None \<Rightarrow> give (fst (merged (Inr JNull)))
         | Some u \<Rightarrow>
             and_next (cdp_await (be_peer env) (Some sid) ''Network.getCookies'' (JObj [(''urls'', JArr [JStr (url_text u)])]))
               (\<lambda>v. and_next (change (\<lambda>s. s\<lparr> br_jar := snd (merged (Inr v)) \<rparr>)) (\<lambda>_.
                  wait_out (fst (merged (Inr v)), be_jar_wait env))))"

definition sync_step :: "'o browser_env \<Rightarrow> fetch_builder \<Rightarrow> string \<Rightarrow> cookie_jar option \<Rightarrow> unit btask" where
  "sync_step env b sid injected =
     (case cj_path (b_cookie_jar b) of
        None \<Rightarrow> give (Inr ())
      | Some jp \<Rightarrow>
          reading br_result (\<lambda>r.
            settle_with (stage ''sync_cookie_jar'' NavigationTimeout (sync_jar env sid (final_url r) jp injected))
              (\<lambda>synced. push_warnings (cookie_jar_sync_warning synced))))"

text \<open>All of them, one after the other; none ends the fetch.\<close>

definition artifact_steps ::
  "'o browser_env \<Rightarrow> artifact_paths \<Rightarrow> fetch_builder \<Rightarrow> string \<Rightarrow> network_entry option \<Rightarrow> cookie_jar option \<Rightarrow> unit btask list" where
  "artifact_steps env paths b sid main injected =
     [wanted b RenderedHtml (html_step env paths sid),
      wanted b Text (text_step env paths b sid),
      content_step env paths b sid,
      wanted b Screenshot (screenshot_step env paths sid),
      wanted b ABody (body_step env paths sid main),
      link_body env b main,
      wanted b Observation (observation_step env paths sid),
      wanted b Storage (storage_step env paths sid),
      wanted b Console (console_step_of env paths),
      stream_step env paths (capture_ws (b_network b)) TakeWsFrames nr_ws_out,
      stream_step env paths (capture_sse (b_network b)) TakeSseEvents nr_sse_out,
      bodies_step env paths b sid,
      network_log_step env paths b,
      sync_step env b sid injected]"

fun in_order :: "unit btask list \<Rightarrow> unit btask" where
  "in_order [] = give (Inr ())"
| "in_order (t # ts) = and_next t (\<lambda>_. in_order ts)"

subsection \<open>The end of the fetch\<close>

definition verify_takeover :: "fetch_builder \<Rightarrow> page_snapshot option \<Rightarrow> bool btask" where
  "verify_takeover b snap =
     reading (\<lambda>s. (br_result s, br_warnings s)) (\<lambda>(r, ws).
       let verified = takeover_content_verified r snap ws
       in and_next
            (if b_keep_tab_open b \<and> \<not> verified \<and> fr_next_action r = None
             then and_next (on_result (\<lambda>r. r\<lparr> fr_next_action := Some (human_takeover (b_url b)) \<rparr>))
                    (\<lambda>_. push_warnings [warn RenderedHtml TakeoverContentUnverified
                       ''takeover tab retained for manual review: status={}, snapshot_available={}, target readiness or requested artifacts do not confirm complete content; inspect tab_id and retry after review''])
             else give (Inr ()))
            (\<lambda>_. give (Inr verified)))"

text \<open>When the close was not confirmed, the tab is detached from and stays reported.\<close>

definition keep_tab :: "'o browser_env \<Rightarrow> string \<Rightarrow> string \<Rightarrow> unit btask" where
  "keep_tab env t sid =
     and_next (push_warnings [warn RenderedHtml CdpError
       ''could not safely recycle the tab; tab_id retained; the last browser window is protected''])
       (\<lambda>_. and_next (finish_target env t sid False) (\<lambda>_. give (Inr ())))"

definition end_tab :: "'o browser_env \<Rightarrow> string \<Rightarrow> string \<Rightarrow> bool \<Rightarrow> unit btask" where
  "end_tab env t sid close =
     (if close
      then and_next (finish_target env t sid True) (\<lambda>closed.
             if closed then on_result (\<lambda>r. r\<lparr> fr_tab_id := None \<rparr>) else keep_tab env t sid)
      else and_next (finish_target env t sid False) (\<lambda>_. give (Inr ())))"

end
