(* ===== verification/BrowserPath.thy ===== *)
theory BrowserPath
  imports BrowserFetch
begin

text \<open>
  \<open>browser_path\<close> of \<open>pipeline/browser/mod.rs\<close> put together: from the host it needs to the result it returns,
  with what becomes of its tab and the time it takes.
\<close>

subsection \<open>The page, once it is ready\<close>

text \<open>What the fetch knows of its tab and of the navigation by then.\<close>

record visit =
  vs_target :: string
  vs_session :: string
  vs_created :: bool
  vs_main_frame :: "string option"
  vs_initial :: "string option"
  vs_nav_start :: instant

definition may_close_tab :: "fetch_builder \<Rightarrow> visit \<Rightarrow> bool" where
  "may_close_tab b v \<longleftrightarrow> vs_created v \<and> \<not> b_keep_tab_open b"

definition guarded :: "'o browser_env \<Rightarrow> fetch_builder \<Rightarrow> visit \<Rightarrow> (error \<Rightarrow> error) \<Rightarrow> 'a btask \<Rightarrow> ('a \<Rightarrow> 'b btask) \<Rightarrow> 'b btask" where
  "guarded env b v = or_finish env (vs_target v) (vs_session v) (may_close_tab b v)"

definition begin_result :: "browser_call \<Rightarrow> fetch_builder \<Rightarrow> visit \<Rightarrow> wait_outcome \<Rightarrow> unit btask" where
  "begin_result bc b v wo =
     and_next (change (\<lambda>s. s\<lparr> br_warnings := [] \<rparr>)) (\<lambda>_.
     and_next take_snapshot (\<lambda>t.
       on_result (\<lambda>_. (fetch_result_new (bc_request_id bc) (b_url b) t)
                        \<lparr> fr_tab_id := Some (vs_target v), fr_readiness := wo_readiness wo \<rparr>)))"

definition observe_main :: "'o browser_env \<Rightarrow> fetch_builder \<Rightarrow> visit \<Rightarrow> wait_outcome \<Rightarrow> duration \<Rightarrow> network_entry option btask" where
  "observe_main env b v wo nav_duration =
     and_next (main_status env (observe_main_wait_ms (b_readiness b)) (vs_main_frame v)) (\<lambda>main.
     and_next (on_result (\<lambda>r. r\<lparr> fr_trace := (fr_trace r)\<lparr> main_request_observed := (main \<noteq> None) \<rparr> \<rparr>)) (\<lambda>_.
     and_next (on_deadline (update_trace (outcome_trace b nav_duration wo (main \<noteq> None)))) (\<lambda>_.
     and_next (push_warnings (timeout_warning wo)) (\<lambda>_. give (Inr main)))))"

definition look_at_page :: "'o browser_env \<Rightarrow> visit \<Rightarrow> page_snapshot option btask" where
  "look_at_page env v =
     settle_with (capture_page_snapshot (be_cap env) (be_peer env) (vs_session v)) (\<lambda>r.
       let snap = res_ok r
       in and_next (case snap of
                      Some p \<Rightarrow> if ps_url p \<noteq> [] then on_result (\<lambda>r. r\<lparr> final_url := ps_url p \<rparr>) else give (Inr ())
                    | None \<Rightarrow> give (Inr ()))
            (\<lambda>_. give (Inr snap)))"

definition validate_capture :: "'o browser_env \<Rightarrow> fetch_builder \<Rightarrow> visit \<Rightarrow> network_entry option \<Rightarrow> page_snapshot option \<Rightarrow> unit btask" where
  "validate_capture env b v main snap =
     reading br_result (\<lambda>r.
       give (validate_navigation_capture (be_normal_url env) (b_url b) (vs_initial v) (final_url r) main snap))"

definition conclude_browser :: "instant \<Rightarrow> fetch_result btask" where
  "conclude_browser began =
     and_next (reading br_warnings (\<lambda>ws. on_result (\<lambda>r. r\<lparr> warnings := ws \<rparr>))) (\<lambda>_. conclude began)"

definition finish_page ::
  "'o browser_env \<Rightarrow> browser_call \<Rightarrow> fetch_builder \<Rightarrow> visit \<Rightarrow> cookie_jar option \<Rightarrow> network_entry option \<Rightarrow> page_snapshot option
   \<Rightarrow> fetch_result btask" where
  "finish_page env bc b v injected main snap =
     and_next (classify_page env snap) (\<lambda>_.
     and_next (report_main b main snap) (\<lambda>_.
     and_next (status_fallback env (vs_session v)) (\<lambda>_.
     and_next (in_order (artifact_steps env (bc_paths bc) b (vs_session v) main injected)) (\<lambda>_.
     and_next (verify_takeover b snap) (\<lambda>verified.
     and_next (end_tab env (vs_target v) (vs_session v) (close_after_success (vs_created v) (b_keep_tab_open b) verified)) (\<lambda>_.
       conclude_browser (bc_began bc)))))))"

definition capture_page ::
  "'o browser_env \<Rightarrow> browser_call \<Rightarrow> fetch_builder \<Rightarrow> visit \<Rightarrow> cookie_jar option \<Rightarrow> wait_outcome \<Rightarrow> duration \<Rightarrow> fetch_result btask" where
  "capture_page env bc b v injected wo nav_duration =
     and_next (begin_result bc b v wo) (\<lambda>_.
     and_next (observe_main env b v wo nav_duration) (\<lambda>main.
     and_next (look_at_page env v) (\<lambda>snap.
       guarded env b v same_error (validate_capture env b v main snap) (\<lambda>_.
         finish_page env bc b v injected main snap))))"

subsection \<open>The navigation\<close>

definition error_text :: "json \<Rightarrow> string option" where
  "error_text nav = (case get_str nav ''errorText'' of Some t \<Rightarrow> if t \<noteq> [] then Some t else None | None \<Rightarrow> None)"

text \<open>A download may be announced shortly after the navigation answered.\<close>

definition announced_download :: "download_env \<Rightarrow> visit \<Rightarrow> path option \<Rightarrow> json \<Rightarrow> (download_start option, 'z) task" where
  "announced_download dn v dir nav =
     (case dir of
        None \<Rightarrow> give (Inr None)
      | Some _ \<Rightarrow>
          download_start_task \<lparr> df_session = vs_session v, df_target = vs_target v, df_main_frame = vs_main_frame v \<rparr> dn
            (if navigate_has_download_flag nav \<or> get_str nav ''errorText'' = Some ''net::ERR_ABORTED'' then millis 1000 else 0))"

definition download_of ::
  "browser_call \<Rightarrow> fetch_builder \<Rightarrow> visit \<Rightarrow> path option \<Rightarrow> download_start option \<Rightarrow> instant \<Rightarrow> download_navigation" where
  "download_of bc b v dir ds now =
     \<lparr> nv_builder = b, nv_dir = dir, nv_start = ds, nv_request_id = bc_request_id bc, nv_paths = bc_paths bc,
       nv_began = bc_began bc, nv_duration = now - vs_nav_start v, nv_escalation = bc_reason bc, nv_target = vs_target v,
       nv_session = vs_session v, nv_main_frame = vs_main_frame v, nv_created = vs_created v \<rparr>"

definition wait_for_page ::
  "'o browser_env \<Rightarrow> browser_call \<Rightarrow> fetch_builder \<Rightarrow> prepared_options \<Rightarrow> visit \<Rightarrow> cookie_jar option \<Rightarrow> fetch_result btask" where
  "wait_for_page env bc b po v injected =
     guarded env b v same_error
       (stage ''wait_navigation_commit'' NavigationTimeout
          (wait_for_navigation_commit env (vs_session v) (b_url b) (vs_initial v))) (\<lambda>_.
     and_next (reading rs_now (\<lambda>now. on_deadline (update_trace (\<lambda>t.
                 t\<lparr> navigation_duration_ms := Some (duration_ms (now - vs_nav_start v)), wait_mode := Some (mode_name (b_wait b)) \<rparr>)))) (\<lambda>_.
     guarded env b v as_navigation_timeout (stage ''wait_readiness'' NavigationTimeout (wait_task env b)) (\<lambda>wo.
     reading rs_now (\<lambda>now.
       guarded env b v same_error
         (if has_evaluate_after_wait po
          then stage ''evaluate_after_wait'' NavigationTimeout (evaluate_after_wait env (vs_session v) 0 (po_evaluate po))
          else give (Inr ()))
         (\<lambda>_. capture_page env bc b v injected wo (now - vs_nav_start v))))))"

definition after_navigate ::
  "'o browser_env \<Rightarrow> download_env \<Rightarrow> browser_call \<Rightarrow> fetch_builder \<Rightarrow> prepared_options \<Rightarrow> visit \<Rightarrow> path option
   \<Rightarrow> cookie_jar option \<Rightarrow> json \<Rightarrow> fetch_result btask" where
  "after_navigate env dn bc b po v dir injected nav =
     and_next (announced_download dn v dir nav) (\<lambda>ds.
       if navigation_became_download nav ds
       then reading rs_now (\<lambda>now. finish_download_navigation env dn (download_of bc b v dir ds now))
       else
         (case error_text nav of
            Some err \<Rightarrow> fail_after env (vs_target v) (vs_session v) (may_close_tab b v)
                          (error_new (classify_navigate_error err) (''Page.navigate errorText: '' @ err))
          | None \<Rightarrow> wait_for_page env bc b po v injected))"

definition visit_tab ::
  "'o browser_env \<Rightarrow> download_env \<Rightarrow> browser_call \<Rightarrow> fetch_builder \<Rightarrow> prepared_options \<Rightarrow> cookie_jar option
   \<Rightarrow> string \<times> string \<times> bool \<Rightarrow> fetch_result btask" where
  "visit_tab env dn bc b po injected tab =
     (let (t, sid, created) = tab;
          v = \<lparr> vs_target = t, vs_session = sid, vs_created = created, vs_main_frame = None, vs_initial = None, vs_nav_start = 0 \<rparr>;
          hs = cdp_headers_by_scope po
      in guarded env b v same_error (stage ''browser_enable'' NavigationTimeout (enable_domains env sid browser_domains)) (\<lambda>_.
         guarded env b v same_error
           (stage ''prepare_request'' NavigationTimeout (apply_browser_request_options env sid (b_url b) po (fst hs))) (\<lambda>_.
         and_next (root_frame_id env sid) (\<lambda>frame.
         and_next (change (\<lambda>s. s\<lparr> br_net := net_start \<rparr>)) (\<lambda>_.
         and_next (configure_download_capture env dn) (\<lambda>dir.
         and_next (list_downloads dn dir) (\<lambda>_.
         and_next (first_location env sid) (\<lambda>initial.
         reading rs_now (\<lambda>now.
           let v = v\<lparr> vs_main_frame := frame, vs_initial := initial, vs_nav_start := now \<rparr>
           in guarded env b v as_navigation_timeout
                (stage ''navigate'' NavigationTimeout
                   (navigate_with_method (be_nav env) (be_peer env) (be_beside env) sid (b_url b) (po_method po) (po_body po) hs (b_timeout b)))
                (\<lambda>(nav, intercept). after_navigate env dn bc b po v dir injected nav))))))))))"

subsection \<open>The whole path\<close>

definition browser_path ::
  "'o browser_env \<Rightarrow> host_env \<Rightarrow> download_env \<Rightarrow> browser_call \<Rightarrow> fetch_builder \<Rightarrow> prepared_options \<Rightarrow> fetch_result btask" where
  "browser_path env he dn bc b po =
     (let b = with_default_want b
      in and_next (on_deadline (update_trace (browser_trace b (bc_reason bc)))) (\<lambda>_.
         and_next (start_inline_host he b) (\<lambda>b.
         and_next (stage ''prepare_request'' NavigationTimeout (await_open MakeDir (ensure_dir (fst (he_mkdir he)), snd (he_mkdir he)))) (\<lambda>_.
           if \<not> endpoint_is_remote (cl_endpoint (b_client b))
           then give (fail RenderUnavailable ''browser fetch requires --endpoint-url pointing at an afhttp host'')
           else (case inject_jar env b po of
                   (po, injected) \<Rightarrow>
                     and_next (stage ''connect_cdp'' NavigationTimeout (wait_out (he_connect he))) (\<lambda>_.
                     and_next (open_tab env b) (\<lambda>tab. visit_tab env dn bc b po injected tab)))))))"

end
