(* ===== verification/BrowserDemo.thy ===== *)
theory BrowserDemo
  imports BrowserPath ReadinessFacts
begin

text \<open>
  Concrete surroundings for the browser path, on which its properties are evaluated: two browsers, disks that can be
  written, and a page that says nothing.
\<close>

definition no_reply :: "json result \<times> duration" where "no_reply = (fail CdpError ''no'', 1)"

text \<open>It opens and attaches to tabs; what else it answers is given.\<close>

definition tab_browser :: "json result \<Rightarrow> cdp_peer" where
  "tab_browser other h =
     (case h of
        [] \<Rightarrow> no_reply
      | (_, m, _) # _ \<Rightarrow>
          (if m = ''Target.createTarget'' then (Inr (JObj [(''targetId'', JStr ''T'')]), 1)
           else if m = ''Target.attachToTarget'' then (Inr (JObj [(''sessionId'', JStr ''S'')]), 1)
           else (other, 1)))"

definition demo_browser :: "json result \<Rightarrow> string browser_env" where
  "demo_browser other =
     \<lparr> be_peer = tab_browser other, be_nav = demo_nav_libs,
       be_cap = \<lparr> cl_snapshot_js = [], cl_content_js = [], cl_status_js = [], cl_parse_json = (\<lambda>_. None), cl_base64_decode = (\<lambda>_. None) \<rparr>,
       be_storage = \<lparr> sl_local_js = [], sl_session_js = [], sl_idb_js = [], sl_parse = (\<lambda>_. None), sl_text = (\<lambda>_. None) \<rparr>,
       be_meta_js = [], be_observation_js = [], be_parse_observation = (\<lambda>_. fail CdpError []), be_normal_url = (\<lambda>_. None),
       be_collect = demo_capture, be_arrivals = (\<lambda>_. []), be_main_wakes = [], be_main_rest = [], be_main_cost = 0,
       be_beside = \<lparr> bs_events = [], bs_answer = (\<lambda>_. Inr ()), bs_after = 0 \<rparr>,
       be_wait = demo_world (\<lambda>_. fail CdpError []),
       be_explicit = \<lparr> xw_first_look = no_reply, xw_load_event = (Inr (), 0), xw_polls = (\<lambda>_. (0, Inr JNull)), xw_lifecycle_cost = 0,
                       xw_idle_event = (\<lambda>_. (Inr (), 0)) \<rparr>,
       be_io = (\<lambda>_. \<lparr> w_mkdir = True, w_create = True, w_write = None, w_flush = True, w_rename = True \<rparr>),
       be_cut_io = (\<lambda>_. \<lparr> w_mkdir = True, w_create = False, w_write = None, w_flush = True, w_rename = True \<rparr>),
       be_file_time = (\<lambda>_ _. 1),
       be_path_text = (\<lambda>_. []), be_mime_extensions = (\<lambda>_. None), be_print_json = (\<lambda>_. Inr []), be_print_network = (\<lambda>_. Inr []),
       be_print_console = (\<lambda>_. Inr []), be_print_observation = (\<lambda>_. Inr []), be_print_storage = (\<lambda>_. Inr []),
       be_json_line = (\<lambda>_. None), be_html_texts = (\<lambda>_. []),
       be_console = \<lparr> ci_events = [], ci_events_dropped = 0, ci_truncated = False \<rparr>,
       be_epoch = 0, be_age_end = (\<lambda>_. None), be_hval = (\<lambda>_. True), be_ts_ok = (\<lambda>_. True), be_dom_get = (\<lambda>d. d),
       be_psl = (\<lambda>_. None), be_conv = (\<lambda>_. None), be_jar_io = demo_io, be_jar_start = NoFile, be_jar_load = NoFile,
       be_jar_lock = NoFile, be_jar_wait = 0 \<rparr>"

definition demo_host :: host_env where
  "demo_host = \<lparr> he_inline_started = (False, 0), he_inline_endpoint = (fail InternalError [], 0), he_cwd = None, he_metadata = (\<lambda>_. None),
     he_started_now = False, he_profile = (fail InternalError [], 0), he_mkdir = (True, 2), he_connect = (Inr (), 1) \<rparr>"

definition demo_downloads :: download_env where
  "demo_downloads = \<lparr> dn_info = (fail InternalError [], 0), dn_mkdir = (False, 0), dn_before = ({}, 0), dn_buffered = [], dn_later = [],
     dn_rounds = (\<lambda>_. \<lparr> dr_listing = None, dr_size1 = (\<lambda>_. None), dr_size2 = (\<lambda>_. None) \<rparr>) \<rparr>"

definition demo_fetch :: browser_call where
  "demo_fetch = \<lparr> bc_request_id = ''r'', bc_paths = \<lparr> ap_root = [RootDir, Normal ''r''] \<rparr>, bc_began = 0, bc_reason = None \<rparr>"

definition demo_builder :: "string option \<Rightarrow> fetch_builder" where
  "demo_builder tab = (builder_new (demo_client False) ''https://e/'')
     \<lparr> b_tab := tab, b_wait := WaitMs 1, b_want := [ABody, Console], b_want_explicit := True \<rparr>"

definition demo_get :: prepared_options where
  "demo_get = \<lparr> po_headers = [], po_user_agent = None, po_raw_cookie = None, po_cookies = [], po_raw_pairs = [],
     po_evaluate = [], po_method = ''GET'', po_body = NoBody \<rparr>"

definition demo_start :: browser_run where
  "demo_start = \<lparr> rs_now = 0, rs_deadline = demo_deadline, rs_sent = [], rs_waits = [], br_net = net_start, br_files = [],
     br_result = fetch_result_new [] [] (empty_trace TraceAuto 0 []), br_warnings = [], br_jar = NoFile \<rparr>"

lemma demo_browser_fields [simp]:
  "be_peer (demo_browser other) = tab_browser other"
  "be_nav (demo_browser other) = demo_nav_libs"
  "be_cap (demo_browser other) = \<lparr> cl_snapshot_js = [], cl_content_js = [], cl_status_js = [], cl_parse_json = (\<lambda>_. None), cl_base64_decode = (\<lambda>_. None) \<rparr>"
  "be_storage (demo_browser other) = \<lparr> sl_local_js = [], sl_session_js = [], sl_idb_js = [], sl_parse = (\<lambda>_. None), sl_text = (\<lambda>_. None) \<rparr>"
  "be_meta_js (demo_browser other) = []"
  "be_observation_js (demo_browser other) = []"
  "be_parse_observation (demo_browser other) = (\<lambda>_. fail CdpError [])"
  "be_normal_url (demo_browser other) = (\<lambda>_. None)"
  "be_collect (demo_browser other) = demo_capture"
  "be_arrivals (demo_browser other) = (\<lambda>_. [])"
  "be_main_wakes (demo_browser other) = []"
  "be_main_rest (demo_browser other) = []"
  "be_main_cost (demo_browser other) = 0"
  "be_beside (demo_browser other) = \<lparr> bs_events = [], bs_answer = (\<lambda>_. Inr ()), bs_after = 0 \<rparr>"
  "be_wait (demo_browser other) = demo_world (\<lambda>_. fail CdpError [])"
  "be_explicit (demo_browser other) = \<lparr> xw_first_look = no_reply, xw_load_event = (Inr (), 0), xw_polls = (\<lambda>_. (0, Inr JNull)), xw_lifecycle_cost = 0, xw_idle_event = (\<lambda>_. (Inr (), 0)) \<rparr>"
  "be_io (demo_browser other) = (\<lambda>_. \<lparr> w_mkdir = True, w_create = True, w_write = None, w_flush = True, w_rename = True \<rparr>)"
  "be_file_time (demo_browser other) = (\<lambda>_ _. 1)"
  "be_path_text (demo_browser other) = (\<lambda>_. [])"
  "be_mime_extensions (demo_browser other) = (\<lambda>_. None)"
  "be_print_json (demo_browser other) = (\<lambda>_. Inr [])"
  "be_print_network (demo_browser other) = (\<lambda>_. Inr [])"
  "be_print_console (demo_browser other) = (\<lambda>_. Inr [])"
  "be_print_observation (demo_browser other) = (\<lambda>_. Inr [])"
  "be_print_storage (demo_browser other) = (\<lambda>_. Inr [])"
  "be_json_line (demo_browser other) = (\<lambda>_. None)"
  "be_html_texts (demo_browser other) = (\<lambda>_. [])"
  "be_console (demo_browser other) = \<lparr> ci_events = [], ci_events_dropped = 0, ci_truncated = False \<rparr>"
  "be_epoch (demo_browser other) = 0"
  "be_age_end (demo_browser other) = (\<lambda>_. None)"
  "be_hval (demo_browser other) = (\<lambda>_. True)"
  "be_ts_ok (demo_browser other) = (\<lambda>_. True)"
  "be_dom_get (demo_browser other) = (\<lambda>d. d)"
  "be_psl (demo_browser other) = (\<lambda>_. None)"
  "be_conv (demo_browser other) = (\<lambda>_. None)"
  "be_jar_io (demo_browser other) = demo_io"
  "be_jar_start (demo_browser other) = NoFile"
  "be_jar_load (demo_browser other) = NoFile"
  "be_jar_lock (demo_browser other) = NoFile"
  "be_jar_wait (demo_browser other) = 0"
  by (simp_all add: demo_browser_def)

lemma demo_builder_fields [simp]:
  "b_client (demo_builder tab) = demo_client False" "b_url (demo_builder tab) = ''https://e/''" "b_wait (demo_builder tab) = WaitMs 1"
  "b_tab (demo_builder tab) = tab" "b_keep_tab_open (demo_builder tab) = False" "b_want (demo_builder tab) = [ABody, Console]"
  "b_want_explicit (demo_builder tab) = True" "b_timeout (demo_builder tab) = secs 30"
  "b_readiness (demo_builder tab) = b_readiness (builder_new (demo_client False) [])"
  "b_network (demo_builder tab) = b_network (builder_new (demo_client False) [])"
  "b_cookie_jar (demo_builder tab) = \<lparr> cj_path = None, cj_warning = None, cj_disabled = False \<rparr>"
  by (simp_all add: demo_builder_def builder_new_def)

lemma demo_wanted [simp]: "with_default_want (demo_builder tab) = demo_builder tab"
  by (simp add: with_default_want_def)

definition demo_run :: "json result \<Rightarrow> string option \<Rightarrow> fetch_result result option \<times> browser_run" where
  "demo_run other tab =
     browser_path (demo_browser other) demo_host demo_downloads demo_fetch (demo_builder tab) demo_get (secs 100) demo_start"

subsection \<open>Evaluating a path\<close>

text \<open>
  \<open>leads t cutoff s Q\<close>: from a run like \<open>s\<close>, whatever its recorder holds as long as it works and the budget of ten
  seconds is the same, the task ends with a result and a run that satisfy \<open>Q\<close>.
\<close>

definition fresh :: "fetch_deadline \<Rightarrow> bool" where
  "fresh d \<longleftrightarrow> \<not> dl_poisoned d \<and> dl_started d = 0 \<and> dl_timeout d = secs 10"

definition leads :: "('a, 'z) task \<Rightarrow> instant \<Rightarrow> 'z run_scheme \<Rightarrow> ('a result \<Rightarrow> 'z run_scheme \<Rightarrow> bool) \<Rightarrow> bool" where
  "leads t cutoff s Q \<longleftrightarrow>
     (\<forall>d. fresh d \<longrightarrow> (\<exists>r s' d'. t cutoff (s\<lparr> rs_deadline := d \<rparr>) = (Some r, s'\<lparr> rs_deadline := d' \<rparr>) \<and> fresh d' \<and> Q r s'))"

lemma fresh_budget: "fresh d \<Longrightarrow> same_budget d d' \<Longrightarrow> fresh d'"
  by (simp add: fresh_def same_budget_def)

lemma leads_by:
  assumes "\<And>d. fresh d \<Longrightarrow> t cutoff (s\<lparr> rs_deadline := d \<rparr>) = (Some r, s'\<lparr> rs_deadline := f d \<rparr>) \<and> fresh (f d)" and "Q r s'"
  shows "leads t cutoff s Q"
  unfolding leads_def using assms by blast

lemma leads_give: "Q r s \<Longrightarrow> leads (give r) cutoff s Q"
  by (auto simp: leads_def give_def)

lemma leads_settle: "leads t cutoff s (\<lambda>r s1. leads (k r) cutoff s1 Q) \<Longrightarrow> leads (settle_with t k) cutoff s Q"
  unfolding leads_def settle_with_def by fastforce

lemma leads_next:
  "leads t cutoff s (\<lambda>r s1. leads (case r of Inl e \<Rightarrow> give (Inl e) | Inr v \<Rightarrow> k v) cutoff s1 Q) \<Longrightarrow> leads (and_next t k) cutoff s Q"
  unfolding and_next_def by (rule leads_settle)

lemma leads_reading: "(\<And>d. leads (k (g (s\<lparr> rs_deadline := d \<rparr>))) cutoff s Q) \<Longrightarrow> leads (reading g k) cutoff s Q"
  unfolding leads_def reading_def by blast

lemma leads_change: "(\<And>d. f (s\<lparr> rs_deadline := d \<rparr>) = (f s)\<lparr> rs_deadline := d \<rparr>) \<Longrightarrow> Q (Inr ()) (f s) \<Longrightarrow> leads (change f) cutoff s Q"
  unfolding leads_def change_def by auto

lemma leads_on_deadline: "Q (Inr ()) s \<Longrightarrow> (\<And>d. same_budget d (f d)) \<Longrightarrow> leads (on_deadline f) cutoff s Q"
  by (rule leads_by [where f = f]) (auto simp: on_deadline_def change_def intro: fresh_budget)

lemma leads_wait: "rs_now s + snd out \<le> cutoff \<Longrightarrow> Q (fst out) (s\<lparr> rs_now := rs_now s + snd out \<rparr>) \<Longrightarrow> leads (wait_out out) cutoff s Q"
  by (rule leads_by [where f = "\<lambda>d. d"]) (simp_all add: wait_out_def)

lemma leads_await:
  assumes "rs_now s + snd (peer ((sid, m, p) # rs_sent s)) \<le> cutoff"
    and "Q (fst (peer ((sid, m, p) # rs_sent s))) (s\<lparr> rs_now := rs_now s + snd (peer ((sid, m, p) # rs_sent s)), rs_sent := (sid, m, p) # rs_sent s \<rparr>)"
  shows "leads (cdp_await peer sid m p) cutoff s Q"
  by (rule leads_by [where f = "\<lambda>d. d" and Q = Q]) (use assms in \<open>simp_all add: cdp_await_def wait_out_def\<close>)

lemma leads_call:
  assumes "snd (peer ((sid, m, p) # rs_sent s)) \<le> limit" and "leads (cdp_await peer sid m p) cutoff s Q"
  shows "leads (cdp_call peer sid m p limit) cutoff s Q"
proof -
  have "cdp_call peer sid m p limit cutoff (s\<lparr> rs_deadline := d \<rparr>) = cdp_await peer sid m p cutoff (s\<lparr> rs_deadline := d \<rparr>)" for d
    using assms(1) by (cases "peer ((sid, m, p) # rs_sent s)") (simp add: cdp_call_def cdp_await_def min_def)
  with assms(2) show ?thesis by (simp add: leads_def)
qed

lemma leads_rest:
  assumes early: "rs_now s < secs 10" and Q: "Q (Inr (secs 10 - rs_now s)) s" shows "leads (rest_of stg) cutoff s Q"
  unfolding leads_def
proof (intro allI impI)
  fix d assume f: "fresh d"
  with early have "remaining (rs_now s) stg d = (Inr (secs 10 - rs_now s), set_stage stg d)"
    by (simp add: remaining_def remaining_without_stage_update_def fresh_def set_stage_def Let_def)
  then show "\<exists>r s' d'. rest_of stg cutoff (s\<lparr> rs_deadline := d \<rparr>) = (Some r, s'\<lparr> rs_deadline := d' \<rparr>) \<and> fresh d' \<and> Q r s'"
    using fresh_budget [OF f same_budget_ops(1)] Q by (auto simp: rest_of_def)
qed

lemma leads_send:
  assumes "rs_now s < secs 10" and "snd (peer ((Some sid, m, p) # rs_sent s)) \<le> secs 10 - rs_now s"
    and "leads (cdp_await peer (Some sid) m p) cutoff s Q"
  shows "leads (cdp_send peer sid m p stg) cutoff s Q"
  unfolding cdp_send_def by (intro leads_next leads_rest) (simp_all add: assms leads_call)

lemma leads_stage:
  assumes "rs_now s < secs 10" and t: "leads t (min cutoff (secs 10)) s Q"
  shows "leads (stage name code t) cutoff s Q"
  unfolding leads_def
proof (intro allI impI)
  fix d assume f: "fresh d"
  obtain b d1 where bgn: "begin_stage (rs_now s) name d = (b, d1)" by (metis surj_pair)
  then obtain token where b: "b = Inr token" using f by (auto simp: begin_stage_def fresh_def Let_def)
  have f1: "fresh d1" using fresh_budget [OF f same_budget_begin [OF bgn]] .
  from t f1 obtain r s1 d2 where f2: "fresh d2" and Q: "Q r s1"
    and run: "t (min cutoff (secs 10)) (s\<lparr> rs_deadline := d1 \<rparr>) = (Some r, s1\<lparr> rs_deadline := d2 \<rparr>)"
    unfolding leads_def by blast
  have rest: "remaining_without_stage_update (rs_now s) d1 = (Inr (secs 10 - rs_now s), d1)"
    using assms(1) f1 by (simp add: remaining_without_stage_update_def fresh_def Let_def)
  have "rs_now s + (secs 10 - rs_now s) = secs 10" using assms(1) by simp
  then have "\<exists>d'. fresh d' \<and> stage name code t cutoff (s\<lparr> rs_deadline := d \<rparr>) = (Some r, s1\<lparr> rs_deadline := d' \<rparr>)"
    using bgn b rest run fresh_budget [OF f2 same_budget_ops(4)]
    by (auto simp: stage_def Let_def split: sum.split intro!: exI)
  with Q show "\<exists>r s' d'. stage name code t cutoff (s\<lparr> rs_deadline := d \<rparr>) = (Some r, s'\<lparr> rs_deadline := d' \<rparr>) \<and> fresh d' \<and> Q r s'"
    by blast
qed

lemma leads_open:
  assumes "rs_now s + snd out \<le> cutoff"
    and "Q (fst out) (s\<lparr> rs_now := rs_now s + snd out, rs_waits := (what, snd out) # rs_waits s \<rparr>)"
  shows "leads (await_open what out) cutoff s Q"
  by (rule leads_by [where f = "\<lambda>d. d" and Q = Q]) (use assms in \<open>simp_all add: await_open_def wait_out_def\<close>)

lemma leads_writing:
  assumes "w (be_io env) (br_files s) = (r, fs)" and "rs_now s + be_file_time env WriteFile (rs_waits s) \<le> cutoff"
    and "leads (k r) cutoff (s\<lparr> rs_now := rs_now s + be_file_time env WriteFile (rs_waits s),
           rs_waits := (WriteFile, be_file_time env WriteFile (rs_waits s)) # rs_waits s, br_files := fs \<rparr>) Q"
  shows "leads (writing env w k) cutoff s Q"
proof -
  have swap: "s\<lparr> rs_deadline := d, rs_now := n, rs_waits := l, br_files := fs \<rparr> = s\<lparr> rs_now := n, rs_waits := l, br_files := fs, rs_deadline := d \<rparr>"
    for d n l by (cases s) simp
  show ?thesis using assms
    by (simp add: leads_def writing_def write_out_def settle_with_def file_wait_def await_open_def wait_out_def swap)
qed

lemma leads_trace:
  assumes "\<And>t. Q (Inr t) s" shows "leads take_snapshot cutoff s Q" "leads finish_trace cutoff s Q"
proof -
  have "\<exists>r s' d'. (case snapshot_inner now fin d of (t, d) \<Rightarrow> (Some (Inr t), s\<lparr> rs_deadline := d \<rparr>)) =
      (Some r, s'\<lparr> rs_deadline := d' \<rparr>) \<and> fresh d' \<and> Q r s'" if "fresh d" for now fin d
  proof -
    obtain t d' where "snapshot_inner now fin d = (t, d')" by (metis surj_pair)
    with fresh_budget [OF that same_budget_snapshot [OF this]] assms show ?thesis by auto
  qed
  then show "leads take_snapshot cutoff s Q" "leads finish_trace cutoff s Q"
    by (simp_all add: leads_def take_snapshot_def finish_trace_def snapshot_def complete_trace_def)
qed

lemma leads_main:
  assumes "be_main_cost env = 0" and "be_main_wakes env = []" and "rs_now s \<le> cutoff"
    and "wait_for_main_status frame [] (run_ops env (be_main_rest env)) (nr_inner (br_net s)) = (e, i)"
    and "Q (Inr e) (s\<lparr> br_net := (br_net s)\<lparr> nr_inner := i \<rparr> \<rparr>)"
  shows "leads (main_status env ms frame) cutoff s Q"
proof -
  have swap: "s\<lparr> rs_deadline := d, br_net := n \<rparr> = s\<lparr> br_net := n, rs_deadline := d \<rparr>" for d n by (cases s) simp
  have "leads (\<lambda>cutoff s. case wait_for_main_status frame [] (run_ops env (be_main_rest env)) (nr_inner (br_net s)) of
      (e, inner) \<Rightarrow> (Some (Inr e), s\<lparr> br_net := (br_net s)\<lparr> nr_inner := inner \<rparr> \<rparr>)) cutoff s Q"
    by (rule leads_by [where f = "\<lambda>d. d" and Q = Q and r = "Inr e" and s' = "s\<lparr> br_net := (br_net s)\<lparr> nr_inner := i \<rparr> \<rparr>"])
       (simp_all add: assms swap del: wait_for_main_status.simps)
  then show ?thesis
    unfolding main_status_def using assms(1-3) by (intro leads_next leads_wait) simp_all
qed

lemma leads_runs: "leads t cutoff s Q \<Longrightarrow> fresh (rs_deadline s) \<Longrightarrow> \<exists>r s' d'. t cutoff s = (Some r, s'\<lparr> rs_deadline := d' \<rparr>) \<and> Q r s'"
  unfolding leads_def by (metis run.surjective run.update_convs(2))

text \<open>Following a run, one command or change at a time; continuations are looked at when they are reached.\<close>

lemmas follow = leads_give leads_on_deadline leads_next leads_settle leads_stage leads_reading leads_change leads_wait leads_send leads_rest
  leads_call leads_await leads_open leads_writing leads_trace leads_main

lemma lazily:
  "and_next t k = and_next t k" "settle_with t l = settle_with t l" "stage n c t = stage n c t" "reading g m = reading g m"
  "guarded env b v f t k = guarded env b v f t k" "or_finish env i sid x f t k = or_finish env i sid x f t k"
  "capturing a t h = capturing a t h" "in_order ts = in_order ts" "writing env w j = writing env w j"
  by (rule refl)+

lemmas demo_data = demo_host_def demo_downloads_def demo_fetch_def demo_get_def demo_start_def builder_new_def demo_client_def secs_def millis_def tab_browser_def no_reply_def

end
