(* ===== verification/RunRelations.thy ===== *)
theory RunRelations
  imports BrowserPath
begin

text \<open>
  What holds between the state a task of the browser path starts in and the one it leaves behind. A relation that
  holds along every single step holds along whole tasks; the locale says which steps there are.
\<close>

definition obeys :: "('z run_scheme \<Rightarrow> 'z run_scheme \<Rightarrow> bool) \<Rightarrow> ('a, 'z) task \<Rightarrow> bool" where
  "obeys R t \<longleftrightarrow> (\<forall>cutoff s r s'. t cutoff s = (r, s') \<longrightarrow> R s s')"

text \<open>The commands that are not about which tabs there are.\<close>

definition page_command :: "command \<Rightarrow> bool" where
  "page_command c \<longleftrightarrow> fst (snd c) \<notin> {''Target.createTarget'', ''Target.closeTarget''}"

named_theorems obeying

lemma obeysI: "(\<And>cutoff s r s'. t cutoff s = (r, s') \<Longrightarrow> R s s') \<Longrightarrow> obeys R t"
  by (simp add: obeys_def)

lemma obeysD: "obeys R t \<Longrightarrow> t cutoff s = (r, s') \<Longrightarrow> R s s'"
  unfolding obeys_def by blast

locale run_relation =
  fixes R :: "'z run_scheme \<Rightarrow> 'z run_scheme \<Rightarrow> bool"
  assumes stays: "R s s"
    and follows: "R a b \<Longrightarrow> R b c \<Longrightarrow> R a c"
    and clock: "R s (s\<lparr> rs_now := t \<rparr>)"
    and budget: "R s (s\<lparr> rs_deadline := d \<rparr>)"
    and waits: "R s (s\<lparr> rs_waits := ws \<rparr>)"
    and sends: "page_command cmd \<Longrightarrow> R s (s\<lparr> rs_sent := cmd # rs_sent s \<rparr>)"
begin

lemma obeys_give [obeying]: "obeys R (give r)"
  by (simp add: obeys_def give_def stays)

lemma obeys_settle [obeying]:
  assumes t: "obeys R t" and k: "\<And>r. obeys R (k r)"
  shows "obeys R (settle_with t k)"
proof (rule obeysI)
  fix cutoff s r s' assume run: "settle_with t k cutoff s = (r, s')"
  obtain r1 s1 where a: "t cutoff s = (r1, s1)" by (cases "t cutoff s")
  show "R s s'"
  proof (cases r1)
    case None with run a obeysD [OF t a] show ?thesis by (simp add: settle_with_def)
  next
    case (Some v)
    with run a have "k v cutoff s1 = (r, s')" by (simp add: settle_with_def)
    from follows [OF obeysD [OF t a] obeysD [OF k this]] show ?thesis .
  qed
qed

lemma obeys_next [obeying]: "obeys R t \<Longrightarrow> (\<And>v. obeys R (k v)) \<Longrightarrow> obeys R (and_next t k)"
  unfolding and_next_def by (intro obeys_settle) (auto intro: obeys_give split: sum.split)

text \<open>Only the values the first task can end with matter.\<close>

lemma obeys_next_where:
  assumes t: "obeys R t" and k: "\<And>cutoff s v s'. t cutoff s = (Some (Inr v), s') \<Longrightarrow> obeys R (k v)"
  shows "obeys R (and_next t k)"
proof (rule obeysI)
  fix cutoff s r s' assume run: "and_next t k cutoff s = (r, s')"
  obtain r1 s1 where a: "t cutoff s = (r1, s1)" by (cases "t cutoff s")
  note first = obeysD [OF t a]
  show "R s s'"
  proof (cases "\<exists>v. r1 = Some (Inr v)")
    case True
    then obtain v where v: "r1 = Some (Inr v)" by blast
    with run a have "k v cutoff s1 = (r, s')" by (simp add: and_next_def settle_with_def)
    from follows [OF first obeysD [OF k [OF a [unfolded v]] this]] show ?thesis .
  next
    case False
    with run a first show ?thesis by (auto simp: and_next_def settle_with_def give_def split: option.splits sum.splits)
  qed
qed

lemma obeys_reading [obeying]: "(\<And>v. obeys R (k v)) \<Longrightarrow> obeys R (reading g k)"
  unfolding obeys_def reading_def by blast

lemma obeys_change: "(\<And>s. R s (f s)) \<Longrightarrow> obeys R (change f)"
  by (auto simp: obeys_def change_def)

lemma obeys_wait [obeying]: "obeys R (wait_out out)"
  by (auto simp: obeys_def wait_out_def clock)

lemma obeys_await_open [obeying]: "obeys R (await_open what out)"
proof (rule obeysI)
  fix cutoff and s s' :: "'z run_scheme" and r assume "await_open what out cutoff s = (r, s')"
  then obtain s1 ws where "wait_out out cutoff s = (r, s1)" "s' = s1\<lparr> rs_waits := ws \<rparr>"
    by (auto simp: await_open_def split: prod.splits)
  with follows [OF obeysD [OF obeys_wait] waits] show "R s s'" by blast
qed

lemma obeys_on_deadline [obeying]: "obeys R (on_deadline f)"
  unfolding on_deadline_def by (rule obeys_change) (rule budget)

lemma obeys_rest [obeying]: "obeys R (rest_of stg)" "obeys R (bounded_rest stg cap)"
  by (auto simp: obeys_def rest_of_def bounded_rest_def budget split: prod.splits)

lemma after_send:
  assumes "page_command c" and "obeys R w" and "w cutoff (s\<lparr> rs_sent := c # rs_sent s \<rparr>) = (r, s')"
  shows "R s s'"
  by (rule follows [OF sends [OF assms(1)] obeysD [OF assms(2,3)]])

lemma obeys_call: "page_command (sid, m, p) \<Longrightarrow> obeys R (cdp_call peer sid m p limit)"
  unfolding obeys_def cdp_call_def prod.case_eq_if using after_send [OF _ obeys_wait] by blast

lemma obeys_await: "page_command (sid, m, p) \<Longrightarrow> obeys R (cdp_await peer sid m p)"
  unfolding obeys_def cdp_await_def Let_def using after_send [OF _ obeys_wait] by blast

lemma obeys_send: "page_command (Some sid, m, p) \<Longrightarrow> obeys R (cdp_send peer sid m p stg)"
  unfolding cdp_send_def by (intro obeying obeys_call)

lemma obeys_send_no_session: "page_command (None, m, p) \<Longrightarrow> obeys R (cdp_send_no_session peer m p stg)"
  unfolding cdp_send_no_session_def by (intro obeying obeys_call)

lemmas commands = obeys_call obeys_await obeys_send obeys_send_no_session

lemma obeys_stage [obeying]:
  assumes t: "obeys R t" shows "obeys R (stage name code t)"
proof (rule obeysI)
  fix cutoff s r s' assume run: "stage name code t cutoff s = (r, s')"
  from run show "R s s'"
  proof (cases rule: stage_cases)
    case (ran rest d r1 s1 st token)
    have "R s s1" using follows [OF budget obeysD [OF t ran(4)]] .
    with ran(6) budget follows show ?thesis by blast
  qed (simp add: budget)
qed

text \<open>Reading the page.\<close>

lemma obeys_captures [obeying]:
  "obeys R (capture_location peer sid)"
  "obeys R (capture_page_snapshot cl peer sid)"
  "obeys R (capture_response_body cl peer sid i)"
  "obeys R (navigation_status_from_performance cl peer sid)"
  "obeys R (capture_outer_html peer sid)"
  "obeys R (capture_inner_text peer sid)"
  "obeys R (capture_content cl peer sid)"
  "obeys R (capture_screenshot cl peer sid)"
  "obeys R (storage_capture sl peer sid u)"
  "obeys R (observation_capture parse ps mj oj peer sid u)"
  by (auto intro!: obeying commands split: option.split sum.split simp: page_command_def
      capture_location_def capture_page_snapshot_def capture_response_body_def navigation_status_from_performance_def
      capture_outer_html_def dom_outer_html_def capture_outer_html_via_runtime_def capture_inner_text_def capture_content_def
      capture_screenshot_def storage_capture_def eval_json_def eval_str_array_def storage_eval_def observation_capture_def)

lemma obeys_join: "obeys R t \<Longrightarrow> obeys R (join_with t out)"
  unfolding obeys_def join_with_def
  by (auto simp: Let_def split: option.splits prod.splits if_splits intro: follows [OF _ clock])

lemma obeys_navigate [obeying]: "obeys R (navigate_with_method libs peer world sid u verb body hs timeout)"
  by (auto intro!: obeying commands obeys_join split: prod.split
      simp: page_command_def navigate_with_method_def plain_navigate_def Let_def)

lemma obeys_options [obeying]: "obeys R (apply_browser_request_options env sid u po extra)"
  by (auto intro!: obeying commands split: option.split sum.split
      simp: page_command_def apply_browser_request_options_def set_cookies_def)

lemma obeys_evaluate [obeying]: "obeys R (evaluate_after_wait env sid idx scripts)"
  by (induction scripts arbitrary: idx) (auto intro!: obeying commands split: sum.split option.split simp: page_command_def)

lemma obeys_commit_loop: "commit_loop env sid stop_at initial cutoff (s :: 'z run_scheme) = (r, s') \<Longrightarrow> R s s'"
proof (induction env sid stop_at initial cutoff s arbitrary: r s' rule: commit_loop.induct)
  case (1 env sid stop_at initial cutoff s)
  obtain r1 s1 where loc: "capture_location (be_peer env) sid cutoff s = (r1, s1)" by (metis surj_pair)
  note first = obeysD [OF obeys_captures(1) loc]
  show ?case
  proof (cases "stop_at \<le> rs_now s \<or> r1 = None \<or> committed (be_normal_url env) initial (the r1)")
    case True
    with "1.prems" loc first stays show ?thesis
      by (subst (asm) commit_loop.simps) (auto split: if_splits option.splits)
  next
    case False
    then obtain v where v: "r1 = Some v" by auto
    obtain r2 s2 where slept: "sleep_towards stop_at (millis 50) cutoff s1 = (r2, s2)" by (metis surj_pair)
    have "R s1 s2" using obeysD [OF obeys_wait] slept unfolding sleep_towards_def by blast
    note second = follows [OF first this]
    show ?thesis
    proof (cases r2)
      case None
      with "1.prems" loc second slept v False show ?thesis by (subst (asm) commit_loop.simps) auto
    next
      case (Some w)
      with "1.prems" loc slept v False have "commit_loop env sid stop_at initial cutoff s2 = (r, s')"
        by (subst (asm) commit_loop.simps) simp
      from "1.IH" [OF _ loc [symmetric] v _ slept [symmetric] Some this] False v second
      show ?thesis by (auto intro: follows)
    qed
  qed
qed

lemma obeys_commit [obeying]: "obeys R (wait_for_navigation_commit env sid requested initial)"
proof (rule obeysI)
  fix cutoff and s s' :: "'z run_scheme" and r assume run: "wait_for_navigation_commit env sid requested initial cutoff s = (r, s')"
  obtain b d where rem: "bounded_remaining (rs_now s) ''wait_navigation_commit'' (secs 3) (rs_deadline s) = (b, d)" by (metis surj_pair)
  show "R s s'"
  proof (cases "\<exists>i limit. initial = Some i \<and> b = Inr limit \<and> (Some (Inr ()), s) \<noteq> (r, s')")
    case True
    then obtain i limit where "commit_loop env sid (rs_now s + limit) i cutoff (s\<lparr> rs_deadline := d \<rparr>) = (r, s')"
      using run rem by (auto simp: wait_for_navigation_commit_def split: if_splits)
    from follows [OF budget obeys_commit_loop [OF this]] show ?thesis .
  next
    case False
    with run rem show ?thesis
      by (auto simp: wait_for_navigation_commit_def stays budget split: option.splits if_splits sum.splits)
  qed
qed

lemma obeys_snapshot [obeying]: "obeys R take_snapshot" "obeys R finish_trace"
  by (auto simp: obeys_def take_snapshot_def finish_trace_def budget split: prod.splits)

lemma obeys_host [obeying]:
  "obeys R (root_frame_id env sid)" "obeys R (first_location env sid)" "obeys R (enable_domains env sid browser_domains)"
  "obeys R (start_inline_host he b)" "obeys R (attach_tab env t)" "obeys R (retain_tab t)"
  "obeys R (finish_target env t sid False)" "obeys R (configure_download_capture env dn)"
  "obeys R (list_downloads dn dir)"
  by (auto intro!: obeying commands split: option.split sum.split
      simp: page_command_def root_frame_id_def first_location_def browser_domains_def start_inline_host_def inline_host_started_def list_downloads_def attach_tab_def
        retain_tab_def finish_target_def configure_download_capture_def Let_def)

lemma obeys_timed [obeying]:
  "obeys R (download_start_task fr dn timeout)" "obeys R (download_file_task dn expected limit)" "obeys R (announced_download dn v dir nav)"
  by (auto simp: obeys_def download_start_task_def download_file_task_def announced_download_def give_def stays
      intro: obeysD [OF obeys_wait] split: prod.splits option.splits)

lemma obeys_wait_task [obeying]: "obeys R (wait_task env b)"
proof (rule obeysI)
  fix cutoff and s s' :: "'z run_scheme" and r assume "wait_task env b cutoff s = (r, s')"
  then obtain out d where "wait_out out cutoff (s\<lparr> rs_deadline := d \<rparr>) = (r, s')"
    by (auto simp: wait_task_def split: prod.splits)
  from follows [OF budget obeysD [OF obeys_wait this]] show "R s s'" .
qed

lemma obeys_download_wait [obeying]: "obeys R (wait_for_download_with_deadline dn expected)"
  unfolding wait_for_download_with_deadline_def by (intro obeying)

end

subsection \<open>The tasks of the fetch\<close>

text \<open>What becomes of the result once its tab and its files are noted: nothing noted is taken back.\<close>

definition keeps_result :: "(fetch_result \<Rightarrow> fetch_result) \<Rightarrow> bool" where
  "keeps_result f \<longleftrightarrow> (\<forall>r. fr_tab_id (f r) = fr_tab_id r \<and> download_file (f r) = download_file r
     \<and> (\<forall>a. artifact_file a r \<noteq> None \<longrightarrow> artifact_file a (f r) \<noteq> None))"

lemma artifact_file_update [simp]:
  "artifact_file a (r\<lparr> content_type := x \<rparr>) = artifact_file a r"
  "artifact_file a (r\<lparr> status := y \<rparr>) = artifact_file a r"
  "artifact_file a (r\<lparr> final_url := z \<rparr>) = artifact_file a r"
  "artifact_file a (r\<lparr> fr_trace := t \<rparr>) = artifact_file a r"
  "artifact_file a (r\<lparr> warnings := ws \<rparr>) = artifact_file a r"
  "artifact_file a (r\<lparr> fr_readiness := rd \<rparr>) = artifact_file a r"
  "artifact_file a (r\<lparr> fr_next_action := n \<rparr>) = artifact_file a r"
  "artifact_file a (r\<lparr> fr_page_kind := k \<rparr>) = artifact_file a r"
  "artifact_file a (r\<lparr> fr_tab_id := i \<rparr>) = artifact_file a r"
  by (cases a; simp)+

lemma set_artifact_file_keeps [simp]:
  "artifact_file a r \<noteq> None \<Longrightarrow> artifact_file a (set_artifact_file c p r) \<noteq> None"
  "artifact_file a (set_artifact_file a p r) = Some p"
  "fr_tab_id (set_artifact_file c p r) = fr_tab_id r"
  "download_file (set_artifact_file c p r) = download_file r"
  by (cases a; cases c; simp)+

lemma keeps_results [simp]:
  "keeps_result (set_artifact_file a p)"
  "keeps_result (\<lambda>r. r\<lparr> content_type := x \<rparr>)" "keeps_result (\<lambda>r. r\<lparr> status := y \<rparr>)"
  "keeps_result (\<lambda>r. r\<lparr> final_url := z \<rparr>)" "keeps_result (\<lambda>r. r\<lparr> warnings := ws \<rparr>)"
  "keeps_result (\<lambda>r. r\<lparr> fr_trace := t \<rparr>)" "keeps_result (\<lambda>r. r\<lparr> fr_trace := g (fr_trace r) \<rparr>)"
  "keeps_result (\<lambda>r. r\<lparr> fr_next_action := n \<rparr>)" "keeps_result (\<lambda>r. blocked_readiness (set_page_kind k r))"
  by (auto simp: keeps_result_def blocked_readiness_def set_page_kind_def Let_def)

locale browser_relation = run_relation R
  for R :: "browser_run \<Rightarrow> browser_run \<Rightarrow> bool" +
  assumes net: "R s (s\<lparr> br_net := n \<rparr>)"
    and written: "R s (s\<lparr> br_files := fs \<rparr>)"
    and jarred: "R s (s\<lparr> br_jar := j \<rparr>)"
    and warned: "R s (s\<lparr> br_warnings := br_warnings s @ ws \<rparr>)"
    and resulted: "keeps_result f \<Longrightarrow> R s (s\<lparr> br_result := f (br_result s) \<rparr>)"
begin

lemma obeys_state [obeying]:
  "obeys R (push_warnings ws)" "obeys R (net_call env ops)" "keeps_result f \<Longrightarrow> obeys R (on_result f)"
  by (auto simp: push_warnings_def net_call_def on_result_def intro: obeys_change warned net resulted)

lemma obeys_file_wait [obeying]: "obeys R (file_wait env what r)"
  using obeysD [OF obeys_await_open] unfolding obeys_def file_wait_def by blast

lemma obeys_write_out: "obeys R (write_out env w)"
proof (rule obeysI)
  fix cutoff s r s' assume run: "write_out env w cutoff s = (r, s')"
  obtain r1 s1 where waited: "file_wait env WriteFile (fst (w (be_io env) (br_files s))) cutoff s = (r1, s1)" by (metis surj_pair)
  with run obtain fs where "s' = s1\<lparr> br_files := fs \<rparr>" by (auto simp: write_out_def split: option.splits)
  with follows [OF obeysD [OF obeys_file_wait waited] written] show "R s s'" by simp
qed

lemma obeys_writing [obeying]: "(\<And>r. obeys R (k r)) \<Longrightarrow> obeys R (writing env w k)"
  unfolding writing_def by (intro obeys_settle obeys_write_out)

lemma obeys_main_status [obeying]: "obeys R (main_status env ms frame)"
  unfolding main_status_def by (rule obeys_next [OF obeys_wait]) (auto simp: obeys_def net split: prod.splits)

lemma obeys_quiet [obeying]: "obeys R (quiet_write env a w)" "obeys R (write_or_warn env a w)"
  by (auto intro!: obeying split: sum.split simp: quiet_write_def write_or_warn_def)

lemma obeys_wanted [obeying]: "obeys R t \<Longrightarrow> obeys R (wanted b a t)"
  by (simp add: wanted_def obeys_give)

lemma obeys_capturing [obeying]: "obeys R t \<Longrightarrow> (\<And>v. obeys R (k v)) \<Longrightarrow> obeys R (capturing a t k)"
  by (auto intro!: obeying split: sum.split simp: capturing_def)

lemma obeys_frames [obeying]: "obeys R (write_frames_jsonl env paths streams)"
  by (induction streams rule: write_frames_jsonl.induct) (auto intro!: obeying split: sum.split simp: Let_def)

lemma obeys_capture_one [obeying]: "obeys R (capture_one env paths sid mode max_bytes r e)"
  by (auto intro!: obeying commands split: sum.split simp: capture_one_def keep_body_def Let_def page_command_def)

lemma obeys_bodies [obeying]: "obeys R (capture_bodies env paths sid mode max_bytes rs)"
  by (induction rs) (auto intro!: obeying split: option.split)

lemma obeys_artifact_steps:
  "t \<in> set (artifact_steps env paths b sid main injected) \<Longrightarrow> obeys R t"
  by (auto simp: artifact_steps_def html_step_def text_step_def content_step_def keep_content_def screenshot_step_def
      body_step_def link_body_def observation_step_def storage_step_def console_step_of_def stream_step_def bodies_step_def
      capture_network_bodies_def network_log_step_def finish_network_def sync_step_def sync_jar_def Let_def page_command_def
      intro!: obeying commands obeys_change jarred split: sum.split option.split)

lemma obeys_in_order [obeying]: "(\<forall>t \<in> set ts. obeys R t) \<Longrightarrow> obeys R (in_order ts)"
  by (induction ts) (auto intro!: obeying)

lemma obeys_page [obeying]:
  "obeys R (classify_page env snap)" "obeys R (report_main b main snap)" "obeys R (status_fallback env sid)"
  "obeys R (verify_takeover b snap)" "obeys R (conclude began)" "obeys R (conclude_browser began)"
  "obeys R (observe_main env b v wo nav)" "obeys R (look_at_page env v)" "obeys R (validate_capture env b v main snap)"
  "obeys R (download_logs env nv)"
  by (auto intro!: obeying split: option.split sum.split
      simp: classify_page_def report_main_def status_fallback_def verify_takeover_def conclude_def conclude_browser_def
        observe_main_def look_at_page_def validate_capture_def download_logs_def Let_def)

end

end
