(* ===== verification/TabFacts.thy ===== *)
theory TabFacts
  imports RunRelations
begin

text \<open>
  The laws of the browser path: what becomes of its tab, whichever way the fetch ends, which tabs it leaves alone,
  how long it takes, and what is said of every artifact that was asked for.
\<close>

subsection \<open>Promptness\<close>

lemma same_budget_condition:
  assumes "wait_for_condition now w timeout idle stable_for ww xw d = (r, t, d')" shows "same_budget d d'"
proof -
  have "remaining now' n d = (x, e) \<Longrightarrow> same_budget d e" for now' n x e by (rule same_budget_remaining)
  with assms show ?thesis
    by (cases w) (auto simp: wait_for_condition_def wait_for_readiness_def Let_def split: prod.splits sum.splits)
qed

lemma prompt_wait_task [prompts]: "prompt (wait_task env b)"
proof (rule promptI)
  fix cutoff and s s' :: "_ run_scheme" and r assume run: "wait_task env b cutoff s = (r, s')"
  obtain out t d where w: "wait_for_condition (rs_now s) (b_wait b) (b_timeout b) (idle_ms (b_readiness b)) (stable_ms (b_readiness b))
      (be_wait env) (be_explicit env) (rs_deadline s) = (out, t, d)" by (metis surj_pair)
  have "same_budget (rs_deadline s) d" by (rule same_budget_condition [OF w])
  moreover have "wait_out (out, t - rs_now s) cutoff (s\<lparr> rs_deadline := d \<rparr>) = (r, s')" using run w by (simp add: wait_task_def)
  from promptD [OF prompt_wait this] have "moves (s\<lparr> rs_deadline := d \<rparr>) s'" "rs_now s' \<le> max (rs_now s) cutoff"
    "r = None \<longrightarrow> cutoff \<le> rs_now s'" by simp_all
  ultimately show "moves s s' \<and> rs_now s' \<le> max (rs_now s) cutoff \<and> (r = None \<longrightarrow> cutoff \<le> rs_now s')" by (auto simp: moves_def intro: same_budget_trans)
qed


lemma prompt_host [prompts]:
  "prompt (start_inline_host he b)" "prompt (create_tab env)" "prompt (attach_tab env t)" "prompt (open_tab env b)"
  "prompt (first_location env sid)" "prompt (enable_domains env sid browser_domains)"
  by (auto intro!: prompts split: option.split sum.split
      simp: start_inline_host_def inline_host_started_def create_tab_def attach_tab_def open_tab_def first_location_def browser_domains_def)

lemma prompt_guarded [prompts]: "prompt step \<Longrightarrow> (\<And>v. prompt (k v)) \<Longrightarrow> prompt (guarded env b v f step k)"
  by (auto intro!: prompts split: sum.split simp: guarded_def or_finish_def)

lemma prompt_wanted [prompts]: "prompt t \<Longrightarrow> prompt (wanted b a t)"
  by (simp add: wanted_def prompt_give)

lemma prompt_capturing [prompts]: "prompt t \<Longrightarrow> (\<And>v. prompt (k v)) \<Longrightarrow> prompt (capturing a t k)"
  by (auto intro!: prompts split: sum.split simp: capturing_def)

lemma prompt_store [prompts]: "prompt (write_or_warn env a w)"
  by (auto intro!: prompts split: sum.split simp: write_or_warn_def)

lemma prompt_artifact_steps:
  "t \<in> set (artifact_steps env paths b sid main injected) \<Longrightarrow> prompt t"
  by (auto simp: artifact_steps_def html_step_def text_step_def content_step_def keep_content_def screenshot_step_def
      body_step_def link_body_def observation_step_def storage_step_def console_step_of_def stream_step_def bodies_step_def
      network_log_step_def finish_network_def sync_step_def sync_jar_def Let_def moves_def
      intro!: prompts split: sum.split option.split)

lemma prompt_in_order [prompts]: "(\<forall>t \<in> set ts. prompt t) \<Longrightarrow> prompt (in_order ts)"
  by (induction ts) (auto intro!: prompts)

lemma prompt_artifacts [prompts]: "prompt (in_order (artifact_steps env paths b sid main injected))"
  using prompt_artifact_steps by (intro prompts) blast

lemma prompt_page [prompts]:
  "prompt (classify_page env snap)" "prompt (report_main b main snap)" "prompt (status_fallback env sid)"
  "prompt (verify_takeover b snap)" "prompt (conclude_browser began)" "prompt (end_tab env t sid close)"
  "prompt (observe_main env b v wo nav)" "prompt (look_at_page env v)" "prompt (validate_capture env b v main snap)"
  "prompt (begin_result bc b v wo)" "prompt (announced_download dn v dir reply)"
  by (auto intro!: prompts split: option.split sum.split
      simp: classify_page_def report_main_def status_fallback_def verify_takeover_def conclude_browser_def end_tab_def keep_tab_def
        observe_main_def look_at_page_def validate_capture_def begin_result_def announced_download_def Let_def moves_def)

lemma prompt_capture_page [prompts]: "prompt (capture_page env bc b v injected wo nav)"
  unfolding capture_page_def finish_page_def by (intro prompts)

lemma prompt_after_navigate [prompts]: "prompt (after_navigate env dn bc b po v dir injected nav)"
  by (auto intro!: prompts split: option.split simp: after_navigate_def wait_for_page_def)

lemma prompt_visit_tab [prompts]: "prompt (visit_tab env dn bc b po injected tab)"
  by (auto intro!: prompts split: prod.split simp: visit_tab_def Let_def moves_def)

subsection \<open>Tasks that cannot fail\<close>

text \<open>They may be cut off by the outer timer, but never end with an error.\<close>

definition never_fails :: "('a, 'z) task \<Rightarrow> bool" where
  "never_fails t \<longleftrightarrow> (\<forall>cutoff s e s'. t cutoff s \<noteq> (Some (Inl e), s'))"

named_theorems safe

lemma never_fails_give [safe]: "never_fails (give (Inr v))"
  by (simp add: never_fails_def give_def)

lemma never_fails_settle [safe]: "(\<And>r. never_fails (k r)) \<Longrightarrow> never_fails (settle_with t k)"
  by (auto simp: never_fails_def settle_with_def split: option.splits prod.splits)

lemma never_fails_next [safe]:
  assumes "never_fails t" and "\<And>v. never_fails (k v)" shows "never_fails (and_next t k)"
  using assms unfolding never_fails_def and_next_def settle_with_def
  by (auto split: option.splits prod.splits sum.splits)

lemma never_fails_simple [safe]:
  "never_fails (change f)" "never_fails (on_deadline g)" "never_fails (push_warnings ws)" "never_fails (on_result h)"
  "never_fails (net_call env ops)" "never_fails take_snapshot" "never_fails finish_trace" "never_fails (retain_tab t)"
  by (auto simp: never_fails_def change_def on_deadline_def push_warnings_def on_result_def net_call_def take_snapshot_def
      finish_trace_def retain_tab_def split: prod.splits)

lemma never_fails_reading [safe]: "(\<And>v. never_fails (k v)) \<Longrightarrow> never_fails (reading g k)"
  by (simp add: never_fails_def reading_def)

lemma never_fails_writing [safe]: "(\<And>r. never_fails (k r)) \<Longrightarrow> never_fails (writing env w k)"
  unfolding writing_def by (rule never_fails_settle)

lemma never_fails_wait [safe]: "never_fails (wait_out (Inr v, d))"
  by (simp add: never_fails_def wait_out_def)

lemma never_fails_open_wait [safe]: "never_fails (await_open what (Inr v, d))"
  by (simp add: never_fails_def await_open_def wait_out_def)

lemma never_fails_main [safe]: "never_fails (main_status env ms frame)"
  unfolding main_status_def by (rule never_fails_next [OF never_fails_wait]) (auto simp: never_fails_def split: prod.splits)

lemma never_fails_timed [safe]: "never_fails (announced_download dn v dir reply)"
  by (auto simp: never_fails_def announced_download_def give_def download_start_task_def wait_out_def split: option.splits prod.splits)

lemma never_fails_store [safe]: "never_fails (quiet_write env a w)" "never_fails (write_or_warn env a w)"
  by (auto intro!: safe split: sum.split simp: quiet_write_def write_or_warn_def)

lemma never_fails_capturing [safe]: "(\<And>v. never_fails (k v)) \<Longrightarrow> never_fails (capturing a t k)"
  by (auto intro!: safe split: sum.split simp: capturing_def)

lemma never_fails_wanted [safe]: "never_fails t \<Longrightarrow> never_fails (wanted b a t)"
  by (simp add: wanted_def never_fails_give)

lemma never_fails_frames [safe]: "never_fails (write_frames_jsonl env paths streams)"
  by (induction streams rule: write_frames_jsonl.induct) (auto intro!: safe split: sum.split simp: Let_def)

lemma artifact_steps_never_fail:
  "t \<in> set (artifact_steps env paths b sid main injected) \<Longrightarrow> never_fails t"
  by (auto simp: artifact_steps_def html_step_def text_step_def content_step_def keep_content_def screenshot_step_def
      body_step_def link_body_def observation_step_def storage_step_def console_step_of_def stream_step_def bodies_step_def
      network_log_step_def finish_network_def sync_step_def Let_def
      intro!: safe split: sum.split option.split)

lemma never_fails_in_order: "(\<forall>t \<in> set ts. never_fails t) \<Longrightarrow> never_fails (in_order ts)"
  by (induction ts) (auto intro!: safe)

lemma never_fails_artifacts [safe]: "never_fails (in_order (artifact_steps env paths b sid main injected))"
  using artifact_steps_never_fail by (intro never_fails_in_order) blast

lemma never_fails_page [safe]:
  "never_fails (classify_page env snap)" "never_fails (report_main b main snap)" "never_fails (status_fallback env sid)"
  "never_fails (verify_takeover b snap)" "never_fails (finish_target env t sid close)" "never_fails (end_tab env t sid close)"
  "never_fails (conclude began)" "never_fails (conclude_browser began)"
  "never_fails (observe_main env b v wo nav)" "never_fails (look_at_page env v)" "never_fails (begin_result bc b v wo)"
  "never_fails (root_frame_id env sid)" "never_fails (first_location env sid)" "never_fails (configure_download_capture env dn)"
  "never_fails (download_logs env nv)" "never_fails (download_cleanup env nv)" "never_fails (list_downloads dn dir)"
  by (auto intro!: safe split: option.split sum.split
      simp: classify_page_def report_main_def status_fallback_def navigation_status_from_performance_def verify_takeover_def
        finish_target_def end_tab_def keep_tab_def conclude_def conclude_browser_def observe_main_def look_at_page_def begin_result_def
        root_frame_id_def first_location_def configure_download_capture_def download_logs_def download_cleanup_def list_downloads_def Let_def)

subsection \<open>Tabs that are not the fetch's own\<close>

text \<open>Only commands about pages are sent.\<close>

definition sends_page :: "'z run_scheme \<Rightarrow> 'z run_scheme \<Rightarrow> bool" where
  "sends_page s s' \<longleftrightarrow> (\<exists>more. rs_sent s' = more @ rs_sent s \<and> list_all page_command more)"

lemma sends_page_laws:
  "sends_page s s" "sends_page a b \<Longrightarrow> sends_page b c \<Longrightarrow> sends_page a c"
  "rs_sent s' = rs_sent s \<Longrightarrow> sends_page s s'"
  "page_command cmd \<Longrightarrow> sends_page s (s\<lparr> rs_sent := cmd # rs_sent s \<rparr>)"
proof -
  show "sends_page a b \<Longrightarrow> sends_page b c \<Longrightarrow> sends_page a c"
    unfolding sends_page_def by (metis append.assoc list_all_append)
  show "page_command cmd \<Longrightarrow> sends_page s (s\<lparr> rs_sent := cmd # rs_sent s \<rparr>)"
    unfolding sends_page_def by (intro exI [of _ "[cmd]"]) simp
qed (simp_all add: sends_page_def)

interpretation pages: browser_relation sends_page
  by unfold_locales (auto intro: sends_page_laws)

lemma pages_or_finish:
  assumes "obeys sends_page step" and "\<And>x. obeys sends_page (k x)" and "\<not> may_close_tab b v"
  shows "obeys sends_page (guarded env b v f step k)"
  using assms unfolding guarded_def or_finish_def fail_after_def finish_failed_target_def
  by (auto intro!: obeying split: sum.split)

lemma pages_download:
  assumes "\<not> nv_created nv" shows "obeys sends_page (finish_download_navigation env dn nv)"
  using assms
  by (auto intro!: obeying pages.obeys_change sends_page_laws(3) split: option.split sum.split
      simp: finish_download_navigation_def fail_after_def finish_failed_target_def may_close_def download_cleanup_def on_result_def)

lemma pages_capture:
  assumes "\<not> vs_created v" "\<not> b_keep_tab_open b"
  shows "obeys sends_page (capture_page env bc b v injected wo nav)"
proof -
  have shut: "\<not> may_close_tab b v" using assms by (simp add: may_close_tab_def)
  have ends: "obeys sends_page (end_tab env t sid (close_after_success (vs_created v) (b_keep_tab_open b) verified))" for t sid verified
    using assms by (auto intro!: obeying simp: close_after_success_def end_tab_def)
  show ?thesis
    unfolding capture_page_def finish_page_def begin_result_def on_result_def
    by (intro obeying pages_or_finish pages.obeys_change sends_page_laws(3) ends shut ballI pages.obeys_artifact_steps) simp_all
qed

lemma pages_visit:
  assumes "\<not> b_keep_tab_open b"
  shows "obeys sends_page (visit_tab env dn bc b po injected (t, sid, False))"
proof -
  have shut: "\<not> may_close_tab b v" if "\<not> vs_created v" for v using that by (simp add: may_close_tab_def)
  have waits: "obeys sends_page (wait_for_page env bc b po v injected)" if "\<not> vs_created v" for v
    unfolding wait_for_page_def using that shut [OF that] assms
    by (auto intro!: obeying pages_or_finish pages_capture)
  have after: "obeys sends_page (after_navigate env dn bc b po v dir injected reply)" if "\<not> vs_created v" for v dir reply
    unfolding after_navigate_def fail_after_def finish_failed_target_def using that shut [OF that]
    by (auto intro!: obeying pages_download waits split: option.split simp: download_of_def)
  show ?thesis
    by (auto intro!: obeying pages_or_finish pages.obeys_change sends_page_laws(3) after split: prod.split
        simp: visit_tab_def Let_def may_close_tab_def)
qed

lemma start_inline_host_keeps:
  assumes "start_inline_host he b cutoff s = (Some (Inr b'), s')"
  shows "b_tab b' = b_tab b \<and> b_keep_tab_open b' = b_keep_tab_open b \<and> b_want b' = b_want b \<and> b_readiness b' = b_readiness b"
proof -
  have kept: "resolve_cookie_jar_path cwd md st pr b = Inr b2 \<Longrightarrow>
      b_tab b2 = b_tab b \<and> b_keep_tab_open b2 = b_keep_tab_open b \<and> b_want b2 = b_want b \<and> b_readiness b2 = b_readiness b" for cwd md st pr b2
    by (auto simp: resolve_cookie_jar_path_def set_jar_def Let_def split: if_splits option.splits sum.splits)
  have staged: "stage n c (wait_out (out, x)) cutoff s0 = (Some (Inr v), s1) \<Longrightarrow> out = Inr v" for n c out x s0 v s1
    by (erule stage_cases) (auto simp: wait_out_def split: if_splits)
  show ?thesis using assms
    by (auto simp: start_inline_host_def inline_host_started_def await_open_def wait_out_def and_next_def settle_with_def give_def on_deadline_def change_def
        split: if_splits option.splits prod.splits sum.splits dest!: staged dest: kept)
qed

lemma given_tab_is_attached:
  assumes "open_tab env b cutoff s = (Some (Inr tab), s')" and "b_tab b = Some t"
  shows "\<exists>sid. tab = (t, sid, False)"
  using assms by (auto simp: open_tab_def and_next_def settle_with_def give_def split: option.splits prod.splits sum.splits)

lemma default_want_keeps [simp]:
  "b_tab (with_default_want b) = b_tab b" "b_keep_tab_open (with_default_want b) = b_keep_tab_open b"
  by (simp_all add: with_default_want_def)

text \<open>
  C7. A fetch into a tab the caller names, without takeover, leaves the set of tabs alone. Whatever happens, a
  failed navigation, a download, a timeout in any stage, an outer timer that cuts it off anywhere, it sends no
  command that closes a target and none that creates one, not even the anchor page of a cleanup.
\<close>

theorem existing_tab_survives:
  assumes "b_tab b = Some t" and "\<not> b_keep_tab_open b"
    and "browser_path env he dn bc b po cutoff s = (r, s')"
  shows "\<exists>more. rs_sent s' = more @ rs_sent s
    \<and> (\<forall>(sid, m, p) \<in> set more. m \<noteq> ''Target.closeTarget'' \<and> m \<noteq> ''Target.createTarget'')"
proof -
  have visits: "obeys sends_page (and_next (open_tab env b') (\<lambda>tab. visit_tab env dn bc b' po' injected tab))"
    if "b_tab b' = Some t" "\<not> b_keep_tab_open b'" for b' po' injected
  proof (rule pages.obeys_next_where)
    show "obeys (sends_page :: browser_run \<Rightarrow> _) (open_tab env b')" using that by (auto intro!: obeying simp: open_tab_def)
    fix cutoff s tab s' assume "open_tab env b' cutoff s = (Some (Inr tab), s')"
    from given_tab_is_attached [OF this that(1)] pages_visit [OF that(2)]
    show "obeys sends_page (visit_tab env dn bc b' po' injected tab)" by blast
  qed
  have "obeys sends_page (browser_path env he dn bc b po)"
    unfolding browser_path_def Let_def
  proof (rule pages.obeys_next [OF pages.obeys_on_deadline], rule pages.obeys_next_where)
    show "obeys (sends_page :: browser_run \<Rightarrow> _) (start_inline_host he (with_default_want b))" by (intro obeying)
    fix cutoff' s0 b' s1
    assume "start_inline_host he (with_default_want b) cutoff' s0 = (Some (Inr b'), s1)"
    from start_inline_host_keeps [OF this] assms(1,2)
    show "obeys sends_page (and_next (stage ''prepare_request'' NavigationTimeout (await_open MakeDir (ensure_dir (fst (he_mkdir he)), snd (he_mkdir he)))) (\<lambda>_.
        if \<not> endpoint_is_remote (cl_endpoint (b_client b'))
        then give (fail RenderUnavailable ''browser fetch requires --endpoint-url pointing at an afhttp host'')
        else case inject_jar env b' po of (po, injected) \<Rightarrow>
          and_next (stage ''connect_cdp'' NavigationTimeout (wait_out (he_connect he)))
            (\<lambda>_. and_next (open_tab env b') (\<lambda>tab. visit_tab env dn bc b' po injected tab))))"
      by (auto intro!: obeying visits split: prod.split)
  qed
  from obeysD [OF this assms(3)] show ?thesis by (fastforce simp: sends_page_def list_all_iff page_command_def)
qed

subsection \<open>What becomes of the tab\<close>

text \<open>The browser confirmed that it closed the tab.\<close>

definition tab_closed :: "cdp_peer \<Rightarrow> string \<Rightarrow> command list \<Rightarrow> bool" where
  "tab_closed peer t h \<longleftrightarrow>
     (\<exists>later earlier reply. h = later @ close_command t # earlier
        \<and> fst (peer (close_command t # earlier)) = Inr reply \<and> json_bool (json_idx reply ''success'') = Some True)"

definition tab_reported :: "string \<Rightarrow> 'z run_scheme \<Rightarrow> bool" where
  "tab_reported t s \<longleftrightarrow> retained_tab_id (dl_trace (rs_deadline s)) = Some t"

text \<open>A result that says what became of the tab.\<close>

fun accounts_for :: "cdp_peer \<Rightarrow> string \<Rightarrow> fetch_result result \<Rightarrow> browser_run \<Rightarrow> bool" where
  "accounts_for peer t (Inl e) s = (tab_closed peer t (rs_sent s) \<or> tab_reported t s)"
| "accounts_for peer t (Inr res) s = (fr_tab_id res = Some t \<or> fr_tab_id res = None \<and> tab_closed peer t (rs_sent s))"

lemma tab_closed_later: "tab_closed peer t h \<Longrightarrow> tab_closed peer t (sent @ h)"
  unfolding tab_closed_def by (metis append.assoc)

lemma tab_closed_moves: "tab_closed peer t (rs_sent s) \<Longrightarrow> moves s s' \<Longrightarrow> tab_closed peer t (rs_sent s')"
  unfolding moves_def using tab_closed_later by metis

lemma poison_moves: "moves s s' \<Longrightarrow> dl_poisoned (rs_deadline s') = dl_poisoned (rs_deadline s)"
  by (simp add: moves_def same_budget_def)

lemma closing_confirms:
  assumes "closing peer t limit cutoff s = (Some out, s')" and "\<not> isl out"
  shows "tab_closed peer t (rs_sent s')"
proof -
  obtain r used h where run: "close_target_preserving_browser peer t limit (rs_sent s) = (r, used, h)" by (metis surj_pair)
  with assms(1) have "r = out" and sent: "rs_sent s' = h" by (auto simp: closing_def split: if_splits)
  moreover have "out = Inr ()" using assms(2) by (cases out) auto
  ultimately have "r = Inr ()" by simp
  from this cleanup_shape [OF run] have "(\<exists>earlier. h = [] @ close_command t # earlier)"
    "\<exists>reply. fst (peer h) = Inr reply \<and> json_bool (json_idx reply ''success'') = Some True" by auto
  then show ?thesis unfolding tab_closed_def using sent by (metis append_Nil)
qed

lemma finish_target_confirms:
  "finish_target env t sid close cutoff s = (Some (Inr True), s') \<Longrightarrow> tab_closed (be_peer env) t (rs_sent s')"
  by (auto simp: finish_target_def settle_with_def give_def split: if_splits option.splits prod.splits sum.splits
      dest!: closing_confirms)

lemma fail_after_accounts:
  assumes "fail_after env t sid close e cutoff s = (Some r, s')" and "\<not> dl_poisoned (rs_deadline s)"
  shows "r = Inl e \<and> (tab_closed (be_peer env) t (rs_sent s') \<or> tab_reported t s')"
proof -
  obtain r1 s1 where fin: "finish_target env t sid close cutoff s = (r1, s1)" by (metis surj_pair)
  have sound: "\<not> dl_poisoned (rs_deadline s1)"
    using poison_moves [OF promptD(1) [OF prompt_finish_target fin]] assms(2) by simp
  have "r1 \<noteq> Some (Inl e')" for e' using fin never_fails_page(5) unfolding never_fails_def by metis
  with assms(1) fin obtain closed where closed: "r1 = Some (Inr closed)"
    by (auto simp: fail_after_def finish_failed_target_def and_next_def settle_with_def split: option.splits sum.splits)
  show ?thesis
  proof (cases closed)
    case True
    with assms(1) fin closed finish_target_confirms [of env t sid close cutoff s s1] show ?thesis
      by (auto simp: fail_after_def finish_failed_target_def and_next_def settle_with_def give_def)
  next
    case False
    with assms(1) fin closed sound show ?thesis
      by (auto simp: fail_after_def finish_failed_target_def and_next_def settle_with_def give_def retain_tab_def
          on_deadline_def change_def update_trace_def tab_reported_def)
  qed
qed

text \<open>What is noted in the result stays noted.\<close>

definition keeps :: "browser_run \<Rightarrow> browser_run \<Rightarrow> bool" where
  "keeps s s' \<longleftrightarrow> fr_tab_id (br_result s') = fr_tab_id (br_result s)
     \<and> download_file (br_result s') = download_file (br_result s)
     \<and> (\<forall>a. artifact_file a (br_result s) \<noteq> None \<longrightarrow> artifact_file a (br_result s') \<noteq> None)
     \<and> set (br_warnings s) \<subseteq> set (br_warnings s')"

interpretation kept: browser_relation keeps
proof unfold_locales
  fix a b c assume "keeps a b" "keeps b c"
  then show "keeps a c" unfolding keeps_def by (metis subset_trans)
qed (auto simp: keeps_def keeps_result_def)

definition noted :: "string \<Rightarrow> browser_run \<Rightarrow> bool" where
  "noted t s \<longleftrightarrow> fr_tab_id (br_result s) = Some t"

lemma noted_keeps: "noted t s \<Longrightarrow> keeps s s' \<Longrightarrow> noted t s'"
  by (simp add: noted_def keeps_def)

lemma noted_run: "noted t s \<Longrightarrow> obeys keeps a \<Longrightarrow> a cutoff s = (r, s') \<Longrightarrow> noted t s'"
  by (rule noted_keeps [OF _ obeysD])

definition accounts :: "(browser_run \<Rightarrow> bool) \<Rightarrow> cdp_peer \<Rightarrow> string \<Rightarrow> fetch_result btask \<Rightarrow> bool" where
  "accounts Q peer t k \<longleftrightarrow> (\<forall>cutoff s r s'. Q s \<longrightarrow> \<not> dl_poisoned (rs_deadline s) \<longrightarrow> k cutoff s = (Some r, s') \<longrightarrow> accounts_for peer t r s')"

lemma accountsI:
  "(\<And>cutoff s r s'. Q s \<Longrightarrow> \<not> dl_poisoned (rs_deadline s) \<Longrightarrow> k cutoff s = (Some r, s') \<Longrightarrow> accounts_for peer t r s') \<Longrightarrow> accounts Q peer t k"
  by (simp add: accounts_def)

lemma accountsD:
  "accounts Q peer t k \<Longrightarrow> Q s \<Longrightarrow> \<not> dl_poisoned (rs_deadline s) \<Longrightarrow> k cutoff s = (Some r, s') \<Longrightarrow> accounts_for peer t r s'"
  unfolding accounts_def by blast

lemma accounts_fail: "accounts Q (be_peer env) t (fail_after env t sid close e)"
  by (rule accountsI) (auto dest: fail_after_accounts)

lemma accounts_next:
  assumes a: "never_fails a" "prompt a" and Q: "\<And>cutoff s r s'. Q s \<Longrightarrow> a cutoff s = (r, s') \<Longrightarrow> Q' s'"
    and k: "\<And>v. accounts Q' peer t (k v)"
  shows "accounts Q peer t (and_next a k)"
proof (rule accountsI)
  fix cutoff s r s' assume pre: "Q s" "\<not> dl_poisoned (rs_deadline s)" and run: "and_next a k cutoff s = (Some r, s')"
  obtain r1 s1 where first: "a cutoff s = (r1, s1)" by (metis surj_pair)
  with run a(1) obtain v where v: "r1 = Some (Inr v)"
    unfolding never_fails_def and_next_def settle_with_def by (auto split: option.splits sum.splits)
  with run first have "k v cutoff s1 = (Some r, s')" by (simp add: and_next_def settle_with_def)
  from accountsD [OF k Q [OF pre(1) first] _ this] poison_moves [OF promptD(1) [OF a(2) first]] pre(2)
  show "accounts_for peer t r s'" by simp
qed

lemma accounts_settle:
  assumes a: "prompt a" and k: "\<And>x. accounts (\<lambda>_. True) peer t (k x)"
  shows "accounts (\<lambda>_. True) peer t (settle_with a k)"
proof (rule accountsI)
  fix cutoff s r s' assume sound: "\<not> dl_poisoned (rs_deadline s)" and run: "settle_with a k cutoff s = (Some r, s')"
  obtain r1 s1 where first: "a cutoff s = (r1, s1)" by (metis surj_pair)
  with run obtain x where "k x cutoff s1 = (Some r, s')" by (auto simp: settle_with_def split: option.splits)
  from accountsD [OF k TrueI _ this] poison_moves [OF promptD(1) [OF a first]] sound
  show "accounts_for peer t r s'" by simp
qed

lemmas accounts_any = accounts_next [where Q = "\<lambda>_. True" and Q' = "\<lambda>_. True", OF _ _ TrueI]

lemma accounts_noted:
  "never_fails a \<Longrightarrow> prompt a \<Longrightarrow> obeys keeps a \<Longrightarrow> (\<And>v. accounts (noted t) peer t (k v)) \<Longrightarrow> accounts (noted t) peer t (and_next a k)"
  by (rule accounts_next [where Q' = "noted t"]) (auto intro: noted_keeps dest: obeysD)

lemma accounts_reading: "(\<And>v. accounts Q peer t (k v)) \<Longrightarrow> accounts Q peer t (reading g k)"
  unfolding accounts_def reading_def by blast

lemma accounts_guarded:
  assumes a: "prompt a" and Q: "\<And>cutoff s r s'. Q s \<Longrightarrow> a cutoff s = (r, s') \<Longrightarrow> Q s'"
    and k: "\<And>x. accounts Q (be_peer env) (vs_target v) (k x)"
  shows "accounts Q (be_peer env) (vs_target v) (guarded env b v f a k)"
proof (rule accountsI)
  fix cutoff s r s' assume pre: "Q s" "\<not> dl_poisoned (rs_deadline s)" and run: "guarded env b v f a k cutoff s = (Some r, s')"
  obtain r1 s1 where first: "a cutoff s = (r1, s1)" by (metis surj_pair)
  have sound: "\<not> dl_poisoned (rs_deadline s1)" using poison_moves [OF promptD(1) [OF a first]] pre(2) by simp
  note Q1 = Q [OF pre(1) first]
  from run first consider e where "fail_after env (vs_target v) (vs_session v) (may_close_tab b v) (f e) cutoff s1 = (Some r, s')"
    | x where "k x cutoff s1 = (Some r, s')"
    by (auto simp: guarded_def or_finish_def settle_with_def split: option.splits sum.splits)
  then show "accounts_for (be_peer env) (vs_target v) r s'"
  proof cases
    case 1 from fail_after_accounts [OF this sound] show ?thesis by auto
  next
    case 2 from accountsD [OF k Q1 sound this] show ?thesis .
  qed
qed

lemma finish_target_keeps: "obeys keeps (finish_target env t sid close)"
proof (cases close)
  case False then show ?thesis using kept.obeys_host(7) by simp
next
  case True
  have "obeys keeps (closing (be_peer env) t target_cleanup_timeout)"
    by (auto simp: obeys_def closing_def keeps_def split: prod.splits if_splits)
  with True show ?thesis by (auto intro!: obeying simp: finish_target_def)
qed

lemma next_value:
  assumes "and_next a k cutoff s = (Some (Inr u), s')"
  obtains v s1 where "a cutoff s = (Some (Inr v), s1)" "k v cutoff s1 = (Some (Inr u), s')"
  using assms by (auto simp: and_next_def settle_with_def give_def split: option.splits prod.splits sum.splits)

lemma and_next_assoc: "and_next (and_next t k) l = and_next t (\<lambda>v. and_next (k v) l)"
  by (rule ext, rule ext) (auto simp: and_next_def settle_with_def give_def split: option.split prod.split sum.split)

lemma keep_tab_keeps: "obeys keeps (keep_tab env t sid)"
  unfolding keep_tab_def by (intro obeying)

lemma end_tab_accounts:
  assumes noted: "noted t s" and run: "end_tab env t sid close cutoff s = (Some (Inr u), s')"
  shows "noted t s' \<or> fr_tab_id (br_result s') = None \<and> tab_closed (be_peer env) t (rs_sent s')"
proof (cases close)
  case False
  have "obeys keeps (end_tab env t sid False)" by (auto intro!: obeying simp: end_tab_def)
  from noted_run [OF noted this] run False show ?thesis by auto
next
  case True
  with run have "and_next (finish_target env t sid True)
      (\<lambda>closed. if closed then on_result (\<lambda>r. r\<lparr> fr_tab_id := None \<rparr>) else keep_tab env t sid) cutoff s = (Some (Inr u), s')"
    by (simp add: end_tab_def)
  then obtain closed s1 where fin: "finish_target env t sid True cutoff s = (Some (Inr closed), s1)"
    and rest: "(if closed then on_result (\<lambda>r. r\<lparr> fr_tab_id := None \<rparr>) else keep_tab env t sid) cutoff s1 = (Some (Inr u), s')"
    by (rule next_value)
  show ?thesis
  proof (cases closed)
    case True
    with fin finish_target_confirms rest show ?thesis by (auto simp: on_result_def change_def)
  next
    case False
    with rest have "keep_tab env t sid cutoff s1 = (Some (Inr u), s')" by simp
    from noted_run [OF noted_run [OF noted finish_target_keeps fin] keep_tab_keeps this]
    show ?thesis ..
  qed
qed

lemma conclude_returns:
  assumes "conclude began cutoff s = (Some r, s')"
  shows "r = Inr (br_result s')"
  using assms by (auto simp: conclude_def and_next_def settle_with_def reading_def on_deadline_def change_def
      finish_trace_def on_result_def give_def split: prod.splits)

lemma conclude_browser_returns:
  assumes "conclude_browser began cutoff s = (Some r, s')"
  shows "r = Inr (br_result s')"
  using assms conclude_returns
  by (auto simp: conclude_browser_def and_next_def settle_with_def reading_def change_def on_result_def)

lemma accounts_end:
  "accounts (noted t) (be_peer env) t (and_next (end_tab env t sid close) (\<lambda>_. conclude_browser began))"
proof (rule accountsI)
  fix cutoff s r s' assume noted: "noted t s" and run: "and_next (end_tab env t sid close) (\<lambda>_. conclude_browser began) cutoff s = (Some r, s')"
  obtain r1 s1 where fin: "end_tab env t sid close cutoff s = (r1, s1)" by (metis surj_pair)
  have "r1 \<noteq> Some (Inl e)" for e using fin never_fails_page(6) unfolding never_fails_def by metis
  with run fin have ended: "r1 = Some (Inr ())" and rest: "conclude_browser began cutoff s1 = (Some r, s')"
    by (auto simp: and_next_def settle_with_def split: option.splits sum.splits)
  have "keeps s1 s'" by (rule obeysD [OF kept.obeys_page(6) rest])
  moreover have "moves s1 s'" by (rule promptD(1) [OF prompt_page(5) rest])
  ultimately show "accounts_for (be_peer env) t r s'"
    using end_tab_accounts [OF noted fin [unfolded ended]] conclude_browser_returns [OF rest] tab_closed_moves
    by (auto simp: noted_def keeps_def)
qed

lemma accounts_finish_page:
  "accounts (noted (vs_target v)) (be_peer env) (vs_target v) (finish_page env bc b v injected main snap)"
  unfolding finish_page_def
  by (intro accounts_noted safe prompts obeying accounts_end ballI kept.obeys_artifact_steps)

lemma begin_result_notes:
  "begin_result bc b v wo cutoff s = (r, s') \<Longrightarrow> noted (vs_target v) s'"
  by (auto simp: begin_result_def and_next_def settle_with_def change_def take_snapshot_def on_result_def noted_def
      split: prod.splits)

lemma accounts_capture_page:
  "accounts (\<lambda>_. True) (be_peer env) (vs_target v) (capture_page env bc b v injected wo nav)"
  unfolding capture_page_def
  by (rule accounts_next [where Q' = "noted (vs_target v)"], intro safe, intro prompts, erule begin_result_notes)
     (auto intro!: accounts_noted safe prompts obeying accounts_guarded accounts_finish_page
       intro: noted_keeps dest: obeysD [OF kept.obeys_page(9)])

lemma accounts_wait_for_page:
  "accounts (\<lambda>_. True) (be_peer env) (vs_target v) (wait_for_page env bc b po v injected)"
  unfolding wait_for_page_def
  by (intro accounts_guarded accounts_any accounts_reading accounts_capture_page prompts safe TrueI)
     (auto intro!: prompts simp: moves_def)

lemma download_cleanup_accounts:
  assumes noted: "noted (nv_target nv) s" and run: "download_cleanup env nv cutoff s = (Some (Inr u), s')"
  shows "noted (nv_target nv) s' \<or> fr_tab_id (br_result s') = None \<and> tab_closed (be_peer env) (nv_target nv) (rs_sent s')"
proof -
  obtain closed s1 where fin: "finish_target env (nv_target nv) (nv_session nv) (nv_created nv) cutoff s = (Some (Inr closed), s1)"
    and rest: "(if closed then on_result (\<lambda>r. r\<lparr> fr_tab_id := None \<rparr>)
       else if nv_created nv
       then and_next (on_result (\<lambda>r. r\<lparr> warnings := warnings r @ [warn RenderedHtml CdpError ''completed download retained its tab because safe cleanup failed''] \<rparr>))
              (\<lambda>_. and_next (finish_target env (nv_target nv) (nv_session nv) False) (\<lambda>_. give (Inr ())))
       else give (Inr ())) cutoff s1 = (Some (Inr u), s')" (is "(if closed then _ else ?kept) cutoff s1 = _")
    using run unfolding download_cleanup_def by (rule next_value)
  show ?thesis
  proof (cases closed)
    case True
    with fin finish_target_confirms rest show ?thesis by (auto simp: on_result_def change_def)
  next
    case False
    have "obeys keeps ?kept" by (auto intro!: obeying simp: keeps_result_def)
    moreover have "?kept cutoff s1 = (Some (Inr u), s')" using rest False by simp
    ultimately show ?thesis
      using noted_run [OF noted_run [OF noted finish_target_keeps fin]] by blast
  qed
qed

lemma accounts_download_end:
  "accounts (noted (nv_target nv)) (be_peer env) (nv_target nv) (and_next (download_cleanup env nv) (\<lambda>_. conclude began))"
proof (rule accountsI)
  fix cutoff s r s' assume noted: "noted (nv_target nv) s" and run: "and_next (download_cleanup env nv) (\<lambda>_. conclude began) cutoff s = (Some r, s')"
  obtain r1 s1 where fin: "download_cleanup env nv cutoff s = (r1, s1)" by (metis surj_pair)
  have "r1 \<noteq> Some (Inl e)" for e using fin never_fails_page(16) unfolding never_fails_def by metis
  with run fin have ended: "r1 = Some (Inr ())" and rest: "conclude began cutoff s1 = (Some r, s')"
    by (auto simp: and_next_def settle_with_def split: option.splits sum.splits)
  have "keeps s1 s'" by (rule obeysD [OF kept.obeys_page(5) rest])
  moreover have "moves s1 s'" by (rule promptD(1) [OF prompt_conclude rest])
  ultimately show "accounts_for (be_peer env) (nv_target nv) r s'"
    using download_cleanup_accounts [OF noted fin [unfolded ended]] conclude_returns [OF rest] tab_closed_moves
    by (auto simp: noted_def keeps_def)
qed

lemma accounts_download:
  "accounts (\<lambda>_. True) (be_peer env) (nv_target nv) (finish_download_navigation env dn nv)"
proof -
  have tail: "accounts (\<lambda>_. True) (be_peer env) (nv_target nv)
      (and_next (on_result (\<lambda>_. download_result nv done_file main t)) (\<lambda>_.
       and_next (download_logs env nv) (\<lambda>_. and_next (download_cleanup env nv) (\<lambda>_. conclude (nv_began nv)))))" for done_file main t
    by (rule accounts_next [where Q' = "noted (nv_target nv)"])
       (auto intro!: accounts_noted accounts_download_end safe prompts obeying
         simp: on_result_def change_def noted_def download_result_def download_logs_def moves_def Let_def)
  show ?thesis
    unfolding finish_download_navigation_def
    by (auto intro!: accounts_fail accounts_settle accounts_any tail prompts safe split: option.split sum.split)
qed

lemma accounts_after_navigate:
  "accounts (\<lambda>_. True) (be_peer env) (vs_target v) (after_navigate env dn bc b po v dir injected reply)"
proof -
  have "accounts (\<lambda>_. True) (be_peer env) (vs_target v) (finish_download_navigation env dn (download_of bc b v dir ds now))" for ds now
    using accounts_download [of env "download_of bc b v dir ds now" dn] by (simp add: download_of_def)
  then show ?thesis
    unfolding after_navigate_def
    by (auto intro!: accounts_any accounts_reading accounts_fail accounts_wait_for_page safe prompts split: option.split)
qed

text \<open>The steps that succeed for their value or end the tab, for a tab given by its id.\<close>

lemma accounts_step:
  "t = vs_target v \<Longrightarrow> prompt a \<Longrightarrow> (\<And>x. accounts (\<lambda>_. True) (be_peer env) t (k x)) \<Longrightarrow>
     accounts (\<lambda>_. True) (be_peer env) t (guarded env b v f a k)"
  by (simp add: accounts_guarded)

lemma accounts_reply:
  "t = vs_target v \<Longrightarrow> accounts (\<lambda>_. True) (be_peer env) t (after_navigate env dn bc b po v dir injected reply)"
  by (simp add: accounts_after_navigate)

lemma accounts_visit:
  "accounts (\<lambda>_. True) (be_peer env) t (visit_tab env dn bc b po injected (t, sid, created))"
  unfolding visit_tab_def Let_def prod.case
  by (intro accounts_step accounts_any accounts_reading safe prompts)
     (auto intro!: prompts accounts_reply simp: moves_def split: prod.split)

text \<open>
  C8. No tab is lost, unless the timer around the whole call fires. Once a fetch is attached to its tab (and as long as
  its recorder works), it ends in one of three ways. An error leaves the tab either closed, with the browser's own
  confirmation, or named in the failure trace. A result names the tab, or names none because the browser confirmed that it
  was closed. Or there is no answer at all, and that only because the outer timer has fired: it drops the fetch
  wherever it is, in the cleanup, too, and of the tab nothing is said then. The first two cover failures in each
  stage, downloads, blocked pages, timeouts and cleanups that the browser refuses.
\<close>

theorem tab_is_accounted_for:
  assumes "visit_tab env dn bc b po injected (t, sid, created) cutoff s = (r, s')"
    and "\<not> dl_poisoned (rs_deadline s)"
  shows "case r of
      Some (Inl e) \<Rightarrow> tab_closed (be_peer env) t (rs_sent s') \<or> retained_tab_id (dl_trace (rs_deadline s')) = Some t
    | Some (Inr res) \<Rightarrow> fr_tab_id res = Some t \<or> fr_tab_id res = None \<and> tab_closed (be_peer env) t (rs_sent s')
    | None \<Rightarrow> cutoff \<le> rs_now s'"
proof (cases r)
  case None
  with promptD(3) [OF prompt_visit_tab assms(1)] show ?thesis by simp
next
  case (Some out)
  with accountsD [OF accounts_visit TrueI assms(2)] assms(1) have "accounts_for (be_peer env) t out s'" by blast
  with Some show ?thesis by (cases out) (auto simp: tab_reported_def)
qed

end
