(* ===== verification/ArtifactFacts.thy ===== *)
theory ArtifactFacts
  imports TabFacts
begin

text \<open>
  What a browser fetch says of the artifacts it was asked for: a file, or a warning that names the artifact.
\<close>

subsection \<open>Files and warnings stay\<close>

definition filed :: "browser_run \<Rightarrow> browser_run \<Rightarrow> bool" where
  "filed s s' \<longleftrightarrow> download_file (br_result s') = download_file (br_result s)
     \<and> (\<forall>a. artifact_file a (br_result s) \<noteq> None \<longrightarrow> artifact_file a (br_result s') \<noteq> None)
     \<and> set (br_warnings s) \<subseteq> set (br_warnings s')"

interpretation filed: browser_relation filed
proof unfold_locales
  fix a b c assume "filed a b" "filed b c"
  then show "filed a c" unfolding filed_def by (metis subset_trans)
qed (auto simp: filed_def keeps_result_def)

lemma keeps_filed: "obeys keeps t \<Longrightarrow> obeys filed t"
  unfolding obeys_def keeps_def filed_def by blast

lemma filed_tab_id: "obeys filed (on_result (\<lambda>r. r\<lparr> fr_tab_id := x \<rparr>))"
  by (auto simp: obeys_def on_result_def change_def filed_def)

lemma filed_end_tab: "obeys filed (end_tab env t sid close)"
  unfolding end_tab_def
  by (auto intro!: filed.obeys_next filed_tab_id keeps_filed [OF finish_target_keeps] keeps_filed [OF keep_tab_keeps] filed.obeys_give)

lemma filed_download_cleanup: "obeys filed (download_cleanup env nv)"
  unfolding download_cleanup_def
  by (auto intro!: filed.obeys_next filed_tab_id keeps_filed [OF finish_target_keeps] filed.obeys_give filed.obeys_state(3)
      simp: keeps_result_def)

subsection \<open>Every step explains its artifact\<close>

definition explained :: "artifact \<Rightarrow> browser_run \<Rightarrow> bool" where
  "explained a s \<longleftrightarrow> artifact_file a (br_result s) \<noteq> None \<or> (\<exists>w \<in> set (br_warnings s). w_artifact w = a)"

lemma explained_filed: "explained a s \<Longrightarrow> filed s s' \<Longrightarrow> explained a s'"
  unfolding explained_def filed_def by blast

definition explains :: "artifact \<Rightarrow> unit btask \<Rightarrow> bool" where
  "explains a t \<longleftrightarrow> (\<forall>cutoff s u s'. t cutoff s = (Some (Inr u), s') \<longrightarrow> explained a s')"

lemma explains_warning: "w_artifact w = a \<Longrightarrow> explains a (push_warnings [w])"
  by (auto simp: explains_def push_warnings_def change_def explained_def)

lemma explains_file: "explains a (on_result (set_artifact_file a p))"
  by (auto simp: explains_def on_result_def change_def explained_def)

lemma explains_then:
  assumes "\<And>v. explains a (k v)" shows "explains a (and_next t k)"
  using assms unfolding explains_def by (blast elim: next_value)

lemma explains_first:
  assumes "explains a t" and "\<And>v. obeys filed (k v)" shows "explains a (and_next t k)"
  unfolding explains_def
proof (intro allI impI)
  fix cutoff s u s' assume "and_next t k cutoff s = (Some (Inr u), s')"
  then obtain v s1 where "t cutoff s = (Some (Inr v), s1)" "k v cutoff s1 = (Some (Inr u), s')" by (rule next_value)
  with assms show "explained a s'" unfolding explains_def using explained_filed obeysD by metis
qed

lemma explains_settle: "(\<And>r. explains a (k r)) \<Longrightarrow> explains a (settle_with t k)"
  by (auto simp: explains_def settle_with_def split: option.splits prod.splits)

lemma explains_reading: "(\<And>v. explains a (k v)) \<Longrightarrow> explains a (reading g k)"
  by (simp add: explains_def reading_def)

lemma explains_writing: "(\<And>r. explains a (k r)) \<Longrightarrow> explains a (writing env w k)"
  unfolding writing_def by (rule explains_settle)

lemma warn_artifact [simp]: "w_artifact (warn a c d) = a" "w_artifact (warn_error a e) = a"
  by (simp_all add: warn_def warn_error_def)

lemma explains_store: "explains a (write_or_warn env a w)"
  unfolding write_or_warn_def
  by (rule explains_writing) (auto intro: explains_file explains_warning split: sum.split)

lemma explains_capturing: "(\<And>v. explains a (k v)) \<Longrightarrow> explains a (capturing a t k)"
  unfolding capturing_def
  by (rule explains_settle) (auto intro: explains_warning split: sum.split)

text \<open>A silent write explains its artifact only when it succeeds.\<close>

lemma explains_quiet:
  assumes "\<And>fs. \<exists>p fs'. w (be_io env) fs = (Inr p, fs')" shows "explains a (quiet_write env a w)"
proof -
  have "explained a s'" if "quiet_write env a w cutoff s = (Some (Inr u), s')" for cutoff s u s'
  proof -
    obtain p fs where "w (be_io env) (br_files s) = (Inr p, fs)" using assms by blast
    with that show ?thesis
      by (auto simp: quiet_write_def writing_def write_out_def settle_with_def file_wait_def await_open_def wait_out_def
          on_result_def change_def explained_def split: option.splits if_splits)
  qed
  then show ?thesis by (auto simp: explains_def)
qed

definition io_ok :: "write_io \<Rightarrow> bool" where
  "io_ok io \<longleftrightarrow> w_mkdir io \<and> w_create io \<and> w_write io = None \<and> w_flush io \<and> w_rename io"

text \<open>The file of an artifact can be written: every step of the write works, and so does printing what is typed.\<close>

definition file_can_be_written :: "'o browser_env \<Rightarrow> artifact_paths \<Rightarrow> artifact \<Rightarrow> bool" where
  "file_can_be_written env paths a \<longleftrightarrow> io_ok (be_io env (file_for paths a))
     \<and> (a = Observation \<longrightarrow> (\<forall>ob. \<not> isl (be_print_observation env ob)))
     \<and> (a = Storage \<longrightarrow> (\<forall>snap. \<not> isl (be_print_storage env snap)))"

lemma write_to_succeeds: "io_ok io \<Longrightarrow> \<exists>p fs'. write_to io target data fs = (Inr p, fs')"
  by (simp add: io_ok_def write_to_def write_bytes_def ensure_dir_def Let_def)

lemma write_artifact_succeeds:
  "file_can_be_written env paths a \<Longrightarrow> \<exists>p fs'. write_artifact (be_io env) paths a data fs = (Inr p, fs')"
  by (simp add: file_can_be_written_def write_artifact_def write_to_succeeds)

lemma write_printed_succeeds:
  "file_can_be_written env paths a \<Longrightarrow> \<not> isl printed \<Longrightarrow> \<exists>p fs'. write_printed (be_io env) paths a printed fs = (Inr p, fs')"
  using write_artifact_succeeds by (cases printed) (auto simp: write_printed_def)

text \<open>The artifacts whose failed write is a warning.\<close>

definition write_is_reported :: "artifact \<Rightarrow> bool" where
  "write_is_reported a \<longleftrightarrow> a \<in> {ABody, Content, ContentJson, Network, Console}"

lemma explains_wanted: "a \<in> set (b_want b) \<Longrightarrow> explains a t \<Longrightarrow> explains a (wanted b a t)"
  by (simp add: wanted_def)

lemma explains_quiet_steps:
  "file_can_be_written env paths RenderedHtml \<Longrightarrow> explains RenderedHtml (html_step env paths sid)"
  "file_can_be_written env paths Text \<Longrightarrow> explains Text (text_step env paths b sid)"
  "file_can_be_written env paths Screenshot \<Longrightarrow> explains Screenshot (screenshot_step env paths sid)"
  "file_can_be_written env paths Observation \<Longrightarrow> explains Observation (observation_step env paths sid)"
  "file_can_be_written env paths Storage \<Longrightarrow> explains Storage (storage_step env paths sid)"
proof -
  show "file_can_be_written env paths RenderedHtml \<Longrightarrow> explains RenderedHtml (html_step env paths sid)"
    unfolding html_step_def by (intro explains_capturing explains_then explains_quiet write_artifact_succeeds)
  show "file_can_be_written env paths Text \<Longrightarrow> explains Text (text_step env paths b sid)"
    unfolding text_step_def by (intro explains_capturing explains_then explains_quiet write_artifact_succeeds)
  show "file_can_be_written env paths Screenshot \<Longrightarrow> explains Screenshot (screenshot_step env paths sid)"
    unfolding screenshot_step_def by (intro explains_capturing explains_then explains_quiet write_artifact_succeeds)
  show "explains Observation (observation_step env paths sid)" if ok: "file_can_be_written env paths Observation"
    unfolding observation_step_def
    by (intro explains_reading explains_capturing explains_then explains_quiet write_printed_succeeds [OF ok])
       (use ok in \<open>simp add: file_can_be_written_def\<close>)
  show "explains Storage (storage_step env paths sid)" if ok: "file_can_be_written env paths Storage"
  proof -
    have "\<exists>p fs'. storage_write (be_io env) (be_print_storage env) paths snap fs = (Inr p, fs')" for snap fs
      using write_printed_succeeds [OF ok] ok by (simp add: storage_write_def ensure_dir_def file_can_be_written_def io_ok_def)
    then show ?thesis unfolding storage_step_def by (intro explains_reading explains_capturing explains_quiet)
  qed
qed

lemma explains_body: "explains ABody (body_step env paths sid main)"
  unfolding body_step_def
  by (auto intro!: explains_warning explains_settle explains_store split: option.split sum.split)

lemma explains_content:
  assumes "a \<in> {Content, ContentJson}" and "a \<in> set (b_want b)"
  shows "explains a (content_step env paths b sid)"
proof -
  have kept: "explains a (keep_content env paths b c)" for c
    unfolding keep_content_def using assms
    by (auto intro!: explains_wanted explains_store intro: explains_first explains_then filed.obeys_wanted filed.obeys_quiet)
  have lost: "explains a (and_next (wanted b Content (push_warnings [warn_error Content e]))
      (\<lambda>_. wanted b ContentJson (push_warnings [warn_error ContentJson e])))" for e
  proof (cases "a = Content")
    case True
    then show ?thesis using assms
      by (auto intro!: explains_first explains_wanted explains_warning filed.obeys_wanted filed.obeys_state(1))
  next
    case False
    then show ?thesis using assms by (auto intro!: explains_then explains_wanted explains_warning)
  qed
  show ?thesis unfolding content_step_def
    using assms kept lost by (auto intro!: explains_settle split: sum.split)
qed

lemma explains_console: "explains Console (console_step_of env paths)"
  unfolding console_step_of_def by (intro explains_capturing explains_file)

lemma explains_network: "Network \<in> set (b_want b) \<Longrightarrow> explains Network (network_log_step env paths b)"
  unfolding network_log_step_def by (auto intro!: explains_capturing explains_then explains_store)

text \<open>Some step of the list explains a given wanted artifact.\<close>

fun step_for ::
  "'o browser_env \<Rightarrow> artifact_paths \<Rightarrow> fetch_builder \<Rightarrow> string \<Rightarrow> network_entry option \<Rightarrow> artifact \<Rightarrow> unit btask" where
  "step_for env paths b sid main ABody = wanted b ABody (body_step env paths sid main)"
| "step_for env paths b sid main RenderedHtml = wanted b RenderedHtml (html_step env paths sid)"
| "step_for env paths b sid main Text = wanted b Text (text_step env paths b sid)"
| "step_for env paths b sid main Content = content_step env paths b sid"
| "step_for env paths b sid main ContentJson = content_step env paths b sid"
| "step_for env paths b sid main Screenshot = wanted b Screenshot (screenshot_step env paths sid)"
| "step_for env paths b sid main Network = network_log_step env paths b"
| "step_for env paths b sid main Console = wanted b Console (console_step_of env paths)"
| "step_for env paths b sid main Observation = wanted b Observation (observation_step env paths sid)"
| "step_for env paths b sid main Storage = wanted b Storage (storage_step env paths sid)"

lemma step_for_listed: "step_for env paths b sid main a \<in> set (artifact_steps env paths b sid main injected)"
  by (cases a; simp only: artifact_steps_def step_for.simps list.set insert_iff simp_thms)

lemma step_for_explains:
  assumes w: "a \<in> set (b_want b)" and ok: "write_is_reported a \<or> file_can_be_written env paths a"
  shows "explains a (step_for env paths b sid main a)"
proof (cases "write_is_reported a")
  case True
  note reported = explains_body [of env paths sid main] explains_content [OF _ w, of env paths sid]
    explains_console [of env paths] explains_network [of b env paths]
  from True w reported explains_wanted [OF w] show ?thesis by (cases a; simp add: write_is_reported_def)
next
  case False
  with ok have "file_can_be_written env paths a" by simp
  with explains_quiet_steps [of env paths] False explains_wanted [OF w] show ?thesis
    by (cases a; simp add: write_is_reported_def)
qed

lemma in_order_explains:
  "t \<in> set ts \<Longrightarrow> explains a t \<Longrightarrow> \<forall>t \<in> set ts. obeys filed t \<Longrightarrow> explains a (in_order ts)"
proof (induction ts)
  case (Cons x ts)
  show ?case
  proof (cases "t = x")
    case True
    with Cons.prems show ?thesis by (auto intro!: explains_first filed.obeys_in_order)
  next
    case False
    with Cons show ?thesis by (auto intro!: explains_then)
  qed
qed simp

lemma artifacts_explain:
  assumes "a \<in> set (b_want b)" and "write_is_reported a \<or> file_can_be_written env paths a"
  shows "explains a (in_order (artifact_steps env paths b sid main injected))"
  using in_order_explains [OF step_for_listed step_for_explains [OF assms]] filed.obeys_artifact_steps by blast

subsection \<open>The result of the whole path\<close>

definition yields :: "(fetch_result \<Rightarrow> bool) \<Rightarrow> fetch_result btask \<Rightarrow> bool" where
  "yields P k \<longleftrightarrow> (\<forall>cutoff s res s'. k cutoff s = (Some (Inr res), s') \<longrightarrow> P res)"

lemma yieldsD: "yields P k \<Longrightarrow> k cutoff s = (Some (Inr res), s') \<Longrightarrow> P res"
  unfolding yields_def by blast

lemma yields_next:
  assumes "\<And>cutoff s v s'. t cutoff s = (Some (Inr v), s') \<Longrightarrow> yields P (k v)" shows "yields P (and_next t k)"
  using assms unfolding yields_def by (metis next_value)

lemma yields_any: "(\<And>v. yields P (k v)) \<Longrightarrow> yields P (and_next t k)"
  by (rule yields_next)

lemma yields_reading: "(\<And>v. yields P (k v)) \<Longrightarrow> yields P (reading g k)"
  by (simp add: yields_def reading_def)

lemma yields_error: "yields P (give (Inl e))"
  by (simp add: yields_def give_def)

lemma yields_fail_after: "yields P (fail_after env t sid close e)"
  unfolding fail_after_def by (intro yields_any yields_error)

lemma yields_settle: "(\<And>r. yields P (k r)) \<Longrightarrow> yields P (settle_with t k)"
  by (auto simp: yields_def settle_with_def split: option.splits prod.splits)

lemma yields_guarded: "(\<And>x. yields P (k x)) \<Longrightarrow> yields P (guarded env b v f t k)"
  unfolding guarded_def or_finish_def
  by (auto intro!: yields_settle yields_fail_after split: sum.split)

text \<open>What a finished page or download says of an artifact.\<close>

definition says :: "artifact \<Rightarrow> fetch_result \<Rightarrow> bool" where
  "says a res \<longleftrightarrow> download_file res \<noteq> None \<or> artifact_file a res \<noteq> None \<or> (\<exists>w \<in> set (warnings res). w_artifact w = a)"

lemma conclude_result:
  assumes "conclude began cutoff s = (Some (Inr res), s')"
  shows "warnings res = warnings (br_result s) \<and> artifact_file a res = artifact_file a (br_result s)
    \<and> download_file res = download_file (br_result s)"
  using assms by (auto simp: conclude_def and_next_def settle_with_def reading_def on_deadline_def change_def
      finish_trace_def on_result_def give_def split: prod.splits)

lemma explained_concludes:
  assumes "explained a s" and "conclude_browser began cutoff s = (Some (Inr res), s')" shows "says a res"
proof -
  from assms(2) obtain s1 where "conclude began cutoff s1 = (Some (Inr res), s')"
    "br_result s1 = (br_result s)\<lparr> warnings := br_warnings s \<rparr>"
    by (auto simp: conclude_browser_def and_next_def settle_with_def reading_def on_result_def change_def)
  with conclude_result [of began cutoff s1 res s' a] assms(1) show ?thesis by (simp add: says_def explained_def)
qed

lemma explains_concludes:
  assumes "explains a t" shows "yields (says a) (and_next t (\<lambda>_. conclude_browser began))"
  unfolding yields_def
proof (intro allI impI)
  fix cutoff s res s' assume "and_next t (\<lambda>_. conclude_browser began) cutoff s = (Some (Inr res), s')"
  then obtain u s1 where "t cutoff s = (Some (Inr u), s1)" "conclude_browser began cutoff s1 = (Some (Inr res), s')"
    by (rule next_value)
  with assms show "says a res" unfolding explains_def using explained_concludes by blast
qed

lemma yields_finish_page:
  assumes "a \<in> set (b_want b)" and "write_is_reported a \<or> file_can_be_written env (bc_paths bc) a"
  shows "yields (says a) (finish_page env bc b v injected main snap)"
proof -
  have rest: "obeys filed (and_next (verify_takeover b snap) (\<lambda>verified.
      end_tab env (vs_target v) (vs_session v) (close_after_success (vs_created v) (b_keep_tab_open b) verified)))"
    by (intro filed.obeys_next filed.obeys_page filed_end_tab)
  have explain: "explains a (and_next (in_order (artifact_steps env (bc_paths bc) b (vs_session v) main injected))
      (\<lambda>_. and_next (verify_takeover b snap) (\<lambda>verified.
        end_tab env (vs_target v) (vs_session v) (close_after_success (vs_created v) (b_keep_tab_open b) verified))))" (is "explains a ?t")
    using artifacts_explain [OF assms] rest by (rule explains_first)
  have "yields (says a) (and_next ?t (\<lambda>_. conclude_browser (bc_began bc)))"
    by (rule explains_concludes [OF explain])
  then show ?thesis
    unfolding finish_page_def and_next_assoc by (intro yields_any [where t = "classify_page env snap"]
        yields_any [where t = "report_main b main snap"] yields_any [where t = "status_fallback env (vs_session v)"])
qed

lemma yields_download: "yields (says a) (finish_download_navigation env dn nv)"
proof -
  have ends: "yields (says a) (and_next (on_result (\<lambda>_. download_result nv done_file main t)) (\<lambda>_.
      and_next (download_logs env nv) (\<lambda>_. and_next (download_cleanup env nv) (\<lambda>_. conclude (nv_began nv)))))" for done_file main t
    unfolding yields_def
  proof (intro allI impI)
    fix cutoff s res s'
    assume "and_next (on_result (\<lambda>_. download_result nv done_file main t)) (\<lambda>_.
      and_next (download_logs env nv) (\<lambda>_. and_next (download_cleanup env nv) (\<lambda>_. conclude (nv_began nv)))) cutoff s = (Some (Inr res), s')"
    then obtain s1 s2 s3 u v where "on_result (\<lambda>_. download_result nv done_file main t) cutoff s = (Some (Inr ()), s1)"
      and logs: "download_logs env nv cutoff s1 = (Some (Inr u), s2)"
      and shut: "download_cleanup env nv cutoff s2 = (Some (Inr v), s3)"
      and concluded: "conclude (nv_began nv) cutoff s3 = (Some (Inr res), s')"
      by (auto elim!: next_value)
    then have "download_file (br_result s1) \<noteq> None"
      by (auto simp: on_result_def change_def download_result_def Let_def)
    moreover have "filed s1 s2" by (rule obeysD [OF filed.obeys_page(10) logs])
    moreover have "filed s2 s3" by (rule obeysD [OF filed_download_cleanup shut])
    ultimately show "says a res" using conclude_result [OF concluded, of a] by (auto simp: says_def filed_def)
  qed
  show ?thesis
    unfolding finish_download_navigation_def
    by (auto intro!: yields_fail_after yields_settle yields_any ends split: option.split sum.split)
qed

lemma yields_visit:
  assumes "a \<in> set (b_want b)" and "write_is_reported a \<or> file_can_be_written env (bc_paths bc) a"
  shows "yields (says a) (visit_tab env dn bc b po injected tab)"
proof -
  have page: "yields (says a) (wait_for_page env bc b po v injected)" for v
    unfolding wait_for_page_def capture_page_def
    by (intro yields_guarded yields_any yields_reading yields_finish_page [OF assms])
  have after: "yields (says a) (after_navigate env dn bc b po v dir injected reply)" for v dir reply
    unfolding after_navigate_def
    by (auto intro!: yields_any yields_reading yields_download yields_fail_after page split: option.split)
  show ?thesis
    by (auto intro!: yields_guarded yields_any yields_reading after split: prod.split simp: visit_tab_def Let_def)
qed

text \<open>
  C9. Every artifact that was asked for is accounted for, one way of failing apart. When a browser fetch ends with
  a page, each wanted artifact has a file in the result or a warning that names it; or it is the rendered HTML, the
  text, the screenshot, the observation or the storage, and its own file could not be written: the code drops
  those failed writes in silence. For the body, the content, the network log and the console a failed write is a warning as
  well. No capture error, timeout or skipped body loses an artifact without a word.
\<close>

theorem every_artifact_is_explained:
  assumes "browser_path env he dn bc b po cutoff s = (Some (Inr res), s')"
    and "download_file res = None" and "a \<in> set (b_want (with_default_want b))"
  shows "artifact_file a res \<noteq> None \<or> (\<exists>w \<in> set (warnings res). w_artifact w = a)
    \<or> (a \<in> {RenderedHtml, Text, Screenshot, Observation, Storage} \<and> \<not> file_can_be_written env (bc_paths bc) a)"
proof (cases "write_is_reported a \<or> file_can_be_written env (bc_paths bc) a")
  case False
  then show ?thesis by (cases a) (simp_all add: write_is_reported_def)
next
  case ok: True
  have "yields (says a) (browser_path env he dn bc b po)"
    unfolding browser_path_def Let_def
  proof (rule yields_any, rule yields_next)
    fix cutoff' s0 b' s1
    assume "start_inline_host he (with_default_want b) cutoff' s0 = (Some (Inr b'), s1)"
    from start_inline_host_keeps [OF this] assms(3) have "a \<in> set (b_want b')" by simp
    from yields_visit [OF this ok]
    show "yields (says a) (and_next (stage ''prepare_request'' NavigationTimeout (await_open MakeDir (ensure_dir (fst (he_mkdir he)), snd (he_mkdir he)))) (\<lambda>_.
        if \<not> endpoint_is_remote (cl_endpoint (b_client b'))
        then give (fail RenderUnavailable ''browser fetch requires --endpoint-url pointing at an afhttp host'')
        else case inject_jar env b' po of (po, injected) \<Rightarrow>
          and_next (stage ''connect_cdp'' NavigationTimeout (wait_out (he_connect he)))
            (\<lambda>_. and_next (open_tab env b') (\<lambda>tab. visit_tab env dn bc b' po injected tab))))"
      by (auto intro!: yields_any yields_error split: prod.split)
  qed
  from yieldsD [OF this assms(1)] assms(2) show ?thesis by (auto simp: says_def)
qed

end
