(* ===== verification/BrowserTime.thy ===== *)
theory BrowserTime
  imports TabFacts
begin

text \<open>
  How long the browser path runs. Every stage ends with the fetch's own budget; what the path awaits outside a stage
  has a limit of its own, and these limits add up, or it is a file operation or the lock of the inline host: then the
  time it took is in the account of the run.
\<close>

definition waited :: "'z run_scheme \<Rightarrow> duration" where
  "waited s = sum_list (map snd (rs_waits s))"

definition lasts :: "duration \<Rightarrow> ('a, 'z) task \<Rightarrow> bool" where
  "lasts c t \<longleftrightarrow> (\<forall>cutoff s r s'. dl_started (rs_deadline s) \<le> rs_now s \<longrightarrow> t cutoff s = (r, s') \<longrightarrow>
     waited s \<le> waited s' \<and> rs_now s' + waited s \<le> max (rs_now s) (ends_at (rs_deadline s)) + c + waited s')"

named_theorems lasting

lemma waited_moves: "moves s s' \<Longrightarrow> waited s \<le> waited s'"
  by (auto simp: moves_def waited_def)

lemma lastsI:
  "(\<And>cutoff s r s'. dl_started (rs_deadline s) \<le> rs_now s \<Longrightarrow> t cutoff s = (r, s') \<Longrightarrow>
     waited s \<le> waited s' \<and> rs_now s' + waited s \<le> max (rs_now s) (ends_at (rs_deadline s)) + c + waited s') \<Longrightarrow> lasts c t"
  by (simp add: lasts_def)

text \<open>For a prompt task the account only grows.\<close>

lemma lasts_prompt:
  assumes "prompt t" and "\<And>cutoff s r s'. dl_started (rs_deadline s) \<le> rs_now s \<Longrightarrow> t cutoff s = (r, s') \<Longrightarrow>
     rs_now s' \<le> max (rs_now s) (ends_at (rs_deadline s)) + c"
  shows "lasts c t"
proof (rule lastsI)
  fix cutoff s r s' assume "dl_started (rs_deadline s) \<le> rs_now s" and run: "t cutoff s = (r, s')"
  from assms(2) [OF this] waited_moves [OF promptD(1) [OF assms(1) run]]
  show "waited s \<le> waited s' \<and> rs_now s' + waited s \<le> max (rs_now s) (ends_at (rs_deadline s)) + c + waited s'" by simp
qed

lemma lastsD:
  assumes "lasts c t" and "dl_started (rs_deadline s) \<le> rs_now s" and "t cutoff s = (r, s')"
  shows "waited s \<le> waited s'" and "rs_now s' + waited s \<le> max (rs_now s) (ends_at (rs_deadline s)) + c + waited s'"
  using assms unfolding lasts_def by blast+

lemma lasts_more: "lasts c t \<Longrightarrow> c \<le> d \<Longrightarrow> lasts d t"
  unfolding lasts_def by (meson add_le_mono1 add_left_mono order_trans)

text \<open>A step of duration 0 and what follows it; the clock and the budget stay comparable.\<close>

lemma later_lasts:
  assumes "moves s s1" and "dl_started (rs_deadline s) \<le> rs_now s"
    and "rs_now s1 + waited s \<le> max (rs_now s) (ends_at (rs_deadline s)) + c + waited s1"
    and "lasts d k" and "k cutoff s1 = (r, s')"
  shows "waited s \<le> waited s' \<and> rs_now s' + waited s \<le> max (rs_now s) (ends_at (rs_deadline s)) + (c + d) + waited s'"
proof -
  have same: "ends_at (rs_deadline s1) = ends_at (rs_deadline s)" "dl_started (rs_deadline s1) = dl_started (rs_deadline s)"
    using assms(1) ends_at_same [of "rs_deadline s" "rs_deadline s1"] by (auto simp: moves_def same_budget_def)
  have "dl_started (rs_deadline s1) \<le> rs_now s1" using same assms(1,2) by (simp add: moves_def)
  from lastsD [OF assms(4) this assms(5)] same assms(3) waited_moves [OF assms(1)] show ?thesis by simp
qed

lemma lasts_settle:
  assumes "prompt t" and "lasts c t" and "\<And>x. lasts d (k x)" shows "lasts (c + d) (settle_with t k)"
proof (rule lastsI)
  fix cutoff and s s' :: "_ run_scheme" and r
  assume clock: "dl_started (rs_deadline s) \<le> rs_now s" and run: "settle_with t k cutoff s = (r, s')"
  obtain r1 s1 where first: "t cutoff s = (r1, s1)" by (metis surj_pair)
  note moved = promptD(1) [OF assms(1) first] and time = lastsD [OF assms(2) clock first]
  show "waited s \<le> waited s' \<and> rs_now s' + waited s \<le> max (rs_now s) (ends_at (rs_deadline s)) + (c + d) + waited s'"
  proof (cases r1)
    case None with run first time show ?thesis by (simp add: settle_with_def)
  next
    case (Some x)
    with run first have "k x cutoff s1 = (r, s')" by (simp add: settle_with_def)
    from later_lasts [OF moved clock time(2) assms(3) this] show ?thesis .
  qed
qed

text \<open>When the first task ends with a value it may have taken less than at worst.\<close>

lemma lasts_next_where:
  assumes "prompt t" and "lasts C t" and "c + d \<le> C"
    and quick: "\<And>cutoff s v s'. dl_started (rs_deadline s) \<le> rs_now s \<Longrightarrow> t cutoff s = (Some (Inr v), s') \<Longrightarrow>
      rs_now s' + waited s \<le> max (rs_now s) (ends_at (rs_deadline s)) + c + waited s' \<and> lasts d (k v)"
  shows "lasts C (and_next t k)"
proof (rule lastsI)
  fix cutoff and s s' :: "_ run_scheme" and r
  assume clock: "dl_started (rs_deadline s) \<le> rs_now s" and run: "and_next t k cutoff s = (r, s')"
  obtain r1 s1 where first: "t cutoff s = (r1, s1)" by (metis surj_pair)
  show "waited s \<le> waited s' \<and> rs_now s' + waited s \<le> max (rs_now s) (ends_at (rs_deadline s)) + C + waited s'"
  proof (cases "\<exists>v. r1 = Some (Inr v)")
    case True
    then obtain v where v: "r1 = Some (Inr v)" by blast
    with run first have rest: "k v cutoff s1 = (r, s')" by (simp add: and_next_def settle_with_def)
    note q = quick [OF clock first [unfolded v]]
    from later_lasts [OF promptD(1) [OF assms(1) first] clock conjunct1 [OF q] conjunct2 [OF q] rest] assms(3) show ?thesis by simp
  next
    case False
    with run first have "s' = s1" by (auto simp: and_next_def settle_with_def give_def split: option.splits sum.splits)
    with lastsD [OF assms(2) clock first] show ?thesis by simp
  qed
qed

lemma lasts_give [lasting]: "lasts 0 (give r)"
  by (simp add: lasts_def give_def)

lemma lasts_next:
  assumes "prompt t" and "lasts c t" and "\<And>x. lasts d (k x)" shows "lasts (c + d) (and_next t k)"
  unfolding and_next_def using assms
  by (intro lasts_settle) (auto intro: lasts_more [OF lasts_give] split: sum.split)

lemma lasts_first: "prompt t \<Longrightarrow> lasts 0 t \<Longrightarrow> (\<And>x. lasts d (k x)) \<Longrightarrow> lasts d (and_next t k)"
  using lasts_next [of t 0 d k] by simp

lemma lasts_first_settle: "prompt t \<Longrightarrow> lasts 0 t \<Longrightarrow> (\<And>x. lasts d (k x)) \<Longrightarrow> lasts d (settle_with t k)"
  using lasts_settle [of t 0 d k] by simp

lemma lasts_last: "prompt t \<Longrightarrow> lasts c t \<Longrightarrow> (\<And>x. lasts 0 (k x)) \<Longrightarrow> lasts c (and_next t k)"
  using lasts_next [of t c 0 k] by simp

lemma lasts_last_settle: "prompt t \<Longrightarrow> lasts c t \<Longrightarrow> (\<And>x. lasts 0 (k x)) \<Longrightarrow> lasts c (settle_with t k)"
  using lasts_settle [of t c 0 k] by simp

lemma lasts_reading: "(\<And>v. lasts c (k v)) \<Longrightarrow> lasts c (reading g k)"
  by (simp add: lasts_def reading_def)

lemma lasts_still:
  assumes "\<And>cutoff s. rs_now (snd (t cutoff s)) = rs_now s \<and> rs_waits (snd (t cutoff s)) = rs_waits s" shows "lasts 0 t"
proof (rule lastsI)
  fix cutoff s r s' assume "t cutoff s = (r, s')"
  with assms [of cutoff s] show "waited s \<le> waited s' \<and> rs_now s' + waited s \<le> max (rs_now s) (ends_at (rs_deadline s)) + 0 + waited s'"
    by (simp add: waited_def)
qed

lemma lasts_change [lasting]: "(\<And>s. rs_now (f s) = rs_now s \<and> rs_waits (f s) = rs_waits s) \<Longrightarrow> lasts 0 (change f)"
  by (rule lasts_still) (simp add: change_def)

lemma lasts_state [lasting]:
  "lasts 0 (on_deadline f)" "lasts 0 (push_warnings ws)" "lasts 0 (on_result g)" "lasts 0 (net_call env ops)"
  "lasts 0 take_snapshot" "lasts 0 finish_trace" "lasts 0 (retain_tab t)" "lasts 0 (rest_of stg)" "lasts 0 (bounded_rest stg cap)"
  by (rule lasts_still, simp add: on_deadline_def push_warnings_def on_result_def net_call_def take_snapshot_def finish_trace_def
      retain_tab_def rest_of_def bounded_rest_def change_def split: prod.split)+

lemma lasts_stage [lasting]: "prompt t \<Longrightarrow> lasts 0 (stage name code t)"
  by (rule lasts_prompt [OF prompt_stage]) (simp_all add: stage_ends)

lemma lasts_send [lasting]: "lasts 0 (cdp_send peer sid m p stg)"
  by (rule lasts_prompt [OF prompt_send]) (simp add: send_ends)

lemma lasts_wait: "snd out \<le> c \<Longrightarrow> lasts c (wait_out out)"
  by (rule lasts_prompt [OF prompt_wait]) (auto simp: wait_out_def split: if_splits)

text \<open>The time of an open wait is in the account.\<close>

lemma lasts_open [lasting]: "lasts 0 (await_open what out)"
proof (rule lastsI)
  fix cutoff and s s' :: "_ run_scheme" and r assume run: "await_open what out cutoff s = (r, s')"
  obtain r1 s1 where first: "wait_out out cutoff s = (r1, s1)" by (metis surj_pair)
  with promptD(1) [OF prompt_wait first] run
  show "waited s \<le> waited s' \<and> rs_now s' + waited s \<le> max (rs_now s) (ends_at (rs_deadline s)) + 0 + waited s'"
    by (auto simp: await_open_def waited_def moves_def)
qed

lemma lasts_call: "lasts limit (cdp_call peer sid m p limit)"
  by (rule lasts_prompt [OF prompt_call]) (auto simp: cdp_call_def wait_out_def split: prod.splits if_splits)

lemma lasts_closing: "lasts limit (closing peer t limit)"
proof (rule lasts_prompt [OF prompt_closing])
  fix cutoff and s s' :: "_ run_scheme" and r assume run: "closing peer t limit cutoff s = (r, s')"
  obtain o1 used h where c: "close_target_preserving_browser peer t limit (rs_sent s) = (o1, used, h)" by (metis surj_pair)
  with cleanup_shape [OF c] run show "rs_now s' \<le> max (rs_now s) (ends_at (rs_deadline s)) + limit"
    by (auto simp: closing_def split: if_splits)
qed

text \<open>A wait for at most what is left of the fetch, and what may follow it.\<close>

lemma lasts_rest:
  assumes "\<And>limit cutoff s r s'. k limit cutoff s = (r, s') \<Longrightarrow> waited s \<le> waited s' \<and> rs_now s' + waited s \<le> rs_now s + limit + waited s'"
  shows "lasts 0 (and_next (rest_of stg) k)"
proof (rule lastsI)
  fix cutoff and s s' :: "_ run_scheme" and r
  assume clock: "dl_started (rs_deadline s) \<le> rs_now s" and run: "and_next (rest_of stg) k cutoff s = (r, s')"
  obtain lim d where rem: "remaining (rs_now s) stg (rs_deadline s) = (lim, d)" by (cases "remaining (rs_now s) stg (rs_deadline s)")
  show "waited s \<le> waited s' \<and> rs_now s' + waited s \<le> max (rs_now s) (ends_at (rs_deadline s)) + 0 + waited s'"
  proof (cases lim)
    case (Inl e)
    with rem run show ?thesis by (auto simp: and_next_def settle_with_def rest_of_def give_def waited_def)
  next
    case (Inr n)
    have "rs_now s + n = ends_at (rs_deadline s)"
      using rem Inr clock rest_left [of "rs_now s" "set_stage stg (rs_deadline s)" n d] same_budget_ops(1) [of "rs_deadline s" stg]
      by (auto simp: remaining_def ends_at_def same_budget_def)
    moreover from Inr rem run have "k n cutoff (s\<lparr> rs_deadline := d \<rparr>) = (r, s')"
      by (simp add: and_next_def settle_with_def rest_of_def)
    from assms [OF this] have "waited s \<le> waited s' \<and> rs_now s' + waited s \<le> rs_now s + n + waited s'" by (simp add: waited_def)
    ultimately show ?thesis by simp
  qed
qed

lemma lasts_send_no_session [lasting]: "lasts 0 (cdp_send_no_session peer m p stg)"
  unfolding cdp_send_no_session_def
  by (rule lasts_rest) (auto simp: cdp_call_def wait_out_def waited_def split: prod.splits if_splits)

subsection \<open>The parts of the path\<close>

lemma lasts_captures [lasting]:
  "lasts 0 (capture_location peer sid)" "lasts 0 (capture_page_snapshot cl peer sid)"
  "lasts 0 (navigation_status_from_performance cl peer sid)" "lasts 0 (root_frame_id env sid)" "lasts 0 (first_location env sid)"
  by (auto intro!: lasts_first lasts_first_settle prompts lasting
      simp: capture_location_def capture_page_snapshot_def navigation_status_from_performance_def root_frame_id_def first_location_def)

lemma lasts_file_wait [lasting]: "lasts 0 (file_wait env what r)"
  using lasts_open unfolding lasts_def file_wait_def by blast

lemma lasts_write_out: "lasts 0 (write_out env w)"
proof (rule lastsI)
  fix cutoff s r s' assume clock: "dl_started (rs_deadline s) \<le> rs_now s" and run: "write_out env w cutoff s = (r, s')"
  obtain r1 s1 where first: "file_wait env WriteFile (fst (w (be_io env) (br_files s))) cutoff s = (r1, s1)" by (metis surj_pair)
  with run have "rs_now s' = rs_now s1" "waited s' = waited s1"
    by (auto simp: write_out_def waited_def split: option.splits)
  with lastsD [OF lasts_file_wait clock first]
  show "waited s \<le> waited s' \<and> rs_now s' + waited s \<le> max (rs_now s) (ends_at (rs_deadline s)) + 0 + waited s'" by simp
qed

lemma lasts_writing: "(\<And>r. lasts c (k r)) \<Longrightarrow> lasts c (writing env w k)"
  unfolding writing_def by (intro lasts_first_settle prompt_write_out lasts_write_out)

lemma lasts_quiet [lasting]: "lasts 0 (quiet_write env a w)" "lasts 0 (write_or_warn env a w)"
  by (auto intro!: lasts_writing lasting split: sum.split simp: quiet_write_def write_or_warn_def)

lemma lasts_wanted [lasting]: "lasts 0 t \<Longrightarrow> lasts 0 (wanted b a t)"
  by (simp add: wanted_def lasts_give)

lemma lasts_capturing [lasting]: "prompt t \<Longrightarrow> lasts 0 t \<Longrightarrow> (\<And>v. lasts 0 (k v)) \<Longrightarrow> lasts 0 (capturing a t k)"
  by (auto intro!: lasts_first_settle lasting split: sum.split simp: capturing_def)

lemma lasts_frames [lasting]: "lasts 0 (write_frames_jsonl env paths streams)"
  by (induction streams rule: write_frames_jsonl.induct)
     (auto intro!: lasts_writing lasts_first lasts_first_settle lasting prompts split: sum.split simp: Let_def)

lemma lasts_artifact_steps:
  "t \<in> set (artifact_steps env paths b sid main injected) \<Longrightarrow> lasts 0 t"
  by (auto simp: artifact_steps_def html_step_def text_step_def content_step_def keep_content_def screenshot_step_def
      body_step_def link_body_def observation_step_def storage_step_def console_step_of_def stream_step_def bodies_step_def
      network_log_step_def finish_network_def sync_step_def sync_jar_def Let_def moves_def
      intro!: lasts_first lasts_first_settle lasts_reading lasting prompts split: sum.split option.split)

lemma lasts_in_order: "(\<forall>t \<in> set ts. prompt t \<and> lasts 0 t) \<Longrightarrow> lasts 0 (in_order ts)"
  by (induction ts) (auto intro!: lasts_first lasting)

lemma lasts_artifacts [lasting]: "lasts 0 (in_order (artifact_steps env paths b sid main injected))"
  using lasts_artifact_steps prompt_artifact_steps by (intro lasts_in_order) blast

lemma lasts_page [lasting]:
  "lasts 0 (classify_page env snap)" "lasts 0 (report_main b main snap)" "lasts 0 (status_fallback env sid)"
  "lasts 0 (verify_takeover b snap)" "lasts 0 (conclude began)" "lasts 0 (conclude_browser began)"
  "lasts 0 (look_at_page env v)" "lasts 0 (validate_capture env b v main snap)" "lasts 0 (begin_result bc b v wo)"
  "lasts 0 (download_logs env nv)"
  by (auto intro!: lasts_first lasts_first_settle lasts_reading lasting prompts split: option.split sum.split
      simp: classify_page_def report_main_def status_fallback_def verify_takeover_def conclude_def conclude_browser_def
        look_at_page_def validate_capture_def begin_result_def download_logs_def Let_def moves_def)

lemma lasts_main: "lasts (millis ms) (main_status env ms frame)"
  unfolding main_status_def
  by (rule lasts_last [OF prompt_wait lasts_wait]) (auto intro: lasts_still split: prod.split)

lemma lasts_finish_target: "lasts target_cleanup_timeout (finish_target env t sid close)"
  by (auto intro!: lasts_last_settle [OF prompt_closing lasts_closing] lasts_last_settle [OF prompt_call lasts_call] lasting
      simp: finish_target_def)

lemma lasts_fail_after: "lasts target_cleanup_timeout (fail_after env t sid close e)"
  unfolding fail_after_def finish_failed_target_def
  by (intro lasts_last lasts_finish_target prompts) (auto intro: lasting prompts)

lemma lasts_end_tab: "lasts (target_cleanup_timeout + target_cleanup_timeout) (end_tab env t sid close)"
proof -
  have kept: "lasts target_cleanup_timeout (keep_tab env t sid)"
    unfolding keep_tab_def by (intro lasts_first lasts_last lasts_finish_target lasting prompts)
  have "lasts target_cleanup_timeout (if closed then on_result f else keep_tab env t sid)" for closed f
    using kept lasts_more [OF lasts_state(3)] by simp
  then have whole: "lasts (target_cleanup_timeout + target_cleanup_timeout) (and_next (finish_target env t sid True)
      (\<lambda>closed. if closed then on_result f else keep_tab env t sid))" for f
    by (intro lasts_next prompts lasts_finish_target)
  have "lasts target_cleanup_timeout (and_next (finish_target env t sid False) (\<lambda>_. give (Inr ())) :: unit btask)"
    by (intro lasts_last lasts_finish_target lasting prompts)
  then have later: "lasts (target_cleanup_timeout + target_cleanup_timeout)
      (and_next (finish_target env t sid False) (\<lambda>_. give (Inr ())) :: unit btask)" by (rule lasts_more) simp
  from whole later show ?thesis by (simp add: end_tab_def)
qed

lemma lasts_download_cleanup: "lasts (target_cleanup_timeout + target_cleanup_timeout) (download_cleanup env nv)"
proof -
  have kept: "lasts target_cleanup_timeout (and_next (on_result f) (\<lambda>_.
      and_next (finish_target env t sid False) (\<lambda>_. give (Inr ()))))" for f t sid
    by (intro lasts_first [OF prompt_state(2) lasts_state(3)] lasts_last [OF prompt_finish_target lasts_finish_target] lasts_give)
  show ?thesis
    unfolding download_cleanup_def
    by (intro lasts_next lasts_finish_target prompt_finish_target)
       (simp add: kept lasts_more [OF lasts_state(3)] lasts_more [OF lasts_give])
qed

text \<open>The longest ends of a page and of a download: two tries to end the tab, and a failing step's one.\<close>

definition cleanup_time :: duration where
  "cleanup_time = target_cleanup_timeout + target_cleanup_timeout"

lemma lasts_failure: "lasts cleanup_time (fail_after env t sid close e)"
  by (rule lasts_more [OF lasts_fail_after]) (simp add: cleanup_time_def)

lemma lasts_guarded:
  assumes "prompt t" and "lasts 0 t" and "cleanup_time \<le> d" and "\<And>x. lasts d (k x)"
  shows "lasts d (guarded env b v f t k)"
  unfolding guarded_def or_finish_def using assms
  by (intro lasts_first_settle) (auto intro: lasts_more [OF lasts_failure] split: sum.split)

definition observe_time :: "fetch_builder \<Rightarrow> duration" where
  "observe_time b = millis (observe_main_wait_ms (b_readiness b))"

lemma lasts_capture_page: "lasts (observe_time b + cleanup_time) (capture_page env bc b v injected wo nav)"
proof -
  have page: "lasts cleanup_time (finish_page env bc b v injected main snap)" for main snap
    unfolding finish_page_def cleanup_time_def
    by (intro lasts_first lasts_last lasts_end_tab lasting prompts)
  have "lasts (observe_time b) (observe_main env b v wo nav)"
    unfolding observe_main_def observe_time_def
    by (intro lasts_last lasts_main) (auto intro!: lasts_first lasting prompts)
  moreover have "lasts cleanup_time (and_next (look_at_page env v) (\<lambda>snap.
      guarded env b v same_error (validate_capture env b v main snap) (\<lambda>_. finish_page env bc b v injected main snap)))" for main
    by (intro lasts_first lasts_guarded page lasting prompts order_refl)
  ultimately have "lasts (observe_time b + cleanup_time) (and_next (observe_main env b v wo nav) (\<lambda>main.
      and_next (look_at_page env v) (\<lambda>snap.
        guarded env b v same_error (validate_capture env b v main snap) (\<lambda>_. finish_page env bc b v injected main snap))))"
    by (intro lasts_next prompts)
  then show ?thesis unfolding capture_page_def by (rule lasts_first [OF prompt_page(10) lasts_page(9)])
qed

lemma lasts_wait_for_page: "lasts (observe_time b + cleanup_time) (wait_for_page env bc b po v injected)"
  unfolding wait_for_page_def
  by (auto intro!: lasts_guarded lasts_first lasts_reading lasts_capture_page lasting prompts)

lemma lasts_download:
  "lasts (observe_time (nv_builder nv) + cleanup_time) (finish_download_navigation env dn nv)"
proof -
  have shut: "lasts cleanup_time (and_next (download_cleanup env nv) (\<lambda>_. conclude (nv_began nv)))"
    unfolding cleanup_time_def by (rule lasts_last [OF prompt_download(5) lasts_download_cleanup lasts_page(5)])
  have logs: "prompt (download_logs env nv)"
    by (auto intro!: prompts simp: download_logs_def Let_def)
  have tail: "lasts cleanup_time (and_next (on_deadline (update_trace f)) (\<lambda>_.
      and_next take_snapshot (\<lambda>t.
      and_next (on_result (g t)) (\<lambda>_.
      and_next (download_logs env nv) (\<lambda>_.
      and_next (download_cleanup env nv) (\<lambda>_. conclude (nv_began nv)))))))" for f g
    by (intro lasts_first [where t = "on_deadline h" for h] lasts_first [where t = take_snapshot] lasts_first [where t = "on_result h" for h]
        lasts_first [where t = "download_logs env nv"] shut logs lasting prompts) simp
  have "lasts (observe_time (nv_builder nv) + cleanup_time)
      (and_next (main_status env (observe_main_wait_ms (b_readiness (nv_builder nv))) (nv_main_frame nv)) (\<lambda>main.
       and_next (on_deadline (update_trace (download_trace nv (main \<noteq> None)))) (\<lambda>_.
       and_next take_snapshot (\<lambda>t.
       and_next (on_result (\<lambda>_. download_result nv done_file main t)) (\<lambda>_.
       and_next (download_logs env nv) (\<lambda>_.
       and_next (download_cleanup env nv) (\<lambda>_. conclude (nv_began nv))))))))" for done_file
    unfolding observe_time_def by (intro lasts_next lasts_main prompt_main_status tail)
  moreover have "lasts (observe_time (nv_builder nv) + cleanup_time) (fail_after env t sid close e)" for t sid close and e :: error
    by (rule lasts_more [OF lasts_failure]) simp
  ultimately show ?thesis
    unfolding finish_download_navigation_def wait_for_download_with_deadline_def
    by (auto intro!: lasts_first_settle lasting prompts split: option.split sum.split)
qed

lemma lasts_listing [lasting]: "lasts 0 (list_downloads dn dir)"
  by (auto intro!: lasting split: option.split simp: list_downloads_def)

lemma lasts_configure [lasting]: "lasts 0 (configure_download_capture env dn)"
proof -
  have info: "lasts 0 (and_next (and_next (rest_of ''configure_download_capture'') (\<lambda>limit.
      wait_out (if snd (dn_info dn) \<le> limit then dn_info dn else (fail CdpTimeout [], limit)))) k)"
    if "\<And>v. lasts 0 (k v)" for k :: "profile_snapshot \<Rightarrow> (path, 'z) task"
    by (rule lasts_first [OF _ lasts_rest that]) (auto intro!: prompts simp: wait_out_def waited_def split: if_splits)
  show ?thesis
    unfolding configure_download_capture_def
    by (intro lasts_first_settle info [unfolded and_next_assoc])
       (auto intro!: prompts lasting lasts_first simp: Let_def split: option.split)
qed

lemma lasts_announced: "lasts (secs 1) (announced_download dn v dir reply)"
proof -
  have bounded: "t \<le> now + timeout" if "wait_for_download_start fr buffered after timeout now = (x, t)" for fr buffered after timeout now x t
  proof -
    have "t' \<le> ends" if "await_download_start fr ends now' evs = (x', t')" "now' \<le> ends" for ends now' evs x' t'
      using that by (induction fr ends now' evs rule: await_download_start.induct)
        (auto split: if_splits icpt_event.splits option.splits)
    with that show ?thesis by (auto simp: wait_for_download_start_def split: option.splits if_splits)
  qed
  show ?thesis
    by (rule lasts_prompt [OF prompt_page(11)])
       (auto simp: announced_download_def give_def download_start_task_def wait_out_def millis_def secs_def
         dest!: bounded split: option.splits prod.splits if_splits)
qed

definition overrun :: "fetch_builder \<Rightarrow> duration" where
  "overrun b = secs 1 + (observe_time b + cleanup_time)"

lemma lasts_after_navigate: "lasts (overrun b) (after_navigate env dn bc b po v dir injected reply)"
proof -
  have failed: "lasts (observe_time b + cleanup_time) (fail_after env t sid close e)" for t sid close and e :: error
    by (rule lasts_more [OF lasts_failure]) simp
  have downloaded: "lasts (observe_time b + cleanup_time) (finish_download_navigation env dn (download_of bc b v dir ds now))" for ds now
    using lasts_download [of "download_of bc b v dir ds now" env dn] by (simp add: download_of_def)
  show ?thesis
    unfolding after_navigate_def overrun_def
    by (intro lasts_next lasts_announced prompts)
       (auto intro!: lasts_reading failed downloaded lasts_wait_for_page split: option.split)
qed

lemma cleanup_in_overrun: "cleanup_time \<le> overrun b"
  by (simp add: overrun_def)

lemma lasts_visit: "lasts (overrun b) (visit_tab env dn bc b po injected tab)"
  by (auto intro!: lasts_guarded lasts_first lasts_reading cleanup_in_overrun lasts_after_navigate lasting prompts
      split: prod.split simp: visit_tab_def Let_def moves_def)

lemma open_tab_quick:
  assumes "dl_started (rs_deadline s) \<le> rs_now s" and "open_tab env b cutoff s = (Some (Inr v), s')"
  shows "rs_now s' + waited s \<le> max (rs_now s) (ends_at (rs_deadline s)) + waited s'"
proof (cases "b_tab b")
  case (Some t)
  have "lasts 0 (open_tab env b)" unfolding open_tab_def using Some by (auto intro!: lasts_last lasting prompts)
  from lastsD(2) [OF this assms] show ?thesis by simp
next
  case None
  have "\<exists>k. lasts 0 k \<and> prompt k \<and> k cutoff s = (Some (Inr v), s')"
  proof (intro exI conjI)
    let ?k = "and_next (stage ''open_target'' NavigationTimeout (create_tab env)) (\<lambda>t.
        and_next (stage ''attach_target'' NavigationTimeout (attach_tab env t)) (\<lambda>sid. give (Inr (t, sid, True))))"
    show "lasts 0 ?k" by (intro lasts_first lasting prompts)
    show "prompt ?k" by (intro prompts)
    show "?k cutoff s = (Some (Inr v), s')"
      using assms(2) None by (auto simp: open_tab_def and_next_def settle_with_def give_def
          split: option.splits prod.splits sum.splits if_splits)
  qed
  then obtain k where "lasts 0 k" "k cutoff s = (Some (Inr v), s')" by blast
  from lastsD(2) [OF this(1) assms(1) this(2)] show ?thesis by simp
qed

lemma option_cases: "lasts c f \<Longrightarrow> (\<And>v. lasts c (g v)) \<Longrightarrow> lasts c (case x of None \<Rightarrow> f | Some v \<Rightarrow> g v)"
  by (simp split: option.split)

lemma sum_cases: "(\<And>e. lasts c (f e)) \<Longrightarrow> (\<And>v. lasts c (g v)) \<Longrightarrow> lasts c (case x of Inl e \<Rightarrow> f e | Inr v \<Rightarrow> g v)"
  by (simp split: sum.split)

lemma lasts_open_tab: "lasts target_cleanup_timeout (open_tab env b)"
proof -
  have "lasts target_cleanup_timeout (settle_with (closing peer t target_cleanup_timeout) (\<lambda>_. give r))" for peer t r
    by (rule lasts_last_settle [OF prompt_closing lasts_closing lasts_give])
  moreover have "lasts target_cleanup_timeout (retain_tab t)" for t by (rule lasts_more [OF lasts_state(7)]) simp
  ultimately have closed: "lasts target_cleanup_timeout (and_next (if b_keep_tab_open b then retain_tab t
      else settle_with (closing (be_peer env) t target_cleanup_timeout) (\<lambda>_. give (Inr ()))) (\<lambda>_. give (Inl e)))" for t e
    by (intro lasts_last lasts_give) (auto intro!: prompts)
  have given: "lasts target_cleanup_timeout (give r)" for r by (rule lasts_more [OF lasts_give]) simp
  show ?thesis
    unfolding open_tab_def
    by (intro option_cases lasts_first lasts_first_settle sum_cases given closed lasting prompts)
qed

text \<open>
  C10. A browser fetch ends in time. Whatever the browser and the page do, the path is over by the moment the outer timer
  of the call fires. Without that timer it is over by the fetch's own deadline, or by the moment it was entered when
  that has passed, plus the waits the code makes outside the deadline: one second for a download to be announced,
  the wait for the main document's status, two attempts of two seconds each to end the tab, and as long as
  the file operations took that it awaited and the inline host's lock, which have no limit of their own; the account of
  the run lists them.
\<close>

theorem browser_path_ends_in_time:
  assumes "browser_path env he dn bc b po cutoff s = (r, s')"
    and "dl_started (rs_deadline s) \<le> rs_now s"
  shows "rs_now s' \<le> max (rs_now s) cutoff
    \<and> (\<exists>account. rs_waits s' = account @ rs_waits s
         \<and> rs_now s' \<le> max (rs_now s) (dl_started (rs_deadline s) + dl_timeout (rs_deadline s))
             + (secs 1 + (millis (observe_main_wait_ms (b_readiness b)) + (secs 2 + secs 2)))
             + sum_list (map snd account))"
proof -
  have visits: "lasts (overrun b) (and_next (open_tab env b') (\<lambda>tab. visit_tab env dn bc b' po' injected tab))"
    if "b_readiness b' = b_readiness b" for b' po' injected
  proof (rule lasts_next_where [where c = 0 and d = "overrun b"])
    show "prompt (open_tab env b')" by (intro prompts)
    show "lasts (overrun b) (open_tab env b')"
      by (rule lasts_more [OF lasts_open_tab]) (simp add: overrun_def cleanup_time_def)
    show "0 + overrun b \<le> overrun b" by simp
    fix cutoff and s :: browser_run and v s'
    assume "dl_started (rs_deadline s) \<le> rs_now s" "open_tab env b' cutoff s = (Some (Inr v), s')"
    from open_tab_quick [OF this]
    have "rs_now s' + waited s \<le> max (rs_now s) (ends_at (rs_deadline s)) + 0 + waited s'" by simp
    moreover have "lasts (overrun b') (visit_tab env dn bc b' po' injected v)" by (rule lasts_visit)
    moreover have "overrun b' = overrun b" using that by (simp add: overrun_def observe_time_def)
    ultimately show "rs_now s' + waited s \<le> max (rs_now s) (ends_at (rs_deadline s)) + 0 + waited s'
        \<and> lasts (overrun b) (visit_tab env dn bc b' po' injected v)"
      by simp
  qed
  have started: "lasts 0 (start_inline_host he b1)" for b1
    by (auto intro!: lasts_first lasting prompts simp: start_inline_host_def inline_host_started_def)
  have lasts: "lasts (overrun b) (browser_path env he dn bc b po)"
    unfolding browser_path_def Let_def
  proof (intro lasts_first [OF prompt_on_deadline] lasting, simp, rule lasts_next_where [where c = 0 and d = "overrun b"])
    show "prompt (start_inline_host he (with_default_want b))" by (intro prompts)
    show "lasts (overrun b) (start_inline_host he (with_default_want b))" by (rule lasts_more [OF started]) simp
    fix cutoff and s0 :: browser_run and b' s1
    assume clock: "dl_started (rs_deadline s0) \<le> rs_now s0"
      and run: "start_inline_host he (with_default_want b) cutoff s0 = (Some (Inr b'), s1)"
    have "b_readiness b' = b_readiness b" using start_inline_host_keeps [OF run] by (simp add: with_default_want_def)
    with lastsD(2) [OF started clock run]
    show "rs_now s1 + waited s0 \<le> max (rs_now s0) (ends_at (rs_deadline s0)) + 0 + waited s1 \<and>
      lasts (overrun b) (and_next (stage ''prepare_request'' NavigationTimeout (await_open MakeDir (ensure_dir (fst (he_mkdir he)), snd (he_mkdir he)))) (\<lambda>_.
        if \<not> endpoint_is_remote (cl_endpoint (b_client b'))
        then give (fail RenderUnavailable ''browser fetch requires --endpoint-url pointing at an afhttp host'')
        else case inject_jar env b' po of (po, injected) \<Rightarrow>
          and_next (stage ''connect_cdp'' NavigationTimeout (wait_out (he_connect he)))
            (\<lambda>_. and_next (open_tab env b') (\<lambda>tab. visit_tab env dn bc b' po injected tab))))"
      by (auto intro!: lasts_first visits lasting prompts intro: lasts_more [OF lasts_give] split: prod.split)
  qed simp
  have prompt: "prompt (browser_path env he dn bc b po)"
    unfolding browser_path_def Let_def by (auto intro!: prompts split: prod.split)
  from promptD(1) [OF prompt assms(1)] obtain account where account: "rs_waits s' = account @ rs_waits s"
    by (auto simp: moves_def)
  moreover have "rs_now s' \<le> max (rs_now s) (dl_started (rs_deadline s) + dl_timeout (rs_deadline s))
             + (secs 1 + (millis (observe_main_wait_ms (b_readiness b)) + (secs 2 + secs 2))) + sum_list (map snd account)"
    using lastsD(2) [OF lasts assms(2,1)] account
    by (simp add: waited_def ends_at_def overrun_def observe_time_def cleanup_time_def target_cleanup_timeout_def)
  ultimately show ?thesis using promptD(2) [OF prompt assms(1)] by blast
qed

end
