(* ===== verification/BrowserExamples.thy ===== *)
theory BrowserExamples
  imports BrowserDemo ArtifactFacts BrowserTime
begin

text \<open>
  The properties of the browser path at work: runs on the surroundings of BrowserDemo, followed to their end,
  to which each property of the path is applied.
\<close>

subsection \<open>A browser that refuses every command for a tab\<close>

lemmas opening_steps = browser_path_def start_inline_host_def inline_host_started_def inject_jar_def ensure_dir_def open_tab_def create_tab_def attach_tab_def
  visit_tab_def Let_def guarded_def or_finish_def browser_domains_def json_idx_def ok_or_def

lemmas failing_steps = fail_after_def finish_failed_target_def finish_target_def may_close_tab_def target_cleanup_timeout_def retain_tab_def
  same_error_def demo_nav_libs_def

abbreviation refusing :: "string browser_env" where "refusing \<equiv> demo_browser (fail CdpError ''x'')"

lemma refused_path:
  "leads (browser_path refusing demo_host demo_downloads demo_fetch (demo_builder (Some ''T'')) demo_get) (secs 100) demo_start
     (\<lambda>r s. r = fail CdpError ''x'' \<and> (length (rs_sent s) = 3 \<and> rs_waits s = [(MakeDir, 2)]))"
  by (rule follow | simp add: demo_data opening_steps failing_steps cong: lazily)+

lemma refused_visit:
  "leads (visit_tab refusing demo_downloads demo_fetch (demo_builder (Some ''T'')) demo_get None (''T'', ''S'', False)) (secs 100) demo_start
     (\<lambda>r s. r = fail CdpError ''x'' \<and> True)"
  by (rule follow | simp add: demo_data opening_steps failing_steps cong: lazily)+

lemma demo_start_is_fresh: "fresh (rs_deadline demo_start)" "dl_started (rs_deadline demo_start) \<le> rs_now demo_start"
  "\<not> dl_poisoned (rs_deadline demo_start)"
  by (simp_all add: fresh_def demo_start_def demo_deadline_def deadline_new_def)

lemma leads_ends:
  assumes "leads t cutoff s (\<lambda>r s. r = e \<and> P (rs_sent s) (rs_waits s))" and "fresh (rs_deadline s)"
  shows "\<exists>s'. t cutoff s = (Some e, s') \<and> P (rs_sent s') (rs_waits s')"
proof -
  from leads_runs [OF assms] obtain s' d' where "t cutoff s = (Some e, s'\<lparr> rs_deadline := d' \<rparr>)" "P (rs_sent s') (rs_waits s')" by blast
  then show ?thesis by (intro exI [of _ "s'\<lparr> rs_deadline := d' \<rparr>"]) simp
qed

abbreviation refused_fetch :: "fetch_result result option \<times> browser_run" where
  "refused_fetch \<equiv> browser_path refusing demo_host demo_downloads demo_fetch (demo_builder (Some ''T'')) demo_get (secs 100) demo_start"

lemma existing_tab_survives_witness:
  "\<exists>s'. refused_fetch = (Some (fail CdpError ''x''), s') \<and> length (rs_sent s') = 3
    \<and> list_all (\<lambda>(sid, m, p). m \<noteq> ''Target.closeTarget'' \<and> m \<noteq> ''Target.createTarget'') (rs_sent s')"
proof -
  from leads_ends [OF refused_path demo_start_is_fresh(1)]
  obtain s' where run: "refused_fetch = (Some (fail CdpError ''x''), s')" and "length (rs_sent s') = 3" by blast
  moreover from existing_tab_survives [OF _ _ run]
  have "list_all (\<lambda>(sid, m, p). m \<noteq> ''Target.closeTarget'' \<and> m \<noteq> ''Target.createTarget'') (rs_sent s')"
    by (simp add: list_all_iff demo_start_def)
  ultimately show ?thesis by blast
qed

lemma tab_is_accounted_for_witness:
  "\<exists>s'. visit_tab refusing demo_downloads demo_fetch (demo_builder (Some ''T'')) demo_get None (''T'', ''S'', False) (secs 100) demo_start
      = (Some (fail CdpError ''x''), s')
    \<and> (tab_closed (be_peer refusing) ''T'' (rs_sent s') \<or> retained_tab_id (dl_trace (rs_deadline s')) = Some ''T'')"
proof -
  from leads_ends [OF refused_visit demo_start_is_fresh(1)]
  obtain s' where run: "visit_tab refusing demo_downloads demo_fetch (demo_builder (Some ''T'')) demo_get None (''T'', ''S'', False) (secs 100) demo_start
      = (Some (fail CdpError ''x''), s')" by blast
  from tab_is_accounted_for [OF this demo_start_is_fresh(3)] run show ?thesis
    by (simp only: option.case sum.case) blast
qed

lemma browser_path_ends_in_time_witness:
  "\<exists>s'. refused_fetch = (Some (fail CdpError ''x''), s') \<and> rs_now s' \<le> secs 30"
proof -
  from leads_ends [OF refused_path demo_start_is_fresh(1)]
  obtain s' where run: "refused_fetch = (Some (fail CdpError ''x''), s')" and waits: "rs_waits s' = [(MakeDir, 2)]" by blast
  have "max (rs_now demo_start) (dl_started (rs_deadline demo_start) + dl_timeout (rs_deadline demo_start))
      + (secs 1 + (millis (observe_main_wait_ms (b_readiness (demo_builder (Some ''T'')))) + (secs 2 + secs 2)))
      + sum_list (map snd [(MakeDir, 2 :: duration)]) \<le> secs 30"
    by (simp add: demo_start_def demo_deadline_def deadline_new_def secs_def millis_def builder_new_def)
  moreover from browser_path_ends_in_time [OF run demo_start_is_fresh(2)] obtain account
    where "rs_waits s' = account @ rs_waits demo_start"
      and "rs_now s' \<le> max (rs_now demo_start) (dl_started (rs_deadline demo_start) + dl_timeout (rs_deadline demo_start))
        + (secs 1 + (millis (observe_main_wait_ms (b_readiness (demo_builder (Some ''T'')))) + (secs 2 + secs 2)))
        + sum_list (map snd account)" by blast
  moreover from this(1) waits have "account = [(MakeDir, 2)]" by (simp add: demo_start_def)
  ultimately have "rs_now s' \<le> secs 30" by simp
  with run show ?thesis by blast
qed

subsection \<open>A browser that accepts every command\<close>

lemma demo_path_stop: "wait_for_navigation_commit env sid ''about:blank'' i = give (Inr ())"
  by (intro ext) (auto simp: wait_for_navigation_commit_def give_def split: option.split)

lemma silent_page [simp]: "classify (\<lambda>_. []) (Some []) (Some []) (Some []) = None"
  by code_simp

lemma leads_printed:
  assumes "rs_now s + 1 \<le> cutoff"
    and "\<And>p fs. leads (k (Inr p)) cutoff (s\<lparr> rs_now := rs_now s + 1, rs_waits := (WriteFile, 1) # rs_waits s, br_files := fs \<rparr>) Q"
  shows "leads (writing (demo_browser other) (\<lambda>io. write_printed io paths a (be_print_console (demo_browser other) log)) k) cutoff s Q"
proof -
  have "io_ok (be_io (demo_browser other) (file_for paths a))" by (simp add: io_ok_def)
  then have "file_can_be_written (demo_browser other) paths a" by (simp add: file_can_be_written_def)
  from write_printed_succeeds [OF this, where printed = "be_print_console (demo_browser other) log" and fs = "br_files s"]
  obtain p fs where "write_printed (be_io (demo_browser other)) paths a (be_print_console (demo_browser other) log) (br_files s) = (Inr p, fs)"
    by auto
  then show ?thesis by (rule leads_writing) (use assms in simp_all)
qed

lemma leads_steps:
  "leads t cutoff s (\<lambda>r s1. leads (case r of Inl e \<Rightarrow> give (Inl e) | Inr v \<Rightarrow> in_order ts) cutoff s1 Q) \<Longrightarrow> leads (in_order (t # ts)) cutoff s Q"
  by (simp only: in_order.simps leads_next)

lemma leads_no_step: "Q (Inr ()) s \<Longrightarrow> leads (in_order []) cutoff s Q"
  by (simp only: in_order.simps leads_give)

lemma leads_artifacts:
  assumes "leads (in_order ts) cutoff s Q" and "artifact_steps env paths b sid main injected = ts"
  shows "leads (in_order (artifact_steps env paths b sid main injected)) cutoff s Q"
  using assms by simp

lemma leads_no_main:
  assumes "br_net s = net_start" and "rs_now s \<le> cutoff" and "Q (Inr None) s"
  shows "leads (main_status (demo_browser other) ms None) cutoff s Q"
proof -
  have "ni_main network_inner_default = None" by (simp add: network_inner_default_def)
  then have "wait_for_main_status None [] (run_ops (demo_browser other) []) (nr_inner net_start) = (None, nr_inner net_start)"
    by (simp add: main_ready_def main_entry_def run_ops_def net_start_def Let_def)
  moreover have "Q (Inr None) (s\<lparr> br_net := net_start \<rparr>)"
  proof -
    have "s\<lparr> br_net := net_start \<rparr> = s" using assms(1) by simp
    with assms(3) show ?thesis by metis
  qed
  ultimately show ?thesis
    using assms by (intro leads_main [where e = None and i = "nr_inner net_start"]) (simp_all del: wait_for_main_status.simps)
qed

lemma leads_wait_ms:
  assumes b: "b_wait b = WaitMs 1" "b_timeout b = secs 30" and "rs_now s < secs 9" "rs_now s + 1000000 \<le> cutoff"
    and Q: "Q (Inr (satisfied_outcome (WaitMs 1) ''ms'')) (s\<lparr> rs_now := rs_now s + 1000000 \<rparr>)"
  shows "leads (wait_task env b) cutoff s Q"
proof -
  let ?t = "and_next (rest_of ''wait_readiness'') (\<lambda>rest. wait_out (Inr (satisfied_outcome (WaitMs 1) ''ms''), min (millis 1) (explicit_wait_budget rest (b_timeout b))))"
  have "explicit_wait_budget (secs 10 - rs_now s) (b_timeout b) \<ge> millis 1"
    using assms(2,3) by (auto simp: explicit_wait_budget_def secs_def millis_def)
  then have "leads ?t cutoff s Q"
    by (intro leads_next leads_rest) (use assms in \<open>auto simp: min_def millis_def secs_def intro: leads_wait\<close>)
  moreover have "wait_task env b cutoff (s\<lparr> rs_deadline := d \<rparr>) = ?t cutoff (s\<lparr> rs_deadline := d \<rparr>)" for d
    using assms(4) by (auto simp: wait_task_def b wait_for_condition_def and_next_def settle_with_def rest_of_def give_def wait_out_def split: prod.split sum.split)
  ultimately show ?thesis by (simp add: leads_def)
qed

text \<open>A fetch of the empty page into the tab of the caller.\<close>

definition blank_builder :: fetch_builder where "blank_builder = (demo_builder (Some ''T''))\<lparr> b_url := ''about:blank'' \<rparr>"

lemma blank_fields [simp]:
  "b_client blank_builder = demo_client False" "b_url blank_builder = ''about:blank''" "b_wait blank_builder = WaitMs 1"
  "b_tab blank_builder = Some ''T''" "b_keep_tab_open blank_builder = False" "b_want blank_builder = [ABody, Console]"
  "b_want_explicit blank_builder = True" "b_timeout blank_builder = secs 30"
  "b_readiness blank_builder = b_readiness (builder_new (demo_client False) [])"
  "b_network blank_builder = b_network (builder_new (demo_client False) [])"
  "b_cookie_jar blank_builder = \<lparr> cj_path = None, cj_warning = None, cj_disabled = False \<rparr>"
  "with_default_want blank_builder = blank_builder"
  by (simp_all add: blank_builder_def with_default_want_def)

lemmas artifact_runs = classify_page_def report_main_def should_warn_main_not_observed_def status_fallback_def
  navigation_status_from_performance_def status_of_reply_def wanted_def content_step_def body_step_def link_body_def console_step_of_def
  capturing_def stream_step_def bodies_step_def effective_bodies_def network_log_step_def finish_network_def net_call_def sync_step_def
  verify_takeover_def end_tab_def conclude_browser_def conclude_def  close_after_success_def finish_target_def target_cleanup_timeout_def

lemmas capture_steps = str_or_def fetch_result_new_def has_evaluate_after_wait_def  get_bool_def get_str_def navigate_has_download_flag_def
  res_ok_def navigation_became_download_def capture_page_def begin_result_def on_result_def observe_main_def push_warnings_def
  timeout_warning_def satisfied_outcome_def look_at_page_def capture_page_snapshot_def evaluate_params_def snapshot_of_def
  validate_capture_def validate_navigation_capture_def finish_page_def

lemmas later_steps = apply_browser_request_options_def set_cookies_def browser_cookies_def cdp_headers_by_scope_def root_frame_id_def
  configure_download_capture_def list_downloads_def first_location_def capture_location_def frame_tree_id_def result_value_def navigate_with_method_def
  navigation_override_def overrides_main_def navigation_scope_def scope_origin_def plain_navigate_def after_navigate_def
  announced_download_def  error_text_def wait_for_page_def demo_path_stop demo_nav_libs_def same_error_def

text \<open>The rules for a whole path; the wait for the main document has its own.\<close>

lemmas following = leads_artifacts [OF _ artifact_steps_def] leads_steps leads_no_step leads_no_main leads_printed leads_wait_ms leads_give
  leads_on_deadline leads_next leads_settle leads_stage leads_reading leads_change leads_wait leads_send leads_rest leads_call leads_await
  leads_open leads_trace

lemma accepted_path: "leads (browser_path (demo_browser (Inr (JObj []))) demo_host demo_downloads demo_fetch blank_builder demo_get) (secs 100) demo_start
     (\<lambda>r s. \<exists>res. r = Inr res \<and> download_file res = None)"
  by (rule following | simp add: demo_data opening_steps later_steps capture_steps artifact_runs cong: lazily)+

abbreviation accepted_fetch :: "fetch_result result option \<times> browser_run" where
  "accepted_fetch \<equiv> browser_path (demo_browser (Inr (JObj []))) demo_host demo_downloads demo_fetch blank_builder demo_get (secs 100) demo_start"

lemma every_artifact_is_explained_witness:
  "\<exists>res s'. accepted_fetch = (Some (Inr res), s')
    \<and> (artifact_file ABody res \<noteq> None \<or> list_ex (\<lambda>w. w_artifact w = ABody) (warnings res))"
proof -
  from leads_runs [OF accepted_path demo_start_is_fresh(1)] obtain res s' d'
    where run: "accepted_fetch = (Some (Inr res), s'\<lparr> rs_deadline := d' \<rparr>)" and "download_file res = None" by blast
  from every_artifact_is_explained [OF run this(2), of ABody]
  have "artifact_file ABody res \<noteq> None \<or> list_ex (\<lambda>w. w_artifact w = ABody) (warnings res)"
    by (simp add: list_ex_iff)
  with run show ?thesis by blast
qed

end
