(* ===== verification/Spec2Isabelle.thy ===== *)
theory Spec2Isabelle
  imports Redact Pipeline CollectorFacts ReadinessFacts Reaper ProfileLock HostGate CdpClient CliFetch BrowserExamples
begin

text \<open>
  A verification development for afhttp, the agent-first HTTP fetcher (Rust, under src/src).

  \<^bold>\<open>The program.\<close> A fetch (sdk/fetch) is built by a builder, tried over plain HTTP, and, when the page needs it, in a
  browser that a separate host process (host/) owns. The browser path drives one tab over a CDP websocket: it opens
  or is given a tab, sets headers and cookies, navigates, waits until the page is ready, captures the artifacts and
  ends the tab. One recorder per fetch (the deadline) bounds every stage and records it in the trace. Cookies persist
  in a jar file of the profile that concurrent fetches share under a lock. The host authenticates its callers,
  proxies CDP connections, keeps track of which connection drives which tab, hands out takeover secrets to a human,
  closes tabs nobody uses and keeps profiles on disk under a lock.

  \<^bold>\<open>Conventions.\<close> A Rust \<open>&str\<close> is the list of its UTF-8 bytes, so \<open>length\<close> is \<open>str::len\<close>; \<open>Result\<close> is a sum with the
  structured error on the left; a \<open>HashMap\<close> or \<open>BTreeMap\<close> is an association list under the store interface of
  Prelude; durations and instants are natural numbers of nanoseconds; saturating and wrapping integers are written
  out where the code has them. Async code is either a step relation or a function over the events it can see (where
  interleavings matter: CdpClient, Targets, ProfileLock, HostApp, Collectors) or a task that reads and changes a run
  (CdpRun). What a task awaits takes the time its surroundings say, and an enclosing timer, the task's \<open>cutoff\<close>, may end
  it there. Waits that the code gives no limit (file operations, the lock of the inline host) are entered with their
  time in an account of the run. Code between two awaits takes no time, the synchronous read of the cookie jar
  included, and neither does the collector's lock, which is held only while one event is handled.

  \<^bold>\<open>Shared vocabulary.\<close> Prelude (strings, stores, durations, the interfaces \<open>locale\<close> of entries, stores and invariant
  steps), Errors (shared/error.rs, shared/events.rs), Json (serde_json), Net (host names and addresses), Paths
  (shared/path.rs), Artifacts (shared/artifacts.rs), FetchTypes (wait.rs, readiness.rs, result.rs), Redact
  (shared/redact.rs and the raw CDP capture of shared/afdata.rs).

  \<^bold>\<open>A fetch before its request.\<close> Builder (sdk/fetch/mod.rs: setters, retries), RequestOpts (pipeline/request_opts.rs:
  validation and scope of headers and cookies), Deadline (deadline.rs), Endpoint (sdk/endpoint.rs, sdk/client.rs),
  CookieJar (sdk/profile/cookie_jar.rs) and CookieResolve (pipeline/cookie_jar_resolve.rs). What they show: retries
  are bounded and safe; every stage has exactly what is left of the budget and appears once in the trace; the jar
  never crosses sites, plaintext never touches secure entries, a persist is a map update of the file by exactly the
  changed entries, and a browser sync keeps what other fetches stored meanwhile.

  \<^bold>\<open>The HTTP path and the choice of path.\<close> Classify (page_classification.rs), HttpOnly (pipeline/http_only.rs) and
  Pipeline (pipeline/mod.rs, writer.rs): credentials stay on their origin along redirects, the redirect loop ends
  after at most eleven requests, both phases run only when the request can be sent twice, artifact writes are atomic
  for their target.

  \<^bold>\<open>The browser path.\<close> CdpClient and Session (sdk/cdp), CdpRun (the tasks), Collectors (artifacts/collectors.rs),
  Readiness (pipeline/browser/readiness.rs, wait.rs), Navigate, Capture, Download, NetworkBodies (the files of
  pipeline/browser of these names), ArtifactWrites (sdk/fetch/artifacts), and BrowserBase, BrowserFetch and
  BrowserPath, which put \<open>browser_path\<close> of pipeline/browser/mod.rs together. CollectorFacts and ReadinessFacts hold
  the laws of two of them. RunRelations is the interface (\<open>run_relation\<close>, \<open>browser_relation\<close>) of relations that hold
  along every step of a run; TabFacts, ArtifactFacts and BrowserTime interpret it or follow the same composition:
  which tabs a fetch leaves alone, what became of its own unless the outer timer fired, that every wanted artifact has a
  file or a warning unless its silent write failed, and when the path ends at the latest. BrowserDemo and BrowserExamples are concrete surroundings and runs in which these
  laws are applied.

  \<^bold>\<open>The host.\<close> HostGate (the token middleware of host/listener/mod.rs), HostApp (its shared state), Targets
  (target_ledger.rs, cdp_proxy.rs), Reaper (host/reaper.rs), ProfileStore and ProfileLock (sdk/profile), TakeoverPanel
  (the panel of host/takeover/mod.rs) and HostReports (health.rs, takeover_routes.rs, profile.rs, diagnostics.rs,
  capabilities.rs and recent_requests.rs of host/listener). What they show: who is let through, that a revoked secret
  stays dead, that orphans have no driver, what the sweeps before a close saw of the tab, that nothing outside a profile is removed,
  that one process has a profile, what reaches the display and what public health tells.

  \<^bold>\<open>Containers.\<close> ContainerPlan (what cli/cmd/container.rs, its inspection.rs and process.rs and runtime_selection.rs
  decide and print without running anything), ContainerRun (install, uninstall, status, logs, discovery and tokens, over
  a history of commands and questions whose answers may depend on all of it) and ContainerFacts, whose locales
  \<open>act_policy\<close> and \<open>asking_policy\<close> say what an operation can add to a history. What they show: which container is replaced
  or removed, where a token is sent, what a finished install has seen, that the values of the listed flags of a command line are not written down, that a
  tag is its components and that a port is the listener's own.

  \<^bold>\<open>The fetch command.\<close> CliFetch (cli/cmd/fetch.rs, cli/connect.rs, cli/token_source.rs): from the arguments of
  \<open>afhttp fetch\<close> to a host, a token, a profile and a builder, and from the outcome to what is reported. It shows that a
  named host gets the caller's token or none, and that the builder holds exactly the caller's options.

  \<^bold>\<open>Bounds and loops.\<close> No model has fuel; the attempts of \<open>token_attempts\<close> (20) and \<open>health_attempts\<close> (30) are the code's own. Loops over time (\<open>readiness_loop\<close>, \<open>commit_loop\<close>, \<open>poll_until\<close>,
  \<open>wait_for_download_file\<close>) terminate because each round moves the clock towards its limit; the redirect loop has the
  code's own hop limit; loops over directories and pages are recursion on the data.

  \<^bold>\<open>Parameters.\<close> What the code calls and does not define is an argument: the \<open>url\<close>, \<open>cookie\<close>, public suffix, base64,
  MIME and HTML crates, serde_json's parser and printer, reqwest's sends, the file system, the browser's answers and
  events, the clock. Laws that need something of them name it as a hypothesis.

  \<^bold>\<open>Not modelled.\<close> Process control and its output (host/browser, host/takeover process start, the container
  runtime's own behaviour), clap declarations and printing (cli/args.rs, cli/spec.rs, cli/output.rs), the commands that only
  pass a call on (cli/cmd other than fetch and container), starting an inline host (sdk/inline.rs), random identifiers
  (shared/ids.rs), the websocket and HTTP transports, the scripts evaluated inside a page, and the tests.
\<close>

end
